(* ===== verification/Prelude.thy ===== *)
theory Prelude imports Main "HOL-Library.AList" begin

text \<open>
  Shared vocabulary of the development: the collections of simplification rules the
  component theories extend, and generic lemmas on lists, options and association lists.
  Nothing here is specific to the gateway.
\<close>

named_theorems go_str "characterisations of the modelled operations of Go's strings package"
named_theorems go_hdr "characterisations of the modelled operations of http.Header"
named_theorems frame "which part of a state an operation leaves alone"

type_synonym go_error = string

text \<open>A Go pair \<open>(v, err)\<close> whose value is meaningless when the error is set.\<close>

type_synonym 'a result = "go_error + 'a"

subsection \<open>Lists\<close>

lemma takeWhile_append_stop:
  "(\<And>x. x \<in> set xs \<Longrightarrow> P x) \<Longrightarrow> (ys = [] \<or> \<not> P (hd ys)) \<Longrightarrow> takeWhile P (xs @ ys) = xs"
  by (induction xs) (auto, cases ys, auto)

lemma takeWhile_append_inside:
  "(\<exists>x\<in>set xs. \<not> P x) \<Longrightarrow> takeWhile P (xs @ ys) = takeWhile P xs"
  by (induction xs) auto

lemma list_ex_filter: "filter P xs \<noteq> [] \<longleftrightarrow> (\<exists>x\<in>set xs. P x)"
  by (simp add: filter_empty_conv)

lemma take_drop_split: "i + n \<le> length s \<Longrightarrow> s = take i s @ take n (drop i s) @ drop (i + n) s"
  by (metis add.commute append_take_drop_id drop_drop)

lemma hd_drop_in: "i < length xs \<Longrightarrow> hd (drop i xs) = xs ! i"
  by (simp add: hd_drop_conv_nth)

subsection \<open>Association lists\<close>

lemma distinct_fst_delete: "distinct (map fst xs) \<Longrightarrow> distinct (map fst (AList.delete k xs))"
  by (rule distinct_delete)

lemma map_of_delete_other: "k \<noteq> k' \<Longrightarrow> map_of (AList.delete k xs) k' = map_of xs k'"
  by (simp add: delete_conv)

lemma map_of_delete_same: "map_of (AList.delete k xs) k = None"
  by (simp add: delete_conv)

lemma map_of_update_same: "map_of (AList.update k v xs) k = Some v"
  by (simp add: update_conv')

lemma map_of_update_other: "k \<noteq> k' \<Longrightarrow> map_of (AList.update k v xs) k' = map_of xs k'"
  by (simp add: update_conv')

end
