(* ===== verification/Regexp.thy ===== *)
theory Regexp imports Prelude begin

text \<open>
  The part of Go's \<open>regexp\<close> package the gateway uses: anchored matching of
  expressions built from literals, the dot (which does not match a newline), negated
  character classes, groups, \<open>*\<close>, \<open>+\<close> and \<open>?\<close>. The matcher
  \<open>re_match\<close> takes derivatives; \<open>re_match_lang\<close> states that it decides the
  language \<open>re_lang\<close>. \<open>re_text\<close> prints an expression in Go's syntax.
\<close>

datatype re =
    RVoid
  | REps
  | RChar char
  | RDot
  | RNotIn string
  | RGroup re
  | RCat re re
  | RAlt re re
  | RStar re
  | RPlus re
  | ROpt re

subsection \<open>Languages\<close>

definition lang_cat :: "string set \<Rightarrow> string set \<Rightarrow> string set" where
  "lang_cat A B = {u @ v | u v. u \<in> A \<and> v \<in> B}"

inductive_set lang_star :: "string set \<Rightarrow> string set" for A where
  star_Nil: "[] \<in> lang_star A"
| star_step: "u \<in> A \<Longrightarrow> v \<in> lang_star A \<Longrightarrow> u @ v \<in> lang_star A"

fun re_lang :: "re \<Rightarrow> string set" where
  "re_lang RVoid = {}"
| "re_lang REps = {[]}"
| "re_lang (RChar c) = {[c]}"
| "re_lang RDot = {[c] | c. c \<noteq> CHR 0x0A}"
| "re_lang (RNotIn cs) = {[c] | c. c \<notin> set cs}"
| "re_lang (RGroup r) = re_lang r"
| "re_lang (RCat r s) = lang_cat (re_lang r) (re_lang s)"
| "re_lang (RAlt r s) = re_lang r \<union> re_lang s"
| "re_lang (RStar r) = lang_star (re_lang r)"
| "re_lang (RPlus r) = lang_cat (re_lang r) (lang_star (re_lang r))"
| "re_lang (ROpt r) = insert [] (re_lang r)"

lemma lang_catI: "u \<in> A \<Longrightarrow> v \<in> B \<Longrightarrow> u @ v \<in> lang_cat A B"
  by (auto simp: lang_cat_def)

lemma lang_catE: "w \<in> lang_cat A B \<Longrightarrow> (\<And>u v. w = u @ v \<Longrightarrow> u \<in> A \<Longrightarrow> v \<in> B \<Longrightarrow> thesis) \<Longrightarrow> thesis"
  by (auto simp: lang_cat_def)

lemma lang_star_chars:
  "lang_star {[c] | c. P c} = {s. \<forall>c\<in>set s. P c}"
proof (intro set_eqI iffI)
  fix s assume "s \<in> lang_star {[c] | c. P c}"
  then show "s \<in> {s. \<forall>c\<in>set s. P c}" by induction auto
next
  fix s assume "s \<in> {s. \<forall>c\<in>set s. P c}"
  then show "s \<in> lang_star {[c] | c. P c}"
  proof (induction s)
    case Nil
    show ?case by (rule star_Nil)
  next
    case (Cons x xs)
    then have "[x] \<in> {[c] | c. P c}" and "xs \<in> lang_star {[c] | c. P c}" by auto
    then have "[x] @ xs \<in> lang_star {[c] | c. P c}" by (rule star_step)
    then show ?case by simp
  qed
qed

subsection \<open>Matching by derivatives\<close>

fun nullable :: "re \<Rightarrow> bool" where
  "nullable RVoid = False"
| "nullable REps = True"
| "nullable (RChar c) = False"
| "nullable RDot = False"
| "nullable (RNotIn cs) = False"
| "nullable (RGroup r) = nullable r"
| "nullable (RCat r s) = (nullable r \<and> nullable s)"
| "nullable (RAlt r s) = (nullable r \<or> nullable s)"
| "nullable (RStar r) = True"
| "nullable (RPlus r) = nullable r"
| "nullable (ROpt r) = True"

definition re_cat :: "re \<Rightarrow> re \<Rightarrow> re" where
  "re_cat r s = (case r of RVoid \<Rightarrow> RVoid | REps \<Rightarrow> s | _ \<Rightarrow> RCat r s)"

definition re_alt :: "re \<Rightarrow> re \<Rightarrow> re" where
  "re_alt r s = (case r of RVoid \<Rightarrow> s | _ \<Rightarrow> (case s of RVoid \<Rightarrow> r | _ \<Rightarrow> RAlt r s))"

fun deriv :: "char \<Rightarrow> re \<Rightarrow> re" where
  "deriv c RVoid = RVoid"
| "deriv c REps = RVoid"
| "deriv c (RChar d) = (if c = d then REps else RVoid)"
| "deriv c RDot = (if c = CHR 0x0A then RVoid else REps)"
| "deriv c (RNotIn cs) = (if c \<in> set cs then RVoid else REps)"
| "deriv c (RGroup r) = deriv c r"
| "deriv c (RCat r s) =
     (if nullable r then re_alt (re_cat (deriv c r) s) (deriv c s) else re_cat (deriv c r) s)"
| "deriv c (RAlt r s) = re_alt (deriv c r) (deriv c s)"
| "deriv c (RStar r) = re_cat (deriv c r) (RStar r)"
| "deriv c (RPlus r) = re_cat (deriv c r) (RStar r)"
| "deriv c (ROpt r) = deriv c r"

fun re_match :: "re \<Rightarrow> string \<Rightarrow> bool" where
  "re_match r [] = nullable r"
| "re_match r (c # cs) = re_match (deriv c r) cs"

lemma lang_cat_Eps [simp]: "lang_cat {[]} A = A"
  by (auto simp: lang_cat_def)

lemma lang_cat_Void [simp]: "lang_cat {} A = {}"
  by (auto simp: lang_cat_def)

lemma re_cat_lang [simp]: "re_lang (re_cat r s) = lang_cat (re_lang r) (re_lang s)"
  by (cases r) (simp_all add: re_cat_def)

lemma re_alt_lang [simp]: "re_lang (re_alt r s) = re_lang r \<union> re_lang s"
  by (cases r; cases s) (simp_all add: re_alt_def)

lemma Nil_lang_cat [simp]: "[] \<in> lang_cat A B \<longleftrightarrow> [] \<in> A \<and> [] \<in> B"
  by (auto simp: lang_cat_def)

lemma nullable_lang: "nullable r \<longleftrightarrow> [] \<in> re_lang r"
  by (induction r) (auto intro: star_Nil)

lemma Cons_lang_cat:
  "c # w \<in> lang_cat A B \<longleftrightarrow>
     w \<in> lang_cat {u. c # u \<in> A} B \<or> ([] \<in> A \<and> c # w \<in> B)"
proof
  assume "c # w \<in> lang_cat A B"
  then obtain u v where "c # w = u @ v" "u \<in> A" "v \<in> B" by (rule lang_catE)
  then show "w \<in> lang_cat {u. c # u \<in> A} B \<or> ([] \<in> A \<and> c # w \<in> B)"
    by (cases u) (auto simp: lang_cat_def)
next
  assume "w \<in> lang_cat {u. c # u \<in> A} B \<or> ([] \<in> A \<and> c # w \<in> B)"
  then show "c # w \<in> lang_cat A B"
  proof
    assume "w \<in> lang_cat {u. c # u \<in> A} B"
    then obtain u v where "w = u @ v" "c # u \<in> A" "v \<in> B" by (auto elim: lang_catE)
    then show ?thesis using lang_catI [of "c # u" A v B] by simp
  next
    assume "[] \<in> A \<and> c # w \<in> B"
    then show ?thesis using lang_catI [of "[]" A "c # w" B] by simp
  qed
qed

lemma Cons_lang_star:
  "c # w \<in> lang_star A \<longleftrightarrow> w \<in> lang_cat {u. c # u \<in> A} (lang_star A)"
proof
  assume "c # w \<in> lang_star A"
  then show "w \<in> lang_cat {u. c # u \<in> A} (lang_star A)"
  proof (induction "c # w" arbitrary: w)
    case (star_step u v)
    then show ?case by (cases u) (auto intro: lang_catI)
  qed
next
  assume "w \<in> lang_cat {u. c # u \<in> A} (lang_star A)"
  then obtain u v where "w = u @ v" "c # u \<in> A" "v \<in> lang_star A" by (auto elim: lang_catE)
  then show "c # w \<in> lang_star A" using star_step [of "c # u" A v] by simp
qed

lemma lang_star_null: "[] \<in> A \<Longrightarrow> w \<in> lang_star A \<Longrightarrow> w \<in> lang_cat A (lang_star A)"
  using lang_catI [of "[]" A w "lang_star A"] by simp

lemma deriv_lang: "re_lang (deriv c r) = {w. c # w \<in> re_lang r}"
proof (induction r)
  case (RPlus r)
  have "lang_cat {u. c # u \<in> re_lang r} (lang_star (re_lang r)) =
      {w. c # w \<in> lang_cat (re_lang r) (lang_star (re_lang r))}"
    by (auto simp: Cons_lang_cat Cons_lang_star)
  with RPlus show ?case by simp
qed (auto simp: Cons_lang_cat Cons_lang_star nullable_lang)

lemma re_match_lang: "re_match r s \<longleftrightarrow> s \<in> re_lang r"
  by (induction s arbitrary: r) (simp_all add: nullable_lang deriv_lang)

subsection \<open>Concatenations of a list\<close>

fun re_seq :: "re list \<Rightarrow> re" where
  "re_seq [] = REps"
| "re_seq (r # rs) = RCat r (re_seq rs)"

lemma re_seq_Cons_lang: "s \<in> re_lang (re_seq (r # rs)) \<longleftrightarrow>
    (\<exists>u v. s = u @ v \<and> u \<in> re_lang r \<and> v \<in> re_lang (re_seq rs))"
  by (auto simp: lang_cat_def)

lemma re_seq_append_lang: "s \<in> re_lang (re_seq (rs @ ts)) \<longleftrightarrow>
    (\<exists>u v. s = u @ v \<and> u \<in> re_lang (re_seq rs) \<and> v \<in> re_lang (re_seq ts))"
proof (induction rs arbitrary: s)
  case Nil
  then show ?case by simp
next
  case (Cons r rs)
  show ?case
    unfolding append_Cons re_seq_Cons_lang Cons.IH
    by (metis append.assoc)
qed

lemma re_seq_appendI:
  "u \<in> re_lang (re_seq rs) \<Longrightarrow> v \<in> re_lang (re_seq ts) \<Longrightarrow> u @ v \<in> re_lang (re_seq (rs @ ts))"
  by (auto simp: re_seq_append_lang)

lemma re_seq_chars: "s \<in> re_lang (re_seq (map RChar cs)) \<longleftrightarrow> s = cs"
  by (induction cs arbitrary: s) (auto simp: lang_cat_def)

subsection \<open>Go syntax\<close>

definition re_special :: "char \<Rightarrow> bool" where
  "re_special c = (c \<in> set [CHR 0x5C, CHR ''.'', CHR ''+'', CHR ''?'', CHR ''('', CHR '')'',
     CHR ''['', CHR '']'', CHR ''{'', CHR ''}'', CHR ''^'', CHR ''$'', CHR ''|''])"

fun re_text :: "re \<Rightarrow> string" where
  "re_text RVoid = []"
| "re_text REps = []"
| "re_text (RChar c) = (if re_special c then [CHR 0x5C, c] else [c])"
| "re_text RDot = ''.''"
| "re_text (RNotIn cs) = ''[^'' @ cs @ '']''"
| "re_text (RGroup r) = ''('' @ re_text r @ '')''"
| "re_text (RCat r s) = re_text r @ re_text s"
| "re_text (RAlt r s) = re_text r @ ''|'' @ re_text s"
| "re_text (RStar r) = re_text r @ ''*''"
| "re_text (RPlus r) = re_text r @ ''+''"
| "re_text (ROpt r) = re_text r @ ''?''"

lemma re_text_seq: "re_text (re_seq rs) = concat (map re_text rs)"
  by (induction rs) auto

end
