(* ===== verification/Go_Strings.thy ===== *)
theory Go_Strings imports Prelude "HOL-Library.Char_ord" "HOL-Library.List_Lexorder" begin

text \<open>
  The operations of Go's \<open>strings\<close>, \<open>unicode\<close> and \<open>net/url\<close> packages
  that the gateway uses, on strings as sequences of bytes (\<open>char\<close> is a byte, and
  \<open>length\<close> is Go's \<open>len\<close>). \<open>to_upper\<close> and \<open>equal_fold\<close> know the runes
  outside ASCII whose upper case or case folding is an ASCII letter (dotless i, long s and the
  Kelvin sign), so \<open>equal_fold a b\<close> is \<open>strings.EqualFold\<close>, and a comparison with
  \<open>to_upper s\<close> is one with \<open>strings.ToUpper\<close>, whenever one side is ASCII, as it is in
  every use of the code but the static rules' methods; case pairs that both lie outside ASCII are
  left alone. \<open>to_lower\<close>, which the code applies to host names, header names and
  content types, folds the ASCII letters only. \<open>trim_space\<close> trims all of Unicode's
  white space.
\<close>

subsection \<open>Prefixes and searching\<close>

fun has_prefix :: "string \<Rightarrow> string \<Rightarrow> bool" where
  "has_prefix s [] = True"
| "has_prefix [] (p # ps) = False"
| "has_prefix (c # cs) (p # ps) = (c = p \<and> has_prefix cs ps)"

lemma has_prefix_iff [go_str]: "has_prefix s p \<longleftrightarrow> (\<exists>r. s = p @ r)"
  by (induction s p rule: has_prefix.induct) auto

lemma has_prefix_append [simp]: "has_prefix (p @ r) p"
  by (auto simp: has_prefix_iff)

lemma has_prefix_drop: "has_prefix s p \<Longrightarrow> s = p @ drop (length p) s"
  by (auto simp: has_prefix_iff)

definition has_suffix :: "string \<Rightarrow> string \<Rightarrow> bool" where
  "has_suffix s p = has_prefix (rev s) (rev p)"

lemma has_suffix_iff [go_str]: "has_suffix s p \<longleftrightarrow> (\<exists>r. s = r @ p)"
  by (auto simp: has_suffix_def has_prefix_iff) (metis rev_append rev_rev_ident)

fun index_sub :: "string \<Rightarrow> string \<Rightarrow> nat option" where
  "index_sub [] p = (if p = [] then Some 0 else None)"
| "index_sub (c # cs) p =
     (if has_prefix (c # cs) p then Some 0 else map_option Suc (index_sub cs p))"

definition contains_sub :: "string \<Rightarrow> string \<Rightarrow> bool" where
  "contains_sub s p = (index_sub s p \<noteq> None)"

lemma index_sub_SomeD:
  "index_sub s p = Some i \<Longrightarrow> i + length p \<le> length s \<and> take (length p) (drop i s) = p"
proof (induction s p arbitrary: i rule: index_sub.induct)
  case (1 p)
  then show ?case by (auto split: if_splits)
next
  case (2 c cs p)
  show ?case
  proof (cases "has_prefix (c # cs) p")
    case True
    with "2.prems" have "i = 0" by simp
    moreover from True obtain r where "c # cs = p @ r" by (auto simp: has_prefix_iff)
    ultimately show ?thesis by (metis add_0 append_eq_conv_conj drop0 le_add1 length_append)
  next
    case False
    with "2.prems" obtain j where "index_sub cs p = Some j" "i = Suc j" by auto
    with "2.IH" [OF False] show ?thesis by simp
  qed
qed

lemma index_sub_split:
  "index_sub s p = Some i \<Longrightarrow> s = take i s @ p @ drop (i + length p) s"
  using index_sub_SomeD [of s p i] take_drop_split [of i "length p" s] by simp

lemma index_sub_append:
  "index_sub s p = Some i \<Longrightarrow> index_sub (s @ t) p = Some i"
proof (induction s p arbitrary: i rule: index_sub.induct)
  case (1 p)
  then show ?case by (cases t) (auto split: if_splits)
next
  case (2 c cs p)
  show ?case
  proof (cases "has_prefix (c # cs) p")
    case True
    then have "has_prefix (c # cs @ t) p" by (auto simp: has_prefix_iff) (metis append_Cons append_assoc)
    with True "2.prems" show ?thesis by simp
  next
    case False
    with "2.prems" obtain j where j: "index_sub cs p = Some j" "i = Suc j" by auto
    have "\<not> has_prefix (c # cs @ t) p"
    proof
      assume "has_prefix (c # cs @ t) p"
      then obtain r where r: "c # cs @ t = p @ r" by (auto simp: has_prefix_iff)
      from j(1) index_sub_SomeD have "length p \<le> length cs" by fastforce
      then have "length p \<le> length (c # cs)" by simp
      with r have "c # cs = p @ drop (length p) (c # cs)"
        by (metis append_Cons append_eq_append_conv_if append_take_drop_id)
      with False show False by (metis has_prefix_append)
    qed
    with False j "2.IH" [OF False] show ?thesis by simp
  qed
qed

definition index_byte :: "string \<Rightarrow> char \<Rightarrow> nat option" where
  "index_byte s c = index_sub s [c]"

fun index_any :: "string \<Rightarrow> char list \<Rightarrow> nat option" where
  "index_any [] cs = None"
| "index_any (x # xs) cs = (if x \<in> set cs then Some 0 else map_option Suc (index_any xs cs))"

lemma index_any_takeWhile:
  "take (case index_any s cs of None \<Rightarrow> length s | Some i \<Rightarrow> i) s = takeWhile (\<lambda>c. c \<notin> set cs) s"
  by (induction s) (auto split: option.splits)

lemma index_any_dropWhile:
  "drop (case index_any s cs of None \<Rightarrow> length s | Some i \<Rightarrow> i) s = dropWhile (\<lambda>c. c \<notin> set cs) s"
  by (induction s) (auto split: option.splits)

fun last_index_byte :: "string \<Rightarrow> char \<Rightarrow> nat option" where
  "last_index_byte [] c = None"
| "last_index_byte (x # xs) c =
     (case last_index_byte xs c of Some i \<Rightarrow> Some (Suc i)
      | None \<Rightarrow> if x = c then Some 0 else None)"

lemma last_index_byte_None: "last_index_byte s c = None \<longleftrightarrow> c \<notin> set s"
  by (induction s) (auto split: option.splits)

lemma last_index_byte_Some:
  "last_index_byte s c = Some i \<Longrightarrow> i < length s \<and> s ! i = c \<and> c \<notin> set (drop (Suc i) s)"
  by (induction s arbitrary: i)
    (auto split: option.splits if_splits simp: last_index_byte_None)

subsection \<open>ASCII case\<close>

definition is_upper :: "char \<Rightarrow> bool" where
  "is_upper c = (65 \<le> (of_char c :: nat) \<and> (of_char c :: nat) \<le> 90)"

definition is_lower :: "char \<Rightarrow> bool" where
  "is_lower c = (97 \<le> (of_char c :: nat) \<and> (of_char c :: nat) \<le> 122)"

definition lower_byte :: "char \<Rightarrow> char" where
  "lower_byte c = (if is_upper c then char_of ((of_char c :: nat) + 32) else c)"

definition upper_byte :: "char \<Rightarrow> char" where
  "upper_byte c = (if is_lower c then char_of ((of_char c :: nat) - 32) else c)"

definition to_lower :: "string \<Rightarrow> string" where "to_lower s = map lower_byte s"

text \<open>
  A map over the runes of a text: the runes of the table become their ASCII letter, every other
  byte goes through \<open>f\<close>. The table holds the UTF-8 encodings of the runes outside ASCII
  with an ASCII partner.
\<close>

fun rune_of_table :: "(string \<times> char) list \<Rightarrow> string \<Rightarrow> (string \<times> char) option" where
  "rune_of_table [] s = None"
| "rune_of_table ((r, c) # t) s = (if r \<noteq> [] \<and> has_prefix s r then Some (r, c) else rune_of_table t s)"

lemma rune_of_table_SomeD:
  "rune_of_table t s = Some (r, c) \<Longrightarrow> (r, c) \<in> set t \<and> r \<noteq> [] \<and> (\<exists>u. s = r @ u)"
  by (induction t s rule: rune_of_table.induct) (auto simp: has_prefix_iff split: if_splits)

function map_letters :: "(string \<times> char) list \<Rightarrow> (char \<Rightarrow> char) \<Rightarrow> string \<Rightarrow> string" where
  "map_letters t f [] = []"
| "map_letters t f (x # xs) =
     (case rune_of_table t (x # xs) of
        Some (r, c) \<Rightarrow> c # map_letters t f (drop (length r) (x # xs))
      | None \<Rightarrow> f x # map_letters t f xs)"
  by pat_completeness auto
termination
  by (relation "measure (\<lambda>(t, f, s). length s)") (auto dest!: rune_of_table_SomeD)

definition upper_runes :: "(string \<times> char) list" where
  "upper_runes = [([CHR 0xC4, CHR 0xB1], CHR ''I''), ([CHR 0xC5, CHR 0xBF], CHR ''S'')]"

definition fold_runes :: "(string \<times> char) list" where
  "fold_runes = [([CHR 0xE2, CHR 0x84, CHR 0xAA], CHR ''k''), ([CHR 0xC5, CHR 0xBF], CHR ''s'')]"

definition to_upper :: "string \<Rightarrow> string" where "to_upper s = map_letters upper_runes upper_byte s"

definition fold_text :: "string \<Rightarrow> string" where "fold_text s = map_letters fold_runes lower_byte s"

definition equal_fold :: "string \<Rightarrow> string \<Rightarrow> bool" where
  "equal_fold a b = (fold_text a = fold_text b)"

definition ascii_char :: "char \<Rightarrow> bool" where "ascii_char c = ((of_char c :: nat) < 128)"

definition ascii_text :: "string \<Rightarrow> bool" where "ascii_text s = list_all ascii_char s"

lemma of_char_char_of_small: "n < 256 \<Longrightarrow> (of_char (char_of n :: char) :: nat) = n"
  by simp

lemma of_char_lower_byte:
  "(of_char (lower_byte c) :: nat) = (if is_upper c then of_char c + 32 else of_char c)"
  by (simp add: lower_byte_def is_upper_def)

lemma of_char_upper_byte:
  "(of_char (upper_byte c) :: nat) = (if is_lower c then of_char c - 32 else of_char c)"
proof -
  have "(of_char c :: nat) < 256" by simp
  then have "(of_char c :: nat) - 32 < 256" by linarith
  then show ?thesis by (simp add: upper_byte_def)
qed

lemma char_eq_of_char: "c = d \<longleftrightarrow> (of_char c :: nat) = of_char d"
  by simp

lemma lower_byte_idem [simp]: "lower_byte (lower_byte c) = lower_byte c"
  by (simp add: lower_byte_def is_upper_def)

lemma upper_byte_idem [simp]: "upper_byte (upper_byte c) = upper_byte c"
  unfolding char_eq_of_char [of "upper_byte (upper_byte c)"] of_char_upper_byte
  by (auto simp: of_char_upper_byte is_lower_def)

lemma lower_upper_byte_eq: "lower_byte c = lower_byte d \<longleftrightarrow> upper_byte c = upper_byte d"
proof -
  have "((if 65 \<le> m \<and> m \<le> 90 then m + 32 else m) = (if 65 \<le> n \<and> n \<le> 90 then n + 32 else n)) =
      ((if 97 \<le> m \<and> m \<le> 122 then m - 32 else m) = (if 97 \<le> n \<and> n \<le> 122 then n - 32 else n))"
    for m n :: nat by (auto split: if_splits)
  then show ?thesis
    unfolding char_eq_of_char [of "lower_byte c"] char_eq_of_char [of "upper_byte c"]
      of_char_lower_byte of_char_upper_byte is_upper_def is_lower_def .
qed

lemma to_lower_Nil [simp]: "to_lower [] = []"
  by (simp add: to_lower_def)

lemma to_lower_append [simp]: "to_lower (a @ b) = to_lower a @ to_lower b"
  by (simp add: to_lower_def)

lemma to_lower_idem [simp]: "to_lower (to_lower s) = to_lower s"
  by (simp add: to_lower_def comp_def)

lemma length_to_lower [simp]: "length (to_lower s) = length s"
  by (simp add: to_lower_def)

lemma ascii_text_simps [simp]:
  "ascii_text []" "ascii_text (c # s) \<longleftrightarrow> ascii_char c \<and> ascii_text s"
  "ascii_text (a @ b) \<longleftrightarrow> ascii_text a \<and> ascii_text b"
  by (simp_all add: ascii_text_def)

lemma map_letters_plain:
  "\<forall>(r, d)\<in>set t. r \<noteq> [] \<and> hd r \<notin> set s \<Longrightarrow> map_letters t f s = map f s"
proof (induction s)
  case Nil
  show ?case by simp
next
  case (Cons x xs)
  have "rune_of_table t (x # xs) = None"
  proof (rule ccontr)
    assume "rune_of_table t (x # xs) \<noteq> None"
    then obtain r d where "rune_of_table t (x # xs) = Some (r, d)" by (cases "rune_of_table t (x # xs)") auto
    from rune_of_table_SomeD [OF this] obtain u where "(r, d) \<in> set t" "r \<noteq> []" "x # xs = r @ u" by blast
    with Cons.prems show False by (cases r) auto
  qed
  moreover have "\<forall>(r, d)\<in>set t. r \<noteq> [] \<and> hd r \<notin> set xs" using Cons.prems by auto
  ultimately show ?case using Cons.IH by simp
qed

lemma not_ascii_lead: "ascii_text s \<Longrightarrow> \<not> ascii_char c \<Longrightarrow> c \<notin> set s"
  by (auto simp: ascii_text_def list_all_iff)

lemma map_letters_ascii:
  "\<forall>(r, d)\<in>set t. r \<noteq> [] \<and> \<not> ascii_char (hd r) \<Longrightarrow> ascii_text s \<Longrightarrow> map_letters t f s = map f s"
  by (rule map_letters_plain) (fast dest: not_ascii_lead)

lemma to_upper_ascii [go_str]: "ascii_text s \<Longrightarrow> to_upper s = map upper_byte s"
  unfolding to_upper_def by (rule map_letters_ascii) (simp_all add: upper_runes_def ascii_char_def)

lemma fold_text_ascii [go_str]: "ascii_text s \<Longrightarrow> fold_text s = to_lower s"
  unfolding fold_text_def to_lower_def
  by (rule map_letters_ascii) (simp_all add: fold_runes_def ascii_char_def)

text \<open>Without a letter that has a partner outside ASCII in it, a folded text is the lower-cased one.\<close>

lemma map_letters_no_output:
  "\<forall>(r, d)\<in>set t. d \<notin> set (map_letters t f s) \<Longrightarrow> map_letters t f s = map f s"
proof (induction t f s rule: map_letters.induct)
  case (1 t f)
  show ?case by simp
next
  case (2 t f x xs)
  show ?case
  proof (cases "rune_of_table t (x # xs)")
    case None
    with 2 show ?thesis by auto
  next
    case (Some p)
    obtain r d where p: "p = (r, d)" by (cases p)
    from Some p rune_of_table_SomeD have "(r, d) \<in> set t" by blast
    moreover have "d \<in> set (map_letters t f (x # xs))" using Some p by simp
    ultimately show ?thesis using "2.prems" by blast
  qed
qed

lemma fold_text_no_ks:
  "CHR ''k'' \<notin> set (fold_text s) \<Longrightarrow> CHR ''s'' \<notin> set (fold_text s) \<Longrightarrow> fold_text s = to_lower s"
  unfolding fold_text_def to_lower_def by (rule map_letters_no_output) (auto simp: fold_runes_def)

lemma equal_fold_upper [go_str]:
  "ascii_text a \<Longrightarrow> ascii_text b \<Longrightarrow> equal_fold a b \<longleftrightarrow> to_upper a = to_upper b"
  by (auto simp: equal_fold_def fold_text_ascii to_upper_ascii to_lower_def list_eq_iff_nth_eq
      lower_upper_byte_eq dest: arg_cong [where f = length])

lemma equal_fold_lower [go_str]:
  "ascii_text a \<Longrightarrow> ascii_text b \<Longrightarrow> equal_fold a b \<longleftrightarrow> to_lower a = to_lower b"
  by (simp add: equal_fold_def fold_text_ascii)

lemma ascii_lower_byte [simp]: "ascii_char (lower_byte c) = ascii_char c"
  by (auto simp: ascii_char_def of_char_lower_byte is_upper_def)

lemma ascii_to_lower [simp]: "ascii_text (to_lower s) = ascii_text s"
  by (induction s) (simp_all add: to_lower_def)

lemma equal_fold_of_lower: "to_lower a = to_lower b \<Longrightarrow> ascii_text b \<Longrightarrow> equal_fold a b"
  using ascii_to_lower [of a] by (simp add: equal_fold_lower)

lemma equal_fold_no_ks:
  assumes "equal_fold a b" "ascii_text b" "CHR ''k'' \<notin> set (to_lower b)" "CHR ''s'' \<notin> set (to_lower b)"
  shows "to_lower a = to_lower b"
  using assms fold_text_no_ks [of a] by (simp add: equal_fold_def fold_text_ascii)

lemma equal_fold_refl [simp]: "equal_fold a a"
  by (simp add: equal_fold_def)

lemma equal_fold_sym: "equal_fold a b \<longleftrightarrow> equal_fold b a"
  by (auto simp: equal_fold_def)

lemma equal_fold_trans: "equal_fold a b \<Longrightarrow> equal_fold b c \<Longrightarrow> equal_fold a c"
  by (simp add: equal_fold_def)

lemma case_examples:
  "equal_fold (''LOC'' @ [CHR 0xE2, CHR 0x84, CHR 0xAA]) ''lock''"
  "to_upper (''loc'' @ [CHR 0xE2, CHR 0x84, CHR 0xAA]) \<noteq> ''LOCK''"
  "to_upper [CHR 0xC5, CHR 0xBF] = ''S''" "equal_fold [CHR 0xC5, CHR 0xBF] ''S''"
  "to_upper [CHR 0xC4, CHR 0xB1] = ''I''" "\<not> equal_fold [CHR 0xC4, CHR 0xB1] ''I''"
  by code_simp+

subsection \<open>Splitting, trimming, joining\<close>

text \<open>\<open>strings.Split(s, sep)\<close> for a one-byte separator: never empty.\<close>

fun split_byte :: "string \<Rightarrow> char \<Rightarrow> string list" where
  "split_byte [] c = [[]]"
| "split_byte (x # xs) c =
     (if x = c then [] # split_byte xs c
      else case split_byte xs c of [] \<Rightarrow> [[x]] | p # ps \<Rightarrow> (x # p) # ps)"

lemma split_byte_not_Nil [simp]: "split_byte s c \<noteq> []"
  by (cases s) (auto split: list.splits)

text \<open>
  \<open>strings.TrimSpace\<close> on UTF-8: the encodings of the runes \<open>unicode.IsSpace\<close> holds for.
  Trimming from the right matches the reversed encodings on the reversed text.
\<close>

definition space_runes :: "string list" where
  "space_runes =
     [[CHR 0x09], [CHR 0x0A], [CHR 0x0B], [CHR 0x0C], [CHR 0x0D], [CHR '' ''],
      [CHR 0xC2, CHR 0x85], [CHR 0xC2, CHR 0xA0], [CHR 0xE1, CHR 0x9A, CHR 0x80],
      [CHR 0xE2, CHR 0x80, CHR 0x80], [CHR 0xE2, CHR 0x80, CHR 0x81], [CHR 0xE2, CHR 0x80, CHR 0x82],
      [CHR 0xE2, CHR 0x80, CHR 0x83], [CHR 0xE2, CHR 0x80, CHR 0x84], [CHR 0xE2, CHR 0x80, CHR 0x85],
      [CHR 0xE2, CHR 0x80, CHR 0x86], [CHR 0xE2, CHR 0x80, CHR 0x87], [CHR 0xE2, CHR 0x80, CHR 0x88],
      [CHR 0xE2, CHR 0x80, CHR 0x89], [CHR 0xE2, CHR 0x80, CHR 0x8A], [CHR 0xE2, CHR 0x80, CHR 0xA8],
      [CHR 0xE2, CHR 0x80, CHR 0xA9], [CHR 0xE2, CHR 0x80, CHR 0xAF], [CHR 0xE2, CHR 0x81, CHR 0x9F],
      [CHR 0xE3, CHR 0x80, CHR 0x80]]"

function trim_left_runes :: "string list \<Rightarrow> string \<Rightarrow> string" where
  "trim_left_runes rs s =
     (case find (\<lambda>r. r \<noteq> [] \<and> has_prefix s r) rs of
        None \<Rightarrow> s
      | Some r \<Rightarrow> trim_left_runes rs (drop (length r) s))"
  by pat_completeness auto
termination
proof (relation "measure (\<lambda>(rs, s). length s)", simp)
  fix rs s r
  assume "find (\<lambda>r. r \<noteq> [] \<and> has_prefix s r) rs = Some r"
  then have "r \<noteq> [] \<and> has_prefix s r" by (auto simp: find_Some_iff)
  then show "((rs, drop (length r) s), rs, s) \<in> measure (\<lambda>(rs, s). length s)"
    by (auto simp: has_prefix_iff)
qed

declare trim_left_runes.simps [simp del]

definition trim_space :: "string \<Rightarrow> string" where
  "trim_space s = rev (trim_left_runes (map rev space_runes) (rev (trim_left_runes space_runes s)))"

lemma trim_space_examples:
  "trim_space ([CHR 0xC2, CHR 0xA0] @ ''a b'' @ [CHR 0xE2, CHR 0x80, CHR 0xA9, CHR 0x0A]) = ''a b''"
  "trim_space [CHR 0x09, CHR 0xE3, CHR 0x80, CHR 0x80] = []"
  "trim_space [CHR 0xC2, CHR 0xA2] = [CHR 0xC2, CHR 0xA2]"
  by code_simp+

fun join :: "string list \<Rightarrow> string \<Rightarrow> string" where
  "join [] sep = []"
| "join [x] sep = x"
| "join (x # y # ys) sep = x @ sep @ join (y # ys) sep"

lemma split_byte_join: "join (split_byte s c) [c] = s"
proof (induction s)
  case Nil
  then show ?case by simp
next
  case (Cons x xs)
  obtain p ps where "split_byte xs c = p # ps" by (cases "split_byte xs c") auto
  with Cons show ?case by (cases ps) auto
qed

lemma split_byte_no_sep: "p \<in> set (split_byte s c) \<Longrightarrow> c \<notin> set p"
proof (induction s arbitrary: p)
  case Nil
  then show ?case by simp
next
  case (Cons x xs)
  obtain q qs where q: "split_byte xs c = q # qs" by (cases "split_byte xs c") auto
  then have q_no: "c \<notin> set q" using Cons.IH by simp
  from Cons.prems q have "p = [] \<or> p \<in> set (q # qs) \<or> (x \<noteq> c \<and> p = x # q)"
    by (auto split: if_splits)
  then show ?case using Cons.IH q q_no by auto
qed

subsection \<open>Percent decoding\<close>

definition hex_val :: "char \<Rightarrow> nat option" where
  "hex_val c = (let n = (of_char c :: nat) in
     if 48 \<le> n \<and> n \<le> 57 then Some (n - 48)
     else if 97 \<le> n \<and> n \<le> 102 then Some (n - 87)
     else if 65 \<le> n \<and> n \<le> 70 then Some (n - 55)
     else None)"

text \<open>
  \<open>url.PathUnescape\<close>: one pass; \<open>%xy\<close> becomes the byte \<open>xy\<close>, a
  \<open>%\<close> that two hexadecimal digits do not follow is an error, and every other byte
  (a \<open>+\<close> too) is copied.
\<close>

fun path_unescape :: "string \<Rightarrow> string option" where
  "path_unescape [] = Some []"
| "path_unescape (c # cs) =
     (if c = CHR ''%'' then
        (case cs of
           a # b # rest \<Rightarrow>
             (case (hex_val a, hex_val b) of
                (Some h, Some l) \<Rightarrow> map_option (\<lambda>r. char_of (16 * h + l) # r) (path_unescape rest)
              | _ \<Rightarrow> None)
         | _ \<Rightarrow> None)
      else map_option (\<lambda>r. c # r) (path_unescape cs))"

lemma path_unescape_plain: "CHR ''%'' \<notin> set s \<Longrightarrow> path_unescape s = Some s"
  by (induction s) auto

lemma path_unescape_append:
  "CHR ''%'' \<notin> set a \<Longrightarrow> path_unescape (a @ b) = map_option (\<lambda>r. a @ r) (path_unescape b)"
proof (induction a)
  case Nil
  show ?case by (cases "path_unescape b") simp_all
next
  case (Cons c a)
  then show ?case by (cases "path_unescape b") auto
qed

subsection \<open>Decimal integers\<close>

text \<open>\<open>strconv.ParseInt(s, 10, 64)\<close>: an optional sign, digits, and the 64-bit range.\<close>

definition is_digit :: "char \<Rightarrow> bool" where
  "is_digit c = (48 \<le> (of_char c :: nat) \<and> (of_char c :: nat) \<le> 57)"

definition digits_value :: "string \<Rightarrow> int" where
  "digits_value s = fold (\<lambda>c n. 10 * n + (of_char c - 48)) s 0"

definition parse_int64 :: "string \<Rightarrow> int option" where
  "parse_int64 s =
     (let neg = (s \<noteq> [] \<and> hd s = CHR ''-'');
          ds = (if s \<noteq> [] \<and> (hd s = CHR ''-'' \<or> hd s = CHR ''+'') then tl s else s);
          n = (if neg then - digits_value ds else digits_value ds)
      in if ds \<noteq> [] \<and> list_all is_digit ds \<and> - (2 ^ 63) \<le> n \<and> n < 2 ^ 63 then Some n else None)"

definition squote :: string where "squote = [CHR 0x27]"

end
