(* ===== verification/Glob.thy ===== *)
theory Glob imports Regexp Go_Strings begin

text \<open>
  Glob patterns of static rules, from \<open>internal/approval/manager.go\<close>:
  \<open>globToRegexp\<close> and its bounded cache. \<open>glob_text\<close> is the text the code writes
  into its string builder, rune by rune; \<open>glob_res\<close> is the expression that text
  denotes, and \<open>glob_text_res\<close> states that the one prints as the other. Patterns and
  URLs are byte strings; every byte the loop distinguishes is ASCII, so on UTF-8 patterns
  the loop over runes and the loop over bytes write the same text.
\<close>

definition is_term :: "char \<Rightarrow> bool" where
  "is_term c = (c = CHR ''/'' \<or> c = CHR ''?'' \<or> c = CHR ''#'')"

subsection \<open>The translation loop\<close>

text \<open>
  The loop body, with the two flags \<open>inAuthority\<close> and \<open>atAuthorityStart\<close>; a
  branch of \<open>i++\<close> skips the dot that follows the star.
\<close>

fun glob_text :: "bool \<Rightarrow> bool \<Rightarrow> string \<Rightarrow> string" where
  "glob_text inAuthority atStart [] = []"
| "glob_text inAuthority atStart (c # cs) =
     (if is_term c then
        (if c = CHR ''?'' then [CHR 0x5C] else []) @ [c] @ glob_text False False cs
      else if c = CHR ''*'' \<and> cs \<noteq> [] \<and> hd cs = CHR ''.'' then
        (if inAuthority \<and> atStart then ''(([^./]+'' @ [CHR 0x5C] @ ''.)+)?'' @ glob_text inAuthority False (tl cs)
         else if inAuthority then [CHR 0x5C, CHR ''.''] @ glob_text inAuthority False (tl cs)
         else ''.*'' @ [CHR 0x5C, CHR ''.''] @ glob_text inAuthority atStart (tl cs))
      else if c = CHR ''*'' then
        (if inAuthority then ''[^./:]*'' @ glob_text inAuthority False cs
         else ''.*'' @ glob_text inAuthority atStart cs)
      else if re_special c then [CHR 0x5C, c] @ glob_text inAuthority False cs
      else [c] @ glob_text inAuthority False cs)"

definition re_label :: re where
  "re_label = RCat (RPlus (RNotIn ''./'')) (RChar CHR ''.'')"

definition re_subdomains :: re where
  "re_subdomains = ROpt (RGroup (RPlus (RGroup re_label)))"

fun glob_res :: "bool \<Rightarrow> bool \<Rightarrow> string \<Rightarrow> re list" where
  "glob_res inAuthority atStart [] = []"
| "glob_res inAuthority atStart (c # cs) =
     (if is_term c then RChar c # glob_res False False cs
      else if c = CHR ''*'' \<and> cs \<noteq> [] \<and> hd cs = CHR ''.'' then
        (if inAuthority \<and> atStart then re_subdomains # glob_res inAuthority False (tl cs)
         else if inAuthority then RChar CHR ''.'' # glob_res inAuthority False (tl cs)
         else RStar RDot # RChar CHR ''.'' # glob_res inAuthority atStart (tl cs))
      else if c = CHR ''*'' then
        (if inAuthority then RStar (RNotIn ''./:'') # glob_res inAuthority False cs
         else RStar RDot # glob_res inAuthority atStart cs)
      else RChar c # glob_res inAuthority False cs)"

lemma re_text_subdomains: "re_text re_subdomains = ''(([^./]+'' @ [CHR 0x5C] @ ''.)+)?''"
  by (simp add: re_subdomains_def re_label_def re_special_def)

lemma glob_text_res: "concat (map re_text (glob_res a s p)) = glob_text a s p"
  by (induction a s p rule: glob_text.induct)
    (auto simp: is_term_def re_special_def re_text_subdomains)

definition compile_glob :: "string \<Rightarrow> re" where
  "compile_glob pattern = re_seq (glob_res True True pattern)"

text \<open>The text handed to \<open>regexp.Compile\<close>, anchors included.\<close>

definition glob_regexp_text :: "string \<Rightarrow> string" where
  "glob_regexp_text pattern = ''^'' @ glob_text True True pattern @ ''$''"

lemma glob_regexp_text_compile:
  "glob_regexp_text pattern = ''^'' @ re_text (compile_glob pattern) @ ''$''"
  by (simp add: glob_regexp_text_def compile_glob_def re_text_seq glob_text_res)

subsection \<open>The cache\<close>

definition globRegexpCacheMaxSize :: nat where "globRegexpCacheMaxSize = 1024"

type_synonym glob_cache = "(string \<times> re) list"

definition glob_lookup :: "glob_cache \<Rightarrow> string \<Rightarrow> re option" where
  "glob_lookup m pattern = map_of m pattern"

text \<open>The write-locked section: re-check, evict everything at the cap, insert.\<close>

definition glob_store :: "glob_cache \<Rightarrow> string \<Rightarrow> re \<Rightarrow> re \<times> glob_cache" where
  "glob_store m pattern compiled =
     (case map_of m pattern of
        Some existing \<Rightarrow> (existing, m)
      | None \<Rightarrow>
          (let m' = (if globRegexpCacheMaxSize \<le> length m then [] else m)
           in (compiled, AList.update pattern compiled m')))"

definition globToRegexp :: "glob_cache \<Rightarrow> string \<Rightarrow> re \<times> glob_cache" where
  "globToRegexp m pattern =
     (case glob_lookup m pattern of
        Some compiled \<Rightarrow> (compiled, m)
      | None \<Rightarrow> glob_store m pattern (compile_glob pattern))"

definition glob_cache_ok :: "glob_cache \<Rightarrow> bool" where
  "glob_cache_ok m \<longleftrightarrow>
     distinct (map fst m) \<and> length m \<le> globRegexpCacheMaxSize \<and>
     (\<forall>(p, r)\<in>set m. r = compile_glob p)"

lemma glob_cache_ok_Nil [simp]: "glob_cache_ok []"
  by (simp add: glob_cache_ok_def)

lemma glob_cache_ok_lookup: "glob_cache_ok m \<Longrightarrow> map_of m p = Some r \<Longrightarrow> r = compile_glob p"
  by (auto simp: glob_cache_ok_def dest!: map_of_SomeD)

lemma AList_update_new: "map_of m k = None \<Longrightarrow> AList.update k v m = m @ [(k, v)]"
  by (induction m) (auto split: if_splits)

lemma glob_store_ok:
  assumes "glob_cache_ok m"
  shows "glob_cache_ok (snd (glob_store m p (compile_glob p)))
    \<and> fst (glob_store m p (compile_glob p)) = compile_glob p"
proof (cases "map_of m p")
  case None
  let ?m = "if globRegexpCacheMaxSize \<le> length m then [] else m"
  have ok: "glob_cache_ok ?m" and new: "map_of ?m p = None" using assms None by auto
  have "p \<notin> fst ` set ?m" by (rule map_of_eq_None_iff [THEN iffD1, OF new])
  moreover have "length ?m < globRegexpCacheMaxSize"
    by (simp add: globRegexpCacheMaxSize_def split: if_splits)
  ultimately have "glob_cache_ok (?m @ [(p, compile_glob p)])"
    using ok unfolding glob_cache_ok_def by auto
  then show ?thesis using None AList_update_new [OF new]
    by (simp add: glob_store_def Let_def del: AList.update.simps)
next
  case (Some r)
  with assms show ?thesis by (simp add: glob_store_def glob_cache_ok_lookup)
qed

text \<open>
  Any number of goroutines share the cache. Each call is a read and, on a miss, a later
  write-locked store; other calls' stores may come between. Whatever the interleaving, the
  cache stays well formed and every call gets the expression its pattern compiles to.
\<close>

inductive glob_cache_step :: "glob_cache \<Rightarrow> glob_cache \<Rightarrow> bool" where
  store: "glob_cache_step m (snd (glob_store m p (compile_glob p)))"

inductive glob_cache_reach :: "glob_cache \<Rightarrow> bool" where
  start: "glob_cache_reach []"
| step: "glob_cache_reach m \<Longrightarrow> glob_cache_step m m' \<Longrightarrow> glob_cache_reach m'"

inductive_cases glob_cache_stepE: "glob_cache_step m m'"

lemma glob_cache_reach_ok: "glob_cache_reach m \<Longrightarrow> glob_cache_ok m"
  by (induction rule: glob_cache_reach.induct) (auto elim!: glob_cache_stepE simp: glob_store_ok)

lemma globToRegexp_pure:
  "glob_cache_ok m \<Longrightarrow> fst (globToRegexp m p) = compile_glob p \<and> glob_cache_ok (snd (globToRegexp m p))"
  by (auto simp: globToRegexp_def glob_lookup_def glob_store_ok glob_cache_ok_lookup split: option.splits)

end
