(* ===== verification/Ct_Types.thy ===== *)
theory Ct_Types imports Go_Strings begin

text \<open>
  The data shared by the components, from \<open>pkg/types/types.go\<close>. Go strings that
  play the role of an enumeration (decisions, match types, actions, modes) stay strings,
  because the code compares them as strings and has a branch for every other value.
  Times are nanoseconds since the epoch, \<open>None\<close> standing for a nil \<open>*time.Time\<close>.
  A header (\<open>http.Header\<close>, a map from canonical keys to value lists) is an
  association list; its operations are in theory \<open>Http_Header\<close>.
\<close>

type_synonym time = int
type_synonym header = "(string \<times> string list) list"

subsection \<open>Decisions\<close>

type_synonym decision_type = string

definition DecisionAllow :: decision_type where "DecisionAllow = ''ALLOW''"
definition DecisionDeny :: decision_type where "DecisionDeny = ''DENY''"
definition DecisionTimeout :: decision_type where "DecisionTimeout = ''TIMEOUT''"

lemma decisions_distinct [simp]:
  "DecisionAllow \<noteq> DecisionDeny" "DecisionDeny \<noteq> DecisionAllow"
  "DecisionAllow \<noteq> DecisionTimeout" "DecisionTimeout \<noteq> DecisionAllow"
  "DecisionDeny \<noteq> DecisionTimeout" "DecisionTimeout \<noteq> DecisionDeny"
  "DecisionAllow \<noteq> []" "DecisionDeny \<noteq> []"
  by (simp_all add: DecisionAllow_def DecisionDeny_def DecisionTimeout_def)

record llm_response =
  lr_id :: string
  lr_model :: string
  lr_duration_ms :: int
  lr_input_tokens :: int
  lr_output_tokens :: int
  lr_result :: string
  lr_decision :: string
  lr_reason :: string
  lr_raw_output :: string

record approval_decision =
  ad_decision :: decision_type
  ad_approved_by :: string
  ad_reason :: string
  ad_channel :: string
  ad_policy_id :: string
  ad_llm_response :: "llm_response option"

definition empty_approval_decision :: approval_decision where
  "empty_approval_decision =
     \<lparr>ad_decision = [], ad_approved_by = [], ad_reason = [], ad_channel = [],
      ad_policy_id = [], ad_llm_response = None\<rparr>"

subsection \<open>Policies\<close>

record static_rule =
  sr_methods :: "string list"
  sr_url_pattern :: string
  sr_match_type :: string
  sr_action :: string

record llm_policy =
  lp_id :: string
  lp_name :: string
  lp_prompt :: string
  lp_provider :: string
  lp_model :: string
  lp_status :: string
  lp_forked_from :: string
  lp_static_rules :: "static_rule list"
  lp_created_at :: time
  lp_deleted_at :: "time option"

subsection \<open>Audit entries\<close>

record audit_entry =
  ae_timestamp :: time
  ae_user_id :: string
  ae_request_id :: string
  ae_method :: string
  ae_url :: string
  ae_operation :: string
  ae_decision :: string
  ae_cache_hit :: bool
  ae_approved_by :: string
  ae_channel :: string
  ae_response_status :: int
  ae_duration_ms :: int
  ae_error :: string
  ae_request_headers :: header
  ae_request_body :: string
  ae_response_headers :: header
  ae_response_body :: string
  ae_llm_reason :: string
  ae_llm_response_id :: string
  ae_llm_policy_id :: string

end
