(* ===== verification/Static_Rules.thy ===== *)
theory Static_Rules imports Glob Ct_Types begin

text \<open>
  The static-rule engine of \<open>internal/approval/manager.go\<close>: normalisation of URLs
  and patterns, the three kinds of match, the rule loop and its production twin, and the
  validation of rules. The request's URL is the string \<open>req.URL.String()\<close> returns.
\<close>

subsection \<open>Normalisation\<close>

definition strip_port_after :: "string \<Rightarrow> string \<Rightarrow> string \<Rightarrow> string" where
  "strip_port_after scheme port rawURL =
     (let rest = drop (length scheme) rawURL in
      case index_sub rest port of
        None \<Rightarrow> rawURL
      | Some i \<Rightarrow>
          (let after = drop (i + length port) rest in
           if after = [] \<or> is_term (hd after) then scheme @ take i rest @ after else rawURL))"

definition strip_default_port :: "string \<Rightarrow> string" where
  "strip_default_port rawURL =
     (if \<not> contains_sub rawURL ''://'' then rawURL
      else if has_prefix rawURL ''https://'' then strip_port_after ''https://'' '':443'' rawURL
      else if has_prefix rawURL ''http://'' then strip_port_after ''http://'' '':80'' rawURL
      else rawURL)"

definition scheme_end :: "string \<Rightarrow> nat" where
  "scheme_end s = (case index_sub s ''://'' of Some i \<Rightarrow> i + length ''://'' | None \<Rightarrow> 0)"

text \<open>The user information before the last \<open>@\<close> is left alone, the host folded.\<close>

definition lower_host :: "string \<Rightarrow> string" where
  "lower_host authority =
     (case last_index_byte authority CHR ''@'' of
        Some at \<Rightarrow> take (at + 1) authority @ to_lower (drop (at + 1) authority)
      | None \<Rightarrow> to_lower authority)"

definition lower_authority :: "string \<Rightarrow> string" where
  "lower_authority s =
     (let schemeEnd = scheme_end s;
          rest = drop schemeEnd s;
          stop = (case index_any rest ''/?#'' of None \<Rightarrow> length rest | Some i \<Rightarrow> i)
      in to_lower (take schemeEnd s) @ lower_host (take stop rest) @ drop stop rest)"

text \<open>The part after the first \<open>://\<close>, or the whole string when there is none.\<close>

definition strip_scheme :: "string \<Rightarrow> string" where
  "strip_scheme s = (case index_sub s ''://'' of Some i \<Rightarrow> drop (i + 3) s | None \<Rightarrow> s)"

definition norm_pattern :: "string \<Rightarrow> string" where
  "norm_pattern pattern = strip_default_port (lower_authority pattern)"

definition norm_url :: "string \<Rightarrow> string" where
  "norm_url urlStr =
     (let decoded = (case path_unescape urlStr of Some d \<Rightarrow> d | None \<Rightarrow> urlStr)
      in strip_default_port (lower_authority decoded))"

subsection \<open>Matching one pattern\<close>

definition prefix_matches :: "string \<Rightarrow> string \<Rightarrow> bool" where
  "prefix_matches decoded normalizedPattern =
     (if \<not> has_prefix decoded normalizedPattern then False
      else if normalizedPattern \<noteq> [] \<and> is_term (last normalizedPattern) then True
      else (let rem = drop (length normalizedPattern) decoded in rem = [] \<or> is_term (hd rem)))"

text \<open>\<open>staticURLMatches\<close>, with the shared glob cache threaded through.\<close>

definition static_url_matches_st ::
    "glob_cache \<Rightarrow> string \<Rightarrow> string \<Rightarrow> string \<Rightarrow> bool \<times> glob_cache" where
  "static_url_matches_st m urlStr pattern matchType =
     (let decoded = norm_url urlStr; normalizedPattern = norm_pattern pattern in
      if matchType = ''exact'' then (decoded = normalizedPattern, m)
      else if matchType = ''glob'' then
        (let (compiled, m') = globToRegexp m (strip_scheme normalizedPattern)
         in (re_match compiled (strip_scheme decoded), m'))
      else (prefix_matches decoded normalizedPattern, m))"

text \<open>The same answer without the cache; \<open>static_url_matches_st_pure\<close> relates the two.\<close>

definition static_url_matches :: "string \<Rightarrow> string \<Rightarrow> string \<Rightarrow> bool" where
  "static_url_matches urlStr pattern matchType =
     (let decoded = norm_url urlStr; normalizedPattern = norm_pattern pattern in
      if matchType = ''exact'' then decoded = normalizedPattern
      else if matchType = ''glob'' then
        re_match (compile_glob (strip_scheme normalizedPattern)) (strip_scheme decoded)
      else prefix_matches decoded normalizedPattern)"

lemma static_url_matches_st_pure:
  "glob_cache_ok m \<Longrightarrow>
   fst (static_url_matches_st m u p mt) = static_url_matches u p mt \<and>
   glob_cache_ok (snd (static_url_matches_st m u p mt))"
  using globToRegexp_pure [of m "strip_scheme (norm_pattern p)"]
  by (auto simp: static_url_matches_st_def static_url_matches_def Let_def split: prod.splits)

subsection \<open>Rules\<close>

definition methods_match :: "string list \<Rightarrow> string \<Rightarrow> bool" where
  "methods_match methods method =
     (methods = [] \<or> list_ex (\<lambda>m. to_upper m = to_upper method) methods)"

definition static_rule_matches :: "static_rule \<Rightarrow> string \<Rightarrow> string \<Rightarrow> bool" where
  "static_rule_matches rule method url =
     (if sr_methods rule \<noteq> [] \<and> \<not> list_ex (\<lambda>m. to_upper m = to_upper method) (sr_methods rule)
      then False
      else static_url_matches url (sr_url_pattern rule) (sr_match_type rule))"

text \<open>The two flags the rule loops compute.\<close>

fun rule_flags :: "(static_rule \<Rightarrow> bool) \<Rightarrow> static_rule list \<Rightarrow> bool \<times> bool \<Rightarrow> bool \<times> bool" where
  "rule_flags matches [] flags = flags"
| "rule_flags matches (rule # rules) (hasAllow, hasDeny) =
     rule_flags matches rules
       (if matches rule then
          (if sr_action rule = ''deny'' then (hasAllow, True) else (True, hasDeny))
        else (hasAllow, hasDeny))"

text \<open>
  \<open>MatchesStaticRules\<close>, the evaluation runner's rule check, and the condition of its
  loop. It compares methods with \<open>EqualFold\<close>, the live check with \<open>ToUpper\<close>.
\<close>

definition runner_matches :: "string \<Rightarrow> string \<Rightarrow> static_rule \<Rightarrow> bool" where
  "runner_matches method rawURL rule =
     ((sr_methods rule = [] \<or> list_ex (\<lambda>m. equal_fold m method) (sr_methods rule)) \<and>
      static_url_matches rawURL (sr_url_pattern rule) (sr_match_type rule))"

definition matches_static_rules :: "string \<Rightarrow> string \<Rightarrow> static_rule list \<Rightarrow> bool \<times> string" where
  "matches_static_rules method rawURL rules =
     (let (hasAllow, hasDeny) = rule_flags (runner_matches method rawURL) rules (False, False)
      in if hasDeny then (True, ''deny'') else if hasAllow then (True, ''allow'') else (False, []))"

lemma rule_flags_iff:
  "rule_flags P rules (a, d) =
     (a \<or> (\<exists>r\<in>set rules. P r \<and> sr_action r \<noteq> ''deny''),
      d \<or> (\<exists>r\<in>set rules. P r \<and> sr_action r = ''deny''))"
  by (induction rules arbitrary: a d) auto

text \<open>On ASCII methods the two comparisons agree.\<close>

definition ascii_methods :: "static_rule list \<Rightarrow> bool" where
  "ascii_methods rules = list_all (\<lambda>r. list_all ascii_text (sr_methods r)) rules"

lemma runner_rule_matches:
  "list_all ascii_text (sr_methods rule) \<Longrightarrow> ascii_text method \<Longrightarrow>
   runner_matches method url rule = static_rule_matches rule method url"
  by (auto simp: runner_matches_def static_rule_matches_def equal_fold_upper list_all_iff list_ex_iff)

lemma matches_static_rules_flags:
  assumes "ascii_methods rules" "ascii_text method"
  shows "matches_static_rules method url rules =
     (let (a, d) = rule_flags (\<lambda>r. static_rule_matches r method url) rules (False, False)
      in if d then (True, ''deny'') else if a then (True, ''allow'') else (False, []))"
proof -
  have "\<And>r. r \<in> set rules \<Longrightarrow> runner_matches method url r = static_rule_matches r method url"
    using assms by (simp add: ascii_methods_def list_all_iff runner_rule_matches)
  then have "rule_flags (runner_matches method url) rules (False, False) =
      rule_flags (\<lambda>r. static_rule_matches r method url) rules (False, False)"
    by (auto simp: rule_flags_iff)
  then show ?thesis by (simp add: matches_static_rules_def)
qed

subsection \<open>Validation\<close>

datatype glob_fault = StarDotAt nat | BareStarAt nat

datatype rule_error =
    EmptyPattern nat
  | InvalidMatchType nat string
  | UnsafeGlob nat glob_fault
  | InvalidAction nat string

fun authority_fault :: "nat \<Rightarrow> string \<Rightarrow> glob_fault option" where
  "authority_fault pos [] = None"
| "authority_fault pos (c # cs) =
     (if c = CHR ''*'' then
        (if cs \<noteq> [] \<and> hd cs = CHR ''.'' then
           (if pos = 0 then authority_fault (Suc pos) cs else Some (StarDotAt pos))
         else Some (BareStarAt pos))
      else authority_fault (Suc pos) cs)"

definition glob_authority :: "string \<Rightarrow> string" where
  "glob_authority pattern = takeWhile (\<lambda>c. \<not> is_term c) pattern"

definition validate_static_rule :: "nat \<Rightarrow> static_rule \<Rightarrow> rule_error option" where
  "validate_static_rule i rule =
     (if sr_url_pattern rule = [] then Some (EmptyPattern i)
      else if sr_match_type rule \<notin> {''prefix'', ''exact'', ''glob'', []} then
        Some (InvalidMatchType i (sr_match_type rule))
      else
        (case (if sr_match_type rule = ''glob''
               then authority_fault 0 (glob_authority (strip_scheme (sr_url_pattern rule)))
               else None) of
           Some fault \<Rightarrow> Some (UnsafeGlob i fault)
         | None \<Rightarrow>
             if sr_action rule \<notin> {''allow'', ''deny'', []} then Some (InvalidAction i (sr_action rule))
             else None))"

fun validate_from :: "nat \<Rightarrow> static_rule list \<Rightarrow> rule_error option" where
  "validate_from i [] = None"
| "validate_from i (rule # rules) =
     (case validate_static_rule i rule of Some e \<Rightarrow> Some e | None \<Rightarrow> validate_from (Suc i) rules)"

definition validate_static_rules :: "static_rule list \<Rightarrow> rule_error option" where
  "validate_static_rules rules = validate_from 0 rules"

lemma validate_from_None:
  "validate_from i rules = None \<Longrightarrow> r \<in> set rules \<Longrightarrow> \<exists>k. validate_static_rule k r = None"
  by (induction i rules rule: validate_from.induct) (auto split: option.splits)

lemma validated_glob_authority:
  assumes "validate_static_rules rules = None" and "r \<in> set rules" and "sr_match_type r = ''glob''"
  shows "authority_fault 0 (glob_authority (strip_scheme (sr_url_pattern r))) = None"
proof -
  from assms(1,2) obtain k where "validate_static_rule k r = None"
    unfolding validate_static_rules_def using validate_from_None by blast
  with assms(3) show ?thesis
    by (auto simp: validate_static_rule_def split: if_splits option.splits)
qed

end
