(* ===== verification/Host_Boundary.thy ===== *)
theory Host_Boundary imports Static_Rules begin

text \<open>
  What a static rule can match. The specification is \<open>host_scope\<close>: a pattern's
  authority names one host, or, written \<open>*.B\<close>, the host \<open>B\<close> and its
  subdomains. The lemmas here relate it to the compiled globs and to prefix rules.
\<close>

definition authority_of :: "string \<Rightarrow> string" where
  "authority_of s = glob_authority (strip_scheme s)"

definition host_scope :: "string \<Rightarrow> string \<Rightarrow> bool" where
  "host_scope pat host =
     (if has_prefix pat ''*.'' then host = drop 2 pat \<or> has_suffix host (drop 1 pat) else host = pat)"

subsection \<open>Validated authorities\<close>

lemma authority_fault_inner: "0 < pos \<Longrightarrow> authority_fault pos s = None \<longleftrightarrow> CHR ''*'' \<notin> set s"
  by (induction pos s rule: authority_fault.induct) auto

lemma authority_fault_None:
  "authority_fault 0 s = None \<longleftrightarrow>
     CHR ''*'' \<notin> set s \<or> (\<exists>b. s = ''*.'' @ b \<and> CHR ''*'' \<notin> set b)"
  by (cases s; cases "tl s") (auto simp: authority_fault_inner)

lemma lower_byte_fixed:
  "lower_byte c = lower_byte d \<Longrightarrow> d \<in> set '':/?#*.@'' \<Longrightarrow> c = d"
  unfolding char_eq_of_char [of c d] char_eq_of_char [of "lower_byte c"] of_char_lower_byte
  by (auto simp: is_upper_def split: if_splits)

lemma lower_byte_fixed_iff:
  "lower_byte c = lower_byte d \<Longrightarrow> q \<in> set '':/?#*.@'' \<Longrightarrow> (c = q) = (d = q)"
  using lower_byte_fixed [of c q] lower_byte_fixed [of d q] by metis

lemma authority_fault_lower:
  "to_lower a = to_lower b \<Longrightarrow> (authority_fault pos a = None) = (authority_fault pos b = None)"
proof (induction a arbitrary: b pos)
  case Nil
  then show ?case by (simp add: to_lower_def)
next
  case (Cons x xs)
  from Cons.prems obtain y ys where b: "b = y # ys" and xy: "lower_byte x = lower_byte y"
    and rest: "to_lower xs = to_lower ys" by (cases b) (auto simp: to_lower_def)
  have star: "(x = CHR ''*'') = (y = CHR ''*'')" 
    by (rule lower_byte_fixed_iff [OF xy]) simp
  have dot: "(xs \<noteq> [] \<and> hd xs = CHR ''.'') = (ys \<noteq> [] \<and> hd ys = CHR ''.'')"
    using rest lower_byte_fixed_iff [of "hd xs" "hd ys" "CHR ''.''"]
    by (cases xs; cases ys) (auto simp: to_lower_def)
  note IH = Cons.IH [OF rest, of "Suc pos"]
  show ?case
  proof (cases "y = CHR ''*''")
    case True
    with star have "x = CHR ''*''" by simp
    with True show ?thesis unfolding b using dot IH by (cases "pos = 0") auto
  next
    case False
    with star have "x \<noteq> CHR ''*''" by simp
    with False show ?thesis unfolding b using IH by simp
  qed
qed

lemma authority_fault_prefix:
  "authority_fault pos (a @ CHR '':'' # b) = None \<Longrightarrow> authority_fault pos a = None"
  by (induction pos a rule: authority_fault.induct) (auto simp: hd_append split: if_splits)

subsection \<open>Normalisation keeps the authority's shape\<close>

lemma is_term_lower: "lower_byte c = lower_byte d \<Longrightarrow> is_term c = is_term d"
  using lower_byte_fixed [of c d] lower_byte_fixed [of d c] unfolding is_term_def by fastforce

lemma index_scheme_lower:
  "to_lower a = to_lower b \<Longrightarrow> index_sub a ''://'' = index_sub b ''://''"
proof (induction a arbitrary: b)
  case Nil
  then show ?case by (simp add: to_lower_def)
next
  case (Cons x xs)
  from Cons.prems obtain y ys where b: "b = y # ys" and xy: "lower_byte x = lower_byte y"
    and rest: "to_lower xs = to_lower ys" by (cases b) (auto simp: to_lower_def)
  have pre: "has_prefix u p = has_prefix v p" if "to_lower u = to_lower v" "set p \<subseteq> set '':/''" for u v p
    using that
  proof (induction p arbitrary: u v)
    case Nil
    then show ?case by simp
  next
    case (Cons q qs)
    then have fixed: "lower_byte c = lower_byte d \<Longrightarrow> (c = q) = (d = q)" for c d
      using lower_byte_fixed [of c q] lower_byte_fixed [of d q] by auto
    show ?case
    proof (cases u)
      case Nil
      with Cons.prems show ?thesis by (simp add: to_lower_def)
    next
      case u: (Cons c u')
      with Cons.prems obtain d v' where v: "v = d # v'" "lower_byte c = lower_byte d"
        and rest: "to_lower u' = to_lower v'" by (cases v) (auto simp: to_lower_def)
      then show ?thesis using u fixed [of c d] Cons.IH [OF rest] Cons.prems(2) by simp
    qed
  qed
  show ?case using b Cons.IH [OF rest] pre [of "x # xs" b "''://''"] Cons.prems by simp
qed

lemma glob_authority_lower:
  "to_lower a = to_lower b \<Longrightarrow> to_lower (glob_authority a) = to_lower (glob_authority b)"
proof (induction a arbitrary: b)
  case Nil
  then show ?case by (simp add: to_lower_def)
next
  case (Cons x xs)
  from Cons.prems obtain y ys where b: "b = y # ys" and xy: "lower_byte x = lower_byte y"
    and rest: "to_lower xs = to_lower ys" by (cases b) (auto simp: to_lower_def)
  show ?case using b is_term_lower [OF xy] Cons.IH [OF rest] xy
    by (simp add: glob_authority_def to_lower_def)
qed

lemma strip_scheme_lower:
  "to_lower a = to_lower b \<Longrightarrow> to_lower (strip_scheme a) = to_lower (strip_scheme b)"
  using index_scheme_lower [of a b]
  by (auto simp: strip_scheme_def to_lower_def drop_map [symmetric] split: option.splits)

lemma to_lower_take_drop: "to_lower (take n a) @ to_lower (drop n a) = to_lower a"
  by (metis append_take_drop_id to_lower_append)

lemma to_lower_lower_authority: "to_lower (lower_authority s) = to_lower s"
proof -
  have host: "to_lower (lower_host a) = to_lower a" for a
    by (auto simp: lower_host_def to_lower_take_drop split: option.splits)
  show ?thesis
    by (simp only: lower_authority_def Let_def to_lower_append to_lower_idem host to_lower_take_drop)
qed

lemma strip_scheme_const:
  "strip_scheme (''https://'' @ r) = r" "strip_scheme (''http://'' @ r) = r"
  by (simp_all add: strip_scheme_def)

lemma glob_authority_append_term:
  "a = [] \<or> is_term (hd a) \<Longrightarrow> glob_authority (r @ a) = glob_authority r"
  by (induction r) (auto simp: glob_authority_def, cases a, auto)

lemma strip_port_after_split:
  assumes "strip_port_after scheme port s \<noteq> s" and "has_prefix s scheme"
  obtains h a where "s = scheme @ h @ port @ a" and "strip_port_after scheme port s = scheme @ h @ a"
    and "a = [] \<or> is_term (hd a)"
proof -
  let ?rest = "drop (length scheme) s"
  from assms(2) have s: "s = scheme @ ?rest" by (rule has_prefix_drop)
  from assms(1) obtain i where i: "index_sub ?rest port = Some i"
    by (auto simp: strip_port_after_def Let_def split: option.splits)
  let ?a = "drop (i + length port) ?rest"
  have a: "?a = [] \<or> is_term (hd ?a)"
    using assms(1) i by (auto simp: strip_port_after_def Let_def split: if_splits)
  then have "strip_port_after scheme port s = scheme @ take i ?rest @ ?a"
    using i by (simp add: strip_port_after_def Let_def)
  moreover have "s = scheme @ take i ?rest @ port @ ?a"
    using s index_sub_split [OF i] by simp
  ultimately show thesis using a that [of "take i ?rest" ?a] by blast
qed

lemma authority_of_strip_port:
  "strip_default_port s = s \<or> (\<exists>scheme port h a. scheme \<in> {''https://'', ''http://''} \<and>
     port \<in> {'':443'', '':80''} \<and> s = scheme @ h @ port @ a \<and>
     strip_default_port s = scheme @ h @ a \<and> (a = [] \<or> is_term (hd a)))"
proof (cases "strip_default_port s = s")
  case False
  then consider (https) "has_prefix s ''https://''" "strip_default_port s = strip_port_after ''https://'' '':443'' s"
    | (http) "has_prefix s ''http://''" "strip_default_port s = strip_port_after ''http://'' '':80'' s"
    by (auto simp: strip_default_port_def split: if_splits)
  then show ?thesis
  proof cases
    case https
    with False show ?thesis by (metis insertCI strip_port_after_split)
  next
    case http
    with False show ?thesis by (metis insertCI strip_port_after_split)
  qed
qed simp

lemma authority_fault_strip_port:
  assumes "authority_fault 0 (authority_of s) = None"
  shows "authority_fault 0 (authority_of (strip_default_port s)) = None"
proof (cases "strip_default_port s = s")
  case True
  with assms show ?thesis by simp
next
  case False
  then obtain scheme port h a where scheme: "scheme \<in> {''https://'', ''http://''}"
    and port: "port \<in> {'':443'', '':80''}"
    and s: "s = scheme @ h @ port @ a" and s': "strip_default_port s = scheme @ h @ a"
    and a: "a = [] \<or> is_term (hd a)"
    using authority_of_strip_port [of s] by blast
  have after: "strip_scheme (scheme @ r) = r" for r using scheme strip_scheme_const by auto
  have new: "authority_of (strip_default_port s) = glob_authority h"
    using a unfolding s' authority_of_def after by (rule glob_authority_append_term)
  have old: "authority_of s = glob_authority (h @ port)"
    using glob_authority_append_term [OF a, of "h @ port"] unfolding s authority_of_def after by simp
  show ?thesis
  proof (cases "\<exists>x\<in>set h. is_term x")
    case True
    then have "glob_authority (h @ port) = glob_authority h"
      unfolding glob_authority_def by (intro takeWhile_append_inside) auto
    with assms old new show ?thesis by simp
  next
    case False
    moreover have "\<forall>x\<in>set port. \<not> is_term x"
      using port by (elim insertE emptyE) (simp_all add: is_term_def)
    ultimately have "\<forall>x\<in>set h. \<not> is_term x" "\<forall>x\<in>set (h @ port). \<not> is_term x" by auto
    then have "glob_authority h = h" "glob_authority (h @ port) = h @ port"
      unfolding glob_authority_def by (simp_all only: takeWhile_eq_all_conv)
    note auths = old [unfolded this(2)] new [unfolded this(1)]
    from port obtain b where "port = CHR '':'' # b" by auto
    then have "authority_fault 0 h = None"
      using assms unfolding auths(1) by (simp only:) (rule authority_fault_prefix)
    then show ?thesis unfolding auths(2) .
  qed
qed

lemma authority_fault_norm_pattern:
  assumes "authority_fault 0 (glob_authority (strip_scheme p)) = None"
  shows "authority_fault 0 (authority_of (norm_pattern p)) = None"
proof -
  have "to_lower (glob_authority (strip_scheme (lower_authority p))) = to_lower (glob_authority (strip_scheme p))"
    by (intro glob_authority_lower strip_scheme_lower to_lower_lower_authority)
  then have "authority_fault 0 (authority_of (lower_authority p)) = None"
    using assms unfolding authority_of_def by (rule authority_fault_lower [THEN iffD2])
  then show ?thesis unfolding norm_pattern_def by (rule authority_fault_strip_port)
qed

end
