(* ===== verification/Rule_Safety.thy ===== *)
theory Rule_Safety imports Host_Boundary begin

text \<open>
  Properties of the static rules: a matching rule stays within the hosts its pattern names,
  normalisation identifies equivalent URLs, deny wins whatever the order, and the
  evaluation runner decides as production does.
\<close>

subsection \<open>Languages of compiled globs\<close>

lemma glob_res_plain:
  "CHR ''*'' \<notin> set a \<Longrightarrow> \<forall>c\<in>set a. \<not> is_term c \<Longrightarrow>
   glob_res True s (a @ r) = map RChar a @ glob_res True (s \<and> a = []) r"
  by (induction a arbitrary: s) auto

lemma glob_res_rest:
  assumes "r = [] \<or> is_term (hd r)" and "v \<in> re_lang (re_seq (glob_res True s r))"
  shows "v = [] \<or> is_term (hd v)"
  using assms by (cases r) (auto simp: lang_cat_def)

definition label_ok :: "string \<Rightarrow> bool" where
  "label_ok l = (l \<noteq> [] \<and> (\<forall>c\<in>set l. c \<noteq> CHR ''.'' \<and> c \<noteq> CHR ''/''))"

lemma lang_plus_chars:
  "lang_cat {[c] | c. P c} (lang_star {[c] | c. P c}) = {s. s \<noteq> [] \<and> (\<forall>c\<in>set s. P c)}"
proof (intro set_eqI iffI)
  fix s assume "s \<in> lang_cat {[c] | c. P c} (lang_star {[c] | c. P c})"
  then show "s \<in> {s. s \<noteq> [] \<and> (\<forall>c\<in>set s. P c)}"
    unfolding lang_star_chars by (auto elim!: lang_catE)
next
  fix s assume "s \<in> {s. s \<noteq> [] \<and> (\<forall>c\<in>set s. P c)}"
  then obtain c cs where s: "s = [c] @ cs" and P: "P c" "\<forall>c\<in>set cs. P c" by (cases s) auto
  show "s \<in> lang_cat {[c] | c. P c} (lang_star {[c] | c. P c})"
    unfolding s lang_star_chars using P by (intro lang_catI) simp_all
qed

lemma re_label_lang: "re_lang re_label = {l @ ''.'' | l. label_ok l}"
proof -
  have ok: "{s. s \<noteq> [] \<and> (\<forall>c\<in>set s. c \<notin> set ''./'')} = Collect label_ok"
    by (simp add: label_ok_def [abs_def])
  have "re_lang re_label = lang_cat {s. s \<noteq> [] \<and> (\<forall>c\<in>set s. c \<notin> set ''./'')} {''.''}"
    unfolding re_label_def re_lang.simps lang_plus_chars ..
  then show ?thesis unfolding ok by (auto simp: lang_cat_def)
qed

lemma subdomains_lang_iff:
  "u \<in> re_lang re_subdomains \<longleftrightarrow> (\<exists>ls. u = concat (map (\<lambda>l. l @ ''.'') ls) \<and> list_all label_ok ls)"
proof
  assume "u \<in> re_lang re_subdomains"
  then have "u \<in> lang_star (re_lang re_label)"
    by (auto simp: re_subdomains_def elim!: lang_catE intro: star_step star_Nil)
  then show "\<exists>ls. u = concat (map (\<lambda>l. l @ ''.'') ls) \<and> list_all label_ok ls"
  proof induction
    case star_Nil
    then show ?case by (intro exI [of _ "[]"]) simp
  next
    case (star_step u v)
    then obtain l ls where "u = l @ ''.''" "label_ok l" "v = concat (map (\<lambda>l. l @ ''.'') ls)" "list_all label_ok ls"
      by (auto simp: re_label_lang)
    then show ?case by (intro exI [of _ "l # ls"]) simp
  qed
next
  assume "\<exists>ls. u = concat (map (\<lambda>l. l @ ''.'') ls) \<and> list_all label_ok ls"
  then obtain ls where u: "u = concat (map (\<lambda>l. l @ ''.'') ls)" and ok: "list_all label_ok ls" by blast
  have star: "list_all label_ok ks \<Longrightarrow> concat (map (\<lambda>l. l @ ''.'') ks) \<in> lang_star (re_lang re_label)" for ks
  proof (induction ks)
    case Nil
    show ?case by (simp add: star_Nil)
  next
    case (Cons k ks)
    then have "k @ ''.'' \<in> re_lang re_label" by (auto simp: re_label_lang)
    with Cons show ?case using star_step [of "k @ ''.''"] by simp
  qed
  show "u \<in> re_lang re_subdomains"
  proof (cases ls)
    case Nil
    with u show ?thesis by (simp add: re_subdomains_def)
  next
    case (Cons k ks)
    then have "k @ ''.'' \<in> re_lang re_label" using ok by (auto simp: re_label_lang)
    from lang_catI [OF this star [of ks]] show ?thesis using u ok Cons by (simp add: re_subdomains_def)
  qed
qed

lemma subdomains_lang:
  assumes "u \<in> re_lang re_subdomains"
  shows "u = [] \<or> (\<exists>d. u = d @ ''.'')" and "CHR ''/'' \<notin> set u"
proof -
  obtain ls where u: "u = concat (map (\<lambda>l. l @ ''.'') ls)" and ok: "list_all label_ok ls"
    using assms by (auto simp: subdomains_lang_iff)
  show "CHR ''/'' \<notin> set u" using ok unfolding u by (induction ls) (auto simp: label_ok_def)
  show "u = [] \<or> (\<exists>d. u = d @ ''.'')" unfolding u by (cases ls rule: rev_cases) auto
qed

definition slash_first :: "string \<Rightarrow> bool" where
  "slash_first s = (case dropWhile (\<lambda>c. \<not> is_term c) s of [] \<Rightarrow> True | c # _ \<Rightarrow> c = CHR ''/'')"

lemma slash_first_no_term:
  "slash_first (a @ b) \<Longrightarrow> CHR ''/'' \<notin> set a \<Longrightarrow> \<forall>c\<in>set a. \<not> is_term c"
proof (induction a)
  case (Cons c a)
  from Cons.prems have "\<not> is_term c" by (simp add: slash_first_def split: if_splits)
  moreover from this Cons.prems have "slash_first (a @ b)" by (simp add: slash_first_def)
  ultimately show ?case using Cons.IH Cons.prems by simp
qed simp

lemma slash_first_append: "\<forall>c\<in>set a. \<not> is_term c \<Longrightarrow> slash_first (a @ b) = slash_first b"
  by (induction a) (simp_all add: slash_first_def)

lemma glob_authority_stop:
  "\<forall>c\<in>set a. \<not> is_term c \<Longrightarrow> v = [] \<or> is_term (hd v) \<Longrightarrow> glob_authority (a @ v) = a"
  unfolding glob_authority_def by (rule takeWhile_append_stop) auto

lemma glob_split:
  obtains r where "p = glob_authority p @ r" and "r = [] \<or> is_term (hd r)"
    and "\<forall>c\<in>set (glob_authority p). \<not> is_term c"
proof
  let ?r = "dropWhile (\<lambda>c. \<not> is_term c) p"
  show "p = glob_authority p @ ?r" by (simp add: glob_authority_def)
  show "?r = [] \<or> is_term (hd ?r)" using hd_dropWhile [of "\<lambda>c. \<not> is_term c" p] by auto
  show "\<forall>c\<in>set (glob_authority p). \<not> is_term c"
    by (auto simp: glob_authority_def dest: set_takeWhileD)
qed

lemma compile_glob_scope:
  assumes ok: "authority_fault 0 (glob_authority p) = None"
    and m: "s \<in> re_lang (compile_glob p)" and slash: "slash_first s"
  shows "host_scope (glob_authority p) (glob_authority s)"
proof -
  obtain r where p: "p = glob_authority p @ r" and r: "r = [] \<or> is_term (hd r)"
    and plain: "\<forall>c\<in>set (glob_authority p). \<not> is_term c" by (rule glob_split)
  let ?A = "glob_authority p"
  consider (host) "CHR ''*'' \<notin> set ?A" | (sub) b where "?A = ''*.'' @ b" "CHR ''*'' \<notin> set b"
    using ok authority_fault_None by blast
  then show ?thesis
  proof cases
    case host
    then have "glob_res True True p = map RChar ?A @ glob_res True (?A = []) r"
      by (subst p) (simp add: glob_res_plain [OF host plain])
    then obtain v where s: "s = ?A @ v" and v: "v \<in> re_lang (re_seq (glob_res True (?A = []) r))"
      using m unfolding compile_glob_def by (auto simp: re_seq_append_lang re_seq_chars)
    have "\<not> has_prefix ?A ''*.''" using host by (auto simp: has_prefix_iff)
    then show ?thesis
      using s glob_authority_stop [OF plain glob_res_rest [OF r v]] by (simp add: host_scope_def)
  next
    case sub
    then have bplain: "\<forall>c\<in>set b. \<not> is_term c" using plain by simp
    have "p = CHR ''*'' # CHR ''.'' # b @ r" using p sub by simp
    then have "glob_res True True p = re_subdomains # map RChar b @ glob_res True False r"
      using glob_res_plain [OF sub(2) bplain, of False r] by (simp add: is_term_def)
    then obtain u v where s: "s = u @ b @ v" and u: "u \<in> re_lang re_subdomains"
      and v: "v \<in> re_lang (re_seq (glob_res True False r))"
      using m unfolding compile_glob_def
      by (auto simp: re_seq_append_lang re_seq_chars re_seq_Cons_lang simp del: re_seq.simps)
    from subdomains_lang(2) [OF u] have "\<forall>c\<in>set u. \<not> is_term c"
      using slash_first_no_term [of u "b @ v"] slash s by auto
    then have "\<forall>c\<in>set (u @ b). \<not> is_term c" using bplain by auto
    from glob_authority_stop [OF this glob_res_rest [OF r v]]
    have "glob_authority s = u @ b" using s by simp
    then show ?thesis using sub subdomains_lang(1) [OF u]
      by (auto simp: host_scope_def has_suffix_iff has_prefix_iff)
  qed
qed

subsection \<open>The authority of the request as it was sent\<close>

text \<open>
  The default port is taken from the authority only, unless the authority has none of it; what
  follows the authority keeps its first character.
\<close>

lemma strip_port_after_eq:
  "strip_port_after sch port (sch @ X) =
     (case index_sub X port of
        None \<Rightarrow> sch @ X
      | Some i \<Rightarrow>
          if drop (i + length port) X = [] \<or> is_term (hd (drop (i + length port) X))
          then sch @ take i X @ drop (i + length port) X else sch @ X)"
  by (auto simp: strip_port_after_def Let_def split: option.split)

lemma strip_port_after_authority:
  assumes b: "\<forall>c\<in>set b. \<not> is_term c" and q: "q = [] \<or> is_term (hd q)"
    and port: "port \<noteq> []" "\<forall>c\<in>set port. \<not> is_term c"
  shows "\<exists>b' q'. strip_port_after sch port (sch @ b @ q) = sch @ b' @ q' \<and> (b' = b \<or> b = b' @ port) \<and>
    (q' = [] \<longleftrightarrow> q = []) \<and> (q \<noteq> [] \<longrightarrow> hd q' = hd q)"
proof -
  let ?X = "b @ q"
  have same: ?thesis if "strip_port_after sch port (sch @ ?X) = sch @ ?X" using that by blast
  show ?thesis
  proof (cases "index_sub ?X port")
    case None
    then show ?thesis by (intro same) (simp add: strip_port_after_eq del: drop_append drop_eq_Nil)
  next
    case (Some i)
    let ?after = "drop (i + length port) ?X"
    from index_sub_split [OF Some] have X: "?X = take i ?X @ port @ ?after" .
    show ?thesis
    proof (cases "?after = [] \<or> is_term (hd ?after)")
      case False
      with Some show ?thesis by (intro same) (simp add: strip_port_after_eq del: drop_append drop_eq_Nil)
    next
      case stop: True
      with Some have r: "strip_port_after sch port (sch @ ?X) = sch @ take i ?X @ ?after"
        by (simp add: strip_port_after_eq del: drop_append drop_eq_Nil take_append)
      from index_sub_SomeD [OF Some] have at: "take (length port) (drop i ?X) = port"
        and len: "i + length port \<le> length ?X" by blast+
      have tk: "take (i + length port) ?X = take i ?X @ port" using at by (simp only: take_add)
      show ?thesis
      proof (cases "i + length port \<le> length b")
        case True
        let ?v = "drop (i + length port) b"
        have after: "?after = ?v @ q" using True by simp
        have "?v = []"
        proof (rule ccontr)
          assume "?v \<noteq> []"
          then have "is_term (hd ?v)" "hd ?v \<in> set b"
            using stop after in_set_dropD [OF hd_in_set] by (simp_all del: drop_eq_Nil)
          with b show False by blast
        qed
        then have B: "b = take i ?X @ port" and A: "?after = q"
          using True tk after by auto
        show ?thesis
        proof (intro exI conjI)
          show "strip_port_after sch port (sch @ ?X) = sch @ take i ?X @ q" using r A by (simp only:)
          show "take i ?X = b \<or> b = take i ?X @ port" by (rule disjI2) (rule B)
        qed simp_all
      next
        case False
        then have "q \<noteq> []" using len by auto
        then have hq: "is_term (hd q)" "q ! 0 = hd q" using q by (auto simp: hd_conv_nth)
        have "\<not> i \<le> length b"
        proof
          assume le: "i \<le> length b"
          have "port ! (length b - i) = ?X ! length b"
            using le False len by (subst at [symmetric]) (simp del: drop_append take_append)
          then have "port ! (length b - i) = hd q" using hq by (simp add: nth_append)
          moreover have "length b - i < length port" using le False by linarith
          ultimately show False using port(2) hq(1) by (metis nth_mem)
        qed
        then have w: "take i ?X = b @ take (i - length b) q" "take (i - length b) q \<noteq> []"
          using \<open>q \<noteq> []\<close> by simp_all
        with r have "strip_port_after sch port (sch @ ?X) = sch @ b @ (take (i - length b) q @ ?after)" by simp
        moreover have "hd (take (i - length b) q @ ?after) = hd q" using w(2) by simp
        ultimately show ?thesis using w(2) \<open>q \<noteq> []\<close> by blast
      qed
    qed
  qed
qed

definition default_port :: "string \<Rightarrow> string" where
  "default_port scheme = (if scheme = ''https'' then '':443'' else '':80'')"

lemma lower_no_term: "\<forall>c\<in>set a. \<not> is_term c \<Longrightarrow> \<forall>c\<in>set (to_lower a). \<not> is_term c"
proof (clarsimp simp: to_lower_def)
  fix c
  assume "\<forall>c\<in>set a. \<not> is_term c" "c \<in> set a" "is_term (lower_byte c)"
  then show False using is_term_lower [of "lower_byte c" c] by simp
qed

lemma port_lower:
  assumes "to_lower a = b @ default_port scheme"
  obtains h where "a = h @ default_port scheme" "to_lower h = b"
proof -
  let ?h = "take (length b) a" and ?p = "drop (length b) a"
  have len: "length a = length b + length (default_port scheme)" using assms by (metis length_append length_to_lower)
  have a: "to_lower ?h @ to_lower ?p = b @ default_port scheme"
    using assms by (metis append_take_drop_id to_lower_append)
  then have h: "to_lower ?h = b" "to_lower ?p = default_port scheme" using len by (auto simp: append_eq_append_conv)
  have fixed: "lower_byte c = c" if "lower_byte c \<in> set '':4380''" for c
  proof -
    have "\<not> is_upper c"
    proof
      assume "is_upper c"
      then have "97 \<le> (of_char (lower_byte c) :: nat)" by (simp add: of_char_lower_byte is_upper_def)
      with that show False by auto
    qed
    then show ?thesis by (simp add: lower_byte_def)
  qed
  have "lower_byte c = c" if "c \<in> set ?p" for c
  proof (rule fixed)
    have "lower_byte c \<in> set (default_port scheme)" unfolding h(2) [symmetric] using that by (simp add: to_lower_def)
    then show "lower_byte c \<in> set '':4380''" by (auto simp: default_port_def split: if_splits)
  qed
  then have "map lower_byte ?p = ?p" by (intro map_idI)
  with h(2) have "?p = default_port scheme" by (simp add: to_lower_def)
  with h(1) show thesis by (intro that [of ?h]) (metis append_take_drop_id)+
qed

lemma index_any_none_term: "\<forall>c\<in>set a. \<not> is_term c \<Longrightarrow> q = [] \<or> is_term (hd q) \<Longrightarrow>
    (case index_any (a @ q) ''/?#'' of None \<Rightarrow> length (a @ q) | Some i \<Rightarrow> i) = length a"
proof (induction a)
  case Nil
  then show ?case by (cases q) (auto simp: is_term_def)
next
  case (Cons c a)
  then have "c \<notin> set ''/?#''" by (simp add: is_term_def)
  with Cons show ?case by (auto split: option.splits)
qed

lemma last_index_byte_absent: "c \<notin> set s \<Longrightarrow> last_index_byte s c = None"
  by (simp add: last_index_byte_None)

lemma lower_authority_scheme:
  assumes scheme: "scheme \<in> {''http'', ''https''}"
    and host: "\<forall>c\<in>set h. \<not> is_term c \<and> c \<noteq> CHR ''@''" and path: "q = [] \<or> is_term (hd q)"
  shows "lower_authority (scheme @ ''://'' @ h @ q) = scheme @ ''://'' @ to_lower h @ q"
proof -
  let ?s = "scheme @ ''://''"
  have stop: "(case index_any (h @ q) ''/?#'' of None \<Rightarrow> length (h @ q) | Some i \<Rightarrow> i) = length h"
    using index_any_none_term [OF _ path] host by auto
  have "CHR ''@'' \<notin> set h" using host by blast
  then have "lower_host h = to_lower h" by (simp add: lower_host_def last_index_byte_absent)
  moreover have "to_lower ?s = ?s"
  proof -
    have "to_lower ''http'' = ''http''" "to_lower ''https'' = ''https''" "to_lower ''://'' = ''://''" by code_simp+
    then show ?thesis using scheme by auto
  qed
  moreover have "scheme_end (scheme @ ''://'' @ h @ q) = length ?s" using scheme by (auto simp: scheme_end_def)
  moreover have "drop (length ?s) (scheme @ ''://'' @ h @ q) = h @ q" "take (length ?s) (scheme @ ''://'' @ h @ q) = ?s"
    by simp_all
  ultimately show ?thesis unfolding lower_authority_def Let_def by (simp only: stop) simp
qed

lemma lower_authority_https:
  assumes host: "\<forall>c\<in>set h. \<not> is_term c \<and> c \<noteq> CHR ''@''" and path: "q = [] \<or> is_term (hd q)"
  shows "lower_authority (''https://'' @ h @ q) = ''https://'' @ to_lower h @ q"
  using lower_authority_scheme [of "''https''", OF _ host path] by simp

lemma path_unescape_head:
  "path_unescape s = Some t \<Longrightarrow> s \<noteq> [] \<Longrightarrow> hd s \<noteq> CHR ''%'' \<Longrightarrow> t \<noteq> [] \<and> hd t = hd s"
  by (cases s) auto

text \<open>
  A request URL whose authority has no user information and no escapes keeps that authority
  through decoding and normalisation, lower-cased and without the scheme's default port.
\<close>

lemma norm_url_authority:
  assumes scheme: "scheme \<in> {''http'', ''https''}"
    and host: "\<forall>c\<in>set a. \<not> is_term c \<and> c \<noteq> CHR ''@'' \<and> c \<noteq> CHR ''%''"
    and path: "q = [] \<or> is_term (hd q)"
  obtains h q' where "norm_url (scheme @ ''://'' @ a @ q) = scheme @ ''://'' @ to_lower h @ q'"
    and "a = h \<or> a = h @ default_port scheme" and "\<forall>c\<in>set (to_lower h). \<not> is_term c"
    and "q' = [] \<or> is_term (hd q')" and "q \<noteq> [] \<Longrightarrow> hd q' = hd q" and "q' = [] \<longleftrightarrow> q = []"
proof -
  have "CHR ''%'' \<notin> set a" using host by blast
  then have esc: "CHR ''%'' \<notin> set (scheme @ ''://'' @ a)" using scheme by auto
  obtain r where r: "(case path_unescape (scheme @ ''://'' @ a @ q) of Some d \<Rightarrow> d | None \<Rightarrow> scheme @ ''://'' @ a @ q) =
      scheme @ ''://'' @ a @ r" and rq: "r = [] \<longleftrightarrow> q = []" "q \<noteq> [] \<longrightarrow> hd r = hd q"
  proof (cases "path_unescape q")
    case None
    then show thesis using path_unescape_append [OF esc, of q] by (intro that [of q]) simp_all
  next
    case (Some t)
    have "q \<noteq> [] \<Longrightarrow> hd q \<noteq> CHR ''%''" using path by (auto simp: is_term_def)
    then have "t = [] \<longleftrightarrow> q = []" "q \<noteq> [] \<longrightarrow> hd t = hd q"
      using path_unescape_head [OF Some] Some by auto
    then show thesis using path_unescape_append [OF esc, of q] Some by (intro that [of t]) simp_all
  qed
  have rt: "r = [] \<or> is_term (hd r)" using rq path by auto
  have host': "\<forall>c\<in>set a. \<not> is_term c \<and> c \<noteq> CHR ''@''" using host by blast
  have n: "norm_url (scheme @ ''://'' @ a @ q) = strip_default_port (scheme @ ''://'' @ to_lower a @ r)"
    unfolding norm_url_def Let_def r lower_authority_scheme [OF scheme host' rt] ..
  have s: "strip_default_port (scheme @ ''://'' @ X) = strip_port_after (scheme @ ''://'') (default_port scheme) ((scheme @ ''://'') @ X)" for X
    using scheme by (auto simp: strip_default_port_def default_port_def contains_sub_def)
  have nt: "\<forall>c\<in>set (to_lower a). \<not> is_term c" using host by (intro lower_no_term) blast
  have dp: "default_port scheme \<noteq> []" "\<forall>c\<in>set (default_port scheme). \<not> is_term c"
    by (simp_all add: default_port_def is_term_def)
  from strip_port_after_authority [OF nt rt dp, of "scheme @ ''://''"]
  obtain b q' where b: "strip_port_after (scheme @ ''://'') (default_port scheme) ((scheme @ ''://'') @ to_lower a @ r) =
      (scheme @ ''://'') @ b @ q'"
    and o: "b = to_lower a \<or> to_lower a = b @ default_port scheme" "q' = [] \<longleftrightarrow> r = []" "r \<noteq> [] \<longrightarrow> hd q' = hd r"
    by (elim exE conjE) (rule that)
  have n': "norm_url (scheme @ ''://'' @ a @ q) = scheme @ ''://'' @ b @ q'"
    unfolding n s b by (simp only: append_assoc)
  obtain h where h: "b = to_lower h" "a = h \<or> a = h @ default_port scheme"
    using o(1) port_lower [of a b scheme] by metis
  have "\<forall>c\<in>set (to_lower h). \<not> is_term c" using nt h by auto
  show thesis
  proof (rule that [of h q'])
    show "norm_url (scheme @ ''://'' @ a @ q) = scheme @ ''://'' @ to_lower h @ q'" unfolding n' h(1) ..
    show "q' = [] \<or> is_term (hd q')" using o rq path by metis
    show "hd q' = hd q" if "q \<noteq> []" using that o rq by metis
  qed (use o rq h \<open>\<forall>c\<in>set (to_lower h). \<not> is_term c\<close> in blast)+
qed

lemma authority_of_scheme:
  assumes "scheme \<in> {''http'', ''https''}" "\<forall>c\<in>set b. \<not> is_term c" "q = [] \<or> is_term (hd q)"
  shows "strip_scheme (scheme @ ''://'' @ b @ q) = b @ q" "authority_of (scheme @ ''://'' @ b @ q) = b"
proof -
  show "strip_scheme (scheme @ ''://'' @ b @ q) = b @ q" using assms(1) by (auto simp: strip_scheme_def)
  then show "authority_of (scheme @ ''://'' @ b @ q) = b"
    unfolding authority_of_def by (simp add: glob_authority_stop [OF assms(2,3)])
qed

subsection \<open>Properties\<close>

text \<open>A prefix rule that matches fixes the authority of the normalised URL.\<close>

lemma prefix_rule_normalised_authority:
  assumes matched: "static_rule_matches r method url"
    and prefix: "sr_match_type r \<notin> {''exact'', ''glob''}"
    and scheme: "contains_sub (norm_pattern (sr_url_pattern r)) ''://''"
    and auth: "authority_of (norm_pattern (sr_url_pattern r)) \<noteq> []"
  shows "authority_of (norm_url url) = authority_of (norm_pattern (sr_url_pattern r))"
proof -
  let ?P = "norm_pattern (sr_url_pattern r)"
  have m: "prefix_matches (norm_url url) ?P"
    using matched prefix
    by (auto simp: static_rule_matches_def static_url_matches_def Let_def split: if_splits)
  then obtain rem where u: "norm_url url = ?P @ rem"
    by (auto simp: prefix_matches_def has_prefix_iff split: if_splits)
  from scheme obtain i where i: "index_sub ?P ''://'' = Some i" by (auto simp: contains_sub_def)
  let ?Q = "drop (i + 3) ?P"
  have len: "i + 3 \<le> length ?P" using index_sub_SomeD [OF i] by simp
  have aP: "authority_of ?P = glob_authority ?Q" by (simp add: authority_of_def strip_scheme_def i)
  have aU: "authority_of (norm_url url) = glob_authority (?Q @ rem)"
    using len by (simp add: authority_of_def strip_scheme_def u index_sub_append [OF i])
  show ?thesis
  proof (cases "\<exists>c\<in>set ?Q. is_term c")
    case True
    then have "glob_authority (?Q @ rem) = glob_authority ?Q"
      unfolding glob_authority_def by (intro takeWhile_append_inside) auto
    with aP aU show ?thesis by simp
  next
    case False
    have Q: "?Q \<noteq> []" using auth aP by (auto simp: glob_authority_def)
    then have "last ?P = last ?Q" using len by (simp add: last_drop)
    moreover have "last ?Q \<in> set ?Q" using Q by (rule last_in_set)
    ultimately have "\<not> is_term (last ?P)" using False by metis
    then have "rem = [] \<or> is_term (hd rem)" using m u by (auto simp: prefix_matches_def Let_def split: if_splits)
    with False have "glob_authority (?Q @ rem) = ?Q" "glob_authority (?Q @ []) = ?Q"
      by (intro glob_authority_stop; auto)+
    with aP aU show ?thesis by simp
  qed
qed

text \<open>
  C8: a prefix rule stays on its host. When a rule whose match type is neither exact nor
  glob, and whose normalised pattern has a scheme and a non-empty authority, matches a request
  for \<open>scheme://a...\<close> with the scheme http or https and an authority \<open>a\<close> without user
  information and percent signs, then \<open>a\<close>, in lower case and without the scheme's
  default port, is the pattern's authority.
\<close>

theorem prefix_rule_same_authority:
  assumes matched: "static_rule_matches r method (scheme @ ''://'' @ a @ q)"
    and url: "scheme \<in> {''http'', ''https''}" "\<forall>c\<in>set a. \<not> is_term c \<and> c \<noteq> CHR ''@'' \<and> c \<noteq> CHR ''%''"
      "q = [] \<or> is_term (hd q)"
    and prefix: "sr_match_type r \<notin> {''exact'', ''glob''}"
    and pattern: "contains_sub (norm_pattern (sr_url_pattern r)) ''://''"
      "authority_of (norm_pattern (sr_url_pattern r)) \<noteq> []"
  shows "\<exists>h. (a = h \<or> a = h @ default_port scheme) \<and> to_lower h = authority_of (norm_pattern (sr_url_pattern r))"
proof -
  obtain h q' where n: "norm_url (scheme @ ''://'' @ a @ q) = scheme @ ''://'' @ to_lower h @ q'"
    and h: "a = h \<or> a = h @ default_port scheme" "\<forall>c\<in>set (to_lower h). \<not> is_term c" "q' = [] \<or> is_term (hd q')"
    by (rule norm_url_authority [OF url]) (rule that; assumption)
  have "authority_of (norm_url (scheme @ ''://'' @ a @ q)) = to_lower h"
    unfolding n by (rule authority_of_scheme(2) [OF url(1) h(2,3)])
  with prefix_rule_normalised_authority [OF matched prefix pattern] h(1) show ?thesis by metis
qed

definition example_prefix_rule :: static_rule where
  "example_prefix_rule = \<lparr>sr_methods = [''GET''], sr_url_pattern = ''https://API.x.com'',
     sr_match_type = ''prefix'', sr_action = ''allow''\<rparr>"

theorem prefix_rule_same_authority_witness:
  "static_rule_matches example_prefix_rule ''get'' ''https://Api.x.com:443/a'' \<and>
   (\<exists>h. (''Api.x.com:443'' = h \<or> ''Api.x.com:443'' = h @ default_port ''https'') \<and>
      to_lower h = authority_of (norm_pattern (sr_url_pattern example_prefix_rule)))"
proof -
  have m: "static_rule_matches example_prefix_rule ''get'' (''https'' @ ''://'' @ ''Api.x.com:443'' @ ''/a'')" by code_simp
  have u: "''https'' \<in> {''http'', ''https''}" "\<forall>c\<in>set ''Api.x.com:443''. \<not> is_term c \<and> c \<noteq> CHR ''@'' \<and> c \<noteq> CHR ''%''"
    "''/a'' = [] \<or> is_term (hd ''/a'')" by code_simp+
  have p: "sr_match_type example_prefix_rule \<notin> {''exact'', ''glob''}" by code_simp
  have c: "contains_sub (norm_pattern (sr_url_pattern example_prefix_rule)) ''://''" by code_simp
  have a: "authority_of (norm_pattern (sr_url_pattern example_prefix_rule)) \<noteq> []" by code_simp
  show ?thesis using m prefix_rule_same_authority [OF m u p c a] by simp
qed

text \<open>The same for globs, over the authority of the normalised URL.\<close>

lemma glob_rule_normalised_scope:
  assumes valid: "validate_static_rules rules = None" and r: "r \<in> set rules"
    and glob: "sr_match_type r = ''glob''"
    and matched: "static_rule_matches r method url"
    and slash: "slash_first (strip_scheme (norm_url url))"
  shows "host_scope (authority_of (norm_pattern (sr_url_pattern r))) (authority_of (norm_url url))"
proof -
  have "authority_fault 0 (authority_of (norm_pattern (sr_url_pattern r))) = None"
    using validated_glob_authority [OF valid r glob] by (rule authority_fault_norm_pattern)
  moreover have "strip_scheme (norm_url url) \<in>
      re_lang (compile_glob (strip_scheme (norm_pattern (sr_url_pattern r))))"
    using matched glob
    by (auto simp: static_rule_matches_def static_url_matches_def Let_def re_match_lang split: if_splits)
  ultimately show ?thesis unfolding authority_of_def using slash by (intro compile_glob_scope)
qed

text \<open>
  C14: a validated glob rule stays within its hosts. If the rule set passed
  \<open>ValidateStaticRules\<close> and a glob rule of it matches a request for
  \<open>scheme://a/...\<close> (or \<open>scheme://a\<close>) with the scheme http or https and an authority
  \<open>a\<close> without user information and percent signs, then \<open>a\<close>, in lower case and
  without the scheme's default port, lies in the scope of the pattern's authority: it is equal
  to it, or, for a pattern \<open>*.B\<close>, is \<open>B\<close> or a subdomain of it.
\<close>

theorem glob_rule_host_scope:
  assumes valid: "validate_static_rules rules = None" and r: "r \<in> set rules"
    and glob: "sr_match_type r = ''glob''"
    and matched: "static_rule_matches r method (scheme @ ''://'' @ a @ q)"
    and url: "scheme \<in> {''http'', ''https''}" "\<forall>c\<in>set a. \<not> is_term c \<and> c \<noteq> CHR ''@'' \<and> c \<noteq> CHR ''%''"
    and path: "q = [] \<or> hd q = CHR ''/''"
  shows "\<exists>h. (a = h \<or> a = h @ default_port scheme) \<and>
    host_scope (authority_of (norm_pattern (sr_url_pattern r))) (to_lower h)"
proof -
  have q: "q = [] \<or> is_term (hd q)" using path by (auto simp: is_term_def)
  obtain h q' where n: "norm_url (scheme @ ''://'' @ a @ q) = scheme @ ''://'' @ to_lower h @ q'"
    and h: "a = h \<or> a = h @ default_port scheme" "\<forall>c\<in>set (to_lower h). \<not> is_term c" "q' = [] \<or> is_term (hd q')"
    and q': "q \<noteq> [] \<Longrightarrow> hd q' = hd q" "q' = [] \<longleftrightarrow> q = []"
    by (rule norm_url_authority [OF url q]) (rule that; assumption)
  note s = authority_of_scheme [OF url(1) h(2,3)]
  have "q' = [] \<or> hd q' = CHR ''/''" using q' path by metis
  then have "slash_first q'" by (cases q') (simp_all add: slash_first_def is_term_def)
  then have "slash_first (to_lower h @ q')" by (simp only: slash_first_append [OF h(2)])
  then have "host_scope (authority_of (norm_pattern (sr_url_pattern r))) (to_lower h)"
    using glob_rule_normalised_scope [OF valid r glob matched] unfolding n s by blast
  with h(1) show ?thesis by (intro exI conjI)
qed

definition example_glob_rule :: static_rule where
  "example_glob_rule = \<lparr>sr_methods = [], sr_url_pattern = ''*.x.com/*'',
     sr_match_type = ''glob'', sr_action = ''allow''\<rparr>"

theorem glob_rule_host_scope_witness:
  "\<exists>h. (''A.b.x.com:443'' = h \<or> ''A.b.x.com:443'' = h @ default_port ''https'') \<and>
    host_scope (authority_of (norm_pattern (sr_url_pattern example_glob_rule))) (to_lower h)"
proof (rule glob_rule_host_scope)
  show "validate_static_rules [example_glob_rule] = None" by code_simp
  show "example_glob_rule \<in> set [example_glob_rule]" by simp
  show "sr_match_type example_glob_rule = ''glob''" by code_simp
  show "static_rule_matches example_glob_rule ''GET'' (''https'' @ ''://'' @ ''A.b.x.com:443'' @ ''/p'')" by code_simp
  show "''https'' \<in> {''http'', ''https''}" by simp
  show "\<forall>c\<in>set ''A.b.x.com:443''. \<not> is_term c \<and> c \<noteq> CHR ''@'' \<and> c \<noteq> CHR ''%''" by code_simp
  show "''/p'' = [] \<or> hd ''/p'' = CHR ''/''" by simp
qed

text \<open>
  without the slash the host boundary does not hold. The validated rule
  \<open>*.x.com/*\<close> matches a request to the host \<open>evil.io\<close> whose query follows
  the authority directly and names the allowed host.
\<close>

theorem glob_rule_query_crosses_host:
  "validate_static_rules [example_glob_rule] = None \<and>
   static_rule_matches example_glob_rule ''GET'' ''http://evil.io?u=a.x.com/y'' \<and>
   authority_of (norm_url ''http://evil.io?u=a.x.com/y'') = ''evil.io'' \<and>
   \<not> host_scope (authority_of (norm_pattern (sr_url_pattern example_glob_rule))) ''evil.io''"
  by (intro conjI; code_simp)

text \<open>
  the URL is decoded before its host is looked at, so an escaped slash in the user
  information ends the authority the rules see. The prefix rule for \<open>api.x.com\<close>
  matches a URL whose host, in the encoded form, is what follows the \<open>@\<close>.
\<close>

theorem prefix_rule_encoded_userinfo:
  "static_rule_matches example_prefix_rule ''GET'' ''https://api.x.com%2F@evil.io/y'' \<and>
   authority_of ''https://api.x.com%2F@evil.io/y'' = ''api.x.com%2F@evil.io'' \<and>
   authority_of (norm_url ''https://api.x.com%2F@evil.io/y'') = ''api.x.com''"
  by (intro conjI; code_simp)

subsection \<open>Completeness, newlines, order\<close>

lemma url_scheme_strip:
  "static_url_matches url p ''glob'' \<longleftrightarrow>
     strip_scheme (norm_url url) \<in> re_lang (compile_glob (strip_scheme (norm_pattern p)))"
  by (simp add: static_url_matches_def Let_def re_match_lang)

lemma dot_star_lang: "re_lang (RStar RDot) = {s. CHR 0x0A \<notin> set s}"
  by (auto simp: lang_star_chars)

text \<open>
  a subdomain glob matches everything it promises. A pattern that normalises to
  \<open>*.B/*\<close> matches every URL whose host is \<open>B\<close> under any number of non-empty
  labels and whose path has no newline.
\<close>

theorem glob_subdomain_rule_complete:
  assumes p: "strip_scheme (norm_pattern p) = ''*.'' @ b @ ''/*''"
    and b: "\<forall>c\<in>set b. c \<noteq> CHR ''*'' \<and> \<not> is_term c"
    and u: "strip_scheme (norm_url url) = concat (map (\<lambda>l. l @ ''.'') labels) @ b @ ''/'' @ path"
    and labels: "list_all label_ok labels"
    and path: "CHR 0x0A \<notin> set path"
  shows "static_url_matches url p ''glob''"
proof -
  have plain: "CHR ''*'' \<notin> set b" "\<forall>c\<in>set b. \<not> is_term c" using b by auto
  have eq: "glob_res True True (''*.'' @ b @ ''/*'') =
      [re_subdomains] @ map RChar b @ [RChar CHR ''/'', RStar RDot]"
    using glob_res_plain [OF plain, of False "''/*''"] by (simp add: is_term_def)
  have sub: "concat (map (\<lambda>l. l @ ''.'') labels) \<in> re_lang (re_seq [re_subdomains])"
    using labels subdomains_lang_iff [of "concat (map (\<lambda>l. l @ ''.'') labels)"]
    by (auto simp: lang_cat_def)
  have base: "b \<in> re_lang (re_seq (map RChar b))" by (simp add: re_seq_chars)
  have tail: "''/'' @ path \<in> re_lang (re_seq [RChar CHR ''/'', RStar RDot])"
    using path unfolding re_seq.simps re_lang.simps(7) dot_star_lang
    by (auto simp: lang_cat_def)
  show ?thesis
    unfolding url_scheme_strip p u compile_glob_def eq by (intro re_seq_appendI sub base tail)
qed

theorem glob_subdomain_rule_complete_witness:
  "static_url_matches ''https://a.b.x.com/p/q'' ''*.X.com/*'' ''glob''"
proof (rule glob_subdomain_rule_complete [where b = "''x.com''" and labels = "[''a'', ''b'']" and path = "''p/q''"])
  show "strip_scheme (norm_pattern ''*.X.com/*'') = ''*.'' @ ''x.com'' @ ''/*''" by code_simp
  show "\<forall>c\<in>set ''x.com''. c \<noteq> CHR ''*'' \<and> \<not> is_term c" by code_simp
  show "strip_scheme (norm_url ''https://a.b.x.com/p/q'') =
      concat (map (\<lambda>l. l @ ''.'') [''a'', ''b'']) @ ''x.com'' @ ''/'' @ ''p/q''" by code_simp
  show "list_all label_ok [''a'', ''b'']" by code_simp
  show "CHR 0x0A \<notin> set ''p/q''" by code_simp
qed

lemma glob_res_path_newline:
  "v \<in> re_lang (re_seq (glob_res False s r)) \<Longrightarrow> CHR 0x0A \<notin> set r \<Longrightarrow> CHR 0x0A \<notin> set v"
proof (induction "False" s r arbitrary: v rule: glob_res.induct)
  case (1 s)
  then show ?case by simp
next
  case (2 s c cs)
  have tl: "set (tl cs) \<subseteq> set cs" by (cases cs) auto
  show ?case
    using 2 tl
    by (auto simp del: re_seq.simps re_lang.simps simp: re_seq_Cons_lang dot_star_lang
        split: if_splits)
      (auto simp: dest!: subsetD)
qed

text \<open>
  the path wildcard of a glob stops at a newline. A glob rule whose pattern has a slash
  and no newline after its authority never matches a URL with a newline after its own
  authority, so a deny rule can be sidestepped by a path that holds \<open>%0A\<close>.
\<close>

theorem glob_rule_misses_newline:
  assumes p: "strip_scheme (norm_pattern p) = a @ ''/'' @ r"
    and a: "\<forall>c\<in>set a. c \<noteq> CHR ''*'' \<and> \<not> is_term c" and r: "CHR 0x0A \<notin> set r"
    and u: "strip_scheme (norm_url url) = a' @ ''/'' @ path"
    and a': "\<forall>c\<in>set a'. \<not> is_term c" and path: "CHR 0x0A \<in> set path"
  shows "\<not> static_url_matches url p ''glob''"
proof
  assume "static_url_matches url p ''glob''"
  then have m: "a' @ ''/'' @ path \<in> re_lang (compile_glob (a @ ''/'' @ r))"
    unfolding url_scheme_strip p u .
  have plain: "CHR ''*'' \<notin> set a" "\<forall>c\<in>set a. \<not> is_term c" using a by auto
  have "glob_res True True (a @ ''/'' @ r) = map RChar a @ [RChar CHR ''/''] @ glob_res False False r"
    using glob_res_plain [OF plain, of True "''/'' @ r"] by (simp add: is_term_def)
  then obtain v where v: "a' @ ''/'' @ path = a @ ''/'' @ v" "v \<in> re_lang (re_seq (glob_res False False r))"
    using m unfolding compile_glob_def
    by (auto simp: re_seq_append_lang re_seq_chars re_seq_Cons_lang simp del: re_seq.simps)
  have "glob_authority (a' @ ''/'' @ path) = a'" "glob_authority (a @ ''/'' @ v) = a"
    by (rule glob_authority_stop [OF a'], simp add: is_term_def)
      (rule glob_authority_stop [OF plain(2)], simp add: is_term_def)
  with v have "path = v" by simp
  with v(2) r path show False using glob_res_path_newline by blast
qed

theorem glob_rule_misses_newline_witness:
  "\<not> static_url_matches ''https://x.com/del%0Aete'' ''x.com/*'' ''glob''"
proof (rule glob_rule_misses_newline [where a = "''x.com''" and r = "''*''" and a' = "''x.com''"
      and path = "''del'' @ [CHR 0x0A] @ ''ete''"])
  show "strip_scheme (norm_pattern ''x.com/*'') = ''x.com'' @ ''/'' @ ''*''" by code_simp
  show "\<forall>c\<in>set ''x.com''. c \<noteq> CHR ''*'' \<and> \<not> is_term c" by code_simp
  show "CHR 0x0A \<notin> set ''*''" by code_simp
  show "strip_scheme (norm_url ''https://x.com/del%0Aete'') = ''x.com'' @ ''/'' @ ''del'' @ [CHR 0x0A] @ ''ete''"
    by code_simp
  show "\<forall>c\<in>set ''x.com''. \<not> is_term c" by code_simp
  show "CHR 0x0A \<in> set (''del'' @ [CHR 0x0A] @ ''ete'')" by code_simp
qed

text \<open>
  the rule loop is a function of the set of rules, and deny wins. Whatever the order
  and the multiplicity of the rules, the outcome is deny when some matching rule denies,
  else allow when some rule matches, else no match.
\<close>

theorem static_rules_deny_wins:
  "matches_static_rules method url rules =
     (if \<exists>r\<in>set rules. runner_matches method url r \<and> sr_action r = ''deny'' then (True, ''deny'')
      else if \<exists>r\<in>set rules. runner_matches method url r then (True, ''allow'')
      else (False, []))"
  by (auto simp: matches_static_rules_def rule_flags_iff Let_def)

theorem static_rules_deny_wins_witness:
  "matches_static_rules ''GET'' ''https://a.x.com/p''
     [example_glob_rule, example_glob_rule\<lparr>sr_action := ''deny''\<rparr>] = (True, ''deny'')"
proof -
  have "runner_matches ''GET'' ''https://a.x.com/p'' (example_glob_rule\<lparr>sr_action := ''deny''\<rparr>)"
    by code_simp
  then show ?thesis by (subst static_rules_deny_wins) simp
qed

subsection \<open>Equivalent URLs\<close>

lemma path_unescape_id_url:
  "CHR ''%'' \<notin> set u \<Longrightarrow> norm_url u = strip_default_port (lower_authority u)"
  by (simp add: norm_url_def path_unescape_plain)

lemma index_sub_skip:
  "\<forall>c\<in>set a. c \<noteq> x \<Longrightarrow> index_sub (a @ b) (x # p) = map_option (\<lambda>i. length a + i) (index_sub b (x # p))"
proof (induction a)
  case (Cons c a)
  then show ?case by (cases "index_sub b (x # p)") simp_all
next
  case Nil
  show ?case by (cases "index_sub b (x # p)") simp_all
qed

lemma index_sub_absent: "x \<notin> set s \<Longrightarrow> index_sub s (x # p) = None"
  by (induction s) auto

lemma colon_lower: "CHR '':'' \<in> set (to_lower h) \<Longrightarrow> CHR '':'' \<in> set h"
proof -
  assume "CHR '':'' \<in> set (to_lower h)"
  then obtain c where c: "c \<in> set h" "lower_byte c = CHR '':''" by (auto simp: to_lower_def)
  then have "lower_byte c = lower_byte CHR '':''" by (simp add: lower_byte_def is_upper_def)
  then have "c = CHR '':''" by (rule lower_byte_fixed) simp
  with c show ?thesis by simp
qed

text \<open>
  rules see through host case and the default port. Two https URLs that differ only in
  the case of their host and in a redundant \<open>:443\<close> match the same rules, for every
  pattern and match type.
\<close>

theorem default_port_and_host_case:
  assumes l: "to_lower h = to_lower h'"
    and host: "\<forall>c\<in>set h \<union> set h'. \<not> is_term c \<and> c \<noteq> CHR ''@'' \<and> c \<noteq> CHR '':'' \<and> c \<noteq> CHR ''%''"
    and path: "q = [] \<or> is_term (hd q)" "\<forall>c\<in>set q. c \<noteq> CHR '':'' \<and> c \<noteq> CHR ''%''"
  shows "static_url_matches (''https://'' @ h @ '':443'' @ q) p mt =
         static_url_matches (''https://'' @ h' @ q) p mt"
proof -
  have noc: "CHR '':'' \<notin> set (to_lower h')" using host colon_lower by auto
  have port: "to_lower '':443'' = '':443''" by code_simp
  have "norm_url (''https://'' @ h @ '':443'' @ q) = strip_default_port (lower_authority (''https://'' @ (h @ '':443'') @ q))"
    using host path by (subst path_unescape_id_url) auto
  also have "lower_authority (''https://'' @ (h @ '':443'') @ q) = ''https://'' @ to_lower (h @ '':443'') @ q"
    using host path by (intro lower_authority_https) (auto simp: is_term_def)
  also have "\<dots> = ''https://'' @ to_lower h' @ '':443'' @ q"
    using l port by (simp only: to_lower_append append_assoc)
  also have "strip_default_port \<dots> = ''https://'' @ to_lower h' @ q"
  proof -
    have "index_sub (to_lower h' @ '':443'' @ q) '':443'' = Some (length h')"
      using noc by (subst index_sub_skip) auto
    then show ?thesis using path
      by (simp add: strip_default_port_def strip_port_after_def contains_sub_def)
  qed
  finally have a: "norm_url (''https://'' @ h @ '':443'' @ q) = ''https://'' @ to_lower h' @ q" .
  have "norm_url (''https://'' @ h' @ q) = strip_default_port (lower_authority (''https://'' @ h' @ q))"
    using host path by (subst path_unescape_id_url) auto
  also have "lower_authority (''https://'' @ h' @ q) = ''https://'' @ to_lower h' @ q"
    using host path by (intro lower_authority_https) auto
  also have "strip_default_port \<dots> = ''https://'' @ to_lower h' @ q"
  proof -
    have "index_sub (to_lower h' @ q) '':443'' = None"
      using noc path by (intro index_sub_absent) auto
    then show ?thesis
      by (simp add: strip_default_port_def strip_port_after_def contains_sub_def)
  qed
  finally have "norm_url (''https://'' @ h' @ q) = ''https://'' @ to_lower h' @ q" .
  with a show ?thesis unfolding static_url_matches_def by simp
qed

theorem default_port_and_host_case_witness:
  "static_url_matches (''https://'' @ ''X.com'' @ '':443'' @ ''/a'') ''https://x.COM/a'' ''exact'' =
   static_url_matches (''https://'' @ ''x.com'' @ ''/a'') ''https://x.COM/a'' ''exact''"
proof (rule default_port_and_host_case)
  show "to_lower ''X.com'' = to_lower ''x.com''" by code_simp
  show "\<forall>c\<in>set ''X.com'' \<union> set ''x.com''. \<not> is_term c \<and> c \<noteq> CHR ''@'' \<and> c \<noteq> CHR '':'' \<and> c \<noteq> CHR ''%''"
    by code_simp
  show "''/a'' = [] \<or> is_term (hd ''/a'')" by code_simp
  show "\<forall>c\<in>set ''/a''. c \<noteq> CHR '':'' \<and> c \<noteq> CHR ''%''" by code_simp
qed

text \<open>
  the shared glob cache is transparent and bounded. In every cache that any
  interleaving of the goroutines' stores can reach, a match decided through the cache has
  the answer of the cache-free specification, and the cache holds at most 1024 expressions.
\<close>

theorem glob_cache_transparent:
  assumes "glob_cache_reach m"
  shows "fst (static_url_matches_st m url p mt) = static_url_matches url p mt \<and>
         length (snd (static_url_matches_st m url p mt)) \<le> 1024"
  using static_url_matches_st_pure [OF glob_cache_reach_ok [OF assms], of url p mt]
  by (auto simp: glob_cache_ok_def globRegexpCacheMaxSize_def)

theorem glob_cache_transparent_witness:
  "fst (static_url_matches_st (snd (glob_store [] ''x.com/*'' (compile_glob ''x.com/*'')))
     ''https://x.com/a'' ''x.com/*'' ''glob'') = static_url_matches ''https://x.com/a'' ''x.com/*'' ''glob''"
  using glob_cache_transparent [OF glob_cache_reach.step [OF glob_cache_reach.start
      glob_cache_step.store [of "[]" "''x.com/*''"]]] by blast

end
