(* ===== verification/Http_Header.thy ===== *)
theory Http_Header imports Ct_Types begin

text \<open>
  \<open>http.Header\<close> of Go's \<open>net/http\<close>: canonical keys and the operations
  \<open>Values\<close>, \<open>Get\<close>, \<open>Set\<close>, \<open>Add\<close> and \<open>Del\<close>. The interface the
  proxy relies on is the locale \<open>header_ops\<close>; its laws are discharged for the
  association-list model at the end.
\<close>

subsection \<open>Canonical keys\<close>

definition is_token_byte :: "char \<Rightarrow> bool" where
  "is_token_byte c = (let n = (of_char c :: nat) in
     (48 \<le> n \<and> n \<le> 57) \<or> is_upper c \<or> is_lower c \<or> c \<in> set ''!#$%&*+-.^_`|~'' \<or> n = 39)"

fun canon :: "bool \<Rightarrow> string \<Rightarrow> string" where
  "canon up [] = []"
| "canon up (c # cs) = (if up then upper_byte c else lower_byte c) # canon (c = CHR ''-'') cs"

definition canonical_key :: "string \<Rightarrow> string" where
  "canonical_key k = (if list_all is_token_byte k then canon True k else k)"

lemma upper_byte_dash: "upper_byte c = CHR ''-'' \<longleftrightarrow> c = CHR ''-''"
  unfolding char_eq_of_char [of "upper_byte c"] char_eq_of_char [of c] of_char_upper_byte
  by (auto simp: is_lower_def)

lemma lower_byte_dash: "lower_byte c = CHR ''-'' \<longleftrightarrow> c = CHR ''-''"
  unfolding char_eq_of_char [of "lower_byte c"] char_eq_of_char [of c] of_char_lower_byte
  by (auto simp: is_upper_def)

lemma canon_idem: "canon up (canon up s) = canon up s"
  by (induction up s rule: canon.induct) (auto simp: upper_byte_dash lower_byte_dash)

lemma canon_fold: "to_lower a = to_lower b \<Longrightarrow> canon up a = canon up b"
proof (induction a arbitrary: b up)
  case Nil
  then show ?case by (simp add: to_lower_def)
next
  case (Cons x xs)
  from Cons.prems obtain y ys where b: "b = y # ys" and xy: "lower_byte x = lower_byte y"
    and rest: "to_lower xs = to_lower ys" by (cases b) (auto simp: to_lower_def)
  have "upper_byte x = upper_byte y" using xy by (simp add: lower_upper_byte_eq)
  moreover have "(x = CHR ''-'') = (y = CHR ''-'')" using xy lower_byte_dash by metis
  ultimately show ?case using xy Cons.IH [OF rest] b by simp
qed

lemma is_token_byte_lower [simp]: "is_token_byte (lower_byte c) = is_token_byte c"
proof (cases "is_upper c")
  case True
  then have "is_lower (lower_byte c)" by (simp add: is_lower_def of_char_lower_byte is_upper_def)
  with True show ?thesis by (simp add: is_token_byte_def Let_def)
next
  case False
  then show ?thesis by (simp add: lower_byte_def)
qed

lemma is_token_byte_upper [simp]: "is_token_byte (upper_byte c) = is_token_byte c"
  by (metis is_token_byte_lower lower_upper_byte_eq upper_byte_idem)

lemma tokens_canon: "list_all is_token_byte (canon up s) = list_all is_token_byte s"
  by (induction up s rule: canon.induct) auto

lemma tokens_to_lower: "list_all is_token_byte (to_lower s) = list_all is_token_byte s"
  by (induction s) (auto simp: to_lower_def)

lemma canonical_key_idem [simp]: "canonical_key (canonical_key k) = canonical_key k"
  by (simp add: canonical_key_def canon_idem tokens_canon)

text \<open>Header names that differ only in case have the same canonical key.\<close>

lemma canonical_key_fold:
  assumes "to_lower a = to_lower b" and "list_all is_token_byte a"
  shows "canonical_key a = canonical_key b"
proof -
  have "list_all is_token_byte b"
    using assms tokens_to_lower [of a] tokens_to_lower [of b] by simp
  then show ?thesis using assms canon_fold [of a b True] by (simp add: canonical_key_def)
qed

lemma token_byte_ascii: "is_token_byte c \<Longrightarrow> ascii_char c"
  by (auto simp: is_token_byte_def ascii_char_def is_upper_def is_lower_def Let_def)

lemma token_ascii: "list_all is_token_byte s \<Longrightarrow> ascii_text s"
  by (simp add: ascii_text_def list_all_iff token_byte_ascii)

subsection \<open>Operations\<close>

definition hdr_values :: "header \<Rightarrow> string \<Rightarrow> string list" where
  "hdr_values h k = (case map_of h (canonical_key k) of None \<Rightarrow> [] | Some vs \<Rightarrow> vs)"

definition hdr_get :: "header \<Rightarrow> string \<Rightarrow> string" where
  "hdr_get h k = (case hdr_values h k of [] \<Rightarrow> [] | v # _ \<Rightarrow> v)"

definition hdr_set :: "header \<Rightarrow> string \<Rightarrow> string \<Rightarrow> header" where
  "hdr_set h k v = AList.update (canonical_key k) [v] h"

definition hdr_add :: "header \<Rightarrow> string \<Rightarrow> string \<Rightarrow> header" where
  "hdr_add h k v = AList.update (canonical_key k) (hdr_values h k @ [v]) h"

definition hdr_del :: "header \<Rightarrow> string \<Rightarrow> header" where
  "hdr_del h k = AList.delete (canonical_key k) h"

definition hdr_wf :: "header \<Rightarrow> bool" where
  "hdr_wf h = distinct (map fst h)"

lemma hdr_wf_ops [simp]:
  "hdr_wf h \<Longrightarrow> hdr_wf (hdr_set h k v)" "hdr_wf h \<Longrightarrow> hdr_wf (hdr_add h k v)"
  "hdr_wf h \<Longrightarrow> hdr_wf (hdr_del h k)" "hdr_wf []"
  by (simp_all add: hdr_wf_def hdr_set_def hdr_add_def hdr_del_def distinct_update distinct_delete)

subsection \<open>The interface of a header map\<close>

text \<open>
  What the proxy's header code uses of \<open>http.Header\<close>: deleting and setting a key
  affects that key alone, up to canonicalisation.
\<close>

locale header_ops =
  fixes vals :: "'h \<Rightarrow> string \<Rightarrow> string list"
    and del :: "'h \<Rightarrow> string \<Rightarrow> 'h"
    and upd :: "'h \<Rightarrow> string \<Rightarrow> string \<Rightarrow> 'h"
    and key :: "string \<Rightarrow> string"
  assumes vals_del: "vals (del h k) k' = (if key k = key k' then [] else vals h k')"
    and vals_upd: "vals (upd h k v) k' = (if key k = key k' then [v] else vals h k')"
begin

lemma vals_fold_del:
  "vals (fold (\<lambda>k h. del h k) ks h) k' = (if key k' \<in> key ` set ks then [] else vals h k')"
  by (induction ks arbitrary: h) (auto simp: vals_del)

lemma vals_fold_del_other:
  "key k' \<notin> key ` set ks \<Longrightarrow> vals (fold (\<lambda>k h. del h k) ks h) k' = vals h k'"
  by (simp add: vals_fold_del)

end

interpretation hdr: header_ops hdr_values hdr_del hdr_set canonical_key
  by unfold_locales
    (auto simp: hdr_values_def hdr_del_def hdr_set_def delete_conv' update_conv')

lemma hdr_get_del [go_hdr]: "hdr_get (hdr_del h k) k' = (if canonical_key k = canonical_key k' then [] else hdr_get h k')"
  by (simp add: hdr_get_def hdr.vals_del)

lemma hdr_get_set [go_hdr]: "hdr_get (hdr_set h k v) k' = (if canonical_key k = canonical_key k' then v else hdr_get h k')"
  by (simp add: hdr_get_def hdr.vals_upd)

end
