(* ===== verification/Http_Message.thy ===== *)
theory Http_Message imports Http_Header begin

text \<open>
  Requests and responses as the gateway handles them. A body is what reading it to the end
  delivers: its bytes, and the error that ends it, if any. \<open>rq_url\<close> is what
  \<open>URL.String()\<close> returns; the scheme and host the code reads separately are fields
  of their own, as are the user information with its closing at sign, and the escaped path,
  query and fragment (\<open>rq_url_tail\<close>). A response writer keeps the header map of the
  handler, the status once it has been written, and the bytes written.
\<close>

record body_stream =
  bs_data :: string
  bs_err :: "go_error option"

record http_request =
  rq_method :: string
  rq_url :: string
  rq_url_scheme :: string
  rq_url_host :: string
  rq_host :: string
  rq_header :: header
  rq_body :: "body_stream option"
  rq_proto_major :: int
  rq_proto_minor :: int
  rq_remote_addr :: string
  rq_url_user :: string
  rq_url_tail :: string
  rq_content_length :: int

record http_response =
  rs_status :: int
  rs_header :: header
  rs_body :: "body_stream option"
  rs_content_length :: int
  rs_transfer_encoding :: "string list"
  rs_close :: bool

record response_writer =
  rw_header :: header
  rw_status :: "int option"
  rw_body :: string

definition new_writer :: response_writer where
  "new_writer = \<lparr>rw_header = [], rw_status = None, rw_body = []\<rparr>"

text \<open>A second \<open>WriteHeader\<close> is ignored; a write without one sends status 200.\<close>

definition write_header :: "int \<Rightarrow> response_writer \<Rightarrow> response_writer" where
  "write_header code w = (if rw_status w = None then w\<lparr>rw_status := Some code\<rparr> else w)"

definition write_body :: "string \<Rightarrow> response_writer \<Rightarrow> response_writer" where
  "write_body s w = (write_header 200 w)\<lparr>rw_body := rw_body w @ s\<rparr>"

definition w_set :: "string \<Rightarrow> string \<Rightarrow> response_writer \<Rightarrow> response_writer" where
  "w_set k v w = w\<lparr>rw_header := hdr_set (rw_header w) k v\<rparr>"

text \<open>\<open>http.Error\<close>.\<close>

definition http_error :: "string \<Rightarrow> int \<Rightarrow> response_writer \<Rightarrow> response_writer" where
  "http_error msg code w =
     write_body (msg @ [CHR 0x0A])
       (write_header code
         (w_set ''X-Content-Type-Options'' ''nosniff''
           (w_set ''Content-Type'' ''text/plain; charset=utf-8''
             (w\<lparr>rw_header := hdr_del (rw_header w) ''Content-Length''\<rparr>))))"

lemma http_error_status [simp]:
  "rw_status w = None \<Longrightarrow> rw_status (http_error msg code w) = Some code"
  by (simp add: http_error_def write_body_def write_header_def w_set_def)

definition body_of :: "string \<Rightarrow> body_stream option" where
  "body_of s = Some \<lparr>bs_data = s, bs_err = None\<rparr>"

text \<open>\<open>io.ReadAll\<close>: everything delivered, and the error that ended the stream.\<close>

definition read_all :: "body_stream \<Rightarrow> string \<times> go_error option" where
  "read_all b = (bs_data b, bs_err b)"

text \<open>
  \<open>io.ReadAll(&io.LimitedReader{R, N: n})\<close>: at most \<open>n\<close> bytes; the third
  component is \<open>N == 0\<close> afterwards. An error of the stream is seen only when the
  limit is not reached.
\<close>

definition read_limited :: "nat \<Rightarrow> body_stream \<Rightarrow> string \<times> go_error option \<times> bool" where
  "read_limited n b =
     (if n \<le> length (bs_data b) then (take n (bs_data b), None, True)
      else (bs_data b, bs_err b, False))"

lemma read_limited_length: "length (fst (read_limited n b)) \<le> n"
  by (simp add: read_limited_def)

lemma read_limited_prefix: "\<exists>r. bs_data b = fst (read_limited n b) @ r"
  by (auto simp: read_limited_def intro: exI [of _ "drop n (bs_data b)"])

end
