(* ===== verification/Judge_Types.thy ===== *)
theory Judge_Types imports Complex_Main Ct_Types begin

text \<open>
  The result of one judge call (\<open>judge.JudgeResult\<close>) and the contract between the
  approval manager and its evaluators. A score is a \<open>float64\<close> in the interval from 0
  to 1, a rational number; comparisons of floats are comparisons of the rationals.
\<close>

record judge_result =
  jr_decision :: decision_type
  jr_reason :: string
  jr_model :: string
  jr_duration_ms :: int
  jr_input_tokens :: int
  jr_output_tokens :: int
  jr_raw_output :: string
  jr_score :: "rat option"
  jr_decided_by :: string

definition empty_judge_result :: judge_result where
  "empty_judge_result =
     \<lparr>jr_decision = [], jr_reason = [], jr_model = [], jr_duration_ms = 0, jr_input_tokens = 0,
      jr_output_tokens = 0, jr_raw_output = [], jr_score = None, jr_decided_by = []\<rparr>"

text \<open>
  \<open>Evaluator.Evaluate\<close>: method, URL, headers, body and policy to a result and an
  error. The call's context is fixed with the function.
\<close>

type_synonym evaluator =
  "string \<Rightarrow> string \<Rightarrow> header \<Rightarrow> string \<Rightarrow> llm_policy \<Rightarrow> judge_result \<times> go_error option"

text \<open>
  The law every evaluator of the code keeps: without an error the decision is ALLOW or
  DENY.
\<close>

locale evaluator_contract =
  fixes evaluate :: evaluator
  assumes decides: "evaluate m u h b p = (r, None) \<Longrightarrow>
    jr_decision r = DecisionAllow \<or> jr_decision r = DecisionDeny"
begin

lemma undecided_is_error:
  "jr_decision (fst (evaluate m u h b p)) \<notin> {DecisionAllow, DecisionDeny} \<Longrightarrow>
   \<exists>e. snd (evaluate m u h b p) = Some e"
  using decides [of m u h b p "fst (evaluate m u h b p)"]
  by (cases "evaluate m u h b p"; cases "snd (evaluate m u h b p)") auto

end

end
