(* ===== verification/Approval.thy ===== *)
theory Approval imports Rule_Safety Http_Message Judge_Types begin

text \<open>
  The approval manager (\<open>internal/approval/manager.go\<close>): mode, evaluator, fallback,
  static rules first, then the judge, then the fallback. The context values the proxy hands
  over are the record \<open>approval_ctx\<close>; a \<open>None\<close> field is a key that is absent
  (or, for the evaluation body, a nil slice).
\<close>

record manager =
  mg_judge :: "evaluator option"
  mg_mode :: string
  mg_fallback_mode :: string
  mg_observer :: bool

record approval_ctx =
  cx_policy :: "llm_policy option"
  cx_original_headers :: "header option"
  cx_original_body :: "string option"
  cx_buffered_body :: "string option"

definition new_manager :: manager where
  "new_manager = \<lparr>mg_judge = None, mg_mode = ''llm'', mg_fallback_mode = [], mg_observer = False\<rparr>"

definition set_mode :: "string \<Rightarrow> manager \<Rightarrow> manager" where
  "set_mode mode m = m\<lparr>mg_mode := (if mode = [] then ''llm'' else mode)\<rparr>"

text \<open>A nil evaluator, or an interface holding a nil pointer, is \<open>None\<close>.\<close>

definition set_judge :: "evaluator option \<Rightarrow> string \<Rightarrow> string \<Rightarrow> manager \<Rightarrow> manager" where
  "set_judge j mode fallbackMode m =
     (set_mode mode (m\<lparr>mg_judge := j\<rparr>))\<lparr>mg_fallback_mode := fallbackMode\<rparr>"

definition set_observer :: "bool \<Rightarrow> manager \<Rightarrow> manager" where
  "set_observer obs m = m\<lparr>mg_observer := obs\<rparr>"

definition uses_llm :: "manager \<Rightarrow> bool" where
  "uses_llm m = (mg_mode m = ''llm'' \<and> mg_judge m \<noteq> None)"

definition uses_passthrough :: "manager \<Rightarrow> bool" where
  "uses_passthrough m = (mg_mode m = ''passthrough'')"

subsection \<open>Pieces of a decision\<close>

definition judge_result_to_llm_response :: "judge_result \<Rightarrow> go_error option \<Rightarrow> llm_response" where
  "judge_result_to_llm_response r err =
     (let lr = \<lparr>lr_id = [], lr_model = jr_model r, lr_duration_ms = jr_duration_ms r,
                lr_input_tokens = jr_input_tokens r, lr_output_tokens = jr_output_tokens r,
                lr_result = [], lr_decision = [], lr_reason = [], lr_raw_output = jr_raw_output r\<rparr>
      in case err of
           Some e \<Rightarrow> lr\<lparr>lr_result := ''error'',
                       lr_raw_output := (if lr_raw_output lr = [] then e else lr_raw_output lr)\<rparr>
         | None \<Rightarrow> lr\<lparr>lr_result := ''success'', lr_decision := jr_decision r, lr_reason := jr_reason r\<rparr>)"

text \<open>
  The body used for policy checks, and the request it leaves: the proxy's buffered copy
  without touching \<open>req.Body\<close>, else the whole body, put back for the caller.
\<close>

definition request_body_for_approval ::
    "approval_ctx \<Rightarrow> http_request \<Rightarrow> (string result) \<times> http_request" where
  "request_body_for_approval ctx req =
     (case cx_buffered_body ctx of
        Some body \<Rightarrow> (Inr body, req)
      | None \<Rightarrow>
          (case rq_body req of
             None \<Rightarrow> (Inr [], req\<lparr>rq_body := body_of []\<rparr>)
           | Some b \<Rightarrow>
               (case read_all b of
                  (_, Some e) \<Rightarrow> (Inl (''failed to read request body: '' @ e), req)
                | (body, None) \<Rightarrow> (Inr body, req\<lparr>rq_body := body_of body\<rparr>))))"

definition llm_fallback :: "manager \<Rightarrow> approval_decision" where
  "llm_fallback m =
     (if mg_fallback_mode m = ''passthrough'' then
        \<lparr>ad_decision = DecisionAllow, ad_approved_by = ''llm-fallback'',
         ad_reason = ''llm judge unavailable, passthrough'', ad_channel = ''llm'',
         ad_policy_id = [], ad_llm_response = None\<rparr>
      else
        \<lparr>ad_decision = DecisionDeny, ad_approved_by = ''llm-fallback'',
         ad_reason = ''llm judge unavailable'', ad_channel = ''llm'',
         ad_policy_id = [], ad_llm_response = None\<rparr>)"

definition static_decision :: "decision_type \<Rightarrow> string \<Rightarrow> llm_policy \<Rightarrow> approval_decision" where
  "static_decision d reason policy =
     \<lparr>ad_decision = d, ad_approved_by = ''llm-static-rule'', ad_reason = reason,
      ad_channel = ''llm'', ad_policy_id = lp_id policy, ad_llm_response = None\<rparr>"

definition static_flags :: "llm_policy option \<Rightarrow> string \<Rightarrow> string \<Rightarrow> bool \<times> bool" where
  "static_flags policy method url =
     (case policy of
        None \<Rightarrow> (False, False)
      | Some p \<Rightarrow> rule_flags (\<lambda>rule. static_rule_matches rule method url) (lp_static_rules p) (False, False))"

definition judged_decision :: "decision_type \<Rightarrow> judge_result \<Rightarrow> llm_policy \<Rightarrow> approval_decision" where
  "judged_decision d r policy =
     \<lparr>ad_decision = d,
      ad_approved_by = (if jr_decided_by r = [] then ''llm'' else jr_decided_by r),
      ad_reason = jr_reason r, ad_channel = ''llm'', ad_policy_id = lp_id policy,
      ad_llm_response = Some (judge_result_to_llm_response r None)\<rparr>"

subsection \<open>The decision flow\<close>

text \<open>
  The headers and the body shown to the judge: the evaluation copies of the context, else
  the request's own.
\<close>

definition eval_headers :: "approval_ctx \<Rightarrow> http_request \<Rightarrow> header" where
  "eval_headers ctx req = (case cx_original_headers ctx of Some h \<Rightarrow> h | None \<Rightarrow> rq_header req)"

definition eval_body :: "approval_ctx \<Rightarrow> string \<Rightarrow> string" where
  "eval_body ctx body = (case cx_original_body ctx of Some b \<Rightarrow> b | None \<Rightarrow> body)"

definition run_judge ::
    "manager \<Rightarrow> evaluator \<Rightarrow> approval_ctx \<Rightarrow> http_request \<Rightarrow> string \<Rightarrow> llm_policy \<Rightarrow> approval_decision" where
  "run_judge m j ctx req body policy =
     (case j (rq_method req) (rq_url req) (eval_headers ctx req) (eval_body ctx body) policy of
        (r, Some e) \<Rightarrow>
          (let ad = (llm_fallback m)\<lparr>ad_policy_id := lp_id policy\<rparr>
           in if jr_model r \<noteq> []
              then ad\<lparr>ad_llm_response := Some (judge_result_to_llm_response r (Some e))\<rparr> else ad)
      | (r, None) \<Rightarrow>
          (if jr_decision r = DecisionAllow then judged_decision DecisionAllow r policy
           else if jr_decision r = DecisionDeny then judged_decision DecisionDeny r policy
           else (llm_fallback m)\<lparr>ad_policy_id := lp_id policy,
                  ad_llm_response := Some (judge_result_to_llm_response r None)\<rparr>))"

definition decide_llm ::
    "manager \<Rightarrow> evaluator \<Rightarrow> approval_ctx \<Rightarrow> http_request \<Rightarrow> string \<Rightarrow> approval_decision" where
  "decide_llm m j ctx req body =
     (let (hasAllow, hasDeny) = static_flags (cx_policy ctx) (rq_method req) (rq_url req) in
      case cx_policy ctx of
        None \<Rightarrow> llm_fallback m
      | Some policy \<Rightarrow>
          if hasDeny then static_decision DecisionDeny ''matched static deny rule'' policy
          else if hasAllow then static_decision DecisionAllow ''matched static allow rule'' policy
          else if lp_prompt policy = [] then llm_fallback m
          else run_judge m j ctx req body policy)"

text \<open>\<open>checkApprovalLLM\<close>: the decision and the body, or the error of reading it.\<close>

definition check_approval_llm ::
    "manager \<Rightarrow> evaluator \<Rightarrow> approval_ctx \<Rightarrow> http_request \<Rightarrow> (approval_decision \<times> string option) result" where
  "check_approval_llm m j ctx req =
     (case fst (request_body_for_approval ctx req) of
        Inl e \<Rightarrow> Inl e
      | Inr body \<Rightarrow> Inr (decide_llm m j ctx (snd (request_body_for_approval ctx req)) body, Some body))"

definition check_approval_inner ::
    "manager \<Rightarrow> approval_ctx \<Rightarrow> http_request \<Rightarrow> (approval_decision \<times> string option) result" where
  "check_approval_inner m ctx req =
     (if mg_mode m = ''passthrough'' then
        Inr (\<lparr>ad_decision = DecisionAllow, ad_approved_by = ''passthrough'',
              ad_reason = ''passthrough mode'', ad_channel = ''passthrough'',
              ad_policy_id = [], ad_llm_response = None\<rparr>, None)
      else case mg_judge m of
        Some j \<Rightarrow> check_approval_llm m j ctx req
      | None \<Rightarrow>
          Inr (\<lparr>ad_decision = DecisionDeny, ad_approved_by = ''system'',
                ad_reason = ''llm judge not configured'', ad_channel = ''system'',
                ad_policy_id = [], ad_llm_response = None\<rparr>, None))"

text \<open>\<open>CheckApproval\<close>, with the observer's two callbacks as events (outcome, mode).\<close>

datatype observer_event = OnApprovalDecision string string | OnApprovalLatency string string

definition check_approval ::
    "manager \<Rightarrow> approval_ctx \<Rightarrow> http_request \<Rightarrow>
     (approval_decision \<times> string option) result \<times> observer_event list" where
  "check_approval m ctx req =
     (let out = check_approval_inner m ctx req in
      (out,
       case out of
         Inl _ \<Rightarrow> []
       | Inr (d, _) \<Rightarrow>
           if mg_observer m
           then [OnApprovalDecision (ad_decision d) (mg_mode m), OnApprovalLatency (mg_mode m) (ad_decision d)]
           else []))"

end
