(* ===== verification/Proxy_Headers.thy ===== *)
theory Proxy_Headers imports Http_Message begin

text \<open>
  The proxy's pure functions on headers, requests and responses, from
  \<open>internal/proxy/handler.go\<close>: hop-by-hop stripping, WebSocket detection,
  keep-alive, the choice to stream a response, synthetic error responses and the redaction
  test. Deletions go through the interface \<open>header_ops\<close>.
\<close>

subsection \<open>Tokens of the Connection header\<close>

definition connection_tokens :: "string list \<Rightarrow> string list" where
  "connection_tokens vs = concat (map (\<lambda>v. map trim_space (split_byte v (CHR '',''))) vs)"

text \<open>The names the first loop of \<open>stripHopByHopHeaders\<close> deletes.\<close>

definition designated :: "header \<Rightarrow> bool \<Rightarrow> string list" where
  "designated h isWebSocket =
     filter (\<lambda>name. name \<noteq> [] \<and> \<not> (isWebSocket \<and> equal_fold name ''Upgrade''))
       (connection_tokens (hdr_values h ''Connection''))"

definition del_all :: "string list \<Rightarrow> header \<Rightarrow> header" where
  "del_all ks h = fold (\<lambda>k h. hdr_del h k) ks h"

definition strip_hop_by_hop_headers :: "header \<Rightarrow> bool \<Rightarrow> header" where
  "strip_hop_by_hop_headers h isWebSocket =
     (let h1 = del_all (designated h isWebSocket) h;
          h2 = (if isWebSocket then hdr_set h1 ''Connection'' ''Upgrade'' else hdr_del h1 ''Connection'');
          h3 = del_all [''Keep-Alive'', ''Proxy-Authenticate'', ''Proxy-Authorization'', ''TE'', ''Trailer''] h2;
          h4 = (if isWebSocket then h3 else hdr_del h3 ''Upgrade'')
      in hdr_del h4 ''Proxy-Connection'')"

subsection \<open>Tests\<close>

definition is_websocket_upgrade :: "http_request \<Rightarrow> bool" where
  "is_websocket_upgrade r =
     (list_ex (\<lambda>v. equal_fold (trim_space v) ''upgrade'') (split_byte (hdr_get (rq_header r) ''Connection'') (CHR '','')) \<and>
      equal_fold (hdr_get (rq_header r) ''Upgrade'') ''websocket'')"

definition connection_has_close :: "header \<Rightarrow> bool" where
  "connection_has_close h =
     list_ex (\<lambda>v. list_ex (\<lambda>token. equal_fold (trim_space token) ''close'') (split_byte v (CHR '','')))
       (hdr_values h ''Connection'')"

definition should_keep_alive :: "http_request \<Rightarrow> http_response \<Rightarrow> bool" where
  "should_keep_alive req resp =
     (if connection_has_close (rq_header req) then False
      else if connection_has_close (rs_header resp) then False
      else if rs_close resp then False
      else if rs_body resp \<noteq> None \<and> rs_content_length resp < 0 \<and> rs_transfer_encoding resp = [] then False
      else rq_proto_major req = 1 \<and> 1 \<le> rq_proto_minor req)"

definition maxBufferedBodySize :: nat where "maxBufferedBodySize = 10 * 1024 * 1024"
definition maxAuditBodySize :: nat where "maxAuditBodySize = 8192"
definition maxStreamingAuditSampleSize :: nat where "maxStreamingAuditSampleSize = 256 * 1024"

definition should_stream_response :: "http_response \<Rightarrow> bool" where
  "should_stream_response resp =
     (if int maxBufferedBodySize < rs_content_length resp then True
      else if rs_content_length resp = - 1 then True
      else if list_ex (\<lambda>encoding. equal_fold encoding ''chunked'') (rs_transfer_encoding resp) then True
      else contains_sub (to_lower (hdr_get (rs_header resp) ''Content-Type'')) ''text/event-stream'')"

definition sensitive_headers :: "string list" where
  "sensitive_headers =
     [''Authorization'', ''Cookie'', ''Set-Cookie'', ''Proxy-Authorization'', ''X-Api-Key'', ''X-Auth-Token'']"

definition is_sensitive_header :: "string \<Rightarrow> bool" where
  "is_sensitive_header key = (canonical_key key \<in> set sensitive_headers)"

subsection \<open>Synthetic responses\<close>

definition synthetic_response :: "int \<Rightarrow> header \<Rightarrow> string \<Rightarrow> http_response" where
  "synthetic_response status h body =
     \<lparr>rs_status = status, rs_header = h, rs_body = body_of body, rs_content_length = int (length body),
      rs_transfer_encoding = [], rs_close = False\<rparr>"

definition error_response :: "int \<Rightarrow> string \<Rightarrow> string \<Rightarrow> http_response" where
  "error_response statusCode contentType body =
     synthetic_response statusCode
       (hdr_set (hdr_set [] ''Content-Type'' contentType) ''Connection'' ''close'') body"

definition auth_response_header :: header where
  "auth_response_header =
     hdr_set (hdr_set (hdr_set [] ''Proxy-Authenticate'' (''Basic realm='' @ [CHR 0x22] @ ''CrabTrap'' @ [CHR 0x22]))
       ''Content-Type'' ''text/plain'') ''Connection'' ''close''"

definition unsupported_scheme_text :: string where
  "unsupported_scheme_text = ''Unsupported proxy authentication scheme. Only Basic authentication is supported. Set Proxy-Authorization: Basic base64(gat_xxx:) or HTTP_PROXY=http://gat_xxx:@host:port''"

definition auth_required_text :: string where
  "auth_required_text = ''Proxy authentication required. Set Proxy-Authorization: Basic base64(gat_xxx:) or HTTP_PROXY=http://gat_xxx:@host:port''"

definition unsupported_auth_scheme_response :: http_response where
  "unsupported_auth_scheme_response = synthetic_response 407 auth_response_header unsupported_scheme_text"

definition proxy_auth_required_response :: http_response where
  "proxy_auth_required_response = synthetic_response 407 auth_response_header auth_required_text"

subsection \<open>What stripping removes\<close>

definition standard_hops :: "bool \<Rightarrow> string set" where
  "standard_hops isWebSocket =
     {''Keep-Alive'', ''Proxy-Authenticate'', ''Proxy-Authorization'', ''Te'', ''Trailer'', ''Proxy-Connection''} \<union>
     (if isWebSocket then {} else {''Connection'', ''Upgrade''})"

lemma values_del_all: "hdr_values (del_all ks h) k = (if canonical_key k \<in> canonical_key ` set ks then [] else hdr_values h k)"
  unfolding del_all_def by (rule hdr.vals_fold_del)

lemma canonical_consts [simp]:
  "canonical_key ''Keep-Alive'' = ''Keep-Alive''" "canonical_key ''Proxy-Authenticate'' = ''Proxy-Authenticate''"
  "canonical_key ''Proxy-Authorization'' = ''Proxy-Authorization''" "canonical_key ''TE'' = ''Te''"
  "canonical_key ''Trailer'' = ''Trailer''" "canonical_key ''Proxy-Connection'' = ''Proxy-Connection''"
  "canonical_key ''Connection'' = ''Connection''" "canonical_key ''Upgrade'' = ''Upgrade''"
  "canonical_key ''Content-Type'' = ''Content-Type''" "canonical_key ''Content-Encoding'' = ''Content-Encoding''"
  "canonical_key ''Content-Length'' = ''Content-Length''" "canonical_key ''Retry-After'' = ''Retry-After''"
  by code_simp+

lemma designatedD:
  "n \<in> set (designated h w) \<Longrightarrow> n \<noteq> [] \<and> \<not> (w \<and> equal_fold n ''Upgrade'') \<and>
     n \<in> set (connection_tokens (hdr_values h ''Connection''))"
  unfolding designated_def by (simp only: set_filter mem_Collect_eq) blast

lemma upgrade_not_designated:
  "''Upgrade'' \<notin> canonical_key ` set (designated h True)"
proof
  assume "''Upgrade'' \<in> canonical_key ` set (designated h True)"
  then obtain n where n': "''Upgrade'' = canonical_key n" "n \<in> set (designated h True)" by (rule imageE)
  note n = n'(2) n'(1) [symmetric]
  from designatedD [OF n(1)] have no: "\<not> equal_fold n ''Upgrade''" by blast
  have tok: "list_all is_token_byte ''Upgrade''" by code_simp
  have "list_all is_token_byte n"
    using n(2) tok by (auto simp: canonical_key_def split: if_splits)
  then have cn: "canon True n = ''Upgrade''" using n(2) by (simp add: canonical_key_def)
  have lu: "lower_byte (upper_byte c) = lower_byte c" for c by (simp add: lower_upper_byte_eq)
  have "to_lower (canon u s) = to_lower s" for u s
    by (induction u s rule: canon.induct) (auto simp: to_lower_def lu)
  from this [of True n] have "to_lower n = to_lower ''Upgrade''" unfolding cn by (rule sym)
  then have "equal_fold n ''Upgrade''"
    by (rule equal_fold_of_lower) (rule token_ascii [OF tok])
  with no show False by contradiction
qed

text \<open>The values after stripping, by the names the Connection header designates.\<close>

lemma strip_values:
  "hdr_values (strip_hop_by_hop_headers h w) k =
     (if w \<and> canonical_key k = ''Connection'' then [''Upgrade'']
      else if canonical_key k \<in> standard_hops w \<union> canonical_key ` set (designated h w) then []
      else hdr_values h k)"
  by (auto simp: strip_hop_by_hop_headers_def Let_def hdr.vals_del hdr.vals_upd values_del_all standard_hops_def)

text \<open>
  Stripping is exact. For every header name, after \<open>stripHopByHopHeaders\<close> the
  values are gone if the name is one of the standard hop-by-hop headers or is designated, in
  any letter case, by any comma-separated element of any Connection value; otherwise they are
  the ones before. For a WebSocket handshake Connection is then \<open>Upgrade\<close> alone,
  and the Upgrade header survives although Connection designates it.
\<close>

theorem strip_is_exact:
  "hdr_values (strip_hop_by_hop_headers h isWebSocket) k =
     (if isWebSocket \<and> canonical_key k = ''Connection'' then [''Upgrade'']
      else if canonical_key k \<in> standard_hops isWebSocket \<or>
        (\<exists>v\<in>set (hdr_values h ''Connection''). \<exists>p\<in>set (split_byte v (CHR '','')).
           trim_space p \<noteq> [] \<and> canonical_key (trim_space p) = canonical_key k \<and>
           \<not> (isWebSocket \<and> canonical_key k = ''Upgrade''))
      then [] else hdr_values h k)"
proof -
  let ?ck = canonical_key and ?W = isWebSocket
  have up: "''Upgrade'' \<noteq> k'" if "k' \<in> ?ck ` set (designated h True)" for k'
    using that upgrade_not_designated [of h] by blast
  have des: "?ck k \<in> ?ck ` set (designated h ?W) \<longleftrightarrow>
      (\<exists>v\<in>set (hdr_values h ''Connection''). \<exists>p\<in>set (split_byte v (CHR '','')).
         trim_space p \<noteq> [] \<and> ?ck (trim_space p) = ?ck k \<and> \<not> (?W \<and> ?ck k = ''Upgrade''))" (is "?l \<longleftrightarrow> ?r")
  proof
    assume ?l
    then obtain n where n': "?ck k = ?ck n" "n \<in> set (designated h ?W)" by (rule imageE)
    note n = n'(2) n'(1) [symmetric]
    then have "\<not> (?W \<and> ?ck k = ''Upgrade'')" using upgrade_not_designated [of h] by (metis imageI)
    with n show ?r by (fastforce simp: designated_def connection_tokens_def)
  next
    assume ?r
    then obtain v p where vp: "v \<in> set (hdr_values h ''Connection'')" "p \<in> set (split_byte v (CHR '',''))"
      "trim_space p \<noteq> []" "?ck (trim_space p) = ?ck k" "\<not> (?W \<and> ?ck k = ''Upgrade'')" by blast
    have "?W \<Longrightarrow> \<not> equal_fold (trim_space p) ''Upgrade''"
    proof
      assume w: ?W and f: "equal_fold (trim_space p) ''Upgrade''"
      have "to_lower (trim_space p) = to_lower ''Upgrade''" by (rule equal_fold_no_ks [OF f]) code_simp+
      moreover have "list_all is_token_byte ''Upgrade''" by code_simp
      ultimately have "?ck ''Upgrade'' = ?ck (trim_space p)" using canonical_key_fold by metis
      with vp(4,5) w show False by simp
    qed
    then have "trim_space p \<in> set (designated h ?W)" using vp by (auto simp: designated_def connection_tokens_def)
    with vp(4) show ?l by (metis imageI)
  qed
  show ?thesis
    unfolding des [symmetric]
    by (simp add: strip_values)
qed

end
