(* ===== verification/Go_Net.thy ===== *)
theory Go_Net imports Go_Strings "HOL-Library.Word" begin

text \<open>
  What the gateway uses of Go's \<open>net\<close> package: host and port strings, IP addresses
  as 4 or 16 bytes, networks as an address and a mask of bytes, and the textual form of an
  address. Every length is a case of its own, as in the package, so malformed addresses
  are covered too.
\<close>

unbundle bit_operations_syntax

type_synonym byte = "8 word"
type_synonym ip = "byte list"

subsection \<open>Host and port\<close>

definition addr_error :: "string \<Rightarrow> string \<Rightarrow> go_error" where
  "addr_error addr why = (if addr \<noteq> [] then ''address '' @ addr @ '': '' @ why else why)"

definition split_host_port :: "string \<Rightarrow> (string \<times> string) result" where
  "split_host_port hp =
     (case last_index_byte hp (CHR '':'') of
        None \<Rightarrow> Inl (addr_error hp ''missing port in address'')
      | Some i \<Rightarrow>
          (let bracketed = (hp ! 0 = CHR ''['');
               parsed =
                 (if bracketed then
                    (case index_byte hp (CHR '']'') of
                       None \<Rightarrow> Inl ''missing ']' in address''
                     | Some e \<Rightarrow>
                         if Suc e = length hp then Inl ''missing port in address''
                         else if Suc e = i then Inr (take (e - 1) (drop 1 hp), 1, Suc e)
                         else if hp ! Suc e = CHR '':'' then Inl ''too many colons in address''
                         else Inl ''missing port in address'')
                  else if CHR '':'' \<in> set (take i hp) then Inl ''too many colons in address''
                  else Inr (take i hp, 0, 0))
           in case parsed of
                Inl e \<Rightarrow> Inl (addr_error hp e)
              | Inr (host, j, k) \<Rightarrow>
                  if CHR ''['' \<in> set (drop j hp) then Inl (addr_error hp ''unexpected '[' in address'')
                  else if CHR '']'' \<in> set (drop k hp) then Inl (addr_error hp ''unexpected ']' in address'')
                  else Inr (host, drop (Suc i) hp)))"

definition join_host_port :: "string \<Rightarrow> string \<Rightarrow> string" where
  "join_host_port host port =
     (if CHR '':'' \<in> set host then ''['' @ host @ '']:'' @ port else host @ '':'' @ port)"

lemma last_index_byte_last: "c \<notin> set t \<Longrightarrow> last_index_byte (s @ c # t) c = Some (length s)"
  by (induction s) (simp_all add: last_index_byte_None [THEN iffD2])

lemma index_byte_first: "c \<notin> set s \<Longrightarrow> index_byte (s @ c # t) c = Some (length s)"
  by (induction s) (auto simp: index_byte_def)

lemma split_join_host_port:
  assumes "CHR '':'' \<notin> set p" "CHR ''['' \<notin> set h" "CHR '']'' \<notin> set h"
    "CHR ''['' \<notin> set p" "CHR '']'' \<notin> set p"
  shows "split_host_port (join_host_port h p) = Inr (h, p)"
proof (cases "CHR '':'' \<in> set h")
  case True
  let ?s = "''['' @ h @ '']:'' @ p"
  have li: "last_index_byte ?s (CHR '':'') = Some (length h + 2)"
    using last_index_byte_last [OF assms(1), of "''['' @ h @ '']''"] by simp
  have ib: "index_byte ?s (CHR '']'') = Some (Suc (length h))"
    using index_byte_first [of "CHR '']''" "''['' @ h" "'':'' @ p"] assms(3) by simp
  show ?thesis using True assms
    by (simp add: join_host_port_def split_host_port_def li [simplified] ib [simplified] Let_def)
next
  case False
  have li: "last_index_byte (h @ CHR '':'' # p) (CHR '':'') = Some (length h)"
    by (rule last_index_byte_last [OF assms(1)])
  have hd: "(h @ CHR '':'' # p) ! 0 \<noteq> CHR ''[''" using assms(2) by (cases h) auto
  show ?thesis using False assms hd
    by (simp add: join_host_port_def split_host_port_def li Let_def)
qed

subsection \<open>Addresses\<close>

definition v4_in_v6_prefix :: ip where
  "v4_in_v6_prefix = [0, 0, 0, 0, 0, 0, 0, 0, 0, 0, 0xFF, 0xFF]"

definition ipv4 :: "byte \<Rightarrow> byte \<Rightarrow> byte \<Rightarrow> byte \<Rightarrow> ip" where
  "ipv4 a b c d = v4_in_v6_prefix @ [a, b, c, d]"

definition to4 :: "ip \<Rightarrow> ip option" where
  "to4 x =
     (if length x = 4 then Some x
      else if length x = 16 \<and> take 12 x = v4_in_v6_prefix then Some (drop 12 x)
      else None)"

definition to16 :: "ip \<Rightarrow> ip option" where
  "to16 x =
     (if length x = 4 then Some (ipv4 (x ! 0) (x ! 1) (x ! 2) (x ! 3))
      else if length x = 16 then Some x
      else None)"

definition ip_equal :: "ip \<Rightarrow> ip \<Rightarrow> bool" where
  "ip_equal x y =
     (if length x = length y then x = y
      else if length x = 4 \<and> length y = 16 then take 12 y = v4_in_v6_prefix \<and> x = drop 12 y
      else if length x = 16 \<and> length y = 4 then take 12 x = v4_in_v6_prefix \<and> drop 12 x = y
      else False)"

definition is_unspecified :: "ip \<Rightarrow> bool" where
  "is_unspecified x = (ip_equal x (ipv4 0 0 0 0) \<or> ip_equal x (replicate 16 0))"

subsection \<open>Networks\<close>

record ipnet =
  in_ip :: ip
  in_mask :: "byte list"

definition network_number_and_mask :: "ipnet \<Rightarrow> ip \<times> byte list" where
  "network_number_and_mask n =
     (case (case to4 (in_ip n) of Some x \<Rightarrow> Some x
            | None \<Rightarrow> if length (in_ip n) = 16 then Some (in_ip n) else None) of
        None \<Rightarrow> ([], [])
      | Some x \<Rightarrow>
          (let m = in_mask n in
           if length m = 4 then (if length x = 4 then (x, m) else ([], []))
           else if length m = 16 then (x, if length x = 4 then drop 12 m else m)
           else ([], [])))"

definition masked :: "ip \<Rightarrow> byte list \<Rightarrow> ip" where
  "masked x m = map2 (AND) x m"

definition net_contains :: "ipnet \<Rightarrow> ip \<Rightarrow> bool" where
  "net_contains n x =
     (let (nn, m) = network_number_and_mask n;
          y = (case to4 x of Some z \<Rightarrow> z | None \<Rightarrow> x)
      in length y = length nn \<and> masked nn m = masked y m)"

text \<open>\<open>net.CIDRMask\<close>, and the network \<open>net.ParseCIDR\<close> returns.\<close>

fun cidr_mask :: "nat \<Rightarrow> nat \<Rightarrow> byte list" where
  "cidr_mask ones 0 = []"
| "cidr_mask ones (Suc k) =
     (if 8 \<le> ones then 0xFF # cidr_mask (ones - 8) k
      else NOT (push_bit (8 - ones) 1 - 1) # cidr_mask 0 k)"

definition cidr :: "ip \<Rightarrow> nat \<Rightarrow> ipnet" where
  "cidr x ones = (let m = cidr_mask ones (length x) in \<lparr>in_ip = masked x m, in_mask = m\<rparr>)"

subsection \<open>Masks of bytes\<close>

lemma high_bits: "(a::byte) AND NOT (mask k) = push_bit k (drop_bit k a)"
  by (rule bit_eqI) (auto simp: bit_simps)

lemma drop_high_bits: "drop_bit k ((a::byte) AND NOT (mask k)) = drop_bit k a"
  by (rule bit_eqI) (auto simp: bit_simps dest: bit_imp_le_length)

lemma byte_and_high: "(a::byte) AND NOT (mask k) = c AND NOT (mask k) \<longleftrightarrow> unat a div 2 ^ k = unat c div 2 ^ k"
proof -
  have "a AND NOT (mask k) = c AND NOT (mask k) \<longleftrightarrow> drop_bit k a = drop_bit k c"
    by (metis high_bits drop_high_bits)
  also have "\<dots> \<longleftrightarrow> unat (drop_bit k a) = unat (drop_bit k c)" by (rule word_unat_eq_iff)
  finally show ?thesis unfolding unat_drop_bit_eq by (simp only: drop_bit_eq_div)
qed

lemma byte_masks:
  "(b::byte) AND 240 = 16 \<longleftrightarrow> 16 \<le> unat b \<and> unat b < 32"
  "b AND 192 = 64 \<longleftrightarrow> 64 \<le> unat b \<and> unat b < 128"
  "b AND 192 = 128 \<longleftrightarrow> 128 \<le> unat b \<and> unat b < 192"
  "b AND 254 = 252 \<longleftrightarrow> 252 \<le> unat b \<and> unat b < 254"
proof -
  have m: "(240::byte) = NOT (mask 4)" "(192::byte) = NOT (mask 6)" "(254::byte) = NOT (mask 1)"
    "(16::byte) AND 240 = 16" "(64::byte) AND 192 = 64" "(128::byte) AND 192 = 128" "(252::byte) AND 254 = 252"
    by code_simp+
  have "b AND 240 = 16 \<longleftrightarrow> unat b div 2 ^ 4 = unat (16::byte) div 2 ^ 4"
    using byte_and_high [of b 4 16] m by simp
  then show "b AND 240 = 16 \<longleftrightarrow> 16 \<le> unat b \<and> unat b < 32" by (simp, arith)
  have "b AND 192 = 64 \<longleftrightarrow> unat b div 2 ^ 6 = unat (64::byte) div 2 ^ 6"
    using byte_and_high [of b 6 64] m by simp
  then show "b AND 192 = 64 \<longleftrightarrow> 64 \<le> unat b \<and> unat b < 128" by (simp, arith)
  have "b AND 192 = 128 \<longleftrightarrow> unat b div 2 ^ 6 = unat (128::byte) div 2 ^ 6"
    using byte_and_high [of b 6 128] m by simp
  then show "b AND 192 = 128 \<longleftrightarrow> 128 \<le> unat b \<and> unat b < 192" by (simp, arith)
  have "b AND 254 = 252 \<longleftrightarrow> unat b div 2 ^ 1 = unat (252::byte) div 2 ^ 1"
    using byte_and_high [of b 1 252] unfolding m(3) [symmetric] m(7) .
  then show "b AND 254 = 252 \<longleftrightarrow> 252 \<le> unat b \<and> unat b < 254" by (simp, arith)
qed

lemma byte_and_255 [simp]: "(a::byte) AND 255 = a"
proof -
  have "(255::byte) = - 1" by simp
  then show ?thesis by (simp only: and.right_neutral)
qed

subsection \<open>Text of an address\<close>

definition digit_char :: "nat \<Rightarrow> char" where
  "digit_char d = char_of (if d < 10 then 48 + d else 87 + d)"

fun digits_in :: "nat \<Rightarrow> nat \<Rightarrow> nat \<Rightarrow> string" where
  "digits_in 0 base n = []"
| "digits_in (Suc fuel) base n =
     (if n < base then [digit_char n] else digits_in fuel base (n div base) @ [digit_char (n mod base)])"

text \<open>Decimal and lower-case hexadecimal text of a number; the number bounds its digits.\<close>

definition dec :: "nat \<Rightarrow> string" where "dec n = digits_in (Suc n) 10 n"

definition itoa :: "int \<Rightarrow> string" where
  "itoa i = (if i < 0 then CHR ''-'' # dec (nat (- i)) else dec (nat i))"

definition hex :: "nat \<Rightarrow> string" where "hex n = digits_in (Suc n) 16 n"

fun groups16 :: "byte list \<Rightarrow> nat list" where
  "groups16 (a # b # rest) = (unat a * 256 + unat b) # groups16 rest"
| "groups16 _ = []"

text \<open>The first longest run of at least two zero groups, as start and length.\<close>

definition zero_run :: "nat list \<Rightarrow> nat \<times> nat" where
  "zero_run gs = fold (\<lambda>i (start, len).
      let l = length (takeWhile (\<lambda>g. g = 0) (drop i gs))
      in if 2 \<le> l \<and> len < l then (i, l) else (start, len)) [0..<length gs] (0, 0)"

definition ipv6_string :: "byte list \<Rightarrow> string" where
  "ipv6_string x =
     (let gs = groups16 x; (start, len) = zero_run gs in
      if len = 0 then join (map hex gs) '':''
      else join (map hex (take start gs)) '':'' @ ''::'' @ join (map hex (drop (start + len) gs)) '':'')"

definition ip_string :: "ip \<Rightarrow> string" where
  "ip_string x =
     (if x = [] then ''<nil>''
      else if length x \<noteq> 4 \<and> length x \<noteq> 16 then
        CHR ''?'' # concat (map (\<lambda>b. [digit_char (unat b div 16), digit_char (unat b mod 16)]) x)
      else case to4 x of
        Some y \<Rightarrow> join (map (\<lambda>b. dec (unat b)) y) ''.''
      | None \<Rightarrow> ipv6_string x)"

subsection \<open>Quoting\<close>

text \<open>
  The verb \<open>%q\<close> of \<open>fmt\<close> on a string: quotes, backslashes and control
  bytes are escaped; bytes from 128 are kept, as they are when they form printable text.
\<close>

definition quote_byte :: "char \<Rightarrow> string" where
  "quote_byte c = (let n = (of_char c :: nat) in
     if n = 34 then [CHR 0x5C, CHR 0x22] else if n = 92 then [CHR 0x5C, CHR 0x5C]
     else if n = 7 then [CHR 0x5C, CHR ''a''] else if n = 8 then [CHR 0x5C, CHR ''b'']
     else if n = 12 then [CHR 0x5C, CHR ''f''] else if n = 10 then [CHR 0x5C, CHR ''n'']
     else if n = 13 then [CHR 0x5C, CHR ''r''] else if n = 9 then [CHR 0x5C, CHR ''t'']
     else if n = 11 then [CHR 0x5C, CHR ''v'']
     else if n < 32 \<or> n = 127 then [CHR 0x5C, CHR ''x'', digit_char (n div 16), digit_char (n mod 16)]
     else [c])"

definition quote_str :: "string \<Rightarrow> string" where
  "quote_str s = [CHR 0x22] @ concat (map quote_byte s) @ [CHR 0x22]"

definition nl :: string where "nl = [CHR 0x0A]"
definition dash :: string where "dash = [CHR 0xE2, CHR 0x80, CHR 0x94]"

definition in_quotes :: "string \<Rightarrow> string" where "in_quotes s = CHR 0x22 # s @ [CHR 0x22]"

end
