(* ===== verification/Proxy_Auth.thy ===== *)
theory Proxy_Auth imports Proxy_Headers Go_Net begin

text \<open>
  Proxy credentials (\<open>extractProxyAuth\<close> of \<open>internal/proxy/handler.go\<close>)
  and the decoder of \<open>encoding/base64\<close> it relies on, padded and raw. Line breaks in
  the encoded text are skipped, as the package does; everything else that is not in the
  alphabet is an error.
\<close>

subsection \<open>Base64\<close>

definition b64_digit :: "nat \<Rightarrow> char" where
  "b64_digit n =
     (if n < 26 then char_of (65 + n) else if n < 52 then char_of (71 + n)
      else if n < 62 then char_of (n - 4) else if n = 62 then CHR ''+'' else CHR ''/'')"

definition b64_value :: "char \<Rightarrow> nat option" where
  "b64_value c = (let n = (of_char c :: nat) in
     if 65 \<le> n \<and> n \<le> 90 then Some (n - 65)
     else if 97 \<le> n \<and> n \<le> 122 then Some (n - 71)
     else if 48 \<le> n \<and> n \<le> 57 then Some (n + 4)
     else if c = CHR ''+'' then Some 62 else if c = CHR ''/'' then Some 63 else None)"

definition b64_byte1 :: "nat \<Rightarrow> nat \<Rightarrow> char" where "b64_byte1 a b = char_of (a * 4 + b div 16)"
definition b64_byte2 :: "nat \<Rightarrow> nat \<Rightarrow> char" where "b64_byte2 b c = char_of (b mod 16 * 16 + c div 4)"
definition b64_byte3 :: "nat \<Rightarrow> nat \<Rightarrow> char" where "b64_byte3 c d = char_of (c mod 4 * 64 + d)"

text \<open>The last, short quantum; with padding it has four characters.\<close>

definition b64_tail :: "bool \<Rightarrow> string \<Rightarrow> string option" where
  "b64_tail padded q =
     (let body = (if padded then takeWhile (\<lambda>c. c \<noteq> CHR ''='') q else q)
      in if padded \<and> (length q \<noteq> 4 \<or> list_ex (\<lambda>c. c \<noteq> CHR ''='') (drop (length body) q)) then None
         else case map b64_value body of
           [Some a, Some b] \<Rightarrow> Some [b64_byte1 a b]
         | [Some a, Some b, Some c] \<Rightarrow> Some [b64_byte1 a b, b64_byte2 b c]
         | _ \<Rightarrow> None)"

fun b64_quanta :: "bool \<Rightarrow> string \<Rightarrow> string option" where
  "b64_quanta padded [] = Some []"
| "b64_quanta padded (p # q # r # s # rest) =
     (case (b64_value p, b64_value q, b64_value r, b64_value s) of
        (Some a, Some b, Some c, Some d) \<Rightarrow>
          map_option (\<lambda>t. b64_byte1 a b # b64_byte2 b c # b64_byte3 c d # t) (b64_quanta padded rest)
      | _ \<Rightarrow> if rest = [] then b64_tail padded [p, q, r, s] else None)"
| "b64_quanta padded q = b64_tail padded q"

definition b64_decode :: "bool \<Rightarrow> string \<Rightarrow> string option" where
  "b64_decode padded s = b64_quanta padded (filter (\<lambda>c. c \<noteq> CHR 0x0A \<and> c \<noteq> CHR 0x0D) s)"

text \<open>The encoder, as clients compute it.\<close>

fun b64_encode :: "bool \<Rightarrow> string \<Rightarrow> string" where
  "b64_encode padded [] = []"
| "b64_encode padded [x] =
     (let a = (of_char x :: nat) in
      [b64_digit (a div 4), b64_digit (a mod 4 * 16)] @ (if padded then ''=='' else []))"
| "b64_encode padded [x, y] =
     (let a = (of_char x :: nat); b = (of_char y :: nat) in
      [b64_digit (a div 4), b64_digit (a mod 4 * 16 + b div 16), b64_digit (b mod 16 * 4)] @ (if padded then ''='' else []))"
| "b64_encode padded (x # y # z # rest) =
     (let a = (of_char x :: nat); b = (of_char y :: nat); c = (of_char z :: nat) in
      [b64_digit (a div 4), b64_digit (a mod 4 * 16 + b div 16), b64_digit (b mod 16 * 4 + c div 64), b64_digit (c mod 64)] @
      b64_encode padded rest)"

subsection \<open>Credentials\<close>

record proxy_auth =
  pa_gateway_token :: string

definition no_auth :: proxy_auth where "no_auth = \<lparr>pa_gateway_token = []\<rparr>"

definition unsupported_scheme_error :: go_error where
  "unsupported_scheme_error = ''unsupported auth scheme in Proxy-Authorization header: only Basic is supported''"

definition extract_proxy_auth :: "string \<Rightarrow> proxy_auth result" where
  "extract_proxy_auth h =
     (if h = [] then Inr no_auth
      else if length h < 6 \<or> \<not> equal_fold (take 6 h) ''Basic '' then Inl unsupported_scheme_error
      else
        (let encoded = drop 6 h in
         case (case b64_decode True encoded of Some d \<Rightarrow> Some d | None \<Rightarrow> b64_decode False encoded) of
           None \<Rightarrow> Inr no_auth
         | Some decoded \<Rightarrow>
             (let username = (case index_byte decoded (CHR '':'') of Some i \<Rightarrow> take i decoded | None \<Rightarrow> decoded)
              in Inr (if has_prefix username ''gat_'' then \<lparr>pa_gateway_token = username\<rparr> else no_auth))))"

subsection \<open>Round trip of the encoding\<close>

lemma of_char_b64_digit:
  "n < 64 \<Longrightarrow> (of_char (b64_digit n) :: nat) =
    (if n < 26 then 65 + n else if n < 52 then 71 + n else if n < 62 then n - 4 else if n = 62 then 43 else 47)"
  by (auto simp: b64_digit_def)

lemma b64_value_digit [simp]: "n < 64 \<Longrightarrow> b64_value (b64_digit n) = Some n"
proof -
  assume n: "n < 64"
  have "b64_digit n = CHR ''+'' \<longleftrightarrow> n = 62" "b64_digit n = CHR ''/'' \<longleftrightarrow> n = 63"
    unfolding char_eq_of_char [of "b64_digit n"] of_char_b64_digit [OF n] using n by auto
  then show ?thesis using n unfolding b64_value_def of_char_b64_digit [OF n] by (auto simp: Let_def)
qed

lemma b64_digit_clean:
  "n < 64 \<Longrightarrow> b64_digit n \<noteq> CHR ''='' \<and> b64_digit n \<noteq> CHR 0x0A \<and> b64_digit n \<noteq> CHR 0x0D"
  by (auto simp: char_eq_of_char [of "b64_digit n"] of_char_b64_digit)

text \<open>The bytes of a quantum, from the sextets the encoder computes.\<close>

lemma b64_arith:
  fixes a b c :: nat
  assumes "b < 256" "c < 256"
  shows "a div 4 * 4 + a mod 4 * 16 div 16 = a" "a div 4 * 4 + (a mod 4 * 16 + b div 16) div 16 = a"
    "(a mod 4 * 16 + b div 16) mod 16 * 16 + b mod 16 * 4 div 4 = b"
    "(a mod 4 * 16 + b div 16) mod 16 * 16 + (b mod 16 * 4 + c div 64) div 4 = b"
    "(b mod 16 * 4 + c div 64) mod 4 * 64 + c mod 64 = c"
proof -
  have lt: "b div 16 < 16" "c div 64 < 4" using assms by (simp_all add: less_mult_imp_div_less)
  show "a div 4 * 4 + a mod 4 * 16 div 16 = a" "a div 4 * 4 + (a mod 4 * 16 + b div 16) div 16 = a"
    "(a mod 4 * 16 + b div 16) mod 16 * 16 + b mod 16 * 4 div 4 = b"
    "(a mod 4 * 16 + b div 16) mod 16 * 16 + (b mod 16 * 4 + c div 64) div 4 = b"
    "(b mod 16 * 4 + c div 64) mod 4 * 64 + c mod 64 = c"
    using lt by simp_all
qed

lemma b64_bytes [simp]:
  "b64_byte1 ((of_char x :: nat) div 4) (of_char x mod 4 * 16) = x"
  "b64_byte1 ((of_char x :: nat) div 4) (of_char x mod 4 * 16 + of_char y div 16) = x"
  "b64_byte2 ((of_char x :: nat) mod 4 * 16 + of_char y div 16) (of_char y mod 16 * 4) = y"
  "b64_byte2 ((of_char x :: nat) mod 4 * 16 + of_char y div 16) (of_char y mod 16 * 4 + of_char z div 64) = y"
  "b64_byte3 ((of_char y :: nat) mod 16 * 4 + of_char z div 64) (of_char z mod 64) = z"
proof -
  have lt: "(of_char y :: nat) < 256" "(of_char z :: nat) < 256" by simp_all
  show "b64_byte1 ((of_char x :: nat) div 4) (of_char x mod 4 * 16) = x"
    "b64_byte1 ((of_char x :: nat) div 4) (of_char x mod 4 * 16 + of_char y div 16) = x"
    "b64_byte2 ((of_char x :: nat) mod 4 * 16 + of_char y div 16) (of_char y mod 16 * 4) = y"
    "b64_byte2 ((of_char x :: nat) mod 4 * 16 + of_char y div 16) (of_char y mod 16 * 4 + of_char z div 64) = y"
    "b64_byte3 ((of_char y :: nat) mod 16 * 4 + of_char z div 64) (of_char z mod 64) = z"
    unfolding b64_byte1_def b64_byte2_def b64_byte3_def b64_arith [OF lt] char_of_char by (rule refl)+
qed

lemma b64_small:
  fixes a b :: nat
  assumes "a < 256" "b < 256"
  shows "a div 4 < 64" "a mod 4 * 16 < 64" "a mod 16 * 4 < 64" "a mod 4 * 16 + b div 16 < 64"
    "a mod 16 * 4 + b div 64 < 64" "a mod 64 < 64"
proof -
  have "a mod 4 < 4" "a mod 16 < 16" "b div 16 < 16" "b div 64 < 4" "a div 4 < 64"
    using assms by (simp_all add: less_mult_imp_div_less)
  then show "a div 4 < 64" "a mod 4 * 16 < 64" "a mod 16 * 4 < 64" "a mod 4 * 16 + b div 16 < 64"
    "a mod 16 * 4 + b div 64 < 64" "a mod 64 < 64" by simp_all
qed

lemma of_char_256: "(of_char c :: nat) < 256"
  by simp

lemmas b64_sextets = b64_small [OF of_char_256 of_char_256]

lemma b64_value_pad [simp]: "b64_value (CHR ''='') = None"
  by code_simp

lemma b64_quanta_encode: "b64_quanta padded (b64_encode padded s) = Some s"
proof (induction padded s rule: b64_encode.induct)
  case (2 padded x)
  then show ?case using b64_sextets b64_digit_clean by (simp add: b64_tail_def Let_def)
next
  case (3 padded x y)
  then show ?case using b64_sextets b64_digit_clean
    by (simp add: b64_tail_def Let_def)
next
  case (4 padded x y z rest)
  then show ?case using b64_sextets
    by (simp add: Let_def)
qed simp

lemma b64_encode_clean: "filter (\<lambda>c. c \<noteq> CHR 0x0A \<and> c \<noteq> CHR 0x0D) (b64_encode padded s) = b64_encode padded s"
proof (induction padded s rule: b64_encode.induct)
  case (2 padded x)
  then show ?case using b64_sextets b64_digit_clean by (simp add: Let_def)
next
  case (3 padded x y)
  then show ?case using b64_sextets b64_digit_clean by (simp add: Let_def)
next
  case (4 padded x y z rest)
  then show ?case using b64_sextets b64_digit_clean
    by (simp add: Let_def)
qed simp

lemma b64_roundtrip: "b64_decode padded (b64_encode padded s) = Some s"
  by (simp add: b64_decode_def b64_encode_clean b64_quanta_encode)

text \<open>Raw text is refused by the padded decoder, or decodes to the same bytes.\<close>

lemma b64_quanta_raw: "b64_quanta True (b64_encode False s) \<in> {None, Some s}"
proof -
  have "b64_quanta padded' (b64_encode padded s) \<in> {None, Some s}" if "padded' \<and> \<not> padded" for padded padded'
    using that
  proof (induction padded s rule: b64_encode.induct)
    case (4 padded x y z rest)
    then show ?case using b64_sextets
      by (auto simp: Let_def)
  qed (simp_all add: Let_def b64_tail_def)
  then show ?thesis by blast
qed

lemma b64_either:
  "(case b64_decode True (b64_encode padded s) of Some d \<Rightarrow> Some d | None \<Rightarrow> b64_decode False (b64_encode padded s)) = Some s"
proof (cases padded)
  case True
  then show ?thesis by (simp add: b64_roundtrip)
next
  case False
  then show ?thesis using b64_quanta_raw [of s] b64_roundtrip [of False s]
    by (auto simp: b64_decode_def b64_encode_clean)
qed

subsection \<open>Properties\<close>

text \<open>
  Credentials round-trip: a client that sends its gateway token, a colon and
  any password, base64-encoded with or without padding, under the scheme name Basic in any
  letter case, is identified by exactly that token.
\<close>

theorem proxy_auth_roundtrip:
  assumes "length scheme = 6" "equal_fold scheme ''Basic ''"
    and "has_prefix token ''gat_''" "CHR '':'' \<notin> set token"
  shows "extract_proxy_auth (scheme @ b64_encode padded (token @ '':'' @ password)) = Inr \<lparr>pa_gateway_token = token\<rparr>"
proof -
  have i: "index_byte (token @ CHR '':'' # password) (CHR '':'') = Some (length token)"
    by (rule index_byte_first [OF assms(4)])
  have ne: "scheme \<noteq> []" using assms(1) by auto
  show ?thesis using assms ne i
    by (simp add: extract_proxy_auth_def b64_either Let_def)
qed

theorem proxy_auth_roundtrip_witness:
  "extract_proxy_auth (''bASIC '' @ b64_encode True (''gat_k7'' @ '':'' @ ''x'')) = Inr \<lparr>pa_gateway_token = ''gat_k7''\<rparr>"
  by (rule proxy_auth_roundtrip) code_simp+

lemma before_index: "c \<notin> set (case index_byte s c of Some i \<Rightarrow> take i s | None \<Rightarrow> s)"
  by (induction s) (auto simp: index_byte_def split: option.splits)

text \<open>
  What the parser lets through: the only error is a scheme other than Basic on a
  non-empty header, and a token it reports is empty or starts with \<open>gat_\<close> and holds
  no colon, so nothing in the password position ever becomes part of the identity.
\<close>

theorem proxy_auth_outcomes:
  "case extract_proxy_auth h of
     Inl e \<Rightarrow> h \<noteq> [] \<and> \<not> (6 \<le> length h \<and> to_lower (take 6 h) = ''basic '') \<and> e = unsupported_scheme_error
   | Inr pa \<Rightarrow> pa_gateway_token pa = [] \<or>
       (\<exists>rest. pa_gateway_token pa = ''gat_'' @ rest \<and> CHR '':'' \<notin> set rest)"
proof (cases "h = [] \<or> length h < 6 \<or> \<not> equal_fold (take 6 h) ''Basic ''")
  case True
  have b: "to_lower ''Basic '' = ''basic ''" "ascii_text ''Basic ''" by code_simp+
  have "equal_fold (take 6 h) ''Basic ''" if "to_lower (take 6 h) = ''basic ''"
    using that b by (intro equal_fold_of_lower) simp_all
  then show ?thesis using True
    by (auto simp: extract_proxy_auth_def no_auth_def)
next
  case False
  let ?d = "case b64_decode True (drop 6 h) of Some d \<Rightarrow> Some d | None \<Rightarrow> b64_decode False (drop 6 h)"
  show ?thesis
  proof (cases ?d)
    case None
    then show ?thesis using False by (simp add: extract_proxy_auth_def Let_def no_auth_def)
  next
    case (Some d)
    let ?u = "case index_byte d (CHR '':'') of Some i \<Rightarrow> take i d | None \<Rightarrow> d"
    have "CHR '':'' \<notin> set ?u" by (rule before_index)
    moreover have "extract_proxy_auth h = Inr (if has_prefix ?u ''gat_'' then \<lparr>pa_gateway_token = ?u\<rparr> else no_auth)"
      using False Some by (simp add: extract_proxy_auth_def Let_def)
    ultimately show ?thesis by (auto simp: no_auth_def has_prefix_iff)
  qed
qed

end
