(* ===== verification/Proxy_Body.thy ===== *)
theory Proxy_Body imports Proxy_Headers Go_Net begin

text \<open>
  Bodies in the proxy (\<open>internal/proxy/handler.go\<close>): decompression of request bodies
  for the judge, truncation for the audit log, decompression and marking of response
  samples, and the reader that samples a streamed response while the client reads it. The
  decoders of \<open>compress/gzip\<close>, \<open>zlib\<close>, \<open>flate\<close> and of the brotli
  package are arguments: what they deliver for given bytes, or, for gzip and zlib, that the
  header is refused.
\<close>

record decoders =
  dc_gzip :: "string \<Rightarrow> body_stream result"
  dc_zlib :: "string \<Rightarrow> body_stream result"
  dc_flate :: "string \<Rightarrow> body_stream"
  dc_brotli :: "string \<Rightarrow> body_stream"

subsection \<open>Request bodies for the judge\<close>

text \<open>Reading at most the buffer size and one byte; on an error, what came before it counts if there is any.\<close>

definition read_layer :: "body_stream \<Rightarrow> string option" where
  "read_layer b =
     (case read_limited (Suc maxBufferedBodySize) b of
        (d, None, _) \<Rightarrow> Some d
      | (d, Some _, _) \<Rightarrow> if d \<noteq> [] then Some d else None)"

definition decompress_single_layer :: "decoders \<Rightarrow> string \<Rightarrow> string \<Rightarrow> string option" where
  "decompress_single_layer dc body encoding =
     (let enc = trim_space (to_lower encoding) in
      if enc = ''gzip'' \<or> enc = ''x-gzip'' then
        (case dc_gzip dc body of Inl _ \<Rightarrow> None | Inr gr \<Rightarrow> read_layer gr)
      else if enc = ''deflate'' then
        (case (case dc_zlib dc body of Inl _ \<Rightarrow> None | Inr zr \<Rightarrow> read_layer zr) of
           Some d \<Rightarrow> Some d
         | None \<Rightarrow> read_layer (dc_flate dc body))
      else if enc = ''br'' then read_layer (dc_brotli dc body)
      else None)"

definition encoding_layers :: "string \<Rightarrow> string list" where
  "encoding_layers encoding = filter (\<lambda>p. p \<noteq> []) (map trim_space (split_byte encoding (CHR '','')))"

text \<open>The loop over the layers, the last one first.\<close>

fun decompress_layers :: "decoders \<Rightarrow> string \<Rightarrow> string list \<Rightarrow> string option" where
  "decompress_layers dc current [] = Some current"
| "decompress_layers dc current (l # ls) =
     (case decompress_single_layer dc current l of
        None \<Rightarrow> None
      | Some decoded \<Rightarrow> decompress_layers dc decoded ls)"

definition truncated_body_marker :: string where
  "truncated_body_marker = CHR 0x0A # ''[decompressed request body truncated]''"

definition decompress_request_body :: "decoders \<Rightarrow> string \<Rightarrow> string \<Rightarrow> string option" where
  "decompress_request_body dc body encoding =
     (let layers = encoding_layers encoding in
      if layers = [] then None
      else case decompress_layers dc body (rev layers) of
        None \<Rightarrow> None
      | Some current \<Rightarrow>
          Some (if maxBufferedBodySize < length current
                then take maxBufferedBodySize current @ truncated_body_marker else current))"

subsection \<open>Audit copies\<close>

definition rune_start :: "char \<Rightarrow> bool" where
  "rune_start c = (let n = (of_char c :: nat) in n < 128 \<or> 192 \<le> n)"

fun rune_cut :: "string \<Rightarrow> nat \<Rightarrow> nat" where
  "rune_cut body 0 = 0"
| "rune_cut body (Suc n) = (if rune_start (body ! Suc n) then Suc n else rune_cut body n)"

definition truncate_body_for_audit :: "string \<Rightarrow> string" where
  "truncate_body_for_audit body =
     (if length body \<le> maxAuditBodySize then body
      else (let truncLen = rune_cut body maxAuditBodySize in
        take truncLen body @ [CHR 0x0A] @ ''[truncated: '' @ dec (length body) @
          '' bytes total, showing first '' @ dec truncLen @ '']''))"

definition append_audit_marker :: "string \<Rightarrow> string \<Rightarrow> string" where
  "append_audit_marker body marker = (if body = [] then marker else body @ [CHR 0x0A] @ marker)"

text \<open>The decoded bytes, whether decoding worked, and whether the result was cut.\<close>

definition decompress_gzip_response_prefix :: "decoders \<Rightarrow> string \<Rightarrow> string \<times> bool \<times> bool" where
  "decompress_gzip_response_prefix dc body =
     (case dc_gzip dc body of
        Inl _ \<Rightarrow> (body, False, False)
      | Inr gr \<Rightarrow>
          (case read_limited (Suc maxBufferedBodySize) gr of
             (d, Some _, _) \<Rightarrow> if d \<noteq> [] then (d, True, True) else (body, False, False)
           | (d, None, _) \<Rightarrow>
               if maxBufferedBodySize < length d then (take maxBufferedBodySize d, True, True)
               else (d, True, False)))"

definition response_body_for_audit :: "decoders \<Rightarrow> string \<Rightarrow> string \<Rightarrow> bool \<Rightarrow> bool \<Rightarrow> string" where
  "response_body_for_audit dc body contentEncoding truncated incomplete =
     (let (loggable, decompressed, trunc) =
        (if contains_sub (to_lower contentEncoding) ''gzip'' \<and> body \<noteq> [] then
           (case decompress_gzip_response_prefix dc body of
              (decoded, True, decodedTruncated) \<Rightarrow> (decoded, True, truncated \<or> decodedTruncated)
            | (_, False, _) \<Rightarrow> (body, False, truncated))
         else (body, False, truncated))
      in if trunc \<and> decompressed then append_audit_marker loggable ''[decompressed response body truncated for logging]''
         else if trunc then append_audit_marker loggable ''[response body truncated for logging]''
         else if incomplete \<and> decompressed then
           append_audit_marker loggable ''[decompressed response body incomplete while streaming to client]''
         else if incomplete then append_audit_marker loggable ''[response body incomplete while streaming to client]''
         else loggable)"

subsection \<open>The sampling reader\<close>

record response_audit_body =
  ra_content_encoding :: string
  ra_start_time :: time
  ra_sample_limit :: int
  ra_sample :: string
  ra_truncated :: bool
  ra_eof :: bool
  ra_read_err :: "go_error option"
  ra_done :: bool

text \<open>An update of the audit entry: response body, error text, duration in milliseconds.\<close>

datatype audit_update = AuditUpdate string string int

definition new_response_audit_body :: "string \<Rightarrow> time \<Rightarrow> response_audit_body" where
  "new_response_audit_body ce start =
     \<lparr>ra_content_encoding = ce, ra_start_time = start, ra_sample_limit = int maxStreamingAuditSampleSize,
      ra_sample = [], ra_truncated = False, ra_eof = False, ra_read_err = None, ra_done = False\<rparr>"

definition capture_locked :: "string \<Rightarrow> response_audit_body \<Rightarrow> response_audit_body" where
  "capture_locked chunk b =
     (if ra_sample_limit b \<le> 0 then b\<lparr>ra_truncated := True\<rparr>
      else (let remaining = ra_sample_limit b - int (length (ra_sample b)) in
        if remaining \<le> 0 then b\<lparr>ra_truncated := True\<rparr>
        else if remaining < int (length chunk) then
          b\<lparr>ra_sample := ra_sample b @ take (nat remaining) chunk, ra_truncated := True\<rparr>
        else b\<lparr>ra_sample := ra_sample b @ chunk\<rparr>))"

text \<open>\<open>finalize\<close>: the body of \<open>once.Do\<close> runs the first time only.\<close>

definition ra_finalize :: "decoders \<Rightarrow> time \<Rightarrow> response_audit_body \<Rightarrow> response_audit_body \<times> audit_update list" where
  "ra_finalize dc now b =
     (if ra_done b then (b, [])
      else (b\<lparr>ra_done := True\<rparr>,
            [AuditUpdate
               (response_body_for_audit dc (ra_sample b) (ra_content_encoding b) (ra_truncated b) (\<not> ra_eof b))
               (case ra_read_err b of None \<Rightarrow> [] | Some e \<Rightarrow> e)
               ((now - ra_start_time b) div 1000000)]))"

text \<open>How a read of the underlying body ends: with no error, at its end, or with an error.\<close>

datatype read_end = ReadOk | ReadEOF | ReadErr go_error

definition ra_read ::
    "decoders \<Rightarrow> time \<Rightarrow> string \<Rightarrow> read_end \<Rightarrow> response_audit_body \<Rightarrow> response_audit_body \<times> audit_update list" where
  "ra_read dc now chunk e b =
     (let b1 = (if chunk \<noteq> [] then capture_locked chunk b else b);
          b2 = (case e of ReadOk \<Rightarrow> b1 | ReadEOF \<Rightarrow> b1\<lparr>ra_eof := True\<rparr> | ReadErr x \<Rightarrow> b1\<lparr>ra_read_err := Some x\<rparr>)
      in if e \<noteq> ReadOk then ra_finalize dc now b2 else (b2, []))"

definition ra_close ::
    "decoders \<Rightarrow> time \<Rightarrow> go_error option \<Rightarrow> response_audit_body \<Rightarrow> response_audit_body \<times> audit_update list" where
  "ra_close dc now err b =
     (let b1 = (if err \<noteq> None \<and> ra_read_err b = None then b\<lparr>ra_read_err := err\<rparr> else b)
      in ra_finalize dc now b1)"

end
