(* ===== verification/Ssrf.thy ===== *)
theory Ssrf imports Go_Net begin

text \<open>
  Protection against server-side request forgery, from \<open>internal/proxy/handler.go\<close>:
  the blocked networks, the embedded IPv4 addresses of the IPv6 transition mechanisms,
  \<open>isBlockedIP\<close>, and the two functions that resolve a host name and decide which
  address may be dialled. The resolver (\<open>net.DefaultResolver\<close>) and the dialer are
  arguments.
\<close>

definition blocked_networks :: "ipnet list" where
  "blocked_networks =
     [cidr [0, 0, 0, 0] 8, cidr [127, 0, 0, 0] 8, cidr [10, 0, 0, 0] 8, cidr [172, 16, 0, 0] 12,
      cidr [192, 168, 0, 0] 16, cidr [169, 254, 0, 0] 16, cidr [100, 64, 0, 0] 10,
      cidr [0, 0, 0, 0, 0, 0, 0, 0, 0, 0, 0, 0, 0, 0, 0, 1] 128,
      cidr [0xFC, 0, 0, 0, 0, 0, 0, 0, 0, 0, 0, 0, 0, 0, 0, 0] 7,
      cidr [0xFE, 0x80, 0, 0, 0, 0, 0, 0, 0, 0, 0, 0, 0, 0, 0, 0] 10,
      cidr [0, 0x64, 0xFF, 0x9B, 0, 0, 0, 0, 0, 0, 0, 0, 0, 0, 0, 0] 96,
      cidr [0x20, 2, 0, 0, 0, 0, 0, 0, 0, 0, 0, 0, 0, 0, 0, 0] 16]"

definition nat64_prefix :: ipnet where
  "nat64_prefix = cidr [0, 0x64, 0xFF, 0x9B, 0, 0, 0, 0, 0, 0, 0, 0, 0, 0, 0, 0] 96"

definition sixtofour_prefix :: ipnet where
  "sixtofour_prefix = cidr [0x20, 2, 0, 0, 0, 0, 0, 0, 0, 0, 0, 0, 0, 0, 0, 0] 16"

definition extract_embedded_ipv4 :: "ip \<Rightarrow> ip option" where
  "extract_embedded_ipv4 x =
     (case to16 x of
        None \<Rightarrow> None
      | Some y \<Rightarrow>
          if net_contains nat64_prefix y then Some (ipv4 (y ! 12) (y ! 13) (y ! 14) (y ! 15))
          else if net_contains sixtofour_prefix y then Some (ipv4 (y ! 2) (y ! 3) (y ! 4) (y ! 5))
          else None)"

text \<open>The loop over the blocked networks, with the inner loop over the allowed ones.\<close>

fun blocked_by :: "ipnet list \<Rightarrow> ipnet list \<Rightarrow> ip \<Rightarrow> bool" where
  "blocked_by [] allowed x = False"
| "blocked_by (n # ns) allowed x =
     (if net_contains n x then \<not> list_ex (\<lambda>a. net_contains a x) allowed
      else blocked_by ns allowed x)"

lemma to4_ipv4 [simp]: "to4 (ipv4 a b c d) = Some [a, b, c, d]"
  by (simp add: to4_def ipv4_def v4_in_v6_prefix_def)

lemma to4_length: "to4 x = Some y \<Longrightarrow> length y = 4"
  by (auto simp: to4_def split: if_splits)

text \<open>A network of IPv6 addresses contains no IPv4 address.\<close>

definition v6_net :: "ipnet \<Rightarrow> bool" where
  "v6_net n = (length (in_ip n) = 16 \<and> to4 (in_ip n) = None)"

lemma net_contains_v6_v4: "v6_net n \<Longrightarrow> to4 x = Some y \<Longrightarrow> \<not> net_contains n x"
  by (auto simp: v6_net_def net_contains_def network_number_and_mask_def Let_def dest: to4_length split: if_splits)

lemma v6_prefixes: "v6_net nat64_prefix" "v6_net sixtofour_prefix"
  by code_simp+

lemma extract_v4_none: "to4 x = Some y \<Longrightarrow> extract_embedded_ipv4 x = None"
proof -
  assume x: "to4 x = Some y"
  have "to4 z = Some y" if "to16 x = Some z" for z
    using x that
    by (auto simp: to4_def to16_def ipv4_def v4_in_v6_prefix_def split: if_splits)
      (auto simp: length_Suc_conv numeral_eq_Suc)
  then show ?thesis
    by (auto simp: extract_embedded_ipv4_def net_contains_v6_v4 v6_prefixes split: option.split)
qed

lemma extract_is_v4: "extract_embedded_ipv4 x = Some e \<Longrightarrow> \<exists>y. to4 e = Some y"
  by (auto simp: extract_embedded_ipv4_def split: option.splits if_splits)

function is_blocked_ip :: "ip \<Rightarrow> ipnet list \<Rightarrow> bool" where
  "is_blocked_ip x allowed =
     (if is_unspecified x then True
      else case extract_embedded_ipv4 x of
        Some embedded \<Rightarrow> is_blocked_ip embedded allowed
      | None \<Rightarrow> blocked_by blocked_networks allowed x)"
  by pat_completeness auto
termination
  by (relation "measure (\<lambda>(x, _). if extract_embedded_ipv4 x = None then 0 else 1)")
    (auto dest!: extract_is_v4 extract_v4_none)

declare is_blocked_ip.simps [simp del]

subsection \<open>Resolving and dialling\<close>

type_synonym resolver = "string \<Rightarrow> ip list result"

text \<open>
  \<open>safeDialContext\<close> up to the dial: the address it hands to the dialer, or the error.
\<close>

definition safe_dial_address :: "resolver \<Rightarrow> string \<Rightarrow> ipnet list \<Rightarrow> string result" where
  "safe_dial_address lookup addr allowed =
     (case split_host_port addr of
        Inl e \<Rightarrow> Inl (''safeDialContext: invalid address '' @ quote_str addr @ '': '' @ e)
      | Inr (host, port) \<Rightarrow>
          (case lookup host of
             Inl e \<Rightarrow> Inl (''safeDialContext: DNS lookup failed for '' @ quote_str host @ '': '' @ e)
           | Inr [] \<Rightarrow> Inl (''safeDialContext: no addresses found for '' @ quote_str host)
           | Inr (x # xs) \<Rightarrow>
               (case find (\<lambda>y. is_blocked_ip y allowed) (x # xs) of
                  Some y \<Rightarrow> Inl (''safeDialContext: blocked: '' @ quote_str host @ '' resolves to private IP '' @ ip_string y)
                | None \<Rightarrow> Inr (join_host_port (ip_string x) port))))"

definition safe_dial_context ::
    "resolver \<Rightarrow> (string \<Rightarrow> string \<Rightarrow> 'conn result) \<Rightarrow> string \<Rightarrow> string \<Rightarrow> ipnet list \<Rightarrow> 'conn result" where
  "safe_dial_context lookup dial network addr allowed =
     (case safe_dial_address lookup addr allowed of
        Inl e \<Rightarrow> Inl e
      | Inr a \<Rightarrow> dial network a)"

definition safe_resolve_and_check_host :: "resolver \<Rightarrow> string \<Rightarrow> ipnet list \<Rightarrow> ip result" where
  "safe_resolve_and_check_host lookup host allowed =
     (case lookup host of
        Inl e \<Rightarrow> Inl (''DNS lookup failed for '' @ quote_str host @ '': '' @ e)
      | Inr [] \<Rightarrow> Inl (''no addresses found for '' @ quote_str host)
      | Inr (x # xs) \<Rightarrow>
          (case find (\<lambda>y. is_blocked_ip y allowed) (x # xs) of
             Some y \<Rightarrow> Inl (''blocked: '' @ quote_str host @ '' resolves to private IP '' @ ip_string y)
           | None \<Rightarrow> Inr x))"

subsection \<open>Which addresses are blocked\<close>

text \<open>The private, loopback, link-local, shared and this-network IPv4 ranges, by value.\<close>

definition internal_v4 :: "byte \<Rightarrow> byte \<Rightarrow> bool" where
  "internal_v4 a b \<longleftrightarrow>
     a = 0 \<or> a = 10 \<or> a = 127 \<or> (a = 172 \<and> 16 \<le> unat b \<and> unat b < 32) \<or>
     (a = 192 \<and> b = 168) \<or> (a = 169 \<and> b = 254) \<or> (a = 100 \<and> 64 \<le> unat b \<and> unat b < 128)"

lemma blocked_networks_eval:
  "blocked_networks =
  [\<lparr>in_ip = [0,0,0,0], in_mask = [255,0,0,0]\<rparr>,
   \<lparr>in_ip = [127,0,0,0], in_mask = [255,0,0,0]\<rparr>,
   \<lparr>in_ip = [10,0,0,0], in_mask = [255,0,0,0]\<rparr>,
   \<lparr>in_ip = [172,16,0,0], in_mask = [255,240,0,0]\<rparr>,
   \<lparr>in_ip = [192,168,0,0], in_mask = [255,255,0,0]\<rparr>,
   \<lparr>in_ip = [169,254,0,0], in_mask = [255,255,0,0]\<rparr>,
   \<lparr>in_ip = [100,64,0,0], in_mask = [255,192,0,0]\<rparr>,
   \<lparr>in_ip = [0,0,0,0,0,0,0,0,0,0,0,0,0,0,0,1], in_mask = replicate 16 255\<rparr>,
   \<lparr>in_ip = [0xFC,0,0,0,0,0,0,0,0,0,0,0,0,0,0,0], in_mask = 254 # replicate 15 0\<rparr>,
   \<lparr>in_ip = [0xFE,0x80,0,0,0,0,0,0,0,0,0,0,0,0,0,0], in_mask = 255 # 192 # replicate 14 0\<rparr>,
   \<lparr>in_ip = [0,0x64,0xFF,0x9B,0,0,0,0,0,0,0,0,0,0,0,0], in_mask = replicate 12 255 @ replicate 4 0\<rparr>,
   \<lparr>in_ip = [0x20,2,0,0,0,0,0,0,0,0,0,0,0,0,0,0], in_mask = 255 # 255 # replicate 14 0\<rparr>]"
  by code_simp

lemma net_contains_v4:
  "net_contains \<lparr>in_ip = [p, q, r, s], in_mask = [m1, m2, m3, m4]\<rparr> [a, b, c, d] \<longleftrightarrow>
   a AND m1 = p AND m1 \<and> b AND m2 = q AND m2 \<and> c AND m3 = r AND m3 \<and> d AND m4 = s AND m4"
  by (auto simp: net_contains_def network_number_and_mask_def to4_def masked_def Let_def)

lemma net_contains_mapped: "to4 x = Some y \<Longrightarrow> net_contains n x = net_contains n y"
  using to4_length [of x y] by (simp add: net_contains_def to4_def)

definition blocked_v6 :: "ipnet list" where "blocked_v6 = drop 7 blocked_networks"

lemma blocked_split: "blocked_networks = take 7 blocked_networks @ blocked_v6" "list_all v6_net blocked_v6"
  unfolding blocked_v6_def by simp code_simp

lemma blocked_by_none: "list_all (\<lambda>n. \<not> net_contains n x) ns \<Longrightarrow> \<not> blocked_by ns al x"
  by (induction ns) auto

lemma blocked_by_append:
  "blocked_by (ns @ ms) al x = (if list_ex (\<lambda>n. net_contains n x) ns then blocked_by ns al x else blocked_by ms al x)"
  by (induction ns) auto

lemma blocked_by_iff:
  "blocked_by ns al x \<longleftrightarrow> list_ex (\<lambda>n. net_contains n x) ns \<and> \<not> list_ex (\<lambda>n. net_contains n x) al"
  by (induction ns) auto

lemma contains_v4_iff:
  "list_ex (\<lambda>n. net_contains n [a, b, c, d]) blocked_networks \<longleftrightarrow> internal_v4 a b"
proof -
  have t: "to4 [a,b,c,d] = Some [a,b,c,d]" by (simp add: to4_def)
  have "\<not> list_ex (\<lambda>n. net_contains n [a, b, c, d]) blocked_v6"
    using blocked_split(2) net_contains_v6_v4 [OF _ t] by (auto simp: list_ex_iff list_all_iff)
  then have "list_ex (\<lambda>n. net_contains n [a, b, c, d]) blocked_networks \<longleftrightarrow>
     list_ex (\<lambda>n. net_contains n [a, b, c, d]) (take 7 blocked_networks)"
    using blocked_split(1) by (metis list_ex_append)
  also have "\<dots> \<longleftrightarrow> internal_v4 a b"
    by (simp add: blocked_networks_eval net_contains_v4 byte_masks internal_v4_def) blast
  finally show ?thesis .
qed
text \<open>The address that decides: the embedded one, if there is one.\<close>

definition effective_ip :: "ip \<Rightarrow> ip" where
  "effective_ip x = (case extract_embedded_ipv4 x of Some e \<Rightarrow> e | None \<Rightarrow> x)"

lemma is_blocked_iff:
  "is_blocked_ip x al \<longleftrightarrow> is_unspecified x \<or> is_unspecified (effective_ip x) \<or>
     (list_ex (\<lambda>n. net_contains n (effective_ip x)) blocked_networks \<and>
      \<not> list_ex (\<lambda>n. net_contains n (effective_ip x)) al)"
proof (cases "extract_embedded_ipv4 x")
  case None
  then show ?thesis by (simp add: is_blocked_ip.simps [of x] effective_ip_def blocked_by_iff)
next
  case (Some e)
  then have "extract_embedded_ipv4 e = None" using extract_is_v4 extract_v4_none by blast
  with Some show ?thesis
    by (simp add: is_blocked_ip.simps [of x] is_blocked_ip.simps [of e] effective_ip_def blocked_by_iff)
qed

lemma list_ex_mapped: "to4 x = Some y \<Longrightarrow> list_ex (\<lambda>n. net_contains n x) ns = list_ex (\<lambda>n. net_contains n y) ns"
  by (simp add: net_contains_mapped)

lemma replicate_bytes:
  "replicate (numeral k) x = x # replicate (pred_numeral k) x"
  by (simp add: numeral_eq_Suc)

lemma unspecified_v4: "is_unspecified [a, b, c, d] \<longleftrightarrow> [a, b, c, d] = [0, 0, 0, 0]"
  "is_unspecified (ipv4 a b c d) \<longleftrightarrow> [a, b, c, d] = [0, 0, 0, 0]"
  by (auto simp: is_unspecified_def ip_equal_def ipv4_def v4_in_v6_prefix_def replicate_bytes)

lemma effective_v4 [simp]: "effective_ip [a, b, c, d] = [a, b, c, d]" "effective_ip (ipv4 a b c d) = ipv4 a b c d"
  using extract_v4_none [of "[a, b, c, d]"] extract_v4_none [of "ipv4 a b c d"]
  by (simp_all add: effective_ip_def to4_def [of "[a, b, c, d]"])

definition nat64 :: "byte \<Rightarrow> byte \<Rightarrow> byte \<Rightarrow> byte \<Rightarrow> ip" where
  "nat64 a b c d = [0, 0x64, 0xFF, 0x9B, 0, 0, 0, 0, 0, 0, 0, 0, a, b, c, d]"

definition sixtofour :: "byte \<Rightarrow> byte \<Rightarrow> byte \<Rightarrow> byte \<Rightarrow> byte list \<Rightarrow> ip" where
  "sixtofour a b c d rest = [0x20, 2, a, b, c, d] @ rest"

lemma prefix_eval:
  "nat64_prefix = \<lparr>in_ip = [0,0x64,0xFF,0x9B,0,0,0,0,0,0,0,0,0,0,0,0], in_mask = replicate 12 255 @ replicate 4 0\<rparr>"
  "sixtofour_prefix = \<lparr>in_ip = [0x20,2,0,0,0,0,0,0,0,0,0,0,0,0,0,0], in_mask = 255 # 255 # replicate 14 0\<rparr>"
  by code_simp+

lemma effective_nat64: "effective_ip (nat64 a b c d) = ipv4 a b c d"
  by (simp add: effective_ip_def extract_embedded_ipv4_def to16_def nat64_def prefix_eval net_contains_def
      network_number_and_mask_def to4_def v4_in_v6_prefix_def masked_def replicate_bytes)

lemma effective_6to4:
  assumes "length rest = 10"
  shows "effective_ip (sixtofour a b c d rest) = ipv4 a b c d"
proof -
  from assms obtain r where "rest = map r [0..<10]"
    by (metis map_nth)
  then have "rest = [r 0, r 1, r 2, r 3, r 4, r 5, r 6, r 7, r 8, r 9]" by (simp add: upt_rec numeral_eq_Suc)
  then show ?thesis
    by (simp add: effective_ip_def extract_embedded_ipv4_def to16_def sixtofour_def prefix_eval net_contains_def
      network_number_and_mask_def to4_def v4_in_v6_prefix_def masked_def replicate_bytes)
qed

lemma unspecified_embedded:
  "\<not> is_unspecified (nat64 a b c d)" "\<not> is_unspecified (sixtofour a b c d rest)"
  by (simp_all add: is_unspecified_def ip_equal_def nat64_def sixtofour_def ipv4_def v4_in_v6_prefix_def replicate_bytes)

lemma is_blocked_v4_forms:
  assumes "effective_ip x = ipv4 a b c d" and "is_unspecified x \<longrightarrow> [a, b, c, d] = [0, 0, 0, 0]"
  shows "is_blocked_ip x [] \<longleftrightarrow> internal_v4 a b"
proof -
  have "list_ex (\<lambda>n. net_contains n (ipv4 a b c d)) blocked_networks \<longleftrightarrow> internal_v4 a b"
    using contains_v4_iff list_ex_mapped [OF to4_ipv4] by metis
  moreover have "[a, b, c, d] = [0, 0, 0, 0] \<Longrightarrow> internal_v4 a b" by (simp add: internal_v4_def)
  ultimately show ?thesis using assms by (auto simp: is_blocked_iff unspecified_v4)
qed

subsection \<open>Properties\<close>

text \<open>
  C5: An internal IPv4 address is blocked however it is spelled, and a public one is
  blocked in no spelling: four bytes, IPv4-mapped, inside the NAT64 prefix, or as a 6to4
  address with any interface part. Internal is the list of ranges in \<open>internal_v4\<close>.
\<close>

theorem internal_v4_blocked_in_every_spelling:
  assumes "length rest = 10" and "x \<in> {[a, b, c, d], ipv4 a b c d, nat64 a b c d, sixtofour a b c d rest}"
  shows "is_blocked_ip x [] \<longleftrightarrow> internal_v4 a b"
proof -
  have "is_blocked_ip [a, b, c, d] [] \<longleftrightarrow> internal_v4 a b"
    by (auto simp: is_blocked_iff contains_v4_iff unspecified_v4 internal_v4_def)
  moreover have "is_blocked_ip (ipv4 a b c d) [] \<longleftrightarrow> internal_v4 a b"
    by (rule is_blocked_v4_forms) (auto simp: unspecified_v4)
  moreover have "is_blocked_ip (nat64 a b c d) [] \<longleftrightarrow> internal_v4 a b"
    by (rule is_blocked_v4_forms) (simp_all add: effective_nat64 unspecified_embedded)
  moreover have "is_blocked_ip (sixtofour a b c d rest) [] \<longleftrightarrow> internal_v4 a b"
    by (rule is_blocked_v4_forms) (simp_all add: effective_6to4 assms(1) unspecified_embedded)
  ultimately show ?thesis using assms(2) by blast
qed

theorem internal_v4_blocked_in_every_spelling_witness:
  "is_blocked_ip (nat64 127 0 0 1) [] \<and> \<not> is_blocked_ip (sixtofour 8 8 8 8 (replicate 10 1)) []"
  using internal_v4_blocked_in_every_spelling [of "replicate 10 1" "nat64 127 0 0 1" 127 0 0 1]
    internal_v4_blocked_in_every_spelling [of "replicate 10 1" "sixtofour 8 8 8 8 (replicate 10 1)" 8 8 8 8]
  by (simp add: internal_v4_def)

text \<open>
  The allowlist exempts exactly the addresses it covers, judged by the embedded
  IPv4 address when there is one, and never the unspecified address: an address is blocked
  when it is unspecified (itself or embedded), or lies in a blocked network and in no
  allowed one.
\<close>

theorem allowlist_exempts_only_what_it_covers:
  "is_blocked_ip x allowed \<longleftrightarrow>
     is_unspecified x \<or> is_unspecified (effective_ip x) \<or>
     (is_blocked_ip (effective_ip x) [] \<and> \<not> list_ex (\<lambda>n. net_contains n (effective_ip x)) allowed)"
proof -
  have "effective_ip (effective_ip x) = effective_ip x"
    using extract_is_v4 extract_v4_none
    by (auto simp: effective_ip_def split: option.split) (metis option.distinct(1))
  then show ?thesis by (auto simp: is_blocked_iff [of x] is_blocked_iff [of "effective_ip x"])
qed

lemma contains_own_prefix:
  assumes "extract_embedded_ipv4 x = None"
  shows "\<not> net_contains nat64_prefix x" "\<not> net_contains sixtofour_prefix x"
proof -
  have nets: "length (fst (network_number_and_mask nat64_prefix)) = 16"
    "length (fst (network_number_and_mask sixtofour_prefix)) = 16" by code_simp+
  have "\<not> net_contains nat64_prefix x \<and> \<not> net_contains sixtofour_prefix x"
  proof (cases "to4 x")
    case (Some y)
    then show ?thesis using net_contains_v6_v4 v6_prefixes by blast
  next
    case None
    show ?thesis
    proof (cases "length x = 16")
      case True
      then show ?thesis using assms by (simp add: extract_embedded_ipv4_def to16_def split: if_splits)
    next
      case False
      then show ?thesis using None nets by (simp add: net_contains_def case_prod_beta)
    qed
  qed
  then show "\<not> net_contains nat64_prefix x" "\<not> net_contains sixtofour_prefix x" by blast+
qed

text \<open>
  The two transition prefixes in the list of blocked networks never decide: whenever
  the loop over that list runs, the address lies in neither of them, so the loop answers as
  if they were not listed.
\<close>

theorem transition_entries_never_decide:
  assumes "extract_embedded_ipv4 x = None"
  shows "blocked_by blocked_networks allowed x = blocked_by (take 10 blocked_networks) allowed x"
proof -
  have "blocked_networks = take 10 blocked_networks @ [nat64_prefix, sixtofour_prefix]"
    by (simp add: blocked_networks_def nat64_prefix_def sixtofour_prefix_def)
  then have "blocked_by blocked_networks allowed x =
      blocked_by (take 10 blocked_networks @ [nat64_prefix, sixtofour_prefix]) allowed x" by (rule arg_cong)
  then show ?thesis using contains_own_prefix [OF assms] by (auto simp: blocked_by_iff)
qed

theorem transition_entries_never_decide_witness:
  "blocked_by blocked_networks [] (ipv4 8 8 8 8) = blocked_by (take 10 blocked_networks) [] (ipv4 8 8 8 8)"
  by (rule transition_entries_never_decide [OF extract_v4_none [OF to4_ipv4]])

text \<open>
  Native IPv6: outside the two transition prefixes an IPv6 address is blocked exactly
  when it is unspecified, the loopback address, unique local or link-local.
\<close>

theorem native_ipv6_blocked_ranges:
  assumes "length x = 16" and "to4 x = None" and "extract_embedded_ipv4 x = None"
  shows "is_blocked_ip x [] \<longleftrightarrow> x = replicate 16 0 \<or> x = replicate 15 0 @ [1] \<or>
    unat (x ! 0) \<in> {252, 253} \<or> (x ! 0 = 254 \<and> 128 \<le> unat (x ! 1) \<and> unat (x ! 1) < 192)"
proof -
  have v4: "\<not> net_contains n x" if "n \<in> set (take 7 blocked_networks)" for n
  proof -
    have "list_all (\<lambda>n. length (fst (network_number_and_mask n)) = 4) (take 7 blocked_networks)" by code_simp
    then show ?thesis using assms(1,2) that by (auto simp: net_contains_def case_prod_beta list_all_iff)
  qed
  obtain r where "x = map r [0..<16]" using assms(1) by (metis map_nth)
  then have x: "x = [r 0, r 1, r 2, r 3, r 4, r 5, r 6, r 7, r 8, r 9, r 10, r 11, r 12, r 13, r 14, r 15]"
    by (simp add: upt_rec numeral_eq_Suc)
  have nets: "blocked_networks = take 7 blocked_networks @
      [cidr [0,0,0,0,0,0,0,0,0,0,0,0,0,0,0,1] 128, cidr [0xFC,0,0,0,0,0,0,0,0,0,0,0,0,0,0,0] 7,
       cidr [0xFE,0x80,0,0,0,0,0,0,0,0,0,0,0,0,0,0] 10, nat64_prefix, sixtofour_prefix]"
    by (simp add: blocked_networks_def nat64_prefix_def sixtofour_prefix_def)
  have ev: "cidr [0,0,0,0,0,0,0,0,0,0,0,0,0,0,0,1] 128 =
      \<lparr>in_ip = [0,0,0,0,0,0,0,0,0,0,0,0,0,0,0,1], in_mask = replicate 16 255\<rparr>"
    "cidr [0xFC,0,0,0,0,0,0,0,0,0,0,0,0,0,0,0] 7 =
      \<lparr>in_ip = [0xFC,0,0,0,0,0,0,0,0,0,0,0,0,0,0,0], in_mask = 254 # replicate 15 0\<rparr>"
    "cidr [0xFE,0x80,0,0,0,0,0,0,0,0,0,0,0,0,0,0] 10 =
      \<lparr>in_ip = [0xFE,0x80,0,0,0,0,0,0,0,0,0,0,0,0,0,0], in_mask = 255 # 192 # replicate 14 0\<rparr>"
    by code_simp+
  note calc = ev net_contains_def network_number_and_mask_def masked_def replicate_bytes to4_def v4_in_v6_prefix_def
  have lo: "net_contains (cidr [0,0,0,0,0,0,0,0,0,0,0,0,0,0,0,1] 128) x \<longleftrightarrow> x = replicate 15 0 @ [1]"
    using assms(2) x by (simp add: calc split: if_splits)
  have ul: "net_contains (cidr [0xFC,0,0,0,0,0,0,0,0,0,0,0,0,0,0,0] 7) x \<longleftrightarrow> r 0 AND 254 = 252"
    using assms(2) x by (simp add: calc split: if_splits)
  have ll: "net_contains (cidr [0xFE,0x80,0,0,0,0,0,0,0,0,0,0,0,0,0,0] 10) x \<longleftrightarrow> r 0 = 254 \<and> r 1 AND 192 = 128"
    using assms(2) x by (simp add: calc split: if_splits)
  have "list_ex (\<lambda>n. net_contains n x) blocked_networks \<longleftrightarrow>
      x = replicate 15 0 @ [1] \<or> r 0 AND 254 = 252 \<or> (r 0 = 254 \<and> r 1 AND 192 = 128)"
    by (subst nets) (use v4 contains_own_prefix [OF assms(3)] lo ul ll in \<open>auto simp: list_ex_iff\<close>)
  moreover have "is_unspecified x \<longleftrightarrow> x = replicate 16 0"
    using assms(1,2) by (auto simp: is_unspecified_def ip_equal_def to4_def ipv4_def v4_in_v6_prefix_def split: if_splits)
  moreover have "effective_ip x = x" using assms(3) by (simp add: effective_ip_def)
  moreover have "unat (x ! 0) \<in> {252, 253} \<longleftrightarrow> 252 \<le> unat (r 0) \<and> unat (r 0) < 254" "x ! 0 = r 0" "x ! 1 = r 1"
    using x by auto
  ultimately show ?thesis by (simp add: is_blocked_iff byte_masks)
qed

theorem native_ipv6_blocked_ranges_witness:
  "is_blocked_ip [0xFE, 0x80, 0, 0, 0, 0, 0, 0, 0, 0, 0, 0, 0, 0, 0, 1] [] \<and>
   \<not> is_blocked_ip [0x26, 0, 0, 0, 0, 0, 0, 0, 0, 0, 0, 0, 0, 0, 0, 1] []"
proof -
  have "extract_embedded_ipv4 [0xFE, 0x80, 0, 0, 0, 0, 0, 0, 0, 0, 0, 0, 0, 0, 0, 1] = None"
    "extract_embedded_ipv4 [0x26, 0, 0, 0, 0, 0, 0, 0, 0, 0, 0, 0, 0, 0, 0, 1] = None" by code_simp+
  then show ?thesis
    using native_ipv6_blocked_ranges [of "[0xFE, 0x80, 0, 0, 0, 0, 0, 0, 0, 0, 0, 0, 0, 0, 0, 1]"]
      native_ipv6_blocked_ranges [of "[0x26, 0, 0, 0, 0, 0, 0, 0, 0, 0, 0, 0, 0, 0, 0, 1]"]
    by (simp add: to4_def v4_in_v6_prefix_def replicate_bytes)
qed

lemma digit_char_plain: "d < 16 \<Longrightarrow> digit_char d \<noteq> CHR ''['' \<and> digit_char d \<noteq> CHR '']''"
  by (auto simp: digit_char_def char_eq_of_char [of "char_of _"] split: if_splits)

lemma digits_plain: "base \<le> 16 \<Longrightarrow> 0 < base \<Longrightarrow> CHR ''['' \<notin> set (digits_in f base n) \<and> CHR '']'' \<notin> set (digits_in f base n)"
proof (induction f base n rule: digits_in.induct)
  case (2 fuel base n)
  have "n mod base < 16" using 2 by (meson less_le_trans mod_less_divisor)
  then show ?case using 2 digit_char_plain [of n] digit_char_plain [of "n mod base"] by (auto split: if_splits)
qed simp

lemma join_plain: "(\<forall>p\<in>set ps. c \<notin> set p) \<Longrightarrow> c \<notin> set sep \<Longrightarrow> c \<notin> set (join ps sep)"
  by (induction ps sep rule: join.induct) auto

lemma hex_plain: "CHR ''['' \<notin> set (hex n)" "CHR '']'' \<notin> set (hex n)" "CHR ''['' \<notin> set (dec n)" "CHR '']'' \<notin> set (dec n)"
  using digits_plain [of 16 "Suc n" n] digits_plain [of 10 "Suc n" n]
  by (simp_all add: hex_def dec_def del: digits_in.simps)

lemma ip_string_plain: "CHR ''['' \<notin> set (ip_string x)" "CHR '']'' \<notin> set (ip_string x)"
proof -
  have byte: "digit_char (unat (b::byte) div 16) \<noteq> c" "digit_char (unat b mod 16) \<noteq> c"
    if "c = CHR ''['' \<or> c = CHR '']''" for b c
  proof -
    have "unat b < 256" using unsigned_less [of b] by simp
    then have "unat b div 16 < 16" by (simp add: less_mult_imp_div_less)
    then show "digit_char (unat b div 16) \<noteq> c" "digit_char (unat b mod 16) \<noteq> c"
      using that digit_char_plain [of "unat b div 16"] digit_char_plain [of "unat b mod 16"] by auto
  qed
  have "c \<notin> set (ip_string x)" if c: "c = CHR ''['' \<or> c = CHR '']''" for c
  proof -
    have d: "c \<notin> set (join (map (\<lambda>b. dec (unat b)) y) ''.'')" for y :: ip
      by (rule join_plain) (use c hex_plain in auto)
    have h: "c \<notin> set (join (map hex gs) '':'')" for gs
      by (rule join_plain) (use c hex_plain in auto)
    have q: "c \<notin> set (concat (map (\<lambda>b. [digit_char (unat b div 16), digit_char (unat b mod 16)]) x))"
      using byte [OF c] by (auto dest: sym)
    show ?thesis using c d h q
      by (simp add: ip_string_def ipv6_string_def Let_def case_prod_beta del: set_concat split: option.split) auto
  qed
  then show "CHR ''['' \<notin> set (ip_string x)" "CHR '']'' \<notin> set (ip_string x)" by blast+
qed

lemma split_host_port_port:
  assumes "split_host_port hp = Inr (h, p)"
  shows "CHR '':'' \<notin> set p \<and> CHR ''['' \<notin> set p \<and> CHR '']'' \<notin> set p"
proof -
  let ?j = "if hp ! 0 = CHR ''['' then 1 else 0"
  obtain i where i: "last_index_byte hp (CHR '':'') = Some i" and p: "p = drop (Suc i) hp"
    and clean: "CHR ''['' \<notin> set (drop ?j hp)" "CHR '']'' \<notin> set (drop (if hp ! 0 = CHR ''['' then i else 0) hp)"
    using assms by (auto simp: split_host_port_def Let_def split: option.splits if_splits)
  let ?k = "if hp ! 0 = CHR ''['' then i else 0"
  have jk: "?j \<le> Suc i" "?k \<le> Suc i" by simp_all
  have "CHR '':'' \<notin> set p" using last_index_byte_Some [OF i] p by simp
  moreover have "CHR ''['' \<notin> set p" "CHR '']'' \<notin> set p"
    using clean p set_drop_subset_set_drop [OF jk(1), of hp] set_drop_subset_set_drop [OF jk(2), of hp] by blast+
  ultimately show ?thesis by blast
qed

lemma safe_dial_connected:
  assumes "safe_dial_context lookup dial network addr allowed = Inr conn"
  shows "\<exists>host port x xs. split_host_port addr = Inr (host, port) \<and> lookup host = Inr (x # xs) \<and>
    (\<forall>y\<in>set (x # xs). \<not> is_blocked_ip y allowed) \<and>
    dial network (join_host_port (ip_string x) port) = Inr conn \<and>
    split_host_port (join_host_port (ip_string x) port) = Inr (ip_string x, port) \<and>
    safe_resolve_and_check_host lookup host allowed = Inr x"
proof -
  obtain host port x xs where "split_host_port addr = Inr (host, port)" "lookup host = Inr (x # xs)"
    "find (\<lambda>y. is_blocked_ip y allowed) (x # xs) = None"
    "dial network (join_host_port (ip_string x) port) = Inr conn"
    using assms
    by (auto simp: safe_dial_context_def safe_dial_address_def simp del: find.simps
        split: sum.splits prod.splits list.splits option.splits)
  moreover from this(3) have "\<forall>y\<in>set (x # xs). \<not> is_blocked_ip y allowed" unfolding find_None_iff by blast
  ultimately show ?thesis
    using split_join_host_port ip_string_plain split_host_port_port
    by (intro exI conjI) (auto simp: safe_resolve_and_check_host_def simp del: find.simps)
qed

text \<open>
  C7: The address that is dialled is one that was checked. When \<open>safeDialContext\<close>
  connects, the connection is the dialer's for one address string, which names the first
  address the resolver returned and the port asked for; no address the resolver returned is
  blocked, and the dialer does not resolve again because the string names that address, not
  the host.
\<close>

theorem safe_dial_pins_a_checked_address:
  assumes "safe_dial_context lookup dial network addr allowed = Inr conn"
  shows "\<exists>host port x xs. split_host_port addr = Inr (host, port) \<and> lookup host = Inr (x # xs) \<and>
    (\<forall>y\<in>set (x # xs). \<not> is_blocked_ip y allowed) \<and>
    dial network (join_host_port (ip_string x) port) = Inr conn \<and>
    split_host_port (join_host_port (ip_string x) port) = Inr (ip_string x, port) \<and>
    safe_resolve_and_check_host lookup host allowed = Inr x"
  by (rule safe_dial_connected [OF assms])

definition one_host :: resolver where
  "one_host h = (if h = ''api.x.com'' then Inr [[93, 184, 216, 34]] else Inl ''no such host'')"

theorem safe_dial_pins_a_checked_address_witness:
  "safe_dial_context one_host (\<lambda>n a. Inr a) ''tcp'' ''api.x.com:443'' [] = Inr ''93.184.216.34:443'' \<and>
   (\<exists>x xs. one_host ''api.x.com'' = Inr (x # xs) \<and> \<not> is_blocked_ip x [])"
proof -
  have c: "safe_dial_context one_host (\<lambda>n a. Inr a) ''tcp'' ''api.x.com:443'' [] = Inr ''93.184.216.34:443''" by code_simp
  moreover have "split_host_port ''api.x.com:443'' = Inr (''api.x.com'', ''443'')" by code_simp
  ultimately show ?thesis using safe_dial_pins_a_checked_address [OF c] by auto
qed

end
