(* ===== verification/Proxy_Handler.thy ===== *)
theory Proxy_Handler imports Approval Proxy_Auth Proxy_Body Ssrf begin

text \<open>
  Requests through the proxy (\<open>internal/proxy/handler.go\<close>): authentication, the
  approval flow, forwarding and the audit log. What the handler calls outside the repository
  is in the record \<open>handler\<close>: the HTTP client (\<open>hd_do\<close>),
  \<open>http.NewRequestWithContext\<close> refusing a method or URL (\<open>hd_new_request\<close>),
  and the decoders. Its effects are a list of events in order. The clock is read once per
  request, when the audit entry is built.
\<close>

record user_resolver =
  ur_user_by_token :: "string \<Rightarrow> string option"
  ur_policy_for_user :: "string \<Rightarrow> llm_policy option"

record handler =
  hd_manager :: manager
  hd_resolver :: "user_resolver option"
  hd_audit_reader :: bool
  hd_llm_writer :: "(llm_response \<Rightarrow> string result) option"
  hd_decoders :: decoders
  hd_new_request :: "string \<Rightarrow> string \<Rightarrow> go_error option"
  hd_do :: "http_request \<Rightarrow> http_response result"
  hd_allowed_private_cidrs :: "ipnet list"
  hd_insecure_skip_upstream_verify :: bool
  hd_insecure_skip_verify_hosts :: "string list"

datatype effect =
    ObserverEvent observer_event
  | PersistLLMResponse llm_response
  | UpstreamRequest http_request
  | AuditAdd audit_entry
  | AuditLog audit_entry
  | AuditUpdateResponse string int header audit_update

text \<open>The keys of \<open>insecureSkipVerifyHosts\<close> are those mapped to true.\<close>

definition should_skip_tls_verify :: "handler \<Rightarrow> string \<Rightarrow> string \<Rightarrow> bool" where
  "should_skip_tls_verify hh host port =
     (if hd_insecure_skip_verify_hosts hh \<noteq> [] then
        (let lower = to_lower host in
         if port \<noteq> [] \<and> lower @ '':'' @ port \<in> set (hd_insecure_skip_verify_hosts hh) then True
         else lower \<in> set (hd_insecure_skip_verify_hosts hh))
      else hd_insecure_skip_upstream_verify hh)"

subsection \<open>Audit entries\<close>

definition new_entry :: "string \<Rightarrow> http_request \<Rightarrow> header \<Rightarrow> time \<Rightarrow> time \<Rightarrow> string \<Rightarrow> audit_entry" where
  "new_entry requestID r requestHeaders startTime now userID =
     \<lparr>ae_timestamp = now, ae_user_id = userID, ae_request_id = requestID, ae_method = rq_method r,
      ae_url = rq_url r,
      ae_operation = (if rq_method r \<in> {''POST'', ''PUT'', ''PATCH'', ''DELETE''} then ''WRITE'' else ''READ''),
      ae_decision = [], ae_cache_hit = False, ae_approved_by = [], ae_channel = [],
      ae_response_status = 0, ae_duration_ms = (now - startTime) div 1000000, ae_error = [],
      ae_request_headers = requestHeaders, ae_request_body = [], ae_response_headers = [],
      ae_response_body = [], ae_llm_reason = [], ae_llm_response_id = [], ae_llm_policy_id = []\<rparr>"

definition apply_decision :: "approval_decision \<Rightarrow> string \<Rightarrow> string \<Rightarrow> audit_entry \<Rightarrow> audit_entry" where
  "apply_decision d llmResponseID llmReason e =
     e\<lparr>ae_approved_by := ad_approved_by d, ae_channel := ad_channel d, ae_llm_policy_id := ad_policy_id d,
       ae_llm_response_id := llmResponseID, ae_llm_reason := llmReason\<rparr>"

definition log_entry :: "handler \<Rightarrow> audit_entry \<Rightarrow> effect list" where
  "log_entry hh e = (if hd_audit_reader hh then [AuditAdd e] else []) @ [AuditLog e]"

definition update_response_audit :: "handler \<Rightarrow> string \<Rightarrow> int \<Rightarrow> header \<Rightarrow> audit_update \<Rightarrow> effect list" where
  "update_response_audit hh requestID status headers u =
     (if hd_audit_reader hh then [AuditUpdateResponse requestID status headers u] else [])"

definition persist_llm_response :: "handler \<Rightarrow> llm_response option \<Rightarrow> string \<times> effect list" where
  "persist_llm_response hh lr =
     (case (lr, hd_llm_writer hh) of
        (Some r, Some create) \<Rightarrow>
          (case create r of Inl _ \<Rightarrow> ([], [PersistLLMResponse r]) | Inr rid \<Rightarrow> (rid, [PersistLLMResponse r]))
      | _ \<Rightarrow> ([], []))"

subsection \<open>Reading and identifying\<close>

text \<open>
  The buffered prefix, whether the body is longer, and the request with its body put back.
  A read error is only logged: the request goes on with the bytes that arrived.
\<close>

definition buffer_request_body :: "http_request \<Rightarrow> string \<times> bool \<times> http_request" where
  "buffer_request_body r =
     (case rq_body r of
        None \<Rightarrow> ([], False, r)
      | Some b \<Rightarrow>
          (let (requestBody, _, truncated) = read_limited (Suc maxBufferedBodySize) b
           in (requestBody, truncated, if truncated then r else r\<lparr>rq_body := body_of requestBody\<rparr>)))"

definition resolve_auth :: "proxy_auth option \<Rightarrow> http_request \<Rightarrow> proxy_auth result" where
  "resolve_auth ctxAuth r =
     (case ctxAuth of
        Some auth \<Rightarrow> Inr auth
      | None \<Rightarrow> extract_proxy_auth (hdr_get (rq_header r) ''Proxy-Authorization''))"

definition strip_proxy_authorization :: "http_request \<Rightarrow> http_request" where
  "strip_proxy_authorization r = r\<lparr>rq_header := hdr_del (rq_header r) ''Proxy-Authorization''\<rparr>"

text \<open>The user id, empty when unknown, and the user's policy.\<close>

definition identify_user :: "handler \<Rightarrow> proxy_auth \<Rightarrow> string \<times> llm_policy option" where
  "identify_user hh auth =
     (case hd_resolver hh of
        None \<Rightarrow> ([], None)
      | Some ur \<Rightarrow>
          if pa_gateway_token auth = [] then ([], None)
          else case ur_user_by_token ur (pa_gateway_token auth) of
            None \<Rightarrow> ([], None)
          | Some uid \<Rightarrow> (uid, ur_policy_for_user ur uid))"

definition auth_gate :: "handler \<Rightarrow> proxy_auth \<Rightarrow> string \<Rightarrow> http_response option" where
  "auth_gate hh auth userID =
     (if hd_resolver hh \<noteq> None \<and> (pa_gateway_token auth = [] \<or> userID = [])
      then Some proxy_auth_required_response else None)"

subsection \<open>Approval\<close>

text \<open>The headers and the body shown to the judge: decoded when every layer decodes.\<close>

definition eval_copies :: "decoders \<Rightarrow> header \<Rightarrow> string \<Rightarrow> header \<times> string" where
  "eval_copies dc headers body =
     (let ce = join (hdr_values headers ''Content-Encoding'') '', '' in
      if ce \<noteq> [] \<and> body \<noteq> [] then
        (case decompress_request_body dc body ce of
           Some decoded \<Rightarrow> (hdr_del (hdr_del headers ''Content-Encoding'') ''Content-Length'', decoded)
         | None \<Rightarrow> (headers, body))
      else (headers, body))"

definition request_ctx :: "handler \<Rightarrow> llm_policy option \<Rightarrow> header \<Rightarrow> string \<Rightarrow> approval_ctx" where
  "request_ctx hh policy headers body =
     (let (evalHeaders, evalBody) = eval_copies (hd_decoders hh) headers body in
      \<lparr>cx_policy = policy, cx_original_headers = Some evalHeaders, cx_original_body = Some evalBody,
       cx_buffered_body = Some body\<rparr>)"

definition close_header :: header where
  "close_header = hdr_set [] ''Connection'' ''close''"

definition empty_response :: "int \<Rightarrow> http_response" where
  "empty_response status =
     \<lparr>rs_status = status, rs_header = close_header, rs_body = body_of [], rs_content_length = 0,
      rs_transfer_encoding = [], rs_close = False\<rparr>"

datatype approval_outcome =
    Approved approval_decision string
  | Refused approval_decision http_response
  | CheckFailed http_response

text \<open>
  The approval check with its audit entries; \<open>Approved\<close> carries the decision and
  the id of the persisted judge response.
\<close>

definition run_approval ::
    "handler \<Rightarrow> string \<Rightarrow> time \<Rightarrow> time \<Rightarrow> string \<Rightarrow> llm_policy option \<Rightarrow> string \<Rightarrow> http_request \<Rightarrow>
     approval_outcome \<times> effect list" where
  "run_approval hh requestID startTime now userID policy body r =
     (let headers = rq_header r;
          entry = new_entry requestID r headers startTime now userID;
          (out, evs) = check_approval (hd_manager hh) (request_ctx hh policy headers body) r
      in case out of
           Inl e \<Rightarrow>
             (CheckFailed (error_response 500 ''text/plain'' ''Approval check failed''),
              map ObserverEvent evs @
              log_entry hh (entry\<lparr>ae_decision := ''ERROR'', ae_response_status := 500, ae_error := e\<rparr>))
         | Inr (decision, _) \<Rightarrow>
             (let (rid, pevs) = persist_llm_response hh (ad_llm_response decision);
                  evs' = map ObserverEvent evs @ pevs
              in if ad_decision decision = DecisionAllow then (Approved decision rid, evs')
                 else if ad_decision decision = DecisionDeny then
                   (Refused decision (empty_response 403),
                    evs' @ log_entry hh (apply_decision decision rid (ad_reason decision)
                      (entry\<lparr>ae_decision := ''denied'', ae_response_status := 403,
                        ae_request_body := truncate_body_for_audit body, ae_response_headers := close_header\<rparr>)))
                 else if ad_decision decision = DecisionTimeout then
                   (Refused decision (empty_response 408),
                    evs' @ log_entry hh
                      (entry\<lparr>ae_decision := ''timeout'', ae_response_status := 408,
                        ae_request_body := truncate_body_for_audit body, ae_response_headers := close_header\<rparr>))
                 else (Refused decision (error_response 500 ''text/plain'' ''Unknown approval decision''), evs')))"

subsection \<open>Forwarding\<close>

text \<open>
  The request sent upstream: method and URL of the client's, its headers without the
  hop-by-hop ones, the buffered body, or the whole stream when the body is longer than the
  buffer.
\<close>

definition build_proxy_request :: "http_request \<Rightarrow> string \<Rightarrow> bool \<Rightarrow> http_request" where
  "build_proxy_request r requestBody truncated =
     r\<lparr>rq_host := rq_url_host r,
       rq_header := strip_hop_by_hop_headers (rq_header r) False,
       rq_body := (if truncated then rq_body r else body_of requestBody),
       rq_content_length :=
         (if truncated then (case parse_int64 (hdr_get (rq_header r) ''Content-Length'') of Some n \<Rightarrow> n | None \<Rightarrow> 0)
          else int (length requestBody)),
       rq_proto_major := 1, rq_proto_minor := 1, rq_remote_addr := []\<rparr>"

text \<open>The entry of a forwarded request, and what its response adds.\<close>

definition approved_entry ::
    "string \<Rightarrow> time \<Rightarrow> time \<Rightarrow> string \<Rightarrow> http_request \<Rightarrow> string \<Rightarrow> approval_decision \<Rightarrow> string \<Rightarrow> audit_entry" where
  "approved_entry requestID startTime now userID r body d rid =
     apply_decision d rid (ad_reason d)
       ((new_entry requestID r (rq_header r) startTime now userID)
          \<lparr>ae_decision := ''approved'', ae_cache_hit := (ad_approved_by d = ''cache''),
           ae_request_body := truncate_body_for_audit body\<rparr>)"

definition loggable_response_body :: "decoders \<Rightarrow> header \<Rightarrow> string \<Rightarrow> string" where
  "loggable_response_body dc h responseBody =
     (if contains_sub (to_lower (hdr_get h ''Content-Encoding'')) ''gzip'' then
        (case decompress_gzip_response_prefix dc responseBody of
           (decoded, True, wasCut) \<Rightarrow>
             if wasCut then append_audit_marker decoded ''[decompressed response body truncated for logging]'' else decoded
         | (_, False, _) \<Rightarrow> responseBody)
      else responseBody)"

type_synonym proxied = "http_response \<times> response_audit_body option"

definition finish_response ::
    "handler \<Rightarrow> time \<Rightarrow> audit_entry \<Rightarrow> http_response \<Rightarrow> proxied \<times> effect list" where
  "finish_response hh startTime entry resp =
     (let e = entry\<lparr>ae_response_status := rs_status resp, ae_response_headers := rs_header resp\<rparr> in
      if should_stream_response resp then
        ((resp, Some (new_response_audit_body (hdr_get (rs_header resp) ''Content-Encoding'') startTime)),
         log_entry hh e)
      else
        (case read_limited (Suc maxBufferedBodySize) (case rs_body resp of Some b \<Rightarrow> b | None \<Rightarrow> \<lparr>bs_data = [], bs_err = None\<rparr>) of
           (_, Some err, _) \<Rightarrow>
             ((error_response 502 ''text/plain'' ''Failed to read response'', None),
              log_entry hh (e\<lparr>ae_response_status := 502, ae_error := err\<rparr>))
         | (responseBody, None, True) \<Rightarrow>
             ((resp, None),
              log_entry hh (e\<lparr>ae_response_body := append_audit_marker responseBody ''[response body truncated for logging]''\<rparr>))
         | (responseBody, None, False) \<Rightarrow>
             ((resp\<lparr>rs_body := body_of responseBody\<rparr>, None),
              log_entry hh (e\<lparr>ae_response_body := loggable_response_body (hd_decoders hh) (rs_header resp) responseBody\<rparr>))))"

definition forward_request ::
    "handler \<Rightarrow> string \<Rightarrow> time \<Rightarrow> time \<Rightarrow> string \<Rightarrow> http_request \<Rightarrow> string \<Rightarrow> bool \<Rightarrow> approval_decision \<Rightarrow> string \<Rightarrow>
     proxied \<times> effect list" where
  "forward_request hh requestID startTime now userID r body truncated d rid =
     (let entry = approved_entry requestID startTime now userID r body d rid in
      case hd_new_request hh (rq_method r) (rq_url r) of
        Some e \<Rightarrow>
          ((error_response 500 ''text/plain'' ''Failed to create proxy request'', None),
           log_entry hh (entry\<lparr>ae_decision := ''ERROR'', ae_cache_hit := False, ae_response_status := 500, ae_error := e\<rparr>))
      | None \<Rightarrow>
          (let proxyReq = build_proxy_request r body truncated in
           case hd_do hh proxyReq of
             Inl e \<Rightarrow>
               ((error_response 502 ''text/plain'' ''Failed to forward request'', None),
                UpstreamRequest proxyReq # log_entry hh (entry\<lparr>ae_response_status := 502, ae_error := e\<rparr>))
           | Inr resp \<Rightarrow>
               (let (out, evs) = finish_response hh startTime entry resp in (out, UpstreamRequest proxyReq # evs))))"

subsection \<open>The whole request\<close>

definition process_request ::
    "handler \<Rightarrow> string \<Rightarrow> time \<Rightarrow> time \<Rightarrow> proxy_auth option \<Rightarrow> http_request \<Rightarrow> proxied \<times> effect list" where
  "process_request hh requestID startTime now ctxAuth r =
     (let (body, truncated, r1) = buffer_request_body r in
      case resolve_auth ctxAuth r1 of
        Inl _ \<Rightarrow> ((unsupported_auth_scheme_response, None), [])
      | Inr auth \<Rightarrow>
          (let r2 = strip_proxy_authorization r1; (userID, policy) = identify_user hh auth in
           case auth_gate hh auth userID of
             Some resp \<Rightarrow> ((resp, None), [])
           | None \<Rightarrow>
               (case run_approval hh requestID startTime now userID policy body r2 of
                  (Refused _ resp, evs) \<Rightarrow> ((resp, None), evs)
                | (CheckFailed resp, evs) \<Rightarrow> ((resp, None), evs)
                | (Approved d rid, evs) \<Rightarrow>
                    (let (out, evs') = forward_request hh requestID startTime now userID r2 body truncated d rid
                     in (out, evs @ evs')))))"

record approval_result =
  ar_decision :: approval_decision
  ar_user_id :: string
  ar_llm_response_id :: string
  ar_approved :: bool
  ar_deny_resp :: "http_response option"

text \<open>
  \<open>processUpgradeApproval\<close>: the same checks, the body read after the gate; the
  request it leaves (without its Proxy-Authorization, its body put back) is the third
  component.
\<close>

definition process_upgrade_approval ::
    "handler \<Rightarrow> string \<Rightarrow> time \<Rightarrow> time \<Rightarrow> proxy_auth option \<Rightarrow> http_request \<Rightarrow>
     approval_result \<times> effect list \<times> http_request" where
  "process_upgrade_approval hh requestID startTime now ctxAuth r =
     (let deny = (\<lambda>d uid resp. \<lparr>ar_decision = d, ar_user_id = uid, ar_llm_response_id = [],
            ar_approved = False, ar_deny_resp = Some resp\<rparr>)
      in case resolve_auth ctxAuth r of
        Inl _ \<Rightarrow> (deny empty_approval_decision [] unsupported_auth_scheme_response, [], r)
      | Inr auth \<Rightarrow>
          (let r1 = strip_proxy_authorization r; (userID, policy) = identify_user hh auth in
           case auth_gate hh auth userID of
             Some resp \<Rightarrow> (deny empty_approval_decision [] resp, [], r1)
           | None \<Rightarrow>
               (let (body, _, r2) = buffer_request_body r1 in
                case run_approval hh requestID startTime now userID policy body r2 of
                  (Refused d resp, evs) \<Rightarrow> (deny d userID resp, evs, r2)
                | (CheckFailed resp, evs) \<Rightarrow> (deny empty_approval_decision [] resp, evs, r2)
                | (Approved d rid, evs) \<Rightarrow>
                    (\<lparr>ar_decision = d, ar_user_id = userID, ar_llm_response_id = rid, ar_approved = True,
                      ar_deny_resp = None\<rparr>, evs, r2))))"

end
