(* ===== verification/Websocket.thy ===== *)
theory Websocket imports Proxy_Handler begin

text \<open>
  An approved WebSocket upgrade (\<open>handleWebSocketUpgrade\<close>): the dial to a checked
  address, the handshake, and the relay. What the call meets outside is one record; the
  relay, which runs one goroutine per direction, is a step relation on the two connections.
\<close>

subsection \<open>The upgrade\<close>

record ws_env =
  we_lookup :: resolver
  we_dial :: "string \<Rightarrow> bool \<Rightarrow> string \<Rightarrow> bool \<Rightarrow> go_error option"
  we_write_request :: "go_error option"
  we_read_response :: "http_response result"
  we_write_response :: "go_error option"

text \<open>
  A dial names the address, whether TLS is spoken, the server name and whether verification
  is skipped; \<open>WsToClient\<close> is a response written to the client's connection.
\<close>

datatype ws_effect =
    WsDial string bool string bool
  | WsForward http_request
  | WsToClient http_response
  | WsRelay
  | WsAudit effect

definition log_websocket_entry ::
    "handler \<Rightarrow> string \<Rightarrow> http_request \<Rightarrow> header \<Rightarrow> time \<Rightarrow> time \<Rightarrow> string \<Rightarrow> approval_decision \<Rightarrow> string \<Rightarrow> int \<Rightarrow>
     ws_effect list" where
  "log_websocket_entry hh requestID r originalHeaders startTime now userID d rid status =
     map WsAudit (log_entry hh
       (apply_decision d rid (ad_reason d)
         ((new_entry requestID r originalHeaders startTime now userID)
            \<lparr>ae_operation := ''WEBSOCKET'', ae_decision := ''approved'', ae_response_status := status\<rparr>)))"

definition ws_secure :: "http_request \<Rightarrow> bool" where
  "ws_secure r = (rq_url_scheme r = ''https'' \<or> rq_url_scheme r = ''wss'')"

text \<open>The host and the port that are resolved and dialled.\<close>

definition ws_target :: "http_request \<Rightarrow> string \<times> string" where
  "ws_target r =
     (let targetHost = (if rq_url_host r = [] then rq_host r else rq_url_host r) in
      if ws_secure r then
        (case split_host_port targetHost of
           Inl _ \<Rightarrow> (targetHost, ''443'')
         | Inr (host, port) \<Rightarrow> (host, port))
      else
        (let target = (case split_host_port targetHost of Inl _ \<Rightarrow> targetHost @ '':80'' | Inr _ \<Rightarrow> targetHost) in
         case split_host_port target of
           Inl _ \<Rightarrow> (target, ''80'')
         | Inr (host, port) \<Rightarrow> (host, port)))"

text \<open>Past the dial: the handshake with the upstream and the answer to the client.\<close>

definition ws_handshake ::
    "handler \<Rightarrow> ws_env \<Rightarrow> (http_request \<Rightarrow> header \<Rightarrow> int \<Rightarrow> ws_effect list) \<Rightarrow> http_request \<Rightarrow> ws_effect list" where
  "ws_handshake hh env audit r =
     (let originalHeaders = rq_header r;
          r1 = r\<lparr>rq_header := strip_hop_by_hop_headers (rq_header r) True\<rparr>
      in case we_write_request env of
           Some _ \<Rightarrow>
             [WsForward r1, WsToClient (error_response 502 ''text/plain'' ''Failed to send upgrade request'')]
             @ audit r1 originalHeaders 502
         | None \<Rightarrow>
             (case we_read_response env of
                Inl _ \<Rightarrow>
                  [WsForward r1, WsToClient (error_response 502 ''text/plain'' ''Failed to read upstream response'')]
                  @ audit r1 originalHeaders 502
              | Inr resp \<Rightarrow>
                  if rs_status resp \<noteq> 101
                  then [WsForward r1, WsToClient resp] @ audit r1 originalHeaders (rs_status resp)
                  else
                    (let resp1 = resp\<lparr>rs_header := strip_hop_by_hop_headers (rs_header resp) True\<rparr> in
                     case we_write_response env of
                       Some _ \<Rightarrow> [WsForward r1, WsToClient resp1] @ audit r1 originalHeaders 101
                     | None \<Rightarrow> [WsForward r1, WsToClient resp1, WsRelay] @ audit r1 originalHeaders 101)))"

definition handle_websocket_upgrade ::
    "handler \<Rightarrow> ws_env \<Rightarrow> string \<Rightarrow> time \<Rightarrow> time \<Rightarrow> string \<Rightarrow> approval_decision \<Rightarrow> string \<Rightarrow> http_request \<Rightarrow>
     ws_effect list" where
  "handle_websocket_upgrade hh env requestID startTime now userID d rid r =
     (let (host, port) = ws_target r;
          audit = (\<lambda>q h status. log_websocket_entry hh requestID q h startTime now userID d rid status)
      in case safe_resolve_and_check_host (we_lookup env) host (hd_allowed_private_cidrs hh) of
           Inl _ \<Rightarrow>
             WsToClient (error_response 403 ''text/plain'' ''Forbidden: destination resolves to blocked address'')
             # audit r (rq_header r) 403
         | Inr x \<Rightarrow>
             (let addr = join_host_port (ip_string x) port;
                  skip = ws_secure r \<and> should_skip_tls_verify hh host port
              in case we_dial env addr (ws_secure r) host skip of
                   Some _ \<Rightarrow>
                     [WsDial addr (ws_secure r) host skip,
                      WsToClient (error_response 502 ''text/plain'' ''Failed to connect to upstream'')]
                     @ audit r (rq_header r) 502
                 | None \<Rightarrow> WsDial addr (ws_secure r) host skip # ws_handshake hh env audit r))"

subsection \<open>The relay\<close>

definition wsIdleTimeout :: int where "wsIdleTimeout = 30 * 60 * 1000000000"
definition wsWriteTimeout :: int where "wsWriteTimeout = 30 * 1000000000"
definition wsDrainTimeout :: int where "wsDrainTimeout = 5 * 1000000000"

datatype side = ClientSide | UpstreamSide

fun other :: "side \<Rightarrow> side" where
  "other ClientSide = UpstreamSide"
| "other UpstreamSide = ClientSide"

text \<open>
  Per side: the bytes read from it, the bytes written to it, its read deadline, whether its
  copying goroutine has ended, and whether its write half was closed. \<open>wr_draining\<close>
  says that the main goroutine has set the drain deadline.
\<close>

record ws_relay =
  wr_read :: "side \<Rightarrow> string"
  wr_written :: "side \<Rightarrow> string"
  wr_read_deadline :: "side \<Rightarrow> time"
  wr_done :: "side \<Rightarrow> bool"
  wr_write_closed :: "side \<Rightarrow> bool"
  wr_draining :: bool

definition ws_relay_start :: "time \<Rightarrow> ws_relay" where
  "ws_relay_start now =
     \<lparr>wr_read = (\<lambda>_. []), wr_written = (\<lambda>_. []), wr_read_deadline = (\<lambda>_. now + wsIdleTimeout),
      wr_done = (\<lambda>_. False), wr_write_closed = (\<lambda>_. False), wr_draining = False\<rparr>"

text \<open>\<open>wsRelayWriter.Write\<close> of a chunk of which \<open>n\<close> bytes were taken by \<open>now\<close>.\<close>

definition ws_write :: "side \<Rightarrow> time \<Rightarrow> nat \<Rightarrow> string \<Rightarrow> ws_relay \<Rightarrow> ws_relay" where
  "ws_write dst now n chunk w =
     (let w1 = w\<lparr>wr_written := (wr_written w)(dst := wr_written w dst @ take n chunk)\<rparr>
      in if 0 < n then w1\<lparr>wr_read_deadline := (\<lambda>_. now + wsIdleTimeout)\<rparr> else w1)"

definition ws_finish :: "side \<Rightarrow> ws_relay \<Rightarrow> ws_relay" where
  "ws_finish src w =
     w\<lparr>wr_done := (wr_done w)(src := True), wr_write_closed := (wr_write_closed w)(other src := True)\<rparr>"

definition ws_drain :: "time \<Rightarrow> ws_relay \<Rightarrow> ws_relay" where
  "ws_drain now w = w\<lparr>wr_read_deadline := (\<lambda>_. now + wsDrainTimeout), wr_draining := True\<rparr>"

text \<open>
  A copy reads a chunk before its deadline and writes all of it, or part of it and then ends;
  it also ends when its source ends or its deadline passes. The first end makes the main
  goroutine set the drain deadline.
\<close>

inductive ws_step :: "ws_relay \<Rightarrow> ws_relay \<Rightarrow> bool" where
  ws_copy: "\<not> wr_done w src \<Longrightarrow> now \<le> wr_read_deadline w src \<Longrightarrow> chunk \<noteq> [] \<Longrightarrow>
     ws_step w (ws_write (other src) later (length chunk) chunk
       (w\<lparr>wr_read := (wr_read w)(src := wr_read w src @ chunk)\<rparr>))"
| ws_short: "\<not> wr_done w src \<Longrightarrow> now \<le> wr_read_deadline w src \<Longrightarrow> n < length chunk \<Longrightarrow>
     ws_step w (ws_finish src (ws_write (other src) later n chunk
       (w\<lparr>wr_read := (wr_read w)(src := wr_read w src @ chunk)\<rparr>)))"
| ws_end: "\<not> wr_done w src \<Longrightarrow> ws_step w (ws_finish src w)"
| ws_tighten: "\<not> wr_draining w \<Longrightarrow> wr_done w ClientSide \<or> wr_done w UpstreamSide \<Longrightarrow> ws_step w (ws_drain now w)"

inductive ws_run :: "ws_relay \<Rightarrow> ws_relay \<Rightarrow> bool" where
  ws_refl: "ws_run w w"
| ws_more: "ws_run w w' \<Longrightarrow> ws_step w' w'' \<Longrightarrow> ws_run w w''"

inductive_cases ws_stepE: "ws_step w w'"

subsection \<open>Properties of the upgrade\<close>

definition ws_entries :: "ws_effect list \<Rightarrow> audit_entry list" where
  "ws_entries evs = concat (map (\<lambda>e. case e of WsAudit (AuditLog a) \<Rightarrow> [a] | _ \<Rightarrow> []) evs)"

definition ws_audited :: "ws_effect list \<Rightarrow> header \<Rightarrow> bool" where
  "ws_audited evs h \<longleftrightarrow> (\<exists>a. ws_entries evs = [a] \<and> ae_operation a = ''WEBSOCKET'' \<and> ae_decision a = ''approved'' \<and>
     ae_request_headers a = h)"

lemma ws_entries_log:
  "ws_entries (log_websocket_entry hh rid r h st now uid d lid code) =
     [apply_decision d lid (ad_reason d)
        ((new_entry rid r h st now uid)\<lparr>ae_operation := ''WEBSOCKET'', ae_decision := ''approved'', ae_response_status := code\<rparr>)]"
  by (simp add: ws_entries_def log_websocket_entry_def log_entry_def)

lemma ws_entries_simps [simp]:
  "ws_entries [] = []" "ws_entries (WsDial a t s k # evs) = ws_entries evs" "ws_entries (WsForward q # evs) = ws_entries evs"
  "ws_entries (WsToClient p # evs) = ws_entries evs" "ws_entries (WsRelay # evs) = ws_entries evs"
  by (simp_all add: ws_entries_def)

lemma log_websocket_only_audits: "e \<in> set (log_websocket_entry hh rid r h st now uid d lid code) \<Longrightarrow> \<exists>x. e = WsAudit x"
  by (auto simp: log_websocket_entry_def)

lemma ws_audited_log:
  "ws_audited (log_websocket_entry hh rid r h st now uid d lid code) h"
  by (simp add: ws_audited_def ws_entries_log apply_decision_def new_entry_def)

lemma ws_audited_simps [simp]:
  "ws_audited (WsDial a t s k # evs) h = ws_audited evs h" "ws_audited (WsForward q # evs) h = ws_audited evs h"
  "ws_audited (WsToClient p # evs) h = ws_audited evs h" "ws_audited (WsRelay # evs) h = ws_audited evs h"
  by (simp_all add: ws_audited_def)

lemma ws_handshake_effects:
  assumes "e \<in> set (ws_handshake hh env (\<lambda>q h c. log_websocket_entry hh rid q h st now uid d lid c) r)"
  shows "(\<forall>a t s k. e \<noteq> WsDial a t s k) \<and>
    (\<forall>q. e = WsForward q \<longrightarrow> q = r\<lparr>rq_header := strip_hop_by_hop_headers (rq_header r) True\<rparr>)"
  using assms log_websocket_only_audits
  by (fastforce simp: ws_handshake_def Let_def split: option.splits sum.splits if_splits)

lemma ws_handshake_audited:
  "ws_audited (ws_handshake hh env (\<lambda>q h c. log_websocket_entry hh rid q h st now uid d lid c) r) (rq_header r)"
  by (auto simp: ws_handshake_def Let_def ws_audited_log split: option.splits sum.splits)

lemma resolved_is_checked:
  "safe_resolve_and_check_host lookup host allowed = Inr x \<Longrightarrow>
   \<exists>xs. lookup host = Inr (x # xs) \<and> (\<forall>y\<in>set (x # xs). \<not> is_blocked_ip y allowed)"
  by (auto simp: safe_resolve_and_check_host_def find_None_iff split: sum.splits list.splits option.splits if_splits)

text \<open>
  C15: an upgrade connects only to a checked address. An address it dials joins the
  target's port with the first address the resolver gave for the target's host, none of whose
  addresses is blocked; the request is forwarded only as it came, without hop-by-hop headers
  other than those of the handshake, and only after that dial. Every outcome is audited
  exactly once, with the client's own headers.
\<close>

theorem websocket_dials_checked_address:
  assumes "evs = handle_websocket_upgrade hh env requestID startTime now userID d rid r"
  shows "(\<forall>a t s k. WsDial a t s k \<in> set evs \<longrightarrow>
      (\<exists>x xs. we_lookup env (fst (ws_target r)) = Inr (x # xs) \<and>
         (\<forall>y\<in>set (x # xs). \<not> is_blocked_ip y (hd_allowed_private_cidrs hh)) \<and>
         a = join_host_port (ip_string x) (snd (ws_target r)) \<and> t = ws_secure r \<and> s = fst (ws_target r) \<and>
         (k \<longrightarrow> should_skip_tls_verify hh s (snd (ws_target r))))) \<and>
    (\<forall>q. WsForward q \<in> set evs \<longrightarrow>
       q = r\<lparr>rq_header := strip_hop_by_hop_headers (rq_header r) True\<rparr> \<and> (\<exists>a t s k. hd evs = WsDial a t s k)) \<and>
    ws_audited evs (rq_header r)"
proof (cases "safe_resolve_and_check_host (we_lookup env) (fst (ws_target r)) (hd_allowed_private_cidrs hh)")
  case (Inl e)
  then show ?thesis
    using assms log_websocket_only_audits
    by (fastforce simp: handle_websocket_upgrade_def Let_def split_def ws_audited_log)
next
  case (Inr x)
  let ?skip = "ws_secure r \<and> should_skip_tls_verify hh (fst (ws_target r)) (snd (ws_target r))"
  let ?addr = "join_host_port (ip_string x) (snd (ws_target r))"
  obtain xs where checked: "we_lookup env (fst (ws_target r)) = Inr (x # xs)"
    "\<forall>y\<in>set (x # xs). \<not> is_blocked_ip y (hd_allowed_private_cidrs hh)" using resolved_is_checked [OF Inr] by blast
  show ?thesis
  proof (cases "we_dial env ?addr (ws_secure r) (fst (ws_target r)) ?skip")
    case None
    have evs: "evs = WsDial ?addr (ws_secure r) (fst (ws_target r)) ?skip #
        ws_handshake hh env (\<lambda>q h status. log_websocket_entry hh requestID q h startTime now userID d rid status) r"
      unfolding assms handle_websocket_upgrade_def Let_def split_def by (simp add: Inr None)
    show ?thesis
      unfolding evs using checked ws_handshake_effects ws_handshake_audited by (auto; blast)
  next
    case (Some e)
    then show ?thesis
      using assms Inr checked log_websocket_only_audits
      by (fastforce simp: handle_websocket_upgrade_def Let_def split_def ws_audited_log)
  qed
qed

end
