(* ===== verification/Approval_Props.thy ===== *)
theory Approval_Props imports Approval begin

text \<open>
  Properties of the approval flow: it fails closed, static rules decide without the judge
  and as the evaluation runner does, the judge influences a decision only through its
  answer on the evaluation copies, and errors come from the request body alone.
\<close>

lemma static_flags_None [simp]: "static_flags None method url = (False, False)"
  by (simp add: static_flags_def)

lemma static_flags_Some:
  "static_flags (Some p) method url =
     ((\<exists>r\<in>set (lp_static_rules p). static_rule_matches r method url \<and> sr_action r \<noteq> ''deny''),
      (\<exists>r\<in>set (lp_static_rules p). static_rule_matches r method url \<and> sr_action r = ''deny''))"
  by (simp add: static_flags_def rule_flags_iff)

lemma runner_static_flags:
  "ascii_methods (lp_static_rules p) \<Longrightarrow> ascii_text method \<Longrightarrow>
   matches_static_rules method url (lp_static_rules p) =
     (let (a, d) = static_flags (Some p) method url
      in if d then (True, ''deny'') else if a then (True, ''allow'') else (False, []))"
  by (simp add: matches_static_rules_flags static_flags_def)

lemma body_request_same:
  "rq_method (snd (request_body_for_approval ctx req)) = rq_method req"
  "rq_url (snd (request_body_for_approval ctx req)) = rq_url req"
  "rq_header (snd (request_body_for_approval ctx req)) = rq_header req"
  by (auto simp: request_body_for_approval_def split: option.splits prod.splits)

lemma llm_fallback_decision:
  "ad_decision (llm_fallback m) =
     (if mg_fallback_mode m = ''passthrough'' then DecisionAllow else DecisionDeny)"
  by (simp add: llm_fallback_def)

lemma run_judge_decision:
  "ad_decision (run_judge m j ctx req body p) =
     (case j (rq_method req) (rq_url req) (eval_headers ctx req) (eval_body ctx body) p of
        (r, None) \<Rightarrow> if jr_decision r \<in> {DecisionAllow, DecisionDeny} then jr_decision r
                     else ad_decision (llm_fallback m)
      | (r, Some e) \<Rightarrow> ad_decision (llm_fallback m))"
  by (auto simp: run_judge_def judged_decision_def Let_def split: prod.splits option.splits)

lemma check_approval_llm_cases:
  assumes "check_approval_llm m j ctx req = Inr (d, b)"
  obtains body req' where "b = Some body" and "d = decide_llm m j ctx req' body"
    and "rq_method req' = rq_method req" and "rq_url req' = rq_url req" and "rq_header req' = rq_header req"
    and "fst (request_body_for_approval ctx req) = Inr body"
  using assms body_request_same [of ctx req]
  by (auto simp: check_approval_llm_def split: sum.splits)

text \<open>What an allowed decision rests on, outside passthrough.\<close>

lemma allowed_has_ground:
  assumes mode: "mg_mode m \<noteq> ''passthrough''" and fb: "mg_fallback_mode m \<noteq> ''passthrough''"
    and out: "fst (check_approval m ctx req) = Inr (d, b)" and allow: "ad_decision d = DecisionAllow"
  shows "\<exists>p j. cx_policy ctx = Some p \<and> mg_judge m = Some j \<and>
    (\<forall>r\<in>set (lp_static_rules p). static_rule_matches r (rq_method req) (rq_url req) \<longrightarrow> sr_action r \<noteq> ''deny'') \<and>
    ((\<exists>r\<in>set (lp_static_rules p). static_rule_matches r (rq_method req) (rq_url req)) \<or>
     (\<exists>body res. lp_prompt p \<noteq> [] \<and>
        j (rq_method req) (rq_url req) (eval_headers ctx req) (eval_body ctx body) p = (res, None) \<and>
        jr_decision res = DecisionAllow))"
proof -
  from out mode obtain j where j: "mg_judge m = Some j" and llm: "check_approval_llm m j ctx req = Inr (d, b)"
    using allow by (auto simp: check_approval_def check_approval_inner_def Let_def split: option.splits)
  from llm obtain body req' where d: "d = decide_llm m j ctx req' body"
    and same: "rq_method req' = rq_method req" "rq_url req' = rq_url req" "rq_header req' = rq_header req"
    by (rule check_approval_llm_cases)
  from d allow fb obtain p where p: "cx_policy ctx = Some p"
    by (cases "cx_policy ctx") (auto simp: decide_llm_def llm_fallback_decision)
  have heads: "eval_headers ctx req' = eval_headers ctx req"
    using same by (simp add: eval_headers_def split: option.splits)
  note dec = allow [unfolded d decide_llm_def p static_flags_Some same]
  show ?thesis
  proof (cases "\<exists>r\<in>set (lp_static_rules p). static_rule_matches r (rq_method req) (rq_url req)")
    case True
    then show ?thesis using dec p j by (auto simp: static_decision_def split: if_splits)
  next
    case False
    then have "lp_prompt p \<noteq> []" and run: "ad_decision (run_judge m j ctx req' body p) = DecisionAllow"
      using dec fb by (auto simp: llm_fallback_decision split: if_splits)
    then show ?thesis using False p j fb heads same
      by (auto simp: run_judge_decision llm_fallback_decision split: prod.splits option.splits if_splits)
  qed
qed

text \<open>
  C3: the gateway fails closed. Outside passthrough mode and with a fallback other than
  passthrough, an allowed request has a policy, and either a static rule of it matches and
  none of its deny rules does, or no rule matches and the judge, asked about this request,
  answered ALLOW without an error.
\<close>

theorem approval_fails_closed:
  assumes mode: "mg_mode m \<noteq> ''passthrough''" and fb: "mg_fallback_mode m \<noteq> ''passthrough''"
    and out: "fst (check_approval m ctx req) = Inr (d, b)" and allow: "ad_decision d = DecisionAllow"
  shows "\<exists>p j. cx_policy ctx = Some p \<and> mg_judge m = Some j \<and>
    (\<forall>r\<in>set (lp_static_rules p). static_rule_matches r (rq_method req) (rq_url req) \<longrightarrow> sr_action r \<noteq> ''deny'') \<and>
    ((\<exists>r\<in>set (lp_static_rules p). static_rule_matches r (rq_method req) (rq_url req)) \<or>
     (\<exists>body res. lp_prompt p \<noteq> [] \<and>
        j (rq_method req) (rq_url req) (eval_headers ctx req) (eval_body ctx body) p = (res, None) \<and>
        jr_decision res = DecisionAllow))"
  by (rule allowed_has_ground [OF assms])

definition allow_all_judge :: evaluator where
  "allow_all_judge m u h b p = (empty_judge_result\<lparr>jr_decision := DecisionAllow, jr_model := ''m''\<rparr>, None)"

definition example_policy :: llm_policy where
  "example_policy = \<lparr>lp_id = ''p1'', lp_name = [], lp_prompt = ''be safe'', lp_provider = [],
     lp_model = [], lp_status = ''published'', lp_forked_from = [],
     lp_static_rules = [example_glob_rule], lp_created_at = 0, lp_deleted_at = None\<rparr>"

definition example_request :: http_request where
  "example_request = \<lparr>rq_method = ''POST'', rq_url = ''https://x.com/a'', rq_url_scheme = ''https'',
     rq_url_host = ''x.com'', rq_host = ''x.com'', rq_header = [], rq_body = body_of ''hi'',
     rq_proto_major = 1, rq_proto_minor = 1, rq_remote_addr = [], rq_url_user = [], rq_url_tail = [], rq_content_length = 0\<rparr>"

definition example_ctx :: approval_ctx where
  "example_ctx = \<lparr>cx_policy = Some example_policy, cx_original_headers = None,
     cx_original_body = None, cx_buffered_body = Some ''hi''\<rparr>"

definition example_manager :: manager where
  "example_manager = set_judge (Some allow_all_judge) ''llm'' ''deny'' new_manager"

theorem approval_fails_closed_witness:
  "\<exists>d b. fst (check_approval example_manager (example_ctx\<lparr>cx_policy := Some (example_policy\<lparr>lp_static_rules := []\<rparr>)\<rparr>)
      example_request) = Inr (d, b) \<and> ad_decision d = DecisionAllow \<and>
   (\<exists>p j. cx_policy (example_ctx\<lparr>cx_policy := Some (example_policy\<lparr>lp_static_rules := []\<rparr>)\<rparr>) = Some p \<and>
      mg_judge example_manager = Some j)"
proof -
  let ?c = "example_ctx\<lparr>cx_policy := Some (example_policy\<lparr>lp_static_rules := []\<rparr>)\<rparr>"
  have mode: "mg_mode example_manager \<noteq> ''passthrough''" and fb: "mg_fallback_mode example_manager \<noteq> ''passthrough''"
    by (simp_all add: example_manager_def set_judge_def set_mode_def)
  obtain d b where out: "fst (check_approval example_manager ?c example_request) = Inr (d, b)"
    and allow: "ad_decision d = DecisionAllow"
    by (simp add: check_approval_def check_approval_inner_def example_manager_def set_judge_def set_mode_def
        check_approval_llm_def request_body_for_approval_def example_ctx_def decide_llm_def static_flags_def
        example_policy_def run_judge_def allow_all_judge_def judged_decision_def empty_judge_result_def)
  show ?thesis using out allow approval_fails_closed [OF mode fb out allow] by blast
qed

text \<open>
  C18: static rules decide alone and as the evaluation runner does. In llm mode with a
  judge, a readable body and ASCII methods in the request and in the policy's rules, when the
  runner's check \<open>MatchesStaticRules\<close> matches, the decision is the runner's action,
  marked \<open>llm-static-rule\<close>, whatever the judge, with no judge response attached; and
  when the runner's check does not match, no static rule decides: the decision is the one for
  the policy without its rules.
\<close>

theorem static_rules_decide_like_runner:
  assumes mode: "mg_mode m \<noteq> ''passthrough''" and j: "mg_judge m = Some j"
    and p: "cx_policy ctx = Some p"
    and body: "fst (request_body_for_approval ctx req) = Inr body"
    and ascii: "ascii_text (rq_method req)" "ascii_methods (lp_static_rules p)"
  shows "\<exists>d. fst (check_approval m ctx req) = Inr (d, Some body) \<and>
    (case matches_static_rules (rq_method req) (rq_url req) (lp_static_rules p) of
       (True, action) \<Rightarrow>
         ad_decision d = (if action = ''deny'' then DecisionDeny else DecisionAllow) \<and>
         ad_approved_by d = ''llm-static-rule'' \<and> ad_policy_id d = lp_id p \<and> ad_llm_response d = None
     | (False, _) \<Rightarrow>
         d = (if lp_prompt p = [] then llm_fallback m
              else run_judge m j ctx (snd (request_body_for_approval ctx req)) body p))"
proof -
  have "fst (check_approval m ctx req) =
      Inr (decide_llm m j ctx (snd (request_body_for_approval ctx req)) body, Some body)"
    using mode j body by (simp add: check_approval_def check_approval_inner_def check_approval_llm_def Let_def)
  moreover obtain a d where flags: "static_flags (Some p) (rq_method req) (rq_url req) = (a, d)" by fastforce
  ultimately show ?thesis
    using p body_request_same [of ctx req] ascii
    by (cases a; cases d) (simp_all add: runner_static_flags decide_llm_def static_decision_def)
qed

theorem static_rules_decide_like_runner_witness:
  "\<exists>d. fst (check_approval example_manager example_ctx example_request) = Inr (d, Some ''hi'') \<and>
    ad_decision d = DecisionAllow \<and> ad_approved_by d = ''llm-static-rule''"
proof -
  have m: "mg_mode example_manager \<noteq> ''passthrough''" "mg_judge example_manager = Some allow_all_judge"
    by (simp_all add: example_manager_def set_judge_def set_mode_def)
  have p: "cx_policy example_ctx = Some example_policy" by (simp add: example_ctx_def)
  have b: "fst (request_body_for_approval example_ctx example_request) = Inr ''hi''"
    by (simp add: example_ctx_def request_body_for_approval_def)
  have a: "ascii_text (rq_method example_request)" "ascii_methods (lp_static_rules example_policy)" by code_simp+
  have "matches_static_rules (rq_method example_request) (rq_url example_request)
      (lp_static_rules example_policy) = (True, ''allow'')" by code_simp
  with static_rules_decide_like_runner [OF m p b a] show ?thesis by simp blast
qed

text \<open>
  Outside ASCII the two checks part: a deny rule for the method \<open>LOC\<close> followed by the
  Kelvin sign denies the recorded method LOCK in the runner, but not the live request.
\<close>

definition kelvin_rule :: static_rule where
  "kelvin_rule = \<lparr>sr_methods = [''LOC'' @ [CHR 0xE2, CHR 0x84, CHR 0xAA]], sr_url_pattern = ''https://x.com/'',
     sr_match_type = ''prefix'', sr_action = ''deny''\<rparr>"

theorem kelvin_rule_splits_runner_and_proxy:
  "matches_static_rules ''LOCK'' ''https://x.com/a'' [kelvin_rule] = (True, ''deny'') \<and>
   \<not> static_rule_matches kelvin_rule ''LOCK'' ''https://x.com/a''"
  by code_simp

text \<open>
  the judge matters only through its answer about the evaluation copies. Replacing the
  judge by another one that agrees on this request's method, URL, evaluation headers,
  evaluation body and policy changes nothing.
\<close>

theorem judge_sees_only_evaluation_copies:
  assumes m: "mg_judge m = Some j" and m': "m' = m\<lparr>mg_judge := Some j'\<rparr>"
    and agree: "\<And>body p. cx_policy ctx = Some p \<Longrightarrow>
      fst (request_body_for_approval ctx req) = Inr body \<Longrightarrow>
      j (rq_method req) (rq_url req) (eval_headers ctx req) (eval_body ctx body) p =
      j' (rq_method req) (rq_url req) (eval_headers ctx req) (eval_body ctx body) p"
  shows "check_approval m ctx req = check_approval m' ctx req"
proof -
  let ?req = "snd (request_body_for_approval ctx req)"
  have same: "rq_method ?req = rq_method req" "rq_url ?req = rq_url req"
    "eval_headers ctx ?req = eval_headers ctx req"
    using body_request_same [of ctx req] by (simp_all add: eval_headers_def split: option.splits)
  have fb: "llm_fallback m' = llm_fallback m" by (simp add: m' llm_fallback_def)
  have "check_approval_llm m j ctx req = check_approval_llm m' j' ctx req"
    using agree by (auto simp: check_approval_llm_def decide_llm_def fb run_judge_def same
        split: sum.splits option.splits prod.splits)
  moreover have "mg_mode m' = mg_mode m" "mg_observer m' = mg_observer m" "mg_judge m' = Some j'"
    by (simp_all add: m')
  ultimately show ?thesis using m
    by (simp add: check_approval_def check_approval_inner_def Let_def split: sum.split)
qed

theorem judge_sees_only_evaluation_copies_witness:
  "check_approval example_manager example_ctx example_request =
   check_approval (example_manager\<lparr>mg_judge := Some (\<lambda>m u h b p. if b = ''hi'' then allow_all_judge m u h b p
      else (empty_judge_result, None))\<rparr>) example_ctx example_request"
proof (rule judge_sees_only_evaluation_copies [OF _ refl])
  show "mg_judge example_manager = Some allow_all_judge"
    by (simp add: example_manager_def set_judge_def set_mode_def)
qed (simp add: example_ctx_def request_body_for_approval_def eval_body_def)

text \<open>
  every outcome is ALLOW, DENY or the error of reading the request's own body. The
  observer is told exactly the decisions that were returned, with their mode, and nothing
  on an error.
\<close>

theorem approval_outcomes:
  "case check_approval m ctx req of
     (Inl e, events) \<Rightarrow>
       mg_mode m \<noteq> ''passthrough'' \<and> mg_judge m \<noteq> None \<and> cx_buffered_body ctx = None \<and>
       (\<exists>b e'. rq_body req = Some b \<and> bs_err b = Some e' \<and> e = ''failed to read request body: '' @ e') \<and>
       events = []
   | (Inr (d, body), events) \<Rightarrow>
       ad_decision d \<in> {DecisionAllow, DecisionDeny} \<and>
       events = (if mg_observer m
         then [OnApprovalDecision (ad_decision d) (mg_mode m), OnApprovalLatency (mg_mode m) (ad_decision d)]
         else [])"
proof (cases "fst (check_approval m ctx req)")
  case (Inl e)
  then show ?thesis
    by (auto simp: check_approval_def check_approval_inner_def check_approval_llm_def
        request_body_for_approval_def read_all_def Let_def split: if_splits option.splits sum.splits)
next
  case (Inr db)
  obtain d b where db: "db = (d, b)" by fastforce
  have "ad_decision d \<in> {DecisionAllow, DecisionDeny}"
  proof (cases "mg_mode m = ''passthrough'' \<or> mg_judge m = None")
    case True
    then show ?thesis using Inr db
      by (auto simp: check_approval_def check_approval_inner_def Let_def split: if_splits)
  next
    case False
    then obtain j where "check_approval_llm m j ctx req = Inr (d, b)"
      using Inr db by (auto simp: check_approval_def check_approval_inner_def Let_def)
    then obtain body req' where "d = decide_llm m j ctx req' body" by (rule check_approval_llm_cases)
    then show ?thesis
      by (auto simp: decide_llm_def static_decision_def llm_fallback_decision run_judge_decision
          split: option.splits prod.splits)
  qed
  then show ?thesis using Inr db by (simp add: check_approval_def Let_def)
qed

text \<open>
  decisions of the judge are attributed. Whenever the judge was run, the decision
  carries the policy's id, and a judge that names its model leaves its response record:
  result \<open>success\<close> with the decision and the reason, or result \<open>error\<close> with a
  raw output that is never empty unless the error text is.
\<close>

theorem judge_runs_are_recorded:
  assumes "j (rq_method req) (rq_url req) (eval_headers ctx req) (eval_body ctx body) p = (r, err)"
    and "jr_model r \<noteq> []"
  shows "ad_policy_id (run_judge m j ctx req body p) = lp_id p \<and>
    (\<exists>lr. ad_llm_response (run_judge m j ctx req body p) = Some lr \<and> lr_model lr = jr_model r \<and>
      (case err of
         None \<Rightarrow> lr_result lr = ''success'' \<and> lr_decision lr = jr_decision r \<and> lr_reason lr = jr_reason r
       | Some e \<Rightarrow> lr_result lr = ''error'' \<and> lr_decision lr = [] \<and> (lr_raw_output lr = [] \<longrightarrow> e = [])))"
  using assms
  by (auto simp: run_judge_def judged_decision_def judge_result_to_llm_response_def Let_def
      split: option.splits)

theorem judge_runs_are_recorded_witness:
  "ad_policy_id (run_judge example_manager allow_all_judge example_ctx example_request ''hi'' example_policy) = ''p1''"
  using judge_runs_are_recorded [of allow_all_judge example_request example_ctx "''hi''" example_policy
      "empty_judge_result\<lparr>jr_decision := DecisionAllow, jr_model := ''m''\<rparr>" None example_manager]
  by (simp add: allow_all_judge_def example_policy_def empty_judge_result_def)

end
