(* ===== verification/Proxy_Props.thy ===== *)
theory Proxy_Props imports Proxy_Handler Approval_Props begin

text \<open>
  Properties of a request through the proxy: what may reach an upstream server, what it
  looks like there, what the client gets back, and what the audit log says about it.
\<close>

subsection \<open>The stages of a request\<close>

text \<open>The audit entries among the effects of a request, and whether it was sent upstream.\<close>

definition audit_logs :: "effect list \<Rightarrow> audit_entry list" where
  "audit_logs evs = concat (map (\<lambda>e. case e of AuditLog a \<Rightarrow> [a] | _ \<Rightarrow> []) evs)"

definition forwarded :: "effect list \<Rightarrow> http_request list" where
  "forwarded evs = concat (map (\<lambda>e. case e of UpstreamRequest q \<Rightarrow> [q] | _ \<Rightarrow> []) evs)"

lemma forwarded_iff: "UpstreamRequest q \<in> set evs \<longleftrightarrow> q \<in> set (forwarded evs)"
  by (auto simp: forwarded_def split: effect.splits)

lemma effects_append [simp]:
  "audit_logs (xs @ ys) = audit_logs xs @ audit_logs ys" "forwarded (xs @ ys) = forwarded xs @ forwarded ys"
  by (simp_all add: audit_logs_def forwarded_def)

lemma effects_simps [simp]:
  "audit_logs [] = []" "forwarded [] = []"
  "audit_logs (AuditLog a # xs) = a # audit_logs xs" "forwarded (AuditLog a # xs) = forwarded xs"
  "audit_logs (AuditAdd a # xs) = audit_logs xs" "forwarded (AuditAdd a # xs) = forwarded xs"
  "audit_logs (UpstreamRequest q # xs) = audit_logs xs" "forwarded (UpstreamRequest q # xs) = q # forwarded xs"
  "audit_logs (PersistLLMResponse l # xs) = audit_logs xs" "forwarded (PersistLLMResponse l # xs) = forwarded xs"
  "audit_logs (map ObserverEvent evs) = []" "forwarded (map ObserverEvent evs) = []"
  by (simp_all add: audit_logs_def forwarded_def)

lemma log_entry_effects [simp]:
  "audit_logs (log_entry hh e) = [e]" "forwarded (log_entry hh e) = []"
  by (simp_all add: log_entry_def)

lemma persist_effects [simp]:
  "audit_logs (snd (persist_llm_response hh lr)) = []" "forwarded (snd (persist_llm_response hh lr)) = []"
  by (auto simp: persist_llm_response_def split: option.split sum.split)

lemma buffer_request_body_same:
  "buffer_request_body r = (body, truncated, r1) \<Longrightarrow>
     rq_method r1 = rq_method r \<and> rq_url r1 = rq_url r \<and> rq_header r1 = rq_header r \<and> rq_url_host r1 = rq_url_host r"
  by (auto simp: buffer_request_body_def Let_def split: option.splits if_splits prod.splits)

lemma check_approval_decides:
  "fst (check_approval m ctx r) = Inr (d, b) \<Longrightarrow> ad_decision d = DecisionAllow \<or> ad_decision d = DecisionDeny"
  by (auto simp: check_approval_def check_approval_inner_def check_approval_llm_def decide_llm_def Let_def
      static_decision_def llm_fallback_decision run_judge_decision case_prod_beta
      split: option.splits if_splits sum.splits prod.splits)

lemma check_approval_buffered_ok:
  "cx_buffered_body ctx = Some s \<Longrightarrow> \<exists>d b. fst (check_approval m ctx r) = Inr (d, b)"
  by (auto simp: check_approval_def check_approval_inner_def check_approval_llm_def
      request_body_for_approval_def Let_def split: option.split)

lemma request_ctx_buffered [simp]:
  "cx_buffered_body (request_ctx hh policy headers body) = Some body"
  "cx_policy (request_ctx hh policy headers body) = policy"
  by (simp_all add: request_ctx_def case_prod_beta)

text \<open>The approval stage: it allows, or it denies and logs; the other branches are not reached.\<close>

lemma run_approval_cases:
  obtains (allowed) d rid evs b where "run_approval hh rid' start now uid policy body r = (Approved d rid, evs)"
      "fst (check_approval (hd_manager hh) (request_ctx hh policy (rq_header r) body) r) = Inr (d, b)"
      "ad_decision d = DecisionAllow" "audit_logs evs = []" "forwarded evs = []"
    | (denied) d e evs where "run_approval hh rid' start now uid policy body r = (Refused d (empty_response 403), evs)"
      "audit_logs evs = [e]" "forwarded evs = []" "ae_response_status e = 403" "ae_decision e = ''denied''"
      "ae_user_id e = uid" "ae_method e = rq_method r" "ae_url e = rq_url r"
proof -
  let ?ctx = "request_ctx hh policy (rq_header r) body"
  from check_approval_buffered_ok [of ?ctx body "hd_manager hh" r] obtain d b
    where c: "fst (check_approval (hd_manager hh) ?ctx r) = Inr (d, b)" by auto
  obtain obs where c': "check_approval (hd_manager hh) ?ctx r = (Inr (d, b), obs)"
    using c by (metis prod.collapse)
  obtain rid pevs where p: "persist_llm_response hh (ad_llm_response d) = (rid, pevs)"
    by (cases "persist_llm_response hh (ad_llm_response d)")
  have pe: "audit_logs pevs = []" "forwarded pevs = []" using persist_effects p by (metis snd_conv)+
  from check_approval_decides [OF c] show thesis
  proof
    assume d: "ad_decision d = DecisionAllow"
    show thesis by (rule allowed [OF _ c d, where rid = rid and evs = "map ObserverEvent obs @ pevs"])
        (simp_all add: run_approval_def c' p d pe)
  next
    assume d: "ad_decision d = DecisionDeny"
    let ?e = "apply_decision d rid (ad_reason d)
      ((new_entry rid' r (rq_header r) start now uid)\<lparr>ae_decision := ''denied'', ae_response_status := 403,
        ae_request_body := truncate_body_for_audit body, ae_response_headers := close_header\<rparr>)"
    show thesis by (rule denied [where e = ?e and evs = "map ObserverEvent obs @ pevs @ log_entry hh ?e"])
        (simp_all add: run_approval_def c' p d pe apply_decision_def new_entry_def)
  qed
qed

lemma finish_response_effects:
  "finish_response hh start e resp = (out, evs) \<Longrightarrow> forwarded evs = [] \<and>
     (\<exists>e'. audit_logs evs = [e'] \<and> ae_response_status e' = rs_status (fst out) \<and> ae_decision e' = ae_decision e \<and>
        ae_user_id e' = ae_user_id e \<and> ae_method e' = ae_method e \<and> ae_url e' = ae_url e)"
  by (auto simp: finish_response_def Let_def error_response_def synthetic_response_def
      split: if_splits prod.splits option.splits bool.splits)

lemma forward_request_effects:
  assumes "forward_request hh rid' start now uid r body truncated d rid = (out, evs)"
  shows "(\<exists>e. audit_logs evs = [e] \<and> ae_response_status e = rs_status (fst out) \<and> ae_user_id e = uid \<and>
      ae_method e = rq_method r \<and> ae_url e = rq_url r \<and> (ae_decision e = ''approved'' \<longleftrightarrow> forwarded evs \<noteq> [])) \<and>
    (forwarded evs = [] \<or> forwarded evs = [build_proxy_request r body truncated])"
proof -
  let ?entry = "approved_entry rid' start now uid r body d rid"
  have en: "ae_user_id ?entry = uid" "ae_method ?entry = rq_method r" "ae_url ?entry = rq_url r" "ae_decision ?entry = ''approved''"
    by (simp_all add: approved_entry_def apply_decision_def new_entry_def)
  show ?thesis
  proof (cases "hd_new_request hh (rq_method r) (rq_url r)")
    case (Some e)
    then show ?thesis using assms en
      by (auto simp: forward_request_def Let_def error_response_def synthetic_response_def)
  next
    case None
    let ?q = "build_proxy_request r body truncated"
    show ?thesis
    proof (cases "hd_do hh ?q")
      case (Inl e)
      then show ?thesis using assms en None
        by (auto simp: forward_request_def Let_def error_response_def synthetic_response_def)
    next
      case (Inr resp)
      obtain out' evs' where f: "finish_response hh start ?entry resp = (out', evs')"
        by (cases "finish_response hh start ?entry resp")
      from finish_response_effects [OF f] assms en None Inr f show ?thesis
        by (auto simp: forward_request_def Let_def)
    qed
  qed
qed

text \<open>A request that passes authentication.\<close>

definition authenticated :: "handler \<Rightarrow> proxy_auth option \<Rightarrow> http_request \<Rightarrow> (string \<times> llm_policy option) option" where
  "authenticated hh ctxAuth r =
     (case resolve_auth ctxAuth r of
        Inl _ \<Rightarrow> None
      | Inr auth \<Rightarrow> (let (uid, policy) = identify_user hh auth in
          if auth_gate hh auth uid = None then Some (uid, policy) else None))"

lemma resolve_auth_header: "rq_header r = rq_header r' \<Longrightarrow> resolve_auth ctxAuth r = resolve_auth ctxAuth r'"
  by (simp add: resolve_auth_def split: option.split)

lemma process_request_unauthenticated:
  assumes "authenticated hh ctxAuth r = None"
  shows "\<exists>resp. process_request hh rid' start now ctxAuth r = ((resp, None), []) \<and> rs_status resp = 407"
proof -
  obtain body truncated r1 where b: "buffer_request_body r = (body, truncated, r1)" by (cases "buffer_request_body r")
  have "resolve_auth ctxAuth r1 = resolve_auth ctxAuth r"
    using buffer_request_body_same [OF b] by (intro resolve_auth_header) simp
  then show ?thesis using assms b
    by (auto simp: process_request_def authenticated_def auth_gate_def unsupported_auth_scheme_response_def
        proxy_auth_required_response_def synthetic_response_def Let_def split: sum.splits prod.splits if_splits)
qed

lemma process_request_authenticated:
  assumes "authenticated hh ctxAuth r = Some (uid, policy)"
    and "buffer_request_body r = (body, truncated, r1)"
  shows "process_request hh rid' start now ctxAuth r =
    (case run_approval hh rid' start now uid policy body (strip_proxy_authorization r1) of
       (Refused _ resp, evs) \<Rightarrow> ((resp, None), evs)
     | (CheckFailed resp, evs) \<Rightarrow> ((resp, None), evs)
     | (Approved d rid, evs) \<Rightarrow>
         (let (out, evs') = forward_request hh rid' start now uid (strip_proxy_authorization r1) body truncated d rid
          in (out, evs @ evs')))"
proof -
  have "resolve_auth ctxAuth r1 = resolve_auth ctxAuth r"
    using buffer_request_body_same [OF assms(2)] by (intro resolve_auth_header) simp
  then show ?thesis using assms
    by (auto simp: process_request_def authenticated_def Let_def split: sum.splits prod.splits if_splits)
qed

text \<open>What is known of a request that was sent upstream.\<close>

lemma forwarded_request:
  assumes "UpstreamRequest q \<in> set (snd (process_request hh rid' start now ctxAuth r))"
  obtains uid policy body truncated r1 d b where "authenticated hh ctxAuth r = Some (uid, policy)"
    "buffer_request_body r = (body, truncated, r1)"
    "fst (check_approval (hd_manager hh) (request_ctx hh policy (rq_header (strip_proxy_authorization r1)) body)
       (strip_proxy_authorization r1)) = Inr (d, b)"
    "ad_decision d = DecisionAllow" "q = build_proxy_request (strip_proxy_authorization r1) body truncated"
proof (cases "authenticated hh ctxAuth r")
  case None
  then show ?thesis using process_request_unauthenticated [OF None, of rid' start now] assms by auto
next
  case (Some up)
  obtain uid policy where up: "up = (uid, policy)" by (cases up)
  obtain body truncated r1 where b: "buffer_request_body r = (body, truncated, r1)" by (cases "buffer_request_body r")
  note pr = process_request_authenticated [OF Some [unfolded up] b, of rid' start now]
  have q: "q \<in> set (forwarded (snd (process_request hh rid' start now ctxAuth r)))"
    using assms forwarded_iff by blast
  show ?thesis
  proof (rule run_approval_cases [of hh rid' start now uid policy body "strip_proxy_authorization r1"])
    fix d rid evs bo
    assume a: "run_approval hh rid' start now uid policy body (strip_proxy_authorization r1) = (Approved d rid, evs)"
      "fst (check_approval (hd_manager hh) (request_ctx hh policy (rq_header (strip_proxy_authorization r1)) body)
         (strip_proxy_authorization r1)) = Inr (d, bo)" "ad_decision d = DecisionAllow"
      "audit_logs evs = []" "forwarded evs = []"
    obtain out evs' where f: "forward_request hh rid' start now uid (strip_proxy_authorization r1) body truncated d rid = (out, evs')"
      by (cases "forward_request hh rid' start now uid (strip_proxy_authorization r1) body truncated d rid")
    have "q = build_proxy_request (strip_proxy_authorization r1) body truncated"
      using q forward_request_effects [OF f] by (auto simp: pr a f)
    with Some up b a show ?thesis using that by blast
  next
    fix d e evs
    assume "run_approval hh rid' start now uid policy body (strip_proxy_authorization r1) = (Refused d (empty_response 403), evs)"
      "forwarded evs = []"
    then show ?thesis using q by (simp add: pr)
  qed
qed

lemma buffered_body:
  "buffer_request_body r = (body, truncated, r1) \<Longrightarrow> rq_body r = Some b \<Longrightarrow>
     body = take (Suc maxBufferedBodySize) (bs_data b) \<and> truncated = (maxBufferedBodySize < length (bs_data b)) \<and>
     (if truncated then r1 = r else r1 = r\<lparr>rq_body := body_of (bs_data b)\<rparr>)"
  by (auto simp: buffer_request_body_def read_limited_def Let_def split: if_splits)

lemma request_ctx_eval:
  assumes "request_ctx hh policy headers body = ctx"
  shows "eval_headers ctx req = fst (eval_copies (hd_decoders hh) headers body)"
    and "eval_body ctx b = snd (eval_copies (hd_decoders hh) headers body)"
  using assms by (auto simp: request_ctx_def eval_headers_def eval_body_def case_prod_beta)

lemma strip_proxy_authorization_same [simp]:
  "rq_method (strip_proxy_authorization r) = rq_method r" "rq_url (strip_proxy_authorization r) = rq_url r"
  "rq_url_host (strip_proxy_authorization r) = rq_url_host r" "rq_body (strip_proxy_authorization r) = rq_body r"
  "rq_header (strip_proxy_authorization r) = hdr_del (rq_header r) ''Proxy-Authorization''"
  by (simp_all add: strip_proxy_authorization_def)

subsection \<open>Properties\<close>

text \<open>
  C1: Only allowed requests of known users reach an upstream server. With a user
  resolver, and outside passthrough mode and passthrough fallback, a request that is sent
  upstream carried a token the resolver knows, its user has a policy, no deny rule of that
  policy matches the method and URL that are sent, and either another rule matches them or
  the judge answered ALLOW without error, having been shown this method and URL, and the
  decoded copies of these headers and this body.
\<close>

theorem only_allowed_requests_reach_upstream:
  assumes up: "UpstreamRequest q \<in> set (snd (process_request hh rid start now ctxAuth r))"
    and ur: "hd_resolver hh = Some ur"
    and mode: "mg_mode (hd_manager hh) \<noteq> ''passthrough''" "mg_fallback_mode (hd_manager hh) \<noteq> ''passthrough''"
  shows "rq_method q = rq_method r \<and> rq_url q = rq_url r \<and> rq_host q = rq_url_host r \<and>
    (\<exists>auth uid p j. resolve_auth ctxAuth r = Inr auth \<and> pa_gateway_token auth \<noteq> [] \<and>
      ur_user_by_token ur (pa_gateway_token auth) = Some uid \<and> uid \<noteq> [] \<and> ur_policy_for_user ur uid = Some p \<and>
      mg_judge (hd_manager hh) = Some j \<and>
      (\<forall>s\<in>set (lp_static_rules p). static_rule_matches s (rq_method q) (rq_url q) \<longrightarrow> sr_action s \<noteq> ''deny'') \<and>
      ((\<exists>s\<in>set (lp_static_rules p). static_rule_matches s (rq_method q) (rq_url q)) \<or>
       (\<exists>res h body. lp_prompt p \<noteq> [] \<and> jr_decision res = DecisionAllow \<and>
          (h, body) = eval_copies (hd_decoders hh) (hdr_del (rq_header r) ''Proxy-Authorization'')
            (fst (buffer_request_body r)) \<and>
          j (rq_method q) (rq_url q) h body p = (res, None))))"
proof -
  from forwarded_request [OF up] obtain uid policy body truncated r1 d b where
    au: "authenticated hh ctxAuth r = Some (uid, policy)" and bb: "buffer_request_body r = (body, truncated, r1)"
    and ck: "fst (check_approval (hd_manager hh) (request_ctx hh policy (rq_header (strip_proxy_authorization r1)) body)
       (strip_proxy_authorization r1)) = Inr (d, b)"
    and ad: "ad_decision d = DecisionAllow" and q: "q = build_proxy_request (strip_proxy_authorization r1) body truncated" .
  note same = buffer_request_body_same [OF bb]
  have qq: "rq_method q = rq_method r" "rq_url q = rq_url r" "rq_host q = rq_url_host r"
    using same by (simp_all add: q build_proxy_request_def)
  from au obtain auth where auth: "resolve_auth ctxAuth r = Inr auth" "identify_user hh auth = (uid, policy)"
    "auth_gate hh auth uid = None"
    by (auto simp: authenticated_def Let_def split: sum.splits prod.splits if_splits)
  then have tok: "pa_gateway_token auth \<noteq> []" "uid \<noteq> []" using ur by (auto simp: auth_gate_def split: if_splits)
  with auth(2) ur have uid: "ur_user_by_token ur (pa_gateway_token auth) = Some uid" "ur_policy_for_user ur uid = policy"
    by (auto simp: identify_user_def split: option.splits)
  note ev = request_ctx_eval [OF refl, of hh policy "rq_header (strip_proxy_authorization r1)" body]
  have gnd: "\<exists>p j. policy = Some p \<and> mg_judge (hd_manager hh) = Some j \<and>
      (\<forall>s\<in>set (lp_static_rules p). static_rule_matches s (rq_method r) (rq_url r) \<longrightarrow> sr_action s \<noteq> ''deny'') \<and>
      ((\<exists>s\<in>set (lp_static_rules p). static_rule_matches s (rq_method r) (rq_url r)) \<or>
       (\<exists>res. lp_prompt p \<noteq> [] \<and> jr_decision res = DecisionAllow \<and>
          j (rq_method r) (rq_url r) (fst (eval_copies (hd_decoders hh) (rq_header (strip_proxy_authorization r1)) body))
            (snd (eval_copies (hd_decoders hh) (rq_header (strip_proxy_authorization r1)) body)) p = (res, None)))"
    using allowed_has_ground [OF mode ck ad] same unfolding ev by auto
  have hdr: "rq_header (strip_proxy_authorization r1) = hdr_del (rq_header r) ''Proxy-Authorization''"
    using same by simp
  have "fst (buffer_request_body r) = body" using bb by simp
  then show ?thesis using gnd qq auth(1) tok uid unfolding hdr by (metis prod.collapse)
qed

definition example_user_policy :: llm_policy where
  "example_user_policy = example_policy\<lparr>lp_static_rules := []\<rparr>"

definition example_resolver :: user_resolver where
  "example_resolver =
     \<lparr>ur_user_by_token = (\<lambda>t. if t = ''gat_a'' then Some ''u1'' else None),
      ur_policy_for_user = (\<lambda>u. Some example_user_policy)\<rparr>"

definition example_response :: http_response where
  "example_response = \<lparr>rs_status = 200, rs_header = [], rs_body = body_of ''ok'', rs_content_length = 2,
     rs_transfer_encoding = [], rs_close = False\<rparr>"

definition example_handler :: handler where
  "example_handler =
     \<lparr>hd_manager = example_manager, hd_resolver = Some example_resolver, hd_audit_reader = True,
      hd_llm_writer = None,
      hd_decoders = \<lparr>dc_gzip = (\<lambda>_. Inl []), dc_zlib = (\<lambda>_. Inl []), dc_flate = (\<lambda>s. \<lparr>bs_data = s, bs_err = None\<rparr>),
        dc_brotli = (\<lambda>s. \<lparr>bs_data = s, bs_err = None\<rparr>)\<rparr>,
      hd_new_request = (\<lambda>_ _. None), hd_do = (\<lambda>q. Inr example_response),
      hd_allowed_private_cidrs = [], hd_insecure_skip_upstream_verify = False, hd_insecure_skip_verify_hosts = []\<rparr>"

definition example_auth :: proxy_auth where "example_auth = \<lparr>pa_gateway_token = ''gat_a''\<rparr>"

lemma example_authenticated:
  "authenticated example_handler (Some example_auth) r = Some (''u1'', Some example_user_policy)"
  by (simp add: authenticated_def resolve_auth_def identify_user_def auth_gate_def example_handler_def
      example_auth_def example_resolver_def)

lemma example_approved:
  "\<exists>d rid evs. run_approval example_handler rid' start now uid (Some example_user_policy) body r = (Approved d rid, evs) \<and>
     forwarded evs = []"
proof -
  have "fst (check_approval (hd_manager example_handler)
      (request_ctx example_handler (Some example_user_policy) (rq_header r) body) r) = Inr (d, b) \<Longrightarrow>
      ad_decision d = DecisionAllow" for d b
    by (auto simp: check_approval_def check_approval_inner_def example_handler_def example_manager_def set_judge_def
        set_mode_def check_approval_llm_def decide_llm_def static_flags_def example_user_policy_def
        example_policy_def run_judge_def allow_all_judge_def judged_decision_def empty_judge_result_def Let_def
        split: sum.splits)
  then show ?thesis
    by (rule_tac run_approval_cases [of example_handler rid' start now uid "Some example_user_policy" body r])
      (auto simp: run_approval_def Let_def case_prod_beta split: sum.splits if_splits)
qed

lemma example_forwarded:
  "buffer_request_body r = (body, truncated, r1) \<Longrightarrow>
   UpstreamRequest (build_proxy_request (strip_proxy_authorization r1) body truncated) \<in>
     set (snd (process_request example_handler rid' start now (Some example_auth) r))"
proof -
  assume b: "buffer_request_body r = (body, truncated, r1)"
  obtain d rid evs where a: "run_approval example_handler rid' start now ''u1'' (Some example_user_policy) body
      (strip_proxy_authorization r1) = (Approved d rid, evs)" using example_approved by blast
  have "forwarded (snd (forward_request example_handler rid' start now ''u1'' r2 body truncated d rid)) =
      [build_proxy_request r2 body truncated]" for r2
    by (simp add: forward_request_def example_handler_def Let_def finish_response_def case_prod_beta
        should_stream_response_def split: option.split bool.split)
  then show ?thesis
    by (simp add: process_request_authenticated [OF example_authenticated b] a forwarded_iff case_prod_beta)
qed

lemma example_upstream:
  "\<exists>q. UpstreamRequest q \<in> set (snd (process_request example_handler ''r1'' 0 0 (Some example_auth) example_request))"
proof -
  obtain body truncated r1 where "buffer_request_body example_request = (body, truncated, r1)"
    by (cases "buffer_request_body example_request")
  then show ?thesis using example_forwarded by blast
qed

theorem only_allowed_requests_reach_upstream_witness:
  "\<exists>q. UpstreamRequest q \<in> set (snd (process_request example_handler ''r1'' 0 0 (Some example_auth) example_request)) \<and>
     rq_url q = ''https://x.com/a'' \<and> mg_judge (hd_manager example_handler) \<noteq> None"
proof -
  from example_upstream obtain q where q:
    "UpstreamRequest q \<in> set (snd (process_request example_handler ''r1'' 0 0 (Some example_auth) example_request))" by blast
  have "hd_resolver example_handler = Some example_resolver" "mg_mode (hd_manager example_handler) \<noteq> ''passthrough''"
    "mg_fallback_mode (hd_manager example_handler) \<noteq> ''passthrough''"
    by (simp_all add: example_handler_def example_manager_def set_judge_def set_mode_def)
  from only_allowed_requests_reach_upstream [OF q this] q show ?thesis
    by (auto simp: example_request_def intro!: exI [of _ q])
qed

text \<open>
  C19: What reaches the upstream server is the client's request: its method and URL, a body
  with exactly the bytes the client sent, however long it is, and its headers less exactly the
  standard hop-by-hop ones (the credentials for the proxy among them) and those that an element
  of a Connection header names, in any letter case; every other header keeps its values.
\<close>

theorem forwarded_request_is_the_clients:
  assumes "UpstreamRequest q \<in> set (snd (process_request hh rid start now ctxAuth r))" and "rq_body r = Some b"
  shows "rq_method q = rq_method r \<and> rq_url q = rq_url r \<and>
    (\<exists>b'. rq_body q = Some b' \<and> bs_data b' = bs_data b) \<and>
    (\<forall>h \<in> {''Connection'', ''Proxy-Connection'', ''Keep-Alive'', ''Proxy-Authenticate'', ''Proxy-Authorization'',
       ''TE'', ''Trailer'', ''Upgrade''}. hdr_values (rq_header q) h = []) \<and>
    (\<forall>k. hdr_values (rq_header q) k =
       (if canonical_key k \<in> {''Connection'', ''Proxy-Connection'', ''Keep-Alive'', ''Proxy-Authenticate'',
            ''Proxy-Authorization'', ''Te'', ''Trailer'', ''Upgrade''} \<or>
          (\<exists>v\<in>set (hdr_values (rq_header r) ''Connection''). \<exists>p\<in>set (split_byte v (CHR '','')).
             trim_space p \<noteq> [] \<and> canonical_key (trim_space p) = canonical_key k)
        then [] else hdr_values (rq_header r) k))"
proof -
  from forwarded_request [OF assms(1)] obtain uid policy body truncated r1 d b0 where
    bb: "buffer_request_body r = (body, truncated, r1)"
    and q: "q = build_proxy_request (strip_proxy_authorization r1) body truncated" .
  note same = buffer_request_body_same [OF bb]
  note body = buffered_body [OF bb assms(2)]
  have mu: "rq_method q = rq_method r" "rq_url q = rq_url r" using same by (simp_all add: q build_proxy_request_def)
  have bd: "\<exists>b'. rq_body q = Some b' \<and> bs_data b' = bs_data b"
    using body assms(2) by (cases truncated) (auto simp: q build_proxy_request_def body_of_def)
  let ?r1h = "hdr_del (rq_header r) ''Proxy-Authorization''"
  have h: "rq_header q = strip_hop_by_hop_headers ?r1h False"
    using same by (simp add: q build_proxy_request_def)
  let ?D = "\<lambda>k. \<exists>v\<in>set (hdr_values (rq_header r) ''Connection''). \<exists>p\<in>set (split_byte v (CHR '','')).
      trim_space p \<noteq> [] \<and> canonical_key (trim_space p) = canonical_key k"
  have conn: "hdr_values ?r1h ''Connection'' = hdr_values (rq_header r) ''Connection''" by (simp add: hdr.vals_del)
  have vals: "hdr_values (rq_header q) k =
     (if canonical_key k \<in> standard_hops False \<or> ?D k then [] else hdr_values (rq_header r) k)" for k
    unfolding h strip_is_exact conn by (auto simp: hdr.vals_del standard_hops_def)
  have hops: "standard_hops False = {''Connection'', ''Proxy-Connection'', ''Keep-Alive'', ''Proxy-Authenticate'',
      ''Proxy-Authorization'', ''Te'', ''Trailer'', ''Upgrade''}"
    by (auto simp: standard_hops_def)
  have gone: "\<forall>h \<in> {''Connection'', ''Proxy-Connection'', ''Keep-Alive'', ''Proxy-Authenticate'', ''Proxy-Authorization'',
       ''TE'', ''Trailer'', ''Upgrade''}. hdr_values (rq_header q) h = []"
    by (simp add: vals standard_hops_def)
  show ?thesis using mu bd gone vals unfolding hops by blast
qed

theorem forwarded_request_is_the_clients_witness:
  "\<exists>q. UpstreamRequest q \<in> set (snd (process_request example_handler ''r1'' 0 0 (Some example_auth) example_request)) \<and>
     (\<exists>b'. rq_body q = Some b' \<and> bs_data b' = ''hi'')"
proof -
  from example_upstream obtain q where q:
    "UpstreamRequest q \<in> set (snd (process_request example_handler ''r1'' 0 0 (Some example_auth) example_request))" by blast
  have "rq_body example_request = Some \<lparr>bs_data = ''hi'', bs_err = None\<rparr>" by (simp add: example_request_def body_of_def)
  from forwarded_request_is_the_clients [OF q this] q show ?thesis by (auto intro!: exI [of _ q])
qed

text \<open>
  A body that breaks off is forwarded as if it were whole. When reading the
  client's body fails within the buffer, the request is judged on the bytes that arrived
  and, if allowed, they are sent upstream with their length as the Content-Length and no
  error: the read error is only logged, and the audit entry does not mention it.
\<close>

theorem broken_body_forwarded_as_complete:
  assumes "UpstreamRequest q \<in> set (snd (process_request hh rid start now ctxAuth r))"
    and "rq_body r = Some \<lparr>bs_data = part, bs_err = Some e\<rparr>" and "length part \<le> maxBufferedBodySize"
  shows "rq_body q = Some \<lparr>bs_data = part, bs_err = None\<rparr> \<and> rq_content_length q = int (length part)"
proof -
  from forwarded_request [OF assms(1)] obtain uid policy body truncated r1 d b0 where
    bb: "buffer_request_body r = (body, truncated, r1)"
    and q: "q = build_proxy_request (strip_proxy_authorization r1) body truncated" .
  note body = buffered_body [OF bb assms(2)]
  then have "\<not> truncated" "body = part" using assms(3) by simp_all
  then show ?thesis by (simp add: q build_proxy_request_def body_of_def)
qed

theorem broken_body_forwarded_as_complete_witness:
  "\<exists>q. UpstreamRequest q \<in> set (snd (process_request example_handler ''r1'' 0 0 (Some example_auth)
       (example_request\<lparr>rq_body := Some \<lparr>bs_data = ''del'', bs_err = Some ''unexpected EOF''\<rparr>\<rparr>))) \<and>
     rq_body q = Some \<lparr>bs_data = ''del'', bs_err = None\<rparr> \<and> rq_content_length q = 3"
proof -
  let ?r = "example_request\<lparr>rq_body := Some \<lparr>bs_data = ''del'', bs_err = Some ''unexpected EOF''\<rparr>\<rparr>"
  obtain body truncated r1 where "buffer_request_body ?r = (body, truncated, r1)" by (cases "buffer_request_body ?r")
  from example_forwarded [OF this, of "''r1''" 0 0] obtain q where q:
    "UpstreamRequest q \<in> set (snd (process_request example_handler ''r1'' 0 0 (Some example_auth) ?r))" by blast
  have "length ''del'' \<le> maxBufferedBodySize" by (simp add: maxBufferedBodySize_def)
  from broken_body_forwarded_as_complete [OF q _ this, of "''unexpected EOF''"] q show ?thesis
    by (auto intro!: exI [of _ q])
qed

text \<open>
  C20: The audit log tells what happened. A request that does not authenticate has no
  effect at all and is answered 407. Every other request leaves exactly one audit entry,
  with the user, method and URL of the request and the status the client is given; it is
  marked approved exactly when the request was sent upstream, which happens at most once,
  and any other entry is a 403 denial or a 500 error.
\<close>

theorem every_request_audited_once:
  "case authenticated hh ctxAuth r of
     None \<Rightarrow> snd (process_request hh rid start now ctxAuth r) = [] \<and>
       rs_status (fst (fst (process_request hh rid start now ctxAuth r))) = 407
   | Some (uid, policy) \<Rightarrow>
       (\<exists>e. audit_logs (snd (process_request hh rid start now ctxAuth r)) = [e] \<and>
          ae_user_id e = uid \<and> ae_method e = rq_method r \<and> ae_url e = rq_url r \<and>
          ae_response_status e = rs_status (fst (fst (process_request hh rid start now ctxAuth r))) \<and>
          ((ae_decision e = ''approved'') = (length (forwarded (snd (process_request hh rid start now ctxAuth r))) = 1)) \<and>
          length (forwarded (snd (process_request hh rid start now ctxAuth r))) \<le> 1)"
proof (cases "authenticated hh ctxAuth r")
  case None
  then show ?thesis using process_request_unauthenticated [OF None, of rid start now] by auto
next
  case (Some up)
  obtain uid policy where up: "up = (uid, policy)" by (cases up)
  obtain body truncated r1 where b: "buffer_request_body r = (body, truncated, r1)" by (cases "buffer_request_body r")
  note same = buffer_request_body_same [OF b]
  note pr = process_request_authenticated [OF Some [unfolded up] b, of rid start now]
  let ?r2 = "strip_proxy_authorization r1"
  have "\<exists>e. audit_logs (snd (process_request hh rid start now ctxAuth r)) = [e] \<and>
          ae_user_id e = uid \<and> ae_method e = rq_method r \<and> ae_url e = rq_url r \<and>
          ae_response_status e = rs_status (fst (fst (process_request hh rid start now ctxAuth r))) \<and>
          ((ae_decision e = ''approved'') = (length (forwarded (snd (process_request hh rid start now ctxAuth r))) = 1)) \<and>
          length (forwarded (snd (process_request hh rid start now ctxAuth r))) \<le> 1"
  proof (rule run_approval_cases [of hh rid start now uid policy body ?r2])
    fix d rid' evs bo
    assume a: "run_approval hh rid start now uid policy body ?r2 = (Approved d rid', evs)"
      "audit_logs evs = []" "forwarded evs = []"
    obtain out evs' where f: "forward_request hh rid start now uid ?r2 body truncated d rid' = (out, evs')"
      by (cases "forward_request hh rid start now uid ?r2 body truncated d rid'")
    from forward_request_effects [OF f] same show ?thesis by (auto simp: pr a f)
  next
    fix d e evs
    assume "run_approval hh rid start now uid policy body ?r2 = (Refused d (empty_response 403), evs)"
      "audit_logs evs = [e]" "forwarded evs = []" "ae_response_status e = 403" "ae_decision e = ''denied''"
      "ae_user_id e = uid" "ae_method e = rq_method ?r2" "ae_url e = rq_url ?r2"
    then show ?thesis using same by (simp add: pr empty_response_def)
  qed
  then show ?thesis by (simp add: Some up)
qed

lemma finish_response_client:
  assumes "finish_response hh start e resp = (out, evs)" and "rs_body resp = Some b"
  shows "(rs_status (fst out) = rs_status resp \<and> rs_header (fst out) = rs_header resp \<and>
      (\<exists>b'. rs_body (fst out) = Some b' \<and> bs_data b' = bs_data b)) \<or>
    (rs_status (fst out) = 502 \<and> bs_err b \<noteq> None \<and> length (bs_data b) \<le> maxBufferedBodySize \<and>
      \<not> should_stream_response resp)"
proof (cases "should_stream_response resp")
  case True
  then show ?thesis using assms by (auto simp: finish_response_def Let_def)
next
  case no: False
  show ?thesis
  proof (cases "maxBufferedBodySize < length (bs_data b)")
    case True
    then show ?thesis using assms no by (auto simp: finish_response_def Let_def read_limited_def)
  next
    case False
    then show ?thesis using assms no
      by (cases "bs_err b")
        (auto simp: finish_response_def Let_def read_limited_def body_of_def error_response_def synthetic_response_def)
  qed
qed

text \<open>
  What the client gets back is the upstream response: for a request that was
  forwarded and answered, the same status and headers and every byte of the body, streamed
  or not; the only other outcome is a 502 when the body of a response that is not streamed
  fails within the buffer.
\<close>

theorem client_gets_the_upstream_response:
  assumes "UpstreamRequest q \<in> set (snd (process_request hh rid start now ctxAuth r))"
    and "hd_do hh q = Inr resp" and "rs_body resp = Some b"
  shows "(let out = fst (fst (process_request hh rid start now ctxAuth r)) in
      (rs_status out = rs_status resp \<and> rs_header out = rs_header resp \<and>
        (\<exists>b'. rs_body out = Some b' \<and> bs_data b' = bs_data b)) \<or>
      (rs_status out = 502 \<and> bs_err b \<noteq> None \<and> length (bs_data b) \<le> maxBufferedBodySize \<and>
        \<not> should_stream_response resp))"
proof -
  from forwarded_request [OF assms(1)] obtain uid policy body truncated r1 d0 b0 where
    au: "authenticated hh ctxAuth r = Some (uid, policy)" and bb: "buffer_request_body r = (body, truncated, r1)"
    and q: "q = build_proxy_request (strip_proxy_authorization r1) body truncated" .
  let ?r2 = "strip_proxy_authorization r1"
  note pr = process_request_authenticated [OF au bb, of rid start now]
  show ?thesis
  proof (rule run_approval_cases [of hh rid start now uid policy body ?r2])
    fix d rid' evs bo
    assume a: "run_approval hh rid start now uid policy body ?r2 = (Approved d rid', evs)" "forwarded evs = []"
    have new: "hd_new_request hh (rq_method ?r2) (rq_url ?r2) = None"
      using assms(1) unfolding forwarded_iff pr
      by (cases "hd_new_request hh (rq_method ?r2) (rq_url ?r2)") (auto simp: a forward_request_def Let_def)
    obtain out evs' where f: "finish_response hh start (approved_entry rid start now uid ?r2 body d rid') resp = (out, evs')"
      by (cases "finish_response hh start (approved_entry rid start now uid ?r2 body d rid') resp")
    have "forward_request hh rid start now uid ?r2 body truncated d rid' = (out, UpstreamRequest q # evs')"
      unfolding forward_request_def Let_def new q [symmetric] using assms(2) f by simp
    then have "fst (fst (process_request hh rid start now ctxAuth r)) = fst out" by (simp add: pr a)
    with finish_response_client [OF f assms(3)] show ?thesis by (simp add: Let_def)
  next
    fix d e evs
    assume "run_approval hh rid start now uid policy body ?r2 = (Refused d (empty_response 403), evs)" "forwarded evs = []"
    then show ?thesis using assms(1) by (simp add: pr forwarded_iff)
  qed
qed

theorem client_gets_the_upstream_response_witness:
  "rs_status (fst (fst (process_request example_handler ''r1'' 0 0 (Some example_auth) example_request))) = 200"
proof -
  from example_upstream obtain q where q:
    "UpstreamRequest q \<in> set (snd (process_request example_handler ''r1'' 0 0 (Some example_auth) example_request))" by blast
  have d: "hd_do example_handler q = Inr example_response" by (simp add: example_handler_def)
  have b: "rs_body example_response = Some \<lparr>bs_data = ''ok'', bs_err = None\<rparr>" by (simp add: example_response_def body_of_def)
  show ?thesis
    using client_gets_the_upstream_response [OF q d b] by (auto simp: example_response_def Let_def)
qed

end
