(* ===== verification/Websocket_Props.thy ===== *)
theory Websocket_Props imports Websocket Proxy_Props begin

text \<open>
  A concrete upgrade, and the relay: what is written to one side is what was read from the
  other, in order; and the deadline that should bound the draining does not hold.
\<close>

definition sample_ws_env :: ws_env where
  "sample_ws_env =
     \<lparr>we_lookup = one_host, we_dial = (\<lambda>_ _ _ _. None), we_write_request = None,
      we_read_response = Inr (error_response 101 [] []), we_write_response = None\<rparr>"

definition sample_ws_request :: http_request where
  "sample_ws_request =
     \<lparr>rq_method = ''GET'', rq_url = ''wss://api.x.com/s'', rq_url_scheme = ''wss'',
      rq_url_host = ''api.x.com'', rq_host = ''api.x.com'', rq_header = [(''Upgrade'', [''websocket''])], rq_body = None,
      rq_proto_major = 1, rq_proto_minor = 1, rq_remote_addr = [], rq_url_user = [], rq_url_tail = ''/s'', rq_content_length = 0\<rparr>"

definition sample_ws_effects :: "ws_effect list" where
  "sample_ws_effects =
     handle_websocket_upgrade (example_handler\<lparr>hd_allowed_private_cidrs := []\<rparr>) sample_ws_env ''r1'' 0 0 ''u'' empty_approval_decision [] sample_ws_request"

theorem websocket_dials_checked_address_witness:
  "ws_audited sample_ws_effects [(''Upgrade'', [''websocket''])]"
  using websocket_dials_checked_address [OF sample_ws_effects_def]
  by (simp add: sample_ws_request_def)

subsection \<open>The relay\<close>

definition relayed :: "ws_relay \<Rightarrow> bool" where
  "relayed w = (\<forall>src. \<exists>rest. wr_read w src = wr_written w (other src) @ rest \<and> (rest \<noteq> [] \<longrightarrow> wr_done w src) \<and>
     (wr_done w src \<longleftrightarrow> wr_write_closed w (other src)))"

lemma relayed_start: "relayed (ws_relay_start now)"
  by (simp add: relayed_def ws_relay_start_def)

lemma relayed_two:
  "relayed w \<longleftrightarrow>
     (\<exists>rest. wr_read w ClientSide = wr_written w UpstreamSide @ rest \<and> (rest \<noteq> [] \<longrightarrow> wr_done w ClientSide)) \<and>
     (\<exists>rest. wr_read w UpstreamSide = wr_written w ClientSide @ rest \<and> (rest \<noteq> [] \<longrightarrow> wr_done w UpstreamSide)) \<and>
     (wr_done w ClientSide \<longleftrightarrow> wr_write_closed w UpstreamSide) \<and>
     (wr_done w UpstreamSide \<longleftrightarrow> wr_write_closed w ClientSide)"
proof -
  have sides: "(\<forall>s. P s) \<longleftrightarrow> P ClientSide \<and> P UpstreamSide" for P
    by (metis side.exhaust)
  show ?thesis unfolding relayed_def sides other.simps by blast
qed

lemma relayed_copy:
  assumes "relayed w" and "\<not> wr_done w src"
  shows "relayed (ws_write (other src) later (length chunk) chunk
       (w\<lparr>wr_read := (wr_read w)(src := wr_read w src @ chunk)\<rparr>))"
  using assms unfolding relayed_two by (cases src) (auto simp: ws_write_def Let_def)

lemma relayed_short:
  assumes "relayed w" and "\<not> wr_done w src"
  shows "relayed (ws_finish src (ws_write (other src) later n chunk
       (w\<lparr>wr_read := (wr_read w)(src := wr_read w src @ chunk)\<rparr>)))"
  using assms unfolding relayed_two
  by (cases src) (auto simp: ws_write_def ws_finish_def Let_def intro: exI [of _ "drop n chunk"])

lemma relayed_finish: "relayed w \<Longrightarrow> relayed (ws_finish src w)"
  unfolding relayed_two by (cases src) (auto simp: ws_finish_def)

lemma relayed_step: "ws_step w w' \<Longrightarrow> relayed w \<Longrightarrow> relayed w'"
  by (erule ws_stepE) (auto intro: relayed_copy relayed_short relayed_finish, auto simp: relayed_def ws_drain_def)

text \<open>
  C26: the relay is faithful in both directions. Whatever the interleaving, what was written
  to one side is a prefix of what was read from the other, all of it while that direction is
  running, and a side's write half is closed exactly when the direction into it has ended.
\<close>

theorem websocket_relay_in_order:
  assumes "ws_run (ws_relay_start now) w"
  shows "\<exists>rest. wr_read w src = wr_written w (other src) @ rest \<and> (rest \<noteq> [] \<longrightarrow> wr_done w src) \<and>
     (wr_done w src \<longleftrightarrow> wr_write_closed w (other src))"
proof -
  have "ws_run v w' \<Longrightarrow> relayed v \<Longrightarrow> relayed w'" for v w'
    by (induction rule: ws_run.induct) (auto intro: relayed_step)
  with assms relayed_start show ?thesis by (auto simp: relayed_def)
qed

definition ws_half_open :: "time \<Rightarrow> ws_relay" where
  "ws_half_open t = ws_drain t (ws_finish ClientSide (ws_relay_start 0))"

lemma ws_half_open_run: "ws_run (ws_relay_start 0) (ws_half_open t)"
proof -
  have "ws_step (ws_relay_start 0) (ws_finish ClientSide (ws_relay_start 0))"
    by (rule ws_end) (simp add: ws_relay_start_def)
  moreover have "ws_step (ws_finish ClientSide (ws_relay_start 0)) (ws_half_open t)"
    unfolding ws_half_open_def by (rule ws_tighten) (simp_all add: ws_finish_def ws_relay_start_def)
  ultimately show ?thesis by (meson ws_refl ws_more)
qed

theorem websocket_relay_in_order_witness:
  "\<exists>rest. wr_read (ws_half_open 7) UpstreamSide = wr_written (ws_half_open 7) ClientSide @ rest"
  using websocket_relay_in_order [OF ws_half_open_run, of 7 UpstreamSide] by auto

text \<open>
  the drain deadline does not bound the draining. After the client's direction has
  ended and the drain deadline of five seconds is set, one chunk from the upstream before that
  deadline moves it, by the writer's own refresh, to thirty minutes after the write, while the
  relay still drains.
\<close>

theorem websocket_drain_not_bounded:
  fixes chunk :: string
  assumes "now \<le> t + wsDrainTimeout" and "chunk \<noteq> []"
  shows "\<exists>w. ws_run (ws_relay_start 0) w \<and> wr_draining w \<and> \<not> wr_done w UpstreamSide \<and>
    wr_read_deadline w UpstreamSide = later + wsIdleTimeout"
proof -
  let ?h = "ws_half_open t"
  let ?w = "ws_write ClientSide later (length chunk) chunk (?h\<lparr>wr_read := (wr_read ?h)(UpstreamSide := wr_read ?h UpstreamSide @ chunk)\<rparr>)"
  have "ws_step ?h ?w"
    using ws_copy [of ?h UpstreamSide now chunk later] assms
    by (simp add: ws_half_open_def ws_drain_def ws_finish_def ws_relay_start_def)
  then have "ws_run (ws_relay_start 0) ?w" using ws_half_open_run by (rule ws_more [rotated])
  moreover have "wr_draining ?w \<and> \<not> wr_done ?w UpstreamSide \<and> wr_read_deadline ?w UpstreamSide = later + wsIdleTimeout"
    using assms(2) by (simp add: ws_write_def ws_half_open_def ws_drain_def ws_finish_def ws_relay_start_def Let_def)
  ultimately show ?thesis by blast
qed

theorem websocket_drain_not_bounded_witness:
  "\<exists>w :: ws_relay. wr_draining w \<and> wr_read_deadline w UpstreamSide = 9 + wsIdleTimeout"
proof -
  have "(8::int) \<le> 7 + wsDrainTimeout" by (simp add: wsDrainTimeout_def)
  from websocket_drain_not_bounded [OF this, of "''x''" 9] show ?thesis by force
qed

end
