(* ===== verification/Lru.thy ===== *)
theory Lru imports Prelude begin

text \<open>
  The bounded LRU cache (\<open>internal/proxy/lru.go\<close>). The code keeps a map from keys to
  list elements and a doubly linked list of entries; an element is named here by the number
  it got when it was allocated, so the map and the list can disagree and the invariant
  \<open>lru_ok\<close> that they do not has to be proved. The specification is one recency
  list of distinct keys; each operation refines its counterpart there. The mutex makes every
  operation one step.
\<close>

record 'v lru_entry =
  le_key :: string
  le_val :: 'v

record 'v lru_cache =
  lc_max :: int
  lc_items :: "(string \<times> nat) list"
  lc_order :: "(nat \<times> 'v lru_entry) list"
  lc_next :: nat

definition new_lru_cache :: "int \<Rightarrow> 'v lru_cache" where
  "new_lru_cache n = \<lparr>lc_max = n, lc_items = [], lc_order = [], lc_next = 0\<rparr>"

text \<open>\<open>list.List.MoveToFront\<close> and \<open>Remove\<close>.\<close>

definition move_to_front :: "nat \<Rightarrow> (nat \<times> 'v lru_entry) list \<Rightarrow> (nat \<times> 'v lru_entry) list" where
  "move_to_front e xs = filter (\<lambda>p. fst p = e) xs @ filter (\<lambda>p. fst p \<noteq> e) xs"

definition set_front_val :: "'v \<Rightarrow> (nat \<times> 'v lru_entry) list \<Rightarrow> (nat \<times> 'v lru_entry) list" where
  "set_front_val v xs = (case xs of [] \<Rightarrow> [] | (i, x) # rest \<Rightarrow> (i, x\<lparr>le_val := v\<rparr>) # rest)"

definition lru_get :: "string \<Rightarrow> 'v lru_cache \<Rightarrow> 'v option \<times> 'v lru_cache" where
  "lru_get key c =
     (case map_of (lc_items c) key of
        Some elem \<Rightarrow>
          (let ord = move_to_front elem (lc_order c)
           in (map_option le_val (map_of ord elem), c\<lparr>lc_order := ord\<rparr>))
      | None \<Rightarrow> (None, c))"

text \<open>The block both inserting operations share: evict when full, then push to the front.\<close>

definition lru_evict :: "'v lru_cache \<Rightarrow> 'v lru_cache" where
  "lru_evict c =
     (if lc_max c \<le> int (length (lc_order c)) \<and> lc_order c \<noteq> [] then
        c\<lparr>lc_order := butlast (lc_order c),
          lc_items := AList.delete (le_key (snd (last (lc_order c)))) (lc_items c)\<rparr>
      else c)"

definition lru_push :: "string \<Rightarrow> 'v \<Rightarrow> 'v lru_cache \<Rightarrow> 'v lru_cache" where
  "lru_push key v c =
     c\<lparr>lc_order := (lc_next c, \<lparr>le_key = key, le_val = v\<rparr>) # lc_order c,
       lc_items := AList.update key (lc_next c) (lc_items c),
       lc_next := Suc (lc_next c)\<rparr>"

definition lru_put :: "string \<Rightarrow> 'v \<Rightarrow> 'v lru_cache \<Rightarrow> 'v lru_cache" where
  "lru_put key v c =
     (case map_of (lc_items c) key of
        Some elem \<Rightarrow> c\<lparr>lc_order := set_front_val v (move_to_front elem (lc_order c))\<rparr>
      | None \<Rightarrow> lru_push key v (lru_evict c))"

definition lru_get_or_create :: "string \<Rightarrow> 'v \<Rightarrow> 'v lru_cache \<Rightarrow> 'v option \<times> 'v lru_cache" where
  "lru_get_or_create key created c =
     (case map_of (lc_items c) key of
        Some elem \<Rightarrow>
          (let ord = move_to_front elem (lc_order c)
           in (map_option le_val (map_of ord elem), c\<lparr>lc_order := ord\<rparr>))
      | None \<Rightarrow> (Some created, lru_push key created (lru_evict c)))"

definition lru_len :: "'v lru_cache \<Rightarrow> nat" where "lru_len c = length (lc_order c)"

subsection \<open>The specification: one recency list\<close>

type_synonym 'v recency = "(string \<times> 'v) list"

definition sp_get :: "string \<Rightarrow> 'v recency \<Rightarrow> 'v option \<times> 'v recency" where
  "sp_get k s = (case map_of s k of None \<Rightarrow> (None, s) | Some v \<Rightarrow> (Some v, (k, v) # AList.delete k s))"

definition sp_insert :: "int \<Rightarrow> string \<Rightarrow> 'v \<Rightarrow> 'v recency \<Rightarrow> 'v recency" where
  "sp_insert n k v s = (k, v) # (if n \<le> int (length s) then butlast s else s)"

definition sp_put :: "int \<Rightarrow> string \<Rightarrow> 'v \<Rightarrow> 'v recency \<Rightarrow> 'v recency" where
  "sp_put n k v s = (case map_of s k of None \<Rightarrow> sp_insert n k v s | Some _ \<Rightarrow> (k, v) # AList.delete k s)"

definition sp_get_or_create :: "int \<Rightarrow> string \<Rightarrow> 'v \<Rightarrow> 'v recency \<Rightarrow> 'v option \<times> 'v recency" where
  "sp_get_or_create n k v s =
     (case map_of s k of None \<Rightarrow> (Some v, sp_insert n k v s) | Some w \<Rightarrow> (Some w, (k, w) # AList.delete k s))"

text \<open>The abstraction: the entries in list order.\<close>

definition lru_abs :: "'v lru_cache \<Rightarrow> 'v recency" where
  "lru_abs c = map (\<lambda>p. (le_key (snd p), le_val (snd p))) (lc_order c)"

subsection \<open>Invariant: the map and the list describe the same entries\<close>

definition lru_coherent :: "(string \<times> nat) list \<Rightarrow> (nat \<times> 'v lru_entry) list \<Rightarrow> nat \<Rightarrow> bool" where
  "lru_coherent items ord nxt \<longleftrightarrow>
     distinct (map fst items) \<and> distinct (map fst ord) \<and> distinct (map (le_key \<circ> snd) ord) \<and>
     (\<forall>i\<in>fst ` set ord. i < nxt) \<and>
     (\<forall>k i. map_of items k = Some i \<longleftrightarrow> (\<exists>x. (i, x) \<in> set ord \<and> le_key x = k))"

definition lru_ok :: "'v lru_cache \<Rightarrow> bool" where
  "lru_ok c \<longleftrightarrow> lru_coherent (lc_items c) (lc_order c) (lc_next c) \<and>
     int (length (lc_order c)) \<le> max 1 (lc_max c)"

lemma move_to_front_split:
  assumes "distinct (map fst ord)" and "(i, x) \<in> set ord"
  shows "\<exists>a b. ord = a @ (i, x) # b \<and> move_to_front i ord = (i, x) # a @ b"
proof -
  from assms(2) obtain a b where ord: "ord = a @ (i, x) # b" by (meson split_list)
  then have no: "\<And>p. p \<in> set (a @ b) \<Longrightarrow> fst p \<noteq> i"
    using assms(1) by (auto simp: image_iff)
  then have "\<forall>p\<in>set a. fst p \<noteq> i" "\<forall>p\<in>set b. fst p \<noteq> i" by simp_all
  then have "filter (\<lambda>p. fst p = i) a = []" "filter (\<lambda>p. fst p = i) b = []"
    "filter (\<lambda>p. fst p \<noteq> i) a = a" "filter (\<lambda>p. fst p \<noteq> i) b = b"
    by (simp_all add: filter_empty_conv filter_id_conv)
  then have "move_to_front i ord = (i, x) # a @ b" by (simp add: ord move_to_front_def)
  then show ?thesis using ord by blast
qed


lemma map_of_split: "k \<notin> fst ` set a \<Longrightarrow> map_of (a @ (k, v) # b) k = Some v"
  by (simp add: map_add_def map_of_eq_None_iff [THEN iffD2])

lemma delete_not_in: "k \<notin> fst ` set xs \<Longrightarrow> AList.delete k xs = xs"
  by (induction xs) auto

lemma delete_split:
  "k \<notin> fst ` set a \<Longrightarrow> k \<notin> fst ` set b \<Longrightarrow> AList.delete k (a @ (k, v) # b) = a @ b"
  by (induction a) (auto simp: delete_not_in)

lemma coherentD:
  assumes "lru_coherent items ord nxt"
  shows "map_of items k = Some i \<longleftrightarrow> (\<exists>x. (i, x) \<in> set ord \<and> le_key x = k)"
    and "distinct (map fst ord)" and "distinct (map (le_key \<circ> snd) ord)" and "distinct (map fst items)"
  using assms unfolding lru_coherent_def by blast+

text \<open>The list, split at the element a key names, and what moving it gives.\<close>

lemma coherent_hit:
  assumes "lru_coherent items ord nxt" and "map_of items k = Some i"
  shows "\<exists>x a b. le_key x = k \<and> ord = a @ (i, x) # b \<and> move_to_front i ord = (i, x) # a @ b \<and>
    k \<notin> (\<lambda>p. le_key (snd p)) ` set (a @ b)"
proof -
  from coherentD(1) [OF assms(1)] assms(2) obtain x where x: "(i, x) \<in> set ord" "le_key x = k" by blast
  from assms(1) have "distinct (map fst ord)" by (simp add: lru_coherent_def)
  from move_to_front_split [OF this x(1)] obtain a b
    where ab: "ord = a @ (i, x) # b" "move_to_front i ord = (i, x) # a @ b" by blast
  have "distinct (map (le_key \<circ> snd) ord)" using assms(1) by (simp add: lru_coherent_def)
  then have "k \<notin> (\<lambda>p. le_key (snd p)) ` set (a @ b)" using x(2) ab(1) by (auto simp: image_iff)
  with ab x show ?thesis by blast
qed

lemma coherent_miss:
  "lru_coherent items ord nxt \<Longrightarrow> map_of items k = None \<Longrightarrow> k \<notin> (\<lambda>p. le_key (snd p)) ` set ord"
  using coherentD(1) [of items ord nxt k] by fastforce

lemma coherent_permute:
  "lru_coherent items (a @ p # b) nxt \<Longrightarrow> lru_coherent items (p # a @ b) nxt"
  by (simp add: lru_coherent_def disj_left_commute conj_left_commute ball_Un insert_commute)

lemma coherent_revalue:
  assumes "lru_coherent items ((i, x) # rest) nxt"
  shows "lru_coherent items ((i, x\<lparr>le_val := v\<rparr>) # rest) nxt"
proof -
  have "(\<exists>y. (j, y) \<in> set ((i, x\<lparr>le_val := v\<rparr>) # rest) \<and> le_key y = k) \<longleftrightarrow>
      (\<exists>y. (j, y) \<in> set ((i, x) # rest) \<and> le_key y = k)" for j k
    by (cases "j = i \<and> le_key x = k") (auto intro: exI [of _ "x\<lparr>le_val := v\<rparr>"])
  then show ?thesis using assms unfolding lru_coherent_def by simp
qed

lemma coherent_drop_last:
  assumes c: "lru_coherent items (ord @ [(i, x)]) nxt"
  shows "lru_coherent (AList.delete (le_key x) items) ord nxt"
proof -
  have keys: "map_of items k = Some j \<longleftrightarrow> (\<exists>y. ((j, y) \<in> set ord \<or> (j, y) = (i, x)) \<and> le_key y = k)" for k j
    using coherentD(1) [OF c, of k j] by auto
  have fresh: "le_key x \<notin> (\<lambda>p. le_key (snd p)) ` set ord"
    using coherentD(3) [OF c] by auto
  have "map_of (AList.delete (le_key x) items) k = Some j \<longleftrightarrow> (\<exists>y. (j, y) \<in> set ord \<and> le_key y = k)" for k j
  proof (cases "k = le_key x")
    case True
    then show ?thesis using fresh by (force simp: delete_conv')
  next
    case False
    then show ?thesis using keys [of k j] by (auto simp: delete_conv')
  qed
  then show ?thesis using c by (simp add: lru_coherent_def distinct_delete)
qed

lemma coherent_push:
  assumes c: "lru_coherent items ord nxt" and new: "k \<notin> (\<lambda>p. le_key (snd p)) ` set ord"
  shows "lru_coherent (AList.update k nxt items) ((nxt, \<lparr>le_key = k, le_val = v\<rparr>) # ord) (Suc nxt)"
proof -
  have keys: "map_of items k' = Some j \<longleftrightarrow> (\<exists>y. (j, y) \<in> set ord \<and> le_key y = k')" for k' j
    using c by (simp add: lru_coherent_def)
  have below: "i \<in> fst ` set ord \<Longrightarrow> i < nxt" for i using c by (auto simp: lru_coherent_def)
  have "map_of (AList.update k nxt items) k' = Some j \<longleftrightarrow>
      (\<exists>y. (j, y) \<in> set ((nxt, \<lparr>le_key = k, le_val = v\<rparr>) # ord) \<and> le_key y = k')" for k' j
  proof (cases "k' = k")
    case True
    then show ?thesis using new by (force simp: update_conv')
  next
    case False
    then show ?thesis using keys [of k' j] by (auto simp: update_conv')
  qed
  moreover have "nxt \<notin> fst ` set ord" using below by blast
  moreover have "\<forall>i\<in>fst ` set ((nxt, \<lparr>le_key = k, le_val = v\<rparr>) # ord). i < Suc nxt"
    using below by (auto simp: less_SucI)
  moreover have "k \<notin> (le_key \<circ> snd) ` set ord" using new by auto
  moreover have "distinct (map fst (AList.update k nxt items))"
    using c by (simp add: lru_coherent_def distinct_update)
  ultimately show ?thesis using c by (simp add: lru_coherent_def)
qed

subsection \<open>Refinement\<close>

lemma lru_ok_new: "lru_ok (new_lru_cache n)" "lru_abs (new_lru_cache n) = []"
  by (simp_all add: lru_ok_def lru_coherent_def new_lru_cache_def lru_abs_def)

lemma lru_abs_dom: "fst ` set (lru_abs c) = (\<lambda>p. le_key (snd p)) ` set (lc_order c)"
  by (simp add: lru_abs_def image_image)

lemma lru_abs_len: "length (lru_abs c) = length (lc_order c)"
  by (simp add: lru_abs_def)

lemma lru_hit:
  assumes "lru_ok c" and "map_of (lc_items c) k = Some i"
  shows "\<exists>v x rest. map_of (lru_abs c) k = Some v \<and> move_to_front i (lc_order c) = (i, x) # rest \<and>
    le_key x = k \<and> le_val x = v \<and>
    map (\<lambda>p. (le_key (snd p), le_val (snd p))) rest = AList.delete k (lru_abs c) \<and>
    lru_coherent (lc_items c) ((i, x) # rest) (lc_next c) \<and> length (lc_order c) = Suc (length rest)"
proof -
  from assms have coh: "lru_coherent (lc_items c) (lc_order c) (lc_next c)" by (simp add: lru_ok_def)
  from coherent_hit [OF coh assms(2)] obtain x a b where x: "le_key x = k" "lc_order c = a @ (i, x) # b"
    "move_to_front i (lc_order c) = (i, x) # a @ b" "k \<notin> (\<lambda>p. le_key (snd p)) ` set (a @ b)" by blast
  let ?f = "\<lambda>p. (le_key (snd p), le_val (snd p))"
  have no: "k \<notin> fst ` set (map ?f a)" "k \<notin> fst ` set (map ?f b)" using x(4) by (simp_all add: image_image image_Un)
  have abs: "lru_abs c = map ?f a @ (k, le_val x) # map ?f b" using x by (simp add: lru_abs_def)
  have "map_of (lru_abs c) k = Some (le_val x)"
    unfolding abs by (rule map_of_split [OF no(1)])
  moreover have "AList.delete k (lru_abs c) = map ?f (a @ b)"
    unfolding abs by (simp only: delete_split [OF no] map_append)
  moreover have "lru_coherent (lc_items c) ((i, x) # a @ b) (lc_next c)"
    using coh x(2) coherent_permute by metis
  ultimately show ?thesis using x by (intro exI [of _ "le_val x"] exI [of _ x] exI [of _ "a @ b"]) simp
qed

lemma lru_miss:
  assumes "lru_ok c" and "map_of (lc_items c) k = None"
  shows "map_of (lru_abs c) k = None"
  using coherent_miss [of "lc_items c" "lc_order c" "lc_next c" k] assms
  by (simp add: map_of_eq_None_iff lru_abs_dom lru_ok_def)

lemma lru_evict_spec:
  assumes "lru_ok c"
  shows "lru_coherent (lc_items (lru_evict c)) (lc_order (lru_evict c)) (lc_next (lru_evict c))"
    and "int (length (lc_order (lru_evict c))) < max 1 (lc_max c)"
    and "lru_abs (lru_evict c) = (if lc_max c \<le> int (length (lru_abs c)) then butlast (lru_abs c) else lru_abs c)"
    and "lc_max (lru_evict c) = lc_max c"
proof -
  have coh: "lru_coherent (lc_items c) (lc_order c) (lc_next c)"
    and len: "int (length (lc_order c)) \<le> max 1 (lc_max c)" using assms by (simp_all add: lru_ok_def)
  show "lru_coherent (lc_items (lru_evict c)) (lc_order (lru_evict c)) (lc_next (lru_evict c))"
  proof (cases "lc_order c" rule: rev_cases)
    case Nil
    then show ?thesis using coh by (simp add: lru_evict_def)
  next
    case (snoc xs p)
    then show ?thesis using coh coherent_drop_last [of "lc_items c" xs "fst p" "snd p" "lc_next c"]
      by (simp add: lru_evict_def)
  qed
  show "int (length (lc_order (lru_evict c))) < max 1 (lc_max c)"
    using len by (cases "lc_order c") (auto simp: lru_evict_def)
  show "lru_abs (lru_evict c) = (if lc_max c \<le> int (length (lru_abs c)) then butlast (lru_abs c) else lru_abs c)"
    by (auto simp: lru_evict_def lru_abs_def map_butlast)
  show "lc_max (lru_evict c) = lc_max c" by (simp add: lru_evict_def)
qed

lemma lru_push_spec:
  assumes "lru_ok c" and "map_of (lc_items c) k = None"
  shows "lru_ok (lru_push k v (lru_evict c))"
    and "lru_abs (lru_push k v (lru_evict c)) = sp_insert (lc_max c) k v (lru_abs c)"
proof -
  have "k \<notin> (\<lambda>p. le_key (snd p)) ` set (lc_order c)"
    using coherent_miss assms by (metis lru_ok_def)
  then have "k \<notin> (\<lambda>p. le_key (snd p)) ` set (lc_order (lru_evict c))"
    by (auto simp: lru_evict_def dest: in_set_butlastD)
  then show "lru_ok (lru_push k v (lru_evict c))"
    using coherent_push [OF lru_evict_spec(1) [OF assms(1)]] lru_evict_spec(2,4) [OF assms(1)]
    by (simp add: lru_ok_def lru_push_def)
  show "lru_abs (lru_push k v (lru_evict c)) = sp_insert (lc_max c) k v (lru_abs c)"
    using lru_evict_spec(3) [OF assms(1)] by (simp add: sp_insert_def lru_push_def lru_abs_def)
qed

lemma lru_ok_reorder:
  "lru_ok c \<Longrightarrow> lru_coherent (lc_items c) ord (lc_next c) \<Longrightarrow> length ord = length (lc_order c) \<Longrightarrow>
   lru_ok (c\<lparr>lc_order := ord\<rparr>)"
  by (simp add: lru_ok_def)

lemma lru_get_refines:
  assumes "lru_ok c"
  shows "lru_ok (snd (lru_get k c)) \<and>
    (fst (lru_get k c), lru_abs (snd (lru_get k c))) = sp_get k (lru_abs c)"
proof (cases "map_of (lc_items c) k")
  case None
  with lru_miss [OF assms None] assms show ?thesis by (simp add: lru_get_def sp_get_def)
next
  case (Some i)
  from lru_hit [OF assms Some] show ?thesis
    by (elim exE conjE) (simp add: lru_get_def Some Let_def sp_get_def lru_ok_reorder [OF assms] lru_abs_def)
qed

lemma lru_get_or_create_refines:
  assumes "lru_ok c"
  shows "lru_ok (snd (lru_get_or_create k v c)) \<and>
    (fst (lru_get_or_create k v c), lru_abs (snd (lru_get_or_create k v c))) =
      sp_get_or_create (lc_max c) k v (lru_abs c)"
proof (cases "map_of (lc_items c) k")
  case None
  with lru_miss [OF assms None] lru_push_spec [OF assms None, of v]
  show ?thesis by (simp add: lru_get_or_create_def sp_get_or_create_def)
next
  case (Some i)
  from lru_hit [OF assms Some] show ?thesis
    by (elim exE conjE)
      (simp add: lru_get_or_create_def Some Let_def sp_get_or_create_def lru_ok_reorder [OF assms] lru_abs_def)
qed

lemma lru_put_refines:
  assumes "lru_ok c"
  shows "lru_ok (lru_put k v c) \<and> lru_abs (lru_put k v c) = sp_put (lc_max c) k v (lru_abs c)"
proof (cases "map_of (lc_items c) k")
  case None
  with lru_miss [OF assms None] lru_push_spec [OF assms None, of v]
  show ?thesis by (simp add: lru_put_def sp_put_def)
next
  case (Some i)
  from lru_hit [OF assms Some] obtain w x rest where h: "map_of (lru_abs c) k = Some w"
    "move_to_front i (lc_order c) = (i, x) # rest" "le_key x = k"
    "map (\<lambda>p. (le_key (snd p), le_val (snd p))) rest = AList.delete k (lru_abs c)"
    "lru_coherent (lc_items c) ((i, x) # rest) (lc_next c)" "length (lc_order c) = Suc (length rest)" by blast
  have "lru_ok (lru_put k v c)"
    using lru_ok_reorder [OF assms coherent_revalue [OF h(5), of v]] h(2,6)
    by (simp add: lru_put_def Some set_front_val_def)
  with h show ?thesis by (simp add: lru_put_def Some set_front_val_def sp_put_def lru_abs_def)
qed

lemma lru_max_frame [frame]:
  "lc_max (snd (lru_get k c)) = lc_max c" "lc_max (lru_put k v c) = lc_max c"
  "lc_max (snd (lru_get_or_create k v c)) = lc_max c"
  by (auto simp: lru_get_def lru_put_def lru_get_or_create_def lru_push_def lru_evict_def Let_def
      split: option.split)

subsection \<open>Whole runs\<close>

datatype 'v lru_op = LruGet string | LruPut string 'v | LruGetOrCreate string 'v

fun lru_apply :: "'v lru_op \<Rightarrow> 'v lru_cache \<Rightarrow> 'v option \<times> 'v lru_cache" where
  "lru_apply (LruGet k) c = lru_get k c"
| "lru_apply (LruPut k v) c = (None, lru_put k v c)"
| "lru_apply (LruGetOrCreate k v) c = lru_get_or_create k v c"

fun sp_apply :: "int \<Rightarrow> 'v lru_op \<Rightarrow> 'v recency \<Rightarrow> 'v option \<times> 'v recency" where
  "sp_apply n (LruGet k) s = sp_get k s"
| "sp_apply n (LruPut k v) s = (None, sp_put n k v s)"
| "sp_apply n (LruGetOrCreate k v) s = sp_get_or_create n k v s"

fun run_ops :: "('op \<Rightarrow> 's \<Rightarrow> 'a \<times> 's) \<Rightarrow> 'op list \<Rightarrow> 's \<Rightarrow> 'a list \<times> 's" where
  "run_ops f [] s = ([], s)"
| "run_ops f (x # xs) s = (let (a, s1) = f x s; (as, s2) = run_ops f xs s1 in (a # as, s2))"

lemma lru_apply_refines:
  assumes "lru_ok c" and "lru_apply x c = (a, c1)"
  shows "lru_ok c1 \<and> lc_max c1 = lc_max c \<and> sp_apply (lc_max c) x (lru_abs c) = (a, lru_abs c1)"
  using assms lru_get_refines [OF assms(1)] lru_put_refines [OF assms(1)] lru_get_or_create_refines [OF assms(1)]
  by (cases x) (metis fst_conv snd_conv lru_apply.simps sp_apply.simps lru_max_frame)+

lemma lru_run_refines:
  "lru_ok c \<Longrightarrow> run_ops lru_apply xs c = (as, c1) \<Longrightarrow>
   lru_ok c1 \<and> lc_max c1 = lc_max c \<and> run_ops (sp_apply (lc_max c)) xs (lru_abs c) = (as, lru_abs c1)"
proof (induction xs arbitrary: c as)
  case (Cons x xs)
  obtain a c0 where x: "lru_apply x c = (a, c0)" by fastforce
  obtain bs c2 where xs: "run_ops lru_apply xs c0 = (bs, c2)" by fastforce
  from Cons.prems x xs have eq: "as = a # bs" "c1 = c2" by simp_all
  from lru_apply_refines [OF Cons.prems(1) x] Cons.IH [of c0 bs] xs eq show ?case by simp
qed simp

lemma lru_ok_distinct: "lru_ok c \<Longrightarrow> distinct (map fst (lru_abs c))"
  using coherentD(3) by (fastforce simp: lru_ok_def lru_abs_def comp_def)

text \<open>
  C28: the cache is a bounded recency list. Whatever sequence of operations runs on a
  new cache, every answer is the one the recency list gives, the entries in list order are
  that list, its keys are distinct, and there are never more than the configured number (one,
  if that is not positive).
\<close>

theorem lru_cache_refines_recency_list:
  "run_ops (sp_apply n) ops [] =
     (fst (run_ops lru_apply ops (new_lru_cache n)), lru_abs (snd (run_ops lru_apply ops (new_lru_cache n)))) \<and>
   distinct (map fst (lru_abs (snd (run_ops lru_apply ops (new_lru_cache n))))) \<and>
   int (lru_len (snd (run_ops lru_apply ops (new_lru_cache n)))) \<le> max 1 n"
proof -
  obtain as c where run: "run_ops lru_apply ops (new_lru_cache n) = (as, c)" by fastforce
  have new: "lc_max (new_lru_cache n) = n" by (simp add: new_lru_cache_def)
  from lru_run_refines [OF lru_ok_new(1) run] show ?thesis
    using lru_ok_distinct by (auto simp: run new lru_ok_new(2) lru_ok_def lru_len_def)
qed

end
