(* ===== verification/Tls_Manager.thy ===== *)
theory Tls_Manager imports Lru Go_Net begin

text \<open>
  Certificates (\<open>internal/proxy/tls.go\<close>): the installation of the CA's two files, on a
  file system whose every call may fail, and the certificate cache of the manager. Keys,
  signatures and PEM blocks come from Go's crypto packages and are arguments: what they return
  for a template. \<open>net.ParseIP\<close> is an argument too.
\<close>

subsection \<open>A file system\<close>

text \<open>
  The files with their contents, and the faults of the calls to come: each call takes one
  entry, and \<open>Some e\<close> makes it fail with \<open>e\<close>. No entry left means no fault.
\<close>

record fsys =
  fs_files :: "string \<rightharpoonup> string"
  fs_faults :: "go_error option list"

definition next_fault :: "fsys \<Rightarrow> go_error option \<times> fsys" where
  "next_fault s = (case fs_faults s of [] \<Rightarrow> (None, s) | f # fs \<Rightarrow> (f, s\<lparr>fs_faults := fs\<rparr>))"

definition file_exists :: "string \<Rightarrow> fsys \<Rightarrow> (bool \<times> go_error option) \<times> fsys" where
  "file_exists path s =
     (case next_fault s of
        (Some e, s1) \<Rightarrow> ((False, Some e), s1)
      | (None, s1) \<Rightarrow> ((fs_files s1 path \<noteq> None, None), s1))"

definition mkdir_all :: "string \<Rightarrow> fsys \<Rightarrow> go_error option \<times> fsys" where
  "mkdir_all dir s = next_fault s"

definition os_remove :: "string \<Rightarrow> fsys \<Rightarrow> fsys" where
  "os_remove path s =
     (case next_fault s of
        (Some _, s1) \<Rightarrow> s1
      | (None, s1) \<Rightarrow> s1\<lparr>fs_files := (fs_files s1)(path := None)\<rparr>)"

definition os_rename :: "string \<Rightarrow> string \<Rightarrow> fsys \<Rightarrow> go_error option \<times> fsys" where
  "os_rename old new s =
     (case next_fault s of
        (Some e, s1) \<Rightarrow> (Some e, s1)
      | (None, s1) \<Rightarrow>
          (case fs_files s1 old of
             None \<Rightarrow> (Some ''rename: no such file or directory'', s1)
           | Some c \<Rightarrow> (None, s1\<lparr>fs_files := (fs_files s1)(old := None, new := Some c)\<rparr>)))"

text \<open>
  \<open>writeFileExclusive\<close>: create, write, close, each with its own fault; a failed write
  leaves part of the data, which is then removed.
\<close>

definition write_and_close :: "string \<Rightarrow> string \<Rightarrow> fsys \<Rightarrow> go_error option \<times> fsys" where
  "write_and_close path data s =
     (case next_fault s of
        (Some e, s1) \<Rightarrow> (Some e, os_remove path (snd (next_fault s1)))
      | (None, s1) \<Rightarrow>
          (case next_fault (s1\<lparr>fs_files := (fs_files s1)(path := Some data)\<rparr>) of
             (Some e, s2) \<Rightarrow> (Some e, os_remove path s2)
           | (None, s2) \<Rightarrow> (None, s2)))"

definition write_file_exclusive :: "string \<Rightarrow> string \<Rightarrow> fsys \<Rightarrow> go_error option \<times> fsys" where
  "write_file_exclusive path data s =
     (case next_fault s of
        (Some e, s1) \<Rightarrow> (Some e, s1)
      | (None, s1) \<Rightarrow>
          if fs_files s1 path \<noteq> None then (Some ''open: file exists'', s1)
          else write_and_close path data (s1\<lparr>fs_files := (fs_files s1)(path := Some [])\<rparr>))"

subsection \<open>Installing the CA\<close>

fun mkdirs :: "string list \<Rightarrow> fsys \<Rightarrow> go_error option \<times> fsys" where
  "mkdirs [] s = (None, s)"
| "mkdirs (d # ds) s =
     (case mkdir_all d s of
        (Some e, s1) \<Rightarrow> (Some (''create directory '' @ d @ '': '' @ e), s1)
      | (None, s1) \<Rightarrow> mkdirs ds s1)"

text \<open>The pair of PEM texts the crypto packages make, or the error of one of their steps.\<close>

type_synonym ca_pair = "string \<times> string"

definition install_ca :: "string \<Rightarrow> string \<Rightarrow> ca_pair \<Rightarrow> fsys \<Rightarrow> go_error option \<times> fsys" where
  "install_ca certPath keyPath pems s =
     (let (certPEM, keyPEM) = pems; tmpKey = keyPath @ ''.tmp''; tmpCert = certPath @ ''.tmp'';
          s1 = os_remove tmpCert (os_remove tmpKey s)
      in case write_file_exclusive tmpKey keyPEM s1 of
           (Some e, s2) \<Rightarrow> (Some (''write CA key: '' @ e), s2)
         | (None, s2) \<Rightarrow>
             (case write_file_exclusive tmpCert certPEM s2 of
                (Some e, s3) \<Rightarrow> (Some (''write CA certificate: '' @ e), os_remove tmpKey s3)
              | (None, s3) \<Rightarrow>
                  (case os_rename tmpCert certPath s3 of
                     (Some e, s4) \<Rightarrow> (Some (''install CA certificate: '' @ e), os_remove tmpKey (os_remove tmpCert s4))
                   | (None, s4) \<Rightarrow>
                       (case os_rename tmpKey keyPath s4 of
                          (Some e, s5) \<Rightarrow> (Some (''install CA key: '' @ e), os_remove tmpKey (os_remove certPath s5))
                        | (None, s5) \<Rightarrow> (None, s5)))))"

definition ensure_ca_certificate ::
    "(string \<Rightarrow> string) \<Rightarrow> (ca_pair result) \<Rightarrow> string \<Rightarrow> string \<Rightarrow> fsys \<Rightarrow> go_error option \<times> fsys" where
  "ensure_ca_certificate dir_of generated certPath keyPath s =
     (let ((certExists, certErr), s1) = file_exists certPath s;
          ((keyExists, keyErr), s2) = file_exists keyPath s1
      in case certErr of
           Some e \<Rightarrow> (Some (''check CA certificate: '' @ e), s2)
         | None \<Rightarrow>
             (case keyErr of
                Some e \<Rightarrow> (Some (''check CA key: '' @ e), s2)
              | None \<Rightarrow>
                  if certExists \<and> keyExists then (None, s2)
                  else if certExists \<noteq> keyExists then
                    (Some (''CA certificate and key are inconsistent: cert='' @ certPath @ '' (exists=''
                       @ (if certExists then ''true'' else ''false'') @ ''), key='' @ keyPath @ '' (exists=''
                       @ (if keyExists then ''true'' else ''false'') @ '')''), s2)
                  else
                    (case mkdirs [dir_of certPath, dir_of keyPath] s2 of
                       (Some e, s3) \<Rightarrow> (Some e, s3)
                     | (None, s3) \<Rightarrow>
                         (case generated of
                            Inl e \<Rightarrow> (Some e, s3)
                          | Inr pems \<Rightarrow> install_ca certPath keyPath pems s3))))"

subsection \<open>Leaf certificates\<close>

record cert_template =
  ct_common_name :: string
  ct_organization :: "string list"
  ct_not_before :: int
  ct_not_after :: int
  ct_dns_names :: "string list"
  ct_ip_addresses :: "ip list"

definition cert_template_for :: "(string \<Rightarrow> ip option) \<Rightarrow> int \<Rightarrow> string \<Rightarrow> cert_template" where
  "cert_template_for parse_ip now host =
     (let t = \<lparr>ct_common_name = host, ct_organization = [''CrabTrap''], ct_not_before = now - 3600 * 1000000000,
               ct_not_after = now + 365 * 24 * 3600 * 1000000000, ct_dns_names = [], ct_ip_addresses = []\<rparr>
      in case parse_ip host of Some x \<Rightarrow> t\<lparr>ct_ip_addresses := [x]\<rparr> | None \<Rightarrow> t\<lparr>ct_dns_names := [host]\<rparr>)"

text \<open>\<open>issue\<close> makes a fresh key and a certificate for the template, signed by the CA.\<close>

type_synonym 'c issuer = "cert_template \<Rightarrow> 'c result"

definition generate_certificate :: "(string \<Rightarrow> ip option) \<Rightarrow> 'c issuer \<Rightarrow> int \<Rightarrow> string \<Rightarrow> 'c result" where
  "generate_certificate parse_ip issue now host = issue (cert_template_for parse_ip now host)"

record 'c tls_manager =
  tm_ca_cert_path :: string
  tm_cert_cache :: "'c lru_cache"

definition DefaultMaxCertCacheSize :: int where "DefaultMaxCertCacheSize = 10000"

text \<open>\<open>NewTLSManager\<close> past the reading of the two files, which gives the issuer.\<close>

definition new_tls_manager :: "string \<Rightarrow> 'c tls_manager" where
  "new_tls_manager path = \<lparr>tm_ca_cert_path = path, tm_cert_cache = new_lru_cache DefaultMaxCertCacheSize\<rparr>"

definition set_max_cert_cache_size :: "int \<Rightarrow> 'c tls_manager \<Rightarrow> 'c tls_manager" where
  "set_max_cert_cache_size n tm = tm\<lparr>tm_cert_cache := new_lru_cache n\<rparr>"

definition ca_cert_path :: "'c tls_manager \<Rightarrow> string" where
  "ca_cert_path tm = tm_ca_cert_path tm"

definition trim_dots :: "string \<Rightarrow> string" where
  "trim_dots s = rev (dropWhile (\<lambda>c. c = CHR ''.'') (rev s))"

definition strip_brackets :: "string \<Rightarrow> string" where
  "strip_brackets s =
     (if 2 < length s \<and> hd s = CHR ''['' \<and> last s = CHR '']'' then tl (butlast s) else s)"

definition cert_name :: "string \<Rightarrow> string" where
  "cert_name host = strip_brackets (trim_dots (to_lower host))"

definition empty_sni_error :: go_error where
  "empty_sni_error = ''TLS ClientHello with empty or dot-only SNI rejected''"

text \<open>
  \<open>GetCertificate\<close>. Under \<open>singleflight\<close> one caller at a time runs the inner
  function for a host; it looks into the cache again before it generates.
\<close>

definition get_certificate ::
    "(string \<Rightarrow> ip option) \<Rightarrow> 'c issuer \<Rightarrow> int \<Rightarrow> string \<Rightarrow> 'c tls_manager \<Rightarrow> 'c result \<times> 'c tls_manager" where
  "get_certificate parse_ip issue now host0 tm =
     (let host = cert_name host0 in
      if host = [] then (Inl empty_sni_error, tm)
      else case lru_get host (tm_cert_cache tm) of
        (Some cert, c1) \<Rightarrow> (Inr cert, tm\<lparr>tm_cert_cache := c1\<rparr>)
      | (None, c1) \<Rightarrow>
          (case lru_get host c1 of
             (Some cert, c2) \<Rightarrow> (Inr cert, tm\<lparr>tm_cert_cache := c2\<rparr>)
           | (None, c2) \<Rightarrow>
               (case generate_certificate parse_ip issue now host of
                  Inl e \<Rightarrow> (Inl e, tm\<lparr>tm_cert_cache := c2\<rparr>)
                | Inr cert \<Rightarrow> (Inr cert, tm\<lparr>tm_cert_cache := lru_put host cert c2\<rparr>))))"

end
