(* ===== verification/Tls_Props.thy ===== *)
theory Tls_Props imports Tls_Manager begin

text \<open>
  The CA is never half installed by a single failure, a later run recovers, and the
  certificates served for a host name that host, whatever its spelling.
\<close>

subsection \<open>The file system calls\<close>

definition faults_left :: "fsys \<Rightarrow> nat" where
  "faults_left s = length (filter (\<lambda>f. f \<noteq> None) (fs_faults s))"

lemma next_fault_cases:
  "next_fault s = (f, s1) \<Longrightarrow> fs_files s1 = fs_files s \<and>
     faults_left s = (if f = None then faults_left s1 else Suc (faults_left s1))"
  by (auto simp: next_fault_def faults_left_def split: list.splits)

lemma os_remove_spec:
  "faults_left (os_remove p s) \<le> faults_left s \<and>
   (\<forall>q. q \<noteq> p \<longrightarrow> fs_files (os_remove p s) q = fs_files s q) \<and>
   (faults_left s = 0 \<longrightarrow> fs_files (os_remove p s) p = None) \<and>
   (fs_files s p = None \<longrightarrow> fs_files (os_remove p s) p = None)"
proof (cases "next_fault s")
  case (Pair f s1)
  then show ?thesis using next_fault_cases [OF Pair]
    by (cases f) (auto simp: os_remove_def faults_left_def)
qed

lemma os_rename_spec:
  "os_rename old new s = (err, s1) \<Longrightarrow>
   (case err of
      None \<Rightarrow> \<exists>c. fs_files s old = Some c \<and> fs_files s1 = (fs_files s)(old := None, new := Some c) \<and>
        faults_left s1 = faults_left s
    | Some e \<Rightarrow> fs_files s1 = fs_files s \<and> (fs_files s old = None \<or> faults_left s = Suc (faults_left s1)))"
  using next_fault_cases [of s]
  by (cases "next_fault s") (auto simp: os_rename_def faults_left_def split: option.splits)

lemma faults_left_files [simp]: "faults_left (x\<lparr>fs_files := m\<rparr>) = faults_left x"
  by (simp add: faults_left_def)

definition kept :: "string \<Rightarrow> fsys \<Rightarrow> fsys \<Rightarrow> bool" where
  "kept p s s1 \<longleftrightarrow> faults_left s1 \<le> faults_left s \<and> (\<forall>q. q \<noteq> p \<longrightarrow> fs_files s1 q = fs_files s q)"

lemma kept_trans: "kept p s s1 \<Longrightarrow> kept p s1 s2 \<Longrightarrow> kept p s s2"
  by (auto simp: kept_def)

lemma kept_ops:
  "kept p s (os_remove p s)" "kept p s (snd (next_fault s))" "kept p s (s\<lparr>fs_files := (fs_files s)(p := x)\<rparr>)"
  using os_remove_spec [of p s] next_fault_cases [of s "fst (next_fault s)" "snd (next_fault s)"]
  by (auto simp: kept_def split: if_splits)

lemma write_and_close_spec:
  assumes "write_and_close p d s = (err, s1)"
  shows "kept p s s1 \<and> (err = None \<longrightarrow> fs_files s1 p = Some d)"
proof -
  obtain f a where n1: "next_fault s = (f, a)" by fastforce
  have ka: "kept p s a" using kept_ops(2) [of p s] n1 by simp
  show ?thesis
  proof (cases f)
    case (Some e)
    then have "s1 = os_remove p (snd (next_fault a))" "err \<noteq> None" using assms n1 by (auto simp: write_and_close_def)
    then show ?thesis using ka by (metis kept_ops(1,2) kept_trans)
  next
    case None
    let ?b = "a\<lparr>fs_files := (fs_files a)(p := Some d)\<rparr>"
    obtain g c where n2: "next_fault ?b = (g, c)" by fastforce
    have kc: "kept p s c" using kept_ops(2) [of p ?b] kept_ops(3) [of p a "Some d"] ka n2 by (metis kept_trans snd_conv)
    have fc: "fs_files c p = Some d" using next_fault_cases [OF n2] by simp
    have "(err, s1) = (case g of Some e \<Rightarrow> (Some e, os_remove p c) | None \<Rightarrow> (None, c))"
      using assms n1 n2 None by (auto simp: write_and_close_def split: option.split)
    then show ?thesis using kc fc by (cases g) (auto intro: kept_trans kept_ops(1))
  qed
qed

lemma write_file_spec:
  assumes "write_file_exclusive p d s = (err, s1)"
  shows "kept p s s1 \<and> (err = None \<longrightarrow> fs_files s1 p = Some d)"
proof -
  obtain f a where n1: "next_fault s = (f, a)" by fastforce
  have ka: "kept p s a" using kept_ops(2) [of p s] n1 by simp
  let ?b = "a\<lparr>fs_files := (fs_files a)(p := Some [])\<rparr>"
  have kb: "kept p s ?b" using ka kept_ops(3) by (rule kept_trans)
  have "(err, s1) = (Some (the f), a) \<or> (err, s1) = (Some ''open: file exists'', a) \<or> write_and_close p d ?b = (err, s1)"
    using assms n1 by (cases f) (auto simp: write_file_exclusive_def split: if_splits)
  then show ?thesis using ka kb write_and_close_spec [of p d ?b err s1] by (auto intro: kept_trans)
qed

subsection \<open>The installation\<close>

definition half_installed :: "string \<Rightarrow> string \<Rightarrow> fsys \<Rightarrow> bool" where
  "half_installed c k s = ((fs_files s c = None) \<noteq> (fs_files s k = None))"

definition path_names :: "string \<Rightarrow> string \<Rightarrow> bool" where
  "path_names c k = distinct [c, k, c @ ''.tmp'', k @ ''.tmp'']"

lemma install_ca_spec:
  assumes i: "install_ca c k (certPEM, keyPEM) s = (err, s')"
    and names: "path_names c k"
    and none: "fs_files s c = None" "fs_files s k = None" and faults: "faults_left s \<le> 1"
  shows "(err = None \<longrightarrow> fs_files s' c = Some certPEM \<and> fs_files s' k = Some keyPEM) \<and>
    (err \<noteq> None \<longrightarrow> fs_files s' c = None \<and> fs_files s' k = None)"
proof -
  let ?tk = "k @ ''.tmp''" and ?tc = "c @ ''.tmp''"
  have ne: "c \<noteq> k" "c \<noteq> ?tc" "c \<noteq> ?tk" "k \<noteq> ?tc" "k \<noteq> ?tk" "?tc \<noteq> ?tk"
    using names by (auto simp: path_names_def)
  let ?s1 = "os_remove ?tc (os_remove ?tk s)"
  have k1: "kept ?tc (os_remove ?tk s) ?s1" "kept ?tk s (os_remove ?tk s)" by (rule kept_ops)+
  have s1: "fs_files ?s1 c = None" "fs_files ?s1 k = None" "faults_left ?s1 \<le> 1"
    using k1 ne none faults by (auto simp: kept_def)
  obtain e2 s2 where w2: "write_file_exclusive ?tk keyPEM ?s1 = (e2, s2)" by fastforce
  note k2 = write_file_spec [OF w2]
  have s2: "fs_files s2 c = None" "fs_files s2 k = None" "faults_left s2 \<le> 1"
    using k2 s1 ne by (auto simp: kept_def)
  obtain e3 s3 where w3: "write_file_exclusive ?tc certPEM s2 = (e3, s3)" by fastforce
  note k3 = write_file_spec [OF w3]
  have s3: "fs_files s3 c = None" "fs_files s3 k = None" "faults_left s3 \<le> 1" "e2 = None \<Longrightarrow> fs_files s3 ?tk = Some keyPEM"
    using k3 k2 s2 ne by (auto simp: kept_def)
  obtain e4 s4 where r4: "os_rename ?tc c s3 = (e4, s4)" by fastforce
  obtain e5 s5 where r5: "os_rename ?tk k s4 = (e5, s5)" by fastforce
  have off: "fs_files (os_remove ?tk x) q = fs_files x q" "fs_files (os_remove ?tc x) q = fs_files x q"
    if "q = c \<or> q = k" for q x
    using os_remove_spec [of ?tk x] os_remove_spec [of ?tc x] ne that by auto
  have run: "(err, s') = (case e2 of Some e \<Rightarrow> (Some (''write CA key: '' @ e), s2)
     | None \<Rightarrow> (case e3 of Some e \<Rightarrow> (Some (''write CA certificate: '' @ e), os_remove ?tk s3)
     | None \<Rightarrow> (case e4 of Some e \<Rightarrow> (Some (''install CA certificate: '' @ e), os_remove ?tk (os_remove ?tc s4))
     | None \<Rightarrow> (case e5 of Some e \<Rightarrow> (Some (''install CA key: '' @ e), os_remove ?tk (os_remove c s5)) | None \<Rightarrow> (None, s5)))))"
    using i unfolding install_ca_def Let_def prod.case w2 w3 r4 r5 by (rule sym)
  consider (a) e where "e2 = Some e" | (b) e where "e2 = None" "e3 = Some e" | (c) e where "e2 = None" "e3 = None" "e4 = Some e"
    | (d) e where "e2 = None" "e3 = None" "e4 = None" "e5 = Some e" | (e) "e2 = None" "e3 = None" "e4 = None" "e5 = None"
    by (cases e2; cases e3; cases e4; cases e5) auto
  then show ?thesis
  proof cases
    case a then show ?thesis using run s2 by simp
  next
    case b then show ?thesis using run s3 off by simp
  next
    case c then show ?thesis using run s3 off os_rename_spec [OF r4] by simp
  next
    case d
    from os_rename_spec [OF r4] d k3 have f4: "fs_files s4 = (fs_files s3)(?tc := None, c := Some certPEM)" "faults_left s4 \<le> 1"
      using s3 by (auto simp: kept_def)
    with s3(4) d ne have "fs_files s4 ?tk = Some keyPEM" by simp
    with os_rename_spec [OF r5] d f4 have f5: "fs_files s5 = fs_files s4" "faults_left s5 = 0" by auto
    have "fs_files (os_remove c s5) c = None" "fs_files (os_remove c s5) k = None"
      using os_remove_spec [of c s5] f5 f4 s3(2) ne by auto
    then show ?thesis using run d off by simp
  next
    case e
    from os_rename_spec [OF r4] e k3 have f4: "fs_files s4 = (fs_files s3)(?tc := None, c := Some certPEM)" by auto
    with s3(4) e ne have "fs_files s4 ?tk = Some keyPEM" by simp
    with os_rename_spec [OF r5] e f4 ne have "fs_files s5 c = Some certPEM" "fs_files s5 k = Some keyPEM" by auto
    then show ?thesis using run e by simp
  qed
qed

lemma mkdirs_same: "mkdirs ds s = (err, s') \<Longrightarrow> fs_files s' = fs_files s \<and> faults_left s' \<le> faults_left s"
proof (induction ds arbitrary: s)
  case (Cons d ds)
  obtain f a where n: "next_fault s = (f, a)" by fastforce
  from next_fault_cases [OF n] Cons.prems Cons.IH [of a] n show ?case
    by (auto simp: mkdir_all_def split: option.splits if_splits)
qed simp

lemma file_exists_spec:
  "file_exists p s = ((b, e), s') \<Longrightarrow> fs_files s' = fs_files s \<and> faults_left s' \<le> faults_left s \<and>
     (e = None \<longrightarrow> b = (fs_files s p \<noteq> None))"
  using next_fault_cases [of s] by (cases "next_fault s") (auto simp: file_exists_def split: option.splits)

text \<open>
  C16: one failure never leaves a half-installed CA. When neither file exists and at most
  one call to the file system fails, a successful run has installed exactly the generated
  certificate and key, and a failed run leaves neither of them.
\<close>

theorem ca_never_half_installed:
  assumes run: "ensure_ca_certificate dir_of generated c k s = (err, s')" and names: "path_names c k"
    and none: "fs_files s c = None" "fs_files s k = None" and faults: "faults_left s \<le> 1"
  shows "\<not> half_installed c k s' \<and>
    (err = None \<longrightarrow> (\<exists>pems. generated = Inr pems \<and> fs_files s' c = Some (fst pems) \<and> fs_files s' k = Some (snd pems))) \<and>
    (err \<noteq> None \<longrightarrow> fs_files s' c = None)"
proof -
  obtain b1 f1 s1 where e1: "file_exists c s = ((b1, f1), s1)" by (metis prod.exhaust)
  obtain b2 f2 s2 where e2: "file_exists k s1 = ((b2, f2), s2)" by (metis prod.exhaust)
  obtain f3 s3 where e3: "mkdirs [dir_of c, dir_of k] s2 = (f3, s3)" by fastforce
  note p1 = file_exists_spec [OF e1] and p2 = file_exists_spec [OF e2] and p3 = mkdirs_same [OF e3]
  have s3: "fs_files s3 c = None" "fs_files s3 k = None" "faults_left s3 \<le> 1" "fs_files s2 c = None" "fs_files s2 k = None"
    using p1 p2 p3 none faults by auto
  have stop: "\<exists>x. err = Some x \<and> (s' = s2 \<or> s' = s3) \<or>
     (\<exists>pems. generated = Inr pems \<and> install_ca c k pems s3 = (err, s'))"
    using run p1 p2 none
    by (cases f1; cases f2; cases f3; cases generated)
      (auto simp: ensure_ca_certificate_def e1 e2 e3 simp del: mkdirs.simps)
  then show ?thesis
  proof (elim exE disjE conjE)
    fix pems assume g: "generated = Inr pems" and i: "install_ca c k pems s3 = (err, s')"
    show ?thesis
      using install_ca_spec [of c k "fst pems" "snd pems" s3 err s'] i g names s3
      by (cases err) (auto simp: half_installed_def)
  qed (use s3 in \<open>auto simp: half_installed_def\<close>)
qed

definition flaky_disk :: fsys where
  "flaky_disk = \<lparr>fs_files = Map.empty, fs_faults = replicate 12 None @ [Some ''no space left'']\<rparr>"

definition flaky_run :: "go_error option \<times> fsys" where
  "flaky_run = ensure_ca_certificate (\<lambda>_. ''certs'') (Inr (''CERT'', ''KEY'')) ''ca.crt'' ''ca.key'' flaky_disk"

lemma flaky_run_fails: "fst flaky_run = Some ''install CA certificate: no space left''"
  by code_simp

theorem ca_never_half_installed_witness:
  "\<not> half_installed ''ca.crt'' ''ca.key'' (snd flaky_run) \<and> fs_files (snd flaky_run) ''ca.crt'' = None"
proof -
  have r: "ensure_ca_certificate (\<lambda>_. ''certs'') (Inr (''CERT'', ''KEY'')) ''ca.crt'' ''ca.key'' flaky_disk
      = (Some ''install CA certificate: no space left'', snd flaky_run)"
    using flaky_run_fails by (simp add: flaky_run_def prod_eq_iff)
  have n: "path_names ''ca.crt'' ''ca.key''" by (simp add: path_names_def)
  have f: "fs_files flaky_disk ''ca.crt'' = None" "fs_files flaky_disk ''ca.key'' = None" "faults_left flaky_disk \<le> 1"
    by (simp_all add: flaky_disk_def faults_left_def)
  from ca_never_half_installed [OF r n f] show ?thesis by simp
qed

subsection \<open>Recovery\<close>

lemma no_fault: "faults_left s = 0 \<Longrightarrow> \<exists>s1. next_fault s = (None, s1) \<and> faults_left s1 = 0 \<and> fs_files s1 = fs_files s"
proof -
  assume z: "faults_left s = 0"
  obtain f s1 where n: "next_fault s = (f, s1)" by fastforce
  from next_fault_cases [OF n] z n show ?thesis by (cases f) simp_all
qed

lemma write_file_no_fault:
  assumes "faults_left s = 0" "fs_files s p = None"
  shows "\<exists>s1. write_file_exclusive p d s = (None, s1) \<and> faults_left s1 = 0 \<and> fs_files s1 = (fs_files s)(p := Some d)"
proof -
  obtain a where a: "next_fault s = (None, a)" "faults_left a = 0" "fs_files a = fs_files s" using no_fault assms by blast
  obtain b where b: "next_fault (a\<lparr>fs_files := (fs_files a)(p := Some [])\<rparr>) = (None, b)" "faults_left b = 0"
    "fs_files b = (fs_files s)(p := Some [])" using no_fault [of "a\<lparr>fs_files := (fs_files a)(p := Some [])\<rparr>"] a by auto
  obtain c where c: "next_fault (b\<lparr>fs_files := (fs_files b)(p := Some d)\<rparr>) = (None, c)" "faults_left c = 0"
    "fs_files c = (fs_files s)(p := Some d)" using no_fault [of "b\<lparr>fs_files := (fs_files b)(p := Some d)\<rparr>"] b by auto
  show ?thesis using a b c assms(2) by (simp add: write_file_exclusive_def write_and_close_def)
qed

lemma remove_no_fault:
  "faults_left s = 0 \<Longrightarrow> faults_left (os_remove p s) = 0 \<and> fs_files (os_remove p s) = (fs_files s)(p := None)"
  using no_fault [of s] by (auto simp: os_remove_def)

lemma rename_no_fault:
  assumes "faults_left s = 0" "fs_files s p = Some x"
  shows "\<exists>s1. os_rename p q s = (None, s1) \<and> faults_left s1 = 0 \<and> fs_files s1 = (fs_files s)(p := None, q := Some x)"
  using no_fault [OF assms(1)] assms by (auto simp: os_rename_def)

lemma install_ca_no_fault:
  assumes "faults_left s = 0" "path_names c k"
  shows "\<exists>s'. install_ca c k (cert, key) s = (None, s') \<and>
    fs_files s' = (fs_files s)(c @ ''.tmp'' := None, k @ ''.tmp'' := None, c := Some cert, k := Some key)"
proof -
  let ?tk = "k @ ''.tmp''" and ?tc = "c @ ''.tmp''"
  have ne: "c \<noteq> k" "c \<noteq> ?tc" "c \<noteq> ?tk" "k \<noteq> ?tc" "k \<noteq> ?tk" "?tc \<noteq> ?tk"
    using assms(2) by (auto simp: path_names_def)
  let ?s1 = "os_remove ?tc (os_remove ?tk s)"
  have s1: "faults_left ?s1 = 0" "fs_files ?s1 = (fs_files s)(?tk := None, ?tc := None)"
    using remove_no_fault assms(1) by auto
  obtain s2 where s2: "write_file_exclusive ?tk key ?s1 = (None, s2)" "faults_left s2 = 0"
    "fs_files s2 = (fs_files ?s1)(?tk := Some key)" using write_file_no_fault [of ?s1 ?tk key] s1 ne by auto
  have "fs_files s2 ?tc = None" using s2(3) s1(2) ne by simp
  then obtain s3 where s3: "write_file_exclusive ?tc cert s2 = (None, s3)" "faults_left s3 = 0"
    "fs_files s3 = (fs_files s2)(?tc := Some cert)" using write_file_no_fault [of s2 ?tc cert] s2(2) by auto
  have "fs_files s3 ?tc = Some cert" using s3(3) by simp
  then obtain s4 where s4: "os_rename ?tc c s3 = (None, s4)" "faults_left s4 = 0"
    "fs_files s4 = (fs_files s3)(?tc := None, c := Some cert)" using rename_no_fault [OF s3(2)] by blast
  have "fs_files s4 ?tk = Some key" using s4(3) s3(3) s2(3) ne by simp
  then obtain s5 where s5: "os_rename ?tk k s4 = (None, s5)" "fs_files s5 = (fs_files s4)(?tk := None, k := Some key)"
    using rename_no_fault [OF s4(2)] by blast
  have "fs_files s5 = (fs_files s)(?tc := None, ?tk := None, c := Some cert, k := Some key)"
    unfolding s5(2) s4(3) s3(3) s2(3) s1(2) using ne by (intro ext) auto
  then show ?thesis unfolding install_ca_def Let_def prod.case by (simp add: s2 s3 s4 s5)
qed

text \<open>
  C17: a start that meets no fault settles the CA files by what it finds. With neither file it
  installs the generated pair and clears the temporary files of an earlier run, whatever they
  hold; with both it leaves every file as it is and succeeds; with exactly one, as a crash
  between the two renames leaves it, it fails and changes nothing.
\<close>

theorem ca_install_recovers:
  assumes "faults_left s = 0" and "path_names c k"
  shows "\<exists>err s'. ensure_ca_certificate dir_of (Inr (cert, key)) c k s = (err, s') \<and>
    (case (fs_files s c, fs_files s k) of
       (None, None) \<Rightarrow> err = None \<and>
         fs_files s' = (fs_files s)(c @ ''.tmp'' := None, k @ ''.tmp'' := None, c := Some cert, k := Some key)
     | (Some _, Some _) \<Rightarrow> err = None \<and> fs_files s' = fs_files s
     | _ \<Rightarrow> err \<noteq> None \<and> fs_files s' = fs_files s)"
proof -
  have none: "next_fault x = (None, y) \<Longrightarrow> faults_left x = 0 \<Longrightarrow> faults_left y = 0 \<and> fs_files y = fs_files x" for x y
    using next_fault_cases by force
  obtain s1 where s1: "next_fault s = (None, s1)" using no_fault assms(1) by blast
  note k1 = none [OF s1 assms(1)]
  obtain s2 where s2: "next_fault s1 = (None, s2)" using no_fault k1 by blast
  note k2 = none [OF s2 k1 [THEN conjunct1]]
  obtain s3 where s3: "next_fault s2 = (None, s3)" using no_fault k2 by blast
  note k3 = none [OF s3 k2 [THEN conjunct1]]
  obtain s4 where s4: "next_fault s3 = (None, s4)" using no_fault k3 by blast
  note k4 = none [OF s4 k3 [THEN conjunct1]]
  from install_ca_no_fault [of s4 c k cert key] conjunct1 [OF k4] assms(2) obtain s' where
    i: "install_ca c k (cert, key) s4 = (None, s')"
    "fs_files s' = (fs_files s4)(c @ ''.tmp'' := None, k @ ''.tmp'' := None, c := Some cert, k := Some key)"
    by meson
  have f: "fs_files s4 = fs_files s" "fs_files s2 = fs_files s" using k1 k2 k3 k4 by simp_all
  note run = ensure_ca_certificate_def file_exists_def mkdir_all_def s1 s2 s3 s4
  consider (neither) "fs_files s c = None" "fs_files s k = None"
    | (both) x y where "fs_files s c = Some x" "fs_files s k = Some y"
    | (cert) x where "fs_files s c = Some x" "fs_files s k = None"
    | (key) y where "fs_files s c = None" "fs_files s k = Some y"
    by (cases "fs_files s c"; cases "fs_files s k") auto
  then show ?thesis
  proof cases
    case neither
    then have "ensure_ca_certificate dir_of (Inr (cert, key)) c k s = install_ca c k (cert, key) s4"
      using k1 k2 by (simp add: run)
    with neither i f(1) show ?thesis by simp
  qed (use k1 k2 in \<open>simp_all add: run\<close>)
qed

lemma ca_install_recovers_witness:
  "\<exists>s'. ensure_ca_certificate (\<lambda>_. ''certs'') (Inr (''CERT'', ''KEY'')) ''ca.crt'' ''ca.key''
      \<lparr>fs_files = [''ca.key.tmp'' \<mapsto> ''part''], fs_faults = []\<rparr> = (None, s') \<and>
    fs_files s' = [''ca.crt'' \<mapsto> ''CERT'', ''ca.key'' \<mapsto> ''KEY'']"
proof -
  let ?s = "\<lparr>fs_files = [''ca.key.tmp'' \<mapsto> ''part''], fs_faults = []\<rparr>"
  have "faults_left ?s = 0" "path_names ''ca.crt'' ''ca.key''"
    by (simp_all add: faults_left_def path_names_def)
  from ca_install_recovers [OF this, of "\<lambda>_. ''certs''" "''CERT''" "''KEY''"]
  show ?thesis by (auto simp: fun_eq_iff split: if_splits)
qed

text \<open>
  The process may stop between the renames: the certificate is in place and the key is still
  under its temporary name. Every later start then refuses to run.
\<close>

definition stopped_between_renames :: fsys where
  "stopped_between_renames =
     \<lparr>fs_files = [''ca.crt'' \<mapsto> ''CERT'', ''ca.key.tmp'' \<mapsto> ''KEY''], fs_faults = []\<rparr>"

theorem ca_crash_between_renames:
  "snd (os_rename ''ca.key.tmp'' ''ca.key'' stopped_between_renames) =
     \<lparr>fs_files = [''ca.crt'' \<mapsto> ''CERT'', ''ca.key'' \<mapsto> ''KEY''], fs_faults = []\<rparr> \<and>
   fst (ensure_ca_certificate (\<lambda>_. ''certs'') (Inr (''CERT2'', ''KEY2'')) ''ca.crt'' ''ca.key'' stopped_between_renames) =
     Some (''CA certificate and key are inconsistent: cert=ca.crt (exists=true), key=ca.key (exists=false)'')"
  by (simp add: stopped_between_renames_def os_rename_def next_fault_def ensure_ca_certificate_def
      file_exists_def fun_eq_iff)

subsection \<open>Served certificates\<close>

text \<open>
  A cached certificate was issued for a template of its own key. \<open>fits\<close> is what the
  crypto packages promise of a certificate made for a template.
\<close>

definition tm_ok :: "(string \<Rightarrow> ip option) \<Rightarrow> (cert_template \<Rightarrow> 'c \<Rightarrow> bool) \<Rightarrow> 'c tls_manager \<Rightarrow> bool" where
  "tm_ok parse_ip fits tm \<longleftrightarrow> lru_ok (tm_cert_cache tm) \<and>
     (\<forall>n c. (n, c) \<in> set (lru_abs (tm_cert_cache tm)) \<longrightarrow> (\<exists>t. fits (cert_template_for parse_ip t n) c))"

inductive tm_reach :: "(string \<Rightarrow> ip option) \<Rightarrow> (cert_template \<Rightarrow> 'c \<Rightarrow> bool) \<Rightarrow> int \<Rightarrow> 'c tls_manager \<Rightarrow> bool"
  for parse_ip fits sz where
  tm_new: "tm_reach parse_ip fits sz (set_max_cert_cache_size sz (new_tls_manager path))"
| tm_serve: "tm_reach parse_ip fits sz tm \<Longrightarrow> (\<And>t c. issue t = Inr c \<Longrightarrow> fits t c) \<Longrightarrow>
     get_certificate parse_ip issue now host tm = (res, tm') \<Longrightarrow> tm_reach parse_ip fits sz tm'"

lemma sp_get_subset: "(n, c) \<in> set (snd (sp_get k s)) \<Longrightarrow> (n, c) \<in> set s"
  by (auto simp: sp_get_def split: option.splits simp: AList.delete_eq dest: map_of_SomeD)

lemma sp_put_subset: "(n, c) \<in> set (sp_put m k v s) \<Longrightarrow> (n, c) = (k, v) \<or> (n, c) \<in> set s"
  by (auto simp: sp_put_def sp_insert_def split: option.splits if_splits simp: AList.delete_eq dest: in_set_butlastD)

lemma tm_get:
  assumes "tm_ok p fits tm" "lru_get n (tm_cert_cache tm) = (r, c)"
  shows "tm_ok p fits (tm\<lparr>tm_cert_cache := c\<rparr>) \<and> (\<forall>x. r = Some x \<longrightarrow> (\<exists>t. fits (cert_template_for p t n) x))"
proof -
  from assms(1) have ok: "lru_ok (tm_cert_cache tm)" by (simp add: tm_ok_def)
  from lru_get_refines [OF this, of n] assms(2) have g: "lru_ok c" "(r, lru_abs c) = sp_get n (lru_abs (tm_cert_cache tm))"
    by simp_all
  have "r = Some x \<Longrightarrow> (n, x) \<in> set (lru_abs (tm_cert_cache tm))" for x
    using g(2) by (auto simp: sp_get_def split: option.splits dest: map_of_SomeD)
  moreover have "(m, x) \<in> set (lru_abs c) \<Longrightarrow> (m, x) \<in> set (lru_abs (tm_cert_cache tm))" for m x
    using g(2) sp_get_subset [of m x n] by (metis snd_conv)
  ultimately show ?thesis using assms(1) g(1) by (auto simp: tm_ok_def)
qed

lemma tm_put:
  assumes "tm_ok p fits tm" "fits (cert_template_for p t n) x"
  shows "tm_ok p fits (tm\<lparr>tm_cert_cache := lru_put n x (tm_cert_cache tm)\<rparr>)"
proof -
  from assms(1) have ok: "lru_ok (tm_cert_cache tm)" by (simp add: tm_ok_def)
  from lru_put_refines [OF this, of n x] assms show ?thesis
    by (auto simp: tm_ok_def dest: sp_put_subset)
qed

lemma tm_serve_ok:
  assumes "tm_ok p fits tm" and "\<And>t c. issue t = Inr c \<Longrightarrow> fits t c"
    and "get_certificate p issue now host tm = (res, tm')"
  shows "tm_ok p fits tm' \<and> (\<forall>c. res = Inr c \<longrightarrow> cert_name host \<noteq> [] \<and> (\<exists>t. fits (cert_template_for p t (cert_name host)) c))"
proof (cases "cert_name host = []")
  case True
  with assms show ?thesis by (auto simp: get_certificate_def)
next
  case False
  obtain r1 c1 where g1: "lru_get (cert_name host) (tm_cert_cache tm) = (r1, c1)" by fastforce
  note t1 = tm_get [OF assms(1) g1]
  obtain r2 c2 where g2: "lru_get (cert_name host) c1 = (r2, c2)" by fastforce
  from tm_get [of p fits "tm\<lparr>tm_cert_cache := c1\<rparr>" "cert_name host" r2 c2] t1 g2
  have t2: "tm_ok p fits (tm\<lparr>tm_cert_cache := c2\<rparr>)" "\<forall>x. r2 = Some x \<longrightarrow> (\<exists>t. fits (cert_template_for p t (cert_name host)) x)"
    by simp_all
  have t3: "tm_ok p fits (tm\<lparr>tm_cert_cache := lru_put (cert_name host) x c2\<rparr>)" if "fits (cert_template_for p now (cert_name host)) x" for x
    using tm_put [OF t2(1) that] by simp
  have run: "(res, tm') = (case r1 of Some cert \<Rightarrow> (Inr cert, tm\<lparr>tm_cert_cache := c1\<rparr>)
     | None \<Rightarrow> (case r2 of Some cert \<Rightarrow> (Inr cert, tm\<lparr>tm_cert_cache := c2\<rparr>)
     | None \<Rightarrow> (case issue (cert_template_for p now (cert_name host)) of
          Inl e \<Rightarrow> (Inl e, tm\<lparr>tm_cert_cache := c2\<rparr>)
        | Inr cert \<Rightarrow> (Inr cert, tm\<lparr>tm_cert_cache := lru_put (cert_name host) cert c2\<rparr>))))"
    using assms(3) False
    by (cases r1; cases r2) (simp_all add: get_certificate_def g1 g2 generate_certificate_def Let_def split: sum.splits)
  show ?thesis
  proof (cases r1)
    case (Some x)
    then show ?thesis using run t1 False by simp
  next
    case None
    show ?thesis
    proof (cases r2)
      case (Some x)
      then show ?thesis using run None t2 False by simp
    next
      case r2: None
      show ?thesis
      proof (cases "issue (cert_template_for p now (cert_name host))")
        case (Inl e)
        then show ?thesis using run None r2 t2 by simp
      next
        case (Inr x)
        from assms(2) [OF Inr] have "fits (cert_template_for p now (cert_name host)) x" .
        then show ?thesis using run None r2 t3 False Inr by auto
      qed
    qed
  qed
qed

lemma tm_reach_ok: "tm_reach p fits sz tm \<Longrightarrow> tm_ok p fits tm"
proof (induction rule: tm_reach.induct)
  case (tm_new path)
  then show ?case by (simp add: tm_ok_def set_max_cert_cache_size_def new_tls_manager_def lru_ok_new)
next
  case (tm_serve tm issue now host res tm')
  then show ?case using tm_serve_ok [of p fits tm issue now host res tm'] by blast
qed

text \<open>
  C27: a certificate served for a host was issued for that host. After any sequence of
  requests, a served certificate was made for a template whose only name is the normalised
  host, as a DNS name or as an IP address; an empty name is refused.
\<close>

theorem served_certificate_names_host:
  assumes "tm_reach parse_ip fits sz tm" and "\<And>t c. issue t = Inr c \<Longrightarrow> fits t c"
    and "fst (get_certificate parse_ip issue now host tm) = Inr cert"
  shows "cert_name host \<noteq> [] \<and> (\<exists>t. fits t cert \<and> ct_common_name t = cert_name host \<and>
    (case parse_ip (cert_name host) of
       Some x \<Rightarrow> ct_ip_addresses t = [x] \<and> ct_dns_names t = []
     | None \<Rightarrow> ct_dns_names t = [cert_name host] \<and> ct_ip_addresses t = []))"
proof -
  obtain tm' where g: "get_certificate parse_ip issue now host tm = (Inr cert, tm')"
    using assms(3) by (metis prod.collapse)
  from tm_serve_ok [OF tm_reach_ok [OF assms(1)] assms(2) g] obtain t where
    "cert_name host \<noteq> []" "fits (cert_template_for parse_ip t (cert_name host)) cert" by auto
  then show ?thesis
    by (intro conjI exI [of _ "cert_template_for parse_ip t (cert_name host)"])
      (auto simp: cert_template_for_def Let_def split: option.split)
qed

theorem served_certificate_names_host_witness:
  "\<exists>t. Inr t = fst (get_certificate (\<lambda>_. None) Inr 5 ''API.x.com.'' (set_max_cert_cache_size 2 (new_tls_manager ''ca''))) \<and>
     ct_dns_names t = [''api.x.com'']"
proof -
  let ?tm = "set_max_cert_cache_size 2 (new_tls_manager ''ca'') :: cert_template tls_manager"
  have name: "cert_name ''API.x.com.'' = ''api.x.com''" by code_simp
  have reach: "tm_reach (\<lambda>_. None) (=) 2 ?tm" by (rule tm_new)
  obtain c where c: "fst (get_certificate (\<lambda>_. None) Inr 5 ''API.x.com.'' ?tm) = Inr c"
    by (simp add: get_certificate_def name set_max_cert_cache_size_def new_tls_manager_def new_lru_cache_def lru_get_def
        generate_certificate_def Let_def)
  from served_certificate_names_host [OF reach _ c] have "ct_dns_names c = [''api.x.com'']" by (auto simp: name)
  with c show ?thesis by auto
qed

text \<open>Spellings of one host share the cache entry.\<close>

lemma to_lower_upper: "to_lower (map upper_byte s) = to_lower s"
  by (induction s) (simp_all add: to_lower_def lower_upper_byte_eq)

lemma cert_name_spellings: "cert_name (map upper_byte h @ ''.'') = cert_name h"
proof -
  have "lower_byte CHR ''.'' = CHR ''.''" by code_simp
  then have "to_lower (map upper_byte h @ ''.'') = to_lower h @ ''.''"
    using to_lower_upper [of h] by (simp add: to_lower_def)
  then show ?thesis by (simp add: cert_name_def trim_dots_def)
qed

lemma certificate_shared_by_spellings:
  "get_certificate p issue now (map upper_byte h @ ''.'') tm = get_certificate p issue now h tm"
  by (simp add: get_certificate_def cert_name_spellings)

end
