(* ===== verification/Rate_Limit.thy ===== *)
theory Rate_Limit imports Lru Go_Net Http_Message Complex_Main begin

text \<open>
  Per-IP rate limiting (\<open>internal/proxy/ratelimit.go\<close>). The token bucket is
  \<open>golang.org/x/time/rate\<close>, third-party code: a type \<open>'l\<close> with its two
  operations, \<open>rate.NewLimiter\<close> and \<open>Limiter.Allow\<close> at a given time, as
  arguments. The cache holds pointers to limiters, so the limiters live in a store and the
  cache maps an IP to an address in it: a limiter that has been evicted can still be used by
  a request that obtained it before.
\<close>

definition default_max_entries :: int where "default_max_entries = 100000"

record 'l ip_rate_limiter =
  rl_cache :: "nat lru_cache"
  rl_store :: "'l list"
  rl_rate :: rat
  rl_burst :: int
  rl_observer :: bool

type_synonym 'l make_bucket = "rat \<Rightarrow> int \<Rightarrow> 'l"
type_synonym 'l bucket_allow = "time \<Rightarrow> 'l \<Rightarrow> bool \<times> 'l"

definition new_ip_rate_limiter :: "rat \<Rightarrow> int \<Rightarrow> 'l ip_rate_limiter" where
  "new_ip_rate_limiter r burst =
     \<lparr>rl_cache = new_lru_cache default_max_entries, rl_store = [], rl_rate = r, rl_burst = burst,
      rl_observer = False\<rparr>"

definition rl_set_observer :: "bool \<Rightarrow> 'l ip_rate_limiter \<Rightarrow> 'l ip_rate_limiter" where
  "rl_set_observer obs rl = rl\<lparr>rl_observer := obs\<rparr>"

text \<open>
  The two steps of \<open>Allow\<close>: the limiter's address under the cache's lock, then the
  bucket. The created limiter is stored only when the cache took it.
\<close>

definition rl_obtain :: "'l make_bucket \<Rightarrow> string \<Rightarrow> 'l ip_rate_limiter \<Rightarrow> nat option \<times> 'l ip_rate_limiter" where
  "rl_obtain mk ip rl =
     (let fresh = length (rl_store rl);
          (a, c) = lru_get_or_create ip fresh (rl_cache rl)
      in (a, rl\<lparr>rl_cache := c,
               rl_store := rl_store rl @ (if a = Some fresh then [mk (rl_rate rl) (rl_burst rl)] else [])\<rparr>))"

definition rl_use :: "'l bucket_allow \<Rightarrow> time \<Rightarrow> nat \<Rightarrow> 'l ip_rate_limiter \<Rightarrow> bool \<times> 'l ip_rate_limiter" where
  "rl_use allow now a rl =
     (let (ok, l) = allow now (rl_store rl ! a) in (ok, rl\<lparr>rl_store := (rl_store rl)[a := l]\<rparr>))"

definition rl_allow ::
    "'l make_bucket \<Rightarrow> 'l bucket_allow \<Rightarrow> time \<Rightarrow> string \<Rightarrow> 'l ip_rate_limiter \<Rightarrow> bool \<times> 'l ip_rate_limiter" where
  "rl_allow mk allow now ip rl =
     (case rl_obtain mk ip rl of
        (Some a, rl1) \<Rightarrow> rl_use allow now a rl1
      | (None, rl1) \<Rightarrow> (False, rl1))"

definition rl_len :: "'l ip_rate_limiter \<Rightarrow> nat" where "rl_len rl = lru_len (rl_cache rl)"

definition extract_client_ip :: "http_request \<Rightarrow> string" where
  "extract_client_ip r =
     (case split_host_port (rq_remote_addr r) of Inl _ \<Rightarrow> rq_remote_addr r | Inr (host, _) \<Rightarrow> host)"

text \<open>
  The middleware: whether the request was rejected, the limiter, the response, and how often
  \<open>OnRateLimitHit\<close> was called.
\<close>

definition rate_limit_middleware ::
    "'l make_bucket \<Rightarrow> 'l bucket_allow \<Rightarrow> time \<Rightarrow> 'l ip_rate_limiter option \<Rightarrow> response_writer \<Rightarrow> http_request \<Rightarrow>
     bool \<times> 'l ip_rate_limiter option \<times> response_writer \<times> nat" where
  "rate_limit_middleware mk allow now rlo w r =
     (case rlo of
        None \<Rightarrow> (False, None, w, 0)
      | Some rl \<Rightarrow>
          (let (ok, rl1) = rl_allow mk allow now (extract_client_ip r) rl in
           if ok then (False, Some rl1, w, 0)
           else (True, Some rl1,
                 http_error ''Too Many Requests'' 429 (w_set ''Connection'' ''close'' (w_set ''Retry-After'' ''1'' w)),
                 if rl_observer rl1 then 1 else 0)))"

lemma in_set_deleteD: "p \<in> set (AList.delete k xs) \<Longrightarrow> p \<in> set xs"
  by (induction xs) (auto split: if_splits)

subsection \<open>The cache as an interface\<close>

text \<open>
  What the rate limiter and the certificate store rely on: a key that is recent yields its
  value, a missing one is inserted, and only a full cache loses an entry, its oldest.
\<close>

locale recency_cache =
  fixes goc :: "string \<Rightarrow> 'v \<Rightarrow> 'c \<Rightarrow> 'v option \<times> 'c"
    and recent :: "'c \<Rightarrow> 'v recency" and ok :: "'c \<Rightarrow> bool" and cap :: "'c \<Rightarrow> int"
  assumes goc_ok: "ok c \<Longrightarrow> ok (snd (goc k v c))"
    and goc_recent: "ok c \<Longrightarrow> (fst (goc k v c), recent (snd (goc k v c))) = sp_get_or_create (cap c) k v (recent c)"
    and goc_cap: "cap (snd (goc k v c)) = cap c"
    and recent_distinct: "ok c \<Longrightarrow> distinct (map fst (recent c))"
begin

text \<open>While at most \<open>cap\<close> keys are in use, no entry is ever lost.\<close>

lemma working_set_step:
  assumes ok: "ok c" and K: "finite K" "int (card K) \<le> cap c" and sub: "fst ` set (recent c) \<subseteq> K" and k: "k \<in> K"
  shows "fst ` set (recent (snd (goc k v c))) \<subseteq> K"
    and "fst (goc k v c) = Some (case map_of (recent c) k of Some w \<Rightarrow> w | None \<Rightarrow> v)"
    and "map_of (recent (snd (goc k v c))) =
      (map_of (recent c))(k \<mapsto> (case map_of (recent c) k of Some w \<Rightarrow> w | None \<Rightarrow> v))"
proof -
  have spec: "fst (goc k v c) = fst (sp_get_or_create (cap c) k v (recent c))"
    "recent (snd (goc k v c)) = snd (sp_get_or_create (cap c) k v (recent c))"
    using goc_recent [OF ok, of k v] by (simp_all add: prod_eq_iff)
  have room: "int (length (recent c)) < cap c" if "map_of (recent c) k = None"
  proof -
    have "fst ` set (recent c) \<subseteq> K - {k}" using sub that by (auto simp: map_of_eq_None_iff)
    then have "card (fst ` set (recent c)) \<le> card (K - {k})" using K(1) by (simp add: card_mono)
    moreover have "card (fst ` set (recent c)) = length (recent c)"
      using distinct_card [OF recent_distinct [OF ok]] by simp
    moreover have "card (K - {k}) < card K" using K(1) k by (rule card_Diff1_less)
    ultimately show ?thesis using K(2) by linarith
  qed
  show "fst ` set (recent (snd (goc k v c))) \<subseteq> K"
    using sub k room
    by (auto simp: spec sp_get_or_create_def sp_insert_def split: option.split dest: in_set_deleteD)
  show "fst (goc k v c) = Some (case map_of (recent c) k of Some w \<Rightarrow> w | None \<Rightarrow> v)"
    by (simp add: spec sp_get_or_create_def split: option.split)
  show "map_of (recent (snd (goc k v c))) =
      (map_of (recent c))(k \<mapsto> (case map_of (recent c) k of Some w \<Rightarrow> w | None \<Rightarrow> v))"
    using room by (auto simp: spec sp_get_or_create_def sp_insert_def delete_conv split: option.split)
qed

end

lemma lru_abs_distinct: "lru_ok c \<Longrightarrow> distinct (map fst (lru_abs c))"
  by (simp add: lru_ok_def lru_coherent_def lru_abs_def comp_def)

interpretation lru: recency_cache lru_get_or_create lru_abs lru_ok lc_max
  by unfold_locales
    (simp_all add: lru_get_or_create_refines [THEN conjunct1] lru_get_or_create_refines [THEN conjunct2]
      lru_max_frame lru_abs_distinct)

subsection \<open>Every address has one bucket\<close>

text \<open>
  The limiter's invariant: the cache is well formed, its addresses are in the store, and no
  two IPs share one.
\<close>

definition rl_ok :: "'l ip_rate_limiter \<Rightarrow> bool" where
  "rl_ok rl \<longleftrightarrow> lru_ok (rl_cache rl) \<and> lc_max (rl_cache rl) = default_max_entries \<and>
     (\<forall>a\<in>snd ` set (lru_abs (rl_cache rl)). a < length (rl_store rl)) \<and>
     distinct (map snd (lru_abs (rl_cache rl)))"

text \<open>The bucket of an IP: what the store holds at its address, else a fresh one.\<close>

definition rl_bucket :: "'l make_bucket \<Rightarrow> 'l ip_rate_limiter \<Rightarrow> string \<Rightarrow> 'l" where
  "rl_bucket mk rl ip =
     (case map_of (lru_abs (rl_cache rl)) ip of
        Some a \<Rightarrow> rl_store rl ! a
      | None \<Rightarrow> mk (rl_rate rl) (rl_burst rl))"

lemma rl_ok_new: "rl_ok (new_ip_rate_limiter r b)"
  by (simp add: rl_ok_def new_ip_rate_limiter_def lru_ok_new) (simp add: new_lru_cache_def)

lemma distinct_snd_delete: "distinct (map snd xs) \<Longrightarrow> distinct (map snd (AList.delete k xs))"
  by (induction xs) (auto dest: in_set_deleteD)

lemma map_of_snd: "map_of xs k = Some a \<Longrightarrow> a \<in> snd ` set xs"
  by (force dest: map_of_SomeD)

lemma snd_delete_unique:
  "distinct (map snd xs) \<Longrightarrow> map_of xs k = Some a \<Longrightarrow> a \<notin> snd ` set (AList.delete k xs)"
  by (induction xs) (auto split: if_splits dest: in_set_deleteD map_of_snd)

lemma rl_recent_cases:
  assumes ok: "rl_ok rl"
  obtains (hit) a where "map_of (lru_abs (rl_cache rl)) ip = Some a"
      "rl_obtain mk ip rl = (Some a, rl\<lparr>rl_cache := snd (lru_get_or_create ip (length (rl_store rl)) (rl_cache rl))\<rparr>)"
      "lru_abs (snd (lru_get_or_create ip (length (rl_store rl)) (rl_cache rl))) = (ip, a) # AList.delete ip (lru_abs (rl_cache rl))"
    | (miss) "map_of (lru_abs (rl_cache rl)) ip = None"
      "rl_obtain mk ip rl = (Some (length (rl_store rl)),
         rl\<lparr>rl_cache := snd (lru_get_or_create ip (length (rl_store rl)) (rl_cache rl)),
            rl_store := rl_store rl @ [mk (rl_rate rl) (rl_burst rl)]\<rparr>)"
      "\<exists>old. lru_abs (snd (lru_get_or_create ip (length (rl_store rl)) (rl_cache rl))) = (ip, length (rl_store rl)) # old \<and>
         (old = lru_abs (rl_cache rl) \<or> old = butlast (lru_abs (rl_cache rl)))"
proof -
  let ?n = "length (rl_store rl)" and ?c = "rl_cache rl"
  have c: "lru_ok ?c" and below: "\<And>a. a \<in> snd ` set (lru_abs ?c) \<Longrightarrow> a < ?n" using ok by (auto simp: rl_ok_def)
  have spec: "fst (lru_get_or_create ip ?n ?c) = fst (sp_get_or_create (lc_max ?c) ip ?n (lru_abs ?c))"
    "lru_abs (snd (lru_get_or_create ip ?n ?c)) = snd (sp_get_or_create (lc_max ?c) ip ?n (lru_abs ?c))"
    using lru.goc_recent [OF c, of ip ?n] by (simp_all add: prod_eq_iff)
  show thesis
  proof (cases "map_of (lru_abs ?c) ip")
    case None
    then show ?thesis using spec
      by (intro miss) (auto simp: rl_obtain_def Let_def case_prod_beta sp_get_or_create_def sp_insert_def)
  next
    case (Some a)
    then have "a < ?n" using below by (force dest: map_of_SomeD)
    with Some show ?thesis using spec
      by (intro hit) (auto simp: rl_obtain_def Let_def case_prod_beta sp_get_or_create_def)
  qed
qed

lemma rl_obtain_ok:
  assumes ok: "rl_ok rl" and o: "rl_obtain mk ip rl = (ao, rl1)"
  shows "rl_ok rl1" "\<exists>a. ao = Some a \<and> a < length (rl_store rl1) \<and> map_of (lru_abs (rl_cache rl1)) ip = Some a \<and>
      a \<notin> snd ` set (AList.delete ip (lru_abs (rl_cache rl1)))"
    "rl_rate rl1 = rl_rate rl" "rl_burst rl1 = rl_burst rl" "rl_observer rl1 = rl_observer rl"
proof -
  let ?n = "length (rl_store rl)" and ?c = "rl_cache rl"
  have c: "lru_ok ?c" "lc_max ?c = default_max_entries" "distinct (map snd (lru_abs ?c))"
    and below: "\<And>a. a \<in> snd ` set (lru_abs ?c) \<Longrightarrow> a < ?n" using ok by (auto simp: rl_ok_def)
  note c' = lru.goc_ok [OF c(1), of ip ?n] lru.goc_cap [of ip ?n ?c]
  have all: "rl_ok rl1 \<and> (\<exists>a. ao = Some a \<and> a < length (rl_store rl1) \<and>
      map_of (lru_abs (rl_cache rl1)) ip = Some a \<and> a \<notin> snd ` set (AList.delete ip (lru_abs (rl_cache rl1))))"
  proof (rule rl_recent_cases [OF ok, of ip mk])
    fix a assume h: "map_of (lru_abs ?c) ip = Some a"
      "rl_obtain mk ip rl = (Some a, rl\<lparr>rl_cache := snd (lru_get_or_create ip ?n ?c)\<rparr>)"
      "lru_abs (snd (lru_get_or_create ip ?n ?c)) = (ip, a) # AList.delete ip (lru_abs ?c)"
    have "a < ?n" using h(1) below by (force dest: map_of_SomeD)
    moreover have "x < ?n" if "x \<in> snd ` set (AList.delete ip (lru_abs ?c))" for x
      using that below by (auto dest: in_set_deleteD)
    moreover have "a \<notin> snd ` set (AList.delete ip (lru_abs ?c))" by (rule snd_delete_unique [OF c(3) h(1)])
    moreover have "distinct (map snd (AList.delete ip (lru_abs ?c)))" by (rule distinct_snd_delete [OF c(3)])
    ultimately show ?thesis using h o c c' by (auto simp: rl_ok_def delete_idem)
  next
    assume m: "map_of (lru_abs ?c) ip = None"
      "rl_obtain mk ip rl = (Some ?n, rl\<lparr>rl_cache := snd (lru_get_or_create ip ?n ?c),
         rl_store := rl_store rl @ [mk (rl_rate rl) (rl_burst rl)]\<rparr>)"
      "\<exists>old. lru_abs (snd (lru_get_or_create ip ?n ?c)) = (ip, ?n) # old \<and> (old = lru_abs ?c \<or> old = butlast (lru_abs ?c))"
    then obtain old where old: "lru_abs (snd (lru_get_or_create ip ?n ?c)) = (ip, ?n) # old"
      "old = lru_abs ?c \<or> old = butlast (lru_abs ?c)" by blast
    have sub: "set old \<subseteq> set (lru_abs ?c)" and dist: "distinct (map snd old)"
      using old(2) c(3) by (auto dest: in_set_butlastD simp: map_butlast distinct_butlast)
    have lt: "x < ?n" if "x \<in> snd ` set old" for x using that sub below by blast
    then have "?n \<notin> snd ` set old" by blast
    moreover have "?n \<notin> snd ` set (AList.delete ip old)" using lt by (auto dest: in_set_deleteD)
    ultimately show ?thesis using m(2) o old(1) c c' dist lt by (auto simp: rl_ok_def less_SucI)
  qed
  then show "rl_ok rl1" "\<exists>a. ao = Some a \<and> a < length (rl_store rl1) \<and> map_of (lru_abs (rl_cache rl1)) ip = Some a \<and>
      a \<notin> snd ` set (AList.delete ip (lru_abs (rl_cache rl1)))" by blast+
  show "rl_rate rl1 = rl_rate rl" "rl_burst rl1 = rl_burst rl" "rl_observer rl1 = rl_observer rl"
    using o by (auto simp: rl_obtain_def Let_def case_prod_beta)
qed

lemma rl_use_ok:
  assumes "rl_ok rl" and "rl_use allow now a rl = (b, rl')"
  shows "rl_ok rl' \<and> rl_rate rl' = rl_rate rl \<and> rl_burst rl' = rl_burst rl \<and> rl_cache rl' = rl_cache rl \<and>
    rl_store rl' = (rl_store rl)[a := snd (allow now (rl_store rl ! a))] \<and> b = fst (allow now (rl_store rl ! a))"
proof -
  have "rl' = rl\<lparr>rl_store := (rl_store rl)[a := snd (allow now (rl_store rl ! a))]\<rparr>"
    and "b = fst (allow now (rl_store rl ! a))"
    using assms(2) by (simp_all add: rl_use_def case_prod_beta Let_def)
  then show ?thesis using assms(1) by (simp add: rl_ok_def)
qed

lemma rl_allow_ok: "rl_ok rl \<Longrightarrow> rl_ok (snd (rl_allow mk allow now ip rl))"
  using rl_obtain_ok(1,2) [of rl mk ip]
  by (cases "rl_obtain mk ip rl") (force simp: rl_allow_def dest: rl_use_ok [OF _ prod.collapse [symmetric]])

lemma rl_bucket_obtain:
  assumes ok: "rl_ok rl" and K: "finite K" "int (card K) \<le> default_max_entries"
    and sub: "fst ` set (lru_abs (rl_cache rl)) \<subseteq> K" and k: "ip \<in> K"
    and o: "rl_obtain mk ip rl = (Some a, rl1)"
  shows "fst ` set (lru_abs (rl_cache rl1)) \<subseteq> K" and "rl_bucket mk rl1 = rl_bucket mk rl"
    and "rl_store rl1 ! a = rl_bucket mk rl ip"
proof -
  let ?n = "length (rl_store rl)" and ?c = "rl_cache rl"
  have c: "lru_ok ?c" "int (card K) \<le> lc_max ?c" using ok K by (simp_all add: rl_ok_def)
  have below: "\<And>x. x \<in> snd ` set (lru_abs ?c) \<Longrightarrow> x < ?n" using ok unfolding rl_ok_def by blast
  note ws = lru.working_set_step [OF c(1) K(1) c(2) sub k, of ?n]
  have cache: "rl_cache rl1 = snd (lru_get_or_create ip ?n ?c)"
    and a: "fst (lru_get_or_create ip ?n ?c) = Some a"
    and store: "rl_store rl1 = rl_store rl @ (if a = ?n then [mk (rl_rate rl) (rl_burst rl)] else [])"
    and par: "rl_rate rl1 = rl_rate rl" "rl_burst rl1 = rl_burst rl"
    using o by (auto simp: rl_obtain_def Let_def case_prod_beta)
  show "fst ` set (lru_abs (rl_cache rl1)) \<subseteq> K" using ws(1) cache by simp
  have a': "a = (case map_of (lru_abs ?c) ip of Some w \<Rightarrow> w | None \<Rightarrow> ?n)" using ws(2) a by simp
  have mo: "map_of (lru_abs (rl_cache rl1)) = (map_of (lru_abs ?c))(ip \<mapsto> a)" using ws(3) cache a' by simp
  have old: "rl_store rl1 ! x = rl_store rl ! x" if "map_of (lru_abs ?c) y = Some x" for x y
    using below [OF map_of_snd [OF that]] store by (simp add: nth_append)
  show at_a: "rl_store rl1 ! a = rl_bucket mk rl ip"
  proof (cases "map_of (lru_abs ?c) ip")
    case None
    then show ?thesis using a' store by (simp add: rl_bucket_def)
  next
    case (Some w)
    then show ?thesis using a' old [OF Some] by (simp add: rl_bucket_def)
  qed
  show "rl_bucket mk rl1 = rl_bucket mk rl"
  proof
    fix y
    show "rl_bucket mk rl1 y = rl_bucket mk rl y"
    proof (cases "y = ip")
      case True
      then show ?thesis using mo at_a by (simp add: rl_bucket_def)
    next
      case False
      then show ?thesis using mo old [of y] par
        by (simp add: rl_bucket_def split: option.split)
    qed
  qed
qed

lemma rl_allow_isolated:
  assumes ok: "rl_ok rl" and K: "finite K" "int (card K) \<le> default_max_entries"
    and sub: "fst ` set (lru_abs (rl_cache rl)) \<subseteq> K" and k: "ip \<in> K"
  shows "\<exists>rl'. rl_allow mk allow now ip rl = (fst (allow now (rl_bucket mk rl ip)), rl') \<and> rl_ok rl' \<and>
    fst ` set (lru_abs (rl_cache rl')) \<subseteq> K \<and>
    rl_bucket mk rl' = (rl_bucket mk rl)(ip := snd (allow now (rl_bucket mk rl ip)))"
proof -
  obtain ao rl1 where o: "rl_obtain mk ip rl = (ao, rl1)" by (cases "rl_obtain mk ip rl")
  note o1 = rl_obtain_ok [OF ok o]
  from o1(2) obtain a where a: "ao = Some a" "a < length (rl_store rl1)"
    "map_of (lru_abs (rl_cache rl1)) ip = Some a" "a \<notin> snd ` set (AList.delete ip (lru_abs (rl_cache rl1)))" by blast
  note b = rl_bucket_obtain [OF ok K sub k o [unfolded a(1)]]
  obtain v rl' where u: "rl_use allow now a rl1 = (v, rl')" by (cases "rl_use allow now a rl1")
  note u' = rl_use_ok [OF o1(1) u]
  have other: "x \<noteq> a" if "map_of (lru_abs (rl_cache rl1)) y = Some x" "y \<noteq> ip" for x y
  proof -
    have "map_of (AList.delete ip (lru_abs (rl_cache rl1))) y = Some x"
      using that by (simp add: map_of_delete_other)
    then show ?thesis using a(4) map_of_snd by metis
  qed
  have "rl_bucket mk rl' y = ((rl_bucket mk rl1)(ip := snd (allow now (rl_bucket mk rl ip)))) y" for y
  proof (cases "y = ip")
    case True
    then show ?thesis using u' a b(3) by (simp add: rl_bucket_def)
  next
    case False
    then show ?thesis using u' other [of y] by (auto simp: rl_bucket_def split: option.split)
  qed
  then have "rl_bucket mk rl' = (rl_bucket mk rl)(ip := snd (allow now (rl_bucket mk rl ip)))"
    using b(2) by (intro ext) simp
  then show ?thesis using o a(1) u u' b by (intro exI [of _ rl']) (simp add: rl_allow_def)
qed

subsection \<open>Properties\<close>

text \<open>A sequence of requests at given times, and one bucket used alone.\<close>

fun rl_run ::
    "'l make_bucket \<Rightarrow> 'l bucket_allow \<Rightarrow> (time \<times> string) list \<Rightarrow> 'l ip_rate_limiter \<Rightarrow> bool list \<times> 'l ip_rate_limiter" where
  "rl_run mk allow [] rl = ([], rl)"
| "rl_run mk allow ((now, ip) # qs) rl =
     (let (ok, rl1) = rl_allow mk allow now ip rl; (oks, rl2) = rl_run mk allow qs rl1 in (ok # oks, rl2))"

fun bucket_run :: "'l bucket_allow \<Rightarrow> time list \<Rightarrow> 'l \<Rightarrow> bool list" where
  "bucket_run allow [] l = []"
| "bucket_run allow (now # ts) l = (let (ok, l1) = allow now l in ok # bucket_run allow ts l1)"

definition verdicts_for :: "string \<Rightarrow> (time \<times> string) list \<Rightarrow> bool list \<Rightarrow> bool list" where
  "verdicts_for ip qs oks = map snd (filter (\<lambda>p. snd (fst p) = ip) (zip qs oks))"

definition times_of :: "string \<Rightarrow> (time \<times> string) list \<Rightarrow> time list" where
  "times_of ip qs = map fst (filter (\<lambda>q. snd q = ip) qs)"

lemma rl_run_isolated:
  assumes "rl_ok rl" "finite K" "int (card K) \<le> default_max_entries"
    "fst ` set (lru_abs (rl_cache rl)) \<subseteq> K" "snd ` set qs \<subseteq> K"
  shows "verdicts_for ip qs (fst (rl_run mk allow qs rl)) = bucket_run allow (times_of ip qs) (rl_bucket mk rl ip)"
  using assms
proof (induction qs arbitrary: rl)
  case Nil
  then show ?case by (simp add: verdicts_for_def times_of_def)
next
  case (Cons q qs)
  obtain now y where q: "q = (now, y)" by (cases q)
  then have y: "y \<in> K" using Cons.prems(5) by simp
  from rl_allow_isolated [OF Cons.prems(1-4) y, of mk allow now] obtain rl' where
    s: "rl_allow mk allow now y rl = (fst (allow now (rl_bucket mk rl y)), rl')" "rl_ok rl'"
      "fst ` set (lru_abs (rl_cache rl')) \<subseteq> K"
      "rl_bucket mk rl' = (rl_bucket mk rl)(y := snd (allow now (rl_bucket mk rl y)))" by blast
  have IH: "verdicts_for ip qs (fst (rl_run mk allow qs rl')) = bucket_run allow (times_of ip qs) (rl_bucket mk rl' ip)"
    using Cons.IH [OF s(2) Cons.prems(2,3) s(3)] Cons.prems(5) by simp
  show ?case using IH s(1,4)
    by (auto simp: q verdicts_for_def times_of_def case_prod_beta Let_def)
qed

lemma rl_run_ok: "rl_ok rl \<Longrightarrow> rl_ok (snd (rl_run mk allow qs rl))"
proof (induction qs arbitrary: rl)
  case Nil
  then show ?case by simp
next
  case (Cons q qs)
  obtain now y where q: "q = (now, y)" by (cases q)
  show ?case using Cons.IH [OF rl_allow_ok [OF Cons.prems, of mk allow now y]]
    by (simp add: q case_prod_beta Let_def)
qed

text \<open>
  C24: Rate limiting is per client. Whatever the bucket does, in any sequence of requests
  from at most 100,000 addresses, the verdicts for one address are exactly those of a fresh
  bucket of its own used at the times of its requests: nobody else's traffic spends its
  tokens, and no eviction refills them.
\<close>

theorem rate_limit_per_client:
  assumes "card (snd ` set qs) \<le> 100000"
  shows "verdicts_for ip qs (fst (rl_run mk allow qs (new_ip_rate_limiter r b))) =
    bucket_run allow (times_of ip qs) (mk r b)"
proof -
  have "rl_bucket mk (new_ip_rate_limiter r b) ip = mk r b"
    by (simp add: rl_bucket_def new_ip_rate_limiter_def lru_ok_new)
  moreover have "fst ` set (lru_abs (rl_cache (new_ip_rate_limiter r b))) \<subseteq> snd ` set qs"
    by (simp add: new_ip_rate_limiter_def lru_ok_new)
  ultimately show ?thesis
    using rl_run_isolated [OF rl_ok_new, of "snd ` set qs" r b qs ip mk allow] assms
    by (simp add: default_max_entries_def)
qed

definition counting_bucket :: "nat bucket_allow" where
  "counting_bucket now n = (0 < n, n - 1)"

theorem rate_limit_per_client_witness:
  "verdicts_for ''b'' [(0, ''a''), (1, ''b''), (2, ''a'')]
     (fst (rl_run (\<lambda>r b. nat b) counting_bucket [(0, ''a''), (1, ''b''), (2, ''a'')] (new_ip_rate_limiter 1 1))) = [True]"
  by (subst rate_limit_per_client) (simp_all add: times_of_def counting_bucket_def card_insert_if)

text \<open>
  However many clients appear, the limiter tracks at most 100,000 of them, and
  the cache's map and list stay in step.
\<close>

theorem rate_limit_memory_bound:
  "rl_len (snd (rl_run mk allow qs (new_ip_rate_limiter r b))) \<le> 100000 \<and>
   lru_ok (rl_cache (snd (rl_run mk allow qs (new_ip_rate_limiter r b))))"
proof -
  let ?c = "rl_cache (snd (rl_run mk allow qs (new_ip_rate_limiter r b)))"
  have c: "lru_ok ?c" "lc_max ?c = 100000"
    using rl_run_ok [OF rl_ok_new, of mk allow qs r b] by (simp_all add: rl_ok_def default_max_entries_def)
  have "int (length (lc_order ?c)) \<le> max 1 (lc_max ?c)" using c(1) by (simp add: lru_ok_def)
  with c show ?thesis by (simp add: rl_len_def lru_len_def)
qed

end
