(* ===== verification/Proxy_Tunnel.thy ===== *)
theory Proxy_Tunnel imports Proxy_Handler Rate_Limit begin

text \<open>
  The entry points of the proxy (\<open>internal/proxy/handler.go\<close>): plain HTTP requests,
  CONNECT, the loop that serves the requests inside a TLS tunnel, and WebSocket upgrades.
  What happens on a connection is a list of events. A tunnel is run on the list of requests
  its client sends; the end of the list is the end of the connection.
\<close>

datatype proxy_event =
    Effect effect
  | WriteResponse http_response "response_audit_body option"
  | UpgradeApproved http_request approval_result
  | RateLimitHit

subsection \<open>Requests in a tunnel\<close>

text \<open>One request of the tunnel: when it was read, its id, and whether the response could be written.\<close>

record tunnel_turn =
  tt_req :: http_request
  tt_id :: string
  tt_start :: time
  tt_now :: time
  tt_write_ok :: bool

definition strip_port :: "string \<Rightarrow> string" where
  "strip_port host = (case split_host_port host of Inr (h, _) \<Rightarrow> h | Inl _ \<Rightarrow> host)"

text \<open>\<open>ReadRequest\<close> sets no scheme and host; the loop sets https and the Host header.\<close>

definition fix_tunnel_url :: "http_request \<Rightarrow> http_request" where
  "fix_tunnel_url req =
     req\<lparr>rq_url_scheme := ''https'', rq_url_host := rq_host req,
         rq_url := ''https://'' @ rq_url_user req @ rq_host req @ rq_url_tail req\<rparr>"

definition host_mismatch :: "string \<Rightarrow> http_request \<Rightarrow> bool" where
  "host_mismatch connectHostname req =
     (connectHostname \<noteq> [] \<and> \<not> equal_fold (strip_port (rq_host req)) connectHostname)"

definition mismatch_response :: "string \<Rightarrow> http_request \<Rightarrow> http_response" where
  "mismatch_response connectHostname req =
     error_response 403 ''text/plain''
       (''Forbidden: inner request Host '' @ quote_str (strip_port (rq_host req)) @
        '' does not match CONNECT tunnel target '' @ quote_str connectHostname)"

definition too_many_response :: http_response where
  "too_many_response =
     (let r = error_response 429 ''text/plain'' ''Too Many Requests''
      in r\<lparr>rs_header := hdr_set (hdr_set (rs_header r) ''Retry-After'' ''1'') ''Connection'' ''close''\<rparr>)"

text \<open>The rate limit inside a tunnel: no check without a limiter or a client address.\<close>

definition tunnel_limited ::
    "'l make_bucket \<Rightarrow> 'l bucket_allow \<Rightarrow> string \<Rightarrow> time \<Rightarrow> 'l ip_rate_limiter option \<Rightarrow> bool \<times> 'l ip_rate_limiter option" where
  "tunnel_limited mk allow clientIP now rlo =
     (case rlo of
        None \<Rightarrow> (False, None)
      | Some rl \<Rightarrow>
          if clientIP = [] then (False, Some rl)
          else (let (ok, rl1) = rl_allow mk allow now clientIP rl in (\<not> ok, Some rl1)))"

text \<open>One iteration after the rate limit: the events, and whether the loop goes on.\<close>

definition tunnel_turn_step ::
    "handler \<Rightarrow> proxy_auth option \<Rightarrow> string \<Rightarrow> tunnel_turn \<Rightarrow> proxy_event list \<times> bool" where
  "tunnel_turn_step hh ctxAuth connectHostname t =
     (let req = fix_tunnel_url (tt_req t) in
      if host_mismatch connectHostname req then ([WriteResponse (mismatch_response connectHostname req) None], False)
      else if ctxAuth = None \<and> (case extract_proxy_auth (hdr_get (rq_header req) ''Proxy-Authorization'') of Inl _ \<Rightarrow> True | Inr _ \<Rightarrow> False)
        then ([WriteResponse unsupported_auth_scheme_response None], False)
      else if is_websocket_upgrade req then
        (let (res, evs, req1) = process_upgrade_approval hh (tt_id t) (tt_start t) (tt_now t) ctxAuth req
         in (map Effect evs @
             (case ar_deny_resp res of
                Some resp \<Rightarrow> [WriteResponse resp None]
              | None \<Rightarrow> [UpgradeApproved req1 res]), False))
      else
        (let ((resp, sampling), evs) = process_request hh (tt_id t) (tt_start t) (tt_now t) ctxAuth req;
             keepAlive = should_keep_alive req resp;
             stripped = resp\<lparr>rs_header := strip_hop_by_hop_headers (rs_header resp) False\<rparr>
         in (map Effect evs @ [WriteResponse stripped sampling], tt_write_ok t \<and> keepAlive)))"

fun serve_tls ::
    "'l make_bucket \<Rightarrow> 'l bucket_allow \<Rightarrow> handler \<Rightarrow> proxy_auth option \<Rightarrow> string \<Rightarrow> string \<Rightarrow>
     tunnel_turn list \<Rightarrow> 'l ip_rate_limiter option \<Rightarrow> proxy_event list \<times> 'l ip_rate_limiter option" where
  "serve_tls mk allow hh ctxAuth connectHostname clientIP [] rlo = ([], rlo)"
| "serve_tls mk allow hh ctxAuth connectHostname clientIP (t # ts) rlo =
     (let (limited, rlo1) = tunnel_limited mk allow clientIP (tt_start t) rlo in
      if limited then ([WriteResponse too_many_response None], rlo1)
      else (let (evs, continue) = tunnel_turn_step hh ctxAuth connectHostname t in
        if continue
        then (let (evs', rlo2) = serve_tls mk allow hh ctxAuth connectHostname clientIP ts rlo1 in (evs @ evs', rlo2))
        else (evs, rlo1)))"

subsection \<open>CONNECT\<close>

text \<open>
  What the outside decides while a tunnel is set up: the certificate of a host, whether the
  writer can be hijacked, and whether hijacking, the 200 reply and the handshake succeed.
\<close>

record connect_env =
  ce_certificate_ok :: "string \<Rightarrow> bool"
  ce_hijackable :: bool
  ce_hijack_ok :: bool
  ce_reply_ok :: bool
  ce_handshake_ok :: bool

datatype connect_outcome =
    ConnectRefused response_writer
  | ConnectDropped
  | ConnectTunnel string "proxy_auth option"

definition tunnel_auth :: "proxy_auth \<Rightarrow> proxy_auth option" where
  "tunnel_auth auth = (if pa_gateway_token auth \<noteq> [] then Some auth else None)"

definition authenticate_challenge :: "response_writer \<Rightarrow> response_writer" where
  "authenticate_challenge w = w_set ''Proxy-Authenticate'' (''Basic realm='' @ [CHR 0x22] @ ''CrabTrap'' @ [CHR 0x22]) w"

definition handle_connect :: "handler \<Rightarrow> connect_env \<Rightarrow> response_writer \<Rightarrow> http_request \<Rightarrow> connect_outcome" where
  "handle_connect hh env w r =
     (case extract_proxy_auth (hdr_get (rq_header r) ''Proxy-Authorization'') of
        Inl _ \<Rightarrow> ConnectRefused (http_error unsupported_scheme_text 407 (authenticate_challenge w))
      | Inr auth \<Rightarrow>
          if (case hd_resolver hh of
                None \<Rightarrow> False
              | Some ur \<Rightarrow> pa_gateway_token auth = [] \<or> ur_user_by_token ur (pa_gateway_token auth) = None)
          then ConnectRefused (http_error auth_required_text 407 (authenticate_challenge w))
          else
            (let hostname = strip_port (rq_host r) in
             if \<not> ce_certificate_ok env hostname then ConnectRefused (http_error ''Failed to get certificate'' 500 w)
             else if \<not> ce_hijackable env then ConnectRefused (http_error ''Hijacking not supported'' 500 w)
             else if \<not> ce_hijack_ok env \<or> \<not> ce_reply_ok env \<or> \<not> ce_handshake_ok env then ConnectDropped
             else ConnectTunnel hostname (tunnel_auth auth)))"

subsection \<open>Plain HTTP\<close>

definition copy_header :: "header \<Rightarrow> header \<Rightarrow> header" where
  "copy_header src dst = fold (\<lambda>(k, vs) h. fold (\<lambda>v h. hdr_add h k v) vs h) src dst"

definition relay_response :: "http_response \<Rightarrow> response_writer \<Rightarrow> response_writer" where
  "relay_response resp w =
     write_body (case rs_body resp of None \<Rightarrow> [] | Some b \<Rightarrow> bs_data b)
       (write_header (rs_status resp) (w\<lparr>rw_header := copy_header (rs_header resp) (rw_header w)\<rparr>))"

text \<open>
  \<open>handleHTTP\<close> and \<open>handleHTTPWebSocket\<close>: the writer afterwards, the
  events, and the upgrade to relay when one was approved.
\<close>

definition handle_http_websocket ::
    "handler \<Rightarrow> bool \<Rightarrow> bool \<Rightarrow> string \<Rightarrow> time \<Rightarrow> time \<Rightarrow> response_writer \<Rightarrow> http_request \<Rightarrow>
     response_writer \<times> proxy_event list" where
  "handle_http_websocket hh hijackable hijackOk requestID startTime now w r =
     (let (res, evs, r1) = process_upgrade_approval hh requestID startTime now None r in
      case ar_deny_resp res of
        Some resp \<Rightarrow> (relay_response resp w, map Effect evs)
      | None \<Rightarrow>
          if \<not> hijackable then (http_error ''Hijacking not supported'' 500 w, map Effect evs)
          else if \<not> hijackOk then (w, map Effect evs)
          else (w, map Effect evs @ [UpgradeApproved r1 res]))"

definition handle_http ::
    "handler \<Rightarrow> bool \<Rightarrow> bool \<Rightarrow> string \<Rightarrow> time \<Rightarrow> time \<Rightarrow> response_writer \<Rightarrow> http_request \<Rightarrow>
     response_writer \<times> proxy_event list" where
  "handle_http hh hijackable hijackOk requestID startTime now w r =
     (case extract_proxy_auth (hdr_get (rq_header r) ''Proxy-Authorization'') of
        Inl _ \<Rightarrow> (http_error unsupported_scheme_text 407 (authenticate_challenge w), [])
      | Inr _ \<Rightarrow>
          if is_websocket_upgrade r
          then handle_http_websocket hh hijackable hijackOk requestID startTime now w r
          else
            (let ((resp, sampling), evs) = process_request hh requestID startTime now None r;
                 stripped = resp\<lparr>rs_header := strip_hop_by_hop_headers (rs_header resp) False\<rparr>
             in (relay_response stripped w, map Effect evs)))"

subsection \<open>The server's entry point\<close>

datatype served = Served response_writer "proxy_event list" | ServedConnect connect_outcome

definition serve_http ::
    "'l make_bucket \<Rightarrow> 'l bucket_allow \<Rightarrow> handler \<Rightarrow> connect_env \<Rightarrow> string \<Rightarrow> time \<Rightarrow> time \<Rightarrow>
     'l ip_rate_limiter option \<Rightarrow> response_writer \<Rightarrow> http_request \<Rightarrow> served \<times> 'l ip_rate_limiter option" where
  "serve_http mk allow hh env requestID startTime now rlo w r =
     (let (limited, rlo1, w1, hits) = rate_limit_middleware mk allow startTime rlo w r in
      if limited then (Served w1 (replicate hits RateLimitHit), rlo1)
      else if rq_method r = ''CONNECT'' then (ServedConnect (handle_connect hh env w1 r), rlo1)
      else (let (w2, evs) = handle_http hh (ce_hijackable env) (ce_hijack_ok env) requestID startTime now w1 r
            in (Served w2 evs, rlo1)))"

end
