(* ===== verification/Tunnel_Props.thy ===== *)
theory Tunnel_Props imports Proxy_Tunnel Proxy_Props begin

text \<open>
  Properties of tunnels and of plain requests: the tunnel is pinned to the host and the
  user of its CONNECT, a refusal ends it, and what a client without credentials is told.
\<close>

subsection \<open>Events of a tunnel\<close>

definition host_of_tunnel :: "string \<Rightarrow> http_request \<Rightarrow> bool" where
  "host_of_tunnel connectHostname q \<longleftrightarrow>
     equal_fold (strip_port (rq_url_host q)) connectHostname \<and> rq_url_scheme q = ''https'' \<and>
     rq_url q = ''https://'' @ rq_url_user q @ rq_url_host q @ rq_url_tail q"

text \<open>A property that every turn has, whatever the rate limiter, holds of the whole tunnel.\<close>

lemma serve_tls_all:
  assumes "P (WriteResponse too_many_response None)"
    and "\<And>t. t \<in> set ts \<Longrightarrow> list_all P (fst (tunnel_turn_step hh ctxAuth h t))"
  shows "list_all P (fst (serve_tls mk allow hh ctxAuth h ip ts rlo))"
  using assms
proof (induction ts arbitrary: rlo)
  case (Cons t ts)
  then show ?case by (auto simp: Let_def case_prod_beta)
qed simp

lemma fix_tunnel_url_simps [simp]:
  "rq_method (fix_tunnel_url r) = rq_method r" "rq_header (fix_tunnel_url r) = rq_header r"
  "rq_url_host (fix_tunnel_url r) = rq_host r" "rq_host (fix_tunnel_url r) = rq_host r" "rq_url_scheme (fix_tunnel_url r) = ''https''"
  "rq_url (fix_tunnel_url r) = ''https://'' @ rq_url_user r @ rq_host r @ rq_url_tail r"
  "rq_url_user (fix_tunnel_url r) = rq_url_user r" "rq_url_tail (fix_tunnel_url r) = rq_url_tail r"
  by (simp_all add: fix_tunnel_url_def)

lemma buffer_request_body_url:
  "buffer_request_body r = (body, truncated, r1) \<Longrightarrow>
     rq_url_scheme r1 = rq_url_scheme r \<and> rq_url_user r1 = rq_url_user r \<and> rq_url_tail r1 = rq_url_tail r"
  by (auto simp: buffer_request_body_def Let_def split: option.splits if_splits prod.splits)

lemma forwarded_url:
  assumes "UpstreamRequest q \<in> set (snd (process_request hh rid start now ctxAuth r))"
  shows "rq_url q = rq_url r \<and> rq_url_host q = rq_url_host r \<and> rq_url_scheme q = rq_url_scheme r \<and>
    rq_url_user q = rq_url_user r \<and> rq_url_tail q = rq_url_tail r"
proof -
  from forwarded_request [OF assms] obtain uid policy body truncated r1 d b0 where
    bb: "buffer_request_body r = (body, truncated, r1)"
    and q: "q = build_proxy_request (strip_proxy_authorization r1) body truncated" .
  show ?thesis using buffer_request_body_same [OF bb] buffer_request_body_url [OF bb]
    by (simp add: q build_proxy_request_def strip_proxy_authorization_def)
qed

lemma run_approval_no_upstream: "UpstreamRequest q \<notin> set (snd (run_approval hh rid start now uid policy body r))"
proof (rule run_approval_cases [of hh rid start now uid policy body r])
  fix d rid' evs b
  assume "run_approval hh rid start now uid policy body r = (Approved d rid', evs)" "forwarded evs = []"
  then show ?thesis by (simp add: forwarded_iff)
next
  fix d e evs
  assume "run_approval hh rid start now uid policy body r = (Refused d (empty_response 403), evs)" "forwarded evs = []"
  then show ?thesis by (simp add: forwarded_iff)
qed

lemma upgrade_approval_props:
  assumes "process_upgrade_approval hh rid start now ctxAuth r = (res, evs, r1)"
  shows "UpstreamRequest q \<notin> set evs" and "rq_url r1 = rq_url r \<and> rq_url_host r1 = rq_url_host r \<and>
    rq_url_scheme r1 = rq_url_scheme r \<and> rq_url_user r1 = rq_url_user r \<and> rq_url_tail r1 = rq_url_tail r"
proof -
  obtain body truncated r2 where b: "buffer_request_body (strip_proxy_authorization r) = (body, truncated, r2)"
    by (cases "buffer_request_body (strip_proxy_authorization r)")
  note s = buffer_request_body_same [OF b] buffer_request_body_url [OF b]
  have no: "UpstreamRequest q \<notin> set evs'"
    if "run_approval hh rid start now uid policy body r2 = (out, evs')" for uid policy out evs'
    using run_approval_no_upstream [of q hh rid start now uid policy body r2] that by simp
  show "UpstreamRequest q \<notin> set evs"
    using assms no b
    by (auto simp: process_upgrade_approval_def Let_def split: sum.splits prod.splits option.splits approval_outcome.splits)
  show "rq_url r1 = rq_url r \<and> rq_url_host r1 = rq_url_host r \<and>
    rq_url_scheme r1 = rq_url_scheme r \<and> rq_url_user r1 = rq_url_user r \<and> rq_url_tail r1 = rq_url_tail r"
    using assms s b
    by (auto simp: process_upgrade_approval_def Let_def strip_proxy_authorization_def
        split: sum.splits prod.splits option.splits approval_outcome.splits)
qed

lemma tunnel_turn_pinned:
  assumes "h \<noteq> []"
  shows "list_all (\<lambda>e. case e of Effect (UpstreamRequest q) \<Rightarrow> host_of_tunnel h q
      | UpgradeApproved q res \<Rightarrow> host_of_tunnel h q | _ \<Rightarrow> True) (fst (tunnel_turn_step hh ctxAuth h t))" (is "list_all ?P _")
proof (cases "host_mismatch h (fix_tunnel_url (tt_req t))")
  case True
  then show ?thesis by (simp add: tunnel_turn_step_def Let_def)
next
  case False
  let ?r = "fix_tunnel_url (tt_req t)"
  have m: "equal_fold (strip_port (rq_host (tt_req t))) h" using False assms by (simp add: host_mismatch_def)
  obtain res evs r1 where u: "process_upgrade_approval hh (tt_id t) (tt_start t) (tt_now t) ctxAuth ?r = (res, evs, r1)"
    by (cases "process_upgrade_approval hh (tt_id t) (tt_start t) (tt_now t) ctxAuth ?r")
  obtain out sampling evs' where p: "process_request hh (tt_id t) (tt_start t) (tt_now t) ctxAuth ?r = ((out, sampling), evs')"
    by (cases "process_request hh (tt_id t) (tt_start t) (tt_now t) ctxAuth ?r") auto
  have "list_all ?P (map Effect evs)"
    using upgrade_approval_props(1) [OF u] by (auto simp: list_all_iff split: effect.split)
  moreover have "host_of_tunnel h r1"
    using upgrade_approval_props(2) [OF u] m by (simp add: host_of_tunnel_def)
  moreover have "list_all ?P (map Effect evs')"
    using forwarded_url [of _ hh "tt_id t" "tt_start t" "tt_now t" ctxAuth ?r] m
    by (auto simp: list_all_iff p host_of_tunnel_def split: effect.split)
  ultimately show ?thesis
    by (auto simp: tunnel_turn_step_def Let_def u p split: option.split)
qed

text \<open>
  C4: A tunnel is pinned to its CONNECT. Whatever requests the client sends in it,
  every request that goes upstream and every WebSocket upgrade that is approved is an https
  request whose URL names, up to letter case and the port, the host of the CONNECT, for which
  the certificate was issued.
\<close>

theorem tunnel_pinned_to_connect_host:
  assumes "handle_connect hh env w r = ConnectTunnel h ctxAuth"
    and "\<And>n. ce_certificate_ok env n \<Longrightarrow> n \<noteq> []"
    and "e \<in> set (fst (serve_tls mk allow hh ctxAuth h ip ts rlo))"
    and "e = Effect (UpstreamRequest q) \<or> e = UpgradeApproved q res"
  shows "host_of_tunnel h q \<and> h = strip_port (rq_host r) \<and> ce_certificate_ok env h"
proof -
  have c: "h = strip_port (rq_host r)" "ce_certificate_ok env h"
    using assms(1) by (auto simp: handle_connect_def Let_def split: sum.splits if_splits)
  then have "h \<noteq> []" using assms(2) by blast
  from tunnel_turn_pinned [OF this]
  have "list_all (\<lambda>e. case e of Effect (UpstreamRequest q) \<Rightarrow> host_of_tunnel h q
      | UpgradeApproved q res \<Rightarrow> host_of_tunnel h q | _ \<Rightarrow> True) (fst (serve_tls mk allow hh ctxAuth h ip ts rlo))"
    by (intro serve_tls_all) simp_all
  then show ?thesis using assms(3,4) c by (auto simp: list_all_iff)
qed

definition example_connect :: http_request where
  "example_connect = example_request\<lparr>rq_method := ''CONNECT'', rq_host := ''x.com:443'',
     rq_header := [(''Proxy-Authorization'', [''Basic '' @ b64_encode True ''gat_a:''])], rq_body := None\<rparr>"

definition example_env :: connect_env where
  "example_env = \<lparr>ce_certificate_ok = (\<lambda>n. n = ''x.com''), ce_hijackable = True, ce_hijack_ok = True,
     ce_reply_ok = True, ce_handshake_ok = True\<rparr>"

definition example_turn :: tunnel_turn where
  "example_turn = \<lparr>tt_req = example_request\<lparr>rq_host := ''X.com'', rq_url_tail := ''/a''\<rparr>, tt_id = ''r1'', tt_start = 0,
     tt_now = 0, tt_write_ok = True\<rparr>"

lemma example_connect_tunnel:
  "handle_connect example_handler example_env new_writer example_connect = ConnectTunnel ''x.com'' (Some example_auth)"
proof -
  have h: "hdr_get (rq_header example_connect) ''Proxy-Authorization'' = ''Basic '' @ b64_encode True ''gat_a:''"
    by (simp add: example_connect_def hdr_get_def hdr_values_def)
  have p: "extract_proxy_auth (''Basic '' @ b64_encode True ''gat_a:'') = Inr example_auth"
    unfolding example_auth_def by code_simp
  have n: "strip_port ''x.com:443'' = ''x.com''" by code_simp
  show ?thesis unfolding handle_connect_def h p
    by (simp add: example_handler_def example_resolver_def example_auth_def example_connect_def n example_env_def
        tunnel_auth_def Let_def)
qed

lemma example_turn_plain:
  "set (fst (tunnel_turn_step example_handler (Some example_auth) ''x.com'' example_turn)) =
     Effect ` set (snd (process_request example_handler ''r1'' 0 0 (Some example_auth) (fix_tunnel_url (tt_req example_turn)))) \<union>
     {WriteResponse ((fst (fst (process_request example_handler ''r1'' 0 0 (Some example_auth) (fix_tunnel_url (tt_req example_turn)))))
       \<lparr>rs_header := strip_hop_by_hop_headers (rs_header (fst (fst (process_request example_handler ''r1'' 0 0 (Some example_auth)
          (fix_tunnel_url (tt_req example_turn)))))) False\<rparr>)
       (snd (fst (process_request example_handler ''r1'' 0 0 (Some example_auth) (fix_tunnel_url (tt_req example_turn)))))}"
proof -
  let ?r = "fix_tunnel_url (tt_req example_turn)"
  have m: "\<not> host_mismatch ''x.com'' ?r"
  proof -
    have "equal_fold (strip_port ''X.com'') ''x.com''" by code_simp
    then show ?thesis by (simp add: host_mismatch_def example_turn_def)
  qed
  have "\<not> equal_fold [] ''websocket''" by code_simp
  then have w: "\<not> is_websocket_upgrade ?r"
    by (simp add: is_websocket_upgrade_def example_turn_def example_request_def hdr_get_def hdr_values_def)
  have t: "tt_id example_turn = ''r1''" "tt_start example_turn = 0" "tt_now example_turn = 0" by (simp_all add: example_turn_def)
  show ?thesis by (auto simp: tunnel_turn_step_def Let_def m w t case_prod_beta)
qed

lemma example_turn_step:
  "\<exists>q. Effect (UpstreamRequest q) \<in> set (fst (tunnel_turn_step example_handler (Some example_auth) ''x.com'' example_turn))"
proof -
  let ?r = "fix_tunnel_url (tt_req example_turn)"
  obtain body truncated r1 where b: "buffer_request_body ?r = (body, truncated, r1)" by (cases "buffer_request_body ?r")
  from example_forwarded [OF b, of "''r1''" 0 0] obtain q where
    "UpstreamRequest q \<in> set (snd (process_request example_handler ''r1'' 0 0 (Some example_auth) ?r))" by blast
  then show ?thesis unfolding example_turn_plain by blast
qed

lemma example_tunnel:
  "\<exists>q. Effect (UpstreamRequest q) \<in> set (fst (serve_tls mk allow example_handler (Some example_auth) ''x.com'' []
     [example_turn] None))"
  using example_turn_step by (auto simp: tunnel_limited_def Let_def case_prod_beta)

theorem tunnel_pinned_to_connect_host_witness:
  "\<exists>q. Effect (UpstreamRequest q) \<in> set (fst (serve_tls (\<lambda>r b. nat b) counting_bucket example_handler (Some example_auth)
      ''x.com'' [] [example_turn] None)) \<and> host_of_tunnel ''x.com'' q"
proof -
  from example_tunnel obtain q where q: "Effect (UpstreamRequest q) \<in> set (fst (serve_tls (\<lambda>r b. nat b) counting_bucket
      example_handler (Some example_auth) ''x.com'' [] [example_turn] None))" by blast
  have "\<And>n. ce_certificate_ok example_env n \<Longrightarrow> n \<noteq> []" by (simp add: example_env_def)
  from tunnel_pinned_to_connect_host [OF example_connect_tunnel this q] q show ?thesis by blast
qed

subsection \<open>Refusals end a tunnel\<close>

fun quiet_after :: "('e \<Rightarrow> bool) \<Rightarrow> ('e \<Rightarrow> bool) \<Rightarrow> 'e list \<Rightarrow> bool" where
  "quiet_after P Q [] = True"
| "quiet_after P Q (x # xs) = ((P x \<longrightarrow> (\<forall>y\<in>set xs. \<not> Q y)) \<and> quiet_after P Q xs)"

lemma quiet_after_append:
  "quiet_after P Q (xs @ ys) \<longleftrightarrow>
     quiet_after P Q xs \<and> quiet_after P Q ys \<and> ((\<exists>x\<in>set xs. P x) \<longrightarrow> (\<forall>y\<in>set ys. \<not> Q y))"
  by (induction xs) auto

lemma quiet_after_none: "(\<forall>y\<in>set xs. \<not> Q y) \<Longrightarrow> quiet_after P Q xs"
  by (induction xs) auto

lemma quiet_after_no_start: "(\<forall>y\<in>set xs. \<not> P y) \<Longrightarrow> quiet_after P Q xs"
  by (induction xs) auto

fun not_approved :: "proxy_event \<Rightarrow> bool" where
  "not_approved (Effect (AuditLog a)) = (ae_decision a \<noteq> ''approved'')"
| "not_approved _ = False"

fun goes_upstream :: "proxy_event \<Rightarrow> bool" where
  "goes_upstream (Effect (UpstreamRequest q)) = True"
| "goes_upstream (UpgradeApproved q res) = True"
| "goes_upstream _ = False"

lemma audit_logs_iff: "AuditLog a \<in> set evs \<longleftrightarrow> a \<in> set (audit_logs evs)"
  by (auto simp: audit_logs_def split: effect.splits)

lemma close_value: "hdr_values h ''Connection'' = [''close''] \<Longrightarrow> connection_has_close h"
proof -
  have "list_ex (\<lambda>token. equal_fold (trim_space token) ''close'') (split_byte ''close'' (CHR '',''))" by code_simp
  then show "hdr_values h ''Connection'' = [''close''] \<Longrightarrow> connection_has_close h"
    by (simp add: connection_has_close_def)
qed

lemma synthetic_close:
  "connection_has_close (rs_header (error_response n ct b))" "connection_has_close (rs_header (empty_response n))"
  by (rule close_value, simp add: error_response_def synthetic_response_def empty_response_def close_header_def hdr.vals_upd)+

lemma refused_request_closes:
  assumes "process_request hh rid start now ctxAuth r = ((resp, sampling), evs)"
    and "AuditLog a \<in> set evs" and "ae_decision a \<noteq> ''approved''"
  shows "connection_has_close (rs_header resp) \<and> forwarded evs = []"
proof (cases "authenticated hh ctxAuth r")
  case None
  then show ?thesis using process_request_unauthenticated [OF None, of rid start now] assms by auto
next
  case (Some up)
  obtain uid policy where up: "up = (uid, policy)" by (cases up)
  obtain body truncated r1 where b: "buffer_request_body r = (body, truncated, r1)" by (cases "buffer_request_body r")
  let ?r2 = "strip_proxy_authorization r1"
  note pr = process_request_authenticated [OF Some [unfolded up] b, of rid start now]
  have a: "a \<in> set (audit_logs evs)" using assms(2) audit_logs_iff by blast
  show ?thesis
  proof (rule run_approval_cases [of hh rid start now uid policy body ?r2])
    fix d rid' evs1 bo
    assume ap: "run_approval hh rid start now uid policy body ?r2 = (Approved d rid', evs1)"
      "audit_logs evs1 = []" "forwarded evs1 = []"
    obtain out evs2 where f: "forward_request hh rid start now uid ?r2 body truncated d rid' = (out, evs2)"
      by (cases "forward_request hh rid start now uid ?r2 body truncated d rid'")
    have e: "(resp, sampling) = out" "evs = evs1 @ evs2" using assms(1) by (simp_all add: pr ap f)
    have no: "forwarded evs2 = []" using forward_request_effects [OF f] a e ap assms(3) by auto
    have "connection_has_close (rs_header (fst out))"
    proof (cases "hd_new_request hh (rq_method ?r2) (rq_url ?r2)")
      case (Some x)
      then show ?thesis using f by (auto simp: forward_request_def Let_def synthetic_close)
    next
      case None
      then show ?thesis using f no
        by (auto simp: forward_request_def Let_def case_prod_beta split: sum.splits)
    qed
    then show ?thesis using e no ap by (metis effects_append(2) append_Nil fst_conv)
  next
    fix d e evs1
    assume "run_approval hh rid start now uid policy body ?r2 = (Refused d (empty_response 403), evs1)" "forwarded evs1 = []"
    then show ?thesis using assms(1) by (auto simp: pr synthetic_close)
  qed
qed

lemma upgrade_approved_not_audited:
  assumes "process_upgrade_approval hh rid start now ctxAuth r = (res, evs, r1)" and "ar_deny_resp res = None"
  shows "audit_logs evs = []"
proof -
  obtain body truncated r2 where b: "buffer_request_body (strip_proxy_authorization r) = (body, truncated, r2)"
    by (cases "buffer_request_body (strip_proxy_authorization r)")
  have ap: "audit_logs evs' = []"
    if a: "run_approval hh rid start now uid policy body r2 = (Approved d rid', evs')" for uid policy d rid' evs'
  proof (rule run_approval_cases [of hh rid start now uid policy body r2])
    fix d1 rid1 evs1 b1
    assume "run_approval hh rid start now uid policy body r2 = (Approved d1 rid1, evs1)" "audit_logs evs1 = []"
    then show ?thesis using a by simp
  next
    fix d1 e evs1
    assume "run_approval hh rid start now uid policy body r2 = (Refused d1 (empty_response 403), evs1)"
    then show ?thesis using a by simp
  qed
  then show ?thesis using assms b
    by (auto simp: process_upgrade_approval_def Let_def split: sum.splits prod.splits option.splits approval_outcome.splits)
qed

lemma tunnel_turn_refused:
  assumes "tunnel_turn_step hh ctxAuth h t = (evs, continue)" and "x \<in> set evs" "not_approved x"
  shows "\<not> continue \<and> (\<forall>y\<in>set evs. \<not> goes_upstream y)"
proof -
  let ?r = "fix_tunnel_url (tt_req t)"
  obtain res uevs r1 where u: "process_upgrade_approval hh (tt_id t) (tt_start t) (tt_now t) ctxAuth ?r = (res, uevs, r1)"
    by (cases "process_upgrade_approval hh (tt_id t) (tt_start t) (tt_now t) ctxAuth ?r")
  obtain out sampling pevs where p: "process_request hh (tt_id t) (tt_start t) (tt_now t) ctxAuth ?r = ((out, sampling), pevs)"
    by (cases "process_request hh (tt_id t) (tt_start t) (tt_now t) ctxAuth ?r") auto
  obtain a where a: "x = Effect (AuditLog a)" "ae_decision a \<noteq> ''approved''"
    using assms(3) by (cases x rule: not_approved.cases) auto
  let ?ws = "is_websocket_upgrade ?r"
  have in_evs: "AuditLog a \<in> set (if ?ws then uevs else pevs)"
    using assms(1,2) by (auto simp: tunnel_turn_step_def Let_def u p a split: if_splits option.splits)
  have wr: "\<not> host_mismatch h ?r \<and> \<not> (ctxAuth = None \<and> (case extract_proxy_auth (hdr_get (rq_header ?r) ''Proxy-Authorization'') of Inl _ \<Rightarrow> True | Inr _ \<Rightarrow> False))"
    using assms(1,2) by (auto simp: tunnel_turn_step_def Let_def a split: if_splits)
  have step: "(evs, continue) =
     (if ?ws then (map Effect uevs @ (case ar_deny_resp res of Some resp \<Rightarrow> [WriteResponse resp None]
        | None \<Rightarrow> [UpgradeApproved r1 res]), False)
      else (map Effect pevs @ [WriteResponse (out\<lparr>rs_header := strip_hop_by_hop_headers (rs_header out) False\<rparr>) sampling],
        tt_write_ok t \<and> should_keep_alive ?r out))"
    unfolding assms(1) [symmetric] tunnel_turn_step_def Let_def u p
    by (simp only: wr if_False prod.case not_False_eq_True)
  show ?thesis
  proof (cases ?ws)
    case True
    have "ar_deny_resp res \<noteq> None"
      using upgrade_approved_not_audited [OF u] in_evs True audit_logs_iff by fastforce
    moreover have "\<not> goes_upstream (Effect y)" if "y \<in> set uevs" for y
      using upgrade_approval_props(1) [OF u] that by (cases y) auto
    ultimately show ?thesis using step True by auto
  next
    case False
    then have pr: "connection_has_close (rs_header out)" "forwarded pevs = []"
      using refused_request_closes [OF p _ a(2)] in_evs by auto
    have "\<not> goes_upstream (Effect y)" if "y \<in> set pevs" for y
      using pr(2) that forwarded_iff by (cases y) fastforce+
    then show ?thesis using step False pr(1) by (auto simp: should_keep_alive_def)
  qed
qed

text \<open>
  A refusal ends the tunnel. Once a request of a tunnel has been audited as
  anything but approved, nothing more goes upstream on that connection: no request, no
  upgrade.
\<close>

theorem refusal_ends_tunnel:
  "quiet_after not_approved goes_upstream (fst (serve_tls mk allow hh ctxAuth h ip ts rlo))"
proof (induction ts arbitrary: rlo)
  case (Cons t ts)
  obtain evs continue where t: "tunnel_turn_step hh ctxAuth h t = (evs, continue)" by (cases "tunnel_turn_step hh ctxAuth h t")
  have q: "quiet_after not_approved goes_upstream evs"
  proof (cases "\<exists>x\<in>set evs. not_approved x")
    case True
    then show ?thesis using tunnel_turn_refused [OF t] by (auto intro: quiet_after_none)
  next
    case False
    then show ?thesis by (auto intro: quiet_after_no_start)
  qed
  show ?case
    using Cons q tunnel_turn_refused [OF t]
    by (auto simp: Let_def case_prod_beta t quiet_after_append)
qed simp

subsection \<open>One identity per tunnel\<close>

lemma process_request_user:
  assumes "AuditLog a \<in> set (snd (process_request hh rid start now ctxAuth r))"
  shows "\<exists>policy. authenticated hh ctxAuth r = Some (ae_user_id a, policy)"
proof (cases "authenticated hh ctxAuth r")
  case None
  then show ?thesis using process_request_unauthenticated [OF None, of rid start now] assms by auto
next
  case (Some up)
  obtain uid policy where up: "up = (uid, policy)" by (cases up)
  obtain body truncated r1 where b: "buffer_request_body r = (body, truncated, r1)" by (cases "buffer_request_body r")
  let ?r2 = "strip_proxy_authorization r1"
  note pr = process_request_authenticated [OF Some [unfolded up] b, of rid start now]
  have a: "a \<in> set (audit_logs (snd (process_request hh rid start now ctxAuth r)))" using assms audit_logs_iff by blast
  have "ae_user_id a = uid"
  proof (rule run_approval_cases [of hh rid start now uid policy body ?r2])
    fix d rid' evs bo
    assume ap: "run_approval hh rid start now uid policy body ?r2 = (Approved d rid', evs)" "audit_logs evs = []"
    obtain out evs' where f: "forward_request hh rid start now uid ?r2 body truncated d rid' = (out, evs')"
      by (cases "forward_request hh rid start now uid ?r2 body truncated d rid'")
    from forward_request_effects [OF f] a show ?thesis by (auto simp: pr ap f)
  next
    fix d e evs
    assume "run_approval hh rid start now uid policy body ?r2 = (Refused d (empty_response 403), evs)"
      "audit_logs evs = [e]" "ae_user_id e = uid"
    then show ?thesis using a by (simp add: pr)
  qed
  then show ?thesis using Some up by simp
qed

lemma upgrade_approval_user:
  assumes "process_upgrade_approval hh rid start now ctxAuth r = (res, evs, r1)" and "AuditLog a \<in> set evs"
  shows "\<exists>policy. authenticated hh ctxAuth r = Some (ae_user_id a, policy)"
proof -
  obtain body truncated r2 where b: "buffer_request_body (strip_proxy_authorization r) = (body, truncated, r2)"
    by (cases "buffer_request_body (strip_proxy_authorization r)")
  have us: "ae_user_id a = uid"
    if r: "run_approval hh rid start now uid policy body r2 = (out, evs)" for uid policy out
  proof (rule run_approval_cases [of hh rid start now uid policy body r2])
    fix d rid' evs' bo
    assume "run_approval hh rid start now uid policy body r2 = (Approved d rid', evs')" "audit_logs evs' = []"
    then show ?thesis using r assms(2) audit_logs_iff by fastforce
  next
    fix d e evs'
    assume "run_approval hh rid start now uid policy body r2 = (Refused d (empty_response 403), evs')"
      "audit_logs evs' = [e]" "ae_user_id e = uid"
    then show ?thesis using r assms(2) audit_logs_iff by fastforce
  qed
  obtain auth where auth: "resolve_auth ctxAuth r = Inr auth"
    using assms by (cases "resolve_auth ctxAuth r") (auto simp: process_upgrade_approval_def Let_def)
  obtain uid policy where i: "identify_user hh auth = (uid, policy)" by (cases "identify_user hh auth")
  have g: "auth_gate hh auth uid = None"
    using assms auth i by (cases "auth_gate hh auth uid") (auto simp: process_upgrade_approval_def Let_def)
  have "\<exists>out. run_approval hh rid start now uid policy body r2 = (out, evs)"
    using assms(1) auth i g b
    by (auto simp: process_upgrade_approval_def Let_def split: prod.splits approval_outcome.splits)
  with us have "ae_user_id a = uid" by blast
  then show ?thesis using auth i g by (simp add: authenticated_def Let_def)
qed

text \<open>
  A tunnel has one identity: every audit entry of every request in it carries the
  user whose token the CONNECT presented, whatever credentials the inner requests contain,
  and that token is one the resolver knows.
\<close>

theorem tunnel_has_one_identity:
  assumes "handle_connect hh env w r = ConnectTunnel h ctxAuth" and "hd_resolver hh = Some ur"
    and "Effect (AuditLog a) \<in> set (fst (serve_tls mk allow hh ctxAuth h ip ts rlo))"
  shows "\<exists>auth. extract_proxy_auth (hdr_get (rq_header r) ''Proxy-Authorization'') = Inr auth \<and> ctxAuth = Some auth \<and>
    ur_user_by_token ur (pa_gateway_token auth) = Some (ae_user_id a)"
proof -
  obtain auth where auth: "extract_proxy_auth (hdr_get (rq_header r) ''Proxy-Authorization'') = Inr auth" "ctxAuth = Some auth"
    "ur_user_by_token ur (pa_gateway_token auth) \<noteq> None"
    using assms(1,2) by (auto simp: handle_connect_def Let_def tunnel_auth_def split: sum.splits if_splits)
  have user: "ur_user_by_token ur (pa_gateway_token auth) = Some u"
    if "authenticated hh ctxAuth q = Some (u, policy)" for u policy q
    using that auth assms(2)
    by (auto simp: authenticated_def resolve_auth_def identify_user_def auth_gate_def Let_def split: if_splits option.splits)
  have "list_all (\<lambda>e. case e of Effect (AuditLog a) \<Rightarrow> ur_user_by_token ur (pa_gateway_token auth) = Some (ae_user_id a)
      | _ \<Rightarrow> True) (fst (tunnel_turn_step hh ctxAuth h t))" for t
  proof -
    let ?r = "fix_tunnel_url (tt_req t)"
    obtain res uevs r1 where u: "process_upgrade_approval hh (tt_id t) (tt_start t) (tt_now t) ctxAuth ?r = (res, uevs, r1)"
      by (cases "process_upgrade_approval hh (tt_id t) (tt_start t) (tt_now t) ctxAuth ?r")
    obtain out sampling pevs where p: "process_request hh (tt_id t) (tt_start t) (tt_now t) ctxAuth ?r = ((out, sampling), pevs)"
      by (cases "process_request hh (tt_id t) (tt_start t) (tt_now t) ctxAuth ?r") auto
    show ?thesis
      using upgrade_approval_user [OF u] process_request_user [of _ hh "tt_id t" "tt_start t" "tt_now t" ctxAuth ?r] user p
      by (fastforce simp: tunnel_turn_step_def Let_def u list_all_iff split: effect.split option.split)
  qed
  then have "list_all (\<lambda>e. case e of Effect (AuditLog a) \<Rightarrow> ur_user_by_token ur (pa_gateway_token auth) = Some (ae_user_id a)
      | _ \<Rightarrow> True) (fst (serve_tls mk allow hh ctxAuth h ip ts rlo))"
    by (intro serve_tls_all) simp_all
  then show ?thesis using assms(3) auth by (auto simp: list_all_iff)
qed

lemma example_audited:
  "\<exists>a. AuditLog a \<in> set (snd (process_request example_handler rid start now (Some example_auth) r))"
proof -
  obtain body truncated r1 where b: "buffer_request_body r = (body, truncated, r1)" by (cases "buffer_request_body r")
  obtain d rid' evs where a: "run_approval example_handler rid start now ''u1'' (Some example_user_policy) body
      (strip_proxy_authorization r1) = (Approved d rid', evs)" using example_approved by blast
  obtain out evs' where f: "forward_request example_handler rid start now ''u1'' (strip_proxy_authorization r1) body truncated d rid' = (out, evs')"
    by (cases "forward_request example_handler rid start now ''u1'' (strip_proxy_authorization r1) body truncated d rid'")
  show ?thesis using forward_request_effects [OF f]
    by (auto simp: process_request_authenticated [OF example_authenticated b] a f audit_logs_iff)
qed

theorem tunnel_has_one_identity_witness:
  "\<exists>a. Effect (AuditLog a) \<in> set (fst (serve_tls (\<lambda>r b. nat b) counting_bucket example_handler (Some example_auth)
      ''x.com'' [] [example_turn] None)) \<and> ae_user_id a = ''u1''"
proof -
  let ?r = "fix_tunnel_url (tt_req example_turn)"
  from example_audited obtain a where a: "AuditLog a \<in> set (snd (process_request example_handler ''r1'' 0 0 (Some example_auth) ?r))" by blast
  then have a: "Effect (AuditLog a) \<in> set (fst (tunnel_turn_step example_handler (Some example_auth) ''x.com'' example_turn))"
    unfolding example_turn_plain by auto
  then have a: "Effect (AuditLog a) \<in> set (fst (serve_tls (\<lambda>r b. nat b) counting_bucket example_handler
      (Some example_auth) ''x.com'' [] [example_turn] None))"
    by (auto simp: tunnel_limited_def Let_def case_prod_beta)
  have r: "hd_resolver example_handler = Some example_resolver" by (simp add: example_handler_def)
  from tunnel_has_one_identity [OF example_connect_tunnel r a]
  have "ae_user_id a = ''u1''" by (auto simp: example_resolver_def split: if_splits)
  with a show ?thesis by blast
qed

text \<open>
  A plain HTTP request without credentials is answered 407 with no challenge: the
  response \<open>processRequest\<close> builds names the Basic scheme in Proxy-Authenticate, but
  \<open>handleHTTP\<close> strips that header before it copies the response to the client.
\<close>

theorem missing_credentials_challenge_stripped:
  assumes "hd_resolver hh \<noteq> None" and "hdr_get (rq_header r) ''Proxy-Authorization'' = []" and "\<not> is_websocket_upgrade r"
  shows "\<exists>w. handle_http hh hj hok rid start now new_writer r = (w, []) \<and> rw_status w = Some 407 \<and>
    hdr_values (rw_header w) ''Proxy-Authenticate'' = [] \<and>
    hdr_values (rs_header proxy_auth_required_response) ''Proxy-Authenticate'' \<noteq> []"
proof -
  obtain body truncated r1 where b: "buffer_request_body r = (body, truncated, r1)" by (cases "buffer_request_body r")
  have x: "extract_proxy_auth [] = Inr no_auth" by (simp add: extract_proxy_auth_def)
  have "process_request hh rid start now None r = ((proxy_auth_required_response, None), [])"
    using assms buffer_request_body_same [OF b] b
    by (auto simp: process_request_def resolve_auth_def x identify_user_def no_auth_def auth_gate_def)
  moreover have "rw_status (relay_response (proxy_auth_required_response
      \<lparr>rs_header := strip_hop_by_hop_headers (rs_header proxy_auth_required_response) False\<rparr>) new_writer) = Some 407 \<and>
    hdr_values (rw_header (relay_response (proxy_auth_required_response
      \<lparr>rs_header := strip_hop_by_hop_headers (rs_header proxy_auth_required_response) False\<rparr>) new_writer)) ''Proxy-Authenticate'' = [] \<and>
    hdr_values (rs_header proxy_auth_required_response) ''Proxy-Authenticate'' \<noteq> []" by code_simp
  ultimately show ?thesis using assms(2,3) by (simp add: handle_http_def x Let_def)
qed

theorem missing_credentials_challenge_stripped_witness:
  "\<exists>w. handle_http example_handler True True ''r1'' 0 0 new_writer example_request = (w, []) \<and> rw_status w = Some 407 \<and>
     hdr_values (rw_header w) ''Proxy-Authenticate'' = []"
proof -
  have "hd_resolver example_handler \<noteq> None" "hdr_get (rq_header example_request) ''Proxy-Authorization'' = []"
    by (simp_all add: example_handler_def example_request_def hdr_get_def hdr_values_def)
  moreover have "\<not> is_websocket_upgrade example_request" unfolding example_request_def by code_simp
  ultimately show ?thesis using missing_credentials_challenge_stripped [of example_handler example_request] by blast
qed

end
