(* ===== verification/Proxy_Body_Props.thy ===== *)
theory Proxy_Body_Props imports Proxy_Body begin

text \<open>
  Properties of the proxy's bodies: what a streamed response leaves in the audit log, that
  truncation never splits a character, and that stacked encodings are undone in order.
\<close>

subsection \<open>A streamed response\<close>

datatype ra_op = RaRead time string read_end | RaClose time "go_error option"

fun ra_step :: "decoders \<Rightarrow> ra_op \<Rightarrow> response_audit_body \<Rightarrow> response_audit_body \<times> audit_update list" where
  "ra_step dc (RaRead now chunk e) b = ra_read dc now chunk e b"
| "ra_step dc (RaClose now err) b = ra_close dc now err b"

fun ra_run :: "decoders \<Rightarrow> ra_op list \<Rightarrow> response_audit_body \<Rightarrow> response_audit_body \<times> audit_update list" where
  "ra_run dc [] b = (b, [])"
| "ra_run dc (x # xs) b =
     (let (b1, us) = ra_step dc x b; (b2, us') = ra_run dc xs b1 in (b2, us @ us'))"

fun op_chunk :: "ra_op \<Rightarrow> string" where
  "op_chunk (RaRead now chunk e) = chunk"
| "op_chunk (RaClose now err) = []"

fun op_ends :: "ra_op \<Rightarrow> bool" where
  "op_ends (RaRead now chunk e) = (e \<noteq> ReadOk)"
| "op_ends (RaClose now err) = True"

fun op_eof :: "ra_op \<Rightarrow> bool" where
  "op_eof (RaRead now chunk e) = (e = ReadEOF)"
| "op_eof (RaClose now err) = False"

fun op_error :: "ra_op \<Rightarrow> string" where
  "op_error (RaRead now chunk (ReadErr x)) = x"
| "op_error (RaRead now chunk e) = []"
| "op_error (RaClose now (Some x)) = x"
| "op_error (RaClose now None) = []"

fun op_time :: "ra_op \<Rightarrow> time" where
  "op_time (RaRead now chunk e) = now"
| "op_time (RaClose now err) = now"

definition delivered :: "ra_op list \<Rightarrow> string" where
  "delivered xs = concat (map op_chunk xs)"

text \<open>The reader holds exactly the first bytes delivered, up to the limit.\<close>

definition ra_holds :: "string \<Rightarrow> string \<Rightarrow> time \<Rightarrow> response_audit_body \<Rightarrow> bool" where
  "ra_holds d ce start b \<longleftrightarrow>
     ra_sample_limit b = int maxStreamingAuditSampleSize \<and>
     ra_sample b = take maxStreamingAuditSampleSize d \<and>
     ra_truncated b = (maxStreamingAuditSampleSize < length d) \<and>
     ra_content_encoding b = ce \<and> ra_start_time b = start"

lemma capture_locked_holds:
  assumes "ra_holds d ce start b" and "chunk \<noteq> []"
  shows "ra_holds (d @ chunk) ce start (capture_locked chunk b)"
proof -
  have "0 < maxStreamingAuditSampleSize" by (simp add: maxStreamingAuditSampleSize_def)
  moreover have "nat (int m - int k) = m - k" for m k by linarith
  ultimately show ?thesis using assms
    by (cases "length d < maxStreamingAuditSampleSize")
      (auto simp: ra_holds_def capture_locked_def Let_def)
qed

lemma capture_locked_frame [frame]:
  "ra_eof (capture_locked chunk b) = ra_eof b" "ra_read_err (capture_locked chunk b) = ra_read_err b"
  "ra_done (capture_locked chunk b) = ra_done b"
  by (simp_all add: capture_locked_def Let_def)

text \<open>While nothing has ended, the reader is quiet.\<close>

definition ra_fresh :: "string \<Rightarrow> string \<Rightarrow> time \<Rightarrow> response_audit_body \<Rightarrow> bool" where
  "ra_fresh d ce start b \<longleftrightarrow> ra_holds d ce start b \<and> \<not> ra_eof b \<and> ra_read_err b = None \<and> \<not> ra_done b"

definition ra_capture :: "string \<Rightarrow> response_audit_body \<Rightarrow> response_audit_body" where
  "ra_capture chunk b = (if chunk \<noteq> [] then capture_locked chunk b else b)"

lemma ra_capture_fresh: "ra_fresh d ce start b \<Longrightarrow> ra_fresh (d @ chunk) ce start (ra_capture chunk b)"
  using capture_locked_holds [of d ce start b chunk]
  by (auto simp: ra_fresh_def ra_capture_def frame)

lemma ra_step_quiet:
  assumes "\<not> op_ends x" and "ra_fresh d ce start b"
  shows "\<exists>b'. ra_step dc x b = (b', []) \<and> ra_fresh (d @ op_chunk x) ce start b'"
proof (cases x)
  case (RaRead now chunk e)
  then show ?thesis using assms ra_capture_fresh [OF assms(2), of chunk]
    by (simp add: ra_read_def Let_def ra_capture_def)
next
  case (RaClose now err)
  then show ?thesis using assms by simp
qed

lemma ra_run_quiet:
  assumes "list_all (\<lambda>x. \<not> op_ends x) xs" and "ra_fresh d ce start b"
  shows "\<exists>b'. ra_run dc xs b = (b', []) \<and> ra_fresh (d @ delivered xs) ce start b'"
  using assms
proof (induction xs arbitrary: d b)
  case Nil
  then show ?case by (simp add: delivered_def)
next
  case (Cons x xs)
  from ra_step_quiet [of x d ce start b dc] Cons.prems obtain b1
    where b1: "ra_step dc x b = (b1, [])" "ra_fresh (d @ op_chunk x) ce start b1" by auto
  from Cons.IH [OF _ b1(2)] Cons.prems obtain b2
    where "ra_run dc xs b1 = (b2, [])" "ra_fresh ((d @ op_chunk x) @ delivered xs) ce start b2" by auto
  then show ?case using b1(1) by (simp add: delivered_def)
qed

lemma ra_finalize_once: "ra_done (fst (ra_finalize dc now b)) \<and> (ra_done b \<longrightarrow> ra_finalize dc now b = (b, []))"
  by (simp add: ra_finalize_def)

lemma ra_step_done: "ra_done b \<Longrightarrow> \<exists>b'. ra_step dc x b = (b', []) \<and> ra_done b'"
  by (cases x) (auto simp: ra_read_def ra_close_def Let_def ra_finalize_def frame split: read_end.split)

lemma ra_run_done: "ra_done b \<Longrightarrow> snd (ra_run dc xs b) = []"
proof (induction xs arbitrary: b)
  case (Cons x xs)
  from ra_step_done [OF Cons.prems, of dc x] obtain b1 where "ra_step dc x b = (b1, [])" "ra_done b1" by blast
  then show ?case using Cons.IH by (simp add: case_prod_beta)
qed simp

lemma ra_run_append:
  "ra_run dc (xs @ ys) b =
    (let (b1, us) = ra_run dc xs b; (b2, us') = ra_run dc ys b1 in (b2, us @ us'))"
  by (induction xs arbitrary: b) (simp_all add: case_prod_beta Let_def)

lemma ra_step_end:
  assumes "op_ends x" and "ra_fresh d ce start b"
  shows "\<exists>b'. ra_step dc x b = (b', [AuditUpdate
      (response_body_for_audit dc (take maxStreamingAuditSampleSize (d @ op_chunk x)) ce
         (maxStreamingAuditSampleSize < length (d @ op_chunk x)) (\<not> op_eof x))
      (op_error x) ((op_time x - start) div 1000000)]) \<and> ra_done b'"
proof (cases x)
  case (RaRead now chunk e)
  from ra_capture_fresh [OF assms(2), of chunk] show ?thesis using assms(1) RaRead
    by (cases e) (auto simp: ra_read_def Let_def ra_capture_def [symmetric] ra_finalize_def ra_fresh_def ra_holds_def)
next
  case (RaClose now err)
  then show ?thesis using assms
    by (cases err) (auto simp: ra_close_def Let_def ra_finalize_def ra_fresh_def ra_holds_def)
qed

text \<open>
  C9: A streamed response is audited exactly once, whatever the order of the reads
  and closes. The update happens at the first read that ends (in EOF or an error) or the
  first close; it reports the first 256 KiB the client had been given, marked truncated
  exactly when there was more and incomplete exactly when EOF was not reached, with that
  operation's error; and nothing before or after it reports anything.
\<close>

theorem streamed_response_audited_once:
  assumes "list_all (\<lambda>x. \<not> op_ends x) before" and "op_ends x"
  shows "snd (ra_run dc (before @ x # after) (new_response_audit_body ce start)) =
    [AuditUpdate
      (response_body_for_audit dc (take maxStreamingAuditSampleSize (delivered (before @ [x]))) ce
         (maxStreamingAuditSampleSize < length (delivered (before @ [x]))) (\<not> op_eof x))
      (op_error x) ((op_time x - start) div 1000000)]"
proof -
  have new: "ra_fresh [] ce start (new_response_audit_body ce start)"
    by (simp add: ra_fresh_def ra_holds_def new_response_audit_body_def)
  from ra_run_quiet [OF assms(1) new, of dc] obtain b1
    where b1: "ra_run dc before (new_response_audit_body ce start) = (b1, [])"
      "ra_fresh (delivered before) ce start b1" by auto
  from ra_step_end [OF assms(2) b1(2), of dc] obtain b2 us where b2: "ra_step dc x b1 = (b2, us)" "ra_done b2"
    "us = [AuditUpdate
      (response_body_for_audit dc (take maxStreamingAuditSampleSize (delivered before @ op_chunk x)) ce
         (maxStreamingAuditSampleSize < length (delivered before @ op_chunk x)) (\<not> op_eof x))
      (op_error x) ((op_time x - start) div 1000000)]" by auto
  show ?thesis
    using b1(1) b2 ra_run_done [OF b2(2), of dc after]
    by (simp add: ra_run_append case_prod_beta delivered_def)
qed

definition no_decoders :: decoders where
  "no_decoders = \<lparr>dc_gzip = (\<lambda>_. Inl ''gzip: invalid header''), dc_zlib = (\<lambda>_. Inl ''zlib: invalid header''),
     dc_flate = (\<lambda>_. \<lparr>bs_data = [], bs_err = Some ''flate: corrupt input''\<rparr>),
     dc_brotli = (\<lambda>_. \<lparr>bs_data = [], bs_err = Some ''brotli: corrupt input''\<rparr>)\<rparr>"

theorem streamed_response_audited_once_witness:
  "snd (ra_run no_decoders [RaRead 0 ''data: 1'' ReadOk, RaRead 5000000 ''x'' ReadEOF, RaClose 6000000 None]
       (new_response_audit_body [] 0)) = [AuditUpdate ''data: 1x'' [] 5]"
  using streamed_response_audited_once [of "[RaRead 0 ''data: 1'' ReadOk]" "RaRead 5000000 ''x'' ReadEOF"
      no_decoders "[RaClose 6000000 None]" "[]" 0]
  by (simp add: delivered_def maxStreamingAuditSampleSize_def response_body_for_audit_def contains_sub_def)

subsection \<open>Truncation\<close>

lemma rune_cut_le: "rune_cut body n \<le> n"
  by (induction body n rule: rune_cut.induct) auto

lemma rune_cut_start: "rune_cut body n = 0 \<or> rune_start (body ! rune_cut body n)"
  by (induction body n rule: rune_cut.induct) auto

lemma rune_cut_between: "rune_cut body n < i \<Longrightarrow> i \<le> n \<Longrightarrow> \<not> rune_start (body ! i)"
  by (induction body n rule: rune_cut.induct) (auto split: if_splits simp: le_Suc_eq)

text \<open>
  A string in UTF-8, as far as truncation is concerned: runes of at most four bytes, each
  beginning with a byte that is no continuation byte and followed by continuation bytes.
\<close>

fun rune_like :: "string \<Rightarrow> bool" where
  "rune_like [] = False"
| "rune_like (c # cs) = (rune_start c \<and> list_all (\<lambda>x. \<not> rune_start x) cs \<and> length cs \<le> 3)"

lemma concat_position:
  "n < length (concat rs) \<Longrightarrow> \<exists>k. k < length rs \<and> length (concat (take k rs)) \<le> n \<and> n < length (concat (take (Suc k) rs))"
proof (induction rs arbitrary: n)
  case (Cons r rs)
  show ?case
  proof (cases "n < length r")
    case True
    then show ?thesis by (intro exI [of _ 0]) simp
  next
    case False
    then have "n - length r < length (concat rs)" using Cons.prems by simp
    from Cons.IH [OF this] obtain k where "k < length rs" "length (concat (take k rs)) \<le> n - length r"
      "n - length r < length (concat (take (Suc k) rs))" by blast
    then show ?thesis using False by (intro exI [of _ "Suc k"]) (simp add: less_diff_conv2)
  qed
qed simp

lemma rune_boundary:
  assumes "list_all rune_like rs" and "n < length (concat rs)"
  shows "\<exists>k. k < length rs \<and> take (rune_cut (concat rs) n) (concat rs) = concat (take k rs) \<and>
    rune_cut (concat rs) n = length (concat (take k rs)) \<and> length (concat (take k rs)) \<le> n \<and>
    n \<le> length (concat (take k rs)) + 3"
proof -
  from concat_position [OF assms(2)] obtain k where k: "k < length rs"
    "length (concat (take k rs)) \<le> n" "n < length (concat (take (Suc k) rs))" by blast
  let ?p = "length (concat (take k rs))" and ?c = "rune_cut (concat rs) n"
  have split: "concat rs = concat (take k rs) @ rs ! k @ concat (drop (Suc k) rs)"
    using id_take_nth_drop [OF k(1)] by (metis append.assoc concat.simps(2) concat_append append_Cons)
  have "rune_like (rs ! k)" using assms(1) k(1) by (simp add: list_all_length)
  then obtain c cs where r: "rs ! k = c # cs" "rune_start c" "list_all (\<lambda>x. \<not> rune_start x) cs" "length cs \<le> 3"
    by (cases "rs ! k") auto
  have fin: "n < ?p + length (rs ! k)" using k by (simp add: take_Suc_conv_app_nth)
  have inside: "\<not> rune_start (concat rs ! i)" if "?p < i" "i \<le> n" for i
  proof -
    have lt: "i - ?p - 1 < length cs" using that fin r(1) by simp
    moreover have "concat rs ! i = cs ! (i - ?p - 1)"
      using that lt r(1) by (subst split) (simp add: nth_append nth_Cons')
    ultimately show ?thesis using r(3) by (simp add: list_all_length)
  qed
  have start: "rune_start (concat rs ! ?p)" by (subst split) (simp add: nth_append r)
  have "?c = ?p"
  proof (rule ccontr)
    assume "?c \<noteq> ?p"
    then consider "?c < ?p" | "?p < ?c" by linarith
    then show False
    proof cases
      case 1
      then show False using rune_cut_between [of "concat rs" n ?p] k(2) start by blast
    next
      case 2
      then show False using rune_cut_start [of "concat rs" n] inside [OF 2 rune_cut_le] by auto
    qed
  qed
  moreover have "take ?p (concat rs) = concat (take k rs)" by (subst split) simp
  ultimately show ?thesis using k fin r by (intro exI [of _ k]) simp
qed

text \<open>
  An audit copy never splits a character: a body of more than 8192 bytes that is a
  sequence of UTF-8 characters is cut after a whole number of them, at most three bytes
  short of 8192, and the marker states the true total and the number of bytes shown.
\<close>

theorem audit_truncation_keeps_characters:
  assumes "list_all rune_like rs" and "8192 < length (concat rs)"
  shows "\<exists>k. truncate_body_for_audit (concat rs) =
      concat (take k rs) @ [CHR 0x0A] @ ''[truncated: '' @ dec (length (concat rs)) @
        '' bytes total, showing first '' @ dec (length (concat (take k rs))) @ '']'' \<and>
    length (concat (take k rs)) \<le> 8192 \<and> 8189 \<le> length (concat (take k rs))"
proof -
  have m: "maxAuditBodySize = 8192" by (simp add: maxAuditBodySize_def)
  from rune_boundary [OF assms] obtain k where
    "take (rune_cut (concat rs) 8192) (concat rs) = concat (take k rs)"
    "rune_cut (concat rs) 8192 = length (concat (take k rs))" "length (concat (take k rs)) \<le> 8192"
    "8192 \<le> length (concat (take k rs)) + 3" by blast
  then show ?thesis using assms(2)
    by (intro exI [of _ k]) (simp add: truncate_body_for_audit_def m Let_def)
qed

theorem audit_truncation_keeps_characters_witness:
  "\<exists>k. length (concat (take k (replicate 4097 [CHR 0xC3, CHR 0xA9]))) \<le> 8192 \<and>
     8189 \<le> length (concat (take k (replicate 4097 [CHR 0xC3, CHR 0xA9])))"
proof -
  have l: "length (concat (replicate n x)) = n * length x" for n and x :: string by (induction n) simp_all
  have "rune_like [CHR 0xC3, CHR 0xA9]" by code_simp
  then have "list_all rune_like (replicate n [CHR 0xC3, CHR 0xA9])" for n by (induction n) simp_all
  moreover have "8192 < length (concat (replicate 4097 [CHR 0xC3, CHR 0xA9]))" unfolding l by simp
  ultimately show ?thesis
    using audit_truncation_keeps_characters [of "replicate 4097 [CHR 0xC3, CHR 0xA9]"] by blast
qed

subsection \<open>Stacked encodings\<close>

lemma read_layer_bound: "read_layer b = Some d \<Longrightarrow> length d \<le> Suc maxBufferedBodySize"
  using read_limited_length [of "Suc maxBufferedBodySize" b]
  by (auto simp: read_layer_def split: prod.splits option.splits if_splits)

lemma single_layer_bound:
  "decompress_single_layer dc body e = Some d \<Longrightarrow> length d \<le> Suc maxBufferedBodySize"
  using read_layer_bound
  by (auto simp: decompress_single_layer_def Let_def split: if_splits sum.splits option.splits)

lemma decompress_layers_stack:
  assumes "\<And>e b. e \<in> set es \<Longrightarrow> ok b \<Longrightarrow> decompress_single_layer dc (enc e b) e = Some b"
    and "\<And>i. i \<le> length es \<Longrightarrow> ok (fold enc (take i es) x)"
  shows "decompress_layers dc (fold enc es x) (rev es) = Some x"
  using assms
proof (induction es rule: rev_induct)
  case (snoc e es)
  have "ok (fold enc es x)" using snoc.prems(2) [of "length es"] by simp
  then have "decompress_single_layer dc (enc e (fold enc es x)) e = Some (fold enc es x)"
    using snoc.prems(1) by simp
  moreover have "ok (fold enc (take i es) x)" if "i \<le> length es" for i
    using snoc.prems(2) [of i] that by simp
  ultimately show ?case using snoc.IH snoc.prems(1) by simp
qed simp

text \<open>
  Stacked encodings are undone in the right order. If every decoder inverts its
  encoder on bodies that fit the buffer, a body that was encoded with the listed codings,
  first to last, and stays within the buffer at every stage is recovered exactly; the header
  may separate the codings by commas and any spaces.
\<close>

theorem stacked_encodings_undone:
  assumes "encoding_layers header = es" and "es \<noteq> []"
    and "\<And>e b. e \<in> set es \<Longrightarrow> length b \<le> maxBufferedBodySize \<Longrightarrow> decompress_single_layer dc (enc e b) e = Some b"
    and "\<And>i. i \<le> length es \<Longrightarrow> length (fold enc (take i es) x) \<le> maxBufferedBodySize"
  shows "decompress_request_body dc (fold enc es x) header = Some x"
proof -
  have "decompress_layers dc (fold enc es x) (rev es) = Some x"
    by (rule decompress_layers_stack [where ok = "\<lambda>b. length b \<le> maxBufferedBodySize"])
      (use assms(3,4) in auto)
  moreover have "\<not> maxBufferedBodySize < length x" using assms(4) [of 0] by simp
  ultimately show ?thesis using assms(1,2) by (simp add: decompress_request_body_def)
qed

definition tag_decoders :: decoders where
  "tag_decoders = no_decoders
     \<lparr>dc_gzip := (\<lambda>s. if has_prefix s ''g'' then Inr \<lparr>bs_data = drop 1 s, bs_err = None\<rparr> else Inl ''bad''),
      dc_brotli := (\<lambda>s. if has_prefix s ''b'' then \<lparr>bs_data = drop 1 s, bs_err = None\<rparr>
        else \<lparr>bs_data = [], bs_err = Some ''bad''\<rparr>)\<rparr>"

definition tag_encode :: "string \<Rightarrow> string \<Rightarrow> string" where
  "tag_encode e b = (if e = ''br'' then ''b'' else ''g'') @ b"

lemma tag_decoders_invert:
  assumes "e \<in> set [''gzip'', ''br'']"
  shows "length b \<le> maxBufferedBodySize \<Longrightarrow> decompress_single_layer tag_decoders (tag_encode e b) e = Some b"
proof -
  have names: "trim_space (to_lower ''gzip'') = ''gzip''" "trim_space (to_lower ''br'') = ''br''" by code_simp+
  show "length b \<le> maxBufferedBodySize \<Longrightarrow> decompress_single_layer tag_decoders (tag_encode e b) e = Some b"
    using assms names
    by (auto simp: decompress_single_layer_def tag_decoders_def tag_encode_def no_decoders_def read_layer_def
        read_limited_def Let_def)
qed

lemma example_layers: "encoding_layers ''gzip ,br'' = [''gzip'', ''br'']"
  by code_simp

lemma example_decoding: "decompress_request_body tag_decoders (fold tag_encode [''gzip'', ''br''] ''hi'') ''gzip ,br'' = Some ''hi''"
proof -
  have "decompress_single_layer tag_decoders ''bghi'' ''br'' = Some ''ghi''"
    "decompress_single_layer tag_decoders ''ghi'' ''gzip'' = Some ''hi''"
    using tag_decoders_invert [of "''br''" "''ghi''"] tag_decoders_invert [of "''gzip''" "''hi''"]
    by (simp_all add: tag_encode_def maxBufferedBodySize_def)
  then show ?thesis
    by (simp add: decompress_request_body_def example_layers tag_encode_def maxBufferedBodySize_def)
qed

theorem stacked_encodings_undone_witness:
  "decompress_request_body tag_decoders (fold tag_encode [''gzip'', ''br''] ''hi'') ''gzip ,br'' = Some ''hi''"
  by (rule stacked_encodings_undone [OF example_layers _ tag_decoders_invert])
    (auto simp: le_Suc_eq tag_encode_def maxBufferedBodySize_def numeral_2_eq_2)

text \<open>
  A decoded body is bounded and never mixed: whatever the decoders deliver, the
  result of a successful decoding is at most 10 MiB and the truncation note, and an encoding
  the proxy does not know makes the whole decoding fail, so that the judge sees the original
  bytes with their Content-Encoding.
\<close>

theorem decoded_body_bounded:
  assumes "decompress_request_body dc body header = Some d"
  shows "length d \<le> maxBufferedBodySize + 38 \<and> encoding_layers header \<noteq> [] \<and>
    list_all (\<lambda>e. trim_space (to_lower e) \<in> {''gzip'', ''x-gzip'', ''deflate'', ''br''}) (encoding_layers header)"
proof -
  have layer: "trim_space (to_lower e) \<in> {''gzip'', ''x-gzip'', ''deflate'', ''br''}"
    if "decompress_single_layer dc b e = Some c" for b c e
    using that by (auto simp: decompress_single_layer_def Let_def split: if_splits)
  have layers: "list_all (\<lambda>e. trim_space (to_lower e) \<in> {''gzip'', ''x-gzip'', ''deflate'', ''br''}) es"
    if "decompress_layers dc b es = Some c" for b c es
    using that by (induction es arbitrary: b) (auto dest!: layer split: option.splits)
  have "length truncated_body_marker \<le> 38"
    by (simp add: truncated_body_marker_def)
  then show ?thesis using assms layers [of body "rev (encoding_layers header)"]
    by (auto simp: decompress_request_body_def Let_def list_all_rev split: if_splits option.splits)
qed

theorem decoded_body_bounded_witness:
  "decompress_request_body tag_decoders ''bghi'' ''gzip ,br'' = Some ''hi'' \<and>
   length ''hi'' \<le> maxBufferedBodySize + 38"
proof -
  have "fold tag_encode [''gzip'', ''br''] ''hi'' = ''bghi''" by code_simp
  then have d: "decompress_request_body tag_decoders ''bghi'' ''gzip ,br'' = Some ''hi''"
    using example_decoding by simp
  with decoded_body_bounded [OF d] show ?thesis by simp
qed

end
