(* ===== verification/Utf8.thy ===== *)
theory Utf8 imports Go_Strings begin

text \<open>
  UTF-8 as Go's \<open>unicode/utf8\<close> reads it, on bytes: the length of the rune at the head
  of a string, 0 when the bytes there are not valid, and the replacement of invalid bytes by
  U+FFFD that \<open>encoding/json\<close> performs.
\<close>

definition byte_in :: "nat \<Rightarrow> nat \<Rightarrow> char \<Rightarrow> bool" where
  "byte_in lo hi c = (lo \<le> (of_char c :: nat) \<and> (of_char c :: nat) \<le> hi)"

definition cont_byte :: "char \<Rightarrow> bool" where "cont_byte = byte_in 0x80 0xBF"

definition rune_len :: "string \<Rightarrow> nat" where
  "rune_len s =
     (case s of
        [] \<Rightarrow> 0
      | a # t \<Rightarrow>
          if byte_in 0 0x7F a then 1
          else if byte_in 0xC2 0xDF a then (case t of b # _ \<Rightarrow> if cont_byte b then 2 else 0 | _ \<Rightarrow> 0)
          else if byte_in 0xE0 0xEF a then
            (case t of
               b # c # _ \<Rightarrow>
                 if (if byte_in 0xE0 0xE0 a then byte_in 0xA0 0xBF b
                     else if byte_in 0xED 0xED a then byte_in 0x80 0x9F b else cont_byte b) \<and> cont_byte c
                 then 3 else 0
             | _ \<Rightarrow> 0)
          else if byte_in 0xF0 0xF4 a then
            (case t of
               b # c # d # _ \<Rightarrow>
                 if (if byte_in 0xF0 0xF0 a then byte_in 0x90 0xBF b
                     else if byte_in 0xF4 0xF4 a then byte_in 0x80 0x8F b else cont_byte b) \<and>
                   cont_byte c \<and> cont_byte d
                 then 4 else 0
             | _ \<Rightarrow> 0)
          else 0)"

lemma rune_len_bound: "rune_len s \<le> length s"
  by (auto simp: rune_len_def split: list.split)

lemma rune_len_append: "rune_len s \<noteq> 0 \<Longrightarrow> rune_len (s @ t) = rune_len s"
proof -
  assume n: "rune_len s \<noteq> 0"
  have split4: "s = [] \<or> (\<exists>a. s = [a]) \<or> (\<exists>a b. s = [a, b]) \<or> (\<exists>a b c. s = [a, b, c]) \<or> (\<exists>a b c d u. s = a # b # c # d # u)"
    by (metis neq_Nil_conv)
  show ?thesis
    using split4
  proof (elim disjE exE)
    show "rune_len (s @ t) = rune_len s" if "s = []" using that n by (simp add: rune_len_def)
    show "rune_len (s @ t) = rune_len s" if "s = [a]" for a
      using that n by (simp add: rune_len_def split: if_split_asm)
    show "rune_len (s @ t) = rune_len s" if "s = [a, b]" for a b
      using that n by (simp add: rune_len_def split: if_split_asm)
    show "rune_len (s @ t) = rune_len s" if "s = [a, b, c]" for a b c
      using that n by (simp add: rune_len_def split: if_split_asm)
    show "rune_len (s @ t) = rune_len s" if "s = a # b # c # d # u" for a b c d u
      using that by (simp add: rune_len_def)
  qed
qed

lemma rune_len_ascii: "byte_in 0 0x7F c \<Longrightarrow> rune_len (c # s) = 1"
  by (simp add: rune_len_def)

lemma rune_len_one: "rune_len (c # s) = 1 \<Longrightarrow> byte_in 0 0x7F c"
  by (auto simp: rune_len_def split: list.splits if_splits)

definition replacement :: string where "replacement = [CHR 0xEF, CHR 0xBF, CHR 0xBD]"

lemma rune_len_replacement: "rune_len (replacement @ s) = 3"
  by (simp add: replacement_def rune_len_def byte_in_def cont_byte_def)

text \<open>The bytes of the first rune, sanitised, and the rest.\<close>

definition take_rune :: "string \<Rightarrow> string \<times> string" where
  "take_rune s = (if rune_len s = 0 then (replacement, drop 1 s) else (take (rune_len s) s, drop (rune_len s) s))"

lemma take_rune_shorter: "s \<noteq> [] \<Longrightarrow> length (snd (take_rune s)) < length s"
  using rune_len_bound [of s] by (auto simp: take_rune_def)

function to_valid :: "string \<Rightarrow> string" where
  "to_valid s = (if s = [] then [] else fst (take_rune s) @ to_valid (snd (take_rune s)))"
  by pat_completeness auto
termination
  by (relation "measure length") (auto intro: take_rune_shorter)

declare to_valid.simps [simp del]

lemma to_valid_Nil [simp]: "to_valid [] = []"
  by (simp add: to_valid.simps)

function valid_utf8 :: "string \<Rightarrow> bool" where
  "valid_utf8 s =
     (if s = [] then True else if rune_len s = 0 then False else valid_utf8 (drop (rune_len s) s))"
  by pat_completeness auto
termination
  by (relation "measure length") simp_all

declare valid_utf8.simps [simp del]

lemma to_valid_id: "valid_utf8 s \<Longrightarrow> to_valid s = s"
proof (induction s rule: valid_utf8.induct)
  case (1 s)
  show ?case
  proof (cases "s = []")
    case False
    with "1.prems" have "rune_len s \<noteq> 0" "valid_utf8 (drop (rune_len s) s)"
      by (simp_all add: valid_utf8.simps [of s] split: if_split_asm)
    then show ?thesis using "1.IH" False by (simp add: to_valid.simps [of s] take_rune_def)
  qed simp
qed

lemma ascii_valid: "list_all (byte_in 0 0x7F) s \<Longrightarrow> valid_utf8 s"
proof (induction s)
  case Nil
  show ?case by (simp add: valid_utf8.simps [of "[]"])
next
  case (Cons c s)
  then show ?case by (simp add: valid_utf8.simps [of "c # s"] rune_len_ascii)
qed

end
