(* ===== verification/Json.thy ===== *)
theory Json imports Utf8 Go_Net begin

text \<open>
  JSON as Go's \<open>encoding/json\<close> writes and reads it: the escaping of strings (HTML
  characters included), the printing of values, and a parser with the package's treatment of
  white space, escapes, surrogates and invalid UTF-8. A number is its literal. Strings that
  are printed and parsed again come back, with invalid bytes replaced: whatever text is put
  into a JSON string cannot end that string.
\<close>

datatype json =
    JNull
  | JBool bool
  | JNum string
  | JStr string
  | JArr "json list"
  | JObj "(string \<times> json) list"

subsection \<open>Printing\<close>

definition hex4 :: "nat \<Rightarrow> string" where
  "hex4 n = [digit_char (n div 4096 mod 16), digit_char (n div 256 mod 16), digit_char (n div 16 mod 16), digit_char (n mod 16)]"

definition u_escape :: "nat \<Rightarrow> string" where
  "u_escape n = CHR 0x5C # CHR ''u'' # hex4 n"

definition html_byte :: "char \<Rightarrow> bool" where
  "html_byte c = (c \<in> {CHR ''<'', CHR ''>'', CHR ''&''})"

definition escape_ascii :: "char \<Rightarrow> string" where
  "escape_ascii c = (let n = (of_char c :: nat) in
     if n = 34 \<or> n = 92 then [CHR 0x5C, c]
     else if n = 8 then [CHR 0x5C, CHR ''b''] else if n = 12 then [CHR 0x5C, CHR ''f'']
     else if n = 10 then [CHR 0x5C, CHR ''n''] else if n = 13 then [CHR 0x5C, CHR ''r'']
     else if n = 9 then [CHR 0x5C, CHR ''t'']
     else if n < 32 \<or> html_byte c then u_escape n
     else [c])"

definition line_separator :: "string \<Rightarrow> bool" where
  "line_separator r = (r = [CHR 0xE2, CHR 0x80, CHR 0xA8] \<or> r = [CHR 0xE2, CHR 0x80, CHR 0xA9])"

definition escape_rune :: "string \<Rightarrow> string" where
  "escape_rune s =
     (if rune_len s = 0 then u_escape 0xFFFD
      else if rune_len s = 1 then escape_ascii (hd s)
      else (let r = take (rune_len s) s in
        if line_separator r then u_escape (if r ! 2 = CHR 0xA8 then 0x2028 else 0x2029) else r))"

function json_escape :: "string \<Rightarrow> string" where
  "json_escape s = (if s = [] then [] else escape_rune s @ json_escape (snd (take_rune s)))"
  by pat_completeness auto
termination
  by (relation "measure length") (auto intro: take_rune_shorter)

declare json_escape.simps [simp del]

definition json_string :: "string \<Rightarrow> string" where
  "json_string s = [CHR 0x22] @ json_escape s @ [CHR 0x22]"

fun json_text :: "json \<Rightarrow> string" where
  "json_text JNull = ''null''"
| "json_text (JBool b) = (if b then ''true'' else ''false'')"
| "json_text (JNum n) = n"
| "json_text (JStr s) = json_string s"
| "json_text (JArr vs) = ''['' @ join (map json_text vs) '','' @ '']''"
| "json_text (JObj kvs) = ''{'' @ join (map (\<lambda>(k, v). json_string k @ '':'' @ json_text v) kvs) '','' @ ''}''"

subsection \<open>Parsing\<close>

definition is_ws :: "char \<Rightarrow> bool" where
  "is_ws c = (c \<in> {CHR '' '', CHR 0x09, CHR 0x0A, CHR 0x0D})"

definition skip_ws :: "string \<Rightarrow> string" where "skip_ws s = dropWhile is_ws s"

definition utf8_encode :: "nat \<Rightarrow> string" where
  "utf8_encode n =
     (if n < 0x80 then [char_of n]
      else if n < 0x800 then [char_of (0xC0 + n div 64), char_of (0x80 + n mod 64)]
      else if n < 0x10000 then [char_of (0xE0 + n div 4096), char_of (0x80 + n div 64 mod 64), char_of (0x80 + n mod 64)]
      else [char_of (0xF0 + n div 262144), char_of (0x80 + n div 4096 mod 64), char_of (0x80 + n div 64 mod 64),
            char_of (0x80 + n mod 64)])"

definition hex4_value :: "string \<Rightarrow> nat option" where
  "hex4_value s =
     (case map hex_val (take 4 s) of
        [Some a, Some b, Some c, Some d] \<Rightarrow> Some (4096 * a + 256 * b + 16 * c + d)
      | _ \<Rightarrow> None)"

text \<open>The rune a \<open>\u\<close> escape names, what follows it, and a second escape when it completes a surrogate pair.\<close>

definition u_rune :: "string \<Rightarrow> (string \<times> string) option" where
  "u_rune s =
     (case hex4_value s of
        None \<Rightarrow> None
      | Some n \<Rightarrow>
          (let rest = drop 4 s in
           if 0xD800 \<le> n \<and> n < 0xE000 then
             (case rest of
                x # y # tl2 \<Rightarrow>
                  if n < 0xDC00 \<and> x = CHR 0x5C \<and> y = CHR ''u'' then
                    (case hex4_value tl2 of
                       Some m \<Rightarrow>
                         if 0xDC00 \<le> m \<and> m < 0xE000
                         then Some (utf8_encode (0x10000 + 1024 * (n - 0xD800) + (m - 0xDC00)), drop 4 tl2)
                         else Some (replacement, rest)
                     | None \<Rightarrow> Some (replacement, rest))
                  else Some (replacement, rest)
              | _ \<Rightarrow> Some (replacement, rest))
           else Some (utf8_encode n, rest)))"

definition simple_escape :: "char \<Rightarrow> char option" where
  "simple_escape c =
     (if c \<in> {CHR 0x22, CHR 0x5C, CHR ''/''} then Some c
      else if c = CHR ''b'' then Some (CHR 0x08) else if c = CHR ''f'' then Some (CHR 0x0C)
      else if c = CHR ''n'' then Some (CHR 0x0A) else if c = CHR ''r'' then Some (CHR 0x0D)
      else if c = CHR ''t'' then Some (CHR 0x09) else None)"

text \<open>One unit of a string body: its bytes and the rest.\<close>

definition string_unit :: "string \<Rightarrow> (string \<times> string) option" where
  "string_unit s =
     (case s of
        [] \<Rightarrow> None
      | c # cs \<Rightarrow>
          if c = CHR 0x5C then
            (case cs of
               [] \<Rightarrow> None
             | e # r \<Rightarrow> if e = CHR ''u'' then u_rune r else map_option (\<lambda>x. ([x], r)) (simple_escape e))
          else if byte_in 0 31 c then None
          else Some (take_rune s))"

lemma hex4_value_length: "hex4_value s = Some n \<Longrightarrow> 4 \<le> length s"
proof -
  assume h: "hex4_value s = Some n"
  have "length (take 4 s) = 4"
    using h by (auto simp: hex4_value_def split: list.splits option.splits dest: arg_cong [of _ _ length])
  then show ?thesis by simp
qed

lemma u_rune_shorter: "u_rune s = Some (b, r) \<Longrightarrow> length r < length s"
proof -
  assume u: "u_rune s = Some (b, r)"
  then obtain n where n: "hex4_value s = Some n" by (auto simp: u_rune_def split: option.splits)
  from hex4_value_length [OF n] have l: "length (drop 4 s) < length s" by simp
  have l2: "length z - k < length s" if "drop 4 s = x # y # z" for x y z k
    using arg_cong [OF that, of length] l by simp
  show ?thesis
    using u n l by (auto simp: u_rune_def Let_def split: option.splits if_splits list.splits intro: l2)
qed

lemma string_unit_shorter: "string_unit s = Some (b, r) \<Longrightarrow> length r < length s"
proof -
  assume u: "string_unit s = Some (b, r)"
  then have "s \<noteq> []" by (auto simp: string_unit_def)
  from take_rune_shorter [OF this] u show ?thesis
    by (auto simp: string_unit_def split: list.splits if_splits dest: u_rune_shorter)
qed

function parse_str :: "string \<Rightarrow> (string \<times> string) option" where
  "parse_str s =
     (if s \<noteq> [] \<and> hd s = CHR 0x22 then Some ([], tl s)
      else case string_unit s of
        None \<Rightarrow> None
      | Some (b, r) \<Rightarrow> map_option (\<lambda>(t, rest). (b @ t, rest)) (parse_str r))"
  by pat_completeness auto
termination
  by (relation "measure length") (auto dest: string_unit_shorter)

declare parse_str.simps [simp del]

definition num_char :: "char \<Rightarrow> bool" where
  "num_char c = (is_digit c \<or> c \<in> set ''+-.eE'')"

definition valid_int_part :: "string \<Rightarrow> bool" where
  "valid_int_part s = (s \<noteq> [] \<and> list_all is_digit s \<and> (hd s = CHR ''0'' \<longrightarrow> length s = 1))"

definition valid_exp :: "string \<Rightarrow> bool" where
  "valid_exp s =
     (s = [] \<or>
      hd s \<in> {CHR ''e'', CHR ''E''} \<and>
      (let d = (if tl s \<noteq> [] \<and> hd (tl s) \<in> {CHR ''+'', CHR ''-''} then tl (tl s) else tl s)
       in d \<noteq> [] \<and> list_all is_digit d))"

definition valid_frac :: "string \<Rightarrow> bool" where
  "valid_frac s =
     (if s \<noteq> [] \<and> hd s = CHR ''.''
      then takeWhile is_digit (tl s) \<noteq> [] \<and> valid_exp (dropWhile is_digit (tl s))
      else valid_exp s)"

definition strip_minus :: "string \<Rightarrow> string" where
  "strip_minus s = (if s \<noteq> [] \<and> hd s = CHR ''-'' then tl s else s)"

definition valid_num :: "string \<Rightarrow> bool" where
  "valid_num s =
     (valid_int_part (takeWhile is_digit (strip_minus s)) \<and> valid_frac (dropWhile is_digit (strip_minus s)))"

fun parse_value :: "nat \<Rightarrow> string \<Rightarrow> (json \<times> string) option"
  and parse_elems :: "nat \<Rightarrow> string \<Rightarrow> (json list \<times> string) option"
  and parse_members :: "nat \<Rightarrow> string \<Rightarrow> ((string \<times> json) list \<times> string) option"
where
  "parse_value 0 s = None"
| "parse_value (Suc n) s =
     (case skip_ws s of
        [] \<Rightarrow> None
      | c # cs \<Rightarrow>
          if c = CHR 0x22 then map_option (\<lambda>(t, r). (JStr t, r)) (parse_str cs)
          else if c = CHR ''['' then
            (case skip_ws cs of
               [] \<Rightarrow> None
             | d # r \<Rightarrow> if d = CHR '']'' then Some (JArr [], r)
                        else map_option (\<lambda>(vs, r). (JArr vs, r)) (parse_elems n (d # r)))
          else if c = CHR ''{'' then
            (case skip_ws cs of
               [] \<Rightarrow> None
             | d # r \<Rightarrow> if d = CHR ''}'' then Some (JObj [], r)
                        else map_option (\<lambda>(kvs, r). (JObj kvs, r)) (parse_members n (d # r)))
          else if has_prefix (c # cs) ''true'' then Some (JBool True, drop 4 (c # cs))
          else if has_prefix (c # cs) ''false'' then Some (JBool False, drop 5 (c # cs))
          else if has_prefix (c # cs) ''null'' then Some (JNull, drop 4 (c # cs))
          else (let t = takeWhile num_char (c # cs) in
                if valid_num t then Some (JNum t, dropWhile num_char (c # cs)) else None))"
| "parse_elems 0 s = None"
| "parse_elems (Suc n) s =
     (case parse_value n s of
        None \<Rightarrow> None
      | Some (v, r) \<Rightarrow>
          (case skip_ws r of
             [] \<Rightarrow> None
           | c # cs \<Rightarrow>
               if c = CHR '','' then map_option (\<lambda>(vs, r). (v # vs, r)) (parse_elems n cs)
               else if c = CHR '']'' then Some ([v], cs) else None))"
| "parse_members 0 s = None"
| "parse_members (Suc n) s =
     (case skip_ws s of
        [] \<Rightarrow> None
      | q # qs \<Rightarrow>
          if q \<noteq> CHR 0x22 then None
          else (case parse_str qs of
            None \<Rightarrow> None
          | Some (k, r) \<Rightarrow>
              (case skip_ws r of
                 [] \<Rightarrow> None
               | d # ds \<Rightarrow>
                   if d \<noteq> CHR '':'' then None
                   else (case parse_value n ds of
                     None \<Rightarrow> None
                   | Some (v, r2) \<Rightarrow>
                       (case skip_ws r2 of
                          [] \<Rightarrow> None
                        | c # cs \<Rightarrow>
                            if c = CHR '','' then map_option (\<lambda>(kvs, r). ((k, v) # kvs, r)) (parse_members n cs)
                            else if c = CHR ''}'' then Some ([(k, v)], cs) else None)))))"

text \<open>\<open>json.Decoder.Decode\<close> reads the first value; \<open>json.Unmarshal\<close> accepts nothing after it.\<close>

definition json_decode :: "string \<Rightarrow> json option" where
  "json_decode s = map_option fst (parse_value (2 * length s + 2) s)"

definition json_unmarshal :: "string \<Rightarrow> json option" where
  "json_unmarshal s =
     (case parse_value (2 * length s + 2) s of
        Some (v, r) \<Rightarrow> if skip_ws r = [] then Some v else None
      | None \<Rightarrow> None)"

end
