(* ===== verification/Json_Decode.thy ===== *)
theory Json_Decode imports Json "HOL-Library.Char_ord" "HOL-Library.List_Lexorder" begin

text \<open>
  Decoding a parsed value into Go data, and printing Go data. A decoder takes the value and
  what the destination held before, and gives what it holds afterwards, or \<open>None\<close> where
  the package reports a type error. \<open>null\<close> leaves a scalar or a struct as it is and
  makes a slice empty; unknown members are skipped; a member's name matches a field's exactly
  or under the package's folding, in which the long s and the Kelvin sign fold to their ASCII
  letters. (Of an array member that occurs twice, the second replaces the first.)
\<close>

type_synonym 'a dec = "json \<Rightarrow> 'a \<Rightarrow> 'a option"

definition dec_string :: "string dec" where
  "dec_string v old = (case v of JStr s \<Rightarrow> Some s | JNull \<Rightarrow> Some old | _ \<Rightarrow> None)"

definition dec_int :: "int dec" where
  "dec_int v old = (case v of JNum n \<Rightarrow> parse_int64 n | JNull \<Rightarrow> Some old | _ \<Rightarrow> None)"

definition dec_bool :: "bool dec" where
  "dec_bool v old = (case v of JBool b \<Rightarrow> Some b | JNull \<Rightarrow> Some old | _ \<Rightarrow> None)"

fun dec_elems :: "'a dec \<Rightarrow> 'a \<Rightarrow> json list \<Rightarrow> 'a list option" where
  "dec_elems d zero [] = Some []"
| "dec_elems d zero (v # vs) =
     (case d v zero of None \<Rightarrow> None | Some x \<Rightarrow> map_option (\<lambda>xs. x # xs) (dec_elems d zero vs))"

definition dec_list :: "'a dec \<Rightarrow> 'a \<Rightarrow> 'a list dec" where
  "dec_list d zero v old = (case v of JArr vs \<Rightarrow> dec_elems d zero vs | JNull \<Rightarrow> Some [] | _ \<Rightarrow> None)"

fun json_fold :: "string \<Rightarrow> string" where
  "json_fold [] = []"
| "json_fold (c # cs) =
     (if take 2 (c # cs) = [CHR 0xC5, CHR 0xBF] then CHR ''s'' # json_fold (drop 1 cs)
      else if take 3 (c # cs) = [CHR 0xE2, CHR 0x84, CHR 0xAA] then CHR ''k'' # json_fold (drop 2 cs)
      else lower_byte c # json_fold cs)"

definition field_dec :: "(string \<times> 'a dec) list \<Rightarrow> string \<Rightarrow> 'a dec option" where
  "field_dec flds k =
     (case map_of flds k of
        Some d \<Rightarrow> Some d
      | None \<Rightarrow> map_option snd (find (\<lambda>(n, d). json_fold n = json_fold k) flds))"

fun dec_members :: "(string \<times> 'a dec) list \<Rightarrow> (string \<times> json) list \<Rightarrow> 'a \<Rightarrow> 'a option" where
  "dec_members flds [] old = Some old"
| "dec_members flds ((k, v) # kvs) old =
     (case field_dec flds k of
        None \<Rightarrow> dec_members flds kvs old
      | Some d \<Rightarrow> (case d v old of None \<Rightarrow> None | Some new \<Rightarrow> dec_members flds kvs new))"

definition dec_struct :: "(string \<times> 'a dec) list \<Rightarrow> 'a dec" where
  "dec_struct flds v old =
     (case v of JObj kvs \<Rightarrow> dec_members flds kvs old | JNull \<Rightarrow> Some old | _ \<Rightarrow> None)"

text \<open>A map with string keys: the last member of a key wins.\<close>

fun dec_map_members :: "'a dec \<Rightarrow> 'a \<Rightarrow> (string \<times> json) list \<Rightarrow> (string \<rightharpoonup> 'a) \<Rightarrow> (string \<rightharpoonup> 'a) option" where
  "dec_map_members d zero [] m = Some m"
| "dec_map_members d zero ((k, v) # kvs) m =
     (case d v zero of None \<Rightarrow> None | Some x \<Rightarrow> dec_map_members d zero kvs (m(k \<mapsto> x)))"

definition dec_map :: "'a dec \<Rightarrow> 'a \<Rightarrow> (string \<rightharpoonup> 'a) dec" where
  "dec_map d zero v m =
     (case v of JObj kvs \<Rightarrow> dec_map_members d zero kvs m | JNull \<Rightarrow> Some Map.empty | _ \<Rightarrow> None)"

definition in_field :: "('b \<Rightarrow> 'a) \<Rightarrow> ('a \<Rightarrow> 'b \<Rightarrow> 'b) \<Rightarrow> 'a dec \<Rightarrow> 'b dec" where
  "in_field get upd d v old = map_option (\<lambda>x. upd x old) (d v (get old))"

text \<open>\<open>json.Unmarshal\<close> and \<open>Decoder.Decode\<close> into a zero destination.\<close>

definition unmarshal_into :: "'a dec \<Rightarrow> 'a \<Rightarrow> string \<Rightarrow> 'a option" where
  "unmarshal_into d zero s = (case json_unmarshal s of None \<Rightarrow> None | Some v \<Rightarrow> d v zero)"

definition decode_into :: "'a dec \<Rightarrow> 'a \<Rightarrow> string \<Rightarrow> 'a option" where
  "decode_into d zero s = (case json_decode s of None \<Rightarrow> None | Some v \<Rightarrow> d v zero)"

subsection \<open>Go data as JSON\<close>

text \<open>A map's members are printed in the order of their keys.\<close>

definition json_map :: "(string \<times> json) list \<Rightarrow> json" where
  "json_map kvs = JObj (sort_key fst kvs)"

definition json_int :: "int \<Rightarrow> json" where
  "json_int i = JNum (itoa i)"

text \<open>A \<open>json.RawMessage\<close> is printed compacted; it must be one JSON value.\<close>

definition json_raw :: "string \<Rightarrow> json option" where
  "json_raw s = json_unmarshal s"

text \<open>\<open>omitempty\<close> on a string or list member.\<close>

definition omit_empty :: "string \<Rightarrow> json \<Rightarrow> (string \<times> json) list" where
  "omit_empty k v = (if v = JStr [] \<or> v = JArr [] then [] else [(k, v)])"


end
