(* ===== verification/Llm_Format.thy ===== *)
theory Llm_Format imports Json_Decode Ct_Types begin

text \<open>
  The provider-neutral data of \<open>internal/llm/adapter.go\<close> and its translation to and
  from the wire formats of Anthropic (\<open>anthropic_format.go\<close>) and OpenAI
  (\<open>openai.go\<close>). A \<open>json.RawMessage\<close> is \<open>None\<close> for nil and its text
  otherwise; a decoded one is the canonical text of its value. The functions that put a raw
  message into a request give \<open>None\<close> where \<open>json.Marshal\<close> will reject the
  request because the raw message is not JSON.
\<close>

subsection \<open>Data\<close>

record llm_tool =
  lt_name :: string
  lt_description :: string
  lt_input_schema :: "string option"

record tool_call =
  tc_id :: string
  tc_name :: string
  tc_input :: "string option"

record tool_result =
  tr_tool_call_id :: string
  tr_content :: string
  tr_is_error :: bool

record llm_message =
  lm_role :: string
  lm_content :: string
  lm_tool_calls :: "tool_call list"
  lm_tool_result :: "tool_result option"

record llm_request =
  lq_system :: string
  lq_messages :: "llm_message list"
  lq_tools :: "llm_tool list"
  lq_max_tokens :: int
  lq_cache_system_prompt :: bool

record completion =
  co_text :: string
  co_tool_calls :: "tool_call list"
  co_stop_reason :: string
  co_input_tokens :: int
  co_output_tokens :: int
  co_duration_ms :: int

definition empty_completion :: completion where
  "empty_completion =
     \<lparr>co_text = [], co_tool_calls = [], co_stop_reason = [], co_input_tokens = 0, co_output_tokens = 0,
      co_duration_ms = 0\<rparr>"

text \<open>An error with the sentinels it wraps, as \<open>errors.Is\<close> sees it.\<close>

datatype sentinel = ErrContextLength | ErrJevUnavailable

record wrapped_error =
  we_text :: string
  we_wraps :: "sentinel list"

definition plain_error :: "string \<Rightarrow> wrapped_error" where
  "plain_error s = \<lparr>we_text = s, we_wraps = []\<rparr>"

definition bodyIndicatesContextLength :: "string \<Rightarrow> bool" where
  "bodyIndicatesContextLength s = (let l = to_lower s in
     contains_sub l ''context_length_exceeded'' \<or> contains_sub l ''is too long'' \<or>
     contains_sub l ''maximum context length'' \<or> contains_sub l ''context window'')"

definition raw_json :: "string option \<Rightarrow> json option" where
  "raw_json r = (case r of None \<Rightarrow> Some JNull | Some s \<Rightarrow> json_raw s)"

subsection \<open>Anthropic\<close>

definition anthropic_tool_use :: "tool_call \<Rightarrow> json option" where
  "anthropic_tool_use tc =
     map_option
       (\<lambda>input. json_map [(''type'', JStr ''tool_use''), (''id'', JStr (tc_id tc)), (''name'', JStr (tc_name tc)),
                          (''input'', input)])
       (raw_json (tc_input tc))"

definition build_anthropic_message :: "llm_message \<Rightarrow> json option" where
  "build_anthropic_message m =
     (let role = (if lm_role m = ''tool'' then ''user'' else lm_role m) in
      case lm_tool_result m of
        Some tr \<Rightarrow>
          Some (json_map
            [(''role'', JStr ''user''),
             (''content'', JArr [json_map
               ([(''type'', JStr ''tool_result''), (''tool_use_id'', JStr (tr_tool_call_id tr)),
                 (''content'', JStr (tr_content tr))]
                @ (if tr_is_error tr then [(''is_error'', JBool True)] else []))])])
      | None \<Rightarrow>
          if lm_tool_calls m \<noteq> [] then
            map_option
              (\<lambda>blocks. json_map
                [(''role'', JStr ''assistant''),
                 (''content'', JArr
                   ((if lm_content m \<noteq> []
                     then [json_map [(''type'', JStr ''text''), (''text'', JStr (lm_content m))]] else [])
                    @ blocks))])
              (those (map anthropic_tool_use (lm_tool_calls m)))
          else Some (json_map [(''role'', JStr role), (''content'', JStr (lm_content m))]))"

definition build_anthropic_tools :: "llm_tool list \<Rightarrow> json list option" where
  "build_anthropic_tools tools =
     those (map (\<lambda>t. map_option
       (\<lambda>schema. json_map [(''name'', JStr (lt_name t)), (''description'', JStr (lt_description t)),
                           (''input_schema'', schema)])
       (raw_json (lt_input_schema t))) tools)"

record anthropic_content_block =
  ab_type :: string
  ab_text :: string
  ab_id :: string
  ab_name :: string
  ab_input :: "string option"

record anthropic_usage_block =
  au_input_tokens :: int
  au_output_tokens :: int

record anthropic_resp_body =
  ar_content :: "anthropic_content_block list"
  ar_usage :: anthropic_usage_block
  ar_stop_reason :: string

definition empty_anthropic_block :: anthropic_content_block where
  "empty_anthropic_block = \<lparr>ab_type = [], ab_text = [], ab_id = [], ab_name = [], ab_input = None\<rparr>"

definition dec_raw :: "string option dec" where
  "dec_raw v old = Some (Some (json_text v))"

definition dec_anthropic_block :: "anthropic_content_block dec" where
  "dec_anthropic_block = dec_struct
     [(''type'', in_field ab_type (\<lambda>x b. b\<lparr>ab_type := x\<rparr>) dec_string),
      (''text'', in_field ab_text (\<lambda>x b. b\<lparr>ab_text := x\<rparr>) dec_string),
      (''id'', in_field ab_id (\<lambda>x b. b\<lparr>ab_id := x\<rparr>) dec_string),
      (''name'', in_field ab_name (\<lambda>x b. b\<lparr>ab_name := x\<rparr>) dec_string),
      (''input'', in_field ab_input (\<lambda>x b. b\<lparr>ab_input := x\<rparr>) dec_raw)]"

definition dec_anthropic_usage :: "anthropic_usage_block dec" where
  "dec_anthropic_usage = dec_struct
     [(''input_tokens'', in_field au_input_tokens (\<lambda>x u. u\<lparr>au_input_tokens := x\<rparr>) dec_int),
      (''output_tokens'', in_field au_output_tokens (\<lambda>x u. u\<lparr>au_output_tokens := x\<rparr>) dec_int)]"

definition dec_anthropic_body :: "anthropic_resp_body dec" where
  "dec_anthropic_body = dec_struct
     [(''content'', in_field ar_content (\<lambda>x r. r\<lparr>ar_content := x\<rparr>) (dec_list dec_anthropic_block empty_anthropic_block)),
      (''usage'', in_field ar_usage (\<lambda>x r. r\<lparr>ar_usage := x\<rparr>) dec_anthropic_usage),
      (''stop_reason'', in_field ar_stop_reason (\<lambda>x r. r\<lparr>ar_stop_reason := x\<rparr>) dec_string)]"

definition empty_anthropic_body :: anthropic_resp_body where
  "empty_anthropic_body =
     \<lparr>ar_content = [], ar_usage = \<lparr>au_input_tokens = 0, au_output_tokens = 0\<rparr>, ar_stop_reason = []\<rparr>"

text \<open>One pass over the blocks, collecting texts and tool calls.\<close>

fun anthropic_blocks :: "anthropic_content_block list \<Rightarrow> string list \<times> tool_call list \<Rightarrow> string list \<times> tool_call list" where
  "anthropic_blocks [] acc = acc"
| "anthropic_blocks (b # bs) (texts, calls) =
     anthropic_blocks bs
       (if ab_type b = ''text'' then (if ab_text b \<noteq> [] then texts @ [ab_text b] else texts, calls)
        else if ab_type b = ''tool_use''
        then (texts, calls @ [\<lparr>tc_id = ab_id b, tc_name = ab_name b, tc_input = ab_input b\<rparr>])
        else (texts, calls))"

definition build_response_from_anthropic :: "anthropic_resp_body \<Rightarrow> completion \<times> wrapped_error option" where
  "build_response_from_anthropic r =
     (let (texts, calls) = anthropic_blocks (ar_content r) ([], []) in
      if texts = [] \<and> calls = [] then (empty_completion, Some (plain_error ''empty content in model response''))
      else (\<lparr>co_text = concat texts, co_tool_calls = calls, co_stop_reason = ar_stop_reason r,
             co_input_tokens = au_input_tokens (ar_usage r), co_output_tokens = au_output_tokens (ar_usage r),
             co_duration_ms = 0\<rparr>, None))"

text \<open>\<open>jerr\<close> is the text of the error the JSON package reports for an input.\<close>

definition parse_anthropic_response :: "(string \<Rightarrow> string) \<Rightarrow> string \<Rightarrow> completion \<times> wrapped_error option" where
  "parse_anthropic_response jerr body =
     (case unmarshal_into dec_anthropic_body empty_anthropic_body body of
        None \<Rightarrow> (empty_completion, Some (plain_error (''failed to parse anthropic response: '' @ jerr body)))
      | Some r \<Rightarrow> build_response_from_anthropic r)"

definition parse_anthropic_response_stream :: "(string \<Rightarrow> string) \<Rightarrow> string \<Rightarrow> completion \<times> wrapped_error option" where
  "parse_anthropic_response_stream jerr body =
     (case decode_into dec_anthropic_body empty_anthropic_body body of
        None \<Rightarrow> (empty_completion, Some (plain_error (''failed to parse anthropic response: '' @ jerr body)))
      | Some r \<Rightarrow> build_response_from_anthropic r)"

subsection \<open>OpenAI\<close>

text \<open>Tool-call arguments go out and come back as a JSON string, whatever they contain.\<close>

definition openai_tool_call :: "tool_call \<Rightarrow> json" where
  "openai_tool_call tc = json_map
     [(''id'', JStr (tc_id tc)), (''type'', JStr ''function''),
      (''function'', json_map
        [(''name'', JStr (tc_name tc)),
         (''arguments'', JStr (case tc_input tc of None \<Rightarrow> [] | Some s \<Rightarrow> s))])]"

definition build_openai_message :: "llm_message \<Rightarrow> json" where
  "build_openai_message m =
     (case lm_tool_result m of
        Some tr \<Rightarrow> json_map [(''role'', JStr ''tool''), (''tool_call_id'', JStr (tr_tool_call_id tr)),
                              (''content'', JStr (tr_content tr))]
      | None \<Rightarrow>
          if lm_tool_calls m \<noteq> [] then
            json_map
              ([(''role'', JStr ''assistant''), (''tool_calls'', JArr (map openai_tool_call (lm_tool_calls m)))]
               @ (if lm_content m \<noteq> [] then [(''content'', JStr (lm_content m))] else []))
          else json_map [(''role'', JStr (lm_role m)), (''content'', JStr (lm_content m))])"

definition build_openai_messages :: "string \<Rightarrow> llm_message list \<Rightarrow> json list" where
  "build_openai_messages sys msgs =
     (if sys \<noteq> [] then [json_map [(''role'', JStr ''system''), (''content'', JStr sys)]] else [])
     @ map build_openai_message msgs"

definition build_openai_tools :: "llm_tool list \<Rightarrow> json list option" where
  "build_openai_tools tools =
     those (map (\<lambda>t. map_option
       (\<lambda>schema. json_map
         [(''type'', JStr ''function''),
          (''function'', json_map
            [(''name'', JStr (lt_name t)), (''description'', JStr (lt_description t)), (''parameters'', schema)])])
       (raw_json (lt_input_schema t))) tools)"

definition map_openai_stop_reason :: "string \<Rightarrow> string" where
  "map_openai_stop_reason r =
     (if r = ''stop'' then ''end_turn'' else if r = ''tool_calls'' then ''tool_use''
      else if r = ''length'' then ''max_tokens'' else r)"

record openai_tool_call_body =
  ot_id :: string
  ot_type :: string
  ot_function_name :: string
  ot_function_arguments :: string

record openai_choice =
  oc_content :: string
  oc_tool_calls :: "openai_tool_call_body list"
  oc_finish_reason :: string

record openai_resp_body =
  or_choices :: "openai_choice list"
  or_prompt_tokens :: int
  or_completion_tokens :: int

definition empty_openai_tool_call :: openai_tool_call_body where
  "empty_openai_tool_call = \<lparr>ot_id = [], ot_type = [], ot_function_name = [], ot_function_arguments = []\<rparr>"

definition empty_openai_choice :: openai_choice where
  "empty_openai_choice = \<lparr>oc_content = [], oc_tool_calls = [], oc_finish_reason = []\<rparr>"

definition empty_openai_body :: openai_resp_body where
  "empty_openai_body = \<lparr>or_choices = [], or_prompt_tokens = 0, or_completion_tokens = 0\<rparr>"

definition dec_openai_tool_call :: "openai_tool_call_body dec" where
  "dec_openai_tool_call = dec_struct
     [(''id'', in_field ot_id (\<lambda>x t. t\<lparr>ot_id := x\<rparr>) dec_string),
      (''type'', in_field ot_type (\<lambda>x t. t\<lparr>ot_type := x\<rparr>) dec_string),
      (''function'', dec_struct
        [(''name'', in_field ot_function_name (\<lambda>x t. t\<lparr>ot_function_name := x\<rparr>) dec_string),
         (''arguments'', in_field ot_function_arguments (\<lambda>x t. t\<lparr>ot_function_arguments := x\<rparr>) dec_string)])]"

definition dec_openai_choice :: "openai_choice dec" where
  "dec_openai_choice = dec_struct
     [(''message'', dec_struct
        [(''content'', in_field oc_content (\<lambda>x c. c\<lparr>oc_content := x\<rparr>) dec_string),
         (''tool_calls'', in_field oc_tool_calls (\<lambda>x c. c\<lparr>oc_tool_calls := x\<rparr>)
            (dec_list dec_openai_tool_call empty_openai_tool_call))]),
      (''finish_reason'', in_field oc_finish_reason (\<lambda>x c. c\<lparr>oc_finish_reason := x\<rparr>) dec_string)]"

definition dec_openai_body :: "openai_resp_body dec" where
  "dec_openai_body = dec_struct
     [(''choices'', in_field or_choices (\<lambda>x r. r\<lparr>or_choices := x\<rparr>) (dec_list dec_openai_choice empty_openai_choice)),
      (''usage'', dec_struct
        [(''prompt_tokens'', in_field or_prompt_tokens (\<lambda>x r. r\<lparr>or_prompt_tokens := x\<rparr>) dec_int),
         (''completion_tokens'', in_field or_completion_tokens (\<lambda>x r. r\<lparr>or_completion_tokens := x\<rparr>) dec_int)])]"

definition openai_calls :: "openai_choice \<Rightarrow> tool_call list" where
  "openai_calls c =
     map (\<lambda>t. \<lparr>tc_id = ot_id t, tc_name = ot_function_name t, tc_input = Some (ot_function_arguments t)\<rparr>) (oc_tool_calls c)"

definition parse_openai_response_stream :: "(string \<Rightarrow> string) \<Rightarrow> string \<Rightarrow> completion \<times> wrapped_error option" where
  "parse_openai_response_stream jerr body =
     (case decode_into dec_openai_body empty_openai_body body of
        None \<Rightarrow> (empty_completion, Some (plain_error (''failed to parse openai response: '' @ jerr body)))
      | Some r \<Rightarrow>
          (case or_choices r of
             [] \<Rightarrow> (empty_completion, Some (plain_error ''empty choices in openai response''))
           | c # _ \<Rightarrow>
               (let txt = trim_space (oc_content c); calls = openai_calls c in
                if txt = [] \<and> calls = []
                then (empty_completion, Some (plain_error ''empty content in openai response''))
                else (\<lparr>co_text = txt, co_tool_calls = calls, co_stop_reason = map_openai_stop_reason (oc_finish_reason c),
                       co_input_tokens = or_prompt_tokens r, co_output_tokens = or_completion_tokens r,
                       co_duration_ms = 0\<rparr>, None))))"

subsection \<open>Code fences\<close>

definition fence :: string where "fence = ''```''"

fun last_index_sub :: "string \<Rightarrow> string \<Rightarrow> nat option" where
  "last_index_sub [] p = (if p = [] then Some 0 else None)"
| "last_index_sub (c # cs) p =
     (case last_index_sub cs p of
        Some i \<Rightarrow> Some (Suc i)
      | None \<Rightarrow> if has_prefix (c # cs) p then Some 0 else None)"

definition strip_code_fences :: "string \<Rightarrow> string" where
  "strip_code_fences s0 =
     (let s = trim_space s0 in
      if has_prefix s fence then
        (case index_sub s [CHR 0x0A] of
           None \<Rightarrow> s
         | Some i \<Rightarrow>
             (let s1 = drop (i + 1) s;
                  s2 = (case last_index_sub s1 fence of Some e \<Rightarrow> take e s1 | None \<Rightarrow> s1)
              in trim_space s2))
      else s)"

end
