(* ===== verification/Resilience.thy ===== *)
theory Resilience imports Ct_Types begin

text \<open>
  Concurrency limit and circuit breaker of the LLM adapters
  (\<open>internal/llm/resilience.go\<close>). The semaphore channel is the number of slots in
  use; \<open>cbOpenedAt\<close> is \<open>None\<close> for Go's zero time; times are read from the
  clock by the code and are arguments here. Every operation returns the events its observer
  callbacks would deliver, in order. The mutex makes each of them one step.
\<close>

record resilience =
  rz_in_use :: nat
  rz_capacity :: nat
  rz_failures :: int
  rz_threshold :: int
  rz_cooldown :: int
  rz_opened_at :: "time option"
  rz_probe :: bool
  rz_provider :: string
  rz_observer :: bool

datatype cb_event = CircuitBreakerTrip string | CircuitBreakerStateChange string bool | JudgeLatency string string int

subsection \<open>Construction\<close>

definition DefaultMaxConcurrency :: nat where "DefaultMaxConcurrency = 100"
definition DefaultCircuitBreakerThreshold :: int where "DefaultCircuitBreakerThreshold = 5"
definition DefaultCircuitBreakerCooldown :: int where "DefaultCircuitBreakerCooldown = 10 * 1000000000"

datatype resilience_option =
  WithMaxConcurrency int | WithCircuitBreaker int int | WithObserver bool string

fun apply_option :: "resilience_option \<Rightarrow> resilience \<Rightarrow> resilience" where
  "apply_option (WithMaxConcurrency n) r =
     (if 0 < n then r\<lparr>rz_capacity := nat n, rz_in_use := 0\<rparr> else r)"
| "apply_option (WithCircuitBreaker threshold cooldown) r =
     (let r1 = (if 0 < threshold then r\<lparr>rz_threshold := threshold\<rparr> else r)
      in if 0 < cooldown then r1\<lparr>rz_cooldown := cooldown\<rparr> else r1)"
| "apply_option (WithObserver obs provider) r =
     (let r1 = r\<lparr>rz_observer := obs\<rparr>
      in if provider \<noteq> [] then r1\<lparr>rz_provider := provider\<rparr> else r1)"

definition new_resilience :: "resilience_option list \<Rightarrow> resilience" where
  "new_resilience opts = fold apply_option opts
     \<lparr>rz_in_use = 0, rz_capacity = DefaultMaxConcurrency, rz_failures = 0,
      rz_threshold = DefaultCircuitBreakerThreshold, rz_cooldown = DefaultCircuitBreakerCooldown,
      rz_opened_at = None, rz_probe = False, rz_provider = [], rz_observer = False\<rparr>"

definition max_concurrency :: "resilience \<Rightarrow> nat" where "max_concurrency r = rz_capacity r"

definition provider_label :: "resilience \<Rightarrow> string" where
  "provider_label r = (if rz_provider r = [] then ''unknown'' else rz_provider r)"

definition emit :: "resilience \<Rightarrow> cb_event list \<Rightarrow> cb_event list" where
  "emit r evs = (if rz_observer r then evs else [])"

subsection \<open>Circuit breaker\<close>

definition cooldown_elapsed :: "time \<Rightarrow> resilience \<Rightarrow> bool" where
  "cooldown_elapsed now r =
     (case rz_opened_at r of None \<Rightarrow> True | Some t \<Rightarrow> rz_cooldown r \<le> now - t)"

definition circuit_breaker_open :: "time \<Rightarrow> resilience \<Rightarrow> bool \<times> resilience \<times> cb_event list" where
  "circuit_breaker_open now r =
     (if rz_failures r < rz_threshold r then (False, r, [])
      else if cooldown_elapsed now r then
        (let firstProbe = \<not> rz_probe r in
         (False, r\<lparr>rz_opened_at := Some now, rz_probe := True\<rparr>,
          if firstProbe then emit r [CircuitBreakerStateChange (provider_label r) False] else []))
      else (True, r, []))"

definition record_success :: "resilience \<Rightarrow> resilience \<times> cb_event list" where
  "record_success r =
     (let probeSucceeded = rz_probe r; wasTripped = (rz_opened_at r \<noteq> None) in
      (r\<lparr>rz_failures := 0, rz_opened_at := None, rz_probe := False\<rparr>,
       if wasTripped \<and> \<not> probeSucceeded
       then emit r [CircuitBreakerStateChange (provider_label r) False] else []))"

definition record_failure :: "time \<Rightarrow> resilience \<Rightarrow> resilience \<times> cb_event list" where
  "record_failure now r =
     (let r1 = r\<lparr>rz_failures := rz_failures r + 1\<rparr> in
      if rz_threshold r \<le> rz_failures r1 then
        (if rz_opened_at r = None then
           (r1\<lparr>rz_opened_at := Some now\<rparr>,
            emit r [CircuitBreakerTrip (provider_label r), CircuitBreakerStateChange (provider_label r) True])
         else if rz_probe r then
           (r1\<lparr>rz_probe := False\<rparr>, emit r [CircuitBreakerStateChange (provider_label r) True])
         else (r1, []))
      else (r1, []))"

definition record_cancellation :: "resilience \<Rightarrow> resilience \<times> cb_event list" where
  "record_cancellation r =
     (let wasProbe = rz_probe r in
      (r\<lparr>rz_probe := False\<rparr>,
       if wasProbe then emit r [CircuitBreakerStateChange (provider_label r) True] else []))"

definition record_judge_latency :: "string \<Rightarrow> int \<Rightarrow> resilience \<Rightarrow> cb_event list" where
  "record_judge_latency model d r = emit r [JudgeLatency (provider_label r) model d]"

subsection \<open>Slots\<close>

definition open_error :: "string \<Rightarrow> go_error" where
  "open_error name = name @ '' circuit breaker open: too many consecutive failures, cooling down''"

text \<open>How the \<open>select\<close> of \<open>Acquire\<close> ends: a slot, or the context's error.\<close>

datatype select_case = GotSlot | CtxDone go_error

definition acquire ::
    "time \<Rightarrow> string \<Rightarrow> select_case \<Rightarrow> resilience \<Rightarrow> go_error option \<times> resilience \<times> cb_event list" where
  "acquire now name sel r =
     (let (isOpen, r1, evs) = circuit_breaker_open now r in
      if isOpen then (Some (open_error name), r1, evs)
      else case sel of
        GotSlot \<Rightarrow> (None, r1\<lparr>rz_in_use := Suc (rz_in_use r1)\<rparr>, evs)
      | CtxDone e \<Rightarrow> (Some e, r1, evs))"

definition release :: "resilience \<Rightarrow> resilience" where
  "release r = r\<lparr>rz_in_use := rz_in_use r - 1\<rparr>"

definition try_acquire :: "time \<Rightarrow> string \<Rightarrow> resilience \<Rightarrow> go_error option \<times> resilience \<times> cb_event list" where
  "try_acquire now name r =
     (if rz_capacity r \<le> rz_in_use r then (Some (name @ '' at max concurrency''), r, [])
      else (let (isOpen, r1, evs) = circuit_breaker_open now (r\<lparr>rz_in_use := Suc (rz_in_use r)\<rparr>) in
        if isOpen then (Some (open_error name), release r1, evs) else (None, r1, evs)))"

subsection \<open>Well-formed states\<close>

definition rz_ok :: "resilience \<Rightarrow> bool" where
  "rz_ok r \<longleftrightarrow> rz_in_use r \<le> rz_capacity r \<and> 0 < rz_threshold r \<and> 0 < rz_cooldown r \<and>
     0 \<le> rz_failures r \<and>
     (rz_opened_at r \<noteq> None \<longleftrightarrow> rz_threshold r \<le> rz_failures r) \<and>
     (rz_probe r \<longrightarrow> rz_opened_at r \<noteq> None)"

lemma rz_ok_apply: "rz_ok r \<Longrightarrow> rz_failures r = 0 \<Longrightarrow> rz_ok (apply_option opt r) \<and> rz_failures (apply_option opt r) = 0"
  by (cases opt) (auto simp: rz_ok_def Let_def)

lemma rz_ok_new: "rz_ok (new_resilience opts)"
proof -
  have "rz_ok r \<Longrightarrow> rz_failures r = 0 \<Longrightarrow> rz_ok (fold apply_option opts r)" for r
    by (induction opts arbitrary: r) (auto simp: rz_ok_apply)
  then show ?thesis unfolding new_resilience_def
    by this (simp_all add: rz_ok_def DefaultCircuitBreakerThreshold_def DefaultCircuitBreakerCooldown_def)
qed

subsection \<open>Concurrent use as a step relation\<close>

text \<open>
  One step is one call of an operation by some goroutine. A blocking acquire gets a slot
  only when one is free, and a release gives back a slot that is in use.
\<close>

inductive rz_step :: "resilience \<Rightarrow> cb_event list \<Rightarrow> resilience \<Rightarrow> bool" where
  step_acquire: "sel = GotSlot \<longrightarrow> rz_in_use r < rz_capacity r \<Longrightarrow>
     acquire now name sel r = (res, r', evs) \<Longrightarrow> rz_step r evs r'"
| step_try: "try_acquire now name r = (res, r', evs) \<Longrightarrow> rz_step r evs r'"
| step_release: "0 < rz_in_use r \<Longrightarrow> rz_step r [] (release r)"
| step_success: "record_success r = (r', evs) \<Longrightarrow> rz_step r evs r'"
| step_failure: "record_failure now r = (r', evs) \<Longrightarrow> rz_step r evs r'"
| step_cancel: "record_cancellation r = (r', evs) \<Longrightarrow> rz_step r evs r'"
| step_latency: "rz_step r (record_judge_latency model d r) r"

inductive rz_run :: "resilience \<Rightarrow> cb_event list \<Rightarrow> resilience \<Rightarrow> bool" where
  run_start: "rz_run r [] r"
| run_step: "rz_run r evs r' \<Longrightarrow> rz_step r' evs' r'' \<Longrightarrow> rz_run r (evs @ evs') r''"

inductive_cases rz_stepE: "rz_step r evs r'"

lemmas rz_defs = acquire_def try_acquire_def release_def circuit_breaker_open_def record_success_def
  record_failure_def record_cancellation_def Let_def

lemma circuit_breaker_open_ok:
  "rz_ok r \<Longrightarrow> rz_ok (fst (snd (circuit_breaker_open now r)))"
  by (auto simp: circuit_breaker_open_def rz_ok_def Let_def)

lemma circuit_breaker_open_frame [frame]:
  "rz_in_use (fst (snd (circuit_breaker_open now r))) = rz_in_use r"
  "rz_capacity (fst (snd (circuit_breaker_open now r))) = rz_capacity r"
  "rz_threshold (fst (snd (circuit_breaker_open now r))) = rz_threshold r"
  "rz_cooldown (fst (snd (circuit_breaker_open now r))) = rz_cooldown r"
  by (auto simp: circuit_breaker_open_def Let_def)

lemma rz_step_ok: "rz_step r evs r' \<Longrightarrow> rz_ok r \<Longrightarrow> rz_ok r'"
  by (erule rz_stepE) (auto simp: rz_defs rz_ok_def split: if_splits select_case.splits)

lemma rz_run_ok: "rz_run r evs r' \<Longrightarrow> rz_ok r \<Longrightarrow> rz_ok r'"
  by (induction rule: rz_run.induct) (auto intro: rz_step_ok)

subsection \<open>The breaker gauge\<close>

text \<open>
  What a state-change observer last heard: its gauge, initially not open.
\<close>

fun gauge :: "bool \<Rightarrow> cb_event list \<Rightarrow> bool" where
  "gauge g [] = g"
| "gauge g (CircuitBreakerStateChange _ b # evs) = gauge b evs"
| "gauge g (_ # evs) = gauge g evs"

lemma gauge_append [simp]: "gauge g (xs @ ys) = gauge (gauge g xs) ys"
  by (induction g xs rule: gauge.induct) auto

text \<open>The breaker's visible state: tripped, with no recovery probe under way.\<close>

definition visibly_open :: "resilience \<Rightarrow> bool" where
  "visibly_open r = (rz_opened_at r \<noteq> None \<and> \<not> rz_probe r)"

fun trips :: "cb_event list \<Rightarrow> nat" where
  "trips [] = 0"
| "trips (CircuitBreakerTrip _ # evs) = Suc (trips evs)"
| "trips (_ # evs) = trips evs"

lemma trips_append [simp]: "trips (xs @ ys) = trips xs + trips ys"
  by (induction xs rule: trips.induct) auto

lemma rz_step_gauge:
  "rz_step r evs r' \<Longrightarrow> rz_ok r \<Longrightarrow> rz_observer r \<Longrightarrow>
   rz_observer r' \<and> gauge (visibly_open r) evs = visibly_open r'"
  by (erule rz_stepE)
    (auto simp: rz_defs rz_ok_def emit_def visibly_open_def record_judge_latency_def
       split: if_splits select_case.splits)

lemma rz_step_trips:
  "rz_step r evs r' \<Longrightarrow> rz_ok r \<Longrightarrow> rz_observer r \<Longrightarrow>
   trips evs = (if rz_opened_at r = None \<and> rz_opened_at r' \<noteq> None then 1 else 0)"
  by (erule rz_stepE)
    (auto simp: rz_defs rz_ok_def emit_def record_judge_latency_def split: if_splits select_case.splits)

subsection \<open>The limiter as an interface\<close>

text \<open>
  What an adapter relies on when it brackets a call: taking a slot adds one, the recording
  operations leave the slots alone, releasing gives one back, and the number in use never
  passes the capacity.
\<close>

locale limiter =
  fixes used :: "'s \<Rightarrow> nat" and cap :: "'s \<Rightarrow> nat"
    and take_slot :: "time \<Rightarrow> string \<Rightarrow> 's \<Rightarrow> go_error option \<times> 's \<times> cb_event list"
    and give :: "'s \<Rightarrow> 's"
    and quiet :: "('s \<Rightarrow> 's) \<Rightarrow> bool"
  assumes take_ok: "take_slot now name s = (None, s', evs) \<Longrightarrow> used s' = Suc (used s) \<and> used s < cap s"
    and take_err: "take_slot now name s = (Some e, s', evs) \<Longrightarrow> used s' = used s"
    and give_used: "used (give s) = used s - 1"
    and quiet_used: "quiet f \<Longrightarrow> used (f s) = used s"
begin

lemma bracket_balanced:
  assumes "take_slot now name s = (None, s', evs)" and "list_all quiet fs"
  shows "used (give (fold (\<lambda>f s. f s) fs s')) = used s"
proof -
  have "list_all quiet fs \<Longrightarrow> used (fold (\<lambda>f s. f s) fs x) = used x" for x
    by (induction fs arbitrary: x) (auto simp: quiet_used)
  with assms show ?thesis using take_ok by (simp add: give_used)
qed

end

interpretation rz: limiter rz_in_use rz_capacity try_acquire release
    "\<lambda>f. \<forall>r. rz_in_use (f r) = rz_in_use r"
  by unfold_locales (auto simp: rz_defs split: if_splits)

subsection \<open>Properties\<close>

lemma new_resilience_closed: "rz_opened_at (new_resilience opts) = None"
proof -
  have "rz_opened_at (apply_option opt r) = rz_opened_at r" for opt r
    by (cases opt) (auto simp: Let_def)
  then have "rz_opened_at (fold apply_option opts r) = rz_opened_at r" for r
    by (induction opts arbitrary: r) auto
  then show ?thesis by (simp add: new_resilience_def)
qed

text \<open>
  C10: whatever the interleaving of calls, at most \<open>MaxConcurrency\<close> slots are in use,
  and the breaker's bookkeeping is consistent: it has an opening time exactly when the
  failure count has reached the threshold, and a recovery probe only while it is tripped.
\<close>

theorem resilience_invariant:
  assumes "rz_run (new_resilience opts) evs r"
  shows "rz_in_use r \<le> max_concurrency r \<and>
    (rz_opened_at r \<noteq> None \<longleftrightarrow> rz_threshold r \<le> rz_failures r) \<and>
    (rz_probe r \<longrightarrow> rz_opened_at r \<noteq> None)"
  using rz_run_ok [OF assms rz_ok_new] unfolding rz_ok_def max_concurrency_def by auto

definition observed_breaker :: resilience where
  "observed_breaker = new_resilience [WithObserver True ''jev'', WithCircuitBreaker 1 5, WithMaxConcurrency 1]"

lemma observed_breaker_trip_run:
  "rz_run observed_breaker (snd (record_failure 7 observed_breaker)) (fst (record_failure 7 observed_breaker))"
  using run_step [OF run_start step_failure [of 7 observed_breaker "fst (record_failure 7 observed_breaker)"
      "snd (record_failure 7 observed_breaker)"]] by simp

theorem resilience_invariant_witness:
  "rz_in_use (fst (record_failure 7 observed_breaker)) \<le> max_concurrency (fst (record_failure 7 observed_breaker))"
  using resilience_invariant [OF observed_breaker_trip_run [unfolded observed_breaker_def]]
  by (simp add: observed_breaker_def)

text \<open>
  the observer's view never drifts. With an observer attached, in every run the last
  state change it heard says open exactly when the breaker is tripped with no probe under
  way, and it has been told of a trip exactly once per transition from closed to tripped.
\<close>

theorem observer_gauge_consistent:
  assumes "rz_run r0 evs r" and "rz_ok r0" and "rz_observer r0"
  shows "gauge (visibly_open r0) evs = visibly_open r"
proof -
  have "rz_observer r \<and> gauge (visibly_open r0) evs = visibly_open r"
    using assms
  proof (induction rule: rz_run.induct)
    case (run_step r evs r' evs' r'')
    moreover have "rz_ok r'" using run_step rz_run_ok by blast
    ultimately show ?case using rz_step_gauge [of r' evs' r''] by auto
  qed simp
  then show ?thesis ..
qed

theorem observer_gauge_consistent_witness:
  "gauge False (snd (record_failure 7 observed_breaker)) = visibly_open (fst (record_failure 7 observed_breaker))"
  using observer_gauge_consistent [OF observed_breaker_trip_run]
    rz_ok_new [of "[WithObserver True ''jev'', WithCircuitBreaker 1 5, WithMaxConcurrency 1]"]
  by (simp add: observed_breaker_def new_resilience_def visibly_open_def)

text \<open>
  a trip is reported once, on the edge. A step of any operation reports a trip exactly
  when it takes the breaker from closed to tripped; no step reports two.
\<close>

theorem trip_reported_on_edge:
  assumes "rz_step r evs r'" and "rz_ok r" and "rz_observer r"
  shows "trips evs = (if rz_opened_at r = None \<and> rz_opened_at r' \<noteq> None then 1 else 0)"
  using assms by (rule rz_step_trips)

theorem trip_reported_on_edge_witness:
  "trips (snd (record_failure 7 observed_breaker)) = 1"
  using trip_reported_on_edge [OF step_failure [of 7 observed_breaker "fst (record_failure 7 observed_breaker)"
      "snd (record_failure 7 observed_breaker)"]]
    rz_ok_new [of "[WithObserver True ''jev'', WithCircuitBreaker 1 5, WithMaxConcurrency 1]"]
  by (simp add: observed_breaker_def new_resilience_def record_failure_def Let_def)

text \<open>Consecutive checks with nothing recorded in between.\<close>

fun checks :: "time list \<Rightarrow> resilience \<Rightarrow> bool list \<times> resilience" where
  "checks [] r = ([], r)"
| "checks (t # ts) r =
     (let (isOpen, r1, _) = circuit_breaker_open t r; (os, r2) = checks ts r1 in (isOpen # os, r2))"

lemma checks_tripped_window:
  "rz_threshold r \<le> rz_failures r \<Longrightarrow> rz_opened_at r = Some t0 \<Longrightarrow>
   \<forall>t\<in>set ts. t - t0 < rz_cooldown r \<Longrightarrow> fst (checks ts r) = replicate (length ts) True \<and> snd (checks ts r) = r"
  by (induction ts) (auto simp: circuit_breaker_open_def cooldown_elapsed_def split: prod.splits)

text \<open>
  C23: a tripped breaker admits one probe per cooldown. Once a check at time \<open>t\<close> finds
  the cooldown over, that check is admitted and every later check before
  \<open>t + cooldown\<close> is refused, until an outcome is recorded.
\<close>

theorem one_probe_per_cooldown:
  assumes "rz_threshold r \<le> rz_failures r" and "cooldown_elapsed t r"
    and "\<forall>u\<in>set ts. u - t < rz_cooldown r"
  shows "fst (checks (t # ts) r) = False # replicate (length ts) True"
proof -
  let ?r = "r\<lparr>rz_opened_at := Some t, rz_probe := True\<rparr>"
  have "fst (checks ts ?r) = replicate (length ts) True"
    using assms checks_tripped_window [of ?r t ts] by simp
  then show ?thesis using assms(1,2)
    by (auto simp: circuit_breaker_open_def Let_def split: prod.splits)
qed

theorem one_probe_per_cooldown_witness:
  "fst (checks [12, 13, 16] (fst (record_failure 7 observed_breaker))) = [False, True, True]"
  using one_probe_per_cooldown [of "fst (record_failure 7 observed_breaker)" 12 "[13, 16]"]
  by (simp add: record_failure_def observed_breaker_def new_resilience_def Let_def cooldown_elapsed_def)

fun failures_at :: "time list \<Rightarrow> resilience \<Rightarrow> resilience" where
  "failures_at [] r = r"
| "failures_at (t # ts) r = failures_at ts (fst (record_failure t r))"

lemma failures_at_count:
  "rz_failures (failures_at ts r) = rz_failures r + int (length ts) \<and> rz_threshold (failures_at ts r) = rz_threshold r"
  by (induction ts arbitrary: r) (auto simp: record_failure_def Let_def)

lemma failures_at_ok: "rz_ok r \<Longrightarrow> rz_ok (failures_at ts r)"
proof (induction ts arbitrary: r)
  case (Cons t ts)
  have "rz_ok (fst (record_failure t r))"
    using rz_step_ok [OF step_failure [of t r "fst (record_failure t r)" "snd (record_failure t r)"]] Cons.prems
    by simp
  with Cons.IH show ?case by simp
qed simp

text \<open>
  consecutive failures trip the breaker, and a success resets it. From a closed state,
  as many failures as the threshold minus the current count leave it tripped, one fewer
  does not; after a success it is closed with a count of zero.
\<close>

theorem consecutive_failures_trip:
  assumes "rz_ok r"
  shows "(rz_opened_at (failures_at ts r) \<noteq> None \<longleftrightarrow> rz_threshold r \<le> rz_failures r + int (length ts)) \<and>
    rz_opened_at (fst (record_success (failures_at ts r))) = None \<and>
    rz_failures (fst (record_success (failures_at ts r))) = 0"
  using failures_at_ok [OF assms, of ts] failures_at_count [of ts r]
  by (auto simp: rz_ok_def record_success_def Let_def)

theorem consecutive_failures_trip_witness:
  "rz_opened_at (failures_at [1, 2, 3, 4, 5] (new_resilience [])) \<noteq> None \<and>
   rz_opened_at (failures_at [1, 2, 3, 4] (new_resilience [])) = None"
  using consecutive_failures_trip [OF rz_ok_new [of "[]"], of "[1, 2, 3, 4, 5]"]
    consecutive_failures_trip [OF rz_ok_new [of "[]"], of "[1, 2, 3, 4]"]
  by (simp add: new_resilience_def DefaultCircuitBreakerThreshold_def)

text \<open>
  a blocking acquire can strand the recovery probe. When the check hands out the probe
  and the context is cancelled while waiting for a slot, the call returns an error with no
  slot taken, the probe stays marked as under way, the observer has been told the breaker
  is not open, and every call until the next cooldown is refused.
\<close>

theorem acquire_strands_probe:
  assumes "rz_threshold r \<le> rz_failures r" and "cooldown_elapsed now r" and "\<not> rz_probe r"
    and "acquire now name (CtxDone e) r = (res, r', evs)"
  shows "res = Some e \<and> rz_in_use r' = rz_in_use r \<and> rz_probe r' \<and>
    evs = emit r [CircuitBreakerStateChange (provider_label r) False] \<and>
    (later - now < rz_cooldown r \<longrightarrow> fst (circuit_breaker_open later r'))"
  using assms by (auto simp: acquire_def circuit_breaker_open_def Let_def cooldown_elapsed_def)

theorem acquire_strands_probe_witness:
  "\<exists>r'. acquire 12 ''jev'' (CtxDone ''cancelled'') (fst (record_failure 7 observed_breaker)) =
     (Some ''cancelled'', r', [CircuitBreakerStateChange ''jev'' False]) \<and> rz_probe r'"
proof -
  let ?r = "fst (record_failure 7 observed_breaker)"
  obtain res r' evs where a: "acquire 12 ''jev'' (CtxDone ''cancelled'') ?r = (res, r', evs)"
    by (metis prod_cases3)
  have "rz_threshold ?r \<le> rz_failures ?r" "cooldown_elapsed 12 ?r" "\<not> rz_probe ?r"
    by (simp_all add: record_failure_def observed_breaker_def new_resilience_def Let_def cooldown_elapsed_def)
  from acquire_strands_probe [OF this a, of 13] a show ?thesis
    by (simp add: record_failure_def observed_breaker_def new_resilience_def Let_def emit_def provider_label_def)
qed

end
