(* ===== verification/Llm_Adapter.thy ===== *)
theory Llm_Adapter imports Llm_Format Resilience begin

text \<open>
  One completion call of each adapter (\<open>anthropic.go\<close>, \<open>openai.go\<close>,
  \<open>bedrock.go\<close>) on the shared breaker of \<open>Resilience\<close>. What the call meets
  outside the program is one record: the clock when it takes its slot and when it records its
  outcome, how the wait for a slot ended, whether the URL parses, what the HTTP client (or the
  AWS client) answers to the request it is sent, how long that took in nanoseconds, and the
  error texts of the JSON package.
\<close>

record outgoing =
  og_url :: string
  og_header :: header
  og_body :: string
  og_timeout :: int

datatype http_outcome = DoErr string | DoResp int string

record aws_error =
  ws_text :: string
  ws_validation :: "string option"

record call_env =
  ce_now :: time
  ce_select :: select_case
  ce_url_error :: "string \<Rightarrow> string option"
  ce_do :: "outgoing \<Rightarrow> http_outcome"
  ce_invoke :: "string \<Rightarrow> string \<Rightarrow> int \<Rightarrow> aws_error + string"
  ce_elapsed :: int
  ce_after :: time
  ce_marshal_error :: string
  ce_json_error :: "string \<Rightarrow> string"

record adapter =
  ac_api_key :: string
  ac_model :: string
  ac_base_url :: string
  ac_timeout :: int

type_synonym call_result = "(completion \<times> wrapped_error option) \<times> resilience \<times> cb_event list"

definition new_anthropic_adapter :: "string \<Rightarrow> string \<Rightarrow> int \<Rightarrow> go_error + adapter" where
  "new_anthropic_adapter model key timeout =
     (if key = [] then Inl ''anthropic API key is required''
      else Inr \<lparr>ac_api_key = key, ac_model = model, ac_base_url = ''https://api.anthropic.com'', ac_timeout = timeout\<rparr>)"

definition new_openai_adapter :: "string \<Rightarrow> string \<Rightarrow> int \<Rightarrow> go_error + adapter" where
  "new_openai_adapter model key timeout =
     (if key = [] then Inl ''openai API key is required''
      else Inr \<lparr>ac_api_key = key, ac_model = model, ac_base_url = ''https://api.openai.com'', ac_timeout = timeout\<rparr>)"

definition set_base_url :: "string \<Rightarrow> adapter \<Rightarrow> adapter" where
  "set_base_url u a = a\<lparr>ac_base_url := u\<rparr>"

definition model_id :: "adapter \<Rightarrow> string" where "model_id a = ac_model a"

definition default_timeout :: "int \<Rightarrow> int" where
  "default_timeout t = (if t = 0 then 30 * 1000000000 else t)"

definition default_max_tokens :: "int \<Rightarrow> int" where
  "default_max_tokens n = (if n = 0 then 512 else n)"

definition elapsed_ms :: "call_env \<Rightarrow> int" where
  "elapsed_ms env = ce_elapsed env div 1000000"

subsection \<open>Requests\<close>

definition system_member :: "llm_request \<Rightarrow> (string \<times> json) list" where
  "system_member q =
     (if lq_system q = [] then []
      else [(''system'',
             if lq_cache_system_prompt q then
               JArr [json_map
                 [(''type'', JStr ''text''), (''text'', JStr (lq_system q)),
                  (''cache_control'', json_map [(''type'', JStr ''ephemeral'')])]]
             else JStr (lq_system q))])"

definition tools_member :: "json list option \<Rightarrow> llm_request \<Rightarrow> (string \<times> json) list option" where
  "tools_member tools q =
     (if lq_tools q = [] then Some [] else map_option (\<lambda>ts. [(''tools'', JArr ts)]) tools)"

text \<open>The marshalled request body, \<open>None\<close> when it cannot be marshalled.\<close>

definition anthropic_body :: "adapter \<Rightarrow> llm_request \<Rightarrow> string option" where
  "anthropic_body a q =
     (case those (map build_anthropic_message (lq_messages q)) of
        None \<Rightarrow> None
      | Some msgs \<Rightarrow>
          map_option
            (\<lambda>tools. json_text (json_map
              ([(''model'', JStr (ac_model a)), (''max_tokens'', json_int (default_max_tokens (lq_max_tokens q))),
                (''messages'', JArr msgs)] @ system_member q @ tools)))
            (tools_member (build_anthropic_tools (lq_tools q)) q))"

definition bedrock_body :: "llm_request \<Rightarrow> string option" where
  "bedrock_body q =
     (case those (map build_anthropic_message (lq_messages q)) of
        None \<Rightarrow> None
      | Some msgs \<Rightarrow>
          map_option
            (\<lambda>tools. json_text (json_map
              ([(''anthropic_version'', JStr ''bedrock-2023-05-31''),
                (''max_tokens'', json_int (default_max_tokens (lq_max_tokens q))),
                (''messages'', JArr msgs)] @ system_member q @ tools)))
            (tools_member (build_anthropic_tools (lq_tools q)) q))"

definition openai_body :: "adapter \<Rightarrow> llm_request \<Rightarrow> string option" where
  "openai_body a q =
     map_option
       (\<lambda>tools. json_text (json_map
         ([(''model'', JStr (ac_model a)),
           (''max_completion_tokens'', json_int (default_max_tokens (lq_max_tokens q))),
           (''messages'', JArr (build_openai_messages (lq_system q) (lq_messages q)))] @ tools)))
       (tools_member (build_openai_tools (lq_tools q)) q)"

subsection \<open>Calls\<close>

definition failed :: "string \<Rightarrow> completion \<times> wrapped_error option" where
  "failed msg = (empty_completion, Some (plain_error msg))"

text \<open>
  What follows the answer of the HTTP client: the latency sample, and the outcome for the
  breaker.
\<close>

definition api_error :: "string \<Rightarrow> int \<Rightarrow> string \<Rightarrow> wrapped_error" where
  "api_error name code body =
     (let msg = name @ '' API error (status '' @ itoa code @ ''): '' @ body in
      if code = 400 \<and> bodyIndicatesContextLength body
      then \<lparr>we_text = msg @ '': model context length exceeded'', we_wraps = [ErrContextLength]\<rparr>
      else plain_error msg)"

definition finish_http ::
    "string \<Rightarrow> (string \<Rightarrow> completion \<times> wrapped_error option) \<Rightarrow> adapter \<Rightarrow> call_env \<Rightarrow> http_outcome \<Rightarrow>
     resilience \<Rightarrow> call_result" where
  "finish_http name parse a env out r =
     (let ms = elapsed_ms env; lat = record_judge_latency (ac_model a) (ce_elapsed env) r in
      case out of
        DoErr e \<Rightarrow>
          (let (r1, evs) = record_failure (ce_after env) r in
           ((empty_completion\<lparr>co_duration_ms := ms\<rparr>, Some (plain_error (name @ '' request failed: '' @ e))), r1, lat @ evs))
      | DoResp code body \<Rightarrow>
          if code \<noteq> 200 then
            (let (r1, evs) = record_failure (ce_after env) r in
             ((empty_completion\<lparr>co_duration_ms := ms\<rparr>, Some (api_error name code body)), r1, lat @ evs))
          else
            (let (c, perr) = parse body in
             case perr of
               Some e \<Rightarrow>
                 (let (r1, evs) = record_failure (ce_after env) r in
                  ((c\<lparr>co_duration_ms := ms\<rparr>, Some e), r1, lat @ evs))
             | None \<Rightarrow>
                 (let (r1, evs) = record_success r in
                  ((c\<lparr>co_duration_ms := ms\<rparr>, None), r1, lat @ evs))))"

text \<open>
  The slot is taken first and given back when the function returns, on every path after it
  was taken. A request that cannot be marshalled, or whose URL does not parse, records
  nothing.
\<close>

definition with_slot ::
    "string \<Rightarrow> call_env \<Rightarrow> (resilience \<Rightarrow> call_result) \<Rightarrow> resilience \<Rightarrow> call_result" where
  "with_slot name env body r =
     (let (err, r1, evs) = acquire (ce_now env) name (ce_select env) r in
      case err of
        Some e \<Rightarrow> (failed e, r1, evs)
      | None \<Rightarrow> (let (res, r2, evs2) = body r1 in (res, release r2, evs @ evs2)))"

text \<open>The steps between taking the slot and the answer, as both HTTP adapters write them.\<close>

definition http_call ::
    "string \<Rightarrow> (string \<Rightarrow> completion \<times> wrapped_error option) \<Rightarrow> adapter \<Rightarrow> call_env \<Rightarrow> string \<Rightarrow> header \<Rightarrow>
     string option \<Rightarrow> resilience \<Rightarrow> call_result" where
  "http_call name parse a env url h body r =
     (case body of
        None \<Rightarrow> (failed (''failed to marshal request: '' @ ce_marshal_error env), r, [])
      | Some b \<Rightarrow>
          (case ce_url_error env url of
             Some e \<Rightarrow> (failed (''failed to create request: '' @ e), r, [])
           | None \<Rightarrow>
               finish_http name parse a env
                 (ce_do env \<lparr>og_url = url, og_header = h, og_body = b, og_timeout = default_timeout (ac_timeout a)\<rparr>) r))"

definition anthropic_complete :: "adapter \<Rightarrow> call_env \<Rightarrow> llm_request \<Rightarrow> resilience \<Rightarrow> call_result" where
  "anthropic_complete a env q =
     with_slot ''anthropic'' env
       (http_call ''anthropic'' (parse_anthropic_response_stream (ce_json_error env)) a env
          (ac_base_url a @ ''/v1/messages'')
          [(''Content-Type'', [''application/json'']), (''X-Api-Key'', [ac_api_key a]),
           (''Anthropic-Version'', [''2023-06-01''])]
          (anthropic_body a q))"

definition openai_complete :: "adapter \<Rightarrow> call_env \<Rightarrow> llm_request \<Rightarrow> resilience \<Rightarrow> call_result" where
  "openai_complete a env q =
     with_slot ''openai'' env
       (http_call ''openai'' (parse_openai_response_stream (ce_json_error env)) a env
          (ac_base_url a @ ''/v1/chat/completions'')
          [(''Content-Type'', [''application/json'']), (''Authorization'', [''Bearer '' @ ac_api_key a])]
          (openai_body a q))"

definition is_bedrock_context_length_error :: "aws_error \<Rightarrow> bool" where
  "is_bedrock_context_length_error e =
     (case ws_validation e of Some msg \<Rightarrow> bodyIndicatesContextLength msg | None \<Rightarrow> False)"

definition finish_bedrock :: "adapter \<Rightarrow> call_env \<Rightarrow> aws_error + string \<Rightarrow> resilience \<Rightarrow> call_result" where
  "finish_bedrock a env out r =
     (let ms = elapsed_ms env; lat = record_judge_latency (ac_model a) (ce_elapsed env) r in
      case out of
        Inl e \<Rightarrow>
          (let (r1, evs) = record_failure (ce_after env) r; msg = ''bedrock invoke failed: '' @ ws_text e in
           ((empty_completion\<lparr>co_duration_ms := ms\<rparr>,
             Some (if is_bedrock_context_length_error e
                   then \<lparr>we_text = msg @ '': model context length exceeded'', we_wraps = [ErrContextLength]\<rparr>
                   else plain_error msg)), r1, lat @ evs))
      | Inr body \<Rightarrow>
          (let (c, perr) = parse_anthropic_response (ce_json_error env) body in
           case perr of
             Some e \<Rightarrow>
               (let (r1, evs) = record_failure (ce_after env) r in ((c\<lparr>co_duration_ms := ms\<rparr>, Some e), r1, lat @ evs))
           | None \<Rightarrow>
               (let (r1, evs) = record_success r in ((c\<lparr>co_duration_ms := ms\<rparr>, None), r1, lat @ evs))))"

definition bedrock_complete :: "adapter \<Rightarrow> call_env \<Rightarrow> llm_request \<Rightarrow> resilience \<Rightarrow> call_result" where
  "bedrock_complete a env q =
     with_slot ''bedrock'' env
       (\<lambda>r. case bedrock_body q of
          None \<Rightarrow> (failed (''failed to marshal request: '' @ ce_marshal_error env), r, [])
        | Some body \<Rightarrow>
            finish_bedrock a env (ce_invoke env (ac_model a) body (default_timeout (ac_timeout a))) r)"

end
