(* ===== verification/Json_Props.thy ===== *)
theory Json_Props imports Json begin

text \<open>
  What is printed is parsed again: the string and value round trips of \<open>Json\<close>. The string
  lemma is the security property of every place that puts untrusted text into a JSON string.
\<close>

subsection \<open>Strings\<close>

lemma hex_val_digit_char: "k < 16 \<Longrightarrow> hex_val (digit_char k) = Some k"
  by (simp add: hex_val_def digit_char_def of_char_char_of_small Let_def)

lemma nibbles:
  fixes n :: nat
  assumes "n < 65536"
  shows "4096 * (n div 4096 mod 16) + 256 * (n div 256 mod 16) + 16 * (n div 16 mod 16) + n mod 16 = n"
proof -
  let ?a = "n div 16" and ?b = "n div 16 div 16" and ?c = "n div 16 div 16 div 16"
  have d: "n div 256 = ?b" "n div 4096 = ?c" by (simp_all flip: div_mult2_eq)
  have c: "?c mod 16 = ?c" using assms by (simp flip: div_mult2_eq)
  have horner: "4096 * k + 256 * z + 16 * y + x = m"
    if "16 * i + x = m" "16 * j + y = i" "16 * k + z = j" for i j k x y z m :: nat
    using that by simp
  show ?thesis unfolding d c by (rule horner) (rule mult_div_mod_eq)+
qed

lemma hex4_value_hex4: "n < 65536 \<Longrightarrow> hex4_value (hex4 n @ t) = Some n"
  using nibbles [of n] by (simp add: hex4_value_def hex4_def hex_val_digit_char)

lemma u_rune_hex4:
  assumes "n < 65536" "\<not> (0xD800 \<le> n \<and> n < 0xE000)"
  shows "u_rune (hex4 n @ t) = Some (utf8_encode n, t)"
proof -
  have d: "drop 4 (hex4 n @ t) = t" by (simp add: hex4_def)
  have "u_rune (hex4 n @ t) = Some (utf8_encode n, drop 4 (hex4 n @ t))"
    using assms(2) by (simp only: u_rune_def hex4_value_hex4 [OF assms(1)] option.case Let_def if_False)
  then show ?thesis by (simp only: d)
qed

lemma string_unit_u_escape:
  assumes "n < 65536" "\<not> (0xD800 \<le> n \<and> n < 0xE000)"
  shows "string_unit (u_escape n @ t) = Some (utf8_encode n, t)"
  using u_rune_hex4 [OF assms, of t] by (simp add: string_unit_def u_escape_def)

lemma rune_len_take: "rune_len s \<noteq> 0 \<Longrightarrow> rune_len (take (rune_len s) s) = rune_len s"
proof -
  assume n: "rune_len s \<noteq> 0"
  have split4: "s = [] \<or> (\<exists>a. s = [a]) \<or> (\<exists>a b. s = [a, b]) \<or> (\<exists>a b c. s = [a, b, c]) \<or> (\<exists>a b c d u. s = a # b # c # d # u)"
    by (metis neq_Nil_conv)
  show ?thesis
    using split4
  proof (elim disjE exE)
    show ?thesis if "s = []" using that n by (simp add: rune_len_def)
    show ?thesis if "s = [a]" for a using that n by (simp add: rune_len_def split: if_split_asm)
    show ?thesis if "s = [a, b]" for a b using that n by (simp add: rune_len_def split: if_split_asm)
    show ?thesis if "s = [a, b, c]" for a b c using that n by (simp add: rune_len_def split: if_split_asm)
    show ?thesis if "s = a # b # c # d # u" for a b c d u
      using that n by (simp add: rune_len_def split: if_split_asm)
  qed
qed

lemma rune_head_high:
  "rune_len s \<noteq> 0 \<Longrightarrow> rune_len s \<noteq> 1 \<Longrightarrow> s \<noteq> [] \<and> 128 \<le> (of_char (hd s) :: nat)"
proof -
  assume n: "rune_len s \<noteq> 0" "rune_len s \<noteq> 1"
  then have s: "s \<noteq> []" by (auto simp: rune_len_def)
  have "\<not> byte_in 0 0x7F (hd s)"
    using n(2) rune_len_ascii [of "hd s" "tl s"] s by auto
  then show ?thesis using s by (simp add: byte_in_def)
qed

lemma string_unit_ascii:
  assumes "byte_in 0 0x7F c"
  shows "string_unit (escape_ascii c @ t) = Some ([c], t)"
proof -
  have c: "(of_char c :: nat) < 128" using assms by (simp add: byte_in_def)
  have enc: "utf8_encode (of_char c) = [c]" using c by (simp add: utf8_encode_def)
  show ?thesis
  proof (cases "(of_char c :: nat) < 32 \<or> html_byte c")
    case False
    then show ?thesis
      using assms by (auto simp: escape_ascii_def string_unit_def simple_escape_def char_eq_of_char take_rune_def Let_def
          rune_len_ascii byte_in_def)
  next
    case True
    then show ?thesis
      using c string_unit_u_escape [of "of_char c" t] enc
      by (auto simp: escape_ascii_def string_unit_def simple_escape_def char_eq_of_char html_byte_def Let_def)
  qed
qed

lemma escape_ascii_head: "escape_ascii c \<noteq> [] \<and> hd (escape_ascii c) \<noteq> CHR 0x22"
  by (simp add: escape_ascii_def u_escape_def Let_def char_eq_of_char)

lemma take_high_rune:
  assumes "rune_len s \<noteq> 0" "rune_len s \<noteq> 1"
  obtains c u where "take (rune_len s) s = c # u" "128 \<le> (of_char c :: nat)"
proof -
  from rune_head_high [OF assms] obtain c v where s: "s = c # v" and c: "128 \<le> (of_char c :: nat)"
    by (cases s) auto
  from s assms(1) have "take (rune_len s) s = c # take (rune_len s - 1) v" by (cases "rune_len s") auto
  with c show thesis by (rule that [rotated])
qed

lemma string_unit_rune:
  assumes "rune_len s \<noteq> 0" "rune_len s \<noteq> 1"
  shows "string_unit (take (rune_len s) s @ t) = Some (take (rune_len s) s, t)"
proof -
  let ?r = "take (rune_len s) s"
  have l: "length ?r = rune_len s" using rune_len_bound [of s] by simp
  have "rune_len (?r @ t) = rune_len s"
    using rune_len_append [of ?r t] rune_len_take [OF assms(1)] assms(1) by simp
  with assms(1) l have "take_rune (?r @ t) = (?r, t)" by (simp add: take_rune_def)
  moreover obtain c u where r: "?r = c # u" "128 \<le> (of_char c :: nat)" by (rule take_high_rune [OF assms])
  ultimately show ?thesis unfolding r(1) using r(2) by (simp add: string_unit_def char_eq_of_char byte_in_def)
qed

lemma line_separator_code:
  assumes "line_separator r"
  shows "utf8_encode (if r ! 2 = CHR 0xA8 then 0x2028 else 0x2029) = r"
proof -
  have v: "utf8_encode 0x2028 = [CHR 0xE2, CHR 0x80, CHR 0xA8]" "utf8_encode 0x2029 = [CHR 0xE2, CHR 0x80, CHR 0xA9]"
    by (simp_all add: utf8_encode_def char_eq_of_char of_char_char_of_small)
  show ?thesis using assms by (auto simp: line_separator_def v)
qed

lemma string_unit_escape_rune:
  assumes "s \<noteq> []"
  shows "string_unit (escape_rune s @ t) = Some (fst (take_rune s), t)"
proof (cases "rune_len s = 0")
  case True
  have "utf8_encode 0xFFFD = replacement"
    by (simp add: utf8_encode_def replacement_def char_eq_of_char of_char_char_of_small)
  with True string_unit_u_escape [of "0xFFFD" t] show ?thesis by (simp add: escape_rune_def take_rune_def)
next
  case valid: False
  show ?thesis
  proof (cases "rune_len s = 1")
    case True
    with assms obtain c v where s: "s = c # v" and c: "byte_in 0 0x7F c"
      using rune_len_one by (cases s) auto
    with True string_unit_ascii [OF c] show ?thesis by (simp add: escape_rune_def take_rune_def)
  next
    case False
    let ?r = "take (rune_len s) s"
    show ?thesis
    proof (cases "line_separator ?r")
      case True
      with valid False line_separator_code [OF True] string_unit_u_escape [of "if ?r ! 2 = CHR 0xA8 then 0x2028 else 0x2029" t]
      show ?thesis by (simp add: escape_rune_def take_rune_def Let_def)
    next
      case plain: False
      with valid False string_unit_rune [OF valid False] show ?thesis
        by (simp add: escape_rune_def take_rune_def Let_def)
    qed
  qed
qed

lemma escape_rune_head: "escape_rune s @ t \<noteq> [] \<and> hd (escape_rune s @ t) \<noteq> CHR 0x22"
proof (cases "rune_len s = 0 \<or> rune_len s = 1 \<or> line_separator (take (rune_len s) s)")
  case True
  then show ?thesis using escape_ascii_head [of "hd s"] by (auto simp: escape_rune_def u_escape_def Let_def)
next
  case False
  then obtain c u where "take (rune_len s) s = c # u" "128 \<le> (of_char c :: nat)"
    using take_high_rune by blast
  with False show ?thesis by (simp add: escape_rune_def Let_def char_eq_of_char)
qed

text \<open>
  The body of a printed string is read back up to its closing quote, with invalid bytes
  replaced, whatever the string and whatever follows.
\<close>

lemma parse_str_escape: "parse_str (json_escape s @ CHR 0x22 # rest) = Some (to_valid s, rest)"
proof (induction s rule: json_escape.induct)
  case (1 s)
  show ?case
  proof (cases "s = []")
    case True
    then show ?thesis by (simp add: json_escape.simps [of "[]"] parse_str.simps [of "CHR 0x22 # rest"])
  next
    case False
    let ?t = "json_escape (snd (take_rune s)) @ CHR 0x22 # rest"
    have "json_escape s @ CHR 0x22 # rest = escape_rune s @ ?t"
      using False by (simp add: json_escape.simps [of s])
    moreover have "parse_str (escape_rune s @ ?t) = map_option (\<lambda>(u, r). (fst (take_rune s) @ u, r)) (parse_str ?t)"
      using escape_rune_head [of s ?t]
      by (subst parse_str.simps) (simp add: string_unit_escape_rune [OF False])
    ultimately show ?thesis
      using "1.IH" [OF False] False by (simp add: to_valid.simps [of s])
  qed
qed

subsection \<open>Values\<close>

text \<open>
  A value is well formed when its numbers are; what parsing gives back is the value with
  the invalid bytes of its strings replaced. The fuel a value needs counts its nodes and
  separators and is at most twice the length of its text.
\<close>

fun json_wf :: "json \<Rightarrow> bool" where
  "json_wf (JNum n) = valid_num n"
| "json_wf (JArr vs) = list_all json_wf vs"
| "json_wf (JObj kvs) = list_all (\<lambda>(k, v). json_wf v) kvs"
| "json_wf v = True"

fun json_norm :: "json \<Rightarrow> json" where
  "json_norm (JStr s) = JStr (to_valid s)"
| "json_norm (JArr vs) = JArr (map json_norm vs)"
| "json_norm (JObj kvs) = JObj (map (\<lambda>(k, v). (to_valid k, json_norm v)) kvs)"
| "json_norm v = v"

fun json_fuel :: "json \<Rightarrow> nat" where
  "json_fuel (JArr vs) = Suc (sum_list (map (\<lambda>v. Suc (json_fuel v)) vs))"
| "json_fuel (JObj kvs) = Suc (sum_list (map (\<lambda>(k, v). Suc (json_fuel v)) kvs))"
| "json_fuel v = 1"

definition value_start :: "char \<Rightarrow> bool" where
  "value_start c = (c \<in> {CHR 0x22, CHR ''['', CHR ''{'', CHR ''t'', CHR ''f'', CHR ''n'', CHR ''-''} \<or> is_digit c)"

lemma value_start_not:
  "value_start c \<Longrightarrow> \<not> is_ws c \<and> c \<noteq> CHR '']'' \<and> c \<noteq> CHR ''}''"
  by (auto simp: value_start_def is_ws_def is_digit_def char_eq_of_char)

lemma num_chars_digits: "list_all is_digit t \<Longrightarrow> list_all num_char t"
  by (auto simp: list_all_iff num_char_def)

lemma num_chars_after_digits: "list_all num_char (dropWhile is_digit t) \<Longrightarrow> list_all num_char t"
proof -
  assume d: "list_all num_char (dropWhile is_digit t)"
  have "list_all num_char (takeWhile is_digit t)"
    by (rule num_chars_digits) (auto simp: list_all_iff dest: set_takeWhileD)
  with d have "list_all num_char (takeWhile is_digit t @ dropWhile is_digit t)" by (simp del: takeWhile_dropWhile_id)
  then show ?thesis by simp
qed

lemma num_chars_step:
  "list_all num_char (tl t) \<Longrightarrow> t \<noteq> [] \<Longrightarrow> hd t \<in> set ''+-.eE'' \<Longrightarrow> list_all num_char t"
  by (cases t) (auto simp: num_char_def)

lemma valid_exp_chars: "valid_exp s \<Longrightarrow> list_all num_char s"
proof (cases "s = []")
  case False
  assume v: "valid_exp s"
  have "list_all num_char (tl s)"
  proof (cases "tl s \<noteq> [] \<and> hd (tl s) \<in> {CHR ''+'', CHR ''-''}")
    case True
    with v False have "list_all is_digit (tl (tl s))" by (simp add: valid_exp_def Let_def)
    with True show ?thesis by (auto intro: num_chars_step num_chars_digits)
  next
    case plain: False
    with v False have "list_all is_digit (tl s)" by (auto simp: valid_exp_def Let_def split: if_split_asm)
    then show ?thesis by (rule num_chars_digits)
  qed
  moreover have "hd s \<in> set ''+-.eE''" using v False by (auto simp: valid_exp_def)
  ultimately show ?thesis using False by (metis num_chars_step)
qed simp

lemma valid_frac_chars: "valid_frac s \<Longrightarrow> list_all num_char s"
proof (cases "s \<noteq> [] \<and> hd s = CHR ''.''")
  case True
  assume "valid_frac s"
  with True have "list_all num_char (tl s)"
    by (auto simp: valid_frac_def intro: num_chars_after_digits [OF valid_exp_chars])
  with True show ?thesis by (auto intro: num_chars_step)
next
  case False
  assume "valid_frac s"
  with False show ?thesis by (auto simp: valid_frac_def intro: valid_exp_chars)
qed

lemma valid_num_chars: "valid_num n \<Longrightarrow> list_all num_char n"
proof -
  assume "valid_num n"
  then have "list_all num_char (strip_minus n)"
    by (auto simp: valid_num_def intro: num_chars_after_digits [OF valid_frac_chars])
  then show ?thesis
    by (cases "n \<noteq> [] \<and> hd n = CHR ''-''") (auto simp: strip_minus_def intro: num_chars_step)
qed

lemma valid_num_start: "valid_num n \<Longrightarrow> \<exists>c u. n = c # u \<and> (c = CHR ''-'' \<or> is_digit c)"
proof -
  assume "valid_num n"
  then have "takeWhile is_digit (strip_minus n) \<noteq> []" by (simp add: valid_num_def valid_int_part_def)
  then show ?thesis by (cases n) (auto simp: strip_minus_def split: if_split_asm)
qed

lemma json_text_start: "json_wf v \<Longrightarrow> \<exists>c u. json_text v = c # u \<and> value_start c"
proof (cases v)
  case (JNum n)
  assume "json_wf v"
  with JNum valid_num_start [of n] show ?thesis by (auto simp: value_start_def)
qed (auto simp: value_start_def json_string_def)

lemma skip_ws_start [simp]: "value_start c \<Longrightarrow> skip_ws (c # u) = c # u"
  using value_start_not by (simp add: skip_ws_def)

lemma skip_ws_text [simp]: "json_wf v \<Longrightarrow> skip_ws (json_text v @ rest) = json_text v @ rest"
  using json_text_start [of v] by auto

definition no_num :: "string \<Rightarrow> bool" where
  "no_num s = (s = [] \<or> \<not> num_char (hd s))"

lemma parse_number:
  assumes "valid_num t" "no_num rest"
  shows "parse_value (Suc n) (t @ rest) = Some (JNum t, rest)"
proof -
  from valid_num_start [OF assms(1)] obtain c u where t: "t = c # u" and c: "c = CHR ''-'' \<or> is_digit c" by blast
  have all: "\<forall>x\<in>set t. num_char x" using valid_num_chars [OF assms(1)] by (simp add: list_all_iff)
  have tw: "takeWhile num_char (t @ rest) = t" "dropWhile num_char (t @ rest) = rest"
    using all assms(2) by (cases rest; simp add: no_num_def takeWhile_append2)+
  have "skip_ws (t @ rest) = t @ rest" using t c by (auto simp: value_start_def)
  moreover have "c \<noteq> CHR 0x22 \<and> c \<noteq> CHR ''['' \<and> c \<noteq> CHR ''{'' \<and> c \<noteq> CHR ''t'' \<and> c \<noteq> CHR ''f'' \<and> c \<noteq> CHR ''n''"
    using c by (auto simp: is_digit_def char_eq_of_char)
  ultimately show ?thesis using t tw assms(1) by (simp add: Let_def)
qed

lemma parse_elems_text:
  assumes "vs \<noteq> []" and "list_all json_wf vs"
    and "\<And>v n rest. v \<in> set vs \<Longrightarrow> json_fuel v \<le> n \<Longrightarrow> no_num rest \<Longrightarrow>
           parse_value n (json_text v @ rest) = Some (json_norm v, rest)"
    and "sum_list (map (\<lambda>v. Suc (json_fuel v)) vs) \<le> n"
  shows "parse_elems n (join (map json_text vs) '','' @ CHR '']'' # rest) = Some (map json_norm vs, rest)"
  using assms
proof (induction vs arbitrary: n rule: list_nonempty_induct)
  case (single v)
  then obtain m where n: "n = Suc m" "json_fuel v \<le> m" by (cases n) auto
  have "no_num (CHR '']'' # rest)" by (simp add: no_num_def num_char_def is_digit_def)
  with n single.prems(2) show ?case by (simp add: skip_ws_def is_ws_def)
next
  case (cons v vs)
  then obtain m where n: "n = Suc m" "json_fuel v \<le> m" "sum_list (map (\<lambda>v. Suc (json_fuel v)) vs) \<le> m"
    by (cases n) auto
  let ?rest = "CHR '','' # join (map json_text vs) '','' @ CHR '']'' # rest"
  have "join (map json_text (v # vs)) '','' = json_text v @ CHR '','' # join (map json_text vs) '',''"
    using cons.hyps by (cases vs) auto
  then have split: "join (map json_text (v # vs)) '','' @ CHR '']'' # rest = json_text v @ ?rest" by simp
  have "parse_value m (json_text v @ ?rest) = Some (json_norm v, ?rest)"
    using cons.prems(2) n(2) by (simp add: no_num_def num_char_def is_digit_def)
  moreover have "parse_elems m (join (map json_text vs) '','' @ CHR '']'' # rest) = Some (map json_norm vs, rest)"
    using cons.prems n(3) by (intro cons.IH) auto
  ultimately show ?case unfolding split n(1) by (simp add: skip_ws_def is_ws_def)
qed

abbreviation member_text :: "string \<times> json \<Rightarrow> string" where
  "member_text \<equiv> \<lambda>(k, v). json_string k @ '':'' @ json_text v"

lemma parse_members_text:
  assumes "kvs \<noteq> []" and "list_all (\<lambda>(k, v). json_wf v) kvs"
    and "\<And>k v n rest. (k, v) \<in> set kvs \<Longrightarrow> json_fuel v \<le> n \<Longrightarrow> no_num rest \<Longrightarrow>
           parse_value n (json_text v @ rest) = Some (json_norm v, rest)"
    and "sum_list (map (\<lambda>(k, v). Suc (json_fuel v)) kvs) \<le> n"
  shows "parse_members n (join (map member_text kvs) '','' @ CHR ''}'' # rest) =
    Some (map (\<lambda>(k, v). (to_valid k, json_norm v)) kvs, rest)"
  using assms
proof (induction kvs arbitrary: n rule: list_nonempty_induct)
  case (single kv)
  obtain k v where kv: "kv = (k, v)" by (cases kv)
  with single.prems obtain m where n: "n = Suc m" "json_fuel v \<le> m" by (cases n) auto
  have "no_num (CHR ''}'' # rest)" by (simp add: no_num_def num_char_def is_digit_def)
  with n single.prems(2) kv show ?case
    by (simp add: skip_ws_def is_ws_def json_string_def parse_str_escape)
next
  case (cons kv kvs)
  obtain k v where kv: "kv = (k, v)" by (cases kv)
  with cons.prems obtain m where n: "n = Suc m" "json_fuel v \<le> m"
    "sum_list (map (\<lambda>(k, v). Suc (json_fuel v)) kvs) \<le> m"
    by (cases n) auto
  let ?rest = "CHR '','' # join (map member_text kvs) '','' @ CHR ''}'' # rest"
  have "join (map member_text (kv # kvs)) '','' = member_text kv @ CHR '','' # join (map member_text kvs) '',''"
    using cons.hyps by (cases kvs) auto
  then have split: "join (map member_text (kv # kvs)) '','' @ CHR ''}'' # rest =
      CHR 0x22 # json_escape k @ CHR 0x22 # CHR '':'' # json_text v @ ?rest"
    by (simp add: kv json_string_def)
  have "parse_value m (json_text v @ ?rest) = Some (json_norm v, ?rest)"
    using cons.prems(2) [of k v m ?rest] n(2) kv by (simp add: no_num_def num_char_def is_digit_def)
  moreover have "parse_members m (join (map member_text kvs) '','' @ CHR ''}'' # rest) =
      Some (map (\<lambda>(k, v). (to_valid k, json_norm v)) kvs, rest)"
    using cons.prems n(3) by (intro cons.IH) auto
  ultimately show ?case
    unfolding split n(1) by (simp add: skip_ws_def is_ws_def parse_str_escape kv)
qed

lemma parse_value_text:
  "json_wf v \<Longrightarrow> json_fuel v \<le> n \<Longrightarrow> no_num rest \<Longrightarrow>
   parse_value n (json_text v @ rest) = Some (json_norm v, rest)"
proof (induction v arbitrary: n rest rule: json.induct)
  case JNull
  then show ?case by (cases n) (auto simp: skip_ws_def is_ws_def)
next
  case (JBool b)
  then show ?case by (cases n) (auto simp: skip_ws_def is_ws_def)
next
  case (JNum t)
  then show ?case using parse_number [of t rest] by (cases n) auto
next
  case (JStr s)
  then show ?case by (cases n) (auto simp: skip_ws_def is_ws_def json_string_def parse_str_escape)
next
  case (JArr vs)
  then obtain m where n: "n = Suc m" "sum_list (map (\<lambda>v. Suc (json_fuel v)) vs) \<le> m" by (cases n) auto
  show ?case
  proof (cases "vs = []")
    case True
    then show ?thesis using n by (simp add: skip_ws_def is_ws_def)
  next
    case False
    from JArr.prems have wf: "list_all json_wf vs" by simp
    have parts: "parse_elems m (join (map json_text vs) '','' @ CHR '']'' # rest) = Some (map json_norm vs, rest)"
      using JArr.IH wf n(2) by (intro parse_elems_text [OF False]) (auto simp: list_all_iff)
    obtain c u where c: "join (map json_text vs) '','' @ CHR '']'' # rest = c # u" "value_start c"
      using False wf json_text_start by (cases vs rule: remdups_adj.cases) fastforce+
    with parts value_start_not [OF c(2)] show ?thesis
      unfolding n(1) by (simp add: skip_ws_def is_ws_def)
  qed
next
  case (JObj kvs)
  then obtain m where n: "n = Suc m" "sum_list (map (\<lambda>(k, v). Suc (json_fuel v)) kvs) \<le> m" by (cases n) auto
  show ?case
  proof (cases "kvs = []")
    case True
    then show ?thesis using n by (simp add: skip_ws_def is_ws_def)
  next
    case False
    from JObj.prems have wf: "list_all (\<lambda>(k, v). json_wf v) kvs" by simp
    have parts: "parse_members m (join (map member_text kvs) '','' @ CHR ''}'' # rest) =
        Some (map (\<lambda>(k, v). (to_valid k, json_norm v)) kvs, rest)"
      using JObj.IH wf n(2) by (intro parse_members_text [OF False]) (auto simp: list_all_iff)
    obtain u where c: "join (map member_text kvs) '','' @ CHR ''}'' # rest = CHR 0x22 # u"
      using False by (cases kvs rule: remdups_adj.cases) (auto simp: json_string_def)
    with parts show ?thesis unfolding n(1) by (simp add: skip_ws_def is_ws_def)
  qed
qed

lemma sum_list_join:
  "\<forall>x\<in>set xs. f x \<le> 2 * length (g x) \<Longrightarrow> sum_list (map f xs) \<le> 2 * length (join (map g xs) sep)"
  by (induction xs rule: induct_list012) auto

lemma json_fuel_text: "json_wf v \<Longrightarrow> Suc (json_fuel v) \<le> 2 * length (json_text v)"
proof (induction v rule: json_wf.induct)
  case (1 n)
  then show ?case using valid_num_start [of n] by auto
next
  case (2 vs)
  have "sum_list (map (\<lambda>v. Suc (json_fuel v)) vs) \<le> 2 * length (join (map json_text vs) '','')"
    using 2 by (intro sum_list_join) (auto simp: list_all_iff)
  then show ?case by simp
next
  case (3 kvs)
  have "Suc (json_fuel v) \<le> 2 * length (json_text v)" if "(k, v) \<in> set kvs" for k v
    using 3 that by (force simp: list_all_iff)
  then have "sum_list (map (\<lambda>(k, v). Suc (json_fuel v)) kvs) \<le> 2 * length (join (map member_text kvs) '','')"
    by (intro sum_list_join) fastforce
  then show ?case by simp
qed (auto simp: json_string_def)

text \<open>Printing then parsing gives the value back, with nothing left over.\<close>

lemma json_roundtrip: "json_wf v \<Longrightarrow> json_unmarshal (json_text v) = Some (json_norm v)"
  using parse_value_text [of v "2 * length (json_text v) + 2" "[]"] json_fuel_text [of v]
  by (simp add: json_unmarshal_def no_num_def skip_ws_def)

end
