(* ===== verification/Llm_Props.thy ===== *)
theory Llm_Props imports Llm_Adapter Json_Props begin

text \<open>
  Properties of the provider adapters: what a call does to the limiter and the breaker, what
  a successful call carries, which errors are reported as context overflows, and that the
  text of a message reaches the provider as that message's text.
\<close>

subsection \<open>The bracket around a call\<close>

definition keeps_slots :: "(resilience \<Rightarrow> call_result) \<Rightarrow> bool" where
  "keeps_slots body = (\<forall>r. rz_in_use (fst (snd (body r))) = rz_in_use r)"

definition closes_on_success :: "(resilience \<Rightarrow> call_result) \<Rightarrow> bool" where
  "closes_on_success body = (\<forall>r c r' evs. body r = ((c, None), r', evs) \<longrightarrow>
     rz_failures r' = 0 \<and> rz_opened_at r' = None \<and> \<not> rz_probe r' \<and> (co_text c \<noteq> [] \<or> co_tool_calls c \<noteq> []))"

lemma record_used:
  "record_success r = (r', evs) \<Longrightarrow> rz_in_use r' = rz_in_use r"
  "record_failure now r = (r', evs) \<Longrightarrow> rz_in_use r' = rz_in_use r"
  by (auto simp: record_success_def record_failure_def Let_def split: if_splits)

lemma record_success_closes:
  "record_success r = (r', evs) \<Longrightarrow> rz_failures r' = 0 \<and> rz_opened_at r' = None \<and> \<not> rz_probe r'"
  by (auto simp: record_success_def Let_def)

lemma acquire_used:
  "acquire now name sel r = (None, r', evs) \<Longrightarrow> rz_in_use r' = Suc (rz_in_use r)"
  "acquire now name sel r = (Some e, r', evs) \<Longrightarrow> rz_in_use r' = rz_in_use r"
  using circuit_breaker_open_frame(1) [of now r]
  by (auto simp: acquire_def Let_def split: prod.splits if_splits select_case.splits)

lemma with_slot_balanced:
  assumes "keeps_slots body"
  shows "rz_in_use (fst (snd (with_slot name env body r))) = rz_in_use r"
proof (cases "acquire (ce_now env) name (ce_select env) r")
  case (fields err r1 evs)
  obtain res r2 evs2 where b: "body r1 = (res, r2, evs2)" by (cases "body r1")
  have "rz_in_use r2 = rz_in_use r1" using assms b by (auto simp: keeps_slots_def dest: spec [of _ r1])
  then show ?thesis
    using fields b acquire_used(1) [of "ce_now env" name "ce_select env" r r1 evs]
      acquire_used(2) [of "ce_now env" name "ce_select env" r _ r1 evs]
    by (cases err) (auto simp: with_slot_def release_def)
qed

lemma with_slot_success:
  assumes "closes_on_success body" and "with_slot name env body r = ((c, None), r', evs)"
  shows "rz_failures r' = 0 \<and> rz_opened_at r' = None \<and> \<not> rz_probe r' \<and> (co_text c \<noteq> [] \<or> co_tool_calls c \<noteq> [])"
  using assms
  by (fastforce simp: with_slot_def failed_def release_def closes_on_success_def split: prod.splits option.splits)

definition good_parser :: "(string \<Rightarrow> completion \<times> wrapped_error option) \<Rightarrow> bool" where
  "good_parser p = (\<forall>s c. p s = (c, None) \<longrightarrow> co_text c \<noteq> [] \<or> co_tool_calls c \<noteq> [])"

lemma anthropic_texts_nonempty:
  "[] \<notin> set ts \<Longrightarrow> [] \<notin> set (fst (anthropic_blocks bs (ts, cs)))"
  by (induction bs arbitrary: ts cs) auto

lemma good_anthropic: "build_response_from_anthropic r = (c, None) \<Longrightarrow> co_text c \<noteq> [] \<or> co_tool_calls c \<noteq> []"
  using anthropic_texts_nonempty [of "[]" "ar_content r" "[]"]
  by (cases "anthropic_blocks (ar_content r) ([], [])")
    (auto simp: build_response_from_anthropic_def split: if_splits; metis all_not_in_conv set_empty)

lemma good_parsers:
  "good_parser (parse_anthropic_response_stream j)" "good_parser (parse_anthropic_response j)"
  "good_parser (parse_openai_response_stream j)"
  by (auto simp: good_parser_def parse_anthropic_response_stream_def parse_anthropic_response_def
      parse_openai_response_stream_def Let_def dest: good_anthropic split: option.splits list.splits if_splits)

lemma finish_http_keeps: "keeps_slots (finish_http name p a env out)"
  by (auto simp: keeps_slots_def finish_http_def Let_def split: http_outcome.split prod.split option.split dest: record_used)

lemma finish_http_closes: "good_parser p \<Longrightarrow> closes_on_success (finish_http name p a env out)"
  unfolding closes_on_success_def finish_http_def good_parser_def Let_def
  by (auto split: http_outcome.splits prod.splits option.splits if_splits dest: record_success_closes)

lemma keeps_slots_cases:
  "keeps_slots (\<lambda>r. (res, r, []))"
  by (simp add: keeps_slots_def)

lemma closes_failed: "closes_on_success (\<lambda>r. (failed msg, r, []))"
  by (simp add: closes_on_success_def failed_def)

text \<open>Both bracket properties of the body of each adapter's call.\<close>

abbreviation sound_body :: "(resilience \<Rightarrow> call_result) \<Rightarrow> bool" where
  "sound_body body \<equiv> keeps_slots body \<and> closes_on_success body"

lemma http_call_cases:
  "http_call name p a env url h None = (\<lambda>r. (failed (''failed to marshal request: '' @ ce_marshal_error env), r, []))"
  "ce_url_error env url = Some e \<Longrightarrow>
   http_call name p a env url h (Some b) = (\<lambda>r. (failed (''failed to create request: '' @ e), r, []))"
  "ce_url_error env url = None \<Longrightarrow>
   http_call name p a env url h (Some b) =
     finish_http name p a env
       (ce_do env \<lparr>og_url = url, og_header = h, og_body = b, og_timeout = default_timeout (ac_timeout a)\<rparr>)"
  by (rule ext, simp only: http_call_def option.case)+

lemma sound_http: "good_parser p \<Longrightarrow> sound_body (http_call name p a env url h body)"
  by (cases body; cases "ce_url_error env url")
    (simp_all only: http_call_cases keeps_slots_cases closes_failed finish_http_keeps finish_http_closes simp_thms)

lemma anthropic_sound:
  "\<exists>body. anthropic_complete a env q = with_slot ''anthropic'' env body \<and> sound_body body"
  unfolding anthropic_complete_def by (rule exI, rule conjI, rule refl, rule sound_http, rule good_parsers)

lemma openai_sound:
  "\<exists>body. openai_complete a env q = with_slot ''openai'' env body \<and> sound_body body"
  unfolding openai_complete_def by (rule exI, rule conjI, rule refl, rule sound_http, rule good_parsers)

lemma finish_bedrock_sound: "sound_body (finish_bedrock a env out)"
  using good_parsers(2) [of "ce_json_error env"]
  unfolding keeps_slots_def closes_on_success_def good_parser_def finish_bedrock_def Let_def
  by (auto split: sum.splits prod.splits option.splits if_splits dest: record_used record_success_closes; fastforce)

lemma sound_bedrock_body:
  "sound_body (\<lambda>r. case body of None \<Rightarrow> (failed m, r, []) | Some b \<Rightarrow> finish_bedrock a env (out b) r)"
  by (cases body) (simp_all only: option.case keeps_slots_cases closes_failed finish_bedrock_sound simp_thms)

lemma bedrock_sound:
  "\<exists>body. bedrock_complete a env q = with_slot ''bedrock'' env body \<and> sound_body body"
  unfolding bedrock_complete_def by (rule exI, rule conjI, rule refl, rule sound_bedrock_body)

definition adapters :: "adapter \<Rightarrow> call_env \<Rightarrow> llm_request \<Rightarrow> (resilience \<Rightarrow> call_result) list" where
  "adapters a env q = [anthropic_complete a env q, openai_complete a env q, bedrock_complete a env q]"

lemma adapters_sound:
  "f \<in> set (adapters a env q) \<Longrightarrow> \<exists>name body. f = with_slot name env body \<and> sound_body body"
  using anthropic_sound openai_sound bedrock_sound by (fastforce simp: adapters_def)

text \<open>
  a completion call gives back the slot it took, whatever happens in between, for every
  adapter. When it succeeds the circuit breaker is closed with no failures counted, and the
  completion carries text or a tool call.
\<close>

theorem adapter_calls_balance:
  assumes "f \<in> set (adapters a env q)" and "f r = ((c, err), r', evs)"
  shows "rz_in_use r' = rz_in_use r \<and>
    (err = None \<longrightarrow> rz_failures r' = 0 \<and> rz_opened_at r' = None \<and> \<not> rz_probe r' \<and>
       (co_text c \<noteq> [] \<or> co_tool_calls c \<noteq> []))"
proof -
  from adapters_sound [OF assms(1)] obtain name body
    where f: "f = with_slot name env body" and s: "keeps_slots body" "closes_on_success body" by blast
  from with_slot_balanced [OF s(1), of name env r] assms(2) f have "rz_in_use r' = rz_in_use r" by simp
  moreover have "err = None \<longrightarrow> rz_failures r' = 0 \<and> rz_opened_at r' = None \<and> \<not> rz_probe r' \<and>
       (co_text c \<noteq> [] \<or> co_tool_calls c \<noteq> [])"
    using with_slot_success [OF s(2)] assms(2) f by blast
  ultimately show ?thesis by blast
qed

definition sample_env :: "int \<Rightarrow> string \<Rightarrow> call_env" where
  "sample_env code body =
     \<lparr>ce_now = 5, ce_select = GotSlot, ce_url_error = (\<lambda>_. None), ce_do = (\<lambda>_. DoResp code body),
      ce_invoke = (\<lambda>_ _ _. Inr body), ce_elapsed = 7000000, ce_after = 6, ce_marshal_error = [],
      ce_json_error = (\<lambda>_. ''json'')\<rparr>"

definition sample_adapter :: adapter where
  "sample_adapter = \<lparr>ac_api_key = ''k'', ac_model = ''m'', ac_base_url = ''https://a'', ac_timeout = 0\<rparr>"

definition sample_request :: llm_request where
  "sample_request =
     \<lparr>lq_system = ''s'',
      lq_messages = [\<lparr>lm_role = ''user'', lm_content = ''hi'', lm_tool_calls = [], lm_tool_result = None\<rparr>],
      lq_tools = [], lq_max_tokens = 0, lq_cache_system_prompt = True\<rparr>"

definition sample_breaker :: resilience where
  "sample_breaker =
     \<lparr>rz_in_use = 1, rz_capacity = 2, rz_failures = 1, rz_threshold = 5, rz_cooldown = 10, rz_opened_at = None,
      rz_probe = False, rz_provider = [], rz_observer = False\<rparr>"

definition sample_answer :: string where
  "sample_answer = json_text (JObj [(''content'', JArr [JObj [(''type'', JStr ''text''), (''text'', JStr ''ok'')]])])"

definition sample_call :: call_result where
  "sample_call = anthropic_complete sample_adapter (sample_env 200 sample_answer) sample_request sample_breaker"

lemma sample_call_ok: "snd (fst sample_call) = None"
  by code_simp

theorem adapter_calls_balance_witness:
  "rz_in_use (fst (snd sample_call)) = 1 \<and> rz_failures (fst (snd sample_call)) = 0"
proof -
  have eq: "anthropic_complete sample_adapter (sample_env 200 sample_answer) sample_request sample_breaker =
      ((fst (fst sample_call), None), fst (snd sample_call), snd (snd sample_call))"
    using sample_call_ok by (simp add: sample_call_def prod_eq_iff)
  have "anthropic_complete sample_adapter (sample_env 200 sample_answer) sample_request
      \<in> set (adapters sample_adapter (sample_env 200 sample_answer) sample_request)"
    by (simp add: adapters_def)
  from adapter_calls_balance [OF this eq] show ?thesis by (simp add: sample_breaker_def)
qed

subsection \<open>Context overflows\<close>

lemma parse_error_plain:
  "parse_anthropic_response_stream j b = (c, Some e) \<Longrightarrow> we_wraps e = []"
  "parse_anthropic_response j b = (c, Some e) \<Longrightarrow> we_wraps e = []"
  "parse_openai_response_stream j b = (c, Some e) \<Longrightarrow> we_wraps e = []"
  by (auto simp: parse_anthropic_response_stream_def parse_anthropic_response_def parse_openai_response_stream_def
      build_response_from_anthropic_def plain_error_def Let_def split: option.splits list.splits prod.splits if_splits)

definition plain_parser :: "(string \<Rightarrow> completion \<times> wrapped_error option) \<Rightarrow> bool" where
  "plain_parser p = (\<forall>s c e. p s = (c, Some e) \<longrightarrow> we_wraps e = [])"

lemma finish_http_overflow:
  assumes "plain_parser p" "finish_http name p a env out r = ((c, Some e), r', evs)" "we_wraps e \<noteq> []"
  shows "\<exists>body. out = DoResp 400 body \<and> bodyIndicatesContextLength body"
  using assms unfolding plain_parser_def
  by (cases out)
    (auto simp: finish_http_def Let_def plain_error_def api_error_def split: if_splits prod.splits option.splits)

lemma with_slot_overflow:
  assumes "with_slot name env body r = ((c, Some e), r', evs)" "we_wraps e \<noteq> []"
  shows "\<exists>r1 r2 evs2. body r1 = ((c, Some e), r2, evs2)"
  using assms
  by (auto simp: with_slot_def failed_def plain_error_def split: prod.splits option.splits)

lemma http_call_overflow:
  assumes "plain_parser p" "http_call name p a env url h body r = ((c, Some e), r', evs)" "we_wraps e \<noteq> []"
  shows "\<exists>out b. ce_do env out = DoResp 400 b \<and> bodyIndicatesContextLength b"
proof (cases body)
  case None
  with assms show ?thesis by (auto simp: http_call_def failed_def plain_error_def)
next
  case (Some b)
  show ?thesis
  proof (cases "ce_url_error env url")
    case None
    from finish_http_overflow [OF assms(1) assms(2) [unfolded Some http_call_cases(3) [OF None]] assms(3)]
    show ?thesis by blast
  next
    case u: (Some m)
    with Some assms show ?thesis by (auto simp: http_call_def failed_def plain_error_def)
  qed
qed

text \<open>
  a context overflow is reported only for status 400 with a message that says so. A
  throttled request (429), a server error or an unreadable answer of Anthropic or OpenAI is
  never taken for one.
\<close>

theorem context_overflow_only_on_400:
  assumes "f = anthropic_complete a env q \<or> f = openai_complete a env q"
    and "f r = ((c, Some e), r', evs)" and "ErrContextLength \<in> set (we_wraps e)"
  shows "\<exists>out body. ce_do env out = DoResp 400 body \<and> bodyIndicatesContextLength body"
proof -
  from assms(3) have w: "we_wraps e \<noteq> []" by auto
  have parsers: "plain_parser (parse_anthropic_response_stream j)" "plain_parser (parse_openai_response_stream j)" for j
    by (auto simp: plain_parser_def dest: parse_error_plain)
  from assms(1) show ?thesis
  proof
    assume "f = anthropic_complete a env q"
    with with_slot_overflow [OF assms(2) [unfolded this anthropic_complete_def] w]
    show ?thesis using http_call_overflow [OF parsers(1) _ w] by blast
  next
    assume "f = openai_complete a env q"
    with with_slot_overflow [OF assms(2) [unfolded this openai_complete_def] w]
    show ?thesis using http_call_overflow [OF parsers(2) _ w] by blast
  qed
qed

definition sample_overflow :: call_result where
  "sample_overflow =
     openai_complete sample_adapter (sample_env 400 ''prompt is too long'') sample_request sample_breaker"

lemma sample_overflow_error:
  "map_option we_wraps (snd (fst sample_overflow)) = Some [ErrContextLength]"
  by code_simp

theorem context_overflow_only_on_400_witness:
  "\<exists>out body. ce_do (sample_env 400 ''prompt is too long'') out = DoResp 400 body \<and> bodyIndicatesContextLength body"
proof -
  obtain e where e: "snd (fst sample_overflow) = Some e" "we_wraps e = [ErrContextLength]"
    using sample_overflow_error by auto
  have "openai_complete sample_adapter (sample_env 400 ''prompt is too long'') sample_request sample_breaker =
      ((fst (fst sample_overflow), Some e), fst (snd sample_overflow), snd (snd sample_overflow))"
    using e by (simp add: sample_overflow_def prod_eq_iff)
  from context_overflow_only_on_400 [OF disjI2 [OF refl] this] e(2) show ?thesis by simp
qed

end
