(* ===== verification/Judge_Prompt.thy ===== *)
theory Judge_Prompt imports Json_Decode Http_Header begin

text \<open>
  The prompts of \<open>internal/judge/llm_judge.go\<close>: the system prompt with the policy as a
  JSON string, and the user message with the request as a JSON object, its URL, headers and
  body capped. \<open>mime.ParseMediaType\<close> and the part reader of \<open>mime/multipart\<close>
  are arguments: the media type with its parameters, and the parts of a body with how the
  reading ended.
\<close>

definition maxBodyBytes :: nat where "maxBodyBytes = 16384"
definition maxURLBytes :: nat where "maxURLBytes = 2048"
definition maxHeaderBytes :: nat where "maxHeaderBytes = 4096"
definition maxHeaderValueBytes :: nat where "maxHeaderValueBytes = 512"

definition securityHeaders :: "string list" where
  "securityHeaders =
     [''Host'', ''Content-Type'', ''Content-Encoding'', ''Transfer-Encoding'', ''Authorization'', ''Content-Length'',
      ''Origin'', ''Referer'', ''X-Forwarded-For'', ''X-Forwarded-Host'', ''Cookie'']"

subsection \<open>The system prompt\<close>

definition system_intro :: string where
  "system_intro =
     ''You are a security policy enforcement agent. You will receive an HTTP request as a structured JSON object and must decide whether it is ALLOWED or DENIED.''
     @ nl @ nl
     @ ''The policy to enforce is provided below as a JSON-encoded string. Parse the string value to read the policy:'' @ nl"

definition answer_form :: "string \<Rightarrow> string" where
  "answer_form d =
     ''{'' @ in_quotes ''decision'' @ '':'' @ in_quotes d @ '','' @ in_quotes ''reason'' @ '':''
     @ in_quotes ''brief explanation'' @ ''}''"

definition system_rules :: string where
  "system_rules =
     nl @ nl @ ''Respond ONLY with valid JSON in this exact format (no other text):'' @ nl
     @ answer_form ''ALLOW'' @ nl @ ''or'' @ nl @ answer_form ''DENY''"

definition build_system_prompt :: "string \<Rightarrow> string" where
  "build_system_prompt policy =
     system_intro @ ''{'' @ in_quotes ''policy'' @ '':'' @ json_text (JStr policy) @ ''}'' @ system_rules"

subsection \<open>Headers\<close>

definition cap_value :: "string \<Rightarrow> string" where
  "cap_value v =
     (if length v \<le> maxHeaderValueBytes then v
      else take maxHeaderValueBytes v @ ''...[truncated, '' @ dec (length v) @ '' bytes total]'')"

text \<open>
  The state of the closure \<open>addHeader\<close>: the result in the order of insertion, the bytes
  written, and the canonical keys emitted; the flag says whether the header fitted.
\<close>

record header_acc =
  ha_result :: "(string \<times> string) list"
  ha_written :: nat
  ha_emitted :: "string list"

definition add_header :: "header \<Rightarrow> string \<Rightarrow> header_acc \<Rightarrow> bool \<times> header_acc" where
  "add_header h key acc =
     (let vs = hdr_values h key in
      if vs = [] then (True, acc)
      else (let joined = cap_value (join vs '', ''); size = length key + length joined in
        if maxHeaderBytes < ha_written acc + size then (False, acc)
        else (True, acc\<lparr>ha_result := AList.update key joined (ha_result acc), ha_written := ha_written acc + size,
                        ha_emitted := canonical_key key # ha_emitted acc\<rparr>)))"

fun add_headers :: "header \<Rightarrow> string list \<Rightarrow> header_acc \<Rightarrow> bool \<times> header_acc" where
  "add_headers h [] acc = (True, acc)"
| "add_headers h (k # ks) acc =
     (let (ok, acc1) = add_header h k acc in if ok then add_headers h ks acc1 else (False, acc1))"

definition total_header_bytes :: "header \<Rightarrow> nat" where
  "total_header_bytes h = sum_list (map (\<lambda>(k, vs). sum_list (map (\<lambda>v. length k + 2 + length v + 1) vs)) h)"

definition header_warning :: "nat \<Rightarrow> header \<Rightarrow> string" where
  "header_warning written h =
     ''Headers truncated at '' @ dec written @ '' of '' @ dec (total_header_bytes h)
     @ '' total header bytes to prevent prompt inflation''"

definition empty_acc :: header_acc where
  "empty_acc = \<lparr>ha_result = [], ha_written = 0, ha_emitted = []\<rparr>"

definition remaining_headers :: "header \<Rightarrow> header_acc \<Rightarrow> string list" where
  "remaining_headers h acc = sort (filter (\<lambda>k. canonical_key k \<notin> set (ha_emitted acc)) (map fst h))"

definition build_header_map :: "header \<Rightarrow> (string \<times> string) list \<times> string" where
  "build_header_map h =
     (let (ok1, acc1) = add_headers h securityHeaders empty_acc in
      if \<not> ok1 then (ha_result acc1, header_warning (ha_written acc1) h)
      else (let (ok2, acc2) = add_headers h (remaining_headers h acc1) acc1 in
        if \<not> ok2 then (ha_result acc2, header_warning (ha_written acc2) h) else (ha_result acc2, [])))"

subsection \<open>Multipart summary\<close>

definition maxSummaryBytes :: nat where "maxSummaryBytes = 8192"
definition maxFieldDisplayLen :: nat where "maxFieldDisplayLen = 128"
definition maxPartPreview :: nat where "maxPartPreview = 512"
definition maxParts :: nat where "maxParts = 1000"

definition truncate_field :: "string \<Rightarrow> nat \<Rightarrow> string" where
  "truncate_field s m = (if length s \<le> m then s else take m s @ ''...'')"

definition is_textual_part :: "string \<Rightarrow> bool" where
  "is_textual_part ct =
     (ct = [] \<or>
      (let l = to_lower ct in
       has_prefix l ''text/'' \<or> has_prefix l ''application/json'' \<or> has_prefix l ''application/xml'' \<or>
       has_prefix l ''application/x-www-form-urlencoded''))"

record mime_part =
  mp_form_name :: string
  mp_file_name :: string
  mp_content_type :: string
  mp_content :: string

datatype parts_end = PartsEOF | PartsError

record mime_ops =
  mo_parse_media_type :: "string \<Rightarrow> (string \<times> (string \<rightharpoonup> string)) option"
  mo_parts :: "string \<Rightarrow> string \<Rightarrow> mime_part list \<times> parts_end"

definition part_line :: "nat \<Rightarrow> mime_part \<Rightarrow> string" where
  "part_line n p =
     (let filename = truncate_field (mp_file_name p) maxFieldDisplayLen;
          ct = truncate_field (mp_content_type p) maxFieldDisplayLen;
          preview = take (maxPartPreview + 1) (mp_content p)
      in ''  Part '' @ dec n @ '': name='' @ quote_str (truncate_field (mp_form_name p) maxFieldDisplayLen)
         @ (if filename \<noteq> [] then '', filename='' @ quote_str filename else [])
         @ (if ct \<noteq> [] then '', content-type='' @ ct else [])
         @ '', size='' @ dec (length (mp_content p)) @ '' bytes''
         @ (if is_textual_part ct \<and> preview \<noteq> []
            then nl @ ''    value: ''
                 @ (if maxPartPreview < length preview then take maxPartPreview preview @ ''...'' else preview)
            else [])
         @ nl)"

record summary_acc =
  sa_text :: string
  sa_count :: nat
  sa_complete :: bool
  sa_capped :: bool

fun summarize_loop :: "nat \<Rightarrow> nat \<Rightarrow> mime_part list \<Rightarrow> parts_end \<Rightarrow> string \<Rightarrow> summary_acc" where
  "summarize_loop 0 i ps fin sb = \<lparr>sa_text = sb, sa_count = i, sa_complete = False, sa_capped = False\<rparr>"
| "summarize_loop (Suc budget) i [] fin sb =
     \<lparr>sa_text = sb, sa_count = i, sa_complete = (fin = PartsEOF), sa_capped = False\<rparr>"
| "summarize_loop (Suc budget) i (p # ps) fin sb =
     (let sb1 = sb @ part_line (i + 1) p in
      if maxSummaryBytes < length sb1
      then \<lparr>sa_text = sb1, sa_count = i + 1, sa_complete = False, sa_capped = True\<rparr>
      else summarize_loop budget (i + 1) ps fin sb1)"

definition summary_text :: "summary_acc \<Rightarrow> string" where
  "summary_text acc =
     ''[Multipart body summary '' @ dash @ '' '' @ dec (sa_count acc) @ '' part(s) parsed''
     @ (if sa_complete acc then '' (complete)'' else '' (body may be truncated; more parts may exist)'') @ '':'' @ nl
     @ sa_text acc
     @ (if sa_capped acc
        then ''  (summary truncated at '' @ dec maxSummaryBytes @ '' bytes; more parts may exist)'' @ nl
        else if sa_count acc = maxParts
        then ''  (listing capped at '' @ dec maxParts @ '' parts; more may exist)'' @ nl else [])
     @ '']''"

definition summarize_multipart_parts :: "mime_ops \<Rightarrow> string \<Rightarrow> string \<Rightarrow> string" where
  "summarize_multipart_parts mime ct body =
     (if ct = [] then []
      else case mo_parse_media_type mime ct of
        None \<Rightarrow> []
      | Some (mt, params) \<Rightarrow>
          if \<not> has_prefix mt ''multipart/'' then []
          else (let boundary = (case params ''boundary'' of None \<Rightarrow> [] | Some b \<Rightarrow> b) in
            if boundary = [] then []
            else (let (ps, fin) = mo_parts mime boundary body; acc = summarize_loop maxParts 0 ps fin [] in
              if sa_count acc = 0 then [] else summary_text acc)))"

subsection \<open>The user message\<close>

definition url_warning :: "string \<Rightarrow> string" where
  "url_warning u = ''URL truncated at '' @ dec maxURLBytes @ '' of '' @ dec (length u) @ '' characters''"

definition body_warning :: "string \<Rightarrow> string" where
  "body_warning b =
     ''Body truncated at '' @ dec maxBodyBytes @ '' of '' @ dec (length b) @ '' bytes '' @ dash
     @ '' content beyond this point was NOT evaluated. Exercise caution.''"

definition request_json :: "mime_ops \<Rightarrow> string \<Rightarrow> string \<Rightarrow> header \<Rightarrow> string \<Rightarrow> string \<Rightarrow> (string \<times> json) list" where
  "request_json mime meth url h body ct =
     (let (hs, hwarn) = build_header_map h;
          warnings = (if maxURLBytes < length url then [url_warning url] else [])
                     @ (if hwarn \<noteq> [] then [hwarn] else [])
                     @ (if maxBodyBytes < length body then [body_warning body] else []);
          summary = (if maxBodyBytes < length body then summarize_multipart_parts mime ct body else [])
      in [(''method'', JStr meth),
          (''url'', JStr (take maxURLBytes url)),
          (''headers'', json_map (map (\<lambda>(k, v). (k, JStr v)) hs))]
         @ omit_empty ''body'' (JStr (take maxBodyBytes body))
         @ omit_empty ''warnings'' (JArr (map JStr warnings))
         @ omit_empty ''multipart_summary'' (JStr summary))"

definition build_user_message :: "mime_ops \<Rightarrow> string \<Rightarrow> string \<Rightarrow> header \<Rightarrow> string \<Rightarrow> string \<Rightarrow> string" where
  "build_user_message mime meth url h body ct = json_text (JObj (request_json mime meth url h body ct))"

end
