(* ===== verification/Judge_Prompt_Props.thy ===== *)
theory Judge_Prompt_Props imports Judge_Prompt Json_Props begin

text \<open>
  What the prompts guarantee: text of the request or of the policy cannot leave the JSON
  string it is put into, the header budget is kept, and nothing is cut without a warning. The
  priority of the security headers has an exception, shown at the end.
\<close>

subsection \<open>Well-formed messages\<close>

lemma omit_empty_cases:
  "omit_empty k (JStr s) = (if s = [] then [] else [(k, JStr s)])"
  "omit_empty k (JArr vs) = (if vs = [] then [] else [(k, JArr vs)])"
  by (simp_all add: omit_empty_def)

definition string_members :: "(string \<times> string) list \<Rightarrow> (string \<times> json) list" where
  "string_members hs = map (\<lambda>(k, v). (k, JStr v)) hs"

text \<open>The request object, with the parts computed from the headers and the body abstracted.\<close>

lemma request_json_shape:
  "\<exists>hs ws s. request_json mime m u h b ct =
     [(''method'', JStr m), (''url'', JStr (take maxURLBytes u)), (''headers'', json_map (string_members hs))]
     @ omit_empty ''body'' (JStr (take maxBodyBytes b)) @ omit_empty ''warnings'' (JArr (map JStr ws))
     @ omit_empty ''multipart_summary'' (JStr s)"
  by (cases "build_header_map h") (simp only: request_json_def Let_def prod.case string_members_def, blast)

lemma json_wf_headers: "json_wf (json_map (string_members hs))"
  by (auto simp: json_map_def string_members_def list_all_iff)

lemma request_json_wf: "json_wf (JObj (request_json mime m u h b ct))"
proof -
  obtain hs ws s where "request_json mime m u h b ct =
     [(''method'', JStr m), (''url'', JStr (take maxURLBytes u)), (''headers'', json_map (string_members hs))]
     @ omit_empty ''body'' (JStr (take maxBodyBytes b)) @ omit_empty ''warnings'' (JArr (map JStr ws))
     @ omit_empty ''multipart_summary'' (JStr s)"
    using request_json_shape by blast
  then show ?thesis by (simp add: json_wf_headers omit_empty_cases list_all_iff)
qed

lemma maxBodyBytes_pos: "maxBodyBytes \<noteq> 0"
  by (simp add: maxBodyBytes_def)

lemma member_names_valid:
  "to_valid ''method'' = ''method''" "to_valid ''url'' = ''url''" "to_valid ''headers'' = ''headers''"
  "to_valid ''body'' = ''body''" "to_valid ''warnings'' = ''warnings''"
  "to_valid ''multipart_summary'' = ''multipart_summary''" "to_valid ''policy'' = ''policy''"
  by code_simp+

text \<open>
  C6: whatever the request contains, the user message is one JSON object with the members
  the code writes and no other. Its method member is the request's method, its URL member the
  first 2048 bytes of the URL and its body member the first 16384 bytes of the body, each with
  invalid UTF-8 replaced, so no text of a request can end its string or add a member. The body
  member is absent only for an empty body.
\<close>

theorem request_stays_in_its_members:
  "\<exists>kvs. json_unmarshal (build_user_message mime m u h b ct) = Some (JObj kvs) \<and>
     map_of kvs ''method'' = Some (JStr (to_valid m)) \<and>
     map_of kvs ''url'' = Some (JStr (to_valid (take maxURLBytes u))) \<and>
     map_of kvs ''body'' = (if b = [] then None else Some (JStr (to_valid (take maxBodyBytes b)))) \<and>
     distinct (map fst kvs) \<and>
     set (map fst kvs) \<subseteq> {''method'', ''url'', ''headers'', ''body'', ''warnings'', ''multipart_summary''}"
proof -
  obtain hs ws s where shape: "request_json mime m u h b ct =
     [(''method'', JStr m), (''url'', JStr (take maxURLBytes u)), (''headers'', json_map (string_members hs))]
     @ omit_empty ''body'' (JStr (take maxBodyBytes b)) @ omit_empty ''warnings'' (JArr (map JStr ws))
     @ omit_empty ''multipart_summary'' (JStr s)"
    using request_json_shape by blast
  have parsed: "json_unmarshal (build_user_message mime m u h b ct) = Some (json_norm (JObj (request_json mime m u h b ct)))"
    unfolding build_user_message_def by (rule json_roundtrip) (rule request_json_wf)
  show ?thesis
    unfolding parsed shape
    by (simp add: omit_empty_cases member_names_valid maxBodyBytes_pos)
qed

text \<open>
  C21: a policy cannot break out of the system prompt. Between the fixed introduction and the
  fixed rules stands one JSON object whose only member is the policy's text, and reading that
  object stops exactly where the rules begin.
\<close>

theorem policy_stays_in_its_string:
  "\<exists>obj. build_system_prompt p = system_intro @ obj @ system_rules \<and>
     json_unmarshal obj = Some (JObj [(''policy'', JStr (to_valid p))]) \<and>
     parse_value 3 (obj @ system_rules) = Some (JObj [(''policy'', JStr (to_valid p))], system_rules)"
proof -
  let ?v = "JObj [(''policy'', JStr p)]"
  have "json_text (JStr ''policy'') = in_quotes ''policy''" by code_simp
  then have "build_system_prompt p = system_intro @ json_text ?v @ system_rules"
    by (simp add: build_system_prompt_def)
  moreover have n: "json_norm ?v = JObj [(''policy'', JStr (to_valid p))]" by (simp add: member_names_valid)
  moreover have "no_num system_rules"
    by (simp add: system_rules_def nl_def no_num_def num_char_def is_digit_def)
  then have "parse_value 3 (json_text ?v @ system_rules) = Some (json_norm ?v, system_rules)"
    by (intro parse_value_text) simp_all
  ultimately show ?thesis using json_roundtrip [of ?v] by (auto simp del: json_text.simps)
qed

subsection \<open>The header budget\<close>

definition header_size :: "(string \<times> string) list \<Rightarrow> nat" where
  "header_size kvs = sum_list (map (\<lambda>(k, v). length k + length v) kvs)"

lemma header_size_update: "header_size (AList.update k v kvs) \<le> header_size kvs + length k + length v"
  by (induction kvs) (auto simp: header_size_def)

lemma update_in: "(a, b) \<in> set (AList.update k v kvs) \<Longrightarrow> (a, b) = (k, v) \<or> (a, b) \<in> set kvs"
  by (induction kvs) (auto split: if_splits)

definition shown_value :: "header \<Rightarrow> string \<Rightarrow> string" where
  "shown_value h k = cap_value (join (hdr_values h k) '', '')"

definition acc_ok :: "header \<Rightarrow> header_acc \<Rightarrow> bool" where
  "acc_ok h acc \<longleftrightarrow>
     header_size (ha_result acc) \<le> ha_written acc \<and> ha_written acc \<le> maxHeaderBytes \<and>
     list_all (\<lambda>(k, v). hdr_values h k \<noteq> [] \<and> v = shown_value h k) (ha_result acc)"

lemma acc_ok_add: "acc_ok h acc \<Longrightarrow> acc_ok h (snd (add_header h k acc))"
  using header_size_update [of k "shown_value h k" "ha_result acc"]
  by (auto simp: acc_ok_def add_header_def Let_def shown_value_def list_all_iff dest!: update_in)

lemma acc_ok_adds: "acc_ok h acc \<Longrightarrow> acc_ok h (snd (add_headers h ks acc))"
proof (induction ks arbitrary: acc)
  case (Cons k ks)
  then show ?case using acc_ok_add [of h acc k] by (auto simp: Let_def split: prod.splits)
qed simp

lemma acc_ok_empty: "acc_ok h empty_acc"
  by (simp add: acc_ok_def empty_acc_def header_size_def)

lemma build_header_map_acc: "\<exists>acc. acc_ok h acc \<and> fst (build_header_map h) = ha_result acc"
proof -
  let ?a1 = "snd (add_headers h securityHeaders empty_acc)"
  have "acc_ok h ?a1" by (rule acc_ok_adds [OF acc_ok_empty])
  moreover from this have "acc_ok h (snd (add_headers h (remaining_headers h ?a1) ?a1))" by (rule acc_ok_adds)
  ultimately show ?thesis
    by (auto simp: build_header_map_def Let_def split: prod.splits)
qed

text \<open>
  the headers shown to the judge fit the budget of 4096 bytes, whatever the request
  sends, and each shown header is one the request has, with its own values joined and
  capped.
\<close>

theorem shown_headers_fit:
  "header_size (fst (build_header_map h)) \<le> maxHeaderBytes \<and>
   list_all (\<lambda>(k, v). hdr_values h k \<noteq> [] \<and> v = shown_value h k) (fst (build_header_map h))"
  using build_header_map_acc [of h] by (auto simp: acc_ok_def)

text \<open>A header that was offered and fitted is in the result, and stays there.\<close>

lemma add_header_keeps:
  "add_header h k acc = (True, acc') \<Longrightarrow> map_of (ha_result acc) k' = Some (shown_value h k') \<Longrightarrow>
   map_of (ha_result acc') k' = Some (shown_value h k')"
  by (auto simp: add_header_def Let_def shown_value_def update_conv' split: if_splits)

lemma add_header_adds:
  "add_header h k acc = (True, acc') \<Longrightarrow> hdr_values h k \<noteq> [] \<Longrightarrow>
   map_of (ha_result acc') k = Some (shown_value h k) \<and> canonical_key k \<in> set (ha_emitted acc')"
  by (auto simp: add_header_def Let_def shown_value_def update_conv' split: if_splits)

lemma add_headers_keeps:
  "add_headers h ks acc = (True, acc') \<Longrightarrow> map_of (ha_result acc) k' = Some (shown_value h k') \<Longrightarrow>
   map_of (ha_result acc') k' = Some (shown_value h k')"
  by (induction ks arbitrary: acc) (auto simp: Let_def split: prod.splits if_splits dest: add_header_keeps)

lemma add_headers_all:
  "add_headers h ks acc = (True, acc') \<Longrightarrow> k \<in> set ks \<Longrightarrow> hdr_values h k \<noteq> [] \<Longrightarrow>
   map_of (ha_result acc') k = Some (shown_value h k)"
  by (induction ks arbitrary: acc)
    (auto simp: Let_def split: prod.splits if_splits dest: add_header_adds intro: add_headers_keeps)

lemma emitted_shown:
  "add_headers h ks acc = (True, acc') \<Longrightarrow> c \<in> set (ha_emitted acc') \<Longrightarrow>
   c \<in> set (ha_emitted acc) \<or> (\<exists>k\<in>set ks. canonical_key k = c \<and> hdr_values h k \<noteq> [])"
proof (induction ks arbitrary: acc)
  case (Cons k ks)
  obtain acc1 where a: "add_header h k acc = (True, acc1)" "add_headers h ks acc1 = (True, acc')"
    using Cons.prems(1) by (auto simp: Let_def split: prod.splits if_splits)
  have "c \<in> set (ha_emitted acc1) \<Longrightarrow> c \<in> set (ha_emitted acc) \<or> (canonical_key k = c \<and> hdr_values h k \<noteq> [])"
    using a(1) by (auto simp: add_header_def Let_def split: if_splits)
  with Cons.IH [OF a(2) Cons.prems(2)] show ?case by auto
qed simp

lemma securityHeaders_canonical: "list_all (\<lambda>k. canonical_key k = k) securityHeaders"
  by code_simp

lemma header_warning_nonempty: "header_warning w h \<noteq> []"
  by (simp add: header_warning_def)

lemma unwarned_headers_shown:
  assumes "snd (build_header_map h) = []" and "k \<in> set (map fst h)" and "canonical_key k = k" and "hdr_values h k \<noteq> []"
  shows "map_of (fst (build_header_map h)) k = Some (shown_value h k)"
proof -
  obtain ok1 a1 where p1: "add_headers h securityHeaders empty_acc = (ok1, a1)" by fastforce
  with assms(1) have ok1: "ok1" by (auto simp: build_header_map_def header_warning_nonempty Let_def split: if_splits)
  obtain ok2 a2 where p2: "add_headers h (remaining_headers h a1) a1 = (ok2, a2)" by fastforce
  with assms(1) p1 ok1 have ok2: "ok2" by (auto simp: build_header_map_def header_warning_nonempty Let_def split: if_splits)
  have res: "fst (build_header_map h) = ha_result a2" using p1 p2 ok1 ok2 by (simp add: build_header_map_def)
  show ?thesis
  proof (cases "k \<in> set (ha_emitted a1)")
    case True
    with emitted_shown [OF p1 [unfolded ok1 [THEN eqTrueI]]] obtain k' where "k' \<in> set securityHeaders" "canonical_key k' = k"
      by (auto simp: empty_acc_def)
    with securityHeaders_canonical have "k \<in> set securityHeaders" by (auto simp: list_all_iff)
    then have "map_of (ha_result a1) k = Some (shown_value h k)"
      using add_headers_all [of h securityHeaders empty_acc a1 k] p1 ok1 assms(4) by simp
    then show ?thesis using add_headers_keeps [of h _ a1 a2 k] p2 ok2 res by auto
  next
    case False
    then have "k \<in> set (remaining_headers h a1)" using assms(2,3) by (auto simp: remaining_headers_def)
    then show ?thesis using add_headers_all [of h _ a1 a2 k] p2 ok2 assms(4) res by auto
  qed
qed

text \<open>
  nothing is cut silently. A message without a warnings member comes from a request
  whose URL and body are complete in it, and every header of the request (under a canonical
  key) is shown, its values joined and capped.
\<close>

theorem no_silent_truncation:
  assumes "map_of (request_json mime m u h b ct) ''warnings'' = None"
  shows "length u \<le> maxURLBytes \<and> length b \<le> maxBodyBytes \<and>
    (\<forall>k. k \<in> set (map fst h) \<longrightarrow> canonical_key k = k \<longrightarrow> hdr_values h k \<noteq> [] \<longrightarrow>
       map_of (fst (build_header_map h)) k = Some (shown_value h k))"
proof -
  have "\<not> maxURLBytes < length u \<and> \<not> maxBodyBytes < length b \<and> snd (build_header_map h) = []"
    using assms by (cases "build_header_map h") (auto simp: request_json_def Let_def omit_empty_cases split: if_splits)
  then show ?thesis using unwarned_headers_shown [of h] by auto
qed

definition no_mime :: mime_ops where
  "no_mime = \<lparr>mo_parse_media_type = (\<lambda>_. None), mo_parts = (\<lambda>_ _. ([], PartsEOF))\<rparr>"

theorem no_silent_truncation_witness:
  "map_of (fst (build_header_map [(''Accept'', [''a'', ''b''])])) ''Accept'' = Some ''a, b''"
proof -
  have "map_of (request_json no_mime ''GET'' ''https://a/'' [(''Accept'', [''a'', ''b''])] ''x'' []) ''warnings'' = None"
    by (simp add: request_json_def build_header_map_def remaining_headers_def add_header_def securityHeaders_def
        hdr_values_def canonical_key_def is_token_byte_def is_upper_def is_lower_def upper_byte_def lower_byte_def
        empty_acc_def cap_value_def maxHeaderValueBytes_def maxHeaderBytes_def maxURLBytes_def maxBodyBytes_def
        Let_def omit_empty_cases of_char_char_of_small)
  from no_silent_truncation [OF this, THEN conjunct2, THEN conjunct2, rule_format, of "''Accept''"]
  show ?thesis
    by (simp add: shown_value_def hdr_values_def canonical_key_def is_token_byte_def is_upper_def is_lower_def
        upper_byte_def lower_byte_def cap_value_def maxHeaderValueBytes_def Let_def)
qed

subsection \<open>The priority of the security headers\<close>

definition long_value :: string where "long_value = replicate 600 (CHR ''a'')"
definition long_cookie :: string where "long_cookie = replicate 300 (CHR ''c'')"

definition header_flood :: header where
  "header_flood =
     map (\<lambda>k. (k, [long_value]))
       [''Content-Type'', ''Content-Encoding'', ''Authorization'', ''Origin'', ''Referer'', ''X-Forwarded-For'', ''X-Forwarded-Host'']
     @ [(''Cookie'', [long_cookie]), (''X-Api-Key'', [''secret''])]"

lemma long_value_shown: "length (cap_value long_value) = 543"
proof -
  have "dec 600 = ''600''" by code_simp
  then show ?thesis by (simp add: cap_value_def long_value_def maxHeaderValueBytes_def)
qed

lemma long_cookie_shown: "length (cap_value long_cookie) = 300"
  by (simp add: cap_value_def long_cookie_def maxHeaderValueBytes_def)

lemma security_keys_canonical:
  "canonical_key ''Host'' = ''Host''" "canonical_key ''Content-Type'' = ''Content-Type''"
  "canonical_key ''Content-Encoding'' = ''Content-Encoding''" "canonical_key ''Transfer-Encoding'' = ''Transfer-Encoding''"
  "canonical_key ''Authorization'' = ''Authorization''" "canonical_key ''Content-Length'' = ''Content-Length''"
  "canonical_key ''Origin'' = ''Origin''" "canonical_key ''Referer'' = ''Referer''"
  "canonical_key ''X-Forwarded-For'' = ''X-Forwarded-For''" "canonical_key ''X-Forwarded-Host'' = ''X-Forwarded-Host''"
  "canonical_key ''Cookie'' = ''Cookie''"
  by code_simp+

text \<open>
  the security headers can be displaced. A request whose own security headers carry
  values longer than the cap of 512 bytes exhausts the budget of 4096 bytes before the cookie
  is reached, and then neither the cookie nor any ordinary header is shown, although all of
  them are forwarded.
\<close>

theorem security_headers_displaced:
  "map fst (fst (build_header_map header_flood)) =
     [''Content-Type'', ''Content-Encoding'', ''Authorization'', ''Origin'', ''Referer'', ''X-Forwarded-For'', ''X-Forwarded-Host''] \<and>
   hdr_values header_flood ''Cookie'' = [long_cookie]"
  by (simp add: build_header_map_def add_header_def securityHeaders_def hdr_values_def security_keys_canonical
      header_flood_def empty_acc_def maxHeaderBytes_def long_value_shown long_cookie_shown Let_def)

end
