(* ===== verification/Notifications.thy ===== *)
theory Notifications imports Ct_Types Go_Net "HOL-Library.AList" begin

text \<open>
  Notifications (\<open>internal/notifications\<close>) and the audit logger that sends them
  (\<open>internal/audit/logger.go\<close>): events, the dispatcher, and the channel of server-sent
  events as a state machine whose steps are the critical sections of the code and the turns of
  the serving loop. A message is kept with the event it was made of. \<open>json.Marshal\<close> of
  an event, the identifiers of clients and the network are arguments. Sending on a closed Go
  channel, or closing it twice, panics.
\<close>

subsection \<open>Events\<close>

datatype event_data = RequestData string | DecisionData string | AuditData audit_entry

record event =
  vt_type :: string
  vt_data :: "event_data option"
  vt_channel :: string
  vt_target_user_id :: string

definition EventApprovalNeeded :: string where "EventApprovalNeeded = ''approval_needed''"
definition EventApprovalDecided :: string where "EventApprovalDecided = ''approval_decided''"
definition EventAuditEntry :: string where "EventAuditEntry = ''audit_entry''"

text \<open>Only an audit entry has a method that names its user.\<close>

definition event_source_user_id :: "event \<Rightarrow> string" where
  "event_source_user_id ev = (case vt_data ev of Some (AuditData e) \<Rightarrow> ae_user_id e | _ \<Rightarrow> [])"

definition format_sse_message :: "string \<Rightarrow> string \<Rightarrow> string" where
  "format_sse_message ty payload = ''event: '' @ ty @ nl @ ''data: '' @ payload @ nl @ nl"

subsection \<open>The dispatcher\<close>

text \<open>A channel acts on the world it lives in. The channels of a broadcast run in parallel; here one after the other.\<close>

type_synonym 'w channel = "event \<Rightarrow> 'w \<Rightarrow> go_error option \<times> 'w"
type_synonym 'w dispatcher = "(string \<times> 'w channel) list"

definition register_channel :: "string \<Rightarrow> 'w channel \<Rightarrow> 'w dispatcher \<Rightarrow> 'w dispatcher" where
  "register_channel name ch d = AList.update name ch d"

definition unregister_channel :: "string \<Rightarrow> 'w dispatcher \<Rightarrow> 'w dispatcher" where
  "unregister_channel name d = AList.delete name d"

definition broadcast :: "event \<Rightarrow> 'w dispatcher \<Rightarrow> 'w \<Rightarrow> 'w" where
  "broadcast ev d w = fold (\<lambda>(name, ch) w. snd (ch ev w)) d w"

definition broadcast_to_channel :: "string \<Rightarrow> event \<Rightarrow> 'w dispatcher \<Rightarrow> 'w \<Rightarrow> go_error option \<times> 'w" where
  "broadcast_to_channel name ev d w = (case map_of d name of None \<Rightarrow> (None, w) | Some ch \<Rightarrow> ch ev w)"

definition has_channel :: "string \<Rightarrow> 'w dispatcher \<Rightarrow> bool" where
  "has_channel name d = (map_of d name \<noteq> None)"

subsection \<open>The channel of server-sent events\<close>

text \<open>A connection serves, leaves its loop (\<open>done\<close> is closed), and is gone after its deferred removal.\<close>

datatype phase = Serving | Leaving | Gone

type_synonym sse_message = "event \<times> string"

record sse_client =
  sc_user :: string
  sc_buffer :: "sse_message list"
  sc_closed :: bool
  sc_phase :: phase
  sc_allowed :: "string list option"
  sc_written :: "sse_message list"

text \<open>\<open>ss_clients\<close> is the map of the code, by user; \<open>ss_conns\<close> are all connections, by their identifier.\<close>

record sse_state =
  ss_clients :: "(string \<times> string) list"
  ss_conns :: "(string \<times> sse_client) list"
  ss_panic :: bool

definition new_sse_channel :: sse_state where
  "new_sse_channel = \<lparr>ss_clients = [], ss_conns = [], ss_panic = False\<rparr>"

definition message_capacity :: nat where "message_capacity = 100"

definition put_conn :: "string \<Rightarrow> sse_client \<Rightarrow> sse_state \<Rightarrow> sse_state" where
  "put_conn i c s = s\<lparr>ss_conns := AList.update i c (ss_conns s)\<rparr>"

definition panicked :: "sse_state \<Rightarrow> sse_state" where "panicked s = s\<lparr>ss_panic := True\<rparr>"

text \<open>
  \<open>deliver\<close>: of the cases that are ready the \<open>select\<close> takes one, the first if
  \<open>pick\<close>; with none the message is dropped. A send on a closed channel is ready, and
  panics.
\<close>

definition deliver :: "bool \<Rightarrow> sse_message \<Rightarrow> string \<Rightarrow> sse_state \<Rightarrow> sse_state" where
  "deliver pick msg i s =
     (case map_of (ss_conns s) i of
        None \<Rightarrow> s
      | Some c \<Rightarrow>
          if (sc_closed c \<or> length (sc_buffer c) < message_capacity) \<and> (pick \<or> sc_phase c = Serving) then
            (if sc_closed c then panicked s else put_conn i (c\<lparr>sc_buffer := sc_buffer c @ [msg]\<rparr>) s)
          else s)"

definition admitted :: "event \<Rightarrow> string list option \<Rightarrow> bool" where
  "admitted ev allowed =
     (case allowed of None \<Rightarrow> True | Some bots \<Rightarrow> event_source_user_id ev \<noteq> [] \<and> event_source_user_id ev \<in> set bots)"

definition allowed_of :: "sse_state \<Rightarrow> string \<Rightarrow> string list option" where
  "allowed_of s i = (case map_of (ss_conns s) i of None \<Rightarrow> None | Some c \<Rightarrow> sc_allowed c)"

definition recipients :: "event \<Rightarrow> sse_state \<Rightarrow> string list" where
  "recipients ev s =
     (if vt_target_user_id ev \<noteq> [] then
        (case map_of (ss_clients s) (vt_target_user_id ev) of None \<Rightarrow> [] | Some i \<Rightarrow> [i])
      else map snd (filter (\<lambda>(u, i). admitted ev (allowed_of s i)) (ss_clients s)))"

definition sse_notify :: "(event \<Rightarrow> string result) \<Rightarrow> (string \<Rightarrow> bool) \<Rightarrow> event \<Rightarrow> sse_state \<Rightarrow> go_error option \<times> sse_state" where
  "sse_notify marshal pick ev s =
     (case marshal ev of
        Inl e \<Rightarrow> (Some (''failed to marshal event: '' @ e), s)
      | Inr payload \<Rightarrow>
          (None, fold (\<lambda>i. deliver (pick i) (ev, format_sse_message (vt_type ev) payload) i) (recipients ev s) s))"

definition close_messages :: "string \<Rightarrow> sse_state \<Rightarrow> sse_state" where
  "close_messages i s =
     (case map_of (ss_conns s) i of
        None \<Rightarrow> s
      | Some c \<Rightarrow> if sc_closed c then panicked s else put_conn i (c\<lparr>sc_closed := True\<rparr>) s)"

definition set_client :: "string \<Rightarrow> sse_client \<Rightarrow> sse_state \<Rightarrow> sse_state" where
  "set_client i c s =
     (let s1 = (case map_of (ss_clients s) (sc_user c) of None \<Rightarrow> s | Some old \<Rightarrow> close_messages old s);
          s2 = put_conn i c s1
      in s2\<lparr>ss_clients := AList.update (sc_user c) i (ss_clients s2)\<rparr>)"

definition remove_client :: "string \<Rightarrow> sse_client \<Rightarrow> sse_state \<Rightarrow> sse_state" where
  "remove_client i c s =
     (if map_of (ss_clients s) (sc_user c) = Some i then
        (let s1 = close_messages i s in s1\<lparr>ss_clients := AList.delete (sc_user c) (ss_clients s1)\<rparr>)
      else s)"

definition client_count :: "sse_state \<Rightarrow> nat" where "client_count s = length (ss_clients s)"

definition new_client :: "string \<Rightarrow> string list option \<Rightarrow> sse_client" where
  "new_client user allowed =
     \<lparr>sc_user = user, sc_buffer = [], sc_closed = False, sc_phase = Serving, sc_allowed = allowed, sc_written = []\<rparr>"

definition connected_text :: "string \<Rightarrow> string" where
  "connected_text i = ''data: {'' @ in_quotes ''type'' @ '':'' @ in_quotes ''connected'' @ '','' @ in_quotes ''client_id'' @ '':''
     @ in_quotes i @ ''}'' @ nl @ nl"

definition heartbeat_text :: string where "heartbeat_text = '':heartbeat'' @ nl @ nl"

text \<open>
  The steps: a connection arrives with an identifier of its own, an event is delivered, a
  serving connection ends with its request, writes a message, fails to write one or finds its
  channel closed, and one that left is removed. Heartbeats change nothing.
\<close>

inductive sse_step :: "sse_state \<Rightarrow> sse_state \<Rightarrow> bool" where
  connect: "map_of (ss_conns s) i = None \<Longrightarrow> sse_step s (set_client i (new_client user allowed) s)"
| notify: "sse_step s (snd (sse_notify marshal pick ev s))"
| ended: "map_of (ss_conns s) i = Some c \<Longrightarrow> sc_phase c = Serving \<Longrightarrow> sse_step s (put_conn i (c\<lparr>sc_phase := Leaving\<rparr>) s)"
| wrote: "map_of (ss_conns s) i = Some c \<Longrightarrow> sc_phase c = Serving \<Longrightarrow> sc_buffer c = m # ms \<Longrightarrow>
    sse_step s (put_conn i (c\<lparr>sc_buffer := ms, sc_written := sc_written c @ [m]\<rparr>) s)"
| failed: "map_of (ss_conns s) i = Some c \<Longrightarrow> sc_phase c = Serving \<Longrightarrow> sc_buffer c = m # ms \<Longrightarrow>
    sse_step s (put_conn i (c\<lparr>sc_buffer := ms, sc_phase := Leaving\<rparr>) s)"
| replaced: "map_of (ss_conns s) i = Some c \<Longrightarrow> sc_phase c = Serving \<Longrightarrow> sc_buffer c = [] \<Longrightarrow> sc_closed c \<Longrightarrow>
    sse_step s (put_conn i (c\<lparr>sc_phase := Leaving\<rparr>) s)"
| removed: "map_of (ss_conns s) i = Some c \<Longrightarrow> sc_phase c = Leaving \<Longrightarrow>
    sse_step s (remove_client i c (put_conn i (c\<lparr>sc_phase := Gone\<rparr>) s))"

inductive sse_reachable :: "sse_state \<Rightarrow> bool" where
  start: "sse_reachable new_sse_channel"
| step: "sse_reachable s \<Longrightarrow> sse_step s t \<Longrightarrow> sse_reachable t"

inductive_cases sse_stepE: "sse_step s t"

subsection \<open>The audit logger\<close>

text \<open>What a log call does: the event it broadcasts, the entry it prints, the file it syncs.\<close>

datatype log_effect = Broadcast event | LogLine audit_entry | FileSync

record logger =
  lg_file :: bool
  lg_console :: bool
  lg_dispatcher :: bool

definition new_logger :: "(string \<Rightarrow> go_error option) \<Rightarrow> string \<Rightarrow> logger result" where
  "new_logger open_file output =
     (if output = ''stdout'' \<or> output = ''stderr'' \<or> output = []
      then Inr \<lparr>lg_file = False, lg_console = True, lg_dispatcher = False\<rparr>
      else case open_file output of
        Some e \<Rightarrow> Inl (''failed to open audit log file: '' @ e)
      | None \<Rightarrow> Inr \<lparr>lg_file = True, lg_console = False, lg_dispatcher = False\<rparr>)"

definition set_dispatcher :: "logger \<Rightarrow> logger" where "set_dispatcher l = l\<lparr>lg_dispatcher := True\<rparr>"

text \<open>\<open>debug\<close>: the default logger has the debug level enabled.\<close>

definition should_strip_bodies :: "bool \<Rightarrow> logger \<Rightarrow> bool" where
  "should_strip_bodies debug l = (lg_console l \<and> \<not> debug)"

definition without_bodies :: "audit_entry \<Rightarrow> audit_entry" where
  "without_bodies e = e\<lparr>ae_request_body := [], ae_response_body := []\<rparr>"

definition event_entry :: "audit_entry \<Rightarrow> audit_entry" where
  "event_entry e = (without_bodies e)\<lparr>ae_request_headers := [], ae_response_headers := []\<rparr>"

definition audit_event :: "audit_entry \<Rightarrow> event" where
  "audit_event e =
     \<lparr>vt_type = EventAuditEntry, vt_data = Some (AuditData (event_entry e)), vt_channel = [], vt_target_user_id = []\<rparr>"

definition log_request :: "bool \<Rightarrow> logger \<Rightarrow> audit_entry \<Rightarrow> log_effect list" where
  "log_request debug l e =
     (if lg_dispatcher l then [Broadcast (audit_event e)] else [])
     @ [LogLine (if should_strip_bodies debug l then without_bodies e else e)]
     @ (if lg_file l then [FileSync] else [])"

end
