(* ===== verification/Notify_Props.thy ===== *)
theory Notify_Props imports Notifications begin

text \<open>
  What the channel of server-sent events keeps in every reachable state, by rule induction: no
  send on a closed channel and no second close, bounded buffers, and streams that carry only
  the events of their scope. Then what leaves the audit logger.
\<close>

declare map_of_eq_Some_iff [simp del]

definition fits :: "event \<Rightarrow> sse_client \<Rightarrow> bool" where
  "fits ev c = (if vt_target_user_id ev \<noteq> [] then vt_target_user_id ev = sc_user c else admitted ev (sc_allowed c))"

definition conn_ok :: "sse_client \<Rightarrow> bool" where
  "conn_ok c \<longleftrightarrow> length (sc_buffer c) \<le> message_capacity \<and> (\<forall>m \<in> set (sc_buffer c) \<union> set (sc_written c). fits (fst m) c)"

definition registered :: "sse_state \<Rightarrow> string \<Rightarrow> string \<Rightarrow> bool" where
  "registered s u i \<longleftrightarrow> (\<exists>c. map_of (ss_conns s) i = Some c \<and> \<not> sc_closed c \<and> sc_user c = u)"

definition sse_inv :: "sse_state \<Rightarrow> bool" where
  "sse_inv s \<longleftrightarrow> \<not> ss_panic s \<and> distinct (map fst (ss_clients s)) \<and>
     (\<forall>u i. map_of (ss_clients s) u = Some i \<longrightarrow> registered s u i) \<and>
     (\<forall>i c. map_of (ss_conns s) i = Some c \<longrightarrow> conn_ok c)"

lemma put_conn_simps [simp]:
  "ss_clients (put_conn i c s) = ss_clients s" "ss_panic (put_conn i c s) = ss_panic s"
  "map_of (ss_conns (put_conn i c s)) = (map_of (ss_conns s))(i \<mapsto> c)"
  by (simp_all add: put_conn_def update_conv')

text \<open>A change of one connection that keeps its user and leaves its Go channel open.\<close>

lemma put_conn_inv:
  assumes "sse_inv s" and "map_of (ss_conns s) i = Some c" and "conn_ok c1"
    and "sc_user c1 = sc_user c" and "sc_closed c1 = sc_closed c"
  shows "sse_inv (put_conn i c1 s)"
proof -
  have "registered s u j \<Longrightarrow> registered (put_conn i c1 s) u j" for u j
    using assms(2,4,5) by (auto simp: registered_def)
  with assms(1,3) show ?thesis by (auto simp: sse_inv_def)
qed

lemma deliver_keeps:
  "ss_clients (deliver p m i s) = ss_clients s"
  "map_of (ss_conns (deliver p m i s)) j = None \<longleftrightarrow> map_of (ss_conns s) j = None"
  "map_of (ss_conns s) j = Some c \<Longrightarrow> \<exists>c1. map_of (ss_conns (deliver p m i s)) j = Some c1 \<and>
     sc_user c1 = sc_user c \<and> sc_allowed c1 = sc_allowed c"
  by (auto simp: deliver_def panicked_def split: option.splits)

lemma fits_cong: "sc_user c1 = sc_user c \<Longrightarrow> sc_allowed c1 = sc_allowed c \<Longrightarrow> fits ev c1 = fits ev c"
  by (simp add: fits_def)

definition may_receive :: "event \<Rightarrow> sse_state \<Rightarrow> string \<Rightarrow> bool" where
  "may_receive ev s i \<longleftrightarrow> (\<exists>u c. map_of (ss_clients s) u = Some i \<and> map_of (ss_conns s) i = Some c \<and> fits ev c)"

lemma deliver_inv:
  assumes "sse_inv s" and "may_receive (fst m) s i"
  shows "sse_inv (deliver p m i s)"
proof -
  from assms obtain u c where reg: "map_of (ss_clients s) u = Some i" "map_of (ss_conns s) i = Some c" "fits (fst m) c"
    unfolding may_receive_def by auto
  with assms(1) have opn: "\<not> sc_closed c" and ok: "conn_ok c"
    unfolding sse_inv_def registered_def by (metis option.inject)+
  show ?thesis
  proof (cases "length (sc_buffer c) < message_capacity \<and> (p \<or> sc_phase c = Serving)")
    case True
    have "conn_ok (c\<lparr>sc_buffer := sc_buffer c @ [m]\<rparr>)"
      using True ok reg(3) by (auto simp: conn_ok_def fits_def)
    then have "sse_inv (put_conn i (c\<lparr>sc_buffer := sc_buffer c @ [m]\<rparr>) s)"
      using assms(1) reg(2) by (rule_tac put_conn_inv) simp_all
    with True opn reg(2) show ?thesis by (simp add: deliver_def)
  next
    case False
    with opn reg(2) assms(1) show ?thesis by (auto simp: deliver_def)
  qed
qed

lemma deliver_may_receive: "may_receive ev s j \<Longrightarrow> may_receive ev (deliver p m i s) j"
  unfolding may_receive_def using deliver_keeps(1,3) fits_cong by metis

lemma recipients_may_receive:
  assumes "sse_inv s" and "i \<in> set (recipients ev s)"
  shows "may_receive ev s i"
proof -
  have known: "\<exists>c. map_of (ss_conns s) j = Some c \<and> sc_user c = u" if "map_of (ss_clients s) u = Some j" for u j
    using assms(1) that unfolding sse_inv_def registered_def by blast
  show ?thesis
  proof (cases "vt_target_user_id ev = []")
    case True
    with assms(2) obtain u where ui: "(u, i) \<in> set (ss_clients s)" "admitted ev (allowed_of s i)"
      by (auto simp: recipients_def)
    have "map_of (ss_clients s) u = Some i" using assms(1) ui(1) by (simp add: sse_inv_def map_of_eq_Some_iff)
    moreover from known [OF this] obtain c where "map_of (ss_conns s) i = Some c" by blast
    ultimately show ?thesis using True ui(2) by (auto simp: may_receive_def fits_def allowed_of_def)
  next
    case False
    with assms(2) have "map_of (ss_clients s) (vt_target_user_id ev) = Some i"
      by (auto simp: recipients_def split: option.splits)
    with known [OF this] False show ?thesis by (auto simp: may_receive_def fits_def)
  qed
qed

lemma fold_deliver_inv:
  "sse_inv s \<Longrightarrow> \<forall>i \<in> set is. may_receive (fst m) s i \<Longrightarrow> sse_inv (fold (\<lambda>i. deliver (pick i) m i) is s)"
  by (induction "is" arbitrary: s) (auto intro: deliver_inv deliver_may_receive)

lemma notify_inv: "sse_inv s \<Longrightarrow> sse_inv (snd (sse_notify marshal pick ev s))"
  by (auto simp: sse_notify_def intro!: fold_deliver_inv dest: recipients_may_receive split: sum.splits)

text \<open>Closing the Go channel of a registered connection and taking it out of the map.\<close>

lemma close_messages_registered:
  "registered s u i \<Longrightarrow> \<exists>c. map_of (ss_conns s) i = Some c \<and> close_messages i s = put_conn i (c\<lparr>sc_closed := True\<rparr>) s"
  by (auto simp: registered_def close_messages_def)

lemma conn_ok_closed [simp]: "conn_ok (c\<lparr>sc_closed := b\<rparr>) = conn_ok c"
  by (simp add: conn_ok_def fits_def)

lemma conn_ok_new [simp]: "conn_ok (new_client u a)"
  by (simp add: conn_ok_def new_client_def)

lemma users_apart: "sse_inv s \<Longrightarrow> map_of (ss_clients s) u = Some i \<Longrightarrow> map_of (ss_clients s) v = Some i \<Longrightarrow> u = v"
  unfolding sse_inv_def registered_def by (metis option.inject)

lemma set_client_inv:
  assumes inv: "sse_inv s" and fresh: "map_of (ss_conns s) i = None"
  shows "sse_inv (set_client i (new_client u a) s)"
proof (cases "map_of (ss_clients s) u")
  case None
  have "j \<noteq> i" if "map_of (ss_clients s) v = Some j" for v j
    using inv fresh that unfolding sse_inv_def registered_def by fastforce
  with None inv show ?thesis
    unfolding sse_inv_def registered_def
    by (auto simp: set_client_def Let_def new_client_def [of u a, THEN arg_cong [where f = sc_user]]
        update_conv' distinct_update conn_ok_new [unfolded new_client_def] new_client_def)
next
  case (Some old)
  from inv Some have reg: "registered s u old" by (simp add: sse_inv_def)
  then obtain c where c: "map_of (ss_conns s) old = Some c" "close_messages old s = put_conn old (c\<lparr>sc_closed := True\<rparr>) s"
    using close_messages_registered by blast
  have apart: "j \<noteq> i \<and> (v \<noteq> u \<longrightarrow> j \<noteq> old)" if "map_of (ss_clients s) v = Some j" for v j
    using inv fresh that Some users_apart [OF inv Some] unfolding sse_inv_def registered_def by fastforce
  have "conn_ok c" using inv c(1) by (simp add: sse_inv_def)
  with Some c inv fresh apart show ?thesis
    unfolding sse_inv_def registered_def
    by (auto simp: set_client_def Let_def update_conv' distinct_update conn_ok_new [unfolded new_client_def] new_client_def
        split: if_splits)
qed

lemma remove_client_inv:
  assumes inv: "sse_inv s" and c: "map_of (ss_conns s) i = Some c1" and same: "sc_user c1 = sc_user c"
  shows "sse_inv (remove_client i c s)"
proof (cases "map_of (ss_clients s) (sc_user c) = Some i")
  case True
  with inv have "registered s (sc_user c) i" by (simp add: sse_inv_def)
  then have cl: "close_messages i s = put_conn i (c1\<lparr>sc_closed := True\<rparr>) s"
    using close_messages_registered c by fastforce
  have "v \<noteq> sc_user c \<Longrightarrow> map_of (ss_clients s) v \<noteq> Some i" for v
    using users_apart [OF inv True, of v] by auto
  moreover have "conn_ok c1" using inv c by (simp add: sse_inv_def)
  ultimately show ?thesis
    using inv True unfolding sse_inv_def registered_def
    by (auto simp: remove_client_def cl Let_def delete_conv' distinct_delete split: if_splits)
next
  case False
  with inv show ?thesis by (simp add: remove_client_def)
qed

lemma fits_update [simp]:
  "fits ev (c\<lparr>sc_phase := p\<rparr>) = fits ev c" "fits ev (c\<lparr>sc_buffer := b\<rparr>) = fits ev c"
  "fits ev (c\<lparr>sc_written := w\<rparr>) = fits ev c"
  by (simp_all add: fits_def)

lemma conn_step_ok:
  "conn_ok c \<Longrightarrow> conn_ok (c\<lparr>sc_phase := p\<rparr>)"
  "conn_ok c \<Longrightarrow> sc_buffer c = m # ms \<Longrightarrow> conn_ok (c\<lparr>sc_buffer := ms, sc_written := sc_written c @ [m]\<rparr>)"
  "conn_ok c \<Longrightarrow> sc_buffer c = m # ms \<Longrightarrow> conn_ok (c\<lparr>sc_buffer := ms, sc_phase := p\<rparr>)"
  by (auto simp: conn_ok_def)

lemma sse_step_inv:
  assumes "sse_step s t" and inv: "sse_inv s"
  shows "sse_inv t"
  using assms(1)
proof cases
  case (connect i user allowed)
  with inv show ?thesis by (simp add: set_client_inv)
next
  case notify
  with inv show ?thesis by (simp add: notify_inv)
next
  case (failed i c m ms)
  have "conn_ok c" using inv failed by (simp add: sse_inv_def)
  then show ?thesis unfolding failed(1) using inv failed by (intro put_conn_inv) (simp_all add: conn_step_ok(3))
next
  case (removed i c)
  have "conn_ok c" using inv removed by (simp add: sse_inv_def)
  then have "sse_inv (put_conn i (c\<lparr>sc_phase := Gone\<rparr>) s)"
    using inv removed by (intro put_conn_inv) (simp_all add: conn_step_ok)
  then show ?thesis unfolding removed(1) by (rule remove_client_inv [where ?c1.0 = "c\<lparr>sc_phase := Gone\<rparr>"]) simp_all
qed (use inv in \<open>auto intro!: put_conn_inv conn_step_ok simp: sse_inv_def [of s]\<close>)

lemma sse_reachable_inv: "sse_reachable s \<Longrightarrow> sse_inv s"
proof (induction rule: sse_reachable.induct)
  case start
  show ?case by (simp add: sse_inv_def new_sse_channel_def)
next
  case step
  then show ?case using sse_step_inv by blast
qed

text \<open>
  C29: the event stream never panics, and a scoped stream stays in its scope. In every reachable
  state, whatever the interleaving of new connections, replacements, deliveries, failed writes
  and removals: nothing was sent on a closed Go channel and none was closed twice; no client
  holds more than 100 messages; and of the messages a client holds or was sent, those with a
  target are targeted at its user, and those without one, for a client limited to some bots,
  have one of these bots as their source. A targeted message is not checked against the bots.
\<close>

theorem event_stream_safe_and_scoped:
  assumes "sse_reachable s"
  shows "\<not> ss_panic s \<and>
    (\<forall>i c. map_of (ss_conns s) i = Some c \<longrightarrow> length (sc_buffer c) \<le> 100 \<and>
      (\<forall>m \<in> set (sc_buffer c) \<union> set (sc_written c).
         (if vt_target_user_id (fst m) \<noteq> [] then vt_target_user_id (fst m) = sc_user c
          else \<forall>bots. sc_allowed c = Some bots \<longrightarrow> event_source_user_id (fst m) \<in> set bots)))"
  using sse_reachable_inv [OF assms] unfolding sse_inv_def conn_ok_def fits_def admitted_def message_capacity_def
  by (auto split: option.splits if_splits)

definition demo_event :: event where
  "demo_event = \<lparr>vt_type = EventApprovalNeeded, vt_data = None, vt_channel = [], vt_target_user_id = ''m''\<rparr>"

definition demo_stream :: sse_state where
  "demo_stream = snd (sse_notify (\<lambda>_. Inr ''{}'') (\<lambda>_. True) demo_event
     (set_client ''c2'' (new_client ''m'' (Some [''b''])) (set_client ''c1'' (new_client ''m'' None) new_sse_channel)))"

lemma demo_stream_reachable: "sse_reachable demo_stream"
proof -
  have "map_of (ss_conns new_sse_channel) ''c1'' = None" by code_simp
  then have "sse_reachable (set_client ''c1'' (new_client ''m'' None) new_sse_channel)"
    using sse_reachable.start sse_reachable.step sse_step.connect by blast
  moreover have "map_of (ss_conns (set_client ''c1'' (new_client ''m'' None) new_sse_channel)) ''c2'' = None" by code_simp
  ultimately have "sse_reachable (set_client ''c2'' (new_client ''m'' (Some [''b'']))
      (set_client ''c1'' (new_client ''m'' None) new_sse_channel))"
    using sse_reachable.step sse_step.connect by blast
  then show ?thesis unfolding demo_stream_def using sse_reachable.step sse_step.notify by blast
qed

lemma event_stream_safe_and_scoped_witness:
  "\<not> ss_panic demo_stream \<and> map_option (length \<circ> sc_buffer) (map_of (ss_conns demo_stream) ''c2'') = Some 1 \<and>
   map_option sc_closed (map_of (ss_conns demo_stream) ''c1'') = Some True"
proof (intro conjI)
  show "\<not> ss_panic demo_stream" using event_stream_safe_and_scoped [OF demo_stream_reachable] by (rule conjunct1)
  show "map_option (length \<circ> sc_buffer) (map_of (ss_conns demo_stream) ''c2'') = Some 1" by code_simp
  show "map_option sc_closed (map_of (ss_conns demo_stream) ''c1'') = Some True" by code_simp
qed

subsection \<open>What leaves the audit logger\<close>

text \<open>
  Bodies and headers stay out of the event stream. Every event the audit logger broadcasts
  is the entry without its bodies and headers and otherwise unchanged, and a line printed on
  the console below the debug level has no bodies either.
\<close>

lemma logged_entry_without_bodies:
  "Broadcast ev \<in> set (log_request debug l e) \<longleftrightarrow>
     lg_dispatcher l \<and> ev = audit_event (e\<lparr>ae_request_body := [], ae_response_body := [], ae_request_headers := [], ae_response_headers := []\<rparr>)"
  "LogLine x \<in> set (log_request debug l e) \<longleftrightarrow>
     x = (if lg_console l \<and> \<not> debug then e\<lparr>ae_request_body := [], ae_response_body := []\<rparr> else e)"
  by (auto simp: log_request_def should_strip_bodies_def audit_event_def event_entry_def without_bodies_def)

end
