(* ===== verification/Database.thy ===== *)
theory Database imports Ct_Types "HOL-Library.Product_Lexorder" begin

text \<open>
  The PostgreSQL tables the stores use (\<open>internal/db/migrations\<close>), and the running of
  statements on them. A table is the list of its rows. A statement may fail: the connection
  holds the faults of the statements to come, as in the model of the file system, and a
  result set may break off after some rows. Constraint violations are errors of the statement
  that meets them. A transaction that does not commit leaves the tables as they were.
\<close>

record user_row =
  ur_id :: string
  ur_is_admin :: bool
  ur_role :: string
  ur_policy_id :: "string option"
  ur_created_at :: time
  ur_updated_at :: time

text \<open>A payload is a JSON object of strings.\<close>

record channel_row =
  cr_id :: string
  cr_user_id :: string
  cr_type :: string
  cr_payload :: "string \<rightharpoonup> string"

record manager_row =
  mr_id :: string
  mr_bot_id :: string
  mr_manager_id :: string
  mr_created_at :: time

record endpoint_summary =
  es_method :: string
  es_path_pattern :: string
  es_count :: int
  es_description :: string

record tool_call_record =
  tcr_id :: string
  tcr_name :: string
  tcr_input :: "string option"

record tool_result_record =
  trr_call_id :: string
  trr_content :: string
  trr_is_error :: bool

record chat_message =
  cm_role :: string
  cm_content :: string
  cm_tool_calls :: "tool_call_record list"
  cm_tool_result :: "tool_result_record option"

record policy_metadata =
  pm_source :: string
  pm_analyzed_user_id :: string
  pm_analyzed_start :: "time option"
  pm_analyzed_end :: "time option"
  pm_endpoint_summaries :: "endpoint_summary list"
  pm_chat_history :: "chat_message list"

definition empty_metadata :: policy_metadata where
  "empty_metadata = \<lparr>pm_source = [], pm_analyzed_user_id = [], pm_analyzed_start = None, pm_analyzed_end = None,
     pm_endpoint_summaries = [], pm_chat_history = []\<rparr>"

record notification_channel =
  nc_id :: string
  nc_owner_id :: string
  nc_bot_id :: string
  nc_channel_type :: string
  nc_destination :: string
  nc_enabled :: bool
  nc_created_at :: time
  nc_updated_at :: time

record denial_row =
  dn_id :: string
  dn_bot_id :: string
  dn_method :: string
  dn_url :: string
  dn_reason :: string
  dn_created_at :: time

record audit_row =
  au_id :: string
  au_entry :: audit_entry

record eval_run_row =
  ev_id :: string
  ev_policy_id :: string
  ev_status :: string
  ev_error :: string
  ev_created_at :: time
  ev_completed_at :: "time option"
  ev_total_entries :: "int option"

record eval_result_row =
  er_id :: string
  er_run_id :: string
  er_entry_id :: string
  er_replay_decision :: string
  er_llm_response_id :: "string option"
  er_replayed_at :: time
  er_approved_by :: string

record label_row =
  lb_id :: string
  lb_entry_id :: string
  lb_decision :: string
  lb_note :: string
  lb_labeled_by :: string
  lb_created_at :: time

record llm_response_row =
  rr_response :: llm_response
  rr_created_at :: time

record database =
  db_users :: "user_row list"
  db_channels :: "channel_row list"
  db_managers :: "manager_row list"
  db_policies :: "llm_policy list"
  db_metadata :: "(string \<times> policy_metadata) list"
  db_notification_channels :: "notification_channel list"
  db_denials :: "denial_row list"
  db_audit_log :: "audit_row list"
  db_eval_runs :: "eval_run_row list"
  db_eval_results :: "eval_result_row list"
  db_labels :: "label_row list"
  db_llm_responses :: "llm_response_row list"

definition empty_database :: database where
  "empty_database =
     \<lparr>db_users = [], db_channels = [], db_managers = [], db_policies = [], db_metadata = [],
      db_notification_channels = [], db_denials = [], db_audit_log = [], db_eval_runs = [],
      db_eval_results = [], db_labels = [], db_llm_responses = []\<rparr>"

subsection \<open>Statements\<close>

text \<open>\<open>cn_cut\<close> is the number of rows delivered before a result set breaks off.\<close>

record conn =
  cn_db :: database
  cn_faults :: "go_error option list"
  cn_cut :: nat

type_synonym 'a sql = "conn \<Rightarrow> 'a result \<times> conn"

definition connect :: "database \<Rightarrow> conn" where
  "connect d = \<lparr>cn_db = d, cn_faults = [], cn_cut = 0\<rparr>"

definition take_fault :: "conn \<Rightarrow> go_error option \<times> conn" where
  "take_fault c = (case cn_faults c of [] \<Rightarrow> (None, c) | f # fs \<Rightarrow> (f, c\<lparr>cn_faults := fs\<rparr>))"

definition exec :: "(database \<Rightarrow> 'a result \<times> database) \<Rightarrow> 'a sql" where
  "exec q c =
     (case take_fault c of
        (Some e, c1) \<Rightarrow> (Inl e, c1)
      | (None, c1) \<Rightarrow> (case q (cn_db c1) of (Inl e, _) \<Rightarrow> (Inl e, c1) | (Inr x, d) \<Rightarrow> (Inr x, c1\<lparr>cn_db := d\<rparr>)))"

definition query :: "(database \<Rightarrow> 'a) \<Rightarrow> 'a sql" where
  "query f = exec (\<lambda>d. (Inr (f d), d))"

definition no_rows :: go_error where "no_rows = ''no rows in result set''"

definition query_row :: "(database \<Rightarrow> 'a option) \<Rightarrow> 'a sql" where
  "query_row f = exec (\<lambda>d. (case f d of None \<Rightarrow> Inl no_rows | Some x \<Rightarrow> Inr x, d))"

text \<open>A result set: the rows that arrived, and what \<open>rows.Err()\<close> says afterwards.\<close>

definition query_rows :: "(database \<Rightarrow> 'a list) \<Rightarrow> ('a list \<times> go_error option) sql" where
  "query_rows f c =
     (case query f c of
        (Inl e, c1) \<Rightarrow> (Inl e, c1)
      | (Inr rows, c1) \<Rightarrow>
          (case take_fault c1 of
             (Some e, c2) \<Rightarrow> (Inr (take (cn_cut c2) rows, Some e), c2)
           | (None, c2) \<Rightarrow> (Inr (rows, None), c2)))"

definition sreturn :: "'a \<Rightarrow> 'a sql" where "sreturn x c = (Inr x, c)"

definition sfail :: "go_error \<Rightarrow> 'a sql" where "sfail e c = (Inl e, c)"

definition sbind :: "'a sql \<Rightarrow> ('a \<Rightarrow> 'b sql) \<Rightarrow> 'b sql" where
  "sbind m f c = (case m c of (Inl e, c1) \<Rightarrow> (Inl e, c1) | (Inr x, c1) \<Rightarrow> f x c1)"

definition swrap :: "string \<Rightarrow> 'a sql \<Rightarrow> 'a sql" where
  "swrap msg m c = (case m c of (Inl e, c1) \<Rightarrow> (Inl (msg @ e), c1) | r \<Rightarrow> r)"

text \<open>Rows of a result set whose \<open>rows.Err()\<close> is checked.\<close>

definition checked_rows :: "(database \<Rightarrow> 'a list) \<Rightarrow> 'a list sql" where
  "checked_rows f =
     sbind (query_rows f) (\<lambda>(rows, err). case err of Some e \<Rightarrow> sfail e | None \<Rightarrow> sreturn rows)"

text \<open>Rows whose query and whose \<open>rows.Err()\<close> have their own error prefixes.\<close>

definition named_rows :: "string \<Rightarrow> string \<Rightarrow> (database \<Rightarrow> 'a list) \<Rightarrow> 'a list sql" where
  "named_rows msg rowsMsg f =
     sbind (swrap msg (query_rows f)) (\<lambda>(rows, err). case err of Some e \<Rightarrow> sfail (rowsMsg @ e) | None \<Rightarrow> sreturn rows)"

definition transaction :: "'a sql \<Rightarrow> 'a sql" where
  "transaction m c =
     (case take_fault c of
        (Some e, c1) \<Rightarrow> (Inl e, c1)
      | (None, c1) \<Rightarrow>
          (case m c1 of
             (Inl e, c2) \<Rightarrow> (Inl e, c2\<lparr>cn_db := cn_db c1\<rparr>)
           | (Inr x, c2) \<Rightarrow>
               (case take_fault c2 of
                  (Some e, c3) \<Rightarrow> (Inl e, c3\<lparr>cn_db := cn_db c1\<rparr>)
                | (None, c3) \<Rightarrow> (Inr x, c3))))"

subsection \<open>Reasoning about statements\<close>

named_theorems sql

lemma take_fault_db [sql]: "take_fault c = (f, c1) \<Longrightarrow> cn_db c1 = cn_db c"
  by (auto simp: take_fault_def split: list.splits)

text \<open>
  \<open>sruns P m\<close>: a run of \<open>m\<close> either fails and leaves the tables, or succeeds with
  a value and tables that \<open>P\<close> relates to those before.
\<close>

definition sruns :: "(database \<Rightarrow> 'a \<Rightarrow> database \<Rightarrow> bool) \<Rightarrow> 'a sql \<Rightarrow> bool" where
  "sruns P m \<longleftrightarrow> (\<forall>c r c1. m c = (r, c1) \<longrightarrow>
     (case r of Inl e \<Rightarrow> cn_db c1 = cn_db c | Inr x \<Rightarrow> P (cn_db c) x (cn_db c1)))"

lemma srunsD:
  "sruns P m \<Longrightarrow> m c = (Inr x, c1) \<Longrightarrow> P (cn_db c) x (cn_db c1)"
  "sruns P m \<Longrightarrow> m c = (Inl e, c1) \<Longrightarrow> cn_db c1 = cn_db c"
  unfolding sruns_def by (metis sum.case(2)) (metis sum.case(1))

lemma sruns_exec: "(\<And>d x d1. q d = (Inr x, d1) \<Longrightarrow> P d x d1) \<Longrightarrow> sruns P (exec q)"
  by (auto simp: sruns_def exec_def split: prod.splits option.splits sum.splits dest!: take_fault_db)

lemma sruns_query: "(\<And>d. P d (f d) d) \<Longrightarrow> sruns P (query f)"
  unfolding query_def by (rule sruns_exec) auto

lemma sruns_query_row: "(\<And>d x. f d = Some x \<Longrightarrow> P d x d) \<Longrightarrow> sruns P (query_row f)"
  unfolding query_row_def by (rule sruns_exec) (auto split: option.splits)

lemma sruns_swrap: "sruns P m \<Longrightarrow> sruns P (swrap msg m)"
  unfolding sruns_def swrap_def by (fastforce split: prod.splits sum.splits)

lemma sruns_mono: "sruns P m \<Longrightarrow> (\<And>d x d1. P d x d1 \<Longrightarrow> Q d x d1) \<Longrightarrow> sruns Q m"
  unfolding sruns_def by (fastforce split: sum.splits)

text \<open>A transaction is all or nothing, whatever its statements do to the tables on the way.\<close>

definition svalid :: "(database \<Rightarrow> 'a \<Rightarrow> database \<Rightarrow> bool) \<Rightarrow> 'a sql \<Rightarrow> bool" where
  "svalid P m \<longleftrightarrow> (\<forall>c x c1. m c = (Inr x, c1) \<longrightarrow> P (cn_db c) x (cn_db c1))"

lemma svalid_sruns: "sruns P m \<Longrightarrow> svalid P m"
  unfolding svalid_def by (blast intro: srunsD)

lemma svalid_bind:
  assumes "svalid P m" and "\<And>x. svalid (Q x) (f x)"
    and "\<And>d x d1 y d2. P d x d1 \<Longrightarrow> Q x d1 y d2 \<Longrightarrow> R d y d2"
  shows "svalid R (sbind m f)"
  using assms unfolding svalid_def sbind_def by (fastforce split: prod.splits sum.splits)

lemma svalid_return: "(\<And>d. P d x d) \<Longrightarrow> svalid P (sreturn x)"
  by (simp add: svalid_def sreturn_def)

lemma svalid_fail: "svalid P (sfail e)"
  by (simp add: svalid_def sfail_def)

lemma sruns_transaction: "svalid P m \<Longrightarrow> sruns P (transaction m)"
  unfolding sruns_def svalid_def transaction_def
  by (fastforce split: prod.splits option.splits sum.splits dest: take_fault_db)

lemma sruns_checked_rows: "(\<And>d. P d (f d) d) \<Longrightarrow> sruns P (checked_rows f)"
  unfolding sruns_def checked_rows_def query_rows_def query_def exec_def sbind_def sfail_def sreturn_def
  by (auto split: prod.splits option.splits sum.splits dest!: take_fault_db)

lemma checked_rows_run: "checked_rows f c = (Inr rows, c1) \<Longrightarrow> cn_db c1 = cn_db c \<and> rows = f (cn_db c)"
  using srunsD(1) [OF sruns_checked_rows [of "\<lambda>d x d1. d1 = d \<and> x = f d" f]] by fastforce

lemma sruns_named_rows: "(\<And>d. P d (f d) d) \<Longrightarrow> sruns P (named_rows msg rowsMsg f)"
  unfolding sruns_def named_rows_def query_rows_def query_def exec_def sbind_def swrap_def sfail_def sreturn_def
  by (auto split: prod.splits option.splits sum.splits dest!: take_fault_db)

lemma named_rows_run: "named_rows msg rowsMsg f c = (Inr rows, c1) \<Longrightarrow> cn_db c1 = cn_db c \<and> rows = f (cn_db c)"
  using srunsD(1) [OF sruns_named_rows [of "\<lambda>d x d1. d1 = d \<and> x = f d" f]] by fastforce

lemma named_rows_db: "named_rows msg rowsMsg f c = (r, c1) \<Longrightarrow> cn_db c1 = cn_db c"
  using srunsD [OF sruns_named_rows [of "\<lambda>d x d1. d1 = d" f]] by (cases r) fastforce+

lemma checked_rows_db: "checked_rows f c = (r, c1) \<Longrightarrow> cn_db c1 = cn_db c"
  using srunsD [OF sruns_checked_rows [of "\<lambda>d x d1. d1 = d" f]] by (cases r) fastforce+

end
