(* ===== verification/User_Store.thy ===== *)
theory User_Store imports Database begin

text \<open>
  Users, their channels and their managers (\<open>internal/admin/pg_user_store.go\<close>). Each
  query is the function on the tables that its SQL text denotes; new identifiers and tokens
  (\<open>db.NewID\<close>, \<open>db.NewGatewayAuthToken\<close>) and \<open>NOW()\<close> are arguments.
\<close>

subsection \<open>Types\<close>

record user_summary =
  us_id :: string
  us_role :: string
  us_is_admin :: bool
  us_policy_id :: string
  us_created_at :: time
  us_channel_count :: nat

record user_channel_info =
  uc_id :: string
  uc_channel_type :: string
  uc_web_token :: string
  uc_gateway_auth_token :: string

record user_detail =
  ud_id :: string
  ud_role :: string
  ud_is_admin :: bool
  ud_policy_id :: string
  ud_created_at :: time
  ud_updated_at :: time
  ud_channels :: "user_channel_info list"
  ud_managers :: "manager_row list"

record create_user_request =
  cu_id :: string
  cu_is_admin :: bool
  cu_role :: "string option"
  cu_web_token :: string
  cu_gateway_auth_token :: string

record update_user_request =
  uu_is_admin :: "bool option"
  uu_role :: "string option"
  uu_policy_id :: "string option"
  uu_web_token :: "string option"
  uu_gateway_auth_token :: "string option"

definition ValidRoles :: "string \<Rightarrow> bool" where
  "ValidRoles role = (role = ''admin'' \<or> role = ''manager'' \<or> role = ''user'')"

definition resolve_role :: "string option \<Rightarrow> bool \<Rightarrow> string" where
  "resolve_role role isAdmin =
     (case role of
        Some r \<Rightarrow> if ValidRoles r then r else if isAdmin then ''admin'' else ''user''
      | None \<Rightarrow> if isAdmin then ''admin'' else ''user'')"

definition role_is_admin :: "string \<Rightarrow> bool" where "role_is_admin role = (role = ''admin'')"

text \<open>A zero value of \<open>m[k]\<close> and \<open>COALESCE(c, '')\<close>.\<close>

definition or_empty :: "string option \<Rightarrow> string" where
  "or_empty x = (case x of None \<Rightarrow> [] | Some s \<Rightarrow> s)"

subsection \<open>Reading\<close>

definition channels_of :: "database \<Rightarrow> string \<Rightarrow> channel_row list" where
  "channels_of d user = filter (\<lambda>ch. cr_user_id ch = user) (db_channels d)"

definition summary_of :: "database \<Rightarrow> user_row \<Rightarrow> user_summary" where
  "summary_of d u =
     \<lparr>us_id = ur_id u, us_role = ur_role u, us_is_admin = role_is_admin (ur_role u), us_policy_id = or_empty (ur_policy_id u),
      us_created_at = ur_created_at u, us_channel_count = length (remdups (map cr_id (channels_of d (ur_id u))))\<rparr>"

definition newest_first :: "('a \<Rightarrow> time) \<Rightarrow> 'a list \<Rightarrow> 'a list" where
  "newest_first f xs = sort_key (\<lambda>x. - f x) xs"

text \<open>\<open>ListUsers\<close> does not look at \<open>rows.Err()\<close>.\<close>

definition list_users :: "user_summary list sql" where
  "list_users =
     sbind (query_rows (\<lambda>d. map (summary_of d) (newest_first ur_created_at (db_users d))))
       (\<lambda>(rows, _). sreturn rows)"

definition list_users_for_manager :: "string \<Rightarrow> user_summary list sql" where
  "list_users_for_manager managerID =
     checked_rows (\<lambda>d. map (summary_of d)
       (newest_first ur_created_at
         (filter (\<lambda>u. list_ex (\<lambda>m. mr_bot_id m = ur_id u \<and> mr_manager_id m = managerID) (db_managers d)) (db_users d))))"

definition list_managers :: "string \<Rightarrow> manager_row list sql" where
  "list_managers botID =
     checked_rows (\<lambda>d. sort_key mr_created_at (filter (\<lambda>m. mr_bot_id m = botID) (db_managers d)))"

definition list_managed_bots :: "string \<Rightarrow> manager_row list sql" where
  "list_managed_bots managerID =
     checked_rows (\<lambda>d. sort_key mr_created_at (filter (\<lambda>m. mr_manager_id m = managerID) (db_managers d)))"

definition is_manager_of :: "string \<Rightarrow> string \<Rightarrow> bool sql" where
  "is_manager_of managerID botID =
     query (\<lambda>d. list_ex (\<lambda>m. mr_manager_id m = managerID \<and> mr_bot_id m = botID) (db_managers d))"

definition channel_info :: "channel_row \<Rightarrow> user_channel_info" where
  "channel_info ch =
     \<lparr>uc_id = cr_id ch, uc_channel_type = cr_type ch, uc_web_token = or_empty (cr_payload ch ''web_token''),
      uc_gateway_auth_token = or_empty (cr_payload ch ''gateway_auth_token'')\<rparr>"

definition find_user :: "string \<Rightarrow> database \<Rightarrow> user_row option" where
  "find_user user d = find (\<lambda>u. ur_id u = user) (db_users d)"

definition get_user :: "string \<Rightarrow> user_detail sql" where
  "get_user user =
     sbind (swrap ''user not found: '' (query_row (find_user user))) (\<lambda>u.
     sbind (checked_rows (\<lambda>d. channels_of d user)) (\<lambda>chans.
     sbind (list_managers user) (\<lambda>managers.
     sreturn \<lparr>ud_id = ur_id u, ud_role = ur_role u, ud_is_admin = role_is_admin (ur_role u),
       ud_policy_id = or_empty (ur_policy_id u), ud_created_at = ur_created_at u, ud_updated_at = ur_updated_at u,
       ud_channels = map channel_info chans, ud_managers = managers\<rparr>)))"

subsection \<open>Tokens\<close>

definition token_channel :: "string \<Rightarrow> string \<Rightarrow> string \<Rightarrow> channel_row \<Rightarrow> bool" where
  "token_channel type key token ch = (cr_type ch = type \<and> cr_payload ch key = Some token)"

text \<open>The first matching row answers; the join with \<open>users\<close> drops channels of no user.\<close>

definition web_token_row :: "string \<Rightarrow> database \<Rightarrow> (string \<times> string \<times> bool) option" where
  "web_token_row token d =
     (case filter (\<lambda>ch. token_channel ''web'' ''web_token'' token ch \<and> find_user (cr_user_id ch) d \<noteq> None) (db_channels d) of
        [] \<Rightarrow> None
      | ch # _ \<Rightarrow> map_option (\<lambda>u. (cr_user_id ch, ur_role u, ur_is_admin u)) (find_user (cr_user_id ch) d))"

definition get_user_by_web_token :: "string \<Rightarrow> conn \<Rightarrow> (string \<times> string) option \<times> conn" where
  "get_user_by_web_token token c =
     (if token = [] then (None, c)
      else case query_row (web_token_row token) c of
        (Inl _, c1) \<Rightarrow> (None, c1)
      | (Inr (userID, role, isAdmin), c1) \<Rightarrow>
          (Some (userID, if role = ''user'' \<and> isAdmin then ''admin'' else role), c1))"

definition gateway_token_row :: "string \<Rightarrow> database \<Rightarrow> string option" where
  "gateway_token_row token d =
     map_option cr_user_id (find (token_channel ''gateway_auth'' ''gateway_auth_token'' token) (db_channels d))"

definition get_user_by_gateway_auth_token :: "string \<Rightarrow> conn \<Rightarrow> string option \<times> conn" where
  "get_user_by_gateway_auth_token token c =
     (if token = [] then (None, c)
      else case query_row (gateway_token_row token) c of (Inl _, c1) \<Rightarrow> (None, c1) | (Inr u, c1) \<Rightarrow> (Some u, c1))"

text \<open>The query does not select the status and the deletion time.\<close>

definition user_policy_row :: "string \<Rightarrow> database \<Rightarrow> llm_policy option" where
  "user_policy_row user d =
     (case find_user user d of
        None \<Rightarrow> None
      | Some u \<Rightarrow>
          (case ur_policy_id u of
             None \<Rightarrow> None
           | Some pid \<Rightarrow>
               map_option (\<lambda>p. p\<lparr>lp_status := [], lp_deleted_at := None\<rparr>)
                 (find (\<lambda>p. lp_id p = pid \<and> lp_deleted_at p = None) (db_policies d))))"

definition get_llm_policy_for_user :: "string \<Rightarrow> conn \<Rightarrow> llm_policy option \<times> conn" where
  "get_llm_policy_for_user user c =
     (case query_row (user_policy_row user) c of (Inl _, c1) \<Rightarrow> (None, c1) | (Inr p, c1) \<Rightarrow> (Some p, c1))"

subsection \<open>Writing\<close>

definition duplicate_key :: go_error where "duplicate_key = ''duplicate key value violates unique constraint''"
definition foreign_key :: go_error where "foreign_key = ''violates foreign key constraint''"

definition insert_user :: "time \<Rightarrow> string \<Rightarrow> string \<Rightarrow> database \<Rightarrow> unit result \<times> database" where
  "insert_user now user role d =
     (if find_user user d \<noteq> None then (Inl duplicate_key, d)
      else (Inr (), d\<lparr>db_users := db_users d @
        [\<lparr>ur_id = user, ur_is_admin = role_is_admin role, ur_role = role, ur_policy_id = None, ur_created_at = now, ur_updated_at = now\<rparr>]\<rparr>))"

definition user_has_channel :: "string \<Rightarrow> string \<Rightarrow> database \<Rightarrow> bool" where
  "user_has_channel user type d = list_ex (\<lambda>ch. cr_user_id ch = user \<and> cr_type ch = type) (db_channels d)"

definition insert_channel ::
    "string \<Rightarrow> string \<Rightarrow> string \<Rightarrow> (string \<rightharpoonup> string) \<Rightarrow> database \<Rightarrow> unit result \<times> database" where
  "insert_channel cid user type payload d =
     (if list_ex (\<lambda>ch. cr_id ch = cid) (db_channels d) \<or> user_has_channel user type d then (Inl duplicate_key, d)
      else if find_user user d = None then (Inl foreign_key, d)
      else (Inr (), d\<lparr>db_channels := db_channels d @ [\<lparr>cr_id = cid, cr_user_id = user, cr_type = type, cr_payload = payload\<rparr>]\<rparr>))"

text \<open>\<open>ON CONFLICT (user_id, channel_type) DO UPDATE SET payload\<close>.\<close>

definition upsert_channel ::
    "string \<Rightarrow> string \<Rightarrow> string \<Rightarrow> (string \<rightharpoonup> string) \<Rightarrow> database \<Rightarrow> unit result \<times> database" where
  "upsert_channel cid user type payload d =
     (if user_has_channel user type d then
        (Inr (), d\<lparr>db_channels := map (\<lambda>ch. if cr_user_id ch = user \<and> cr_type ch = type then ch\<lparr>cr_payload := payload\<rparr> else ch) (db_channels d)\<rparr>)
      else insert_channel cid user type payload d)"

definition delete_channel :: "string \<Rightarrow> string \<Rightarrow> database \<Rightarrow> unit result \<times> database" where
  "delete_channel user type d =
     (Inr (), d\<lparr>db_channels := filter (\<lambda>ch. \<not> (cr_user_id ch = user \<and> cr_type ch = type)) (db_channels d)\<rparr>)"

definition create_user :: "time \<Rightarrow> string \<Rightarrow> string \<Rightarrow> string \<Rightarrow> create_user_request \<Rightarrow> user_detail sql" where
  "create_user now webChanID gatChanID newToken req =
     (let role = resolve_role (cu_role req) (cu_is_admin req);
          gatToken = (if cu_gateway_auth_token req = [] then newToken else cu_gateway_auth_token req)
      in sbind
        (transaction
          (sbind (swrap ''create user: '' (exec (insert_user now (cu_id req) role))) (\<lambda>_.
           sbind
             (if cu_web_token req = [] then sreturn ()
              else swrap ''create web channel: ''
                (exec (insert_channel webChanID (cu_id req) ''web'' [''web_token'' \<mapsto> cu_web_token req]))) (\<lambda>_.
           swrap ''create gateway_auth channel: ''
             (exec (insert_channel gatChanID (cu_id req) ''gateway_auth'' [''gateway_auth_token'' \<mapsto> gatToken]))))))
        (\<lambda>_. get_user (cu_id req)))"

text \<open>The dynamic \<open>UPDATE users\<close>: the row after it.\<close>

definition updated_row :: "time \<Rightarrow> update_user_request \<Rightarrow> user_row \<Rightarrow> user_row" where
  "updated_row now req u =
     (let u1 = u\<lparr>ur_updated_at := now\<rparr>;
          u2 = (case uu_role req of
                  Some r \<Rightarrow>
                    if ValidRoles r then u1\<lparr>ur_role := r, ur_is_admin := role_is_admin r\<rparr>
                    else (case uu_is_admin req of Some b \<Rightarrow> u1\<lparr>ur_is_admin := b, ur_role := resolve_role None b\<rparr> | None \<Rightarrow> u1)
                | None \<Rightarrow> (case uu_is_admin req of Some b \<Rightarrow> u1\<lparr>ur_is_admin := b, ur_role := resolve_role None b\<rparr> | None \<Rightarrow> u1))
      in case uu_policy_id req of
           None \<Rightarrow> u2
         | Some p \<Rightarrow> u2\<lparr>ur_policy_id := (if p = [] then None else Some p)\<rparr>)"

definition update_users :: "time \<Rightarrow> string \<Rightarrow> update_user_request \<Rightarrow> database \<Rightarrow> unit result \<times> database" where
  "update_users now user req d =
     (if find_user user d \<noteq> None \<and>
         (case uu_policy_id req of None \<Rightarrow> False | Some p \<Rightarrow> p \<noteq> [] \<and> \<not> list_ex (\<lambda>q. lp_id q = p) (db_policies d))
      then (Inl foreign_key, d)
      else (Inr (), d\<lparr>db_users := map (\<lambda>u. if ur_id u = user then updated_row now req u else u) (db_users d)\<rparr>))"

definition set_token_channel :: "string \<Rightarrow> string \<Rightarrow> string \<Rightarrow> string \<Rightarrow> string option \<Rightarrow> unit sql" where
  "set_token_channel cid user type key token =
     (case token of
        None \<Rightarrow> sreturn ()
      | Some t \<Rightarrow>
          if t = [] then swrap (''delete '' @ type @ '' channel: '') (exec (delete_channel user type))
          else swrap (''upsert '' @ type @ '' channel: '') (exec (upsert_channel cid user type [key \<mapsto> t])))"

definition update_user :: "time \<Rightarrow> string \<Rightarrow> string \<Rightarrow> string \<Rightarrow> update_user_request \<Rightarrow> user_detail sql" where
  "update_user now webChanID gatChanID user req =
     sbind
       (transaction
         (sbind
           (if uu_role req \<noteq> None \<or> uu_is_admin req \<noteq> None \<or> uu_policy_id req \<noteq> None
            then swrap ''update user: '' (exec (update_users now user req)) else sreturn ()) (\<lambda>_.
          sbind (set_token_channel webChanID user ''web'' ''web_token'' (uu_web_token req)) (\<lambda>_.
          set_token_channel gatChanID user ''gateway_auth'' ''gateway_auth_token'' (uu_gateway_auth_token req)))))
       (\<lambda>_. get_user user)"

text \<open>
  \<open>DELETE FROM users\<close>: channels, assignments, notification channels and buffered
  denials go with the user; audit entries refer to the user without a cascade.
\<close>

definition delete_users :: "string \<Rightarrow> database \<Rightarrow> nat result \<times> database" where
  "delete_users user d =
     (if find_user user d = None then (Inr 0, d)
      else if list_ex (\<lambda>a. ae_user_id (au_entry a) = user) (db_audit_log d) then (Inl foreign_key, d)
      else (Inr 1,
        d\<lparr>db_users := filter (\<lambda>u. ur_id u \<noteq> user) (db_users d),
          db_channels := filter (\<lambda>ch. cr_user_id ch \<noteq> user) (db_channels d),
          db_managers := filter (\<lambda>m. mr_bot_id m \<noteq> user \<and> mr_manager_id m \<noteq> user) (db_managers d),
          db_notification_channels := filter (\<lambda>n. nc_owner_id n \<noteq> user \<and> nc_bot_id n \<noteq> user) (db_notification_channels d),
          db_denials := filter (\<lambda>b. dn_bot_id b \<noteq> user) (db_denials d)\<rparr>))"

definition delete_user :: "string \<Rightarrow> unit sql" where
  "delete_user user =
     sbind (exec (delete_users user)) (\<lambda>n. if n = 0 then sfail ''user not found'' else sreturn ())"

definition insert_manager :: "time \<Rightarrow> string \<Rightarrow> string \<Rightarrow> string \<Rightarrow> database \<Rightarrow> unit result \<times> database" where
  "insert_manager now mid botID managerID d =
     (if list_ex (\<lambda>m. mr_bot_id m = botID \<and> mr_manager_id m = managerID) (db_managers d) then (Inr (), d)
      else if list_ex (\<lambda>m. mr_id m = mid) (db_managers d) then (Inl duplicate_key, d)
      else if find_user botID d = None \<or> find_user managerID d = None then (Inl foreign_key, d)
      else (Inr (), d\<lparr>db_managers := db_managers d @
        [\<lparr>mr_id = mid, mr_bot_id = botID, mr_manager_id = managerID, mr_created_at = now\<rparr>]\<rparr>))"

definition assign_manager :: "time \<Rightarrow> string \<Rightarrow> string \<Rightarrow> string \<Rightarrow> unit sql" where
  "assign_manager now mid botID managerID = exec (insert_manager now mid botID managerID)"

definition delete_managers :: "string \<Rightarrow> string \<Rightarrow> database \<Rightarrow> nat result \<times> database" where
  "delete_managers botID managerID d =
     (let gone = filter (\<lambda>m. mr_bot_id m = botID \<and> mr_manager_id m = managerID) (db_managers d)
      in (Inr (length gone), d\<lparr>db_managers := filter (\<lambda>m. \<not> (mr_bot_id m = botID \<and> mr_manager_id m = managerID)) (db_managers d)\<rparr>))"

definition unassign_manager :: "string \<Rightarrow> string \<Rightarrow> unit sql" where
  "unassign_manager botID managerID =
     sbind (exec (delete_managers botID managerID)) (\<lambda>n. if n = 0 then sfail ''assignment not found'' else sreturn ())"

end
