(* ===== verification/Policy_Store.thy ===== *)
theory Policy_Store imports User_Store begin

text \<open>
  Policies and their builder metadata (\<open>internal/llmpolicy/pg_store.go\<close>). Static rules
  and metadata are stored as JSON columns whose contents are the data written;
  \<open>NormalizeStaticRules\<close>, which turns a nil list of methods into an empty one, is the
  identity on lists. An update that finds no row is told from one that fails.
\<close>

definition normalize_static_rules :: "static_rule list \<Rightarrow> static_rule list" where
  "normalize_static_rules rules = rules"

text \<open>The sentinel errors, told from other errors by \<open>errors.Is\<close>.\<close>

datatype store_error = ErrPolicyNotFound | ErrPolicyHasAssignedUsers | ErrPolicyNotDraft | OtherError go_error

definition store_error_text :: "store_error \<Rightarrow> string" where
  "store_error_text e =
     (case e of
        ErrPolicyNotFound \<Rightarrow> ''llm_policy not found''
      | ErrPolicyHasAssignedUsers \<Rightarrow> ''policy is assigned to users; unassign them before deleting''
      | ErrPolicyNotDraft \<Rightarrow> ''policy is not a draft; only drafts can be edited''
      | OtherError s \<Rightarrow> s)"

definition find_policy :: "string \<Rightarrow> database \<Rightarrow> llm_policy option" where
  "find_policy pid d = find (\<lambda>p. lp_id p = pid) (db_policies d)"

definition policy_get :: "string \<Rightarrow> llm_policy sql" where
  "policy_get pid c =
     (case query_row (find_policy pid) c of
        (Inl e, c1) \<Rightarrow> (Inl (if e = no_rows then ''llm_policy not found: '' @ pid else ''Get llm_policy: '' @ e), c1)
      | (Inr p, c1) \<Rightarrow> (Inr (p\<lparr>lp_static_rules := normalize_static_rules (lp_static_rules p)\<rparr>), c1))"

definition policy_list :: "int \<Rightarrow> int \<Rightarrow> llm_policy list sql" where
  "policy_list limit offset =
     (let n = (if limit \<le> 0 then 50 else limit) in
      named_rows ''List llm_policies: '' [] (\<lambda>d. take (nat n) (drop (nat offset)
        (newest_first lp_created_at (filter (\<lambda>p. lp_deleted_at p = None) (db_policies d))))))"

definition metadata_of :: "string \<Rightarrow> database \<Rightarrow> policy_metadata option" where
  "metadata_of pid d = map_of (db_metadata d) pid"

definition policy_get_metadata :: "string \<Rightarrow> policy_metadata option sql" where
  "policy_get_metadata pid = swrap ''GetMetadata: '' (query (metadata_of pid))"

text \<open>Upserts of the metadata row; a row needs its policy.\<close>

definition put_metadata ::
    "string \<Rightarrow> (policy_metadata \<Rightarrow> policy_metadata) \<Rightarrow> database \<Rightarrow> unit result \<times> database" where
  "put_metadata pid upd d =
     (case metadata_of pid d of
        Some m \<Rightarrow> (Inr (), d\<lparr>db_metadata := AList.update pid (upd m) (db_metadata d)\<rparr>)
      | None \<Rightarrow>
          if find_policy pid d = None then (Inl foreign_key, d)
          else (Inr (), d\<lparr>db_metadata := AList.update pid (upd empty_metadata) (db_metadata d)\<rparr>))"

definition policy_upsert_metadata :: "string \<Rightarrow> policy_metadata \<Rightarrow> unit sql" where
  "policy_upsert_metadata pid m = exec (put_metadata pid (\<lambda>_. m))"

definition policy_set_endpoint_summaries :: "string \<Rightarrow> endpoint_summary list \<Rightarrow> unit sql" where
  "policy_set_endpoint_summaries pid summaries = exec (put_metadata pid (\<lambda>m. m\<lparr>pm_endpoint_summaries := summaries\<rparr>))"

definition policy_set_chat_history :: "string \<Rightarrow> chat_message list \<Rightarrow> unit sql" where
  "policy_set_chat_history pid history = exec (put_metadata pid (\<lambda>m. m\<lparr>pm_chat_history := history\<rparr>))"

definition insert_policy :: "llm_policy \<Rightarrow> database \<Rightarrow> unit result \<times> database" where
  "insert_policy p d =
     (if find_policy (lp_id p) d \<noteq> None then (Inl duplicate_key, d)
      else if lp_forked_from p \<noteq> [] \<and> find_policy (lp_forked_from p) d = None then (Inl foreign_key, d)
      else (Inr (), d\<lparr>db_policies := db_policies d @ [p]\<rparr>))"

record policy_text =
  pt_name :: string
  pt_prompt :: string
  pt_provider :: string
  pt_model :: string
  pt_static_rules :: "static_rule list"

definition new_policy :: "time \<Rightarrow> string \<Rightarrow> policy_text \<Rightarrow> string \<Rightarrow> string \<Rightarrow> llm_policy" where
  "new_policy now pid t forkedFrom status =
     \<lparr>lp_id = pid, lp_name = pt_name t, lp_prompt = pt_prompt t, lp_provider = pt_provider t, lp_model = pt_model t,
      lp_status = (if status = [] then ''published'' else status), lp_forked_from = forkedFrom,
      lp_static_rules = normalize_static_rules (pt_static_rules t), lp_created_at = now, lp_deleted_at = None\<rparr>"

definition policy_create :: "time \<Rightarrow> string \<Rightarrow> policy_text \<Rightarrow> string \<Rightarrow> string \<Rightarrow> llm_policy sql" where
  "policy_create now pid t forkedFrom status =
     (let p = new_policy now pid t forkedFrom status in
      sbind (swrap ''Create llm_policy: '' (exec (insert_policy p))) (\<lambda>_. sreturn p))"

definition live_draft :: "string \<Rightarrow> llm_policy \<Rightarrow> bool" where
  "live_draft pid p = (lp_id p = pid \<and> lp_status p = ''draft'' \<and> lp_deleted_at p = None)"

text \<open>An \<open>UPDATE\<close> of the rows a condition selects, with the number of rows it changed.\<close>

definition update_policies ::
    "(database \<Rightarrow> llm_policy \<Rightarrow> bool) \<Rightarrow> (llm_policy \<Rightarrow> llm_policy) \<Rightarrow> database \<Rightarrow> nat result \<times> database" where
  "update_policies cond upd d =
     (Inr (length (filter (cond d) (db_policies d))),
      d\<lparr>db_policies := map (\<lambda>p. if cond d p then upd p else p) (db_policies d)\<rparr>)"

definition edited :: "policy_text \<Rightarrow> llm_policy \<Rightarrow> llm_policy" where
  "edited t p = p\<lparr>lp_name := pt_name t, lp_prompt := pt_prompt t, lp_provider := pt_provider t, lp_model := pt_model t,
     lp_static_rules := normalize_static_rules (pt_static_rules t)\<rparr>"

definition drafted :: "string \<Rightarrow> (llm_policy \<Rightarrow> llm_policy) \<Rightarrow> string \<Rightarrow> conn \<Rightarrow> (store_error + llm_policy) \<times> conn" where
  "drafted msg upd pid c =
     (case exec (update_policies (\<lambda>_. live_draft pid) upd) c of
        (Inl e, c1) \<Rightarrow> (Inl (OtherError (msg @ e)), c1)
      | (Inr n, c1) \<Rightarrow>
          if n = 0 then (Inl ErrPolicyNotDraft, c1)
          else (case policy_get pid c1 of (Inl e, c2) \<Rightarrow> (Inl (OtherError e), c2) | (Inr p, c2) \<Rightarrow> (Inr p, c2)))"

definition policy_update_draft :: "string \<Rightarrow> policy_text \<Rightarrow> conn \<Rightarrow> (store_error + llm_policy) \<times> conn" where
  "policy_update_draft pid t = drafted ''UpdateDraft: '' (edited t) pid"

definition policy_publish :: "string \<Rightarrow> conn \<Rightarrow> (store_error + llm_policy) \<times> conn" where
  "policy_publish pid = drafted ''Publish: '' (\<lambda>p. p\<lparr>lp_status := ''published''\<rparr>) pid"

definition assigned :: "string \<Rightarrow> database \<Rightarrow> bool" where
  "assigned pid d = list_ex (\<lambda>u. ur_policy_id u = Some pid) (db_users d)"

definition policy_delete :: "time \<Rightarrow> string \<Rightarrow> conn \<Rightarrow> store_error option \<times> conn" where
  "policy_delete now pid c =
     (case exec (update_policies (\<lambda>d p. lp_id p = pid \<and> lp_deleted_at p = None \<and> \<not> assigned pid d)
          (\<lambda>p. p\<lparr>lp_deleted_at := Some now\<rparr>)) c of
        (Inl e, c1) \<Rightarrow> (Some (OtherError (''Delete llm_policy: '' @ e)), c1)
      | (Inr n, c1) \<Rightarrow>
          if n = 0 then
            (case query (assigned pid) c1 of
               (Inr True, c2) \<Rightarrow> (Some ErrPolicyHasAssignedUsers, c2)
             | (_, c2) \<Rightarrow> (Some ErrPolicyNotFound, c2))
          else (None, c1))"

end
