(* ===== verification/Alert_Store.thy ===== *)
theory Alert_Store imports Policy_Store begin

text \<open>
  Notification channels and the buffer of denials (\<open>internal/alerting/store.go\<close>). The
  order in which \<open>LIMIT\<close> picks among the ready rows is the database's; here it is that
  of the table.
\<close>

definition list_channels_for_owner :: "string \<Rightarrow> notification_channel list sql" where
  "list_channels_for_owner owner =
     checked_rows (\<lambda>d. take 100 (newest_first nc_created_at
       (if owner = [] then db_notification_channels d
        else filter (\<lambda>n. nc_owner_id n = owner) (db_notification_channels d))))"

definition of_bot :: "string \<Rightarrow> notification_channel \<Rightarrow> bool" where
  "of_bot botID n = (nc_bot_id n \<noteq> [] \<and> nc_bot_id n = botID)"

definition list_channels_for_bot :: "string \<Rightarrow> notification_channel list sql" where
  "list_channels_for_bot botID =
     checked_rows (\<lambda>d. newest_first nc_created_at (filter (of_bot botID) (db_notification_channels d)))"

definition list_active_channels_for_bot :: "string \<Rightarrow> notification_channel list sql" where
  "list_active_channels_for_bot botID =
     checked_rows (\<lambda>d. newest_first nc_created_at (filter (\<lambda>n. of_bot botID n \<and> nc_enabled n) (db_notification_channels d)))"

definition find_channel :: "string \<Rightarrow> database \<Rightarrow> notification_channel option" where
  "find_channel cid d = find (\<lambda>n. nc_id n = cid) (db_notification_channels d)"

definition get_channel :: "string \<Rightarrow> notification_channel sql" where
  "get_channel cid = query_row (find_channel cid)"

definition same_channel :: "notification_channel \<Rightarrow> notification_channel \<Rightarrow> bool" where
  "same_channel a b =
     (nc_owner_id a = nc_owner_id b \<and> nc_bot_id a = nc_bot_id b \<and> nc_channel_type a = nc_channel_type b \<and>
      nc_destination a = nc_destination b)"

definition insert_notification_channel :: "notification_channel \<Rightarrow> database \<Rightarrow> unit result \<times> database" where
  "insert_notification_channel n d =
     (if find_channel (nc_id n) d \<noteq> None \<or> list_ex (same_channel n) (db_notification_channels d) then (Inl duplicate_key, d)
      else if find_user (nc_owner_id n) d = None \<or> (nc_bot_id n \<noteq> [] \<and> find_user (nc_bot_id n) d = None) then (Inl foreign_key, d)
      else (Inr (), d\<lparr>db_notification_channels := db_notification_channels d @ [n]\<rparr>))"

text \<open>The column \<open>enabled\<close> is not inserted and takes its default.\<close>

definition create_channel :: "time \<Rightarrow> string \<Rightarrow> notification_channel \<Rightarrow> notification_channel sql" where
  "create_channel now cid ch =
     (let ch1 = ch\<lparr>nc_id := cid, nc_created_at := now, nc_updated_at := now\<rparr>
      in sbind (exec (insert_notification_channel (ch1\<lparr>nc_enabled := True\<rparr>))) (\<lambda>_. sreturn ch1))"

definition err_not_found :: go_error where "err_not_found = ''not found''"

definition update_channels ::
    "string \<Rightarrow> (notification_channel \<Rightarrow> notification_channel) \<Rightarrow> database \<Rightarrow> nat result \<times> database" where
  "update_channels cid upd d =
     (case find_channel cid d of
        None \<Rightarrow> (Inr 0, d)
      | Some n \<Rightarrow>
          if list_ex (\<lambda>m. nc_id m \<noteq> cid \<and> same_channel (upd n) m) (db_notification_channels d) then (Inl duplicate_key, d)
          else (Inr 1, d\<lparr>db_notification_channels :=
            map (\<lambda>m. if nc_id m = cid then upd m else m) (db_notification_channels d)\<rparr>))"

definition update_channel :: "time \<Rightarrow> string \<Rightarrow> string \<Rightarrow> string \<Rightarrow> bool \<Rightarrow> unit sql" where
  "update_channel now cid type dest enabled =
     sbind (exec (update_channels cid
         (\<lambda>n. n\<lparr>nc_channel_type := type, nc_destination := dest, nc_enabled := enabled, nc_updated_at := now\<rparr>)))
       (\<lambda>n. if n = 0 then sfail err_not_found else sreturn ())"

definition delete_notification_channel :: "string \<Rightarrow> unit sql" where
  "delete_notification_channel cid =
     sbind (exec (\<lambda>d. (Inr (length (filter (\<lambda>n. nc_id n = cid) (db_notification_channels d))),
         d\<lparr>db_notification_channels := filter (\<lambda>n. nc_id n \<noteq> cid) (db_notification_channels d)\<rparr>)))
       (\<lambda>n. if n = 0 then sfail err_not_found else sreturn ())"

definition managers_for_bot :: "string \<Rightarrow> string list sql" where
  "managers_for_bot botID = checked_rows (\<lambda>d. map mr_manager_id (filter (\<lambda>m. mr_bot_id m = botID) (db_managers d)))"

subsection \<open>The buffer\<close>

definition buffer_denial :: "time \<Rightarrow> string \<Rightarrow> string \<Rightarrow> string \<Rightarrow> string \<Rightarrow> string \<Rightarrow> unit sql" where
  "buffer_denial now did botID method url reason =
     exec (\<lambda>d.
       if list_ex (\<lambda>b. dn_id b = did) (db_denials d) then (Inl duplicate_key, d)
       else if find_user botID d = None then (Inl foreign_key, d)
       else (Inr (), d\<lparr>db_denials := db_denials d @
         [\<lparr>dn_id = did, dn_bot_id = botID, dn_method = method, dn_url = url, dn_reason = reason, dn_created_at = now\<rparr>]\<rparr>))"

text \<open>A bot is ready when its oldest denial is older than the window, in whole seconds.\<close>

definition ready_bot :: "time \<Rightarrow> time \<Rightarrow> database \<Rightarrow> string \<Rightarrow> bool" where
  "ready_bot now batchWait d botID =
     list_ex (\<lambda>b. dn_bot_id b = botID \<and> dn_created_at b < now - batchWait div 1000000000 * 1000000000) (db_denials d)"

definition claimed :: "time \<Rightarrow> time \<Rightarrow> database \<Rightarrow> denial_row list" where
  "claimed now batchWait d = take 1000 (filter (\<lambda>b. ready_bot now batchWait d (dn_bot_id b)) (db_denials d))"

record denial_info =
  di_id :: string
  di_method :: string
  di_url :: string
  di_reason :: string

definition denial_info_of :: "denial_row \<Rightarrow> denial_info" where
  "denial_info_of b = \<lparr>di_id = dn_id b, di_method = dn_method b, di_url = dn_url b, di_reason = dn_reason b\<rparr>"

definition by_bot :: "denial_row list \<Rightarrow> (string \<times> denial_info list) list" where
  "by_bot rows =
     map (\<lambda>botID. (botID, map denial_info_of (filter (\<lambda>b. dn_bot_id b = botID) rows))) (remdups (map dn_bot_id rows))"

text \<open>
  The rows are deleted by the statement that returns them. A fault of the statement rolls the
  deletion back; a fault in reading its rows comes after the server may have committed, and is
  taken here as one after the commit.
\<close>

definition delete_claimed :: "time \<Rightarrow> time \<Rightarrow> denial_row list sql" where
  "delete_claimed now batchWait =
     exec (\<lambda>d. let rows = claimed now batchWait d
       in (Inr rows, d\<lparr>db_denials := filter (\<lambda>b. b \<notin> set rows) (db_denials d)\<rparr>))"

definition claim_flushable_denials :: "time \<Rightarrow> time \<Rightarrow> (string \<times> denial_info list) list sql" where
  "claim_flushable_denials now batchWait =
     sbind (delete_claimed now batchWait) (\<lambda>rows. sbind (query (\<lambda>_. ())) (\<lambda>_. sreturn (by_bot rows)))"

end
