(* ===== verification/Judge_Llm.thy ===== *)
theory Judge_Llm imports Judge_Types Judge_Prompt Llm_Format begin

text \<open>
  The LLM judge (\<open>LLMJudge.Evaluate\<close>): one completion request, whose answer must be a
  JSON object naming ALLOW or DENY. The adapter is an argument: its model and its
  \<open>Complete\<close>. \<open>jerr\<close> is the error text of the JSON package.
\<close>

record judge_answer =
  ja_decision :: string
  ja_reason :: string

definition dec_answer :: "judge_answer dec" where
  "dec_answer = dec_struct
     [(''decision'', in_field ja_decision (\<lambda>x a. a\<lparr>ja_decision := x\<rparr>) dec_string),
      (''reason'', in_field ja_reason (\<lambda>x a. a\<lparr>ja_reason := x\<rparr>) dec_string)]"

definition judge_request :: "mime_ops \<Rightarrow> string \<Rightarrow> string \<Rightarrow> header \<Rightarrow> string \<Rightarrow> llm_policy \<Rightarrow> llm_request" where
  "judge_request mime meth url h body policy =
     \<lparr>lq_system = build_system_prompt (lp_prompt policy),
      lq_messages =
        [\<lparr>lm_role = ''user'',
          lm_content = build_user_message mime meth url h body (hdr_get h ''Content-Type''),
          lm_tool_calls = [], lm_tool_result = None\<rparr>],
      lq_tools = [], lq_max_tokens = 512, lq_cache_system_prompt = True\<rparr>"

type_synonym completer = "llm_request \<Rightarrow> completion \<times> wrapped_error option"

definition judge_verdict :: "string \<Rightarrow> judge_answer option \<Rightarrow> (string \<Rightarrow> string) \<Rightarrow> judge_result \<Rightarrow> judge_result \<times> go_error option" where
  "judge_verdict txt answer jerr partial =
     (case answer of
        None \<Rightarrow>
          (partial, Some (''failed to parse decision JSON from model output: '' @ jerr (strip_code_fences txt)
             @ '' (response: '' @ txt @ '')''))
      | Some d \<Rightarrow>
          (let p = partial\<lparr>jr_reason := ja_reason d\<rparr>; decision = to_upper (trim_space (ja_decision d)) in
           if decision = DecisionAllow then (p\<lparr>jr_decision := DecisionAllow\<rparr>, None)
           else if decision = DecisionDeny then (p\<lparr>jr_decision := DecisionDeny\<rparr>, None)
           else (p, Some (''unknown decision '' @ quote_str decision @ '' from model''))))"

definition llm_evaluate :: "mime_ops \<Rightarrow> (string \<Rightarrow> string) \<Rightarrow> string \<Rightarrow> completer \<Rightarrow> evaluator" where
  "llm_evaluate mime jerr model ask meth url h body policy =
     (let (resp, err) = ask (judge_request mime meth url h body policy);
          partial = empty_judge_result\<lparr>jr_model := model, jr_duration_ms := co_duration_ms resp\<rparr>
      in case err of
           Some e \<Rightarrow>
             (partial\<lparr>jr_raw_output := ''adapter complete failed: '' @ we_text e\<rparr>,
              Some (''adapter complete failed: '' @ we_text e))
         | None \<Rightarrow>
             judge_verdict (co_text resp)
               (unmarshal_into dec_answer \<lparr>ja_decision = [], ja_reason = []\<rparr> (strip_code_fences (co_text resp)))
               jerr
               (partial\<lparr>jr_input_tokens := co_input_tokens resp, jr_output_tokens := co_output_tokens resp,
                        jr_raw_output := co_text resp\<rparr>))"

lemma judge_verdict_decides:
  "judge_verdict txt ans jerr p = (r, None) \<Longrightarrow>
   \<exists>d. ans = Some d \<and> jr_decision r = to_upper (trim_space (ja_decision d)) \<and>
     (jr_decision r = DecisionAllow \<or> jr_decision r = DecisionDeny)"
  by (auto simp: judge_verdict_def Let_def split: option.splits if_splits)

lemma judge_verdict_undecided:
  "judge_verdict txt ans jerr p = (r, Some e) \<Longrightarrow> jr_decision r = jr_decision p"
  by (auto simp: judge_verdict_def Let_def split: option.splits if_splits)

interpretation lj: evaluator_contract "llm_evaluate mime jerr model ask" for mime jerr model ask
  by unfold_locales (auto simp: llm_evaluate_def Let_def split: prod.splits option.splits dest: judge_verdict_decides)

text \<open>The decisions the model's text may name, as the judge reads them.\<close>

definition answered :: "string \<Rightarrow> string option" where
  "answered txt =
     map_option (\<lambda>d. to_upper (trim_space (ja_decision d)))
       (unmarshal_into dec_answer \<lparr>ja_decision = [], ja_reason = []\<rparr> (strip_code_fences txt))"

lemma judge_decides_iff:
  "(jr_decision (fst (llm_evaluate mime jerr model ask m u h b p)) = d \<and>
    snd (llm_evaluate mime jerr model ask m u h b p) = None) \<longleftrightarrow>
   snd (ask (judge_request mime m u h b p)) = None \<and> (d = DecisionAllow \<or> d = DecisionDeny) \<and>
   answered (co_text (fst (ask (judge_request mime m u h b p)))) = Some d"
proof (cases "ask (judge_request mime m u h b p)")
  case (Pair resp err)
  show ?thesis
    unfolding llm_evaluate_def answered_def judge_verdict_def Pair
    by (cases err; cases "unmarshal_into dec_answer \<lparr>ja_decision = [], ja_reason = []\<rparr> (strip_code_fences (co_text resp))")
      (auto simp: Let_def)
qed

text \<open>
  C22: the judge decides exactly as the model answered. The result carries ALLOW (or DENY)
  just when the completion succeeded and its text, without code fences, is a JSON object whose
  decision member is that word up to case and surrounding white space. In every other case
  there is an error and no decision.
\<close>

theorem judge_decides_as_answered:
  "(jr_decision (fst (llm_evaluate mime jerr model ask m u h b p)) = d \<and>
    snd (llm_evaluate mime jerr model ask m u h b p) = None) \<longleftrightarrow>
   snd (ask (judge_request mime m u h b p)) = None \<and> (d = DecisionAllow \<or> d = DecisionDeny) \<and>
   answered (co_text (fst (ask (judge_request mime m u h b p)))) = Some d"
  by (rule judge_decides_iff)

end
