(* ===== verification/Alerting.thy ===== *)
theory Alerting imports Alert_Store Notifications Judge_Llm Llm_Adapter "HOL-Library.AList" begin

text \<open>
  Alerts on denials (\<open>internal/alerting\<close>): the service that buffers denied requests and
  sends them in batches, the summary a model writes of a batch, and the Slack message. The
  model, the HTTP client of Slack, the clock and the random identifiers are arguments; one run
  of the ticker flushes the bots in the order of the claimed rows.
\<close>

subsection \<open>Messages and senders\<close>

record alert_message =
  am_bot_id :: string
  am_blocked_count :: nat
  am_denials :: "denial_info list"
  am_summary :: string

type_synonym sender = "string \<Rightarrow> alert_message \<Rightarrow> go_error option"

definition bullet :: string where "bullet = [CHR 0xE2, CHR 0x80, CHR 0xA2]"

definition escape_char :: "char \<Rightarrow> string" where
  "escape_char c =
     (if c = CHR ''&'' then ''&amp;'' else if c = CHR ''<'' then ''&lt;'' else if c = CHR ''>'' then ''&gt;'' else [c])"

definition slack_escape :: "string \<Rightarrow> string" where
  "slack_escape s = concat (map escape_char s)"

definition denial_key :: "denial_info \<Rightarrow> string" where
  "denial_key x = di_method x @ '' '' @ di_url x"

text \<open>The distinct requests in the order of their first occurrence, with their numbers.\<close>

definition url_counts :: "denial_info list \<Rightarrow> (string \<times> nat) list" where
  "url_counts ds =
     (let keys = map denial_key ds
      in map (\<lambda>k. (k, length (filter (\<lambda>j. j = k) keys))) (rev (remdups (rev keys))))"

definition count_line :: "string \<times> nat \<Rightarrow> string" where
  "count_line kn =
     nl @ bullet @ '' `'' @ slack_escape (fst kn) @ ''`'' @ (if 1 < snd kn then '' ('' @ dec (snd kn) @ ''x)'' else [])"

definition slack_text :: "alert_message \<Rightarrow> string" where
  "slack_text m =
     '':rotating_light: *Denial summary* for `'' @ slack_escape (am_bot_id m) @ ''` ('' @ dec (am_blocked_count m)
     @ '' blocked requests)'' @ nl @ nl @ slack_escape (am_summary m)
     @ (let lines = url_counts (am_denials m)
        in if lines = [] then [] else nl @ nl @ ''Requests blocked:'' @ concat (map count_line lines))"

definition slack_payload :: "string \<Rightarrow> string \<Rightarrow> json" where
  "slack_payload destination txt =
     json_map ([(''channel'', JStr destination), (''text'', JStr txt)]
       @ (if length txt \<le> 3000
          then [(''blocks'', JArr [json_map [(''type'', JStr ''section''),
                   (''text'', json_map [(''type'', JStr ''mrkdwn''), (''text'', JStr txt)])]])]
          else []))"

definition slack_request :: "string \<Rightarrow> string \<Rightarrow> alert_message \<Rightarrow> outgoing" where
  "slack_request botToken destination m =
     \<lparr>og_url = ''https://slack.com/api/chat.postMessage'',
      og_header = [(''Content-Type'', [''application/json; charset=utf-8'']), (''Authorization'', [''Bearer '' @ botToken])],
      og_body = json_text (slack_payload destination (slack_text m)), og_timeout = 10 * 1000000000\<rparr>"

record slack_reply =
  sl_ok :: bool
  sl_error :: string

definition dec_slack :: "slack_reply dec" where
  "dec_slack = dec_struct
     [(''ok'', in_field sl_ok (\<lambda>x r. r\<lparr>sl_ok := x\<rparr>) dec_bool),
      (''error'', in_field sl_error (\<lambda>x r. r\<lparr>sl_error := x\<rparr>) dec_string)]"

text \<open>\<open>jerr\<close> is the error text of the JSON package.\<close>

definition slack_outcome :: "(string \<Rightarrow> string) \<Rightarrow> http_outcome \<Rightarrow> go_error option" where
  "slack_outcome jerr res =
     (case res of
        DoErr e \<Rightarrow> Some (''slack: send: '' @ e)
      | DoResp status body \<Rightarrow>
          if status \<noteq> 200 then Some (''slack: unexpected status '' @ itoa status)
          else (case (case json_decode body of None \<Rightarrow> None | Some v \<Rightarrow> dec_slack v \<lparr>sl_ok = False, sl_error = []\<rparr>) of
             None \<Rightarrow> Some (''slack: decode response: '' @ jerr body)
           | Some r \<Rightarrow> if sl_ok r then None else Some (''slack: API error: '' @ sl_error r)))"

definition slack_send :: "(outgoing \<Rightarrow> http_outcome) \<Rightarrow> (string \<Rightarrow> string) \<Rightarrow> string \<Rightarrow> sender" where
  "slack_send client jerr botToken destination m = slack_outcome jerr (client (slack_request botToken destination m))"

subsection \<open>Summaries\<close>

definition sanitize_prompt_field :: "string \<Rightarrow> string" where
  "sanitize_prompt_field s = map (\<lambda>c. if c \<in> {CHR 0x0A, CHR 0x0D, CHR 0x09} then CHR '' '' else c) s"

definition denial_line :: "nat \<times> denial_info \<Rightarrow> string" where
  "denial_line ix =
     dec (fst ix + 1) @ ''. '' @ di_method (snd ix) @ '' '' @ sanitize_prompt_field (di_url (snd ix))
     @ (if di_reason (snd ix) = [] then [] else '' (denied because: '' @ sanitize_prompt_field (di_reason (snd ix)) @ '')'')"

definition denial_lines :: "denial_info list \<Rightarrow> string list" where
  "denial_lines ds = map denial_line (zip [0..<length ds] ds)"

definition summary_prompt :: "string \<Rightarrow> denial_info list \<Rightarrow> string" where
  "summary_prompt botID ds =
     ''A bot ('' @ botID @ '') had '' @ dec (length ds) @ '' HTTP requests denied by a security policy in the last few minutes:''
     @ nl @ nl @ join (denial_lines ds) nl @ nl @ nl
     @ ''Do two things and return them as a single JSON object:'' @ nl
     @ ''1. '' @ in_quotes ''summary'' @ '': 2-3 sentences describing what the bot was trying to do and why it was blocked. ''
     @ ''If this looks like a legitimate workflow that needs policy access, say so; if it looks suspicious or ''
     @ ''like a hallucination, flag that. Be specific and actionable for an engineering manager deciding whether ''
     @ ''to update the policy. Plain text only '' @ dash @ '' no markdown.'' @ nl
     @ ''2. '' @ in_quotes ''urls'' @ '': an array with the redacted URL from each numbered request line above, in the same order ''
     @ ''('' @ dec (length ds) @ '' entries, just the URL '' @ dash @ '' omit the method). Redact every secret in the URL '' @ dash
     @ '' API keys, tokens, ''
     @ ''passwords, client secrets, session IDs, or any high-entropy credential-like value, whether in the ''
     @ ''query string (e.g. api_key=, token=, *_secret=) or the userinfo component '' @ dash @ '' by replacing the secret ''
     @ ''value with [REDACTED]. Keep the path and non-secret query parameters intact. Redact any ''
     @ ''secrets in the '' @ in_quotes ''summary'' @ '' field too.'' @ nl @ nl
     @ ''Return ONLY the JSON object: {'' @ in_quotes ''summary'' @ '': '' @ in_quotes ''...'' @ '', '' @ in_quotes ''urls'' @ '': [''
     @ in_quotes ''https://...'' @ '', ...]}''"

definition summary_request :: "string \<Rightarrow> denial_info list \<Rightarrow> llm_request" where
  "summary_request botID ds =
     \<lparr>lq_system = ''You analyze AI agent denial events for engineering managers and redact secrets before they are shown to humans. Output only the requested JSON object.'',
      lq_messages = [\<lparr>lm_role = ''user'', lm_content = summary_prompt botID ds, lm_tool_calls = [], lm_tool_result = None\<rparr>],
      lq_tools = [], lq_max_tokens = 1500, lq_cache_system_prompt = False\<rparr>"

record summarizer_output =
  so_summary :: string
  so_urls :: "string list"

definition dec_summary :: "summarizer_output dec" where
  "dec_summary = dec_struct
     [(''summary'', in_field so_summary (\<lambda>x b. b\<lparr>so_summary := x\<rparr>) dec_string),
      (''urls'', in_field so_urls (\<lambda>x b. b\<lparr>so_urls := x\<rparr>) (dec_list dec_string []))]"

type_synonym summarizer = "string \<Rightarrow> denial_info list \<Rightarrow> (string \<times> denial_info list) result"

definition read_summary :: "(string \<Rightarrow> string) \<Rightarrow> denial_info list \<Rightarrow> string \<Rightarrow> (string \<times> denial_info list) result" where
  "read_summary jerr ds txt =
     (case unmarshal_into dec_summary \<lparr>so_summary = [], so_urls = []\<rparr> (strip_code_fences txt) of
        None \<Rightarrow> Inl (''alerting: parse summarizer output: '' @ jerr (strip_code_fences txt))
      | Some out \<Rightarrow>
          if length (so_urls out) \<noteq> length ds
          then Inl (''alerting: summarizer returned '' @ dec (length (so_urls out)) @ '' urls for '' @ dec (length ds) @ '' denials'')
          else Inr (trim_space (so_summary out), map (\<lambda>(u, x). x\<lparr>di_url := trim_space u\<rparr>) (zip (so_urls out) ds)))"

definition summarize :: "completer option \<Rightarrow> (string \<Rightarrow> string) \<Rightarrow> summarizer" where
  "summarize adapter jerr botID ds =
     (if ds = [] then Inr ([], [])
      else case adapter of
        None \<Rightarrow> Inl ''alerting: no LLM adapter configured for summarization''
      | Some ask \<Rightarrow>
          (case ask (summary_request botID ds) of
             (_, Some e) \<Rightarrow> Inl (we_text e)
           | (resp, None) \<Rightarrow> read_summary jerr ds (co_text resp)))"

subsection \<open>The service\<close>

datatype alert_metric = DenialBuffered | NotificationSent string | FlushError string

text \<open>What reaches the outside: a message handed to a sender, and the metrics.\<close>

datatype alert_effect = Sent string string alert_message | Metric alert_metric

record alert_service =
  as_senders :: "(string \<times> sender) list"
  as_summarizer :: summarizer
  as_batch_wait :: time
  as_metrics :: bool

definition register_sender :: "string \<Rightarrow> sender \<Rightarrow> alert_service \<Rightarrow> alert_service" where
  "register_sender ty send s = s\<lparr>as_senders := AList.update ty send (as_senders s)\<rparr>"

definition sender_for :: "alert_service \<Rightarrow> string \<Rightarrow> sender option" where
  "sender_for s ty = map_of (as_senders s) ty"

definition metric :: "alert_service \<Rightarrow> alert_metric \<Rightarrow> alert_effect list" where
  "metric s m = (if as_metrics s then [Metric m] else [])"

text \<open>\<open>Notify\<close>: a denied request of a known user is buffered; an error is only logged.\<close>

definition alert_notify :: "alert_service \<Rightarrow> time \<Rightarrow> string \<Rightarrow> event \<Rightarrow> conn \<Rightarrow> alert_effect list \<times> conn" where
  "alert_notify s now did ev c =
     (if vt_type ev \<noteq> EventAuditEntry then ([], c)
      else case vt_data ev of
        Some (AuditData entry) \<Rightarrow>
          if ae_decision entry \<noteq> ''denied'' \<or> ae_user_id entry = [] then ([], c)
          else (case buffer_denial now did (ae_user_id entry) (ae_method entry) (ae_url entry) (ae_llm_reason entry) c of
             (Inl _, c1) \<Rightarrow> ([], c1)
           | (Inr _, c1) \<Rightarrow> (metric s DenialBuffered, c1))
      | _ \<Rightarrow> ([], c))"

text \<open>The message of a batch: without a trustworthy redaction no URL leaves.\<close>

definition batch_message :: "alert_service \<Rightarrow> string \<Rightarrow> denial_info list \<Rightarrow> alert_message" where
  "batch_message s botID ds =
     (case as_summarizer s botID ds of
        Inl _ \<Rightarrow> \<lparr>am_bot_id = botID, am_blocked_count = length ds, am_denials = [],
                   am_summary = dec (length ds) @ '' requests were denied. LLM summary unavailable.''\<rparr>
      | Inr (txt, redacted) \<Rightarrow> \<lparr>am_bot_id = botID, am_blocked_count = length ds, am_denials = redacted, am_summary = txt\<rparr>)"

definition summary_metric :: "alert_service \<Rightarrow> string \<Rightarrow> denial_info list \<Rightarrow> alert_effect list" where
  "summary_metric s botID ds =
     (case as_summarizer s botID ds of Inl _ \<Rightarrow> metric s (FlushError ''summarize'') | Inr _ \<Rightarrow> [])"

definition send_to :: "alert_service \<Rightarrow> alert_message \<Rightarrow> notification_channel \<Rightarrow> alert_effect list" where
  "send_to s msg ch =
     (case sender_for s (nc_channel_type ch) of
        None \<Rightarrow> []
      | Some send \<Rightarrow>
          Sent (nc_channel_type ch) (nc_destination ch) msg #
          (case send (nc_destination ch) msg of
             Some _ \<Rightarrow> metric s (FlushError ''send'')
           | None \<Rightarrow> metric s (NotificationSent (nc_channel_type ch))))"

definition flush_bot :: "alert_service \<Rightarrow> string \<times> denial_info list \<Rightarrow> conn \<Rightarrow> alert_effect list \<times> conn" where
  "flush_bot s bd c =
     (case list_active_channels_for_bot (fst bd) c of
        (Inl _, c1) \<Rightarrow> ([], c1)
      | (Inr chs, c1) \<Rightarrow>
          if chs = [] then ([], c1)
          else (summary_metric s (fst bd) (snd bd) @ concat (map (send_to s (batch_message s (fst bd) (snd bd))) chs), c1))"

fun flush_bots :: "alert_service \<Rightarrow> (string \<times> denial_info list) list \<Rightarrow> conn \<Rightarrow> alert_effect list \<times> conn" where
  "flush_bots s [] c = ([], c)"
| "flush_bots s (bd # bds) c =
     (case flush_bot s bd c of (es, c1) \<Rightarrow> (case flush_bots s bds c1 of (es2, c2) \<Rightarrow> (es @ es2, c2)))"

definition try_flush :: "alert_service \<Rightarrow> time \<Rightarrow> conn \<Rightarrow> alert_effect list \<times> conn" where
  "try_flush s now c =
     (case claim_flushable_denials now (as_batch_wait s) c of
        (Inl _, c1) \<Rightarrow> ([], c1)
      | (Inr bds, c1) \<Rightarrow> flush_bots s bds c1)"

end
