(* ===== verification/Normalizer.thy ===== *)
theory Normalizer imports Go_Strings "HOL-Library.Char_ord" "HOL-Library.List_Lexorder" begin

text \<open>
  Placeholders for the changing parts of a URL (\<open>internal/builder/normalizer.go\<close>). Each
  regular expression is the predicate it denotes, with the case folding of ASCII.
\<close>

definition is_hex :: "char \<Rightarrow> bool" where
  "is_hex c = (hex_val c \<noteq> None)"

definition re_uuid :: "string \<Rightarrow> bool" where
  "re_uuid s =
     (let ps = split_byte s (CHR ''-'') in map length ps = [8, 4, 4, 4, 12] \<and> list_all (list_all is_hex) ps)"

definition re_int :: "string \<Rightarrow> bool" where "re_int s = (s \<noteq> [] \<and> list_all is_digit s)"

definition re_hex :: "string \<Rightarrow> bool" where "re_hex s = (16 \<le> length s \<and> list_all is_hex s)"

definition token_char :: "char \<Rightarrow> bool" where
  "token_char c = (is_upper c \<or> is_lower c \<or> is_digit c \<or> c \<in> set ''-_=+/'')"

definition re_token :: "string \<Rightarrow> bool" where "re_token s = (20 \<le> length s \<and> list_all token_char s)"

text \<open>A zone at the end: \<open>Z\<close>, or a sign, two digits, an optional colon and two digits.\<close>

definition zone :: "string \<Rightarrow> bool" where
  "zone s =
     (s = ''Z'' \<or>
      (case s of
         [sg, a, b, c, d] \<Rightarrow> sg \<in> set ''+-'' \<and> list_all is_digit [a, b, c, d]
       | [sg, a, b, co, c, d] \<Rightarrow> sg \<in> set ''+-'' \<and> co = CHR '':'' \<and> list_all is_digit [a, b, c, d]
       | _ \<Rightarrow> False))"

text \<open>Any text without a newline, then a zone.\<close>

fun then_zone :: "string \<Rightarrow> bool" where
  "then_zone [] = False"
| "then_zone (c # cs) = (zone (c # cs) \<or> (c \<noteq> CHR 0x0A \<and> then_zone cs))"

fun re_iso8601 :: "string \<Rightarrow> bool" where
  "re_iso8601 [] = False"
| "re_iso8601 (c # cs) = ((c = CHR ''T'' \<and> then_zone cs) \<or> re_iso8601 cs)"

definition file_extensions :: "string list" where
  "file_extensions =
     [''.pdf'', ''.doc'', ''.docx'', ''.xls'', ''.xlsx'', ''.ppt'', ''.pptx'', ''.csv'', ''.txt'', ''.zip'', ''.tar'', ''.gz'',
      ''.png'', ''.jpg'', ''.jpeg'', ''.gif'', ''.svg'', ''.mp4'', ''.mov'', ''.avi'', ''.mp3'', ''.wav'', ''.webm'', ''.json'',
      ''.xml'', ''.htm'', ''.html'']"

definition re_filename :: "string \<Rightarrow> bool" where
  "re_filename s = list_ex (has_suffix (to_lower s)) file_extensions"

definition normalize_segment :: "string \<Rightarrow> string" where
  "normalize_segment seg =
     (if seg = [] then []
      else if re_uuid seg then ''{uuid}''
      else if re_int seg then ''{id}''
      else if re_hex seg then ''{hash}''
      else if re_token seg then ''{token}''
      else if re_filename seg then ''{filename}''
      else seg)"

definition normalize_query_value :: "string \<Rightarrow> string" where
  "normalize_query_value v =
     (if re_uuid v then ''{uuid}''
      else if re_int v then ''{number}''
      else if re_iso8601 v then ''{timestamp}''
      else if re_token v then ''{token}''
      else v)"

subsection \<open>\<open>url.ParseQuery\<close>\<close>

definition query_unescape :: "string \<Rightarrow> string option" where
  "query_unescape s = path_unescape (map (\<lambda>c. if c = CHR ''+'' then CHR '' '' else c) s)"

text \<open>One piece: its key and value, or a fault; \<open>None\<close> for an empty piece.\<close>

definition query_piece :: "string \<Rightarrow> (string \<times> string) option option" where
  "query_piece p =
     (if CHR '';'' \<in> set p then Some None
      else if p = [] then None
      else
        (let (k, v) = (case index_byte p (CHR ''='') of None \<Rightarrow> (p, []) | Some i \<Rightarrow> (take i p, drop (i + 1) p))
         in case (query_unescape k, query_unescape v) of (Some k', Some v') \<Rightarrow> Some (Some (k', v')) | _ \<Rightarrow> Some None))"

definition parse_query :: "string \<Rightarrow> (string \<times> string) list option" where
  "parse_query q =
     (let ps = List.map_filter query_piece (split_byte q (CHR ''&''))
      in if None \<in> set ps then None else Some (map the ps))"

definition normalize_query :: "(string \<times> string) list \<Rightarrow> string" where
  "normalize_query kvs = join (map (\<lambda>(k, v). k @ ''='' @ normalize_query_value v) (sort_key fst kvs)) ''&''"

definition normalize_path :: "string \<Rightarrow> string" where
  "normalize_path p = join (map normalize_segment (split_byte p (CHR ''/''))) ''/''"

definition normalize_url :: "string \<Rightarrow> string" where
  "normalize_url rawURL =
     (let (rawPath, rawQuery) = (case index_byte rawURL (CHR ''?'') of
            None \<Rightarrow> (rawURL, []) | Some i \<Rightarrow> (take i rawURL, drop (i + 1) rawURL));
          path = normalize_path rawPath
      in if rawQuery = [] then path
         else case parse_query rawQuery of
           None \<Rightarrow> path @ ''?'' @ rawQuery
         | Some kvs \<Rightarrow> path @ ''?'' @ normalize_query kvs)"

lemma normalize_segment_examples:
  "normalize_segment ''123e4567-e89b-12d3-a456-426614174000'' = ''{uuid}''"
  "normalize_segment ''42'' = ''{id}''"
  "normalize_segment ''deadbeefdeadbeef'' = ''{hash}''"
  "normalize_segment ''api.example.com'' = ''api.example.com''"
  "normalize_segment ''Report.PDF'' = ''{filename}''"
  "normalize_url ''https://a.io/v1/77?b=2024-01-01T00:00:00Z&a=x'' = ''https://a.io/v1/{id}?a=x&b={timestamp}''"
  by code_simp+

text \<open>A second pass over a path changes nothing.\<close>

lemma placeholders_fixed:
  "normalize_segment ''{uuid}'' = ''{uuid}''" "normalize_segment ''{id}'' = ''{id}''" "normalize_segment ''{hash}'' = ''{hash}''"
  "normalize_segment ''{token}'' = ''{token}''" "normalize_segment ''{filename}'' = ''{filename}''"
  by code_simp+

lemma normalize_segment_idem: "normalize_segment (normalize_segment s) = normalize_segment s"
  using placeholders_fixed by (simp add: normalize_segment_def [of s]) (simp add: normalize_segment_def)

lemma normalize_segment_no_slash: "CHR ''/'' \<notin> set s \<Longrightarrow> CHR ''/'' \<notin> set (normalize_segment s)"
  by (simp add: normalize_segment_def)

lemma split_byte_append_sep:
  "c \<notin> set p \<Longrightarrow> split_byte (p @ c # s) c = p # split_byte s c"
  by (induction p) auto

lemma split_byte_plain: "c \<notin> set p \<Longrightarrow> split_byte p c = [p]"
  by (induction p) auto

lemma split_byte_of_join: "ps \<noteq> [] \<Longrightarrow> (\<forall>p\<in>set ps. c \<notin> set p) \<Longrightarrow> split_byte (join ps [c]) c = ps"
  by (induction ps "[c]" rule: join.induct) (simp_all add: split_byte_append_sep split_byte_plain)

text \<open>Grouping is stable: a normalised path is its own pattern.\<close>

lemma normalize_path_idem: "normalize_path (normalize_path p) = normalize_path p"
proof -
  have "split_byte (normalize_path p) (CHR ''/'') = map normalize_segment (split_byte p (CHR ''/''))"
    unfolding normalize_path_def
    by (rule split_byte_of_join) (auto dest: split_byte_no_sep normalize_segment_no_slash)
  then show ?thesis by (simp add: normalize_path_def [of "normalize_path p"] normalize_segment_idem comp_def)
      (simp add: normalize_path_def)
qed

end
