(* ===== verification/Alert_Props.thy ===== *)
theory Alert_Props imports Alerting Normalizer begin

text \<open>
  Alerts carry no URL a model has not rewritten, one message names each of its denials once,
  and no crafted URL or reason adds a line to the list the model's answer is matched against.
\<close>

subsection \<open>What a batch may show\<close>

text \<open>The model's answer for a batch, when it can be used: it parses and has a URL for each denial.\<close>

definition usable_answer :: "completer option \<Rightarrow> string \<Rightarrow> denial_info list \<Rightarrow> summarizer_output option" where
  "usable_answer adapter botID ds =
     (case adapter of
        None \<Rightarrow> None
      | Some ask \<Rightarrow>
          (case ask (summary_request botID ds) of
             (_, Some e) \<Rightarrow> None
           | (resp, None) \<Rightarrow>
               (case unmarshal_into dec_summary \<lparr>so_summary = [], so_urls = []\<rparr> (strip_code_fences (co_text resp)) of
                  None \<Rightarrow> None
                | Some out \<Rightarrow> if length (so_urls out) = length ds then Some out else None)))"

text \<open>
  What an alert may show: the bot, the number of its denials, their methods, and the model's
  summary and URLs; without an answer no request at all and a fixed text.
\<close>

definition shown_alert :: "string \<Rightarrow> denial_info list \<Rightarrow> summarizer_output option \<Rightarrow> alert_message" where
  "shown_alert botID ds answer =
     (case answer of
        None \<Rightarrow> \<lparr>am_bot_id = botID, am_blocked_count = length ds, am_denials = [],
                 am_summary = dec (length ds) @ '' requests were denied. LLM summary unavailable.''\<rparr>
      | Some out \<Rightarrow> \<lparr>am_bot_id = botID, am_blocked_count = length ds,
                 am_denials = map (\<lambda>(u, x). \<lparr>di_id = [], di_method = di_method x, di_url = trim_space u, di_reason = []\<rparr>)
                   (zip (so_urls out) ds),
                 am_summary = trim_space (so_summary out)\<rparr>)"

text \<open>The message without the identifiers and the judge's reasons it carries along.\<close>

definition without_internals :: "alert_message \<Rightarrow> alert_message" where
  "without_internals m = m\<lparr>am_denials := map (\<lambda>x. x\<lparr>di_id := [], di_reason := []\<rparr>) (am_denials m)\<rparr>"

lemma slack_text_without_internals: "slack_text (without_internals m) = slack_text m"
proof -
  have "denial_key \<circ> (\<lambda>x. x\<lparr>di_id := [], di_reason := []\<rparr>) = denial_key" by (simp add: fun_eq_iff denial_key_def)
  then show ?thesis by (simp add: slack_text_def without_internals_def url_counts_def)
qed

lemma batch_message_shows:
  assumes "as_summarizer s = summarize adapter jerr" and "ds \<noteq> []"
  shows "without_internals (batch_message s b ds) = shown_alert b ds (usable_answer adapter b ds)"
  using assms(2)
  by (auto simp: batch_message_def assms(1) summarize_def read_summary_def usable_answer_def shown_alert_def without_internals_def
      split: option.split prod.split)

lemma batch_message_ids [simp]: "am_bot_id (batch_message s b ds) = b"
  by (simp add: batch_message_def split: sum.split)

lemma by_bot_nonempty: "(b, ds) \<in> set (by_bot rows) \<Longrightarrow> ds \<noteq> []"
  by (auto simp: by_bot_def filter_empty_conv)

lemma metric_no_message [simp]: "Sent ty dest msg \<notin> set (metric s m)"
  by (simp add: metric_def)

lemma send_to_Sent:
  "Sent ty dest msg \<in> set (send_to s m ch) \<Longrightarrow> ty = nc_channel_type ch \<and> dest = nc_destination ch \<and> msg = m"
  by (auto simp: send_to_def split: option.splits)

lemma active_channels:
  "list_active_channels_for_bot b c = (Inr chs, c1) \<Longrightarrow> cn_db c1 = cn_db c \<and>
     (\<forall>ch \<in> set chs. ch \<in> set (db_notification_channels (cn_db c)) \<and> of_bot b ch \<and> nc_enabled ch)"
  unfolding list_active_channels_for_bot_def by (drule checked_rows_run) (auto simp: newest_first_def)

lemma flush_bot_Sent:
  assumes "flush_bot s (b, ds) c = (es, c1)" and "Sent ty dest msg \<in> set es"
  shows "msg = batch_message s b ds \<and> (\<exists>ch \<in> set (db_notification_channels (cn_db c)).
    nc_bot_id ch = b \<and> nc_enabled ch \<and> nc_channel_type ch = ty \<and> nc_destination ch = dest)"
  using assms
  by (fastforce simp: flush_bot_def summary_metric_def of_bot_def split: prod.splits sum.splits if_splits
      dest!: active_channels send_to_Sent)

lemma flush_bot_db: "flush_bot s bd c = (es, c1) \<Longrightarrow> cn_db c1 = cn_db c"
  by (auto simp: flush_bot_def list_active_channels_for_bot_def split: prod.splits sum.splits if_splits dest!: checked_rows_db)

lemma flush_bots_Sent:
  "flush_bots s bds c = (es, c1) \<Longrightarrow> Sent ty dest msg \<in> set es \<Longrightarrow>
   \<exists>b ds. (b, ds) \<in> set bds \<and> msg = batch_message s b ds \<and> (\<exists>ch \<in> set (db_notification_channels (cn_db c)).
     nc_bot_id ch = b \<and> nc_enabled ch \<and> nc_channel_type ch = ty \<and> nc_destination ch = dest)"
proof (induction s bds c arbitrary: es c1 rule: flush_bots.induct)
  case (2 s bd bds c)
  obtain es1 c2 where b: "flush_bot s bd c = (es1, c2)" by fastforce
  obtain es2 c3 where bs: "flush_bots s bds c2 = (es2, c3)" by fastforce
  from 2(2) b bs have es: "es = es1 @ es2" by simp
  show ?case
  proof (cases "Sent ty dest msg \<in> set es1")
    case True
    obtain bid ds where bd: "bd = (bid, ds)" by fastforce
    show ?thesis using flush_bot_Sent [OF b [unfolded bd] True] unfolding bd by auto
  next
    case False
    with es 2(3) have "Sent ty dest msg \<in> set es2" by simp
    with 2(1) [OF b [symmetric] bs] flush_bot_db [OF b] show ?thesis by auto
  qed
qed simp

definition claimed_run :: "time \<Rightarrow> time \<Rightarrow> conn \<Rightarrow> denial_row list \<Rightarrow> conn \<Rightarrow> bool" where
  "claimed_run now w c rows c1 \<longleftrightarrow> rows = claimed now w (cn_db c) \<and>
     cn_db c1 = cn_db c\<lparr>db_denials := filter (\<lambda>b. b \<notin> set rows) (db_denials (cn_db c))\<rparr>"

lemma delete_claimed_run:
  assumes "delete_claimed now w c = (Inr rows, c1)"
  shows "claimed_run now w c rows c1"
proof -
  from assms obtain c2 where "take_fault c = (None, c2)" "rows = claimed now w (cn_db c2)"
      "c1 = c2\<lparr>cn_db := cn_db c2\<lparr>db_denials := filter (\<lambda>b. b \<notin> set rows) (db_denials (cn_db c2))\<rparr>\<rparr>"
    by (auto simp: delete_claimed_def exec_def Let_def split: prod.splits option.splits)
  with take_fault_db [of c None c2] show ?thesis by (simp add: claimed_run_def)
qed

lemma claim_run:
  assumes "claim_flushable_denials now w c = (Inr bds, c1)"
  shows "\<exists>rows. bds = by_bot rows \<and> claimed_run now w c rows c1"
proof -
  from assms obtain rows c2 where del: "delete_claimed now w c = (Inr rows, c2)"
      and q: "query (\<lambda>_. ()) c2 = (Inr (), c1)" and bds: "bds = by_bot rows"
    by (auto simp: claim_flushable_denials_def sbind_def sreturn_def split: prod.splits sum.splits)
  have "cn_db c1 = cn_db c2" using q by (auto simp: query_def exec_def dest: take_fault_db split: prod.splits option.splits)
  with delete_claimed_run [OF del] bds show ?thesis by (auto simp: claimed_run_def)
qed

text \<open>
  C30: an alert goes to its bot's channels and shows only what the model redacted. Every
  message a flush hands to a sender stands for one batch claimed from the buffer and goes to a
  channel that is enabled and registered for that bot. The request Slack receives for it is
  determined by the bot, the number and the methods of its denials and the model's answer: its
  summary and its URLs, trimmed, or, when the answer fails, does not parse or has not one URL per
  denial, a fixed text without any URL. Neither a denied request's own URL nor the judge's reason,
  which the message carries along, is part of it.
\<close>

theorem alert_redacted_and_scoped:
  assumes sm: "as_summarizer s = summarize adapter jerr"
    and sent: "Sent ty dest msg \<in> set (fst (try_flush s now c))"
  shows "\<exists>ds. (am_bot_id msg, ds) \<in> set (by_bot (claimed now (as_batch_wait s) (cn_db c))) \<and>
    without_internals msg = shown_alert (am_bot_id msg) ds (usable_answer adapter (am_bot_id msg) ds) \<and>
    (\<forall>botToken. slack_request botToken dest msg =
       slack_request botToken dest (shown_alert (am_bot_id msg) ds (usable_answer adapter (am_bot_id msg) ds))) \<and>
    (\<exists>ch \<in> set (db_notification_channels (cn_db c)).
       nc_bot_id ch = am_bot_id msg \<and> nc_enabled ch \<and> nc_channel_type ch = ty \<and> nc_destination ch = dest)"
proof -
  from sent obtain bds c1 where claim: "claim_flushable_denials now (as_batch_wait s) c = (Inr bds, c1)"
      and "Sent ty dest msg \<in> set (fst (flush_bots s bds c1))"
    by (auto simp: try_flush_def split: prod.splits sum.splits)
  with claim_run [OF claim] obtain rows where rows: "claimed_run now (as_batch_wait s) c rows c1"
      and es: "Sent ty dest msg \<in> set (fst (flush_bots s (by_bot rows) c1))" by blast
  obtain es c2 where run: "flush_bots s (by_bot rows) c1 = (es, c2)" by fastforce
  from flush_bots_Sent [OF run] es [unfolded run fst_conv] obtain b ds where b: "(b, ds) \<in> set (by_bot rows)" "msg = batch_message s b ds"
      "\<exists>ch \<in> set (db_notification_channels (cn_db c1)). nc_bot_id ch = b \<and> nc_enabled ch \<and> nc_channel_type ch = ty \<and> nc_destination ch = dest"
    by blast
  note text_shown = batch_message_shows [OF sm by_bot_nonempty [OF b(1)], of b, folded b(2)]
  have "slack_request botToken dest msg = slack_request botToken dest (shown_alert b ds (usable_answer adapter b ds))" for botToken
    using slack_text_without_internals [of msg] by (simp add: slack_request_def text_shown)
  moreover have "am_bot_id msg = b" by (simp add: b(2))
  ultimately show ?thesis using b(1,3) rows text_shown by (auto simp: claimed_run_def intro!: exI [of _ ds])
qed

definition demo_user :: user_row where
  "demo_user = \<lparr>ur_id = ''bot'', ur_is_admin = False, ur_role = ''user'', ur_policy_id = None, ur_created_at = 0, ur_updated_at = 0\<rparr>"

definition demo_channel :: notification_channel where
  "demo_channel = \<lparr>nc_id = ''n1'', nc_owner_id = ''bot'', nc_bot_id = ''bot'', nc_channel_type = ''slack'', nc_destination = ''C1'',
     nc_enabled = True, nc_created_at = 0, nc_updated_at = 0\<rparr>"

definition demo_denial :: denial_row where
  "demo_denial = \<lparr>dn_id = ''d1'', dn_bot_id = ''bot'', dn_method = ''GET'', dn_url = ''https://a/?k=1'', dn_reason = [], dn_created_at = 0\<rparr>"

definition demo_conn :: conn where
  "demo_conn = connect (empty_database\<lparr>db_users := [demo_user], db_notification_channels := [demo_channel], db_denials := [demo_denial]\<rparr>)"

definition demo_text :: string where
  "demo_text = ''{'' @ in_quotes ''summary'' @ '':'' @ in_quotes ''s'' @ '','' @ in_quotes ''urls'' @ '':['' @ in_quotes ''https://a/?k=X'' @ '']}''"

definition demo_model :: completer where
  "demo_model = (\<lambda>_. (empty_completion\<lparr>co_text := demo_text\<rparr>, None))"

definition demo_service :: alert_service where
  "demo_service = \<lparr>as_senders = [(''slack'', \<lambda>_ _. None)], as_summarizer = summarize (Some demo_model) (\<lambda>_. []),
     as_batch_wait = 0, as_metrics = False\<rparr>"

definition demo_alert :: alert_message where
  "demo_alert = \<lparr>am_bot_id = ''bot'', am_blocked_count = 1,
     am_denials = [\<lparr>di_id = ''d1'', di_method = ''GET'', di_url = ''https://a/?k=X'', di_reason = []\<rparr>], am_summary = ''s''\<rparr>"

lemma demo_alert_sent: "Sent ''slack'' ''C1'' demo_alert \<in> set (fst (try_flush demo_service 1 demo_conn))"
proof -
  have "batch_message demo_service ''bot'' [denial_info_of demo_denial] = demo_alert" by code_simp
  then show ?thesis
    by (simp add: try_flush_def claim_flushable_denials_def delete_claimed_def sbind_def sreturn_def exec_def take_fault_def
        demo_conn_def connect_def Let_def claimed_def ready_bot_def by_bot_def flush_bot_def list_active_channels_for_bot_def
        checked_rows_def query_rows_def query_def newest_first_def of_bot_def send_to_def sender_for_def
        demo_denial_def demo_channel_def demo_service_def)
qed

lemma alert_redacted_and_scoped_witness:
  "slack_request ''t'' ''C1'' demo_alert =
     slack_request ''t'' ''C1'' (shown_alert ''bot'' [denial_info_of demo_denial]
       (usable_answer (Some demo_model) ''bot'' [denial_info_of demo_denial]))"
proof -
  have b: "by_bot (claimed 1 (as_batch_wait demo_service) (cn_db demo_conn)) = [(''bot'', [denial_info_of demo_denial])]"
    by (simp add: demo_conn_def connect_def Let_def claimed_def ready_bot_def by_bot_def demo_denial_def demo_service_def)
  have s: "as_summarizer demo_service = summarize (Some demo_model) (\<lambda>_. [])" by (simp add: demo_service_def)
  have a: "am_bot_id demo_alert = ''bot''" by (simp add: demo_alert_def)
  from alert_redacted_and_scoped [OF s demo_alert_sent] show ?thesis unfolding a b by auto
qed

subsection \<open>The list the model answers\<close>

lemma sanitized_no_newline: "CHR 0x0A \<notin> set (sanitize_prompt_field s)"
  by (auto simp: sanitize_prompt_field_def)

lemma digit_char_no_newline: "d < 16 \<Longrightarrow> digit_char d \<noteq> CHR 0x0A"
  by (auto simp: digit_char_def char_eq_of_char [of "char_of _"] split: if_splits)

lemma digits_no_newline: "CHR 0x0A \<notin> set (digits_in f 10 n)"
proof (induction f "10::nat" n rule: digits_in.induct)
  case (2 fuel n)
  have "n mod 10 < 16" using mod_less_divisor [of 10 n] by linarith
  with 2 show ?case using digit_char_no_newline [of n] digit_char_no_newline [of "n mod 10"] by auto
qed simp

lemma dec_no_newline: "CHR 0x0A \<notin> set (dec n)"
  unfolding dec_def by (rule digits_no_newline)

lemma denial_line_no_newline:
  "CHR 0x0A \<notin> set (di_method x) \<Longrightarrow> CHR 0x0A \<notin> set (denial_line (i, x))"
  using sanitized_no_newline dec_no_newline by (simp add: denial_line_def)

text \<open>
  a crafted request adds no line to the summarizer's list. Whatever line breaks the URLs
  and the judge's reasons contain, the list in the prompt splits into exactly one line per
  denial, the numbered lines in order, so that the model's URLs can be matched by position.
\<close>

theorem prompt_has_one_line_per_denial:
  assumes "ds \<noteq> []" and "\<forall>x \<in> set ds. CHR 0x0A \<notin> set (di_method x)"
  shows "split_byte (join (denial_lines ds) nl) (CHR 0x0A) = map denial_line (zip [0..<length ds] ds)"
  unfolding nl_def denial_lines_def
  using assms by (intro split_byte_of_join) (auto dest!: set_zip_rightD intro: denial_line_no_newline, metis denial_line_no_newline)

lemma prompt_has_one_line_per_denial_witness:
  "split_byte (join (denial_lines [\<lparr>di_id = [], di_method = ''GET'', di_url = ''a'' @ nl @ ''2. POST b'', di_reason = nl @ ''3. c''\<rparr>]) nl) (CHR 0x0A) =
     [''1. GET a 2. POST b (denied because:  3. c)'']"
proof -
  let ?ds = "[\<lparr>di_id = [], di_method = ''GET'', di_url = ''a'' @ nl @ ''2. POST b'', di_reason = nl @ ''3. c''\<rparr>]"
  have "split_byte (join (denial_lines ?ds) nl) (CHR 0x0A) = map denial_line (zip [0..<length ?ds] ?ds)"
    by (rule prompt_has_one_line_per_denial) simp_all
  also have "\<dots> = [''1. GET a 2. POST b (denied because:  3. c)'']" by code_simp
  finally show ?thesis .
qed

subsection \<open>The buffer\<close>

text \<open>
  C31: a denial is claimed at most once. A flush that claims rows takes them out of the buffer
  in the same statement: the batches hold exactly the claimed rows, and no row that is left
  has the identifier of a claimed one, so that no later flush can send it again.
\<close>

theorem denial_claimed_once:
  assumes "claim_flushable_denials now w c = (Inr bds, c1)" and "distinct (map dn_id (db_denials (cn_db c)))"
  shows "{di_id x |b ds x. (b, ds) \<in> set bds \<and> x \<in> set ds} = dn_id ` set (claimed now w (cn_db c)) \<and>
    dn_id ` set (db_denials (cn_db c1)) = dn_id ` set (db_denials (cn_db c)) - dn_id ` set (claimed now w (cn_db c))"
proof -
  let ?rows = "claimed now w (cn_db c)"
  from claim_run [OF assms(1)] obtain rows where bds: "bds = by_bot rows" and run: "claimed_run now w c rows c1" by blast
  from run have rows: "rows = ?rows"
      and left: "db_denials (cn_db c1) = filter (\<lambda>b. b \<notin> set ?rows) (db_denials (cn_db c))" by (simp_all add: claimed_run_def)
  have sub: "set ?rows \<subseteq> set (db_denials (cn_db c))" by (auto simp: claimed_def dest: in_set_takeD)
  have inj: "inj_on dn_id (set (db_denials (cn_db c)))" using assms(2) by (simp add: distinct_map)
  have "{di_id x |b ds x. (b, ds) \<in> set bds \<and> x \<in> set ds} = dn_id ` set ?rows"
    unfolding bds rows by_bot_def by (force simp: denial_info_of_def)
  moreover have "dn_id ` set (db_denials (cn_db c1)) = dn_id ` (set (db_denials (cn_db c)) - set ?rows)"
    unfolding left by (rule arg_cong [where f = "image dn_id"]) auto
  then have "dn_id ` set (db_denials (cn_db c1)) = dn_id ` set (db_denials (cn_db c)) - dn_id ` set ?rows"
    using inj_on_image_set_diff [OF inj _ sub, of "set (db_denials (cn_db c))"] by simp
  ultimately show ?thesis by blast
qed

text \<open>
  It may be claimed and never sent. When the rows of the claim cannot be read after its
  statement has run, the flush sends nothing and the rows are gone.
\<close>

theorem claimed_denials_lost:
  assumes "cn_faults c = None # Some e # fs"
  shows "fst (try_flush s now c) = [] \<and>
    db_denials (cn_db (snd (try_flush s now c))) =
      filter (\<lambda>b. b \<notin> set (claimed now (as_batch_wait s) (cn_db c))) (db_denials (cn_db c))"
  by (simp add: try_flush_def claim_flushable_denials_def delete_claimed_def sbind_def query_def exec_def take_fault_def
      assms Let_def)

theorem claimed_denials_lost_witness:
  "fst (try_flush demo_service 1 (demo_conn\<lparr>cn_faults := [None, Some ''broken'']\<rparr>)) = [] \<and>
   db_denials (cn_db (snd (try_flush demo_service 1 (demo_conn\<lparr>cn_faults := [None, Some ''broken'']\<rparr>)))) =
     filter (\<lambda>b. b \<notin> set (claimed 1 0 (cn_db demo_conn))) (db_denials (cn_db demo_conn))"
  using claimed_denials_lost [of "demo_conn\<lparr>cn_faults := [None, Some ''broken'']\<rparr>" "''broken''" "[]" demo_service 1]
  by (simp add: demo_service_def)

lemma denial_claimed_once_witness:
  "db_denials (cn_db (snd (claim_flushable_denials 1 0 demo_conn))) = []"
proof -
  have run: "claim_flushable_denials 1 0 demo_conn =
      (Inr [(''bot'', [denial_info_of demo_denial])], snd (claim_flushable_denials 1 0 demo_conn))"
    by (simp add: claim_flushable_denials_def delete_claimed_def sbind_def sreturn_def query_def exec_def take_fault_def
        demo_conn_def connect_def Let_def claimed_def ready_bot_def by_bot_def demo_denial_def)
  have ids: "map dn_id (db_denials (cn_db demo_conn)) = [''d1'']" "dn_id ` set (claimed 1 0 (cn_db demo_conn)) = {''d1''}"
    by (simp_all add: demo_conn_def connect_def claimed_def ready_bot_def demo_denial_def)
  have "dn_id ` set (db_denials (cn_db (snd (claim_flushable_denials 1 0 demo_conn)))) = {''d1''} - {''d1''}"
    using denial_claimed_once [OF run, THEN conjunct2] unfolding ids(2) using ids(1) by (simp add: set_map [symmetric] del: set_map)
  then show ?thesis by simp
qed

end
