(* ===== verification/Agent_Text.thy ===== *)
theory Agent_Text imports Llm_Format Go_Net begin

text \<open>
  The fixed texts of the policy agent (\<open>internal/builder/agent.go\<close>): its guidelines and
  its tools with their input schemas.
\<close>

definition dquote :: string where "dquote = [CHR 0x22]"
definition htab :: string where "htab = [CHR 0x09]"
definition bslash :: string where "bslash = [CHR 0x5C]"

definition agent_guidelines :: string where
  "agent_guidelines =
     ''You are a security policy author for an AI agent proxy gateway.'' @ nl
     @ ''Your job is to create and refine LLM policies that control what HTTP requests an AI agent may make.'' @ nl @ nl @ ''Guidelines:'' @ nl
     @ ''- policy_prompt is the system prompt for an LLM judge that evaluates each request in real-time.'' @ nl @ ''  Write it in the second person (''
     @ dquote @ ''The agent may only...'' @ dquote @ ''). Be specific about allowed domains and operations.'' @ nl
     @ ''- static_rules bypass the LLM judge entirely and make an immediate allow or deny decision.'' @ nl @ ''  Use action='' @ dquote @ ''allow''
     @ dquote @ '' for safe, idempotent, read-only patterns that need no LLM review'' @ nl @ ''  (e.g. GET /v1/users/{id} on a known safe API).'' @ nl
     @ ''  Use action='' @ dquote @ ''deny'' @ dquote @ '' for known-dangerous patterns that should always be blocked regardless of context'' @ nl
     @ ''  (e.g. DELETE on a critical resource, or any request to a disallowed domain).'' @ nl
     @ ''  Deny rules take priority: if both an allow and a deny rule match, deny wins.'' @ nl
     @ ''- Consolidate static allow rules: do not create one rule per endpoint. Instead, group related endpoints'' @ nl
     @ ''  under a single prefix or glob rule (e.g. one rule for '' @ dquote @ ''https://api.example.com/'' @ dquote @ '' covers all GET calls'' @ nl
     @ ''  to that host). Prefer prefix match_type for a base URL over listing individual paths.'' @ nl @ ''  Use glob match_type (e.g. '' @ dquote
     @ ''https://api.example.com/v1/*/read'' @ dquote @ '') only when a prefix is too broad.'' @ nl
     @ ''  The final list should have as few rules as possible while still being accurate.'' @ nl
     @ ''- When in doubt, require LLM review rather than a static allow rule.'' @ nl @ ''- Always call update_policy after forming your policy '' @ dash
     @ '' don'' @ squote @ ''t just describe it.'' @ nl @ ''- The policy_prompt is only evaluated for requests that do NOT match any static rule.'' @ nl
     @ ''  Do not mention static-rule endpoints in the policy_prompt '' @ dash @ '' they are already handled automatically.'' @ nl
     @ ''  The policy_prompt should only describe what the LLM judge should allow or deny for everything else.'' @ nl
     @ ''- Use analyze_traffic to explore observed traffic before writing a policy. It is paginated and capped, so it'' @ nl
     @ ''  will never overwhelm your context; explore iteratively rather than trying to pull everything at once:'' @ nl @ ''  - Start broad: group_by=''
     @ dquote @ ''host'' @ dquote @ '' (the default) to see every destination domain with request and endpoint counts.'' @ nl
     @ ''  - Drill down: group_by='' @ dquote @ ''endpoint'' @ dquote @ '' with host='' @ dquote @ ''<domain>'' @ dquote
     @ '' (optionally path_prefix) to see a domain'' @ squote @ ''s specific'' @ nl
     @ ''    endpoints. Add summarize=true on a focused page when you need to know what each endpoint does.'' @ nl
     @ ''  - Page with limit/offset; each result tells you the totals and how many rows remain. Set limit=0 for counts only.'' @ nl
     @ ''  - Survey the hosts first, then drill into the ones that need their own rules. Do not assume the first page is'' @ nl @ ''    everything ''
     @ dash @ '' check the reported totals and page further or filter when it matters for an accurate policy.'' @ nl
     @ ''- Never call remove_endpoints unless the user explicitly asks you to remove specific endpoints. Every endpoint in the traffic context '' @ dash
     @ '' including health checks, auth callbacks, and anything that looks like noise '' @ dash
     @ '' may need to be reflected in static rules or the policy prompt. Removing endpoints without being asked destroys context needed for an accurate policy.''
     @ nl @ ''- Respond in plain text. Do not use markdown, headers, bullet points, tables, or code fences in your replies.'' @ nl @ nl"

definition overflow_message :: string where
  "overflow_message =
     ''I gathered more traffic detail than fits in my working context. Please narrow the request '' @ dash
     @ '' use a shorter date range, focus on a specific domain (group_by='' @ dquote @ ''endpoint'' @ dquote
     @ '' with a host filter), or ask for a high-level breakdown first (group_by='' @ dquote @ ''host'' @ dquote @ '') '' @ dash @ '' and I'' @ squote
     @ ''ll continue from there.''"

definition analyze_traffic_schema :: string where
  "analyze_traffic_schema =
     ''{'' @ nl @ htab @ htab @ htab @ dquote @ ''type'' @ dquote @ '': '' @ dquote @ ''object'' @ dquote @ '','' @ nl @ htab @ htab @ htab @ dquote
     @ ''properties'' @ dquote @ '': {'' @ nl @ htab @ htab @ htab @ htab @ dquote @ ''user_id'' @ dquote @ '':     {'' @ dquote @ ''type'' @ dquote
     @ '': '' @ dquote @ ''string'' @ dquote @ '', '' @ dquote @ ''description'' @ dquote @ '': '' @ dquote @ ''The user ID to analyze traffic for''
     @ dquote @ ''},'' @ nl @ htab @ htab @ htab @ htab @ dquote @ ''start_date'' @ dquote @ '':  {'' @ dquote @ ''type'' @ dquote @ '': '' @ dquote
     @ ''string'' @ dquote @ '', '' @ dquote @ ''description'' @ dquote @ '': '' @ dquote
     @ ''Start of date range in RFC3339 format (e.g. 2024-01-01T00:00:00Z)'' @ dquote @ ''},'' @ nl @ htab @ htab @ htab @ htab @ dquote @ ''end_date''
     @ dquote @ '':    {'' @ dquote @ ''type'' @ dquote @ '': '' @ dquote @ ''string'' @ dquote @ '', '' @ dquote @ ''description'' @ dquote @ '': ''
     @ dquote @ ''End of date range in RFC3339 format'' @ dquote @ ''},'' @ nl @ htab @ htab @ htab @ htab @ dquote @ ''group_by'' @ dquote @ '':    {''
     @ dquote @ ''type'' @ dquote @ '': '' @ dquote @ ''string'' @ dquote @ '', '' @ dquote @ ''enum'' @ dquote @ '': ['' @ dquote @ ''host'' @ dquote
     @ '', '' @ dquote @ ''endpoint'' @ dquote @ ''], '' @ dquote @ ''description'' @ dquote @ '': '' @ dquote @ ''Aggregation level. '' @ bslash @ dquote
     @ ''host'' @ bslash @ dquote @ '' (default) lists destination hosts with request and distinct-endpoint counts '' @ dash @ '' use it for breadth. ''
     @ bslash @ dquote @ ''endpoint'' @ bslash @ dquote @ '' lists individual (method, path) patterns '' @ dash
     @ '' use it for depth, usually with a host filter.'' @ dquote @ ''},'' @ nl @ htab @ htab @ htab @ htab @ dquote @ ''host'' @ dquote @ '':        {''
     @ dquote @ ''type'' @ dquote @ '': '' @ dquote @ ''string'' @ dquote @ '', '' @ dquote @ ''description'' @ dquote @ '': '' @ dquote
     @ ''Optional. Restrict to a single host (e.g. '' @ bslash @ dquote @ ''api.example.com'' @ bslash @ dquote @ ''). Combine with group_by='' @ bslash
     @ dquote @ ''endpoint'' @ bslash @ dquote @ '' to drill into one domain.'' @ dquote @ ''},'' @ nl @ htab @ htab @ htab @ htab @ dquote
     @ ''path_prefix'' @ dquote @ '': {'' @ dquote @ ''type'' @ dquote @ '': '' @ dquote @ ''string'' @ dquote @ '', '' @ dquote @ ''description'' @ dquote
     @ '': '' @ dquote @ ''Optional. Restrict to URLs whose path starts with this prefix (e.g. '' @ bslash @ dquote @ ''/v1/users'' @ bslash @ dquote
     @ '').'' @ dquote @ ''},'' @ nl @ htab @ htab @ htab @ htab @ dquote @ ''summarize'' @ dquote @ '':   {'' @ dquote @ ''type'' @ dquote @ '': ''
     @ dquote @ ''boolean'' @ dquote @ '', '' @ dquote @ ''description'' @ dquote @ '': '' @ dquote @ ''Optional, group_by='' @ bslash @ dquote
     @ ''endpoint'' @ bslash @ dquote
     @ '' only. When true, add a fast-model description of each returned endpoint (slower). Default false. Use on a focused page, not a broad scan.''
     @ dquote @ ''},'' @ nl @ htab @ htab @ htab @ htab @ dquote @ ''limit'' @ dquote @ '':       {'' @ dquote @ ''type'' @ dquote @ '': '' @ dquote
     @ ''integer'' @ dquote @ '', '' @ dquote @ ''description'' @ dquote @ '': '' @ dquote
     @ ''Optional. Max rows to return this call. Default 50, hard-capped at 100. Set 0 to return only the totals (no list).'' @ dquote @ ''},'' @ nl @ htab
     @ htab @ htab @ htab @ dquote @ ''offset'' @ dquote @ '':      {'' @ dquote @ ''type'' @ dquote @ '': '' @ dquote @ ''integer'' @ dquote @ '', ''
     @ dquote @ ''description'' @ dquote @ '': '' @ dquote @ ''Optional. Number of rows to skip, for paging through results. Default 0.'' @ dquote @ ''}''
     @ nl @ htab @ htab @ htab @ ''},'' @ nl @ htab @ htab @ htab @ dquote @ ''required'' @ dquote @ '': ['' @ dquote @ ''user_id'' @ dquote @ '', ''
     @ dquote @ ''start_date'' @ dquote @ '', '' @ dquote @ ''end_date'' @ dquote @ '']'' @ nl @ htab @ htab @ ''}''"

definition analyze_traffic_tool :: llm_tool where
  "analyze_traffic_tool =
     \<lparr>lt_name = ''analyze_traffic'',
      lt_description =
     ''Explore a user'' @ squote
     @ ''s observed HTTP traffic over a date range to understand what the agent accesses, before writing a policy. Results are always ordered by request count and PAGINATED (capped per call) so they never overflow your context. Start broad with group_by=''
     @ dquote @ ''host'' @ dquote @ '' to see every destination domain with request and endpoint counts, then drill in with group_by='' @ dquote
     @ ''endpoint'' @ dquote
     @ '' plus host/path_prefix filters. Use summarize=true only on a focused page to get a description of each endpoint. Page through results with limit/offset; each result reports the totals and how many rows remain. You may call this multiple times to page and drill down.'',
      lt_input_schema = Some analyze_traffic_schema\<rparr>"

definition remove_endpoints_schema :: string where
  "remove_endpoints_schema =
     ''{'' @ nl @ htab @ htab @ htab @ dquote @ ''type'' @ dquote @ '': '' @ dquote @ ''object'' @ dquote @ '','' @ nl @ htab @ htab @ htab @ dquote
     @ ''properties'' @ dquote @ '': {'' @ nl @ htab @ htab @ htab @ htab @ dquote @ ''patterns'' @ dquote @ '': {'' @ nl @ htab @ htab @ htab @ htab
     @ htab @ dquote @ ''type'' @ dquote @ '': '' @ dquote @ ''array'' @ dquote @ '','' @ nl @ htab @ htab @ htab @ htab @ htab @ dquote @ ''items''
     @ dquote @ '': {'' @ dquote @ ''type'' @ dquote @ '': '' @ dquote @ ''string'' @ dquote @ ''},'' @ nl @ htab @ htab @ htab @ htab @ htab @ dquote
     @ ''description'' @ dquote @ '': '' @ dquote @ ''Substrings to match against '' @ squote @ ''METHOD path_pattern'' @ squote
     @ ''. Case-insensitive. Any endpoint containing any pattern is removed.'' @ dquote @ nl @ htab @ htab @ htab @ htab @ ''}'' @ nl @ htab @ htab @ htab
     @ ''},'' @ nl @ htab @ htab @ htab @ dquote @ ''required'' @ dquote @ '': ['' @ dquote @ ''patterns'' @ dquote @ '']'' @ nl @ htab @ htab @ ''}''"

definition remove_endpoints_tool :: llm_tool where
  "remove_endpoints_tool =
     \<lparr>lt_name = ''remove_endpoints'',
      lt_description =
     
     ''Remove specific endpoint patterns from the traffic analysis context. Only call this when the user explicitly asks to remove specific endpoints by name or pattern. Never call proactively ''
     @ dash @ '' all endpoints, including health checks and auth, may be needed for an accurate policy.'',
      lt_input_schema = Some remove_endpoints_schema\<rparr>"

definition update_name_schema :: string where
  "update_name_schema =
     ''{'' @ nl @ htab @ htab @ htab @ dquote @ ''type'' @ dquote @ '': '' @ dquote @ ''object'' @ dquote @ '','' @ nl @ htab @ htab @ htab @ dquote
     @ ''properties'' @ dquote @ '': {'' @ nl @ htab @ htab @ htab @ htab @ dquote @ ''name'' @ dquote @ '': {'' @ dquote @ ''type'' @ dquote @ '': ''
     @ dquote @ ''string'' @ dquote @ '', '' @ dquote @ ''description'' @ dquote @ '': '' @ dquote @ ''The new display name for the policy.'' @ dquote
     @ ''}'' @ nl @ htab @ htab @ htab @ ''},'' @ nl @ htab @ htab @ htab @ dquote @ ''required'' @ dquote @ '': ['' @ dquote @ ''name'' @ dquote @ '']''
     @ nl @ htab @ htab @ ''}''"

definition update_name_tool :: llm_tool where
  "update_name_tool =
     \<lparr>lt_name = ''update_name'',
      lt_description =
     ''Update the policy'' @ squote @ ''s display name.'',
      lt_input_schema = Some update_name_schema\<rparr>"

definition update_policy_schema :: string where
  "update_policy_schema =
     ''{'' @ nl @ htab @ htab @ htab @ dquote @ ''type'' @ dquote @ '': '' @ dquote @ ''object'' @ dquote @ '','' @ nl @ htab @ htab @ htab @ dquote
     @ ''properties'' @ dquote @ '': {'' @ nl @ htab @ htab @ htab @ htab @ dquote @ ''policy_prompt'' @ dquote @ '': {'' @ nl @ htab @ htab @ htab @ htab
     @ htab @ dquote @ ''type'' @ dquote @ '': '' @ dquote @ ''string'' @ dquote @ '','' @ nl @ htab @ htab @ htab @ htab @ htab @ dquote @ ''description''
     @ dquote @ '': '' @ dquote @ ''The LLM judge system prompt. Describes what the agent may and may not do.'' @ dquote @ nl @ htab @ htab @ htab @ htab
     @ ''},'' @ nl @ htab @ htab @ htab @ htab @ dquote @ ''static_rules'' @ dquote @ '': {'' @ nl @ htab @ htab @ htab @ htab @ htab @ dquote @ ''type''
     @ dquote @ '': '' @ dquote @ ''array'' @ dquote @ '','' @ nl @ htab @ htab @ htab @ htab @ htab @ dquote @ ''description'' @ dquote @ '': '' @ dquote
     @ ''Rules for making immediate allow/deny decisions without LLM review.'' @ dquote @ '','' @ nl @ htab @ htab @ htab @ htab @ htab @ dquote
     @ ''items'' @ dquote @ '': {'' @ nl @ htab @ htab @ htab @ htab @ htab @ htab @ dquote @ ''type'' @ dquote @ '': '' @ dquote @ ''object'' @ dquote
     @ '','' @ nl @ htab @ htab @ htab @ htab @ htab @ htab @ dquote @ ''properties'' @ dquote @ '': {'' @ nl @ htab @ htab @ htab @ htab @ htab @ htab
     @ htab @ dquote @ ''methods'' @ dquote @ '':     {'' @ dquote @ ''type'' @ dquote @ '': '' @ dquote @ ''array'' @ dquote @ '', '' @ dquote @ ''items''
     @ dquote @ '': {'' @ dquote @ ''type'' @ dquote @ '': '' @ dquote @ ''string'' @ dquote @ ''}, '' @ dquote @ ''description'' @ dquote @ '': ''
     @ dquote @ ''HTTP methods (empty = all)'' @ dquote @ ''},'' @ nl @ htab @ htab @ htab @ htab @ htab @ htab @ htab @ dquote @ ''url_pattern'' @ dquote
     @ '': {'' @ dquote @ ''type'' @ dquote @ '': '' @ dquote @ ''string'' @ dquote @ ''},'' @ nl @ htab @ htab @ htab @ htab @ htab @ htab @ htab @ dquote
     @ ''match_type'' @ dquote @ '':  {'' @ dquote @ ''type'' @ dquote @ '': '' @ dquote @ ''string'' @ dquote @ '', '' @ dquote @ ''enum'' @ dquote
     @ '': ['' @ dquote @ ''prefix'' @ dquote @ '', '' @ dquote @ ''exact'' @ dquote @ '', '' @ dquote @ ''glob'' @ dquote @ '']},'' @ nl @ htab @ htab
     @ htab @ htab @ htab @ htab @ htab @ dquote @ ''action'' @ dquote @ '':      {'' @ dquote @ ''type'' @ dquote @ '': '' @ dquote @ ''string'' @ dquote
     @ '', '' @ dquote @ ''enum'' @ dquote @ '': ['' @ dquote @ ''allow'' @ dquote @ '', '' @ dquote @ ''deny'' @ dquote @ ''], '' @ dquote
     @ ''description'' @ dquote @ '': '' @ dquote @ ''allow = auto-approve, deny = auto-block. Defaults to allow.'' @ dquote @ ''}'' @ nl @ htab @ htab
     @ htab @ htab @ htab @ htab @ ''},'' @ nl @ htab @ htab @ htab @ htab @ htab @ htab @ dquote @ ''required'' @ dquote @ '': ['' @ dquote
     @ ''url_pattern'' @ dquote @ '']'' @ nl @ htab @ htab @ htab @ htab @ htab @ ''}'' @ nl @ htab @ htab @ htab @ htab @ ''}'' @ nl @ htab @ htab @ htab
     @ ''},'' @ nl @ htab @ htab @ htab @ dquote @ ''required'' @ dquote @ '': ['' @ dquote @ ''policy_prompt'' @ dquote @ '', '' @ dquote
     @ ''static_rules'' @ dquote @ '']'' @ nl @ htab @ htab @ ''}''"

definition update_policy_tool :: llm_tool where
  "update_policy_tool =
     \<lparr>lt_name = ''update_policy'',
      lt_description =
     ''Apply a new policy prompt and static rules to the draft policy. Always call this after deciding on the policy content.'',
      lt_input_schema = Some update_policy_schema\<rparr>"

definition agent_tools :: "llm_tool list" where
  "agent_tools = [analyze_traffic_tool, remove_endpoints_tool, update_name_tool, update_policy_tool]"

end
