(* ===== verification/Eval_Store.thy ===== *)
theory Eval_Store imports Policy_Store Complex_Main begin

text \<open>
  Evaluation runs, their results, the labels and the stored answers of the judge
  (\<open>internal/eval/store.go\<close>). The conditions of the queries are evaluated in SQL's
  three-valued logic, \<open>None\<close> standing for \<open>NULL\<close>.
\<close>

subsection \<open>Three-valued conditions\<close>

definition sql_and :: "bool option \<Rightarrow> bool option \<Rightarrow> bool option" where
  "sql_and a b = (if a = Some False \<or> b = Some False then Some False else if a = None \<or> b = None then None else Some True)"

definition sql_or :: "bool option \<Rightarrow> bool option \<Rightarrow> bool option" where
  "sql_or a b = (if a = Some True \<or> b = Some True then Some True else if a = None \<or> b = None then None else Some False)"

definition sql_not :: "bool option \<Rightarrow> bool option" where "sql_not a = map_option Not a"

definition sql_eq :: "string option \<Rightarrow> string option \<Rightarrow> bool option" where
  "sql_eq a b = (case (a, b) of (Some x, Some y) \<Rightarrow> Some (x = y) | _ \<Rightarrow> None)"

definition is_null :: "'a option \<Rightarrow> bool option" where "is_null a = Some (a = None)"

text \<open>\<open>WHERE\<close> and \<open>FILTER\<close> keep the rows whose condition is true.\<close>

definition sql_holds :: "bool option \<Rightarrow> bool" where "sql_holds a = (a = Some True)"

fun like_match :: "string \<Rightarrow> string \<Rightarrow> bool" where
  "like_match [] s = (s = [])"
| "like_match (p # ps) [] = (p = CHR ''%'' \<and> like_match ps [])"
| "like_match (p # ps) (c # s) =
     (if p = CHR ''%'' then like_match ps (c # s) \<or> like_match (p # ps) s
      else if p = CHR ''_'' then like_match ps s
      else if p = CHR 0x5C then (case ps of [] \<Rightarrow> False | q # qs \<Rightarrow> c = q \<and> like_match qs s)
      else c = p \<and> like_match ps s)"

definition ilike :: "string \<Rightarrow> string \<Rightarrow> bool" where
  "ilike s pattern = like_match (to_lower pattern) (to_lower s)"

subsection \<open>Answers of the judge\<close>

definition zero_null :: "int \<Rightarrow> int option" where "zero_null n = (if 0 < n then Some n else None)"

definition create_llm_response :: "time \<Rightarrow> string \<Rightarrow> llm_response \<Rightarrow> string sql" where
  "create_llm_response now rid r =
     sbind (swrap ''CreateLLMResponse: '' (exec (\<lambda>d.
       if list_ex (\<lambda>x. lr_id (rr_response x) = rid) (db_llm_responses d) then (Inl duplicate_key, d)
       else (Inr (), d\<lparr>db_llm_responses := db_llm_responses d @
         [\<lparr>rr_response = r\<lparr>lr_id := rid,
             lr_input_tokens := (case zero_null (lr_input_tokens r) of None \<Rightarrow> 0 | Some n \<Rightarrow> n),
             lr_output_tokens := (case zero_null (lr_output_tokens r) of None \<Rightarrow> 0 | Some n \<Rightarrow> n)\<rparr>,
           rr_created_at = now\<rparr>]\<rparr>)))) (\<lambda>_. sreturn rid)"

definition find_llm_response :: "string \<Rightarrow> database \<Rightarrow> llm_response_row option" where
  "find_llm_response rid d = find (\<lambda>x. lr_id (rr_response x) = rid) (db_llm_responses d)"

definition get_llm_response :: "string \<Rightarrow> llm_response_row sql" where
  "get_llm_response rid c =
     (case query_row (find_llm_response rid) c of
        (Inl e, c1) \<Rightarrow> (Inl (if e = no_rows then ''llm_response not found: '' @ rid else ''GetLLMResponse: '' @ e), c1)
      | r \<Rightarrow> r)"

subsection \<open>Runs\<close>

record eval_run =
  ro_id :: string
  ro_policy_id :: string
  ro_policy_name :: string
  ro_status :: string
  ro_error :: string
  ro_created_at :: time
  ro_completed_at :: "time option"
  ro_total_entries :: int
  ro_total :: nat
  ro_agreed :: nat
  ro_disagreed :: nat
  ro_errored :: nat
  ro_labeled :: nat

definition run_of :: "string \<Rightarrow> eval_run_row \<Rightarrow> eval_run" where
  "run_of name r =
     \<lparr>ro_id = ev_id r, ro_policy_id = ev_policy_id r, ro_policy_name = name, ro_status = ev_status r, ro_error = ev_error r,
      ro_created_at = ev_created_at r, ro_completed_at = ev_completed_at r,
      ro_total_entries = (case ev_total_entries r of None \<Rightarrow> 0 | Some n \<Rightarrow> n),
      ro_total = 0, ro_agreed = 0, ro_disagreed = 0, ro_errored = 0, ro_labeled = 0\<rparr>"

definition create_run :: "time \<Rightarrow> string \<Rightarrow> string \<Rightarrow> eval_run sql" where
  "create_run now rid pid =
     (let row = \<lparr>ev_id = rid, ev_policy_id = pid, ev_status = ''pending'', ev_error = [], ev_created_at = now,
                 ev_completed_at = None, ev_total_entries = None\<rparr>
      in sbind (swrap ''CreateRun: '' (exec (\<lambda>d.
           if list_ex (\<lambda>r. ev_id r = rid) (db_eval_runs d) then (Inl duplicate_key, d)
           else if find_policy pid d = None then (Inl foreign_key, d)
           else (Inr (), d\<lparr>db_eval_runs := db_eval_runs d @ [row]\<rparr>)))) (\<lambda>_. sreturn (run_of [] row)))"

definition update_runs :: "string \<Rightarrow> (eval_run_row \<Rightarrow> eval_run_row) \<Rightarrow> database \<Rightarrow> unit result \<times> database" where
  "update_runs rid upd d = (Inr (), d\<lparr>db_eval_runs := map (\<lambda>r. if ev_id r = rid then upd r else r) (db_eval_runs d)\<rparr>)"

definition update_run_status :: "time \<Rightarrow> string \<Rightarrow> string \<Rightarrow> string \<Rightarrow> unit sql" where
  "update_run_status now rid status msg =
     swrap ''UpdateRunStatus: ''
       (if status = ''completed'' \<or> status = ''failed'' \<or> status = ''canceled''
        then exec (update_runs rid (\<lambda>r. r\<lparr>ev_status := status, ev_error := msg, ev_completed_at := Some now\<rparr>))
        else exec (update_runs rid (\<lambda>r. r\<lparr>ev_status := status, ev_error := msg\<rparr>)))"

definition set_total_entries :: "string \<Rightarrow> int \<Rightarrow> unit sql" where
  "set_total_entries rid n = swrap ''SetTotalEntries: '' (exec (update_runs rid (\<lambda>r. r\<lparr>ev_total_entries := Some n\<rparr>)))"

subsection \<open>Results\<close>

text \<open>A result row with the rows it is joined to.\<close>

record joined_result =
  jn_result :: eval_result_row
  jn_audit :: "audit_row option"
  jn_label :: "label_row option"
  jn_response :: "llm_response_row option"

definition find_audit :: "string \<Rightarrow> database \<Rightarrow> audit_row option" where
  "find_audit eid d = find (\<lambda>a. au_id a = eid) (db_audit_log d)"

definition find_label :: "string \<Rightarrow> database \<Rightarrow> label_row option" where
  "find_label eid d = find (\<lambda>l. lb_entry_id l = eid) (db_labels d)"

definition joined :: "database \<Rightarrow> eval_result_row \<Rightarrow> joined_result" where
  "joined d r =
     \<lparr>jn_result = r, jn_audit = find_audit (er_entry_id r) d, jn_label = find_label (er_entry_id r) d,
      jn_response = (case er_llm_response_id r of None \<Rightarrow> None | Some i \<Rightarrow> find_llm_response i d)\<rparr>"

definition results_of_run :: "string \<Rightarrow> database \<Rightarrow> joined_result list" where
  "results_of_run rid d = map (joined d) (filter (\<lambda>r. er_run_id r = rid) (db_eval_results d))"

definition replay_of :: "joined_result \<Rightarrow> string" where "replay_of j = er_replay_decision (jn_result j)"

definition label_decision :: "joined_result \<Rightarrow> string option" where
  "label_decision j = map_option lb_decision (jn_label j)"

text \<open>\<open>CASE alog.decision WHEN 'approved' THEN 'ALLOW' WHEN 'denied' THEN 'DENY' ELSE alog.decision END\<close>.\<close>

definition original_decision :: "joined_result \<Rightarrow> string option" where
  "original_decision j =
     map_option (\<lambda>a. let dc = ae_decision (au_entry a) in
        if dc = ''approved'' then ''ALLOW'' else if dc = ''denied'' then ''DENY'' else dc) (jn_audit j)"

definition agree_inner :: "joined_result \<Rightarrow> bool option" where
  "agree_inner j =
     sql_or (sql_and (sql_not (is_null (label_decision j))) (sql_eq (Some (replay_of j)) (label_decision j)))
            (sql_and (is_null (label_decision j)) (sql_eq (Some (replay_of j)) (original_decision j)))"

definition errored :: "joined_result \<Rightarrow> bool" where "errored j = (replay_of j = ''ERROR'')"

definition agreed :: "joined_result \<Rightarrow> bool" where
  "agreed j = sql_holds (sql_and (Some (\<not> errored j)) (agree_inner j))"

definition disagreed :: "joined_result \<Rightarrow> bool" where
  "disagreed j = sql_holds (sql_and (Some (\<not> errored j)) (sql_not (agree_inner j)))"

definition count :: "('a \<Rightarrow> bool) \<Rightarrow> 'a list \<Rightarrow> nat" where "count p xs = length (filter p xs)"

definition run_stats :: "joined_result list \<Rightarrow> eval_run \<Rightarrow> eval_run" where
  "run_stats js r =
     r\<lparr>ro_total := length js, ro_labeled := count (\<lambda>j. jn_label j \<noteq> None) js, ro_errored := count errored js,
       ro_agreed := count agreed js, ro_disagreed := count disagreed js\<rparr>"

definition policy_name :: "database \<Rightarrow> string \<Rightarrow> string" where
  "policy_name d pid = (case find_policy pid d of None \<Rightarrow> [] | Some p \<Rightarrow> lp_name p)"

definition find_run :: "string \<Rightarrow> database \<Rightarrow> eval_run option" where
  "find_run rid d =
     map_option (\<lambda>r. run_of (policy_name d (ev_policy_id r)) r) (find (\<lambda>r. ev_id r = rid) (db_eval_runs d))"

definition get_run :: "string \<Rightarrow> eval_run sql" where
  "get_run rid c =
     (case query_row (find_run rid) c of
        (Inl e, c1) \<Rightarrow> (Inl (if e = no_rows then ''eval_run not found: '' @ rid else ''GetRun: '' @ e), c1)
      | (Inr r, c1) \<Rightarrow>
          sbind (swrap ''GetRun stats: '' (query (results_of_run rid))) (\<lambda>js. sreturn (run_stats js r)) c1)"

definition list_runs :: "string \<Rightarrow> int \<Rightarrow> int \<Rightarrow> eval_run list sql" where
  "list_runs pid limit offset =
     (let n = (if limit \<le> 0 then 50 else limit) in
      named_rows ''ListRuns: '' [] (\<lambda>d. take (nat n) (drop (nat offset)
        (map (\<lambda>r. run_stats (results_of_run (ev_id r) d) (run_of (policy_name d (ev_policy_id r)) r))
          (newest_first ev_created_at (filter (\<lambda>r. pid = [] \<or> ev_policy_id r = pid) (db_eval_runs d)))))))"

record eval_result =
  el_id :: string
  el_run_id :: string
  el_entry_id :: string
  el_replay_decision :: string
  el_approved_by :: string
  el_llm_response_id :: string
  el_replayed_at :: time
  el_replay_reason :: string
  el_method :: string
  el_url :: string
  el_original_decision :: string
  el_label_decision :: string
  el_label_note :: string

definition add_result :: "string \<Rightarrow> eval_result \<Rightarrow> unit sql" where
  "add_result rid r =
     swrap ''AddResult: '' (exec (\<lambda>d.
       let row = \<lparr>er_id = rid, er_run_id = el_run_id r, er_entry_id = el_entry_id r, er_replay_decision = el_replay_decision r,
                  er_llm_response_id = (if el_llm_response_id r = [] then None else Some (el_llm_response_id r)),
                  er_replayed_at = el_replayed_at r,
                  er_approved_by = (if el_approved_by r = [] then ''llm'' else el_approved_by r)\<rparr>
       in if list_ex (\<lambda>x. er_id x = rid) (db_eval_results d) then (Inl duplicate_key, d)
          else if find_run (el_run_id r) d = None \<or> find_audit (el_entry_id r) d = None \<or>
              (case er_llm_response_id row of None \<Rightarrow> False | Some i \<Rightarrow> find_llm_response i d = None)
          then (Inl foreign_key, d)
          else (Inr (), d\<lparr>db_eval_results := db_eval_results d @ [row]\<rparr>)))"

definition result_of :: "joined_result \<Rightarrow> eval_result" where
  "result_of j =
     (let r = jn_result j in
      \<lparr>el_id = er_id r, el_run_id = er_run_id r, el_entry_id = er_entry_id r, el_replay_decision = er_replay_decision r,
       el_approved_by = er_approved_by r, el_llm_response_id = or_empty (er_llm_response_id r), el_replayed_at = er_replayed_at r,
       el_replay_reason = or_empty (map_option (\<lambda>x. lr_reason (rr_response x)) (jn_response j)),
       el_method = or_empty (map_option (\<lambda>a. ae_method (au_entry a)) (jn_audit j)),
       el_url = or_empty (map_option (\<lambda>a. ae_url (au_entry a)) (jn_audit j)),
       el_original_decision = or_empty (map_option (\<lambda>a. ae_decision (au_entry a)) (jn_audit j)),
       el_label_decision = or_empty (label_decision j), el_label_note = or_empty (map_option lb_note (jn_label j))\<rparr>)"

record result_filter =
  rf_approved_by :: string
  rf_replay_decision :: string
  rf_has_label :: "bool option"
  rf_matched :: "bool option"
  rf_url :: string

definition filter_conds :: "result_filter \<Rightarrow> joined_result \<Rightarrow> bool" where
  "filter_conds f j \<longleftrightarrow>
     (rf_approved_by f \<noteq> [] \<longrightarrow> er_approved_by (jn_result j) = rf_approved_by f) \<and>
     (rf_replay_decision f \<noteq> [] \<longrightarrow> replay_of j = rf_replay_decision f) \<and>
     (case rf_has_label f of None \<Rightarrow> True | Some b \<Rightarrow> (label_decision j \<noteq> None) = b) \<and>
     (case rf_matched f of None \<Rightarrow> True | Some b \<Rightarrow> if b then agreed j else disagreed j) \<and>
     (rf_url f \<noteq> [] \<longrightarrow> sql_holds (map_option (\<lambda>a. ilike (ae_url (au_entry a)) (''%'' @ rf_url f @ ''%'')) (jn_audit j)))"

text \<open>The total is the window count the rows of the page carry.\<close>

definition list_results :: "string \<Rightarrow> result_filter \<Rightarrow> int \<Rightarrow> int \<Rightarrow> (eval_result list \<times> nat) sql" where
  "list_results rid f limit offset =
     (let n = (if limit \<le> 0 then 100 else limit) in
      sbind (named_rows ''ListResults: '' [] (\<lambda>d.
          let js = filter (filter_conds f) (results_of_run rid d)
          in map (\<lambda>j. (result_of j, length js))
               (take (nat n) (drop (nat offset) (newest_first (\<lambda>j. er_replayed_at (jn_result j)) js)))))
        (\<lambda>rows. sreturn (map fst rows, if rows = [] then 0 else snd (last rows))))"

subsection \<open>Statistics of a run\<close>

text \<open>\<open>ROUND(percentile_cont(p))\<close>: linear interpolation, ties to even, in exact arithmetic.\<close>

definition sql_round :: "rat \<Rightarrow> int" where
  "sql_round x =
     (let f = \<lfloor>x\<rfloor>; r = x - of_int f in
      if r < 1 / 2 then f else if 1 / 2 < r then f + 1 else if even f then f else f + 1)"

definition percentile_cont :: "rat \<Rightarrow> int list \<Rightarrow> int option" where
  "percentile_cont p xs =
     (if xs = [] then None
      else let ys = sort xs; pos = p * of_nat (length ys - 1); lo = nat \<lfloor>pos\<rfloor>; hi = nat \<lceil>pos\<rceil>;
               a = of_int (ys ! lo); b = of_int (ys ! hi)
           in Some (sql_round (a + (pos - of_nat lo) * (b - a))))"

record approver_stats =
  as_approved_by :: string
  as_total :: nat
  as_agreed :: nat
  as_disagreed :: nat
  as_errored :: nat
  as_p50 :: "int option"
  as_p95 :: "int option"
  as_p99 :: "int option"

record labeled_stats =
  ls_approved_by :: string
  ls_labeled :: nat
  ls_agreed :: nat
  ls_disagreed :: nat
  ls_p50 :: "int option"
  ls_p95 :: "int option"
  ls_p99 :: "int option"

record run_statistics =
  rs_by_approved_by :: "approver_stats list"
  rs_overall :: approver_stats
  rs_labeled_by :: "labeled_stats list"
  rs_labeled_overall :: labeled_stats

definition latencies :: "joined_result list \<Rightarrow> int list" where
  "latencies js = map lr_duration_ms (map rr_response (map the (filter (\<lambda>x. x \<noteq> None) (map jn_response js))))"

definition approver_row :: "string \<Rightarrow> joined_result list \<Rightarrow> approver_stats" where
  "approver_row name js =
     \<lparr>as_approved_by = name, as_total = length js, as_agreed = count agreed js, as_disagreed = count disagreed js,
      as_errored = count errored js, as_p50 = percentile_cont (1/2) (latencies js),
      as_p95 = percentile_cont (95/100) (latencies js), as_p99 = percentile_cont (99/100) (latencies js)\<rparr>"

definition labeled_row :: "string \<Rightarrow> joined_result list \<Rightarrow> labeled_stats" where
  "labeled_row name js =
     (let ls = filter (\<lambda>j. jn_label j \<noteq> None) js in
      \<lparr>ls_approved_by = name, ls_labeled = length ls,
       ls_agreed = count (\<lambda>j. \<not> errored j \<and> Some (replay_of j) = label_decision j) ls,
       ls_disagreed = count (\<lambda>j. \<not> errored j \<and> Some (replay_of j) \<noteq> label_decision j) ls,
       ls_p50 = percentile_cont (1/2) (latencies ls), ls_p95 = percentile_cont (95/100) (latencies ls),
       ls_p99 = percentile_cont (99/100) (latencies ls)\<rparr>)"

definition approvers :: "joined_result list \<Rightarrow> string list" where
  "approvers js = remdups (map (\<lambda>j. er_approved_by (jn_result j)) js)"

definition by_approver :: "string \<Rightarrow> joined_result list \<Rightarrow> joined_result list" where
  "by_approver name js = filter (\<lambda>j. er_approved_by (jn_result j) = name) js"

definition get_run_stats :: "string \<Rightarrow> run_statistics sql" where
  "get_run_stats rid =
     sbind (named_rows ''GetRunStats counts: '' ''GetRunStats counts rows: '' (results_of_run rid)) (\<lambda>js.
     sbind (named_rows ''GetRunStats latency: '' ''GetRunStats latency rows: '' (results_of_run rid)) (\<lambda>js2.
     sbind (named_rows ''GetRunStats labeled: '' ''GetRunStats labeled rows: '' (results_of_run rid)) (\<lambda>js3.
     let with_latency = (\<lambda>name row. row\<lparr>
           as_p50 := percentile_cont (1/2) (latencies (name js2)), as_p95 := percentile_cont (95/100) (latencies (name js2)),
           as_p99 := percentile_cont (99/100) (latencies (name js2))\<rparr>)
     in sreturn
       \<lparr>rs_by_approved_by = map (\<lambda>a. with_latency (by_approver a) (approver_row a (by_approver a js))) (approvers js),
        rs_overall = with_latency (\<lambda>xs. xs) (approver_row [] js),
        rs_labeled_by = map (\<lambda>a. labeled_row a (by_approver a js3)) (approvers (filter (\<lambda>j. jn_label j \<noteq> None) js3)),
        rs_labeled_overall = labeled_row [] js3\<rparr>)))"

subsection \<open>Labels\<close>

record audit_label =
  al_entry_id :: string
  al_decision :: string
  al_note :: string
  al_labeled_by :: string

definition upsert_label :: "time \<Rightarrow> string \<Rightarrow> audit_label \<Rightarrow> unit sql" where
  "upsert_label now lid l =
     swrap ''UpsertLabel: '' (exec (\<lambda>d.
       case find_label (al_entry_id l) d of
         Some _ \<Rightarrow>
           (Inr (), d\<lparr>db_labels := map (\<lambda>x. if lb_entry_id x = al_entry_id l
              then x\<lparr>lb_decision := al_decision l, lb_note := al_note l, lb_labeled_by := al_labeled_by l\<rparr> else x) (db_labels d)\<rparr>)
       | None \<Rightarrow>
           if list_ex (\<lambda>x. lb_id x = lid) (db_labels d) then (Inl duplicate_key, d)
           else if find_audit (al_entry_id l) d = None then (Inl foreign_key, d)
           else (Inr (), d\<lparr>db_labels := db_labels d @
             [\<lparr>lb_id = lid, lb_entry_id = al_entry_id l, lb_decision = al_decision l, lb_note = al_note l,
               lb_labeled_by = al_labeled_by l, lb_created_at = now\<rparr>]\<rparr>)))"

definition get_label :: "string \<Rightarrow> label_row option sql" where
  "get_label eid = swrap ''GetLabel: '' (query (find_label eid))"

definition delete_label :: "string \<Rightarrow> unit sql" where
  "delete_label eid =
     swrap ''DeleteLabel: '' (exec (\<lambda>d. (Inr (), d\<lparr>db_labels := filter (\<lambda>l. lb_entry_id l \<noteq> eid) (db_labels d)\<rparr>)))"

end
