(* ===== verification/Audit_Reader.thy ===== *)
theory Audit_Reader imports Eval_Store Utf8 "HOL-Library.Char_ord" "HOL-Library.List_Lexorder" begin

text \<open>
  The audit log (\<open>internal/admin/pg_audit_reader.go\<close>): insertion, the update of a
  streamed response, filtered and paged reading, keyset pagination and the statistics of a
  policy. Identifiers are compared byte by byte.
\<close>

subsection \<open>Text a column accepts\<close>

definition NUL :: char where "NUL = CHR 0x00"

function needs_sanitization :: "string \<Rightarrow> bool" where
  "needs_sanitization s =
     (if s = [] then False else if hd s = NUL \<or> rune_len s = 0 then True else needs_sanitization (drop (rune_len s) s))"
  by pat_completeness auto
termination
  by (relation "measure length") auto

function sanitize_bytes :: "string \<Rightarrow> string" where
  "sanitize_bytes s =
     (if s = [] then []
      else if hd s = NUL then replacement @ sanitize_bytes (drop 1 s)
      else fst (take_rune s) @ sanitize_bytes (snd (take_rune s)))"
  by pat_completeness auto
termination
  by (relation "measure length") (auto intro: take_rune_shorter)

declare needs_sanitization.simps [simp del] sanitize_bytes.simps [simp del]

definition sanitize_utf8 :: "string \<Rightarrow> string" where
  "sanitize_utf8 s = (if needs_sanitization s then sanitize_bytes s else s)"

subsection \<open>Insertion and update\<close>

definition opt_ref :: "string \<Rightarrow> (string \<Rightarrow> bool) \<Rightarrow> bool" where
  "opt_ref s known = (s = [] \<or> known s)"

definition stored_entry :: "audit_entry \<Rightarrow> audit_entry" where
  "stored_entry e =
     e\<lparr>ae_url := sanitize_utf8 (ae_url e), ae_error := sanitize_utf8 (ae_error e),
       ae_request_body := sanitize_utf8 (ae_request_body e), ae_response_body := sanitize_utf8 (ae_response_body e),
       ae_llm_reason := []\<rparr>"

definition insert_audit :: "string \<Rightarrow> audit_entry \<Rightarrow> database \<Rightarrow> unit result \<times> database" where
  "insert_audit aid e d =
     (if find_audit aid d \<noteq> None then (Inl duplicate_key, d)
      else if opt_ref (ae_user_id e) (\<lambda>u. find_user u d \<noteq> None) \<and> opt_ref (ae_llm_policy_id e) (\<lambda>p. find_policy p d \<noteq> None) \<and>
          opt_ref (ae_llm_response_id e) (\<lambda>r. find_llm_response r d \<noteq> None)
      then (Inr (), d\<lparr>db_audit_log := db_audit_log d @ [\<lparr>au_id = aid, au_entry = stored_entry e\<rparr>]\<rparr>)
      else (Inl foreign_key, d))"

text \<open>\<open>Add\<close> only logs an error.\<close>

definition audit_add :: "string \<Rightarrow> audit_entry \<Rightarrow> conn \<Rightarrow> conn" where
  "audit_add aid e c = snd (exec (insert_audit aid e) c)"

text \<open>Ordered by time and identifier, latest first.\<close>

definition latest_first :: "audit_row list \<Rightarrow> audit_row list" where
  "latest_first rows = rev (sort_key (\<lambda>a. (ae_timestamp (au_entry a), au_id a)) rows)"

definition update_response_row :: "int \<Rightarrow> header \<Rightarrow> string \<Rightarrow> string \<Rightarrow> int \<Rightarrow> audit_entry \<Rightarrow> audit_entry" where
  "update_response_row status headers body errText durationMs e =
     e\<lparr>ae_response_status := status, ae_duration_ms := durationMs, ae_error := sanitize_utf8 errText,
       ae_response_headers := headers, ae_response_body := sanitize_utf8 body\<rparr>"

text \<open>The latest row of the request (among rows of one time, one of them).\<close>

definition response_target :: "string \<Rightarrow> database \<Rightarrow> string option" where
  "response_target requestID d =
     (case newest_first (\<lambda>a. ae_timestamp (au_entry a)) (filter (\<lambda>a. ae_request_id (au_entry a) = requestID) (db_audit_log d)) of
        [] \<Rightarrow> None
      | a # _ \<Rightarrow> Some (au_id a))"

definition update_audit :: "string \<Rightarrow> (audit_entry \<Rightarrow> audit_entry) \<Rightarrow> database \<Rightarrow> nat result \<times> database" where
  "update_audit requestID upd d =
     (case response_target requestID d of
        None \<Rightarrow> (Inr 0, d)
      | Some aid \<Rightarrow>
          (Inr 1, d\<lparr>db_audit_log := map (\<lambda>a. if au_id a = aid then a\<lparr>au_entry := upd (au_entry a)\<rparr> else a) (db_audit_log d)\<rparr>))"

definition audit_update_response ::
    "string \<Rightarrow> int \<Rightarrow> header \<Rightarrow> string \<Rightarrow> string \<Rightarrow> int \<Rightarrow> unit sql" where
  "audit_update_response requestID status headers body errText durationMs =
     sbind (swrap ''UpdateResponse: '' (exec (update_audit requestID (update_response_row status headers body errText durationMs))))
       (\<lambda>n. if n = 0 then sfail (''UpdateResponse: audit entry not found for request_id '' @ requestID) else sreturn ())"

subsection \<open>Reading\<close>

record audit_filter =
  af_id :: string
  af_user_id :: string
  af_user_ids :: "string list"
  af_decision :: string
  af_approved_by :: string
  af_cache_hit :: "bool option"
  af_channel :: string
  af_exclude_channels :: "string list"
  af_exclude_approved_by :: "string list"
  af_method :: string
  af_policy_id :: string
  af_start_time :: "time option"
  af_end_time :: "time option"
  af_limit :: int
  af_offset :: int

definition no_filter :: audit_filter where
  "no_filter =
     \<lparr>af_id = [], af_user_id = [], af_user_ids = [], af_decision = [], af_approved_by = [], af_cache_hit = None,
      af_channel = [], af_exclude_channels = [], af_exclude_approved_by = [], af_method = [], af_policy_id = [],
      af_start_time = None, af_end_time = None, af_limit = 0, af_offset = 0\<rparr>"

text \<open>A row of no user or policy has \<open>NULL\<close> there, which equals nothing.\<close>

definition audit_conds :: "audit_filter \<Rightarrow> audit_row \<Rightarrow> bool" where
  "audit_conds f a \<longleftrightarrow>
     (let e = au_entry a in
      (af_id f \<noteq> [] \<longrightarrow> au_id a = af_id f) \<and>
      (af_user_id f \<noteq> [] \<longrightarrow> ae_user_id e = af_user_id f) \<and>
      (af_user_ids f \<noteq> [] \<longrightarrow> ae_user_id e \<noteq> [] \<and> ae_user_id e \<in> set (af_user_ids f)) \<and>
      (af_decision f \<noteq> [] \<longrightarrow> ae_decision e = af_decision f) \<and>
      (af_approved_by f \<noteq> [] \<longrightarrow> ae_approved_by e = af_approved_by f) \<and>
      (case af_cache_hit f of None \<Rightarrow> True | Some b \<Rightarrow> ae_cache_hit e = b) \<and>
      (af_channel f \<noteq> [] \<longrightarrow> ae_channel e = af_channel f) \<and>
      ae_channel e \<notin> set (af_exclude_channels f) \<and>
      ae_approved_by e \<notin> set (af_exclude_approved_by f) \<and>
      (af_method f \<noteq> [] \<longrightarrow> ae_method e = to_upper (af_method f)) \<and>
      (af_policy_id f \<noteq> [] \<longrightarrow> ae_llm_policy_id e = af_policy_id f) \<and>
      (case af_start_time f of None \<Rightarrow> True | Some t \<Rightarrow> t \<le> ae_timestamp e) \<and>
      (case af_end_time f of None \<Rightarrow> True | Some t \<Rightarrow> ae_timestamp e \<le> t))"

definition selected :: "audit_filter \<Rightarrow> database \<Rightarrow> audit_row list" where
  "selected f d = latest_first (filter (audit_conds f) (db_audit_log d))"

text \<open>A row as it is read: the reason comes from the answer of the judge.\<close>

definition full_row :: "database \<Rightarrow> audit_row \<Rightarrow> audit_row" where
  "full_row d a =
     a\<lparr>au_entry := (au_entry a)\<lparr>ae_llm_reason :=
         or_empty (map_option (\<lambda>r. lr_reason (rr_response r)) (find_llm_response (ae_llm_response_id (au_entry a)) d))\<rparr>\<rparr>"

definition summary_row :: "database \<Rightarrow> audit_row \<Rightarrow> audit_row" where
  "summary_row d a =
     (let b = full_row d a in
      b\<lparr>au_entry := (au_entry b)\<lparr>ae_request_headers := [], ae_request_body := [], ae_response_headers := [],
          ae_response_body := []\<rparr>\<rparr>)"

text \<open>A failed query gives no rows, and a result set that breaks off gives those that came.\<close>

definition audit_page :: "audit_filter \<Rightarrow> 'a list \<Rightarrow> 'a list" where
  "audit_page f rows = take (nat (if af_limit f \<le> 0 then 1000 else af_limit f)) (drop (nat (af_offset f)) rows)"

definition query_with :: "(database \<Rightarrow> audit_row \<Rightarrow> audit_row) \<Rightarrow> audit_filter \<Rightarrow> conn \<Rightarrow> audit_row list \<times> conn" where
  "query_with row f c =
     (case query_rows (\<lambda>d. map (row d) (audit_page f (selected f d))) c of
        (Inl _, c1) \<Rightarrow> ([], c1)
      | (Inr (rows, _), c1) \<Rightarrow> (rows, c1))"

definition audit_query :: "audit_filter \<Rightarrow> conn \<Rightarrow> audit_row list \<times> conn" where
  "audit_query = query_with full_row"

definition audit_query_summaries :: "audit_filter \<Rightarrow> conn \<Rightarrow> audit_row list \<times> conn" where
  "audit_query_summaries = query_with summary_row"

definition audit_count :: "audit_filter \<Rightarrow> nat sql" where
  "audit_count f = swrap ''Count: '' (query (\<lambda>d. length (filter (audit_conds f) (db_audit_log d))))"

definition audit_get_entry :: "string \<Rightarrow> conn \<Rightarrow> audit_row result \<times> conn" where
  "audit_get_entry aid c =
     (case audit_query (no_filter\<lparr>af_id := aid, af_limit := 1\<rparr>) c of
        ([], c1) \<Rightarrow> (Inl (''audit entry not found: '' @ aid), c1)
      | (a # _, c1) \<Rightarrow> (Inr a, c1))"

subsection \<open>Batches\<close>

definition key_of :: "audit_row \<Rightarrow> time \<times> string" where
  "key_of a = (ae_timestamp (au_entry a), au_id a)"

definition below :: "(time \<times> string) option \<Rightarrow> audit_row \<Rightarrow> bool" where
  "below cursor a = (case cursor of None \<Rightarrow> True | Some k \<Rightarrow> key_of a < k)"

definition batch_after :: "audit_filter \<Rightarrow> nat \<Rightarrow> (time \<times> string) option \<Rightarrow> database \<Rightarrow> audit_row list" where
  "batch_after f n cursor d =
     map (full_row d) (take n (latest_first (filter (\<lambda>a. audit_conds f a \<and> below cursor a) (db_audit_log d))))"

definition fetch_size :: "audit_filter \<Rightarrow> nat \<Rightarrow> nat \<Rightarrow> nat" where
  "fetch_size f batchSize delivered =
     (if 0 < af_limit f then min batchSize (nat (af_limit f) - delivered) else batchSize)"

text \<open>
  \<open>QueryBatched\<close>: the batches handed to the callback, with the error that ended the
  call. The context's error and the callback's answer are arguments, by what was delivered.
\<close>

lemma batch_smaller:
  assumes "batch_after f n cursor d = rows" and "rows \<noteq> []"
  shows "length (filter (\<lambda>a. audit_conds f a \<and> below (Some (key_of (last rows))) a) (db_audit_log d)) <
    length (filter (\<lambda>a. audit_conds f a \<and> below cursor a) (db_audit_log d))"
proof -
  let ?sel = "filter (\<lambda>a. audit_conds f a \<and> below cursor a) (db_audit_log d)"
  let ?page = "take n (latest_first ?sel)"
  have rows: "rows = map (full_row d) ?page" using assms(1) by (simp add: batch_after_def)
  with assms(2) have ne: "?page \<noteq> []" by auto
  have "last ?page \<in> set ?page" using ne by (rule last_in_set)
  then have "last ?page \<in> set (latest_first ?sel)" by (rule in_set_takeD)
  then have mem: "last ?page \<in> set ?sel" by (simp add: latest_first_def)
  have "last rows = full_row d (last ?page)" unfolding rows using ne by (rule last_map)
  then have key: "key_of (last rows) = key_of (last ?page)" by (simp add: key_of_def full_row_def)
  define k where "k = key_of (last ?page)"
  have cur: "below cursor (last ?page)" using mem by simp
  then have "cursor = None \<or> (\<exists>q. cursor = Some q \<and> k < q)" by (cases cursor) (simp_all add: below_def k_def)
  then have sub: "below (Some k) a \<Longrightarrow> below cursor a" for a
    by (elim disjE exE conjE) (simp_all only: below_def option.case less_trans)
  have "filter (\<lambda>a. audit_conds f a \<and> below (Some k) a) (db_audit_log d) = filter (below (Some k)) ?sel"
    unfolding filter_filter using sub by (intro filter_cong) auto
  moreover have "length (filter (below (Some k)) ?sel) < length ?sel"
    using mem by (rule length_filter_less) (simp add: below_def k_def)
  moreover have "key_of (last rows) = k" using key k_def by simp
  ultimately show ?thesis by simp
qed

function query_batched ::
    "audit_filter \<Rightarrow> nat \<Rightarrow> (nat \<Rightarrow> go_error option) \<Rightarrow> (audit_row list \<Rightarrow> go_error option) \<Rightarrow> nat \<Rightarrow> (time \<times> string) option \<Rightarrow>
     conn \<Rightarrow> audit_row list list \<times> go_error option \<times> conn" where
  "query_batched f batchSize ctxErr fn delivered cursor c =
     (case ctxErr delivered of
        Some e \<Rightarrow> ([], Some e, c)
      | None \<Rightarrow>
          if 0 < af_limit f \<and> af_limit f \<le> int delivered then ([], None, c)
          else (case named_rows ''QueryBatched: '' ''QueryBatched rows: '' (batch_after f (fetch_size f batchSize delivered) cursor) c of
             (Inl e, c1) \<Rightarrow> ([], Some e, c1)
           | (Inr rows, c1) \<Rightarrow>
               if rows = [] then ([], None, c1)
               else (case fn rows of
                  Some e \<Rightarrow> ([rows], Some e, c1)
                | None \<Rightarrow>
                    if length rows < fetch_size f batchSize delivered then ([rows], None, c1)
                    else (case query_batched f batchSize ctxErr fn (delivered + length rows) (Some (key_of (last rows))) c1 of
                       (later, res) \<Rightarrow> (rows # later, res)))))"
  by pat_completeness auto

termination
proof (relation "measure (\<lambda>(f, n, ce, fn, k, cursor, c).
      length (filter (\<lambda>a. audit_conds f a \<and> below cursor a) (db_audit_log (cn_db c))))", goal_cases)
  case 1
  show ?case by simp
next
  case prems: (2 f batchSize ctxErr fn delivered cursor c p y rows)
  from prems(3) have "cn_db y = cn_db c" "rows = batch_after f (fetch_size f batchSize delivered) cursor (cn_db c)"
    using named_rows_run [of "''QueryBatched: ''" "''QueryBatched rows: ''" "batch_after f (fetch_size f batchSize delivered) cursor" c rows y] prems(4) by simp_all
  then show ?case
    using batch_smaller [of f "fetch_size f batchSize delivered" cursor "cn_db c" rows] prems by simp
qed

declare query_batched.simps [simp del]

end
