(* ===== verification/Traffic.thy ===== *)
theory Traffic imports Audit_Reader Normalizer begin

text \<open>
  The observed traffic the policy agent reads and the statistics of a policy
  (\<open>internal/admin/pg_audit_reader.go\<close>). The regular expressions of the SQL text are
  functions on strings, as in theory \<open>Normalizer\<close>.
\<close>

subsection \<open>String functions of the queries\<close>

text \<open>\<open>split_part(url, '?', 1)\<close>.\<close>

definition before_query :: "string \<Rightarrow> string" where
  "before_query url = takeWhile (\<lambda>c. c \<noteq> CHR ''?'') url"

text \<open>\<open>regexp_replace(.., uuid, '{uuid}', 'gi')\<close>.\<close>

function replace_uuids :: "string \<Rightarrow> string" where
  "replace_uuids s =
     (if s = [] then []
      else if re_uuid (take 36 s) then ''{uuid}'' @ replace_uuids (drop 36 s)
      else hd s # replace_uuids (tl s))"
  by pat_completeness auto
termination
  by (relation "measure length") auto

declare replace_uuids.simps [simp del]

text \<open>\<open>regexp_replace(.., '/[0-9]+', '/{id}', 'g')\<close>.\<close>

function replace_ints :: "string \<Rightarrow> string" where
  "replace_ints [] = []"
| "replace_ints (c # cs) =
     (if c = CHR ''/'' \<and> cs \<noteq> [] \<and> is_digit (hd cs) then ''/{id}'' @ replace_ints (dropWhile is_digit cs)
      else c # replace_ints cs)"
  by pat_completeness auto
termination
  by (relation "measure length") (auto simp: le_imp_less_Suc length_dropWhile_le)

text \<open>\<open>substring(.. from '://([^/]+)')\<close>.\<close>

fun after_scheme :: "string \<Rightarrow> string option" where
  "after_scheme [] = None"
| "after_scheme (c # cs) =
     (if has_prefix (c # cs) ''://'' \<and> drop 3 (c # cs) \<noteq> [] \<and> hd (drop 3 (c # cs)) \<noteq> CHR ''/''
      then Some (drop 3 (c # cs)) else after_scheme cs)"

definition host_part :: "string \<Rightarrow> string option" where
  "host_part s = map_option (takeWhile (\<lambda>c. c \<noteq> CHR ''/'')) (after_scheme s)"

text \<open>\<open>regexp_replace(.., '^[a-z][a-z0-9+.-]*://[^/]+', '')\<close>.\<close>

definition scheme_char :: "char \<Rightarrow> bool" where
  "scheme_char c = (is_lower c \<or> is_digit c \<or> c \<in> set ''+.-'')"

definition without_host :: "string \<Rightarrow> string" where
  "without_host s =
     (let scheme = takeWhile scheme_char s; rest = drop (length scheme) s; hst = takeWhile (\<lambda>c. c \<noteq> CHR ''/'') (drop 3 rest)
      in if scheme \<noteq> [] \<and> is_lower (hd scheme) \<and> has_prefix rest ''://'' \<and> hst \<noteq> [] then drop (3 + length hst) rest else s)"

subsection \<open>Path groups\<close>

record path_group =
  pg_method :: string
  pg_path_pattern :: string
  pg_count :: nat

definition in_window :: "string \<Rightarrow> time \<Rightarrow> time \<Rightarrow> audit_row \<Rightarrow> bool" where
  "in_window userID start stop a =
     (ae_user_id (au_entry a) \<noteq> [] \<and> ae_user_id (au_entry a) = userID \<and> ae_channel (au_entry a) \<noteq> ''auto'' \<and>
      start \<le> ae_timestamp (au_entry a) \<and> ae_timestamp (au_entry a) \<le> stop)"

definition in_scope :: "string \<Rightarrow> string \<Rightarrow> string \<Rightarrow> bool" where
  "in_scope hostFilter pathPrefix url =
     ((hostFilter = [] \<or> host_part (before_query url) = Some hostFilter) \<and>
      (pathPrefix = [] \<or> has_prefix (without_host (before_query url)) pathPrefix))"

definition sql_pattern :: "string \<Rightarrow> string" where
  "sql_pattern url = replace_ints (replace_uuids (before_query url))"

definition tally :: "('k \<times> nat) list \<Rightarrow> ('k \<times> nat) list" where
  "tally kns = fold (\<lambda>(k, n) m. AList.update k ((case map_of m k of None \<Rightarrow> 0 | Some x \<Rightarrow> x) + n) m) kns []"

definition most_first :: "('a \<Rightarrow> nat) \<Rightarrow> 'a list \<Rightarrow> 'a list" where
  "most_first f xs = sort_key (\<lambda>x. - int (f x)) xs"

text \<open>The rows of the query, at most 50000, then the second normalisation and the sums.\<close>

definition group_rows :: "string \<Rightarrow> time \<Rightarrow> time \<Rightarrow> string \<Rightarrow> string \<Rightarrow> database \<Rightarrow> ((string \<times> string) \<times> nat) list" where
  "group_rows userID start stop hostFilter pathPrefix d =
     take 50000 (most_first snd (tally
       (map (\<lambda>a. ((ae_method (au_entry a), sql_pattern (ae_url (au_entry a))), 1))
         (filter (\<lambda>a. in_window userID start stop a \<and> in_scope hostFilter pathPrefix (ae_url (au_entry a))) (db_audit_log d)))))"

definition merge_groups :: "((string \<times> string) \<times> nat) list \<Rightarrow> path_group list" where
  "merge_groups rows =
     map (\<lambda>((m, p), n). \<lparr>pg_method = m, pg_path_pattern = p, pg_count = n\<rparr>)
       (most_first snd (tally (map (\<lambda>((m, p), n). ((m, normalize_url p), n)) rows)))"

definition aggregate_path_groups ::
    "string \<Rightarrow> time \<Rightarrow> time \<Rightarrow> string \<Rightarrow> string \<Rightarrow> conn \<Rightarrow> path_group list \<times> conn" where
  "aggregate_path_groups userID start stop hostFilter pathPrefix c =
     (case query_rows (group_rows userID start stop hostFilter pathPrefix) c of
        (Inl _, c1) \<Rightarrow> ([], c1)
      | (Inr (rows, _), c1) \<Rightarrow> (merge_groups rows, c1))"

subsection \<open>Samples\<close>

record request_sample =
  sm_url :: string
  sm_body :: string

text \<open>\<open>LEFT(body, n)\<close> counts characters.\<close>

fun left_chars :: "nat \<Rightarrow> string \<Rightarrow> string" where
  "left_chars 0 s = []"
| "left_chars (Suc n) s = (if s = [] then [] else take (max 1 (rune_len s)) s @ left_chars n (drop (max 1 (rune_len s)) s))"

definition sample_requests_for_path ::
    "string \<Rightarrow> string \<Rightarrow> string \<Rightarrow> time \<Rightarrow> time \<Rightarrow> nat \<Rightarrow> conn \<Rightarrow> request_sample list \<times> conn" where
  "sample_requests_for_path userID method pathPrefix start stop limit c =
     (case query_rows (\<lambda>d. map (\<lambda>a. \<lparr>sm_url = ae_url (au_entry a), sm_body = left_chars 1000 (ae_request_body (au_entry a))\<rparr>)
          (take limit (newest_first (\<lambda>a. ae_timestamp (au_entry a))
            (filter (\<lambda>a. in_window userID start stop a \<and> ae_method (au_entry a) = method \<and>
              like_match (pathPrefix @ ''%'') (before_query (ae_url (au_entry a)))) (db_audit_log d))))) c of
        (Inl _, c1) \<Rightarrow> ([], c1)
      | (Inr (rows, _), c1) \<Rightarrow> (rows, c1))"

subsection \<open>Statistics of a policy\<close>

record stats_approver =
  sp_approved_by :: string
  sp_count :: nat
  sp_avg_duration :: int

record decision_stats =
  ds_count :: nat
  ds_avg_duration :: int
  ds_p50 :: int
  ds_p95 :: int
  ds_p99 :: int
  ds_by_approver :: "stats_approver list"

record time_bucket =
  tb_bucket :: time
  tb_total :: nat
  tb_approved :: nat
  tb_denied :: nat
  tb_timeout :: nat
  tb_avg_duration :: int

record policy_stats =
  ps_total :: nat
  ps_avg_duration :: int
  ps_p50 :: int
  ps_p95 :: int
  ps_p99 :: int
  ps_by_decision :: "(string \<times> decision_stats) list"
  ps_time_series :: "time_bucket list"

definition empty_decision_stats :: decision_stats where
  "empty_decision_stats = \<lparr>ds_count = 0, ds_avg_duration = 0, ds_p50 = 0, ds_p95 = 0, ds_p99 = 0, ds_by_approver = []\<rparr>"

text \<open>\<open>ROUND(AVG(x))\<close> of a numeric: half away from zero; durations are not negative.\<close>

definition round_avg :: "int list \<Rightarrow> int" where
  "round_avg xs = (2 * sum_list xs + int (length xs)) div (2 * int (length xs))"

definition durations :: "audit_row list \<Rightarrow> int list" where
  "durations rows = map (\<lambda>a. ae_duration_ms (au_entry a)) rows"

definition rows_of_policy :: "string \<Rightarrow> database \<Rightarrow> audit_row list" where
  "rows_of_policy pid d = filter (\<lambda>a. ae_llm_policy_id (au_entry a) \<noteq> [] \<and> ae_llm_policy_id (au_entry a) = pid) (db_audit_log d)"

definition decision_groups :: "string \<Rightarrow> database \<Rightarrow> (string \<times> string \<times> nat \<times> int) list" where
  "decision_groups pid d =
     (let rows = rows_of_policy pid d; ks = remdups (map (\<lambda>a. (ae_decision (au_entry a), ae_approved_by (au_entry a))) rows)
      in most_first (\<lambda>(_, _, n, _). n)
           (map (\<lambda>(dc, ab). let g = filter (\<lambda>a. ae_decision (au_entry a) = dc \<and> ae_approved_by (au_entry a) = ab) rows
                             in (dc, ab, length g, round_avg (durations g))) ks))"

text \<open>Integer division of the running average truncates; the operands are not negative.\<close>

definition add_group ::
    "string \<times> string \<times> nat \<times> int \<Rightarrow> (string \<times> decision_stats) list \<times> nat \<times> int \<Rightarrow> (string \<times> decision_stats) list \<times> nat \<times> int" where
  "add_group g acc =
     (let (dc, ab, n, avg) = g; (byDecision, total, weighted) = acc;
          s = (case map_of byDecision dc of None \<Rightarrow> empty_decision_stats | Some x \<Rightarrow> x);
          cnt = ds_count s + n;
          s1 = s\<lparr>ds_by_approver := ds_by_approver s @ [\<lparr>sp_approved_by = ab, sp_count = n, sp_avg_duration = avg\<rparr>],
                 ds_count := cnt, ds_avg_duration := (ds_avg_duration s * (int cnt - int n) + avg * int n) div int cnt\<rparr>
      in (AList.update dc s1 byDecision, total + n, weighted + avg * int n))"

definition pct :: "rat \<Rightarrow> int list \<Rightarrow> int" where
  "pct p xs = (case percentile_cont p xs of None \<Rightarrow> 0 | Some n \<Rightarrow> n)"

definition with_percentiles :: "(string \<times> int list) list \<Rightarrow> (string \<times> decision_stats) list \<Rightarrow> (string \<times> decision_stats) list" where
  "with_percentiles ps byDecision =
     map (\<lambda>(dc, s). (dc, case map_of ps dc of None \<Rightarrow> s
        | Some xs \<Rightarrow> s\<lparr>ds_p50 := pct (1/2) xs, ds_p95 := pct (95/100) xs, ds_p99 := pct (99/100) xs\<rparr>)) byDecision"

definition durations_by_decision :: "string \<Rightarrow> database \<Rightarrow> (string \<times> int list) list" where
  "durations_by_decision pid d =
     (let rows = rows_of_policy pid d
      in map (\<lambda>dc. (dc, durations (filter (\<lambda>a. ae_decision (au_entry a) = dc) rows)))
           (remdups (map (\<lambda>a. ae_decision (au_entry a)) rows)))"

definition day :: time where "day = 24 * 3600 * 1000000000"

text \<open>\<open>date_trunc('day', ..)\<close> in a session whose time zone is UTC.\<close>

definition time_series :: "time \<Rightarrow> string \<Rightarrow> database \<Rightarrow> time_bucket list" where
  "time_series now pid d =
     (let rows = filter (\<lambda>a. now - 30 * day \<le> ae_timestamp (au_entry a)) (rows_of_policy pid d);
          bucket = (\<lambda>a. ae_timestamp (au_entry a) div day * day)
      in map (\<lambda>b. let g = filter (\<lambda>a. bucket a = b) rows in
            \<lparr>tb_bucket = b, tb_total = length g, tb_approved = count (\<lambda>a. ae_decision (au_entry a) = ''approved'') g,
             tb_denied = count (\<lambda>a. ae_decision (au_entry a) = ''denied'') g,
             tb_timeout = count (\<lambda>a. ae_decision (au_entry a) = ''timeout'') g, tb_avg_duration = round_avg (durations g)\<rparr>)
          (sort (remdups (map bucket rows))))"

definition audit_get_policy_stats :: "time \<Rightarrow> string \<Rightarrow> policy_stats sql" where
  "audit_get_policy_stats now pid =
     sbind (named_rows ''GetPolicyStats counts: '' ''GetPolicyStats rows: '' (decision_groups pid)) (\<lambda>groups.
     let (byDecision, total, weighted) = fold add_group groups ([], 0, 0) in
     sbind (if total = 0 then sreturn [] else swrap ''GetPolicyStats percentiles: '' (query (\<lambda>d. durations (rows_of_policy pid d)))) (\<lambda>xs.
     sbind (if total = 0 then sreturn []
            else named_rows ''GetPolicyStats decision percentiles: '' ''GetPolicyStats decision percentile rows: '' (durations_by_decision pid)) (\<lambda>ps.
     sbind (named_rows ''GetPolicyStats time_series: '' ''GetPolicyStats ts rows: '' (time_series now pid)) (\<lambda>series.
     sreturn
       \<lparr>ps_total = total, ps_avg_duration = (if total = 0 then 0 else weighted div int total),
        ps_p50 = (if total = 0 then 0 else pct (1/2) xs), ps_p95 = (if total = 0 then 0 else pct (95/100) xs),
        ps_p99 = (if total = 0 then 0 else pct (99/100) xs),
        ps_by_decision = with_percentiles ps byDecision, ps_time_series = series\<rparr>))))"

end
