(* ===== verification/Agent.thy ===== *)
theory Agent imports Agent_Text Traffic Judge_Llm begin

text \<open>
  The policy agent (\<open>internal/builder/agent.go\<close>): one conversation turn of the model that
  drives it, with its tools and the recovery from an overflowing context. The models are
  arguments: the driving one answers by the number of the call, the fast one by the request.
  The reader of traffic, the clock and the parser of dates are arguments too. The order of
  groups with equal counts is that of their arrival.
\<close>

definition maxAgentIterations :: nat where "maxAgentIterations = 10"
definition defaultAnalyzeLimit :: int where "defaultAnalyzeLimit = 50"
definition maxAnalyzeLimit :: int where "maxAnalyzeLimit = 100"
definition maxContextRecoveries :: nat where "maxContextRecoveries = 4"

record agent_env =
  ae_think :: "nat \<Rightarrow> completer"
  ae_fast :: completer
  ae_groups :: "string \<Rightarrow> time \<Rightarrow> time \<Rightarrow> string \<Rightarrow> string \<Rightarrow> path_group list"
  ae_samples :: "string \<Rightarrow> string \<Rightarrow> string \<Rightarrow> time \<Rightarrow> time \<Rightarrow> nat \<Rightarrow> request_sample list"
  ae_parse_date :: "string \<Rightarrow> time result"
  ae_now_text :: string
  ae_json_error :: "string \<Rightarrow> string"

record agent_state =
  ag_name :: string
  ag_prompt :: string
  ag_rules :: "static_rule list"
  ag_summaries :: "endpoint_summary list"
  ag_updated :: bool

datatype agent_event =
    ToolStart string "string option"
  | ToolDone string string
  | PolicyUpdated string "static_rule list"
  | NameUpdated string
  | SummariesUpdated "endpoint_summary list"
  | ToolProgress nat nat
  | ContextRecovery nat

subsection \<open>Pages\<close>

definition paginate :: "nat \<Rightarrow> int \<Rightarrow> int \<Rightarrow> nat \<times> nat" where
  "paginate n offset limit =
     (let o1 = min (nat offset) n in
      if limit \<le> 0 then (o1, o1) else (o1, min (o1 + nat limit) n))"

definition page_header :: "string \<Rightarrow> int \<Rightarrow> nat \<times> nat \<Rightarrow> nat \<Rightarrow> string \<Rightarrow> string" where
  "page_header unit offset page ttl hint =
     (let (first, stop) = page in
      if stop - first = 0 then
        (if int ttl \<le> offset \<and> 0 < ttl
         then ''(offset '' @ itoa offset @ '' is past the end; '' @ dec ttl @ '' '' @ unit @ '' total.)'' @ nl
         else ''(counts only '' @ dash @ '' set limit>0 to list '' @ unit @ ''.)'' @ nl)
      else ''Showing '' @ unit @ '' '' @ dec (first + 1) @ ''-'' @ dec stop @ '' of '' @ dec ttl @ '' by request count.''
        @ (if 0 < ttl - stop then '' '' @ dec (ttl - stop) @ '' more '' @ dash @ '' '' @ hint @ ''.'' else [])
        @ nl)"

definition scope_suffix :: "string \<Rightarrow> string \<Rightarrow> string" where
  "scope_suffix host pathPrefix =
     (let parts = (if host = [] then [] else [''host='' @ host]) @ (if pathPrefix = [] then [] else [''path_prefix='' @ pathPrefix])
      in if parts = [] then [] else '' (filtered: '' @ join parts '', '' @ '')'')"

definition describe_scope :: "string \<Rightarrow> string \<Rightarrow> string \<Rightarrow> string" where
  "describe_scope userID host pathPrefix = ''user '' @ userID @ scope_suffix host pathPrefix"

definition host_from_pattern :: "string \<Rightarrow> string" where
  "host_from_pattern pattern =
     (let rest = (case index_sub pattern ''://'' of None \<Rightarrow> pattern | Some i \<Rightarrow> drop (i + 3) pattern)
      in takeWhile (\<lambda>c. c \<noteq> CHR ''/'') rest)"

text \<open>The text before the first placeholder, up to its last slash.\<close>

definition path_prefix_from_pattern :: "string \<Rightarrow> string" where
  "path_prefix_from_pattern pattern =
     (case index_byte pattern (CHR ''{'') of
        None \<Rightarrow> pattern
      | Some idx \<Rightarrow>
          (case last_index_byte (take idx pattern) (CHR ''/'') of None \<Rightarrow> ''/'' | Some j \<Rightarrow> take (j + 1) pattern))"

subsection \<open>Hosts\<close>

record host_group =
  hg_host :: string
  hg_count :: nat
  hg_endpoints :: nat

definition host_groups :: "path_group list \<Rightarrow> host_group list" where
  "host_groups groups =
     (let hosts = remdups (rev (map (\<lambda>g. host_from_pattern (pg_path_pattern g)) groups))
      in most_first hg_count (map (\<lambda>h. let gs = filter (\<lambda>g. host_from_pattern (pg_path_pattern g) = h) groups
           in \<lparr>hg_host = h, hg_count = sum_list (map pg_count gs), hg_endpoints = length gs\<rparr>) (rev hosts)))"

definition slice :: "nat \<times> nat \<Rightarrow> 'a list \<Rightarrow> 'a list" where
  "slice page xs = take (snd page - fst page) (drop (fst page) xs)"

definition host_hint :: string where
  "host_hint = ''increase offset, or use group_by='' @ dquote @ ''endpoint'' @ dquote @ '' with host='' @ dquote @ ''<host>'' @ dquote
     @ '' to drill into one host'' @ squote @ ''s endpoints''"

definition total_requests :: "path_group list \<Rightarrow> nat" where "total_requests gs = sum_list (map pg_count gs)"

definition analyze_by_host :: "path_group list \<Rightarrow> string \<Rightarrow> string \<Rightarrow> int \<Rightarrow> int \<Rightarrow> string" where
  "analyze_by_host groups hostFilter pathPrefix offset limit =
     (let hosts = host_groups groups; page = paginate (length hosts) offset limit
      in dec (total_requests groups) @ '' requests across '' @ dec (length hosts) @ '' distinct hosts'' @ scope_suffix hostFilter pathPrefix
         @ ''.'' @ nl @ page_header ''hosts'' offset page (length hosts) host_hint
         @ concat (map (\<lambda>hg. ''- '' @ hg_host hg @ '' ('' @ dec (hg_count hg) @ '' requests, '' @ dec (hg_endpoints hg) @ '' endpoints)'' @ nl)
             (slice page hosts)))"

subsection \<open>Endpoints\<close>

definition sample_text :: "request_sample list \<Rightarrow> string" where
  "sample_text samples =
     concat (map (\<lambda>s. ''URL: '' @ sm_url s @ (if sm_body s = [] then [] else nl @ ''Body: '' @ sm_body s) @ nl @ ''---'' @ nl) samples)"

definition summarize_request :: "string \<Rightarrow> string \<Rightarrow> request_sample list \<Rightarrow> llm_request" where
  "summarize_request method pathPattern samples =
     \<lparr>lq_system = ''You are analyzing HTTP traffic for an AI agent.'',
      lq_messages =
        [\<lparr>lm_role = ''user'',
          lm_content = ''Below are up to 200 real requests to the endpoint '' @ method @ '' '' @ pathPattern @ ''.'' @ nl
            @ ''Each entry shows the full URL (including query params) and request body.'' @ nl @ nl
            @ ''Respond in this exact markdown format (no other text):'' @ nl
            @ ''**Summary:** one sentence describing what this endpoint does.'' @ nl @ nl
            @ ''**Query params:** bullet list of observed params and their value types, or '' @ dquote @ ''none'' @ dquote @ ''.'' @ nl @ nl
            @ ''**Request body:** bullet list of observed body fields, or '' @ dquote @ ''none'' @ dquote @ ''.'' @ nl @ nl
            @ ''Requests:'' @ nl @ sample_text samples,
          lm_tool_calls = [], lm_tool_result = None\<rparr>],
      lq_tools = [], lq_max_tokens = 256, lq_cache_system_prompt = False\<rparr>"

definition summarize_endpoint :: "completer \<Rightarrow> string \<Rightarrow> string \<Rightarrow> nat \<Rightarrow> request_sample list \<Rightarrow> string" where
  "summarize_endpoint fast method pathPattern cnt samples =
     (case fast (summarize_request method pathPattern samples) of
        (_, Some _) \<Rightarrow> method @ '' '' @ pathPattern @ '' ('' @ dec cnt @ '' calls)''
      | (resp, None) \<Rightarrow> trim_space (co_text resp))"

text \<open>\<open>summarizePage\<close>: whatever order the calls end in, the descriptions go with their groups.\<close>

definition summarize_page ::
    "agent_env \<Rightarrow> string \<Rightarrow> time \<Rightarrow> time \<Rightarrow> path_group list \<Rightarrow> string list \<times> agent_event list" where
  "summarize_page en userID start stop gs =
     (map (\<lambda>g. summarize_endpoint (ae_fast en) (pg_method g) (pg_path_pattern g) (pg_count g)
          (ae_samples en userID (pg_method g) (path_prefix_from_pattern (pg_path_pattern g)) start stop 200)) gs,
      map (\<lambda>i. ToolProgress (i + 1) (length gs)) [0..<length gs])"

fun append_summary :: "endpoint_summary \<Rightarrow> endpoint_summary list \<Rightarrow> endpoint_summary list" where
  "append_summary s [] = [s]"
| "append_summary s (x # xs) =
     (if es_method x = es_method s \<and> es_path_pattern x = es_path_pattern s then s # xs else x # append_summary s xs)"

definition summary_for :: "path_group \<times> string \<Rightarrow> endpoint_summary" where
  "summary_for gd =
     \<lparr>es_method = pg_method (fst gd), es_path_pattern = pg_path_pattern (fst gd), es_count = int (pg_count (fst gd)),
      es_description = snd gd\<rparr>"

definition endpoint_line :: "bool \<Rightarrow> path_group \<times> string \<Rightarrow> string" where
  "endpoint_line summarize gd =
     ''- '' @ pg_method (fst gd) @ '' '' @ pg_path_pattern (fst gd) @ '' ('' @ dec (pg_count (fst gd)) @ '' calls)''
     @ (if summarize then '': '' @ snd gd else []) @ nl"

definition analyze_by_endpoint ::
    "agent_env \<Rightarrow> string \<Rightarrow> time \<Rightarrow> time \<Rightarrow> path_group list \<Rightarrow> string \<Rightarrow> string \<Rightarrow> bool \<Rightarrow> int \<Rightarrow> int \<Rightarrow> agent_state \<Rightarrow>
     string \<times> agent_state \<times> agent_event list" where
  "analyze_by_endpoint en userID start stop groups hostFilter pathPrefix summarize offset limit st =
     (let page = paginate (length groups) offset limit; gs = slice page groups;
          (descs, evs) = (if summarize \<and> gs \<noteq> [] then summarize_page en userID start stop gs else (map (\<lambda>_. []) gs, []));
          st1 = (if summarize \<and> gs \<noteq> []
                 then st\<lparr>ag_summaries := fold append_summary (map summary_for (zip gs descs)) (ag_summaries st)\<rparr> else st);
          hint = (if summarize then [] else ''set summarize=true for a description of each endpoint; '')
                 @ ''increase offset, or narrow with host/path_prefix''
      in (dec (total_requests groups) @ '' requests across '' @ dec (length groups) @ '' distinct endpoints''
            @ scope_suffix hostFilter pathPrefix @ ''.'' @ nl @ page_header ''endpoints'' offset page (length groups) hint
            @ concat (map (endpoint_line summarize) (zip gs descs)),
          st1,
          evs @ (if summarize \<and> gs \<noteq> [] then [SummariesUpdated (ag_summaries st1)] else [])))"

subsection \<open>Tools\<close>

record analyze_params =
  an_user_id :: string
  an_start_date :: string
  an_end_date :: string
  an_group_by :: string
  an_host :: string
  an_path_prefix :: string
  an_summarize :: bool
  an_limit :: "int option"
  an_offset :: int

definition dec_opt_int :: "int option dec" where
  "dec_opt_int v old = (if v = JNull then Some None else map_option Some (dec_int v 0))"

definition dec_analyze :: "analyze_params dec" where
  "dec_analyze = dec_struct
     [(''user_id'', in_field an_user_id (\<lambda>x p. p\<lparr>an_user_id := x\<rparr>) dec_string),
      (''start_date'', in_field an_start_date (\<lambda>x p. p\<lparr>an_start_date := x\<rparr>) dec_string),
      (''end_date'', in_field an_end_date (\<lambda>x p. p\<lparr>an_end_date := x\<rparr>) dec_string),
      (''group_by'', in_field an_group_by (\<lambda>x p. p\<lparr>an_group_by := x\<rparr>) dec_string),
      (''host'', in_field an_host (\<lambda>x p. p\<lparr>an_host := x\<rparr>) dec_string),
      (''path_prefix'', in_field an_path_prefix (\<lambda>x p. p\<lparr>an_path_prefix := x\<rparr>) dec_string),
      (''summarize'', in_field an_summarize (\<lambda>x p. p\<lparr>an_summarize := x\<rparr>) dec_bool),
      (''limit'', in_field an_limit (\<lambda>x p. p\<lparr>an_limit := x\<rparr>) dec_opt_int),
      (''offset'', in_field an_offset (\<lambda>x p. p\<lparr>an_offset := x\<rparr>) dec_int)]"

definition zero_analyze :: analyze_params where
  "zero_analyze = \<lparr>an_user_id = [], an_start_date = [], an_end_date = [], an_group_by = [], an_host = [], an_path_prefix = [],
     an_summarize = False, an_limit = None, an_offset = 0\<rparr>"

text \<open>A tool input that is nil is no JSON.\<close>

definition tool_params :: "'a dec \<Rightarrow> 'a \<Rightarrow> string option \<Rightarrow> 'a option" where
  "tool_params d zero input = (case input of None \<Rightarrow> None | Some s \<Rightarrow> unmarshal_into d zero s)"

definition input_error :: "agent_env \<Rightarrow> string \<Rightarrow> string option \<Rightarrow> go_error" where
  "input_error en tool input = ''invalid '' @ tool @ '' input: '' @ ae_json_error en (or_empty input)"

definition page_limit :: "int option \<Rightarrow> int" where
  "page_limit l = (case l of None \<Rightarrow> defaultAnalyzeLimit | Some n \<Rightarrow> max 0 (min n maxAnalyzeLimit))"

type_synonym tool_outcome = "string result \<times> agent_state \<times> agent_event list"

definition tool_analyze_traffic :: "agent_env \<Rightarrow> string option \<Rightarrow> agent_state \<Rightarrow> tool_outcome" where
  "tool_analyze_traffic en input st =
     (case tool_params dec_analyze zero_analyze input of
        None \<Rightarrow> (Inl (input_error en ''analyze_traffic'' input), st, [])
      | Some p \<Rightarrow>
          (case ae_parse_date en (an_start_date p) of
             Inl e \<Rightarrow> (Inl (''invalid start_date: '' @ e), st, [])
           | Inr start \<Rightarrow>
               (case ae_parse_date en (an_end_date p) of
                  Inl e \<Rightarrow> (Inl (''invalid end_date: '' @ e), st, [])
                | Inr stop \<Rightarrow>
                    (let groupBy = (if an_group_by p = [] then ''host'' else an_group_by p);
                         offset = max 0 (an_offset p);
                         groups = ae_groups en (an_user_id p) start stop (an_host p) (an_path_prefix p)
                     in if groupBy \<noteq> ''host'' \<and> groupBy \<noteq> ''endpoint'' then
                          (Inl (''invalid group_by '' @ quote_str (an_group_by p) @ '': must be '' @ dquote @ ''host'' @ dquote @ '' or ''
                             @ dquote @ ''endpoint'' @ dquote), st, [])
                        else if groups = [] then
                          (Inr (''No traffic found for '' @ describe_scope (an_user_id p) (an_host p) (an_path_prefix p)
                             @ '' in the specified date range.''), st, [])
                        else if groupBy = ''host'' then
                          (Inr (analyze_by_host groups (an_host p) (an_path_prefix p) offset (page_limit (an_limit p))), st, [])
                        else
                          (case analyze_by_endpoint en (an_user_id p) start stop groups (an_host p) (an_path_prefix p)
                               (an_summarize p) offset (page_limit (an_limit p)) st of
                             (txt, st1, evs) \<Rightarrow> (Inr txt, st1, evs))))))"

definition dec_patterns :: "string list dec" where
  "dec_patterns = dec_struct [(''patterns'', dec_list dec_string [])]"

definition summary_key :: "endpoint_summary \<Rightarrow> string" where
  "summary_key s = to_lower (es_method s @ '' '' @ es_path_pattern s)"

definition tool_remove_endpoints :: "agent_env \<Rightarrow> string option \<Rightarrow> agent_state \<Rightarrow> tool_outcome" where
  "tool_remove_endpoints en input st =
     (case tool_params dec_patterns [] input of
        None \<Rightarrow> (Inl (input_error en ''remove_endpoints'' input), st, [])
      | Some ps \<Rightarrow>
          (let kept = filter (\<lambda>s. \<not> list_ex (\<lambda>p. contains_sub (summary_key s) (to_lower p)) ps) (ag_summaries st)
           in (Inr (''Removed '' @ dec (length (ag_summaries st) - length kept) @ '' endpoint patterns. '' @ dec (length kept)
                 @ '' remain.''),
               st\<lparr>ag_summaries := kept\<rparr>, [SummariesUpdated kept])))"

definition dec_name :: "string dec" where
  "dec_name = dec_struct [(''name'', dec_string)]"

definition tool_update_name :: "agent_env \<Rightarrow> string option \<Rightarrow> agent_state \<Rightarrow> tool_outcome" where
  "tool_update_name en input st =
     (case tool_params dec_name [] input of
        None \<Rightarrow> (Inl (input_error en ''update_name'' input), st, [])
      | Some n \<Rightarrow>
          if n = [] then (Inl ''name must not be empty'', st, [])
          else (Inr (''Policy name updated to '' @ quote_str n @ ''.''), st\<lparr>ag_name := n\<rparr>, []))"

definition empty_rule :: static_rule where
  "empty_rule = \<lparr>sr_methods = [], sr_url_pattern = [], sr_match_type = [], sr_action = []\<rparr>"

definition dec_rule :: "static_rule dec" where
  "dec_rule = dec_struct
     [(''methods'', in_field sr_methods (\<lambda>x r. r\<lparr>sr_methods := x\<rparr>) (dec_list dec_string [])),
      (''url_pattern'', in_field sr_url_pattern (\<lambda>x r. r\<lparr>sr_url_pattern := x\<rparr>) dec_string),
      (''match_type'', in_field sr_match_type (\<lambda>x r. r\<lparr>sr_match_type := x\<rparr>) dec_string),
      (''action'', in_field sr_action (\<lambda>x r. r\<lparr>sr_action := x\<rparr>) dec_string)]"

definition dec_policy_update :: "(string \<times> static_rule list) dec" where
  "dec_policy_update = dec_struct
     [(''policy_prompt'', in_field fst (\<lambda>x p. (x, snd p)) dec_string),
      (''static_rules'', in_field snd (\<lambda>x p. (fst p, x)) (dec_list dec_rule empty_rule))]"

definition tool_update_policy :: "agent_env \<Rightarrow> string option \<Rightarrow> agent_state \<Rightarrow> tool_outcome" where
  "tool_update_policy en input st =
     (case tool_params dec_policy_update ([], []) input of
        None \<Rightarrow> (Inl (input_error en ''update_policy'' input), st, [])
      | Some (prompt, rules) \<Rightarrow>
          (Inr ''Policy updated successfully.'',
           st\<lparr>ag_prompt := prompt, ag_rules := normalize_static_rules rules, ag_updated := True\<rparr>, []))"

definition execute_tool :: "agent_env \<Rightarrow> tool_call \<Rightarrow> agent_state \<Rightarrow> tool_outcome" where
  "execute_tool en call st =
     (if tc_name call = ''analyze_traffic'' then tool_analyze_traffic en (tc_input call) st
      else if tc_name call = ''remove_endpoints'' then tool_remove_endpoints en (tc_input call) st
      else if tc_name call = ''update_policy'' then tool_update_policy en (tc_input call) st
      else if tc_name call = ''update_name'' then tool_update_name en (tc_input call) st
      else (Inl (''unknown tool: '' @ tc_name call), st, []))"

text \<open>One call of the loop: its events and the message that answers it.\<close>

definition run_call :: "agent_env \<Rightarrow> tool_call \<Rightarrow> agent_state \<Rightarrow> agent_state \<times> llm_message \<times> agent_event list" where
  "run_call en call st =
     (let (res, st1, evs) = execute_tool en call st;
          content = (case res of Inl e \<Rightarrow> ''Error: '' @ e | Inr s \<Rightarrow> s);
          updates = (case res of
             Inl _ \<Rightarrow> []
           | Inr _ \<Rightarrow>
               if tc_name call = ''update_policy'' then [PolicyUpdated (ag_prompt st1) (ag_rules st1)]
               else if tc_name call = ''update_name'' then [NameUpdated (ag_name st1)] else [])
      in (st1,
          \<lparr>lm_role = ''tool'', lm_content = [], lm_tool_calls = [],
           lm_tool_result = Some \<lparr>tr_tool_call_id = tc_id call, tr_content = content, tr_is_error = (\<exists>e. res = Inl e)\<rparr>\<rparr>,
          [ToolStart (tc_name call) (tc_input call)] @ evs @ [ToolDone (tc_name call) content] @ updates))"

fun run_calls :: "agent_env \<Rightarrow> tool_call list \<Rightarrow> agent_state \<Rightarrow> agent_state \<times> llm_message list \<times> agent_event list" where
  "run_calls en [] st = (st, [], [])"
| "run_calls en (call # calls) st =
     (let (st1, msg, evs) = run_call en call st; (st2, msgs, evs2) = run_calls en calls st1 in (st2, msg # msgs, evs @ evs2))"

subsection \<open>Recovery from an overflowing context\<close>

definition compactedResultNotice :: string where
  "compactedResultNotice = ''[Tool output discarded: it was too large for the context window.]''"

definition compactable :: "llm_message \<Rightarrow> nat" where
  "compactable m =
     (case lm_tool_result m of
        None \<Rightarrow> 0
      | Some tr \<Rightarrow> if has_prefix (tr_content tr) compactedResultNotice then 0 else length (tr_content tr))"

text \<open>The first message of the largest result; nothing when that is empty.\<close>

definition largest_result :: "llm_message list \<Rightarrow> (nat \<times> nat) option" where
  "largest_result ms =
     (let best = fold (max \<circ> compactable) ms 0
      in if best = 0 then None else map_option (\<lambda>i. (i, best)) (find (\<lambda>i. compactable (ms ! i) = best) [0..<length ms]))"

definition compacted :: "nat \<Rightarrow> llm_message \<Rightarrow> llm_message" where
  "compacted n m =
     m\<lparr>lm_tool_result := map_option (\<lambda>tr. tr\<lparr>tr_content := compactedResultNotice @ '' (~'' @ dec n
         @ '' characters omitted). Re-run the tool with a narrower scope: add a host or path_prefix filter, set summarize=false, or use a smaller limit.'',
         tr_is_error := True\<rparr>) (lm_tool_result m)\<rparr>"

definition compact_largest_tool_result :: "llm_message list \<Rightarrow> llm_message list option" where
  "compact_largest_tool_result ms =
     (case largest_result ms of
        None \<Rightarrow> None
      | Some (i, n) \<Rightarrow> if n < 1000 then None else Some (ms[i := compacted n (ms ! i)]))"

definition is_context_length_error :: "wrapped_error \<Rightarrow> bool" where
  "is_context_length_error e = (ErrContextLength \<in> set (we_wraps e))"

definition think_request :: "string \<Rightarrow> llm_message list \<Rightarrow> llm_request" where
  "think_request system ms =
     \<lparr>lq_system = system, lq_messages = ms, lq_tools = agent_tools, lq_max_tokens = 4096, lq_cache_system_prompt = False\<rparr>"

text \<open>
  \<open>left\<close> recoveries are still allowed; \<open>k\<close> counts the calls of the model. The
  result has the messages as the call leaves them, and the calls made.
\<close>

fun complete_with_recovery ::
    "agent_env \<Rightarrow> string \<Rightarrow> nat \<Rightarrow> nat \<Rightarrow> llm_message list \<Rightarrow>
     (wrapped_error + completion) \<times> llm_message list \<times> agent_event list \<times> nat" where
  "complete_with_recovery en system left k ms =
     (case ae_think en k (think_request system ms) of
        (resp, None) \<Rightarrow> (Inr resp, ms, [], Suc k)
      | (_, Some e) \<Rightarrow>
          if \<not> is_context_length_error e then (Inl e, ms, [], Suc k)
          else (case left of
             0 \<Rightarrow> (Inl e, ms, [], Suc k)
           | Suc n \<Rightarrow>
               (case compact_largest_tool_result ms of
                  None \<Rightarrow> (Inl e, ms, [], Suc k)
                | Some ms1 \<Rightarrow>
                    (case complete_with_recovery en system n (Suc k) ms1 of
                       (r, ms2, evs, k2) \<Rightarrow> (r, ms2, ContextRecovery (maxContextRecoveries - n) # evs, k2)))))"

subsection \<open>The turn\<close>

definition json_rule :: "static_rule \<Rightarrow> json" where
  "json_rule r = JObj [(''methods'', JArr (map JStr (sr_methods r))), (''url_pattern'', JStr (sr_url_pattern r)),
     (''match_type'', JStr (sr_match_type r)), (''action'', JStr (sr_action r))]"

definition build_agent_system_prompt :: "agent_env \<Rightarrow> agent_state \<Rightarrow> string" where
  "build_agent_system_prompt en st =
     ''The current date and time is '' @ ae_now_text en @ '' UTC.'' @ nl @ nl @ agent_guidelines
     @ ''Current draft policy:'' @ nl
     @ (if ag_prompt st = [] then ''Prompt: (empty)'' else ''Prompt: '' @ ag_prompt st) @ nl
     @ ''Static rules: '' @ json_text (JArr (map json_rule (ag_rules st))) @ nl"

definition chat_msg_to_llm :: "chat_message \<Rightarrow> llm_message" where
  "chat_msg_to_llm h =
     \<lparr>lm_role = cm_role h, lm_content = cm_content h,
      lm_tool_calls = map (\<lambda>tc. \<lparr>tc_id = tcr_id tc, tc_name = tcr_name tc, tc_input = tcr_input tc\<rparr>) (cm_tool_calls h),
      lm_tool_result = map_option (\<lambda>tr. \<lparr>tr_tool_call_id = trr_call_id tr, tr_content = trr_content tr, tr_is_error = trr_is_error tr\<rparr>)
        (cm_tool_result h)\<rparr>"

definition llm_msg_to_chat :: "llm_message \<Rightarrow> chat_message" where
  "llm_msg_to_chat m =
     \<lparr>cm_role = lm_role m, cm_content = lm_content m,
      cm_tool_calls = map (\<lambda>tc. \<lparr>tcr_id = tc_id tc, tcr_name = tc_name tc, tcr_input = tc_input tc\<rparr>) (lm_tool_calls m),
      cm_tool_result = map_option (\<lambda>tr. \<lparr>trr_call_id = tr_tool_call_id tr, trr_content = tr_content tr, trr_is_error = tr_is_error tr\<rparr>)
        (lm_tool_result m)\<rparr>"

definition plain_message :: "string \<Rightarrow> string \<Rightarrow> llm_message" where
  "plain_message role content = \<lparr>lm_role = role, lm_content = content, lm_tool_calls = [], lm_tool_result = None\<rparr>"

definition build_agent_messages :: "chat_message list \<Rightarrow> string \<Rightarrow> llm_message list" where
  "build_agent_messages history userMessage = map chat_msg_to_llm history @ [plain_message ''user'' userMessage]"

definition collect_new_messages :: "llm_message list \<Rightarrow> nat \<Rightarrow> string \<Rightarrow> chat_message list" where
  "collect_new_messages ms userMsgIdx finalText =
     map llm_msg_to_chat (drop userMsgIdx ms)
     @ (if finalText = [] then [] else [llm_msg_to_chat (plain_message ''assistant'' finalText)])"

record agent_result =
  gr_message :: string
  gr_policy_updated :: bool
  gr_policy_prompt :: string
  gr_static_rules :: "static_rule list"
  gr_new_summaries :: "endpoint_summary list"
  gr_new_name :: string
  gr_new_messages :: "chat_message list"

definition agent_result_of :: "agent_state \<Rightarrow> string \<Rightarrow> chat_message list \<Rightarrow> agent_result" where
  "agent_result_of st msg new =
     \<lparr>gr_message = msg, gr_policy_updated = ag_updated st, gr_policy_prompt = ag_prompt st, gr_static_rules = ag_rules st,
      gr_new_summaries = ag_summaries st, gr_new_name = ag_name st, gr_new_messages = new\<rparr>"

record turn =
  tn_result :: "agent_result result"
  tn_events :: "agent_event list"
  tn_calls :: nat

fun agent_loop ::
    "agent_env \<Rightarrow> string \<Rightarrow> nat \<Rightarrow> nat \<Rightarrow> nat \<Rightarrow> llm_message list \<Rightarrow> agent_state \<Rightarrow> turn" where
  "agent_loop en system userMsgIdx 0 k ms st =
     \<lparr>tn_result = Inl (''agent exceeded maximum iterations ('' @ dec maxAgentIterations @ '')''), tn_events = [], tn_calls = k\<rparr>"
| "agent_loop en system userMsgIdx (Suc n) k ms st =
     (case complete_with_recovery en system maxContextRecoveries k ms of
        (Inl e, ms1, evs, k1) \<Rightarrow>
          if is_context_length_error e
          then \<lparr>tn_result = Inr (agent_result_of st overflow_message (collect_new_messages ms1 userMsgIdx overflow_message)),
                tn_events = evs, tn_calls = k1\<rparr>
          else \<lparr>tn_result = Inl (''agent call failed: '' @ we_text e), tn_events = evs, tn_calls = k1\<rparr>
      | (Inr resp, ms1, evs, k1) \<Rightarrow>
          if co_stop_reason resp = ''end_turn'' \<or> co_tool_calls resp = []
          then \<lparr>tn_result = Inr (agent_result_of st (co_text resp) (collect_new_messages ms1 userMsgIdx (co_text resp))),
                tn_events = evs, tn_calls = k1\<rparr>
          else
            (let (st1, answers, evs2) = run_calls en (co_tool_calls resp) st;
                 said = \<lparr>lm_role = ''assistant'', lm_content = co_text resp, lm_tool_calls = co_tool_calls resp, lm_tool_result = None\<rparr>;
                 t = agent_loop en system userMsgIdx n k1 (ms1 @ said # answers) st1
             in t\<lparr>tn_events := evs @ evs2 @ tn_events t\<rparr>))"

definition agent_run ::
    "agent_env \<Rightarrow> string \<Rightarrow> string \<Rightarrow> static_rule list \<Rightarrow> endpoint_summary list \<Rightarrow> chat_message list \<Rightarrow> string \<Rightarrow> turn" where
  "agent_run en name prompt rules summaries history userMessage =
     (let st = \<lparr>ag_name = name, ag_prompt = prompt, ag_rules = rules, ag_summaries = summaries, ag_updated = False\<rparr>;
          ms = build_agent_messages history userMessage
      in agent_loop en (build_agent_system_prompt en st) (length ms - 1) maxAgentIterations 0 ms st)"

end
