(* ===== verification/Admin_Http.thy ===== *)
theory Admin_Http imports Agent Alerting Approval begin

text \<open>
  The frame of the admin API (\<open>internal/admin/api.go\<close>): requests and responses,
  tokens and roles, the login cookie and the decoding of bodies. A response carries the
  status and the data given to \<open>respondJSON\<close>, or the text given to
  \<open>http.Error\<close>. The stores are those of the other theories, on one connection.
\<close>

subsection \<open>Requests and responses\<close>

record admin_request =
  aq_method :: string
  aq_path :: string
  aq_raw_path :: string
  aq_query :: "string \<Rightarrow> string"
  aq_header :: header
  aq_cookie :: "string option"
  aq_body :: string

record cookie =
  ck_name :: string
  ck_value :: string
  ck_path :: string
  ck_max_age :: int
  ck_http_only :: bool
  ck_secure :: bool
  ck_same_site_strict :: bool

datatype admin_data =
    NoContent
  | ErrorText string
  | StatusText string
  | Identity string string bool
  | UserList "user_summary list"
  | OneUser user_detail
  | ManagerList "manager_row list"
  | AuditList "audit_row list" int int bool
  | OneEntry audit_row
  | PolicyList "llm_policy list"
  | OnePolicy llm_policy
  | Metadata policy_metadata
  | PolicyStatistics policy_stats
  | RunList "eval_run list"
  | OneRun eval_run
  | RunStatistics run_statistics
  | ResultList "eval_result list" nat
  | OneLabel label_row
  | JudgeAnswer llm_response_row
  | ChannelList "notification_channel list"
  | OneChannel notification_channel
  | EventStream string "string list option"
  | AgentTurn "agent_event list" "agent_result result"
  | Aborted

text \<open>
  What a handler leaves running or tells the outside: an evaluation run it starts, the
  cancellation of one, a test message.
\<close>

datatype api_effect = NoEffect | StartRun string llm_policy audit_filter | CancelRun string | TestSend string string alert_message

record admin_response =
  an_status :: int
  an_data :: admin_data
  an_cookie :: "cookie option"
  an_effect :: api_effect

definition respond :: "int \<Rightarrow> admin_data \<Rightarrow> admin_response" where
  "respond code x = \<lparr>an_status = code, an_data = x, an_cookie = None, an_effect = NoEffect\<rparr>"

definition error_text :: "int \<Rightarrow> string \<Rightarrow> admin_response" where
  "error_text code msg = respond code (ErrorText msg)"

text \<open>\<open>respondError\<close> keeps the error itself out of the response.\<close>

definition respond_error :: "int \<Rightarrow> string \<Rightarrow> go_error \<Rightarrow> admin_response" where
  "respond_error code msg err = error_text code msg"

text \<open>
  A handler that panics: the server recovers and closes the connection without a response.
\<close>

definition aborted :: admin_response where "aborted = respond 0 Aborted"

definition method_not_allowed :: admin_response where "method_not_allowed = error_text 405 ''Method not allowed''"
definition unauthorized :: admin_response where "unauthorized = error_text 401 ''Unauthorized''"
definition forbidden :: admin_response where "forbidden = error_text 403 ''Forbidden''"
definition not_found :: admin_response where "not_found = error_text 404 ''404 page not found''"

text \<open>
  What the API was given: which stores and whether the judge of evaluation runs are configured,
  the policy agent with its models and reader, the alert service. \<open>ap_run_cancels\<close> are
  the runs whose cancel function is registered.
\<close>

text \<open>
  The field of an interface type that holds a store: nothing, a nil pointer of the store's type
  (the interface then is not nil, and a call dereferences it), or the store.
\<close>

datatype store_ref = NilInterface | NilPointer | StoreRef

record api =
  ap_token_validator :: bool
  ap_user_store :: bool
  ap_policy_store :: bool
  ap_eval_store :: bool
  ap_eval_judge :: bool
  ap_notification_store :: store_ref
  ap_agent :: "agent_env option"
  ap_alerts :: "alert_service option"
  ap_secure_cookie :: bool
  ap_run_cancels :: "string list"

text \<open>What one request meets: the clock and the random identifiers it draws.\<close>

record api_env =
  en_now :: time
  en_id :: "string \<Rightarrow> nat \<Rightarrow> string"
  en_token :: string
  en_parse_time :: "string \<Rightarrow> time option"

definition maxBodySize :: nat where "maxBodySize = 1048576"
definition defaultAuditLogLimit :: int where "defaultAuditLogLimit = 100"
definition maxAuditLogLimit :: int where "maxAuditLogLimit = 500"

text \<open>
  \<open>limitBody\<close> and \<open>decodeBody\<close>: the decoder stops at the end of the first value,
  and meets the limit only when that lies beyond it.
\<close>

definition decode_body :: "'a dec \<Rightarrow> 'a \<Rightarrow> admin_request \<Rightarrow> admin_response + 'a" where
  "decode_body dcd zero r =
     (case json_decode (take maxBodySize (aq_body r)) of
        Some v \<Rightarrow> (case dcd v zero of Some x \<Rightarrow> Inr x | None \<Rightarrow> Inl (respond_error 400 ''Invalid request body'' []))
      | None \<Rightarrow>
          if maxBodySize < length (aq_body r) then Inl (error_text 413 ''Request body too large'')
          else Inl (respond_error 400 ''Invalid request body'' []))"

definition sfield :: "string \<Rightarrow> ('b \<Rightarrow> string) \<Rightarrow> (string \<Rightarrow> 'b \<Rightarrow> 'b) \<Rightarrow> string \<times> 'b dec" where
  "sfield k get upd = (k, in_field get upd dec_string)"

text \<open>A pointer field: \<open>null\<close> makes it nil.\<close>

definition dec_ptr :: "'a dec \<Rightarrow> 'a \<Rightarrow> 'a option dec" where
  "dec_ptr d zero v old =
     (if v = JNull then Some None else map_option Some (d v (case old of None \<Rightarrow> zero | Some x \<Rightarrow> x)))"

subsection \<open>Tokens and roles\<close>

definition role_rank :: "string \<Rightarrow> nat option" where
  "role_rank r =
     (if r = ''user'' then Some 0 else if r = ''manager'' then Some 1 else if r = ''admin'' then Some 2 else None)"

definition extract_web_token :: "admin_request \<Rightarrow> string" where
  "extract_web_token r =
     (let auth = hdr_get (aq_header r) ''Authorization'' in
      if has_prefix auth ''Bearer '' then drop 7 auth else or_empty (aq_cookie r))"

definition require_role ::
    "api \<Rightarrow> string \<Rightarrow> admin_request \<Rightarrow> conn \<Rightarrow> (admin_response + string \<times> string) \<times> conn" where
  "require_role a minRole r c =
     (let token = extract_web_token r in
      if token = [] \<or> \<not> ap_token_validator a then (Inl unauthorized, c)
      else case get_user_by_web_token token c of
        (None, c1) \<Rightarrow> (Inl unauthorized, c1)
      | (Some (uid, role), c1) \<Rightarrow>
          (case (role_rank role, role_rank minRole) of
             (Some rank, Some minRank) \<Rightarrow> if rank < minRank then (Inl forbidden, c1) else (Inr (uid, role), c1)
           | _ \<Rightarrow> (Inl forbidden, c1)))"

text \<open>A handler behind \<open>requireRole\<close>, and one behind \<open>requireAdmin\<close>.\<close>

definition with_role ::
    "api \<Rightarrow> string \<Rightarrow> admin_request \<Rightarrow> (string \<Rightarrow> string \<Rightarrow> conn \<Rightarrow> admin_response \<times> conn) \<Rightarrow> conn \<Rightarrow> admin_response \<times> conn" where
  "with_role a minRole r body c =
     (case require_role a minRole r c of (Inl resp, c1) \<Rightarrow> (resp, c1) | (Inr (uid, role), c1) \<Rightarrow> body uid role c1)"

text \<open>Continue with the value of a store call, or answer its error.\<close>

definition on_sql ::
    "'a sql \<Rightarrow> (go_error \<Rightarrow> admin_response) \<Rightarrow> ('a \<Rightarrow> conn \<Rightarrow> admin_response \<times> conn) \<Rightarrow> conn \<Rightarrow> admin_response \<times> conn" where
  "on_sql m fail ok c = (case m c of (Inl e, c1) \<Rightarrow> (fail e, c1) | (Inr x, c1) \<Rightarrow> ok x c1)"

definition reply :: "admin_response \<Rightarrow> conn \<Rightarrow> admin_response \<times> conn" where "reply resp c = (resp, c)"

definition on_body ::
    "'a dec \<Rightarrow> 'a \<Rightarrow> admin_request \<Rightarrow> ('a \<Rightarrow> conn \<Rightarrow> admin_response \<times> conn) \<Rightarrow> conn \<Rightarrow> admin_response \<times> conn" where
  "on_body dcd zero r ok c = (case decode_body dcd zero r of Inl resp \<Rightarrow> (resp, c) | Inr x \<Rightarrow> ok x c)"

subsection \<open>Sessions\<close>

definition new_auth_cookie :: "api \<Rightarrow> string \<Rightarrow> int \<Rightarrow> cookie" where
  "new_auth_cookie a value maxAge =
     \<lparr>ck_name = ''token'', ck_value = value, ck_path = ''/'', ck_max_age = maxAge, ck_http_only = True,
      ck_secure = ap_secure_cookie a, ck_same_site_strict = True\<rparr>"

record login_body =
  li_token :: string

definition dec_login :: "login_body dec" where
  "dec_login = dec_struct [sfield ''token'' li_token (\<lambda>x b. b\<lparr>li_token := x\<rparr>)]"

definition handle_login :: "api \<Rightarrow> admin_request \<Rightarrow> conn \<Rightarrow> admin_response \<times> conn" where
  "handle_login a r =
     (if aq_method r \<noteq> ''POST'' then reply method_not_allowed
      else if \<not> ap_token_validator a then reply unauthorized
      else on_body dec_login \<lparr>li_token = []\<rparr> r (\<lambda>b c.
        if li_token b = [] then (error_text 400 ''token is required'', c)
        else case get_user_by_web_token (li_token b) c of
          (None, c1) \<Rightarrow> (unauthorized, c1)
        | (Some (uid, role), c1) \<Rightarrow>
            ((respond 200 (Identity uid role (role = ''admin'')))\<lparr>an_cookie := Some (new_auth_cookie a (li_token b) (7 * 24 * 60 * 60))\<rparr>, c1)))"

definition handle_logout :: "api \<Rightarrow> admin_request \<Rightarrow> conn \<Rightarrow> admin_response \<times> conn" where
  "handle_logout a r =
     (if aq_method r \<noteq> ''POST'' then reply method_not_allowed
      else reply ((respond 200 (StatusText ''ok''))\<lparr>an_cookie := Some (new_auth_cookie a [] (-1))\<rparr>))"

definition handle_me :: "api \<Rightarrow> admin_request \<Rightarrow> conn \<Rightarrow> admin_response \<times> conn" where
  "handle_me a r c =
     (let token = extract_web_token r in
      if aq_method r \<noteq> ''GET'' then (method_not_allowed, c)
      else if token = [] \<or> \<not> ap_token_validator a then (unauthorized, c)
      else case get_user_by_web_token token c of
        (None, c1) \<Rightarrow> (unauthorized, c1)
      | (Some (uid, role), c1) \<Rightarrow> (respond 200 (Identity uid role (role = ''admin'')), c1))"

definition handle_health :: "admin_request \<Rightarrow> conn \<Rightarrow> admin_response \<times> conn" where
  "handle_health r = (if aq_method r \<noteq> ''GET'' then reply method_not_allowed else reply (respond 200 (StatusText ''ok'')))"

text \<open>The identifier and the action of a path below a prefix.\<close>

definition path_id_action :: "string \<Rightarrow> string \<Rightarrow> string \<times> string" where
  "path_id_action prefix path =
     (let remaining = drop (length prefix) path in
      case index_byte remaining (CHR ''/'') of
        None \<Rightarrow> (remaining, [])
      | Some i \<Rightarrow> (if i = 0 then remaining else take i remaining, drop (i + 1) remaining))"

definition atoi_if :: "(int \<Rightarrow> bool) \<Rightarrow> string \<Rightarrow> int \<Rightarrow> int" where
  "atoi_if p s dflt = (if s = [] then dflt else case parse_int64 s of Some n \<Rightarrow> if p n then n else dflt | None \<Rightarrow> dflt)"

end
