(* ===== verification/Admin_Users.thy ===== *)
theory Admin_Users imports Admin_Http begin

text \<open>
  The endpoints for users, their managers, the audit log and notification channels
  (\<open>internal/admin/api.go\<close>, \<open>notification_handlers.go\<close>). Every handler is the
  code's, from its first check to its last answer.
\<close>

subsection \<open>Users\<close>

definition zero_create_user :: create_user_request where
  "zero_create_user = \<lparr>cu_id = [], cu_is_admin = False, cu_role = None, cu_web_token = [], cu_gateway_auth_token = []\<rparr>"

definition dec_create_user :: "create_user_request dec" where
  "dec_create_user = dec_struct
     [sfield ''id'' cu_id (\<lambda>x b. b\<lparr>cu_id := x\<rparr>),
      (''is_admin'', in_field cu_is_admin (\<lambda>x b. b\<lparr>cu_is_admin := x\<rparr>) dec_bool),
      (''role'', in_field cu_role (\<lambda>x b. b\<lparr>cu_role := x\<rparr>) (dec_ptr dec_string [])),
      sfield ''web_token'' cu_web_token (\<lambda>x b. b\<lparr>cu_web_token := x\<rparr>),
      sfield ''gateway_auth_token'' cu_gateway_auth_token (\<lambda>x b. b\<lparr>cu_gateway_auth_token := x\<rparr>)]"

definition zero_update_user :: update_user_request where
  "zero_update_user = \<lparr>uu_is_admin = None, uu_role = None, uu_policy_id = None, uu_web_token = None, uu_gateway_auth_token = None\<rparr>"

definition dec_update_user :: "update_user_request dec" where
  "dec_update_user = dec_struct
     [(''is_admin'', in_field uu_is_admin (\<lambda>x b. b\<lparr>uu_is_admin := x\<rparr>) (dec_ptr dec_bool False)),
      (''role'', in_field uu_role (\<lambda>x b. b\<lparr>uu_role := x\<rparr>) (dec_ptr dec_string [])),
      (''llm_policy_id'', in_field uu_policy_id (\<lambda>x b. b\<lparr>uu_policy_id := x\<rparr>) (dec_ptr dec_string [])),
      (''web_token'', in_field uu_web_token (\<lambda>x b. b\<lparr>uu_web_token := x\<rparr>) (dec_ptr dec_string [])),
      (''gateway_auth_token'', in_field uu_gateway_auth_token (\<lambda>x b. b\<lparr>uu_gateway_auth_token := x\<rparr>) (dec_ptr dec_string []))]"

definition invalid_role :: "string option \<Rightarrow> bool" where
  "invalid_role role = (case role of None \<Rightarrow> False | Some r \<Rightarrow> \<not> ValidRoles r)"

definition role_message :: string where "role_message = ''invalid role: must be admin, manager, or user''"

definition store_unavailable :: admin_response where
  "store_unavailable = error_text 503 ''User store not available''"

text \<open>The creation proper, and for a manager the assignment, undone by deleting the user.\<close>

definition create_and_assign ::
    "api_env \<Rightarrow> string \<Rightarrow> string \<Rightarrow> create_user_request \<Rightarrow> conn \<Rightarrow> admin_response \<times> conn" where
  "create_and_assign en callerID callerRole req =
     on_sql (create_user (en_now en) (en_id en ''chan'' 0) (en_id en ''chan'' 1) (en_token en) req)
       (respond_error 500 ''failed to create user'')
       (\<lambda>user c.
         if callerRole = ''admin'' then (respond 201 (OneUser user), c)
         else case assign_manager (en_now en) (en_id en ''mgr'' 0) (ud_id user) callerID c of
           (Inl e, c1) \<Rightarrow> (respond_error 500 ''failed to assign manager to new bot'' e, snd (delete_user (ud_id user) c1))
         | (Inr _, c1) \<Rightarrow> (respond 201 (OneUser user), c1))"

definition post_user :: "api_env \<Rightarrow> admin_request \<Rightarrow> string \<Rightarrow> string \<Rightarrow> conn \<Rightarrow> admin_response \<times> conn" where
  "post_user en r callerID callerRole =
     on_body dec_create_user zero_create_user r (\<lambda>req.
       if cu_id req = [] then reply (error_text 400 ''id (email) is required'')
       else if invalid_role (cu_role req) then reply (error_text 400 role_message)
       else if callerRole \<noteq> ''admin'' then
         (if cu_role req \<noteq> None \<and> cu_role req \<noteq> Some ''user'' then reply (error_text 403 ''managers can only create bot users'')
          else create_and_assign en callerID callerRole (req\<lparr>cu_role := Some ''user''\<rparr>))
       else create_and_assign en callerID callerRole req)"

definition handle_users :: "api \<Rightarrow> api_env \<Rightarrow> admin_request \<Rightarrow> conn \<Rightarrow> admin_response \<times> conn" where
  "handle_users a en r =
     (if \<not> ap_user_store a then reply store_unavailable
      else with_role a ''manager'' r (\<lambda>callerID callerRole.
        if aq_method r = ''GET'' then
          on_sql (if callerRole = ''admin'' then list_users else list_users_for_manager callerID)
            (respond_error 500 ''failed to list users'') (\<lambda>us. reply (respond 200 (UserList us)))
        else if aq_method r = ''POST'' then post_user en r callerID callerRole
        else reply method_not_allowed))"

definition handle_me_bots :: "api \<Rightarrow> admin_request \<Rightarrow> conn \<Rightarrow> admin_response \<times> conn" where
  "handle_me_bots a r =
     with_role a ''manager'' r (\<lambda>callerID callerRole.
       if aq_method r \<noteq> ''GET'' then reply method_not_allowed
       else if \<not> ap_user_store a then reply store_unavailable
       else if callerRole = ''admin'' then
         on_sql list_users (respond_error 500 ''failed to list users'')
           (\<lambda>us. reply (respond 200 (UserList (filter (\<lambda>u. us_role u = ''user'') us))))
       else
         on_sql (list_users_for_manager callerID) (respond_error 500 ''failed to list managed bots'')
           (\<lambda>us. reply (respond 200 (UserList us))))"

text \<open>\<open>PUT /admin/users/{id}\<close>: a draft cannot be assigned.\<close>

definition put_user :: "api \<Rightarrow> api_env \<Rightarrow> admin_request \<Rightarrow> string \<Rightarrow> conn \<Rightarrow> admin_response \<times> conn" where
  "put_user a en r email =
     on_body dec_update_user zero_update_user r (\<lambda>req c.
       if invalid_role (uu_role req) then (error_text 400 role_message, c)
       else
         (let update = on_sql (update_user (en_now en) (en_id en ''chan'' 0) (en_id en ''chan'' 1) email req)
                (respond_error 500 ''failed to update user'') (\<lambda>u. reply (respond 200 (OneUser u)))
          in case uu_policy_id req of
               None \<Rightarrow> update c
             | Some pid \<Rightarrow>
                 if pid \<noteq> [] \<and> ap_policy_store a then
                   on_sql (policy_get pid) (\<lambda>_. error_text 400 (''policy not found: '' @ pid))
                     (\<lambda>p. if lp_status p = ''draft''
                           then reply (error_text 400 ''cannot assign a draft policy to a user; publish it first'')
                           else update) c
                 else update c))"

text \<open>A manager may act on a bot only as one of its managers.\<close>

definition as_manager_of ::
    "string \<Rightarrow> string \<Rightarrow> string \<Rightarrow> admin_response \<Rightarrow> (conn \<Rightarrow> admin_response \<times> conn) \<Rightarrow> conn \<Rightarrow> admin_response \<times> conn" where
  "as_manager_of callerID callerRole botID refused ok c =
     (if callerRole = ''admin'' then ok c
      else case is_manager_of callerID botID c of (Inr True, c1) \<Rightarrow> ok c1 | (_, c1) \<Rightarrow> (refused, c1))"

definition user_action :: "api \<Rightarrow> api_env \<Rightarrow> admin_request \<Rightarrow> string \<Rightarrow> string \<Rightarrow> string \<Rightarrow> conn \<Rightarrow> admin_response \<times> conn" where
  "user_action a en r email callerID callerRole =
     (if aq_method r = ''GET'' then
        as_manager_of callerID callerRole email forbidden
          (on_sql (get_user email) (respond_error 404 ''user not found'') (\<lambda>u. reply (respond 200 (OneUser u))))
      else if aq_method r = ''PUT'' then
        (if callerRole \<noteq> ''admin'' then reply forbidden else put_user a en r email)
      else if aq_method r = ''DELETE'' then
        (if callerRole \<noteq> ''admin'' then reply forbidden
         else on_sql (delete_user email) (respond_error 404 ''user not found'') (\<lambda>_. reply (respond 200 (StatusText ''deleted''))))
      else reply method_not_allowed)"

record manager_body =
  mb_manager_id :: string

definition dec_manager_body :: "manager_body dec" where
  "dec_manager_body = dec_struct [sfield ''manager_id'' mb_manager_id (\<lambda>x b. b\<lparr>mb_manager_id := x\<rparr>)]"

definition post_manager :: "api_env \<Rightarrow> admin_request \<Rightarrow> string \<Rightarrow> conn \<Rightarrow> admin_response \<times> conn" where
  "post_manager en r botID =
     on_body dec_manager_body \<lparr>mb_manager_id = []\<rparr> r (\<lambda>b.
       if mb_manager_id b = [] then reply (error_text 400 ''manager_id is required'')
       else on_sql (get_user botID) (\<lambda>_. error_text 404 ''bot user not found'') (\<lambda>bot.
         if ud_role bot \<noteq> ''user'' then reply (error_text 400 ''managers can only be assigned to bot users'')
         else on_sql (get_user (mb_manager_id b)) (\<lambda>_. error_text 400 ''manager user not found'') (\<lambda>mgr.
           if ud_role mgr \<noteq> ''manager'' \<and> ud_role mgr \<noteq> ''admin''
           then reply (error_text 400 ''user must have manager or admin role'')
           else on_sql (assign_manager (en_now en) (en_id en ''mgr'' 0) botID (mb_manager_id b))
             (respond_error 500 ''failed to assign manager'') (\<lambda>_. reply (respond 201 (StatusText ''assigned''))))))"

definition handle_user_managers :: "api \<Rightarrow> api_env \<Rightarrow> admin_request \<Rightarrow> string \<Rightarrow> string \<Rightarrow> conn \<Rightarrow> admin_response \<times> conn" where
  "handle_user_managers a en r botID subPath =
     with_role a ''manager'' r (\<lambda>callerID callerRole.
       let suffix = (if has_prefix subPath ''/managers'' then drop 9 subPath else subPath) in
       if suffix = [] \<or> suffix = ''/'' then
         (if aq_method r = ''GET'' then
            as_manager_of callerID callerRole botID forbidden
              (on_sql (list_managers botID) (respond_error 500 ''failed to list managers'') (\<lambda>ms. reply (respond 200 (ManagerList ms))))
          else if aq_method r = ''POST'' then
            (if callerRole \<noteq> ''admin'' then reply forbidden else post_manager en r botID)
          else reply method_not_allowed)
       else if has_prefix suffix ''/'' then
         (if aq_method r \<noteq> ''DELETE'' then reply method_not_allowed
          else if callerRole \<noteq> ''admin'' then reply forbidden
          else case path_unescape (tl suffix) of
            None \<Rightarrow> reply (error_text 400 ''Invalid manager ID'')
          | Some managerID \<Rightarrow>
              if managerID = [] then reply (error_text 400 ''Invalid manager ID'')
              else on_sql (unassign_manager botID managerID) (respond_error 404 ''assignment not found'')
                (\<lambda>_. reply (respond 200 (StatusText ''unassigned''))))
       else reply not_found)"

definition users_prefix :: string where "users_prefix = ''/admin/users/''"

definition split_user_path :: "admin_request \<Rightarrow> string \<times> string" where
  "split_user_path r =
     (let remaining = drop (length users_prefix) (if aq_raw_path r = [] then aq_path r else aq_raw_path r)
      in case index_byte remaining (CHR ''/'') of
           None \<Rightarrow> (remaining, [])
         | Some i \<Rightarrow> if 0 < i then (take i remaining, drop i remaining) else (remaining, []))"

definition handle_user_action :: "api \<Rightarrow> api_env \<Rightarrow> admin_request \<Rightarrow> conn \<Rightarrow> admin_response \<times> conn" where
  "handle_user_action a en r =
     (if \<not> ap_user_store a then reply store_unavailable
      else
        (let (idPart, subPath) = split_user_path r in
         if idPart = [] then reply not_found
         else case path_unescape idPart of
           None \<Rightarrow> reply (error_text 400 ''Invalid user ID'')
         | Some email \<Rightarrow>
             if email = [] then reply (error_text 400 ''Invalid user ID'')
             else if has_prefix subPath ''/managers'' then handle_user_managers a en r email subPath
             else if subPath \<noteq> [] then reply not_found
             else with_role a ''manager'' r (user_action a en r email)))"

subsection \<open>The audit log\<close>

definition managed_bot_ids :: "string \<Rightarrow> string list sql" where
  "managed_bot_ids managerID = sbind (list_managed_bots managerID) (\<lambda>ms. sreturn (map mr_bot_id ms))"

text \<open>The filter of the query parameters; the caller's scope is added to it.\<close>

definition time_param :: "api_env \<Rightarrow> string \<Rightarrow> time option" where
  "time_param en s = (if s = [] then None else en_parse_time en s)"

definition query_filter :: "api_env \<Rightarrow> admin_request \<Rightarrow> audit_filter" where
  "query_filter en r =
     (let q = aq_query r; limit = atoi_if (\<lambda>n. 0 < n) (q ''limit'') defaultAuditLogLimit in
      no_filter
       \<lparr>af_user_id := q ''user_id'', af_decision := q ''decision'', af_approved_by := q ''approved_by'',
        af_channel := q ''channel'', af_method := q ''method'', af_policy_id := q ''policy_id'',
        af_cache_hit := (if q ''cache_hit'' = [] then None else Some (q ''cache_hit'' = ''true'')),
        af_start_time := time_param en (q ''start_time''), af_end_time := time_param en (q ''end_time''),
        af_limit := min limit maxAuditLogLimit, af_offset := atoi_if (\<lambda>n. 0 \<le> n) (q ''offset'') 0\<rparr>)"

definition audit_listing :: "audit_filter \<Rightarrow> conn \<Rightarrow> admin_response \<times> conn" where
  "audit_listing f c =
     (case audit_query_summaries (f\<lparr>af_limit := af_limit f + 1\<rparr>) c of
        (entries, c1) \<Rightarrow>
          (let hasMore = af_limit f < int (length entries)
           in (respond 200 (AuditList (if hasMore then take (nat (af_limit f)) entries else entries) (af_offset f) (af_limit f) hasMore), c1)))"

definition handle_audit_log :: "api \<Rightarrow> api_env \<Rightarrow> admin_request \<Rightarrow> conn \<Rightarrow> admin_response \<times> conn" where
  "handle_audit_log a en r =
     (if aq_method r \<noteq> ''GET'' then reply method_not_allowed
      else with_role a ''manager'' r (\<lambda>callerID callerRole.
        let f = query_filter en r in
        if callerRole = ''admin'' then audit_listing f
        else on_sql (managed_bot_ids callerID) (respond_error 500 ''failed to resolve managed bots'') (\<lambda>bots.
          if af_user_id f \<noteq> [] then
            (if af_user_id f \<in> set bots then audit_listing f else reply forbidden)
          else if bots = [] then reply (respond 200 (AuditList [] 0 defaultAuditLogLimit False))
          else audit_listing (f\<lparr>af_user_ids := bots\<rparr>))))"

definition handle_sse :: "api \<Rightarrow> admin_request \<Rightarrow> conn \<Rightarrow> admin_response \<times> conn" where
  "handle_sse a r =
     (if aq_method r \<noteq> ''GET'' then reply method_not_allowed
      else with_role a ''manager'' r (\<lambda>callerID callerRole.
        if callerRole = ''admin'' then reply (respond 200 (EventStream callerID None))
        else on_sql (managed_bot_ids callerID) (respond_error 500 ''failed to resolve managed bots'')
          (\<lambda>bots. reply (respond 200 (EventStream callerID (Some bots))))))"

end
