(* ===== verification/Admin_Policies.thy ===== *)
theory Admin_Policies imports Admin_Http begin

text \<open>
  The endpoints for policies (\<open>handleLLMPolicies\<close> and \<open>handleLLMPolicyAction\<close>
  in \<open>internal/admin/api.go\<close>), with the conversation with the policy agent. The agent's
  turn runs on what its environment answers; what it reports goes to the client and, for
  summaries, to the store while the turn lasts.
\<close>

subsection \<open>Bodies\<close>

record policy_body =
  pb_text :: policy_text
  pb_status :: string

definition zero_text :: policy_text where
  "zero_text = \<lparr>pt_name = [], pt_prompt = [], pt_provider = [], pt_model = [], pt_static_rules = []\<rparr>"

definition text_fields :: "('b \<Rightarrow> policy_text) \<Rightarrow> (policy_text \<Rightarrow> 'b \<Rightarrow> 'b) \<Rightarrow> (string \<times> 'b dec) list" where
  "text_fields get put =
     [sfield ''name'' (pt_name \<circ> get) (\<lambda>x b. put ((get b)\<lparr>pt_name := x\<rparr>) b),
      sfield ''prompt'' (pt_prompt \<circ> get) (\<lambda>x b. put ((get b)\<lparr>pt_prompt := x\<rparr>) b),
      sfield ''provider'' (pt_provider \<circ> get) (\<lambda>x b. put ((get b)\<lparr>pt_provider := x\<rparr>) b),
      sfield ''model'' (pt_model \<circ> get) (\<lambda>x b. put ((get b)\<lparr>pt_model := x\<rparr>) b),
      (''static_rules'', in_field (pt_static_rules \<circ> get) (\<lambda>x b. put ((get b)\<lparr>pt_static_rules := x\<rparr>) b) (dec_list dec_rule empty_rule))]"

definition dec_create_policy :: "policy_body dec" where
  "dec_create_policy = dec_struct
     (text_fields pb_text (\<lambda>t b. b\<lparr>pb_text := t\<rparr>) @ [sfield ''status'' pb_status (\<lambda>x b. b\<lparr>pb_status := x\<rparr>)])"

definition dec_update_policy :: "policy_text dec" where
  "dec_update_policy = dec_struct (text_fields (\<lambda>t. t) (\<lambda>t _. t))"

record name_body =
  nb_name :: string

definition dec_name_body :: "name_body dec" where
  "dec_name_body = dec_struct [sfield ''name'' nb_name (\<lambda>x b. b\<lparr>nb_name := x\<rparr>)]"

definition dec_tool_call :: "tool_call_record dec" where
  "dec_tool_call = dec_struct
     [sfield ''id'' tcr_id (\<lambda>x b. b\<lparr>tcr_id := x\<rparr>), sfield ''name'' tcr_name (\<lambda>x b. b\<lparr>tcr_name := x\<rparr>),
      (''input'', in_field tcr_input (\<lambda>x b. b\<lparr>tcr_input := x\<rparr>) dec_raw)]"

definition dec_tool_result :: "tool_result_record dec" where
  "dec_tool_result = dec_struct
     [sfield ''tool_call_id'' trr_call_id (\<lambda>x b. b\<lparr>trr_call_id := x\<rparr>), sfield ''content'' trr_content (\<lambda>x b. b\<lparr>trr_content := x\<rparr>),
      (''is_error'', in_field trr_is_error (\<lambda>x b. b\<lparr>trr_is_error := x\<rparr>) dec_bool)]"

definition dec_chat_message :: "chat_message dec" where
  "dec_chat_message = dec_struct
     [sfield ''role'' cm_role (\<lambda>x b. b\<lparr>cm_role := x\<rparr>), sfield ''content'' cm_content (\<lambda>x b. b\<lparr>cm_content := x\<rparr>),
      (''tool_calls'', in_field cm_tool_calls (\<lambda>x b. b\<lparr>cm_tool_calls := x\<rparr>)
         (dec_list dec_tool_call \<lparr>tcr_id = [], tcr_name = [], tcr_input = None\<rparr>)),
      (''tool_result'', in_field cm_tool_result (\<lambda>x b. b\<lparr>cm_tool_result := x\<rparr>)
         (dec_ptr dec_tool_result \<lparr>trr_call_id = [], trr_content = [], trr_is_error = False\<rparr>))]"

record agent_body =
  gb_message :: string
  gb_history :: "chat_message list"

definition dec_agent_body :: "agent_body dec" where
  "dec_agent_body = dec_struct
     [sfield ''message'' gb_message (\<lambda>x b. b\<lparr>gb_message := x\<rparr>),
      (''history'', in_field gb_history (\<lambda>x b. b\<lparr>gb_history := x\<rparr>)
         (dec_list dec_chat_message \<lparr>cm_role = [], cm_content = [], cm_tool_calls = [], cm_tool_result = None\<rparr>))]"

subsection \<open>Texts of rule errors\<close>

definition rule_error_text :: "static_rule list \<Rightarrow> rule_error \<Rightarrow> string" where
  "rule_error_text rules e =
     (let pattern = (\<lambda>i. quote_str (sr_url_pattern (rules ! i))) in
      case e of
        EmptyPattern i \<Rightarrow> ''rule '' @ dec i @ '': url_pattern must not be empty''
      | InvalidMatchType i m \<Rightarrow> ''rule '' @ dec i @ '': invalid match_type '' @ quote_str m @ '': must be prefix, exact, or glob''
      | UnsafeGlob i (StarDotAt pos) \<Rightarrow>
          ''rule '' @ dec i @ '': glob pattern '' @ pattern i @ '' has '' @ squote @ ''*.'' @ squote @ '' at position '' @ dec pos
          @ '' in the authority; '' @ squote @ ''*.'' @ squote @ '' is only safe at the start (use '' @ squote @ ''*.domain.com/*''
          @ squote @ '', not '' @ squote @ ''api.*.com/*'' @ squote @ '')''
      | UnsafeGlob i (BareStarAt pos) \<Rightarrow>
          ''rule '' @ dec i @ '': glob pattern '' @ pattern i @ '' has a bare '' @ squote @ ''*'' @ squote @ '' at position '' @ dec pos
          @ '' in the authority that can cross host boundaries; use '' @ squote @ ''*.domain.com/*'' @ squote
          @ '' for subdomains or '' @ squote @ ''domain.com/*'' @ squote @ '' for paths''
      | InvalidAction i a \<Rightarrow> ''rule '' @ dec i @ '': invalid action '' @ quote_str a @ '': must be allow or deny'')"

text \<open>The checks a body with rules passes before it is stored.\<close>

definition checked_text :: "policy_text \<Rightarrow> (conn \<Rightarrow> admin_response \<times> conn) \<Rightarrow> conn \<Rightarrow> admin_response \<times> conn" where
  "checked_text t ok =
     (if pt_name t = [] then reply (error_text 400 ''name is required'')
      else case validate_static_rules (pt_static_rules t) of
        Some e \<Rightarrow> reply (error_text 400 (''invalid static_rules: '' @ rule_error_text (pt_static_rules t) e))
      | None \<Rightarrow> ok)"

subsection \<open>The collection\<close>

definition policy_store_missing :: admin_response where
  "policy_store_missing = error_text 503 ''LLM policy store not configured''"

definition handle_llm_policies :: "api \<Rightarrow> api_env \<Rightarrow> admin_request \<Rightarrow> conn \<Rightarrow> admin_response \<times> conn" where
  "handle_llm_policies a en r =
     with_role a ''manager'' r (\<lambda>_ _.
       if \<not> ap_policy_store a then reply policy_store_missing
       else if aq_method r = ''GET'' then
         on_sql (policy_list (atoi_if (\<lambda>n. 0 < n) (aq_query r ''limit'') 50) (atoi_if (\<lambda>n. 0 \<le> n) (aq_query r ''offset'') 0))
           (respond_error 500 ''failed to list policies'') (\<lambda>ps. reply (respond 200 (PolicyList ps)))
       else if aq_method r = ''POST'' then
         on_body dec_create_policy \<lparr>pb_text = zero_text, pb_status = []\<rparr> r (\<lambda>b.
           checked_text (pb_text b)
             (on_sql (policy_create (en_now en) (en_id en ''llmpol'' 0) (pb_text b) [] (pb_status b))
               (respond_error 500 ''failed to create policy'') (\<lambda>p. reply (respond 201 (OnePolicy p)))))
       else reply method_not_allowed)"

subsection \<open>One policy\<close>

definition on_store ::
    "(conn \<Rightarrow> (store_error + 'a) \<times> conn) \<Rightarrow> (store_error \<Rightarrow> admin_response) \<Rightarrow> ('a \<Rightarrow> admin_response) \<Rightarrow> conn \<Rightarrow> admin_response \<times> conn" where
  "on_store m fail ok c = (case m c of (Inl e, c1) \<Rightarrow> (fail e, c1) | (Inr x, c1) \<Rightarrow> (ok x, c1))"

definition not_draft_or :: "admin_response \<Rightarrow> store_error \<Rightarrow> admin_response" where
  "not_draft_or resp e = (if e = ErrPolicyNotDraft then error_text 409 (store_error_text e) else resp)"

definition put_policy :: "admin_request \<Rightarrow> string \<Rightarrow> conn \<Rightarrow> admin_response \<times> conn" where
  "put_policy r pid =
     on_body dec_update_policy zero_text r (\<lambda>t.
       checked_text t
         (on_store (policy_update_draft pid t) (not_draft_or (error_text 500 ''failed to update policy''))
           (\<lambda>p. respond 200 (OnePolicy p))))"

definition publish_policy :: "string \<Rightarrow> conn \<Rightarrow> admin_response \<times> conn" where
  "publish_policy pid =
     on_store (policy_publish pid) (not_draft_or (error_text 404 ''policy not found'')) (\<lambda>p. respond 200 (OnePolicy p))"

text \<open>A fork is a draft with the text of its parent.\<close>

definition text_of :: "llm_policy \<Rightarrow> policy_text" where
  "text_of p = \<lparr>pt_name = lp_name p, pt_prompt = lp_prompt p, pt_provider = lp_provider p, pt_model = lp_model p,
     pt_static_rules = lp_static_rules p\<rparr>"

definition fork_policy :: "api_env \<Rightarrow> admin_request \<Rightarrow> string \<Rightarrow> conn \<Rightarrow> admin_response \<times> conn" where
  "fork_policy en r pid =
     on_sql (policy_get pid) (respond_error 404 ''policy not found'') (\<lambda>parent.
       on_body dec_name_body \<lparr>nb_name = lp_name parent @ '' (draft)''\<rparr> r (\<lambda>b.
         if nb_name b = [] then reply (error_text 400 ''name is required'')
         else on_sql (policy_create (en_now en) (en_id en ''llmpol'' 0) ((text_of parent)\<lparr>pt_name := nb_name b\<rparr>) pid ''draft'')
           (respond_error 500 ''failed to fork policy'') (\<lambda>p. reply (respond 201 (OnePolicy p)))))"

definition delete_policy :: "api_env \<Rightarrow> string \<Rightarrow> conn \<Rightarrow> admin_response \<times> conn" where
  "delete_policy en pid c =
     (case policy_delete (en_now en) pid c of
        (None, c1) \<Rightarrow> (respond 204 NoContent, c1)
      | (Some e, c1) \<Rightarrow>
          ((if e = ErrPolicyHasAssignedUsers then error_text 409 (store_error_text e)
            else if e = ErrPolicyNotFound then error_text 404 (store_error_text e)
            else error_text 500 ''failed to delete policy''), c1))"

subsection \<open>The conversation with the agent\<close>

text \<open>Errors of the store are ignored here.\<close>

definition store_event :: "string \<Rightarrow> agent_event \<Rightarrow> conn \<Rightarrow> conn" where
  "store_event pid ev c = (case ev of SummariesUpdated s \<Rightarrow> snd (policy_set_endpoint_summaries pid s c) | _ \<Rightarrow> c)"

definition store_turn :: "llm_policy \<Rightarrow> string \<Rightarrow> chat_message list \<Rightarrow> agent_result \<Rightarrow> conn \<Rightarrow> conn" where
  "store_turn p pid history res c =
     (let name = (if gr_new_name res = [] then lp_name p else gr_new_name res);
          t = \<lparr>pt_name = name, pt_prompt = gr_policy_prompt res, pt_provider = lp_provider p, pt_model = lp_model p,
               pt_static_rules = gr_static_rules res\<rparr>;
          c1 = (if gr_policy_updated res \<or> gr_new_name res \<noteq> [] then snd (policy_update_draft pid t c) else c);
          c2 = snd (policy_set_endpoint_summaries pid (gr_new_summaries res) c1)
      in if gr_new_messages res = [] then c2 else snd (policy_set_chat_history pid (history @ gr_new_messages res) c2))"

definition saved_summaries :: "string \<Rightarrow> conn \<Rightarrow> endpoint_summary list \<times> conn" where
  "saved_summaries pid c =
     (case policy_get_metadata pid c of (Inr (Some m), c1) \<Rightarrow> (pm_endpoint_summaries m, c1) | (_, c1) \<Rightarrow> ([], c1))"

definition agent_turn :: "agent_env \<Rightarrow> llm_policy \<Rightarrow> string \<Rightarrow> agent_body \<Rightarrow> conn \<Rightarrow> admin_response \<times> conn" where
  "agent_turn ag p pid b c =
     (let (summaries, c1) = saved_summaries pid c;
          t = agent_run ag (lp_name p) (lp_prompt p) (lp_static_rules p) summaries (gb_history b) (gb_message b);
          c2 = fold (store_event pid) (tn_events t) c1
      in (respond 200 (AgentTurn (tn_events t) (tn_result t)),
          case tn_result t of Inl _ \<Rightarrow> c2 | Inr res \<Rightarrow> store_turn p pid (gb_history b) res c2))"

definition chat_with_agent :: "api \<Rightarrow> admin_request \<Rightarrow> string \<Rightarrow> conn \<Rightarrow> admin_response \<times> conn" where
  "chat_with_agent a r pid =
     (case ap_agent a of
        None \<Rightarrow> reply (error_text 503 ''Policy agent not configured'')
      | Some ag \<Rightarrow>
          on_sql (policy_get pid) (respond_error 404 ''policy not found'') (\<lambda>p.
            if lp_status p \<noteq> ''draft'' then reply (error_text 409 ''agent editing is only available for draft policies'')
            else on_body dec_agent_body \<lparr>gb_message = [], gb_history = []\<rparr> r (\<lambda>b.
              if gb_message b = [] then reply (error_text 400 ''message is required'')
              else agent_turn ag p pid b)))"

definition policies_prefix :: string where "policies_prefix = ''/admin/llm-policies/''"

definition policy_action :: "api \<Rightarrow> api_env \<Rightarrow> admin_request \<Rightarrow> string \<Rightarrow> string \<Rightarrow> string \<Rightarrow> conn \<Rightarrow> admin_response \<times> conn" where
  "policy_action a en r callerRole pid action =
     (if aq_method r = ''DELETE'' \<and> callerRole \<noteq> ''admin'' then reply forbidden
      else if aq_method r = ''GET'' \<and> action = [] then
        on_sql (policy_get pid) (respond_error 404 ''policy not found'') (\<lambda>p. reply (respond 200 (OnePolicy p)))
      else if aq_method r = ''GET'' \<and> action = ''metadata'' then
        on_sql (policy_get_metadata pid) (respond_error 500 ''failed to get policy metadata'')
          (\<lambda>m. reply (respond 200 (Metadata (case m of None \<Rightarrow> empty_metadata | Some x \<Rightarrow> x))))
      else if aq_method r = ''GET'' \<and> action = ''stats'' then
        on_sql (audit_get_policy_stats (en_now en) pid) (respond_error 500 ''failed to get policy stats'')
          (\<lambda>s. reply (respond 200 (PolicyStatistics s)))
      else if aq_method r = ''PUT'' \<and> action = [] then put_policy r pid
      else if aq_method r = ''POST'' \<and> action = ''publish'' then publish_policy pid
      else if aq_method r = ''POST'' \<and> action = ''fork'' then fork_policy en r pid
      else if aq_method r = ''POST'' \<and> (action = ''agent'' \<or> action = ''chat'') then chat_with_agent a r pid
      else if aq_method r = ''DELETE'' \<and> action = [] then delete_policy en pid
      else reply method_not_allowed)"

definition handle_llm_policy_action :: "api \<Rightarrow> api_env \<Rightarrow> admin_request \<Rightarrow> conn \<Rightarrow> admin_response \<times> conn" where
  "handle_llm_policy_action a en r =
     with_role a ''manager'' r (\<lambda>_ callerRole.
       if \<not> ap_policy_store a then reply policy_store_missing
       else
         (let (pid, action) = path_id_action policies_prefix (aq_path r) in
          if pid = [] then reply (error_text 400 ''Missing policy ID'')
          else policy_action a en r callerRole pid action))"

end
