(* ===== verification/Admin_Evals.thy ===== *)
theory Admin_Evals imports Admin_Users Admin_Policies begin

text \<open>
  The endpoints for evaluation runs, labels, judge answers and notification channels, and the
  routing of all endpoints (\<open>internal/admin/api.go\<close>, \<open>notification_handlers.go\<close>).
  A run that a request starts or cancels is an effect of its response; the run itself is in
  theory \<open>Eval_Runner\<close>.
\<close>

subsection \<open>Runs\<close>

record run_body =
  nr_policy_id :: string
  nr_limit :: int
  nr_decision :: string
  nr_user_id :: string
  nr_start_time :: string
  nr_end_time :: string

definition zero_run_body :: run_body where
  "zero_run_body = \<lparr>nr_policy_id = [], nr_limit = 0, nr_decision = [], nr_user_id = [], nr_start_time = [], nr_end_time = []\<rparr>"

definition dec_run_body :: "run_body dec" where
  "dec_run_body = dec_struct
     [sfield ''policy_id'' nr_policy_id (\<lambda>x b. b\<lparr>nr_policy_id := x\<rparr>),
      (''filter'', dec_struct
        [(''limit'', in_field nr_limit (\<lambda>x b. b\<lparr>nr_limit := x\<rparr>) dec_int),
         sfield ''decision'' nr_decision (\<lambda>x b. b\<lparr>nr_decision := x\<rparr>),
         sfield ''user_id'' nr_user_id (\<lambda>x b. b\<lparr>nr_user_id := x\<rparr>),
         sfield ''start_time'' nr_start_time (\<lambda>x b. b\<lparr>nr_start_time := x\<rparr>),
         sfield ''end_time'' nr_end_time (\<lambda>x b. b\<lparr>nr_end_time := x\<rparr>)])]"

definition run_filter :: "api_env \<Rightarrow> run_body \<Rightarrow> audit_filter" where
  "run_filter en b =
     no_filter\<lparr>af_decision := nr_decision b, af_user_id := nr_user_id b, af_limit := nr_limit b, af_exclude_channels := [''auto''],
       af_start_time := time_param en (nr_start_time b), af_end_time := time_param en (nr_end_time b)\<rparr>"

text \<open>The count is recorded when it can be had; errors of either statement are ignored.\<close>

definition record_total :: "audit_filter \<Rightarrow> eval_run \<Rightarrow> conn \<Rightarrow> eval_run \<times> conn" where
  "record_total f run c =
     (case audit_count f c of
        (Inl _, c1) \<Rightarrow> (run, c1)
      | (Inr n, c1) \<Rightarrow>
          (let m = (if 0 < af_limit f \<and> af_limit f < int n then af_limit f else int n)
           in (run\<lparr>ro_total_entries := m\<rparr>, snd (set_total_entries (ro_id run) m c1))))"

definition start_run :: "api \<Rightarrow> api_env \<Rightarrow> run_body \<Rightarrow> conn \<Rightarrow> admin_response \<times> conn" where
  "start_run a en b =
     (if nr_policy_id b = [] then reply (error_text 400 ''policy_id is required'')
      else if \<not> ap_policy_store a then reply policy_store_missing
      else on_sql (policy_get (nr_policy_id b)) (\<lambda>_. error_text 404 (''policy not found: '' @ nr_policy_id b)) (\<lambda>p.
        if \<not> ap_eval_judge a then reply (error_text 503 ''LLM judge not configured'')
        else on_sql (create_run (en_now en) (en_id en ''evalrun'' 0) (nr_policy_id b)) (respond_error 500 ''failed to create eval run'')
          (\<lambda>run c. case record_total (run_filter en b) run c of
             (run1, c1) \<Rightarrow> ((respond 201 (OneRun run1))\<lparr>an_effect := StartRun (ro_id run) p (run_filter en b)\<rparr>, c1))))"

definition eval_store_missing :: admin_response where
  "eval_store_missing = error_text 503 ''Eval store not configured''"

definition handle_evals :: "api \<Rightarrow> api_env \<Rightarrow> admin_request \<Rightarrow> conn \<Rightarrow> admin_response \<times> conn" where
  "handle_evals a en r =
     with_role a ''admin'' r (\<lambda>_ _.
       if \<not> ap_eval_store a then reply eval_store_missing
       else if aq_method r = ''GET'' then
         on_sql (list_runs (aq_query r ''policy_id'') (atoi_if (\<lambda>n. 0 < n) (aq_query r ''limit'') 50)
             (atoi_if (\<lambda>n. 0 \<le> n) (aq_query r ''offset'') 0))
           (respond_error 500 ''failed to list eval runs'') (\<lambda>rs. reply (respond 200 (RunList rs)))
       else if aq_method r = ''POST'' then on_body dec_run_body zero_run_body r (start_run a en)
       else reply method_not_allowed)"

text \<open>The registry of cancel functions after a response; a run leaves it when it ends.\<close>

definition after_response :: "admin_response \<Rightarrow> api \<Rightarrow> api" where
  "after_response resp a = (case an_effect resp of StartRun rid _ _ \<Rightarrow> a\<lparr>ap_run_cancels := rid # ap_run_cancels a\<rparr> | _ \<Rightarrow> a)"

definition run_ended :: "string \<Rightarrow> api \<Rightarrow> api" where
  "run_ended rid a = a\<lparr>ap_run_cancels := filter (\<lambda>i. i \<noteq> rid) (ap_run_cancels a)\<rparr>"

definition bool_param :: "string \<Rightarrow> bool option" where
  "bool_param s = (if s = [] then None else Some (s = ''true''))"

definition result_params :: "(string \<Rightarrow> string) \<Rightarrow> result_filter" where
  "result_params q =
     \<lparr>rf_approved_by = q ''approved_by'', rf_replay_decision = q ''replay_decision'', rf_has_label = bool_param (q ''has_label''),
      rf_matched = bool_param (q ''matched''), rf_url = q ''url''\<rparr>"

definition eval_action :: "api \<Rightarrow> admin_request \<Rightarrow> string \<Rightarrow> string \<Rightarrow> conn \<Rightarrow> admin_response \<times> conn" where
  "eval_action a r rid action =
     (if aq_method r = ''GET'' \<and> action = [] then
        on_sql (get_run rid) (respond_error 404 ''eval run not found'') (\<lambda>x. reply (respond 200 (OneRun x)))
      else if aq_method r = ''POST'' \<and> action = ''cancel'' then
        (if rid \<notin> set (ap_run_cancels a) then reply (error_text 409 ''run is not currently running'')
         else reply ((respond 200 (StatusText ''cancelling''))\<lparr>an_effect := CancelRun rid\<rparr>))
      else if aq_method r = ''GET'' \<and> action = ''stats'' then
        on_sql (get_run_stats rid) (respond_error 500 ''failed to get eval run stats'') (\<lambda>x. reply (respond 200 (RunStatistics x)))
      else if aq_method r = ''GET'' \<and> action = ''results'' then
        on_sql (list_results rid (result_params (aq_query r)) (atoi_if (\<lambda>n. 0 < n) (aq_query r ''limit'') 100)
            (atoi_if (\<lambda>n. 0 \<le> n) (aq_query r ''offset'') 0))
          (respond_error 500 ''failed to list eval results'') (\<lambda>(rs, n). reply (respond 200 (ResultList rs n)))
      else reply method_not_allowed)"

definition evals_prefix :: string where "evals_prefix = ''/admin/evals/''"

definition handle_eval_action :: "api \<Rightarrow> admin_request \<Rightarrow> conn \<Rightarrow> admin_response \<times> conn" where
  "handle_eval_action a r =
     with_role a ''admin'' r (\<lambda>_ _.
       if \<not> ap_eval_store a then reply eval_store_missing
       else
         (let (rid, action) = path_id_action evals_prefix (aq_path r) in
          if rid = [] then reply (error_text 400 ''Missing eval run ID'') else eval_action a r rid action))"

subsection \<open>Audit entries and labels\<close>

record label_body =
  lbb_decision :: string
  lbb_note :: string

definition dec_label_body :: "label_body dec" where
  "dec_label_body = dec_struct
     [sfield ''decision'' lbb_decision (\<lambda>x b. b\<lparr>lbb_decision := x\<rparr>), sfield ''note'' lbb_note (\<lambda>x b. b\<lparr>lbb_note := x\<rparr>)]"

definition put_label :: "api_env \<Rightarrow> admin_request \<Rightarrow> string \<Rightarrow> string \<Rightarrow> conn \<Rightarrow> admin_response \<times> conn" where
  "put_label en r userID entryID =
     on_body dec_label_body \<lparr>lbb_decision = [], lbb_note = []\<rparr> r (\<lambda>b.
       if lbb_decision b = [] then reply (error_text 400 ''decision is required'')
       else on_sql (upsert_label (en_now en) (en_id en ''evallbl'' 0)
           \<lparr>al_entry_id = entryID, al_decision = lbb_decision b, al_note = lbb_note b, al_labeled_by = userID\<rparr>)
         (respond_error 500 ''failed to upsert label'')
         (\<lambda>_ c. case get_label entryID c of
            (Inr (Some l), c1) \<Rightarrow> (respond 200 (OneLabel l), c1)
          | (_, c1) \<Rightarrow> (respond 200 (StatusText ''ok''), c1)))"

definition label_action :: "api_env \<Rightarrow> admin_request \<Rightarrow> string \<Rightarrow> string \<Rightarrow> string \<Rightarrow> conn \<Rightarrow> admin_response \<times> conn" where
  "label_action en r userID entryID action =
     (if aq_method r = ''GET'' then
        (if action \<noteq> [] then reply method_not_allowed
         else on_sql (audit_get_entry entryID) (respond_error 404 ''audit entry not found'') (\<lambda>x. reply (respond 200 (OneEntry x))))
      else if aq_method r = ''PUT'' then put_label en r userID entryID
      else if aq_method r = ''DELETE'' then
        on_sql (delete_label entryID) (respond_error 500 ''failed to delete label'') (\<lambda>_. reply (respond 200 (StatusText ''deleted'')))
      else reply method_not_allowed)"

definition audit_prefix :: string where "audit_prefix = ''/admin/audit/''"

definition handle_audit_label_action :: "api \<Rightarrow> api_env \<Rightarrow> admin_request \<Rightarrow> conn \<Rightarrow> admin_response \<times> conn" where
  "handle_audit_label_action a en r =
     with_role a ''admin'' r (\<lambda>userID _.
       if \<not> ap_eval_store a then reply eval_store_missing
       else if \<not> has_prefix (aq_path r) audit_prefix then reply not_found
       else case split_byte (drop (length audit_prefix) (aq_path r)) (CHR ''/'') of
         [entryID] \<Rightarrow> if entryID = [] then reply not_found else label_action en r userID entryID []
       | [entryID, action] \<Rightarrow>
           if entryID = [] \<or> action \<noteq> ''label'' then reply not_found else label_action en r userID entryID action
       | _ \<Rightarrow> reply not_found)"

definition responses_prefix :: string where "responses_prefix = ''/admin/llm-responses/''"

definition trim_prefix :: "string \<Rightarrow> string \<Rightarrow> string" where
  "trim_prefix s p = (if has_prefix s p then drop (length p) s else s)"

definition handle_llm_response :: "api \<Rightarrow> admin_request \<Rightarrow> conn \<Rightarrow> admin_response \<times> conn" where
  "handle_llm_response a r =
     with_role a ''admin'' r (\<lambda>_ _.
       if aq_method r \<noteq> ''GET'' then reply method_not_allowed
       else if \<not> ap_eval_store a then reply eval_store_missing
       else
         (let rid = trim_prefix (aq_path r) responses_prefix in
          if rid = [] then reply (error_text 400 ''Missing llm_response ID'')
          else on_sql (get_llm_response rid) (respond_error 404 ''LLM response not found'') (\<lambda>x. reply (respond 200 (JudgeAnswer x)))))"

end
