(* ===== verification/Admin_Routes.thy ===== *)
theory Admin_Routes imports Admin_Evals begin

text \<open>
  The endpoints for notification channels (\<open>internal/admin/notification_handlers.go\<close>) and
  the routing of all endpoints (\<open>RegisterRoutes\<close> in \<open>internal/admin/api.go\<close>).
\<close>

subsection \<open>Notification channels\<close>

record channel_body =
  hb_bot_id :: string
  hb_channel_type :: string
  hb_destination :: string

definition dec_channel_body :: "channel_body dec" where
  "dec_channel_body = dec_struct
     [sfield ''bot_id'' hb_bot_id (\<lambda>x b. b\<lparr>hb_bot_id := x\<rparr>), sfield ''channel_type'' hb_channel_type (\<lambda>x b. b\<lparr>hb_channel_type := x\<rparr>),
      sfield ''destination'' hb_destination (\<lambda>x b. b\<lparr>hb_destination := x\<rparr>)]"

definition valid_channel_type :: "api \<Rightarrow> string \<Rightarrow> bool" where
  "valid_channel_type a ty = (case ap_alerts a of Some s \<Rightarrow> sender_for s ty \<noteq> None | None \<Rightarrow> ty = ''slack'')"

definition channels_missing :: admin_response where
  "channels_missing = error_text 503 ''Notification channels not available''"

text \<open>A manager may name only a bot it manages.\<close>

definition for_bot ::
    "api \<Rightarrow> string \<Rightarrow> string \<Rightarrow> string \<Rightarrow> admin_response \<Rightarrow> (conn \<Rightarrow> admin_response \<times> conn) \<Rightarrow> conn \<Rightarrow> admin_response \<times> conn" where
  "for_bot a callerID callerRole botID refused ok =
     (if callerRole \<noteq> ''admin'' \<and> \<not> ap_user_store a then reply store_unavailable
      else as_manager_of callerID callerRole botID refused ok)"

text \<open>A call of the notification store.\<close>

definition on_channel_store :: "api \<Rightarrow> (conn \<Rightarrow> admin_response \<times> conn) \<Rightarrow> conn \<Rightarrow> admin_response \<times> conn" where
  "on_channel_store a m = (if ap_notification_store a = NilPointer then reply aborted else m)"

definition channel_list :: "notification_channel list sql \<Rightarrow> conn \<Rightarrow> admin_response \<times> conn" where
  "channel_list m = on_sql m (respond_error 500 ''failed to list channels'') (\<lambda>chs. reply (respond 200 (ChannelList chs)))"

definition list_channels :: "api \<Rightarrow> admin_request \<Rightarrow> string \<Rightarrow> string \<Rightarrow> conn \<Rightarrow> admin_response \<times> conn" where
  "list_channels a r callerID callerRole =
     (let botID = aq_query r ''bot_id'' in
      if botID \<noteq> [] then for_bot a callerID callerRole botID forbidden (on_channel_store a (channel_list (list_channels_for_bot botID)))
      else if callerRole = ''admin'' then on_channel_store a (channel_list (list_channels_for_owner []))
      else on_channel_store a (channel_list (list_channels_for_owner callerID)))"

definition post_channel :: "api \<Rightarrow> api_env \<Rightarrow> admin_request \<Rightarrow> string \<Rightarrow> string \<Rightarrow> conn \<Rightarrow> admin_response \<times> conn" where
  "post_channel a en r callerID callerRole =
     on_body dec_channel_body \<lparr>hb_bot_id = [], hb_channel_type = [], hb_destination = []\<rparr> r (\<lambda>b.
       let create = on_channel_store a (on_sql (create_channel (en_now en) (en_id en ''notch'' 0)
             \<lparr>nc_id = [], nc_owner_id = callerID, nc_bot_id = hb_bot_id b, nc_channel_type = hb_channel_type b,
              nc_destination = hb_destination b, nc_enabled = True, nc_created_at = 0, nc_updated_at = 0\<rparr>)
           (respond_error 500 ''failed to create channel'') (\<lambda>ch. reply (respond 201 (OneChannel ch))))
       in if hb_channel_type b = [] \<or> hb_destination b = [] then reply (error_text 400 ''channel_type and destination are required'')
          else if \<not> valid_channel_type a (hb_channel_type b)
          then reply (error_text 400 (''unsupported channel_type: '' @ hb_channel_type b))
          else if hb_bot_id b \<noteq> []
          then for_bot a callerID callerRole (hb_bot_id b) (error_text 403 ''Forbidden: you do not manage this bot'') create
          else create)"

definition handle_notification_channels :: "api \<Rightarrow> api_env \<Rightarrow> admin_request \<Rightarrow> conn \<Rightarrow> admin_response \<times> conn" where
  "handle_notification_channels a en r =
     with_role a ''manager'' r (\<lambda>callerID callerRole.
       if ap_notification_store a = NilInterface then reply channels_missing
       else if aq_method r = ''GET'' then list_channels a r callerID callerRole
       else if aq_method r = ''POST'' then post_channel a en r callerID callerRole
       else reply method_not_allowed)"

definition test_message :: alert_message where
  "test_message =
     \<lparr>am_bot_id = ''test-bot'', am_blocked_count = 0,
      am_denials = [\<lparr>di_id = [], di_method = ''GET'', di_url = ''https://api.example.com/test'', di_reason = ''This is a test notification''\<rparr>],
      am_summary = ''Test notification from CrabTrap. If you see this, your notification channel is working.''\<rparr>"

definition test_channel :: "api \<Rightarrow> admin_request \<Rightarrow> notification_channel \<Rightarrow> admin_response" where
  "test_channel a r ch =
     (if aq_method r \<noteq> ''POST'' then method_not_allowed
      else case ap_alerts a of
        None \<Rightarrow> error_text 503 ''Alerting service not available''
      | Some s \<Rightarrow>
          (case sender_for s (nc_channel_type ch) of
             None \<Rightarrow> error_text 400 (''No sender configured for channel type: '' @ nc_channel_type ch)
           | Some send \<Rightarrow>
               (case send (nc_destination ch) test_message of
                  Some e \<Rightarrow> respond_error 502 ''test send failed'' e
                | None \<Rightarrow> respond 200 (StatusText ''sent''))
               \<lparr>an_effect := TestSend (nc_channel_type ch) (nc_destination ch) test_message\<rparr>))"

record channel_update =
  hu_channel_type :: string
  hu_destination :: string
  hu_enabled :: "bool option"

definition dec_channel_update :: "channel_update dec" where
  "dec_channel_update = dec_struct
     [sfield ''channel_type'' hu_channel_type (\<lambda>x b. b\<lparr>hu_channel_type := x\<rparr>),
      sfield ''destination'' hu_destination (\<lambda>x b. b\<lparr>hu_destination := x\<rparr>),
      (''enabled'', in_field hu_enabled (\<lambda>x b. b\<lparr>hu_enabled := x\<rparr>) (dec_ptr dec_bool False))]"

definition put_channel :: "api \<Rightarrow> api_env \<Rightarrow> admin_request \<Rightarrow> notification_channel \<Rightarrow> string \<Rightarrow> conn \<Rightarrow> admin_response \<times> conn" where
  "put_channel a en r ch cid =
     on_body dec_channel_update \<lparr>hu_channel_type = [], hu_destination = [], hu_enabled = None\<rparr> r (\<lambda>b.
       let ty = (if hu_channel_type b = [] then nc_channel_type ch else hu_channel_type b);
           dest = (if hu_destination b = [] then nc_destination ch else hu_destination b);
           enabled = (case hu_enabled b of None \<Rightarrow> nc_enabled ch | Some e \<Rightarrow> e)
       in if \<not> valid_channel_type a ty then reply (error_text 400 (''unsupported channel_type: '' @ ty))
          else on_sql (update_channel (en_now en) cid ty dest enabled) (respond_error 500 ''failed to update channel'')
            (\<lambda>_. on_sql (get_channel cid) (respond_error 500 ''updated but failed to read back'')
              (\<lambda>ch1. reply (respond 200 (OneChannel ch1)))))"

definition remove_channel :: "string \<Rightarrow> conn \<Rightarrow> admin_response \<times> conn" where
  "remove_channel cid =
     on_sql (delete_notification_channel cid)
       (\<lambda>e. if e = err_not_found then respond_error 404 ''channel not found'' e else respond_error 500 ''failed to delete channel'' e)
       (\<lambda>_. reply (respond 200 (StatusText ''deleted'')))"

definition channels_prefix :: string where "channels_prefix = ''/admin/notification-channels/''"

definition split_channel_path :: "string \<Rightarrow> string \<times> string" where
  "split_channel_path remaining =
     (case index_byte remaining (CHR ''/'') of None \<Rightarrow> (remaining, []) | Some i \<Rightarrow> (take i remaining, drop (i + 1) remaining))"

definition channel_action ::
    "api \<Rightarrow> api_env \<Rightarrow> admin_request \<Rightarrow> string \<Rightarrow> string \<Rightarrow> string \<Rightarrow> string \<Rightarrow> conn \<Rightarrow> admin_response \<times> conn" where
  "channel_action a en r callerID callerRole cid sub =
     on_channel_store a (on_sql (get_channel cid) (respond_error 404 ''channel not found'') (\<lambda>ch.
       if callerRole \<noteq> ''admin'' \<and> nc_owner_id ch \<noteq> callerID then reply forbidden
       else if sub = ''test'' then reply (test_channel a r ch)
       else if aq_method r = ''GET'' then reply (respond 200 (OneChannel ch))
       else if aq_method r = ''PUT'' then put_channel a en r ch cid
       else if aq_method r = ''DELETE'' then remove_channel cid
       else reply method_not_allowed))"

definition handle_notification_channel_action :: "api \<Rightarrow> api_env \<Rightarrow> admin_request \<Rightarrow> conn \<Rightarrow> admin_response \<times> conn" where
  "handle_notification_channel_action a en r =
     with_role a ''manager'' r (\<lambda>callerID callerRole.
       if ap_notification_store a = NilInterface then reply channels_missing
       else
         (let (cid, sub) = split_channel_path (trim_prefix (aq_path r) channels_prefix) in
          if cid = [] then reply not_found
          else if sub \<noteq> [] \<and> sub \<noteq> ''test'' then reply not_found
          else channel_action a en r callerID callerRole cid sub))"

subsection \<open>Routes\<close>

text \<open>
  \<open>ServeMux\<close> takes the longest pattern that fits: a pattern that ends in a slash fits every
  path below it, the others only themselves. (It cleans paths with dot segments or double
  slashes by a redirect; such paths are not considered.)
\<close>

datatype endpoint =
    Login | Logout | AuditLog | Events | MeBots | Me | Health | Users | UserAction | Policies | PolicyAction
  | Evals | EvalAction | LabelAction | JudgeResponse | Channels | ChannelAction

definition exact_routes :: "(string \<times> endpoint) list" where
  "exact_routes =
     [(''/admin/login'', Login), (''/admin/logout'', Logout), (''/admin/audit'', AuditLog), (''/admin/events'', Events),
      (''/admin/me/bots'', MeBots), (''/admin/me'', Me), (''/admin/health'', Health), (''/admin/users'', Users),
      (''/admin/llm-policies'', Policies), (''/admin/evals'', Evals), (''/admin/notification-channels'', Channels)]"

definition prefix_routes :: "(string \<times> endpoint) list" where
  "prefix_routes =
     [(users_prefix, UserAction), (policies_prefix, PolicyAction), (evals_prefix, EvalAction), (audit_prefix, LabelAction),
      (responses_prefix, JudgeResponse), (channels_prefix, ChannelAction)]"

definition route :: "string \<Rightarrow> endpoint option" where
  "route path =
     (case map_of exact_routes path of
        Some e \<Rightarrow> Some e
      | None \<Rightarrow> map_option snd (find (\<lambda>(p, e). has_prefix path p) prefix_routes))"

fun run_endpoint :: "endpoint \<Rightarrow> api \<Rightarrow> api_env \<Rightarrow> admin_request \<Rightarrow> conn \<Rightarrow> admin_response \<times> conn" where
  "run_endpoint Login a en r = handle_login a r"
| "run_endpoint Logout a en r = handle_logout a r"
| "run_endpoint AuditLog a en r = handle_audit_log a en r"
| "run_endpoint Events a en r = handle_sse a r"
| "run_endpoint MeBots a en r = handle_me_bots a r"
| "run_endpoint Me a en r = handle_me a r"
| "run_endpoint Health a en r = handle_health r"
| "run_endpoint Users a en r = handle_users a en r"
| "run_endpoint UserAction a en r = handle_user_action a en r"
| "run_endpoint Policies a en r = handle_llm_policies a en r"
| "run_endpoint PolicyAction a en r = handle_llm_policy_action a en r"
| "run_endpoint Evals a en r = handle_evals a en r"
| "run_endpoint EvalAction a en r = handle_eval_action a r"
| "run_endpoint LabelAction a en r = handle_audit_label_action a en r"
| "run_endpoint JudgeResponse a en r = handle_llm_response a r"
| "run_endpoint Channels a en r = handle_notification_channels a en r"
| "run_endpoint ChannelAction a en r = handle_notification_channel_action a en r"

definition serve :: "api \<Rightarrow> api_env \<Rightarrow> admin_request \<Rightarrow> conn \<Rightarrow> admin_response \<times> conn" where
  "serve a en r = (case route (aq_path r) of None \<Rightarrow> reply not_found | Some e \<Rightarrow> run_endpoint e a en r)"

end
