(* ===== verification/Eval_Runner.thy ===== *)
theory Eval_Runner imports Eval_Store Audit_Reader Approval begin

text \<open>
  Evaluation runs (\<open>internal/eval/runner.go\<close>) with the goroutine that feeds them
  (\<open>handleEvals\<close> in \<open>internal/admin/api.go\<close>) as a step relation: the feeder, the
  runner's loop with its two \<open>select\<close> statements, the jobs it starts, at most 25 at a
  time, and the cancellation of the context interleave in any order. A job's judge call and
  the storing of its answer are one step, the storing of its result another. Errors of the
  store are only logged; the entries whose result \<open>AddResult\<close> refused, which the log names,
  are \<open>vs_unstored\<close>. The judge is a function of the context's state during the call; its
  calls return. The runner's own goroutine can panic in the store calls it makes itself, the first
  and the last, and the deferred \<open>recover\<close> then records the run as failed; a panic in a job's
  goroutine ends the process and is not a step.
\<close>

subsection \<open>One entry\<close>

definition eval_llm_response :: "judge_result \<Rightarrow> go_error option \<Rightarrow> llm_response" where
  "eval_llm_response r err =
     \<lparr>lr_id = [], lr_model = jr_model r, lr_duration_ms = jr_duration_ms r, lr_input_tokens = jr_input_tokens r,
      lr_output_tokens = jr_output_tokens r,
      lr_result = (if err = None then ''success'' else ''error''),
      lr_decision = (if err = None then jr_decision r else []),
      lr_reason = (if err = None then jr_reason r else []),
      lr_raw_output = (case err of None \<Rightarrow> jr_raw_output r | Some e \<Rightarrow> if jr_raw_output r = [] then e else jr_raw_output r)\<rparr>"

datatype job = Running audit_row | Answered audit_row string string string

fun job_entry :: "job \<Rightarrow> audit_row" where
  "job_entry (Running a) = a"
| "job_entry (Answered a _ _ _) = a"

definition asked :: "evaluator \<Rightarrow> llm_policy \<Rightarrow> audit_row \<Rightarrow> judge_result \<times> go_error option" where
  "asked judge p a =
     (let e = au_entry a in judge (ae_method e) (ae_url e) (ae_request_headers e) (ae_request_body e) p)"

text \<open>The replayed decision and who took it.\<close>

definition replayed :: "evaluator \<Rightarrow> llm_policy \<Rightarrow> audit_row \<Rightarrow> string \<times> string" where
  "replayed judge p a =
     (let (matched, action) = matches_static_rules (ae_method (au_entry a)) (ae_url (au_entry a)) (lp_static_rules p) in
      if matched then (if action = ''deny'' then ''DENY'' else ''ALLOW'', ''llm-static-rule'')
      else (case asked judge p a of (r, None) \<Rightarrow> jr_decision r | (_, Some _) \<Rightarrow> ''ERROR'', ''llm''))"

definition answer_entry :: "evaluator \<Rightarrow> llm_policy \<Rightarrow> time \<Rightarrow> string \<Rightarrow> audit_row \<Rightarrow> conn \<Rightarrow> job \<times> conn" where
  "answer_entry judge p now respID a c =
     (let (decision, by) = replayed judge p a; (r, err) = asked judge p a in
      if by = ''llm-static-rule'' \<or> jr_model r = [] then (Answered a decision by [], c)
      else case create_llm_response now respID (eval_llm_response r err) c of
        (Inl _, c1) \<Rightarrow> (Answered a decision by [], c1)
      | (Inr i, c1) \<Rightarrow> (Answered a decision by i, c1))"

definition result_record :: "string \<Rightarrow> time \<Rightarrow> string \<Rightarrow> string \<Rightarrow> string \<Rightarrow> string \<Rightarrow> eval_result" where
  "result_record rid now entryID decision by respID =
     \<lparr>el_id = [], el_run_id = rid, el_entry_id = entryID, el_replay_decision = decision, el_approved_by = by,
      el_llm_response_id = respID, el_replayed_at = now, el_replay_reason = [], el_method = [], el_url = [],
      el_original_decision = [], el_label_decision = [], el_label_note = []\<rparr>"

subsection \<open>The run\<close>

datatype cause = UserCanceled | OtherCause

definition evalConcurrency :: nat where "evalConcurrency = 25"
definition feedCapacity :: nat where "feedCapacity = 100"

text \<open>Where the runner stands: before its first statement, at the top of the loop, in a \<open>select\<close>, waiting for its jobs, or done.\<close>

datatype place =
    Start | Top | Selecting | Holding audit_row | Acquiring audit_row | Draining string string | Finished string

text \<open>\<open>vs_done\<close> are the entries whose jobs have ended, \<open>vs_received\<close> those read from the channel.\<close>

record run_state =
  vs_place :: place
  vs_todo :: "audit_row list"
  vs_chan :: "audit_row list"
  vs_closed :: bool
  vs_ctx :: "cause option"
  vs_jobs :: "job list"
  vs_received :: "audit_row list"
  vs_done :: "audit_row list"
  vs_unstored :: "audit_row list"
  vs_conn :: conn

definition canceled_or_failed :: "cause \<Rightarrow> string" where
  "canceled_or_failed k = (if k = UserCanceled then ''canceled'' else ''failed'')"

definition ctx_text :: string where "ctx_text = ''context canceled''"

definition new_run :: "audit_row list \<Rightarrow> conn \<Rightarrow> run_state" where
  "new_run entries c =
     \<lparr>vs_place = Start, vs_todo = entries, vs_chan = [], vs_closed = False, vs_ctx = None, vs_jobs = [], vs_received = [],
      vs_done = [], vs_unstored = [], vs_conn = c\<rparr>"

text \<open>\<open>RunEvalFromSlice\<close>: the channel holds all entries and is closed.\<close>

definition new_slice_run :: "audit_row list \<Rightarrow> conn \<Rightarrow> run_state" where
  "new_slice_run entries c = (new_run [] c)\<lparr>vs_chan := entries, vs_closed := True\<rparr>"

definition cancelled_place :: "cause \<Rightarrow> place" where
  "cancelled_place k = Draining (canceled_or_failed k) ctx_text"

inductive run_step :: "(cause option \<Rightarrow> evaluator) \<Rightarrow> llm_policy \<Rightarrow> string \<Rightarrow> run_state \<Rightarrow> run_state \<Rightarrow> bool"
  for judge :: "cause option \<Rightarrow> evaluator" and p :: llm_policy and rid :: string where
  fed: "vs_todo s = a # as \<Longrightarrow> \<not> vs_closed s \<Longrightarrow> length (vs_chan s) < feedCapacity \<Longrightarrow>
    run_step judge p rid s (s\<lparr>vs_todo := as, vs_chan := vs_chan s @ [a]\<rparr>)"
| closed: "\<not> vs_closed s \<Longrightarrow> run_step judge p rid s (s\<lparr>vs_todo := [], vs_closed := True\<rparr>)"
| cancel: "vs_ctx s = None \<Longrightarrow> run_step judge p rid s (s\<lparr>vs_ctx := Some k\<rparr>)"
| started: "vs_place s = Start \<Longrightarrow>
    run_step judge p rid s (s\<lparr>vs_place := Top, vs_conn := snd (update_run_status now rid ''running'' [] (vs_conn s))\<rparr>)"
| top_live: "vs_place s = Top \<Longrightarrow> vs_ctx s = None \<Longrightarrow> run_step judge p rid s (s\<lparr>vs_place := Selecting\<rparr>)"
| top_cancelled: "vs_place s = Top \<Longrightarrow> vs_ctx s = Some k \<Longrightarrow> run_step judge p rid s (s\<lparr>vs_place := cancelled_place k\<rparr>)"
| received: "vs_place s = Selecting \<Longrightarrow> vs_chan s = a # as \<Longrightarrow>
    run_step judge p rid s (s\<lparr>vs_place := Holding a, vs_chan := as, vs_received := vs_received s @ [a]\<rparr>)"
| drained: "vs_place s = Selecting \<Longrightarrow> vs_chan s = [] \<Longrightarrow> vs_closed s \<Longrightarrow>
    run_step judge p rid s (s\<lparr>vs_place := Draining ''completed'' []\<rparr>)"
| select_cancelled: "vs_place s = Selecting \<Longrightarrow> vs_ctx s = Some k \<Longrightarrow> run_step judge p rid s (s\<lparr>vs_place := cancelled_place k\<rparr>)"
| holding_live: "vs_place s = Holding a \<Longrightarrow> vs_ctx s = None \<Longrightarrow> run_step judge p rid s (s\<lparr>vs_place := Acquiring a\<rparr>)"
| holding_cancelled: "vs_place s = Holding a \<Longrightarrow> vs_ctx s = Some k \<Longrightarrow> run_step judge p rid s (s\<lparr>vs_place := cancelled_place k\<rparr>)"
| spawned: "vs_place s = Acquiring a \<Longrightarrow> length (vs_jobs s) < evalConcurrency \<Longrightarrow>
    run_step judge p rid s (s\<lparr>vs_place := Top, vs_jobs := vs_jobs s @ [Running a]\<rparr>)"
| acquire_cancelled: "vs_place s = Acquiring a \<Longrightarrow> vs_ctx s = Some k \<Longrightarrow> run_step judge p rid s (s\<lparr>vs_place := cancelled_place k\<rparr>)"
| answered: "vs_jobs s = js @ Running a # ks \<Longrightarrow> k = None \<or> k = vs_ctx s \<Longrightarrow> answer_entry (judge k) p now respID a (vs_conn s) = (j, c) \<Longrightarrow>
    run_step judge p rid s (s\<lparr>vs_jobs := js @ j # ks, vs_conn := c\<rparr>)"
| stored: "vs_jobs s = js @ Answered a dec by respID # ks \<Longrightarrow>
    add_result resID (result_record rid now (au_id a) dec by respID) (vs_conn s) = (r, c) \<Longrightarrow>
    run_step judge p rid s (s\<lparr>vs_jobs := js @ ks, vs_done := vs_done s @ [a],
      vs_unstored := vs_unstored s @ (case r of Inl _ \<Rightarrow> [a] | Inr _ \<Rightarrow> []), vs_conn := c\<rparr>)"
| start_panicked: "vs_place s = Start \<Longrightarrow>
    run_step judge p rid s (s\<lparr>vs_place := Finished ''failed'',
      vs_conn := snd (update_run_status now rid ''failed'' (''panic: '' @ why) (vs_conn s))\<rparr>)"
| finish_panicked: "vs_place s = Draining status msg \<Longrightarrow> vs_jobs s = [] \<Longrightarrow>
    run_step judge p rid s (s\<lparr>vs_place := Finished ''failed'',
      vs_conn := snd (update_run_status now rid ''failed'' (''panic: '' @ why) (vs_conn s))\<rparr>)"
| finish: "vs_place s = Draining status msg \<Longrightarrow> vs_jobs s = [] \<Longrightarrow>
    run_step judge p rid s (s\<lparr>vs_place := Finished status, vs_conn := snd (update_run_status now rid status msg (vs_conn s))\<rparr>)"

inductive run_steps :: "(cause option \<Rightarrow> evaluator) \<Rightarrow> llm_policy \<Rightarrow> string \<Rightarrow> run_state \<Rightarrow> run_state \<Rightarrow> bool"
  for judge :: "cause option \<Rightarrow> evaluator" and p :: llm_policy and rid :: string where
  refl: "run_steps judge p rid s s"
| step: "run_steps judge p rid s t \<Longrightarrow> run_step judge p rid t u \<Longrightarrow> run_steps judge p rid s u"

inductive_cases run_stepE: "run_step judge p rid s t"

end
