(* ===== verification/Db_Kept.thy ===== *)
theory Db_Kept imports Database begin

text \<open>
  What a computation on a connection does to the tables, as a relation between the tables
  before and after, whatever the result and whichever statements fail. The relation is a
  preorder; the locale proves once that the ways statements are combined keep it, and each
  component interprets it with the relations it needs.
\<close>

definition keeps :: "(database \<Rightarrow> database \<Rightarrow> bool) \<Rightarrow> (conn \<Rightarrow> 'r \<times> conn) \<Rightarrow> bool" where
  "keeps R m \<longleftrightarrow> (\<forall>c. R (cn_db c) (cn_db (snd (m c))))"

named_theorems keep

locale table_order =
  fixes R :: "database \<Rightarrow> database \<Rightarrow> bool"
  assumes same: "R d d"
    and compose: "R d d1 \<Longrightarrow> R d1 d2 \<Longrightarrow> R d d2"
begin

lemma kept: "keeps R m \<Longrightarrow> m c = (r, c1) \<Longrightarrow> R (cn_db c) (cn_db c1)"
  unfolding keeps_def by (metis snd_conv)

lemma keeps_exec: "(\<And>d x d1. q d = (Inr x, d1) \<Longrightarrow> R d d1) \<Longrightarrow> keeps R (exec q)"
  unfolding keeps_def exec_def
  by (auto split: prod.splits option.splits sum.splits dest!: take_fault_db intro: same)

lemma keeps_query [keep]: "keeps R (query f)"
  unfolding query_def by (rule keeps_exec) (auto intro: same)

lemma keeps_query_row [keep]: "keeps R (query_row f)"
  unfolding query_row_def by (rule keeps_exec) (auto intro: same split: option.splits)

lemma keeps_return [keep]: "keeps R (sreturn x)" "keeps R (sfail e)" "keeps R (\<lambda>c. (y, c))"
  by (simp_all add: keeps_def sreturn_def sfail_def same)

lemma keeps_bind [keep]: "keeps R m \<Longrightarrow> (\<And>x. keeps R (f x)) \<Longrightarrow> keeps R (sbind m f)"
  unfolding keeps_def sbind_def by (auto split: prod.splits sum.splits intro: compose) (metis compose snd_conv)+

lemma keeps_wrap [keep]: "keeps R m \<Longrightarrow> keeps R (swrap msg m)"
  unfolding keeps_def swrap_def by (auto split: prod.splits sum.splits) (metis snd_conv)+

lemma keeps_checked_rows [keep]: "keeps R (checked_rows f)"
  unfolding keeps_def by (metis checked_rows_db prod.collapse same)

lemma keeps_named_rows [keep]: "keeps R (named_rows msg rowsMsg f)"
  unfolding keeps_def by (metis named_rows_db prod.collapse same)

lemma keeps_transaction [keep]: "keeps R m \<Longrightarrow> keeps R (transaction m)"
  unfolding keeps_def transaction_def
  by (auto split: prod.splits sum.splits option.splits dest!: take_fault_db intro: same) (metis snd_conv)+

lemma keeps_if [keep]: "(b \<Longrightarrow> keeps R m) \<Longrightarrow> (\<not> b \<Longrightarrow> keeps R n) \<Longrightarrow> keeps R (if b then m else n)"
  by simp

end

text \<open>A table, or any part of the tables, that does not change.\<close>

definition unchanged :: "(database \<Rightarrow> 'a) \<Rightarrow> database \<Rightarrow> database \<Rightarrow> bool" where
  "unchanged f d d1 \<longleftrightarrow> f d1 = f d"

interpretation unch: table_order "unchanged f" for f
  by unfold_locales (simp_all add: unchanged_def)

end
