(* ===== verification/Eval_Props.thy ===== *)
theory Eval_Props imports Eval_Runner Db_Kept "HOL-Library.Multiset" "HOL-Library.Sublist" begin

text \<open>
  Evaluation runs end, store at most one result per entry, each the decision production takes
  on the entry, and report completion only when no job is left; but a cancelled run may still
  be reported as completed. Then the totals of a run.
\<close>

subsection \<open>Termination\<close>

fun place_rank :: "place \<Rightarrow> nat" where
  "place_rank Start = 4"
| "place_rank Top = 3"
| "place_rank Selecting = 2"
| "place_rank (Holding _) = 7"
| "place_rank (Acquiring _) = 6"
| "place_rank (Draining _ _) = 1"
| "place_rank (Finished _) = 0"

fun job_rank :: "job \<Rightarrow> nat" where
  "job_rank (Running _) = 2"
| "job_rank (Answered _ _ _ _) = 1"

definition run_rank :: "run_state \<Rightarrow> nat" where
  "run_rank s =
     7 * length (vs_todo s) + 6 * length (vs_chan s) + sum_list (map job_rank (vs_jobs s)) + place_rank (vs_place s)
     + (if vs_closed s then 0 else 1) + (if vs_ctx s = None then 1 else 0)"

lemma answer_entry_job: "answer_entry judge p now i a c = (j, c1) \<Longrightarrow>
    \<exists>respID. j = Answered a (fst (replayed judge p a)) (snd (replayed judge p a)) respID"
  by (auto simp: answer_entry_def Let_def split: prod.splits sum.splits if_splits)

lemma run_step_rank: "run_step judge p rid s t \<Longrightarrow> run_rank t < run_rank s"
  by (induction rule: run_step.induct)
    (auto simp: run_rank_def cancelled_place_def dest!: answer_entry_job)

text \<open>From every state that is not finished some step leads on, whatever the feeder and the jobs do.\<close>

lemma run_progress:
  assumes "\<forall>status. vs_place s \<noteq> Finished status"
  shows "\<exists>t. run_step judge p rid s t"
proof (cases "vs_jobs s")
  case (Cons j ks)
  show ?thesis
  proof (cases j)
    case (Running a)
    obtain j1 c1 where "answer_entry (judge None) p 0 [] a (vs_conn s) = (j1, c1)" by fastforce
    then show ?thesis using Cons Running run_step.answered [of s "[]" a ks None judge p 0 "[]" j1 c1] by auto
  next
    case (Answered a d b i)
    obtain r1 c1 where "add_result [] (result_record rid 0 (au_id a) d b i) (vs_conn s) = (r1, c1)" by fastforce
    from run_step.stored [OF _ this, of "[]" ks judge p] show ?thesis using Cons Answered by (intro exI) simp
  qed
next
  case Nil
  show ?thesis
  proof (cases "vs_place s")
    case Start
    then show ?thesis using run_step.started [of s] by blast
  next
    case Top
    then show ?thesis using run_step.top_live run_step.top_cancelled by (cases "vs_ctx s") blast+
  next
    case Selecting
    then show ?thesis
      using run_step.received [of s] run_step.drained [of s] run_step.closed [of s] by (cases "vs_chan s"; cases "vs_closed s") blast+
  next
    case (Holding a)
    then show ?thesis using run_step.holding_live run_step.holding_cancelled by (cases "vs_ctx s") blast+
  next
    case (Acquiring a)
    then show ?thesis using Nil run_step.spawned [of s a] by (auto simp: evalConcurrency_def)
  next
    case (Draining status msg)
    then show ?thesis using Nil run_step.finish [of s] by blast
  next
    case (Finished status)
    with assms show ?thesis by simp
  qed
qed

lemma run_rank_decreases: "(run_step judge p rid ^^ n) s t \<Longrightarrow> run_rank t + n \<le> run_rank s"
proof (induction n arbitrary: t)
  case (Suc n)
  then obtain u where "(run_step judge p rid ^^ n) s u" "run_step judge p rid u t" by auto
  with Suc.IH run_step_rank show ?case by fastforce
qed simp

subsection \<open>Accounting\<close>

definition held :: "place \<Rightarrow> audit_row list" where
  "held pl = (case pl of Holding a \<Rightarrow> [a] | Acquiring a \<Rightarrow> [a] | _ \<Rightarrow> [])"

definition abandoned :: "place \<Rightarrow> bool" where
  "abandoned pl = (case pl of Draining st _ \<Rightarrow> st \<noteq> ''completed'' | Finished st \<Rightarrow> st \<noteq> ''completed'' | _ \<Rightarrow> False)"

text \<open>A result row of this run is the decision on one of the entries.\<close>

definition graded :: "(cause option \<Rightarrow> evaluator) \<Rightarrow> llm_policy \<Rightarrow> string \<Rightarrow> audit_row list \<Rightarrow> eval_result_row \<Rightarrow> bool" where
  "graded judge p rid as x \<longleftrightarrow> er_run_id x = rid \<and>
     (\<exists>a \<in> set as. \<exists>k. er_entry_id x = au_id a \<and> (er_replay_decision x, er_approved_by x) = replayed (judge k) p a)"

definition job_ok :: "(cause option \<Rightarrow> evaluator) \<Rightarrow> llm_policy \<Rightarrow> job \<Rightarrow> bool" where
  "job_ok judge p j = (case j of Running _ \<Rightarrow> True | Answered a dec by _ \<Rightarrow> \<exists>k. (dec, by) = replayed (judge k) p a)"

definition accounted :: "audit_row list \<Rightarrow> run_state \<Rightarrow> bool" where
  "accounted entries s \<longleftrightarrow>
     prefix (vs_received s @ vs_chan s) entries \<and>
     (\<not> vs_closed s \<longrightarrow> vs_received s @ vs_chan s @ vs_todo s = entries) \<and>
     length (vs_jobs s) \<le> evalConcurrency \<and>
     (vs_place s = Start \<longrightarrow> vs_jobs s = []) \<and> (\<forall>status. vs_place s = Finished status \<longrightarrow> vs_jobs s = []) \<and>
     (\<exists>dropped. mset (vs_done s) + mset (map job_entry (vs_jobs s)) + mset (held (vs_place s)) + dropped = mset (vs_received s) \<and>
        size dropped \<le> (if abandoned (vs_place s) then 1 else 0))"

definition results_ok :: "(cause option \<Rightarrow> evaluator) \<Rightarrow> llm_policy \<Rightarrow> string \<Rightarrow> eval_result_row list \<Rightarrow> run_state \<Rightarrow> bool" where
  "results_ok judge p rid old s \<longleftrightarrow>
     (\<forall>j \<in> set (vs_jobs s). job_ok judge p j) \<and>
     (\<exists>new. db_eval_results (cn_db (vs_conn s)) = old @ new \<and> (\<forall>x \<in> set new. graded judge p rid (vs_done s) x) \<and>
        mset (map er_entry_id new) + mset (map au_id (vs_unstored s)) = mset (map au_id (vs_done s)))"

lemma keeps_update_run_status [keep]: "keeps (unchanged db_eval_results) (update_run_status now rid st msg)"
  unfolding update_run_status_def
  by (intro keep) (auto intro!: unch.keeps_exec simp: update_runs_def unchanged_def)

lemma keeps_create_llm_response [keep]: "keeps (unchanged db_eval_results) (create_llm_response now i r)"
  unfolding create_llm_response_def
  by (intro keep) (auto intro!: unch.keeps_exec simp: unchanged_def split: if_splits)

lemma update_run_status_results:
  "db_eval_results (cn_db (snd (update_run_status now rid st msg c))) = db_eval_results (cn_db c)"
  using keeps_update_run_status by (simp add: keeps_def unchanged_def)

lemma answer_entry_results: "answer_entry judge p now i a c = (j, c1) \<Longrightarrow> db_eval_results (cn_db c1) = db_eval_results (cn_db c)"
  using keeps_create_llm_response [of now i "eval_llm_response (fst (asked judge p a)) (snd (asked judge p a))"]
  unfolding keeps_def unchanged_def
  by (auto simp: answer_entry_def Let_def split: prod.splits sum.splits if_splits) (metis snd_conv)+

lemma add_result_results:
  "\<exists>new. db_eval_results (cn_db (snd (add_result i r c))) = db_eval_results (cn_db c) @ new \<and>
     (case fst (add_result i r c) of
        Inl e \<Rightarrow> new = []
      | Inr u \<Rightarrow> \<exists>x. new = [x] \<and> er_run_id x = el_run_id r \<and> er_entry_id x = el_entry_id r \<and>
          er_replay_decision x = el_replay_decision r \<and>
          er_approved_by x = (if el_approved_by r = [] then ''llm'' else el_approved_by r))"
proof -
  obtain f c1 where f: "take_fault c = (f, c1)" by fastforce
  then have "cn_db c1 = cn_db c" by (rule take_fault_db)
  then show ?thesis
    by (cases f) (auto simp: add_result_def swrap_def exec_def f Let_def split: prod.splits sum.splits option.splits)
qed

lemma replayed_by: "snd (replayed judge p a) \<noteq> []"
  by (auto simp: replayed_def split: prod.splits)

lemma graded_mono: "graded judge p rid as x \<Longrightarrow> graded judge p rid (as @ bs) x"
  by (auto simp: graded_def)

lemma results_stored:
  assumes inv: "results_ok judge p rid old s" and jobs: "vs_jobs s = js @ Answered a d b i # ks"
    and add: "add_result resID (result_record rid now (au_id a) d b i) (vs_conn s) = (r, c)"
  shows "results_ok judge p rid old (s\<lparr>vs_jobs := js @ ks, vs_done := vs_done s @ [a],
      vs_unstored := vs_unstored s @ (case r of Inl _ \<Rightarrow> [a] | Inr _ \<Rightarrow> []), vs_conn := c\<rparr>)"
proof -
  from inv jobs obtain k where k: "(d, b) = replayed (judge k) p a" by (auto simp: results_ok_def job_ok_def)
  then have b: "b \<noteq> []" using replayed_by [of "judge k" p a] by (metis snd_conv)
  from inv obtain new where new: "db_eval_results (cn_db (vs_conn s)) = old @ new" "\<forall>x \<in> set new. graded judge p rid (vs_done s) x"
      "mset (map er_entry_id new) + mset (map au_id (vs_unstored s)) = mset (map au_id (vs_done s))"
    by (auto simp: results_ok_def)
  let ?R = "result_record rid now (au_id a) d b i"
  have R: "el_run_id ?R = rid" "el_entry_id ?R = au_id a" "el_replay_decision ?R = d" "el_approved_by ?R = b"
    by (simp_all add: result_record_def)
  from add_result_results [of resID ?R "vs_conn s", unfolded add fst_conv snd_conv R if_not_P [OF b] new(1)] obtain extra where
      extra: "db_eval_results (cn_db c) = old @ new @ extra" and
      one: "case r of Inl e \<Rightarrow> extra = [] | Inr u \<Rightarrow>
        \<exists>x. extra = [x] \<and> er_run_id x = rid \<and> er_entry_id x = au_id a \<and> er_replay_decision x = d \<and> er_approved_by x = b"
    unfolding append_assoc by blast
  from one k have "\<forall>x \<in> set extra. graded judge p rid (vs_done s @ [a]) x" by (auto simp: graded_def split: sum.splits)
  with new(2) have "\<forall>x \<in> set (new @ extra). graded judge p rid (vs_done s @ [a]) x" by (auto intro: graded_mono)
  moreover from one have "mset (map er_entry_id extra) + mset (map au_id (case r of Inl _ \<Rightarrow> [a] | Inr _ \<Rightarrow> [])) = {#au_id a#}"
    by (auto split: sum.splits)
  then have "mset (map er_entry_id (new @ extra)) +
      mset (map au_id (vs_unstored s @ (case r of Inl _ \<Rightarrow> [a] | Inr _ \<Rightarrow> []))) = mset (map au_id (vs_done s @ [a]))"
    using new(3) by (cases r) (simp_all add: ac_simps)
  ultimately show ?thesis using extra inv jobs unfolding results_ok_def by auto
qed

lemma run_step_results:
  "run_step judge p rid s t \<Longrightarrow> results_ok judge p rid old s \<Longrightarrow> results_ok judge p rid old t"
proof (induction rule: run_step.induct)
  case (stored s js a d b i ks resID now r c)
  from results_stored [OF stored(3,1,2)] show ?case .
next
  case (answered s js a ks k now respID j c)
  from answer_entry_job [OF answered(3)] obtain i where
    "j = Answered a (fst (replayed (judge k) p a)) (snd (replayed (judge k) p a)) i" by blast
  then have "job_ok judge p j" by (auto simp: job_ok_def)
  with answered answer_entry_results [OF answered(3)] show ?case
    unfolding results_ok_def by auto
qed (auto simp: results_ok_def update_run_status_results job_ok_def)

lemma accounted_dropped:
  assumes "accounted entries s" and "vs_place s = Holding a \<or> vs_place s = Acquiring a"
  shows "accounted entries (s\<lparr>vs_place := cancelled_place k\<rparr>)"
proof -
  from assms have "mset (vs_done s) + mset (map job_entry (vs_jobs s)) + {#a#} = mset (vs_received s)"
    by (auto simp: accounted_def held_def abandoned_def)
  then have "mset (vs_done s) + mset (map job_entry (vs_jobs s)) + mset (held (cancelled_place k)) + {#a#} = mset (vs_received s)"
    by (simp add: held_def cancelled_place_def)
  with assms show ?thesis
    unfolding accounted_def
    by (auto simp: cancelled_place_def abandoned_def canceled_or_failed_def intro!: exI [of _ "{#a#}"])
qed

lemma run_step_accounted: "run_step judge p rid s t \<Longrightarrow> accounted entries s \<Longrightarrow> accounted entries t"
proof (induction rule: run_step.induct)
  case (fed s a as)
  then show ?case by (auto simp: accounted_def prefix_def)
next
  case (received s a as)
  then show ?case by (auto simp: accounted_def held_def abandoned_def prefix_def)
next
  case (answered s js a ks k now respID j c)
  from answer_entry_job [OF answered(3)] have "job_entry j = a" by auto
  with answered show ?case by (auto simp: accounted_def)
next
  case (holding_cancelled s a k)
  then show ?case by (intro accounted_dropped [of _ _ a]) simp_all
next
  case (acquire_cancelled s a k)
  then show ?case by (intro accounted_dropped [of _ _ a]) simp_all
next
  case (stored s js a d b i ks resID now r c)
  then show ?case by (auto simp: accounted_def ac_simps)
next
  case (spawned s a)
  then show ?case by (auto simp: accounted_def held_def abandoned_def ac_simps)
next
  case (select_cancelled s k)
  then show ?case by (auto simp: accounted_def held_def abandoned_def cancelled_place_def)
next
  case (top_cancelled s k)
  then show ?case by (auto simp: accounted_def held_def abandoned_def cancelled_place_def)
next
  case (finish s status msg now)
  then show ?case by (auto simp: accounted_def held_def abandoned_def)
next
  case (finish_panicked s status msg now why)
  then show ?case by (auto simp: accounted_def held_def abandoned_def split: if_splits)
next
  case (start_panicked s now why)
  then show ?case by (auto simp: accounted_def held_def abandoned_def)
qed (auto simp: accounted_def held_def abandoned_def)

lemma run_steps_inv:
  "run_steps judge p rid s t \<Longrightarrow> accounted entries s \<Longrightarrow> results_ok judge p rid old s \<Longrightarrow>
   accounted entries t \<and> results_ok judge p rid old t"
  by (induction rule: run_steps.induct) (auto intro: run_step_accounted run_step_results)

lemma new_run_inv:
  "accounted entries (new_run entries c)" "results_ok judge p rid (db_eval_results (cn_db c)) (new_run entries c)"
  by (simp_all add: accounted_def results_ok_def new_run_def held_def abandoned_def)

lemma mset_done_subset:
  assumes "accounted entries s"
  shows "mset (vs_done s) \<subseteq># mset entries"
proof -
  from assms obtain dropped where "mset (vs_done s) + mset (map job_entry (vs_jobs s)) + mset (held (vs_place s)) + dropped = mset (vs_received s)"
    by (auto simp: accounted_def)
  then have "mset (vs_done s) \<subseteq># mset (vs_received s)" by (metis mset_subset_eq_add_left union_assoc)
  also have "mset (vs_received s) \<subseteq># mset entries"
    using assms by (auto simp: accounted_def prefix_def)
  finally show ?thesis .
qed

subsection \<open>The recorded status\<close>

definition final_statuses :: "string set" where
  "final_statuses = {''completed'', ''failed'', ''canceled''}"

lemma exec_update_runs:
  "exec (update_runs rid upd) c = (Inr u, c1) \<Longrightarrow>
   db_eval_runs (cn_db c1) = map (\<lambda>r. if ev_id r = rid then upd r else r) (db_eval_runs (cn_db c))"
  by (auto simp: exec_def update_runs_def split: prod.splits option.splits dest!: take_fault_db)

lemma swrap_ok: "swrap m q c = (Inr x, c1) \<Longrightarrow> q c = (Inr x, c1)"
  by (auto simp: swrap_def split: prod.splits sum.splits)

lemma update_run_status_recorded:
  assumes "update_run_status now rid status msg c = (Inr (), c1)"
  shows "\<forall>row \<in> set (db_eval_runs (cn_db c1)). ev_id row = rid \<longrightarrow> ev_status row = status"
proof -
  obtain upd where "exec (update_runs rid upd) c = (Inr (), c1)" and upd: "\<forall>r. ev_status (upd r) = status \<and> ev_id (upd r) = ev_id r"
  proof (cases "status = ''completed'' \<or> status = ''failed'' \<or> status = ''canceled''")
    case True
    show thesis
      by (rule that [OF swrap_ok [OF assms [unfolded update_run_status_def if_P [OF True]]]]) simp
  next
    case False
    show thesis
      by (rule that [OF swrap_ok [OF assms [unfolded update_run_status_def if_not_P [OF False]]]]) simp
  qed
  from exec_update_runs [OF this(1)] upd show ?thesis by auto
qed

lemma exec_quiet: "cn_faults c = [] \<Longrightarrow> cn_faults (snd (exec q c)) = []"
  by (auto simp: exec_def take_fault_def split: sum.split prod.split)

lemma swrap_quiet: "cn_faults c = [] \<Longrightarrow> cn_faults (snd (swrap m (exec q) c)) = []"
  using exec_quiet [of c q] by (auto simp: swrap_def split: prod.splits sum.splits)

lemma bind_quiet: "cn_faults (snd (m c)) = [] \<Longrightarrow> cn_faults (snd (sbind m (\<lambda>_. sreturn x) c)) = []"
  by (auto simp: sbind_def sreturn_def split: prod.split sum.split)

lemma statements_quiet:
  assumes "cn_faults c = []"
  shows "cn_faults (snd (update_run_status now rid status msg c)) = []" "fst (update_run_status now rid status msg c) = Inr ()"
    "cn_faults (snd (add_result i r c)) = []" "cn_faults (snd (create_llm_response now i lr c)) = []"
proof -
  note w = swrap_quiet [OF assms]
  show "cn_faults (snd (update_run_status now rid status msg c)) = []" by (simp add: update_run_status_def w)
  show "fst (update_run_status now rid status msg c) = Inr ()"
    using assms by (simp add: update_run_status_def swrap_def exec_def take_fault_def update_runs_def)
  show "cn_faults (snd (add_result i r c)) = []" by (simp add: add_result_def w)
  show "cn_faults (snd (create_llm_response now i lr c)) = []"
    unfolding create_llm_response_def by (rule bind_quiet) (simp add: w)
qed

lemma runs_kept [keep]:
  "keeps (unchanged (\<lambda>d. map ev_id (db_eval_runs d))) (update_run_status now rid st msg)"
  "keeps (unchanged (\<lambda>d. map ev_id (db_eval_runs d))) (create_llm_response now i lr)"
  "keeps (unchanged (\<lambda>d. map ev_id (db_eval_runs d))) (add_result i r)"
  unfolding update_run_status_def create_llm_response_def add_result_def
  by (intro keep; auto intro!: unch.keeps_exec simp: update_runs_def unchanged_def comp_def Let_def split: if_splits option.splits)+

lemma answer_entry_kept:
  "answer_entry judge p now i a c = (j, c1) \<Longrightarrow>
     map ev_id (db_eval_runs (cn_db c1)) = map ev_id (db_eval_runs (cn_db c)) \<and> (cn_faults c = [] \<longrightarrow> cn_faults c1 = [])"
  using runs_kept(2) [of now i "eval_llm_response (fst (asked judge p a)) (snd (asked judge p a))"]
    statements_quiet(4) [of c now i "eval_llm_response (fst (asked judge p a)) (snd (asked judge p a))"]
  unfolding keeps_def unchanged_def
  by (auto simp: answer_entry_def Let_def split: prod.splits sum.splits if_splits) (metis snd_conv)+

text \<open>A finished run's last statement recorded its status.\<close>

definition ended_ok :: "string \<Rightarrow> bool \<Rightarrow> string list \<Rightarrow> run_state \<Rightarrow> bool" where
  "ended_ok rid quiet ids s \<longleftrightarrow>
     map ev_id (db_eval_runs (cn_db (vs_conn s))) = ids \<and> (quiet \<longrightarrow> cn_faults (vs_conn s) = []) \<and>
     (case vs_place s of
        Draining status _ \<Rightarrow> status \<in> final_statuses
      | Finished status \<Rightarrow> status \<in> final_statuses \<and> vs_jobs s = [] \<and>
          (\<exists>now msg c1. (quiet \<longrightarrow> cn_faults c1 = []) \<and> vs_conn s = snd (update_run_status now rid status msg c1))
      | _ \<Rightarrow> True)"

lemma status_recorded:
  assumes "map ev_id (db_eval_runs (cn_db (vs_conn s))) = ids" "quiet \<longrightarrow> cn_faults (vs_conn s) = []"
    and "status \<in> final_statuses" "vs_jobs s = []"
  shows "ended_ok rid quiet ids (s\<lparr>vs_place := Finished status, vs_conn := snd (update_run_status now rid status msg (vs_conn s))\<rparr>)"
  using assms runs_kept(1) [of now rid status msg] statements_quiet(1) [of "vs_conn s" now rid status msg]
  unfolding ended_ok_def keeps_def unchanged_def by auto

lemma run_step_ended:
  "run_step judge p rid s t \<Longrightarrow> accounted entries s \<Longrightarrow> ended_ok rid quiet ids s \<Longrightarrow>
   ended_ok rid quiet ids t"
proof (induction rule: run_step.induct)
  case (finish s status msg now)
  then show ?case by (intro status_recorded) (auto simp: ended_ok_def)
next
  case (finish_panicked s status msg now why)
  then show ?case by (intro status_recorded) (auto simp: ended_ok_def final_statuses_def)
next
  case (start_panicked s now why)
  then show ?case by (intro status_recorded) (auto simp: ended_ok_def final_statuses_def accounted_def)
next
  case (started s now)
  then show ?case
    using runs_kept(1) [of now rid "''running''" "[]"] statements_quiet(1) [of "vs_conn s" now rid "''running''" "[]"]
    unfolding ended_ok_def keeps_def unchanged_def by auto
next
  case (answered s js a ks k now respID j c)
  with answer_entry_kept [OF answered(3)] show ?case unfolding ended_ok_def by (auto split: place.splits)
next
  case (stored s js a d b i ks resID now r c)
  then show ?case
    using runs_kept(3) [of resID "result_record rid now (au_id a) d b i"]
      statements_quiet(3) [of "vs_conn s" resID "result_record rid now (au_id a) d b i"]
    unfolding ended_ok_def keeps_def unchanged_def by (auto split: place.splits) (metis snd_conv)+
qed (auto simp: ended_ok_def cancelled_place_def canceled_or_failed_def final_statuses_def split: place.splits)

lemma run_steps_kept:
  "run_steps judge p rid s t \<Longrightarrow> accounted entries s \<Longrightarrow> ended_ok rid quiet ids s \<Longrightarrow>
   accounted entries t \<and> ended_ok rid quiet ids t"
  by (induction rule: run_steps.induct) (auto intro: run_step_accounted run_step_ended)

lemma run_steps_ended:
  assumes "run_steps judge p rid (new_run entries c) s"
  shows "ended_ok rid (cn_faults c = []) (map ev_id (db_eval_runs (cn_db c))) s"
proof -
  have "ended_ok rid (cn_faults c = []) (map ev_id (db_eval_runs (cn_db c))) (new_run entries c)"
    by (simp add: ended_ok_def new_run_def)
  from run_steps_kept [OF assms new_run_inv(1) this] show ?thesis by blast
qed

lemma run_steps_relpow: "(run_step judge p rid ^^ n) s t \<Longrightarrow> run_steps judge p rid s t"
  by (induction n arbitrary: t) (auto intro: run_steps.intros)

text \<open>
  C32: an evaluation run ends. However the feeder, the runner, its jobs, a panic of the runner
  and a cancellation interleave, a run over n entries takes at most 7n + 6 steps. It cannot stop
  before it has ended as completed, failed or canceled, and the last statement it made was the
  update of its row to that status: unless that update failed, and it did not if the database
  met no fault, the run's row shows it. No row of a run is added or removed on the way.
\<close>

theorem eval_run_ends:
  assumes "(run_step judge p rid ^^ n) (new_run entries c) s"
  shows "n \<le> 7 * length entries + 6 \<and>
    map ev_id (db_eval_runs (cn_db (vs_conn s))) = map ev_id (db_eval_runs (cn_db c)) \<and>
    ((\<nexists>t. run_step judge p rid s t) \<longrightarrow>
       (\<exists>status \<in> {''completed'', ''failed'', ''canceled''}. vs_place s = Finished status \<and>
          (\<exists>now msg c1 r. update_run_status now rid status msg c1 = (r, vs_conn s) \<and>
             (r = Inr () \<longrightarrow> (\<forall>row \<in> set (db_eval_runs (cn_db (vs_conn s))). ev_id row = rid \<longrightarrow> ev_status row = status)) \<and>
             (cn_faults c = [] \<longrightarrow> r = Inr ()))))"
proof -
  have rank: "run_rank (new_run entries c) = 7 * length entries + 6" by (simp add: run_rank_def new_run_def)
  have n: "n \<le> 7 * length entries + 6" using run_rank_decreases [OF assms] rank by simp
  note inv = run_steps_ended [OF run_steps_relpow [OF assms]]
  have ended: "\<exists>status \<in> {''completed'', ''failed'', ''canceled''}. vs_place s = Finished status \<and>
      (\<exists>now msg c1 r. update_run_status now rid status msg c1 = (r, vs_conn s) \<and>
         (r = Inr () \<longrightarrow> (\<forall>row \<in> set (db_eval_runs (cn_db (vs_conn s))). ev_id row = rid \<longrightarrow> ev_status row = status)) \<and>
         (cn_faults c = [] \<longrightarrow> r = Inr ()))" if stop: "\<nexists>t. run_step judge p rid s t"
  proof -
    from stop run_progress [of s judge p rid] obtain status where f: "vs_place s = Finished status" by blast
    with inv obtain now msg c1 where st: "status \<in> final_statuses"
        and c1: "cn_faults c = [] \<longrightarrow> cn_faults c1 = []" "vs_conn s = snd (update_run_status now rid status msg c1)"
      by (auto simp: ended_ok_def)
    obtain r where r: "update_run_status now rid status msg c1 = (r, vs_conn s)" using c1(2) by (metis prod.collapse)
    have "cn_faults c = [] \<longrightarrow> r = Inr ()" using statements_quiet(2) [of c1 now rid status msg] c1(1) r by simp
    moreover have "r = Inr () \<longrightarrow> (\<forall>row \<in> set (db_eval_runs (cn_db (vs_conn s))). ev_id row = rid \<longrightarrow> ev_status row = status)"
      using update_run_status_recorded [of now rid status msg c1 "vs_conn s"] r by blast
    ultimately show ?thesis using f r st unfolding final_statuses_def by blast
  qed
  have "map ev_id (db_eval_runs (cn_db (vs_conn s))) = map ev_id (db_eval_runs (cn_db c))" using inv by (simp add: ended_ok_def)
  with n ended show ?thesis by blast
qed

text \<open>
  C33: an evaluation run grades each entry at most once, and like production. In every state of a
  run, whatever the interleaving, the entries read from the feed are the first ones of it, and
  each of them is done, with one of the at most 25 jobs, or in the runner's hands, but for at most
  one that a cancellation made the runner drop. The results the run has stored are appended to
  those there were: one for every entry that is done, unless \<open>AddResult\<close> failed on it, and
  each is the decision of the static rules on its entry, or else of the judge, or ERROR where the
  judge failed. A run that has ended has no job left, and one that ended as completed has dropped
  no entry.
\<close>

theorem eval_run_grades_once:
  assumes "run_steps judge p rid (new_run entries c) s"
  shows "length (vs_jobs s) \<le> 25 \<and> prefix (vs_received s) entries \<and>
    (\<exists>dropped. mset (vs_done s) + mset (map job_entry (vs_jobs s)) + mset (held (vs_place s)) + dropped = mset (vs_received s) \<and>
       size dropped \<le> (if abandoned (vs_place s) then 1 else 0)) \<and>
    (\<exists>new. db_eval_results (cn_db (vs_conn s)) = db_eval_results (cn_db c) @ new \<and>
       mset (map er_entry_id new) + mset (map au_id (vs_unstored s)) = mset (map au_id (vs_done s)) \<and>
       (\<forall>x \<in> set new. er_run_id x = rid \<and> (\<exists>a \<in> set entries. \<exists>k. er_entry_id x = au_id a \<and>
          (er_replay_decision x, er_approved_by x) = replayed (judge k) p a))) \<and>
    (\<forall>status. vs_place s = Finished status \<longrightarrow> vs_jobs s = [] \<and>
       (status = ''completed'' \<longrightarrow> mset (vs_done s) = mset (vs_received s)))"
proof -
  from run_steps_inv [OF assms new_run_inv] have acc: "accounted entries s"
    and res: "results_ok judge p rid (db_eval_results (cn_db c)) s" by blast+
  note sub = mset_done_subset [OF acc]
  have "set (vs_done s) \<subseteq> set entries" using sub by (metis set_mset_mono set_mset_mset)
  with res obtain new where new: "db_eval_results (cn_db (vs_conn s)) = db_eval_results (cn_db c) @ new"
      "mset (map er_entry_id new) + mset (map au_id (vs_unstored s)) = mset (map au_id (vs_done s))"
      "\<forall>x \<in> set new. graded judge p rid entries x"
    unfolding results_ok_def graded_def by blast
  have pre: "prefix (vs_received s) entries" using acc by (auto simp: accounted_def intro: append_prefixD)
  have jobs: "length (vs_jobs s) \<le> 25" using acc by (simp add: accounted_def evalConcurrency_def)
  have bal: "\<exists>dropped. mset (vs_done s) + mset (map job_entry (vs_jobs s)) + mset (held (vs_place s)) + dropped = mset (vs_received s) \<and>
       size dropped \<le> (if abandoned (vs_place s) then 1 else 0)" using acc by (simp add: accounted_def)
  have fin: "\<forall>status. vs_place s = Finished status \<longrightarrow> vs_jobs s = [] \<and>
       (status = ''completed'' \<longrightarrow> mset (vs_done s) = mset (vs_received s))"
    using acc by (auto simp: accounted_def held_def abandoned_def)
  show ?thesis using jobs pre bal new fin unfolding graded_def by blast
qed

text \<open>What \<open>AddResult\<close> needs to store a result.\<close>

lemma add_result_stores:
  assumes "cn_faults c = []" and "find_run (el_run_id r) (cn_db c) \<noteq> None" "find_audit (el_entry_id r) (cn_db c) \<noteq> None"
    and "i \<notin> er_id ` set (db_eval_results (cn_db c))" and "el_llm_response_id r = []"
  shows "fst (add_result i r c) = Inr ()"
  using assms by (auto simp: add_result_def swrap_def exec_def take_fault_def Let_def list_ex_iff image_iff)

definition demo_entry :: audit_row where
  "demo_entry = \<lparr>au_id = ''a1'', au_entry =
     \<lparr>ae_timestamp = 1, ae_user_id = ''bot'', ae_request_id = [], ae_method = ''GET'', ae_url = ''https://a/'', ae_operation = [],
      ae_decision = ''approved'', ae_cache_hit = False, ae_approved_by = [], ae_channel = ''llm'', ae_response_status = 200,
      ae_duration_ms = 1, ae_error = [], ae_request_headers = [], ae_request_body = [], ae_response_headers = [],
      ae_response_body = [], ae_llm_reason = [], ae_llm_response_id = [], ae_llm_policy_id = []\<rparr>\<rparr>"

definition demo_judge :: "cause option \<Rightarrow> evaluator" where
  "demo_judge k m u h b p = (empty_judge_result\<lparr>jr_decision := DecisionAllow\<rparr>, None)"

definition demo_policy :: llm_policy where
  "demo_policy = \<lparr>lp_id = ''p'', lp_name = ''n'', lp_prompt = [], lp_provider = [], lp_model = [], lp_status = ''published'',
     lp_forked_from = [], lp_static_rules = [], lp_created_at = 0, lp_deleted_at = None\<rparr>"

text \<open>The run that the user cancels while the runner waits for its first entry.\<close>

definition cancelled_run :: "audit_row list \<Rightarrow> conn \<Rightarrow> string \<Rightarrow> run_state" where
  "cancelled_run entries c rid =
     (new_run entries c)\<lparr>vs_place := Finished ''completed'', vs_todo := [], vs_closed := True, vs_ctx := Some UserCanceled,
       vs_conn := snd (update_run_status 0 rid ''completed'' [] (snd (update_run_status 0 rid ''running'' [] c)))\<rparr>"

lemma cancelled_run_steps: "run_steps judge p rid (new_run entries c) (cancelled_run entries c rid)"
proof -
  define s1 where "s1 = (new_run entries c)\<lparr>vs_place := Top, vs_conn := snd (update_run_status 0 rid ''running'' [] c)\<rparr>"
  have "run_steps judge p rid (new_run entries c) s1"
    using run_step.started [of "new_run entries c" judge p rid 0] run_steps.refl run_steps.step
    by (fastforce simp: s1_def new_run_def)
  then have "run_steps judge p rid (new_run entries c) (s1\<lparr>vs_place := Selecting\<rparr>)"
    using run_step.top_live [of s1] run_steps.step by (fastforce simp: s1_def new_run_def)
  then have "run_steps judge p rid (new_run entries c) (s1\<lparr>vs_place := Selecting, vs_ctx := Some UserCanceled\<rparr>)"
    using run_step.cancel [of "s1\<lparr>vs_place := Selecting\<rparr>" judge p rid UserCanceled] run_steps.step
    by (fastforce simp: s1_def new_run_def)
  then have "run_steps judge p rid (new_run entries c)
      (s1\<lparr>vs_place := Selecting, vs_ctx := Some UserCanceled, vs_todo := [], vs_closed := True\<rparr>)"
    using run_step.closed [of "s1\<lparr>vs_place := Selecting, vs_ctx := Some UserCanceled\<rparr>" judge p rid] run_steps.step
    by (fastforce simp: s1_def new_run_def)
  then have "run_steps judge p rid (new_run entries c)
      (s1\<lparr>vs_place := Draining ''completed'' [], vs_ctx := Some UserCanceled, vs_todo := [], vs_closed := True\<rparr>)"
    using run_step.drained [of "s1\<lparr>vs_place := Selecting, vs_ctx := Some UserCanceled, vs_todo := [], vs_closed := True\<rparr>" judge p rid]
      run_steps.step by (fastforce simp: s1_def new_run_def)
  then show ?thesis
    using run_step.finish [of "s1\<lparr>vs_place := Draining ''completed'' [], vs_ctx := Some UserCanceled, vs_todo := [], vs_closed := True\<rparr>"
        "''completed''" "[]" judge p rid 0] run_steps.step
    by (fastforce simp: s1_def new_run_def cancelled_run_def)
qed

lemma eval_run_grades_once_witness:
  "vs_place (cancelled_run [demo_entry] (connect empty_database) ''r1'') = Finished ''completed'' \<and>
   vs_jobs (cancelled_run [demo_entry] (connect empty_database) ''r1'') = []"
  using eval_run_grades_once [OF cancelled_run_steps [of demo_judge demo_policy "''r1''" "[demo_entry]" "connect empty_database"]]
  by (simp add: cancelled_run_def)

text \<open>
  a cancelled run may be recorded as completed. Whatever entries are to be replayed, there is
  a run that the user cancels while the runner waits for the first of them, in which the feeder
  gives up and closes the channel, the runner takes the closed channel rather than the
  cancellation, and the run ends as completed without having graded anything.
\<close>

theorem cancelled_run_may_complete:
  "\<exists>s. run_steps judge p rid (new_run entries c) s \<and> vs_ctx s = Some UserCanceled \<and>
     vs_place s = Finished ''completed'' \<and> vs_received s = []"
  using cancelled_run_steps [of judge p rid entries c]
  by (intro exI [of _ "cancelled_run entries c rid"]) (simp add: cancelled_run_def new_run_def)

lemma run_steps_counted: "run_steps judge p rid s t \<Longrightarrow> \<exists>n. (run_step judge p rid ^^ n) s t"
proof (induction rule: run_steps.induct)
  case refl
  show ?case by (rule exI [of _ 0]) simp
next
  case (step s t u)
  then obtain n where "(run_step judge p rid ^^ n) s t" by blast
  from relpowp_Suc_I [OF this step(2)] show ?case by blast
qed

lemma cancelled_run_stuck: "\<not> run_step judge p rid (cancelled_run entries c rid) t"
  by (auto simp: cancelled_run_def new_run_def elim!: run_stepE)

lemma eval_run_ends_witness:
  "\<exists>n \<le> 13. (run_step demo_judge demo_policy ''r1'' ^^ n) (new_run [demo_entry] (connect empty_database))
     (cancelled_run [demo_entry] (connect empty_database) ''r1'') \<and>
     (\<exists>status \<in> {''completed'', ''failed'', ''canceled''}.
        vs_place (cancelled_run [demo_entry] (connect empty_database) ''r1'') = Finished status)"
proof -
  obtain n where n: "(run_step demo_judge demo_policy ''r1'' ^^ n) (new_run [demo_entry] (connect empty_database))
     (cancelled_run [demo_entry] (connect empty_database) ''r1'')"
    using run_steps_counted [OF cancelled_run_steps] by blast
  have len: "7 * length [demo_entry] + 6 = 13" by simp
  from eval_run_ends [OF n, unfolded len] cancelled_run_stuck n show ?thesis by blast
qed

end
