(* ===== verification/Config.thy ===== *)
theory Config imports Go_Net Complex_Main begin

text \<open>
  The gateway's configuration (\<open>internal/config/config.go\<close>) and the expansion of
  environment references (\<open>internal/envutil/expand.go\<close>). Reading the file, the YAML
  package, \<open>net.ParseCIDR\<close> and the printing of floats and durations are arguments of
  \<open>load_config\<close>; durations are nanoseconds.
\<close>

subsection \<open>Environment references\<close>

definition ident_start :: "char \<Rightarrow> bool" where
  "ident_start ch = (CHR ''A'' \<le> ch \<and> ch \<le> CHR ''Z'' \<or> CHR ''a'' \<le> ch \<and> ch \<le> CHR ''z'' \<or> ch = CHR ''_'')"

definition ident_char :: "char \<Rightarrow> bool" where
  "ident_char ch = (ident_start ch \<or> CHR ''0'' \<le> ch \<and> ch \<le> CHR ''9'')"

text \<open>The name of a braced reference at the start of a text, with what follows it.\<close>

definition braced_ref :: "string \<Rightarrow> (string \<times> string) option" where
  "braced_ref s =
     (if has_prefix s ''${'' then
        (let body = drop 2 s; name = takeWhile ident_char body; rest = drop (length name) body in
         if name \<noteq> [] \<and> ident_start (hd name) \<and> rest \<noteq> [] \<and> hd rest = CHR ''}'' then Some (name, tl rest) else None)
      else None)"

lemma braced_ref_shorter: "braced_ref s = Some (name, rest) \<Longrightarrow> length rest < length s"
  by (auto simp: braced_ref_def Let_def split: if_splits)

type_synonym environ = "string \<Rightarrow> string option"

text \<open>The text with its references replaced, whether there was one, whether one was unset.\<close>

function replace_braced :: "environ \<Rightarrow> string \<Rightarrow> string \<times> bool \<times> bool" where
  "replace_braced env s =
     (case s of
        [] \<Rightarrow> ([], False, False)
      | ch # cs \<Rightarrow>
          (case braced_ref s of
             Some (name, rest) \<Rightarrow>
               (let (t, _, unres) = replace_braced env rest in
                case env name of Some v \<Rightarrow> (v @ t, True, unres) | None \<Rightarrow> (t, True, True))
           | None \<Rightarrow> (let (t, had, unres) = replace_braced env cs in (ch # t, had, unres))))"
  by pat_completeness auto

termination
  by (relation "measure (\<lambda>(env, s). length s)") (auto dest: braced_ref_shorter)

declare replace_braced.simps [simp del]

definition full_ref :: "string \<Rightarrow> string option" where
  "full_ref s =
     (case s of
        ch # name \<Rightarrow> if ch = CHR ''$'' \<and> name \<noteq> [] \<and> ident_start (hd name) \<and> list_all ident_char name then Some name else None
      | [] \<Rightarrow> None)"

definition expand_with_status :: "environ \<Rightarrow> string \<Rightarrow> string \<times> bool \<times> bool" where
  "expand_with_status env s =
     (if s = [] then (s, False, False)
      else case replace_braced env s of
        (t, had, unres) \<Rightarrow>
          if t \<noteq> s then (t, had, unres)
          else (case full_ref s of
             Some name \<Rightarrow> (case env name of Some v \<Rightarrow> (v, True, unres) | None \<Rightarrow> ([], True, True))
           | None \<Rightarrow> (s, had, unres)))"

definition expand :: "environ \<Rightarrow> string \<Rightarrow> string" where
  "expand env s = fst (expand_with_status env s)"

fun contains_braced :: "string \<Rightarrow> bool" where
  "contains_braced [] = False"
| "contains_braced (ch # cs) = (braced_ref (ch # cs) \<noteq> None \<or> contains_braced cs)"

definition contains_env_reference :: "string \<Rightarrow> bool" where
  "contains_env_reference s = (s \<noteq> [] \<and> (contains_braced s \<or> full_ref s \<noteq> None))"

text \<open>\<open>os.Getenv\<close>.\<close>

definition getenv :: "environ \<Rightarrow> string \<Rightarrow> string" where
  "getenv env name = (case env name of None \<Rightarrow> [] | Some v \<Rightarrow> v)"

subsection \<open>The configuration\<close>

text \<open>A \<open>float64\<close> of the file: a number, or a value that is none.\<close>

datatype float64 = NaN | PosInf | NegInf | Num rat

definition float_less :: "float64 \<Rightarrow> float64 \<Rightarrow> bool" where
  "float_less x y =
     (case (x, y) of
        (NaN, _) \<Rightarrow> False | (_, NaN) \<Rightarrow> False
      | (Num a, Num b) \<Rightarrow> a < b
      | (NegInf, NegInf) \<Rightarrow> False | (NegInf, _) \<Rightarrow> True
      | (PosInf, _) \<Rightarrow> False
      | (Num a, PosInf) \<Rightarrow> True | (Num a, NegInf) \<Rightarrow> False)"

record database_config =
  dc_url :: string
  dc_max_conns :: int
  dc_min_conns :: int

record metrics_config =
  mc_enabled :: bool
  mc_listen :: string

record proxy_config =
  pc_port :: int
  pc_read_timeout :: int
  pc_write_timeout :: int
  pc_idle_timeout :: int
  pc_allowed_private_cidrs :: "string list"
  pc_insecure_skip_upstream_verify :: bool
  pc_insecure_skip_verify_hosts :: "string list"
  pc_rate_limit_per_ip :: "int option"
  pc_rate_limit_burst :: int

record tls_config =
  tc_ca_cert_path :: string
  tc_ca_key_path :: string
  tc_max_cert_cache_size :: int

record approval_config =
  vc_mode :: string
  vc_timeout :: int

record jev_config =
  jc_enabled :: bool
  jc_api_key :: string
  jc_model :: string
  jc_timeout :: int
  jc_allow_below :: "float64 option"
  jc_deny_above :: "float64 option"
  jc_base_url :: string

record llm_judge_config =
  lj_enabled :: bool
  lj_provider :: string
  lj_bedrock_aws_region :: string
  lj_aws_region :: string
  lj_timeout :: int
  lj_fallback_mode :: string
  lj_eval_model :: string
  lj_fast_model :: string
  lj_thinking_model :: string
  lj_max_concurrency :: int
  lj_circuit_breaker_threshold :: int
  lj_circuit_breaker_cooldown :: int
  lj_anthropic_api_key :: string
  lj_anthropic_base_url :: string
  lj_openai_api_key :: string
  lj_openai_base_url :: string
  lj_jev :: jev_config

record audit_config =
  uc_output :: string
  uc_format :: string

record alerting_config =
  gc_enabled :: bool
  gc_batch_window :: int
  gc_slack_bot_token :: string

record config =
  cf_log_level :: string
  cf_proxy :: proxy_config
  cf_tls :: tls_config
  cf_approval :: approval_config
  cf_audit :: audit_config
  cf_database :: database_config
  cf_llm_judge :: llm_judge_config
  cf_secure_cookie :: bool
  cf_metrics :: metrics_config
  cf_alerting :: alerting_config

definition zero_config :: config where
  "zero_config =
     \<lparr>cf_log_level = [],
      cf_proxy = \<lparr>pc_port = 0, pc_read_timeout = 0, pc_write_timeout = 0, pc_idle_timeout = 0, pc_allowed_private_cidrs = [],
        pc_insecure_skip_upstream_verify = False, pc_insecure_skip_verify_hosts = [], pc_rate_limit_per_ip = None, pc_rate_limit_burst = 0\<rparr>,
      cf_tls = \<lparr>tc_ca_cert_path = [], tc_ca_key_path = [], tc_max_cert_cache_size = 0\<rparr>,
      cf_approval = \<lparr>vc_mode = [], vc_timeout = 0\<rparr>,
      cf_audit = \<lparr>uc_output = [], uc_format = []\<rparr>,
      cf_database = \<lparr>dc_url = [], dc_max_conns = 0, dc_min_conns = 0\<rparr>,
      cf_llm_judge = \<lparr>lj_enabled = False, lj_provider = [], lj_bedrock_aws_region = [], lj_aws_region = [], lj_timeout = 0,
        lj_fallback_mode = [], lj_eval_model = [], lj_fast_model = [], lj_thinking_model = [], lj_max_concurrency = 0,
        lj_circuit_breaker_threshold = 0, lj_circuit_breaker_cooldown = 0, lj_anthropic_api_key = [], lj_anthropic_base_url = [],
        lj_openai_api_key = [], lj_openai_base_url = [],
        lj_jev = \<lparr>jc_enabled = False, jc_api_key = [], jc_model = [], jc_timeout = 0, jc_allow_below = None, jc_deny_above = None,
          jc_base_url = []\<rparr>\<rparr>,
      cf_secure_cookie = False,
      cf_metrics = \<lparr>mc_enabled = False, mc_listen = []\<rparr>,
      cf_alerting = \<lparr>gc_enabled = False, gc_batch_window = 0, gc_slack_bot_token = []\<rparr>\<rparr>"

subsection \<open>Expansion and defaults\<close>

definition expand_env_vars :: "environ \<Rightarrow> config \<Rightarrow> config" where
  "expand_env_vars env c =
     (let d = cf_database c; l = cf_llm_judge c; j = lj_jev l in
      c\<lparr>cf_database := d\<lparr>dc_url := expand env (dc_url d)\<rparr>,
        cf_llm_judge := l\<lparr>lj_anthropic_api_key := expand env (lj_anthropic_api_key l),
          lj_openai_api_key := expand env (lj_openai_api_key l), lj_jev := j\<lparr>jc_api_key := expand env (jc_api_key j)\<rparr>\<rparr>\<rparr>)"

text \<open>The repeated shape of the defaults: a zero value is replaced.\<close>

definition or_default :: "'a \<Rightarrow> 'a \<Rightarrow> 'a \<Rightarrow> 'a" where
  "or_default zero dflt x = (if x = zero then dflt else x)"

definition second :: int where "second = 1000000000"

definition default_proxy :: "proxy_config \<Rightarrow> proxy_config" where
  "default_proxy p =
     (let rate = (case pc_rate_limit_per_ip p of None \<Rightarrow> 50 | Some n \<Rightarrow> n) in
      p\<lparr>pc_port := or_default 0 8080 (pc_port p), pc_read_timeout := or_default 0 (600 * second) (pc_read_timeout p),
        pc_write_timeout := or_default 0 (600 * second) (pc_write_timeout p),
        pc_idle_timeout := or_default 0 (120 * second) (pc_idle_timeout p), pc_rate_limit_per_ip := Some rate,
        pc_rate_limit_burst := (if 0 < rate then or_default 0 100 (pc_rate_limit_burst p) else pc_rate_limit_burst p)\<rparr>)"

definition default_tls :: "tls_config \<Rightarrow> tls_config" where
  "default_tls t =
     t\<lparr>tc_ca_cert_path := or_default [] ''./certs/ca.crt'' (tc_ca_cert_path t),
       tc_ca_key_path := or_default [] ''./certs/ca.key'' (tc_ca_key_path t)\<rparr>"

definition default_jev :: "environ \<Rightarrow> jev_config \<Rightarrow> jev_config" where
  "default_jev env j =
     j\<lparr>jc_api_key := or_default [] (getenv env ''TYPESAFE_API_KEY'') (jc_api_key j), jc_model := or_default [] ''jev-1.13.0'' (jc_model j),
       jc_timeout := or_default 0 (5 * second) (jc_timeout j),
       jc_allow_below := Some (case jc_allow_below j of None \<Rightarrow> Num 0 | Some x \<Rightarrow> x),
       jc_deny_above := Some (case jc_deny_above j of None \<Rightarrow> Num (7 / 10) | Some x \<Rightarrow> x)\<rparr>"

text \<open>A mode that defaults to the judge also enables it.\<close>

definition default_judge :: "environ \<Rightarrow> bool \<Rightarrow> llm_judge_config \<Rightarrow> llm_judge_config" where
  "default_judge env modeDefaulted l =
     (let eval = or_default [] ''anthropic.claude-opus-4-5-20251101-v2:0'' (lj_eval_model l) in
      l\<lparr>lj_enabled := (lj_enabled l \<or> modeDefaulted), lj_provider := or_default [] ''bedrock-anthropic'' (lj_provider l),
        lj_bedrock_aws_region := or_default [] (lj_aws_region l) (lj_bedrock_aws_region l),
        lj_anthropic_api_key := or_default [] (getenv env ''ANTHROPIC_API_KEY'') (lj_anthropic_api_key l),
        lj_openai_api_key := or_default [] (getenv env ''OPENAI_API_KEY'') (lj_openai_api_key l),
        lj_jev := default_jev env (lj_jev l), lj_eval_model := eval,
        lj_fast_model := or_default [] ''anthropic.claude-haiku-4-5-20251001'' (lj_fast_model l),
        lj_thinking_model := or_default [] eval (lj_thinking_model l), lj_timeout := or_default 0 (30 * second) (lj_timeout l),
        lj_fallback_mode := or_default [] ''deny'' (lj_fallback_mode l), lj_max_concurrency := or_default 0 100 (lj_max_concurrency l),
        lj_circuit_breaker_threshold := or_default 0 5 (lj_circuit_breaker_threshold l),
        lj_circuit_breaker_cooldown := or_default 0 (10 * second) (lj_circuit_breaker_cooldown l)\<rparr>)"

definition apply_defaults :: "environ \<Rightarrow> config \<Rightarrow> config" where
  "apply_defaults env c =
     (let a = cf_approval c; u = cf_audit c; d = cf_database c; m = cf_metrics c in
      c\<lparr>cf_log_level := or_default [] ''info'' (cf_log_level c), cf_proxy := default_proxy (cf_proxy c), cf_tls := default_tls (cf_tls c),
        cf_approval := a\<lparr>vc_mode := or_default [] ''llm'' (vc_mode a), vc_timeout := or_default 0 (30 * second) (vc_timeout a)\<rparr>,
        cf_audit := u\<lparr>uc_output := or_default [] ''stderr'' (uc_output u), uc_format := or_default [] ''json'' (uc_format u)\<rparr>,
        cf_database := d\<lparr>dc_max_conns := or_default 0 10 (dc_max_conns d), dc_min_conns := or_default 0 2 (dc_min_conns d)\<rparr>,
        cf_llm_judge := default_judge env (vc_mode a = []) (cf_llm_judge c),
        cf_metrics := m\<lparr>mc_listen := (if mc_enabled m then or_default [] ''127.0.0.1:9090'' (mc_listen m) else mc_listen m)\<rparr>\<rparr>)"

definition default_config :: "environ \<Rightarrow> config" where
  "default_config env = apply_defaults env zero_config"

subsection \<open>Validation\<close>

text \<open>The first of the listed complaints that applies.\<close>

fun first_error :: "(bool \<times> go_error) list \<Rightarrow> go_error option" where
  "first_error [] = None"
| "first_error ((bad, msg) # rest) = (if bad then Some msg else first_error rest)"

record config_text =
  ct_show_float :: "float64 \<Rightarrow> string"
  ct_show_duration :: "int \<Rightarrow> string"
  ct_parse_cidr :: "string \<Rightarrow> ipnet result"

definition outside_unit :: "float64 \<Rightarrow> bool" where
  "outside_unit x = (x = NaN \<or> float_less x (Num 0) \<or> float_less (Num 1) x)"

text \<open>After the defaults the thresholds are present.\<close>

definition allow_below :: "jev_config \<Rightarrow> float64" where "allow_below j = (case jc_allow_below j of Some x \<Rightarrow> x | None \<Rightarrow> Num 0)"
definition deny_above :: "jev_config \<Rightarrow> float64" where "deny_above j = (case jc_deny_above j of Some x \<Rightarrow> x | None \<Rightarrow> Num 0)"

definition validate_jev :: "config_text \<Rightarrow> jev_config \<Rightarrow> go_error option" where
  "validate_jev ct j =
     (let lo = allow_below j; hi = deny_above j in
      first_error
       [(jc_api_key j = [], ''llm_judge.jev.api_key is required when llm_judge.jev.enabled is true (or set TYPESAFE_API_KEY)''),
        (jc_timeout j < 0, ''llm_judge.jev.timeout must not be negative (got '' @ ct_show_duration ct (jc_timeout j) @ '')''),
        (outside_unit lo, ''llm_judge.jev.allow_below must be between 0 and 1 (got '' @ ct_show_float ct lo @ '')''),
        (outside_unit hi, ''llm_judge.jev.deny_above must be between 0 and 1 (got '' @ ct_show_float ct hi @ '')''),
        (float_less hi lo, ''llm_judge.jev.allow_below must be <= deny_above (got allow_below='' @ ct_show_float ct lo @
           '' deny_above='' @ ct_show_float ct hi @ '')'')])"

definition validate_judge :: "config_text \<Rightarrow> llm_judge_config \<Rightarrow> go_error option" where
  "validate_judge ct l =
     (if lj_enabled l then
        (case (if lj_provider l = ''bedrock-anthropic'' \<or> lj_provider l = [] then None
               else if lj_provider l = ''anthropic'' then
                 (if lj_anthropic_api_key l = []
                  then Some (''llm_judge.anthropic_api_key is required when provider is '' @ squote @ ''anthropic'' @ squote
                    @ '' (or set the environment variable ANTHROPIC_API_KEY)'') else None)
               else if lj_provider l = ''openai'' then
                 (if lj_openai_api_key l = []
                  then Some (''llm_judge.openai_api_key is required when provider is '' @ squote @ ''openai'' @ squote
                    @ '' (or set the environment variable OPENAI_API_KEY)'') else None)
               else Some (''llm_judge.provider must be one of: bedrock-anthropic, anthropic, openai (got '' @ quote_str (lj_provider l) @ '')'')) of
           Some e \<Rightarrow> Some e
         | None \<Rightarrow> if jc_enabled (lj_jev l) then validate_jev ct (lj_jev l) else None)
      else if jc_enabled (lj_jev l) then Some ''llm_judge.jev.enabled requires llm_judge.enabled'' else None)"

fun validate_cidrs :: "config_text \<Rightarrow> string list \<Rightarrow> go_error option" where
  "validate_cidrs ct [] = None"
| "validate_cidrs ct (s # ss) =
     (case ct_parse_cidr ct s of
        Inl e \<Rightarrow> Some (''invalid allowed_private_cidrs entry '' @ quote_str s @ '': '' @ e)
      | Inr _ \<Rightarrow> validate_cidrs ct ss)"

definition validate_proxy :: "config_text \<Rightarrow> proxy_config \<Rightarrow> go_error option" where
  "validate_proxy ct p =
     (case validate_cidrs ct (pc_allowed_private_cidrs p) of
        Some e \<Rightarrow> Some e
      | None \<Rightarrow>
          (let rate = (case pc_rate_limit_per_ip p of None \<Rightarrow> 0 | Some n \<Rightarrow> n) in
           first_error
            [([] \<in> set (pc_insecure_skip_verify_hosts p), ''insecure_skip_verify_hosts contains an empty entry''),
             (rate < 0, ''rate_limit_per_ip must be non-negative (got '' @ itoa rate @ '')''),
             (pc_rate_limit_burst p < 0, ''rate_limit_burst must be non-negative (got '' @ itoa (pc_rate_limit_burst p) @ '')'')]))"

definition validate_metrics :: "metrics_config \<Rightarrow> go_error option" where
  "validate_metrics m =
     (if mc_enabled m then
        (if mc_listen m = [] then Some ''observability.metrics.listen is required when metrics are enabled (default: 127.0.0.1:9090)''
         else case split_host_port (mc_listen m) of
           Inl e \<Rightarrow> Some (''observability.metrics.listen '' @ quote_str (mc_listen m) @ '' is not a valid host:port: '' @ e)
         | Inr _ \<Rightarrow> None)
      else None)"

definition validate :: "config_text \<Rightarrow> config \<Rightarrow> go_error option" where
  "validate ct c =
     (let l = cf_llm_judge c; mode = vc_mode (cf_approval c); port = pc_port (cf_proxy c) in
      case first_error
       [(port < 1 \<or> 65535 < port, ''invalid proxy port: '' @ itoa port),
        (tc_ca_cert_path (cf_tls c) = [], ''ca_cert_path is required''),
        (tc_ca_key_path (cf_tls c) = [], ''ca_key_path is required''),
        (cf_log_level c \<notin> {[], ''debug'', ''info'', ''warn'', ''error''},
           ''log_level must be one of: debug, info, warn, error (got '' @ quote_str (cf_log_level c) @ '')''),
        (uc_format (cf_audit c) \<noteq> ''json'', ''only json audit format is supported''),
        (mode \<noteq> ''llm'' \<and> mode \<noteq> ''passthrough'', ''approval.mode must be one of: llm, passthrough''),
        (mode = ''llm'' \<and> \<not> lj_enabled l, ''approval.mode is '' @ squote @ ''llm'' @ squote @ '' but llm_judge.enabled is false''),
        (lj_fallback_mode l \<notin> {[], ''deny'', ''passthrough''},
           ''llm_judge.fallback_mode must be one of: deny, passthrough (got '' @ quote_str (lj_fallback_mode l) @ '')'')] of
        Some e \<Rightarrow> Some e
      | None \<Rightarrow>
          (case validate_judge ct l of
             Some e \<Rightarrow> Some e
           | None \<Rightarrow>
               (case validate_proxy ct (cf_proxy c) of
                  Some e \<Rightarrow> Some e
                | None \<Rightarrow> validate_metrics (cf_metrics c))))"

subsection \<open>Loading\<close>

datatype file_read = Contents string | NotExist | ReadFailed go_error

definition load_config ::
    "config_text \<Rightarrow> (string \<Rightarrow> config result) \<Rightarrow> environ \<Rightarrow> file_read \<Rightarrow> config result" where
  "load_config ct unmarshal env file =
     (case file of
        NotExist \<Rightarrow>
          (let c = apply_defaults env (expand_env_vars env
             (zero_config\<lparr>cf_approval := \<lparr>vc_mode = ''passthrough'', vc_timeout = 0\<rparr>,
               cf_database := (cf_database zero_config)\<lparr>dc_url := ''${DATABASE_URL}''\<rparr>\<rparr>))
           in case validate ct c of Some e \<Rightarrow> Inl (''invalid default configuration: '' @ e) | None \<Rightarrow> Inr c)
      | ReadFailed e \<Rightarrow> Inl (''failed to read config file: '' @ e)
      | Contents x \<Rightarrow>
          (case unmarshal x of
             Inl e \<Rightarrow> Inl (''failed to parse config file: '' @ e)
           | Inr c0 \<Rightarrow>
               (let c = apply_defaults env (expand_env_vars env c0)
                in case validate ct c of Some e \<Rightarrow> Inl (''invalid configuration: '' @ e) | None \<Rightarrow> Inr c)))"

end
