(* ===== verification/Jev.thy ===== *)
theory Jev imports Judge_Llm Llm_Adapter begin

text \<open>
  The Jev scorer (\<open>internal/judge/jev.go\<close>): the request it sends, the classification
  of every answer for the breaker, and the score. Scores are the rational values of their
  \<open>float64\<close>; reading a literal and printing a float with \<open>%v\<close> are arguments.
  \<open>ctx.Err()\<close> of the caller is read when a transport failure is recorded and when the
  deferred latency sample is taken.
\<close>

subsection \<open>Printing floats\<close>

definition round_even :: "rat \<Rightarrow> int" where
  "round_even x = (let f = \<lfloor>x\<rfloor>; d = x - of_int f in
     if d < 1/2 then f else if 1/2 < d then f + 1 else if even f then f else f + 1)"

definition pad_left :: "nat \<Rightarrow> string \<Rightarrow> string" where
  "pad_left n s = replicate (n - length s) (CHR ''0'') @ s"

text \<open>The verb \<open>%.kf\<close>, for positive \<open>k\<close>: rounded to the nearest, ties to even.\<close>

definition fixed_point :: "nat \<Rightarrow> rat \<Rightarrow> string" where
  "fixed_point k q =
     (let n = nat (round_even (\<bar>q\<bar> * 10 ^ k)) in
      (if q < 0 then ''-'' else []) @ dec (n div 10 ^ k) @ ''.'' @ pad_left k (dec (n mod 10 ^ k)))"

subsection \<open>The evaluator\<close>

record jev =
  je_api_key :: string
  je_base_url :: string
  je_model :: string
  je_timeout :: int

record jev_env =
  jv_call :: call_env
  jv_parse_float :: "string \<Rightarrow> rat option"
  jv_show_float :: "rat \<Rightarrow> string"
  jv_ctx_at_failure :: "go_error option"
  jv_ctx_at_end :: "go_error option"

definition new_jev_evaluator :: "string \<Rightarrow> string \<Rightarrow> int \<Rightarrow> (int \<Rightarrow> string) \<Rightarrow> go_error + jev" where
  "new_jev_evaluator key model timeout show_duration =
     (if key = [] then Inl ''jev API key is required''
      else if timeout \<le> 0 then Inl (''jev timeout must be positive (got '' @ show_duration timeout @ '')'')
      else Inr \<lparr>je_api_key = key, je_base_url = ''https://api.typesafe.ai/v1/systemone'', je_model = model,
                je_timeout = timeout\<rparr>)"

definition jev_set_base_url :: "string \<Rightarrow> jev \<Rightarrow> jev" where
  "jev_set_base_url u j = j\<lparr>je_base_url := u\<rparr>"

definition jevViolatesQuestionKey :: string where "jevViolatesQuestionKey = ''violates_policy''"

definition jevInstructions :: string where
  "jevInstructions =
     ''Given the security policy and the HTTP request described in the state, does this request violate the policy? Answer true if the request should be DENIED, false if it should be ALLOWED.''"

text \<open>The request part is the judge's own JSON, put in as a raw message.\<close>

definition build_jev_state :: "mime_ops \<Rightarrow> string \<Rightarrow> string \<Rightarrow> string \<Rightarrow> header \<Rightarrow> string \<Rightarrow> string" where
  "build_jev_state mime policy meth url h body =
     json_text (JObj
       [(''policy'', JStr policy),
        (''request'', JObj (request_json mime meth url h body (hdr_get h ''Content-Type'')))])"

definition jev_request :: "jev \<Rightarrow> string \<Rightarrow> string" where
  "jev_request j state =
     json_text (JObj
       [(''state'', JStr state), (''model'', JStr (je_model j)),
        (''questions'', JObj [(jevViolatesQuestionKey,
           JObj [(''type'', JStr ''noul''), (''instructions'', JStr jevInstructions)])])])"

record jev_answer =
  jw_type :: string
  jw_noul :: "rat option"

record jev_response =
  jx_model :: string
  jx_answers :: "string \<rightharpoonup> jev_answer"
  jx_input_tokens :: int
  jx_output_tokens :: int

definition dec_noul :: "(string \<Rightarrow> rat option) \<Rightarrow> rat option dec" where
  "dec_noul pf v old = (case v of JNum n \<Rightarrow> map_option Some (pf n) | JNull \<Rightarrow> Some None | _ \<Rightarrow> None)"

definition dec_jev_answer :: "(string \<Rightarrow> rat option) \<Rightarrow> jev_answer dec" where
  "dec_jev_answer pf = dec_struct
     [(''type'', in_field jw_type (\<lambda>x a. a\<lparr>jw_type := x\<rparr>) dec_string),
      (''noul'', in_field jw_noul (\<lambda>x a. a\<lparr>jw_noul := x\<rparr>) (dec_noul pf))]"

definition dec_jev_response :: "(string \<Rightarrow> rat option) \<Rightarrow> jev_response dec" where
  "dec_jev_response pf = dec_struct
     [(''model'', in_field jx_model (\<lambda>x r. r\<lparr>jx_model := x\<rparr>) dec_string),
      (''answers'', in_field jx_answers (\<lambda>x r. r\<lparr>jx_answers := x\<rparr>)
         (dec_map (dec_jev_answer pf) \<lparr>jw_type = [], jw_noul = None\<rparr>)),
      (''usage'', dec_struct
         [(''input_tokens'', in_field jx_input_tokens (\<lambda>x r. r\<lparr>jx_input_tokens := x\<rparr>) dec_int),
          (''output_tokens'', in_field jx_output_tokens (\<lambda>x r. r\<lparr>jx_output_tokens := x\<rparr>) dec_int)])]"

definition empty_jev_response :: jev_response where
  "empty_jev_response = \<lparr>jx_model = [], jx_answers = Map.empty, jx_input_tokens = 0, jx_output_tokens = 0\<rparr>"

subsection \<open>Scoring\<close>

datatype breaker_record = RecFailure | RecCancellation | RecSuccess

definition apply_record :: "time \<Rightarrow> breaker_record \<Rightarrow> resilience \<Rightarrow> resilience \<times> cb_event list" where
  "apply_record now k r =
     (case k of RecFailure \<Rightarrow> record_failure now r | RecCancellation \<Rightarrow> record_cancellation r
      | RecSuccess \<Rightarrow> record_success r)"

definition transport_record :: "jev_env \<Rightarrow> breaker_record" where
  "transport_record env = (if jv_ctx_at_failure env = None then RecFailure else RecCancellation)"

text \<open>5xx, 429, 401 and 403 count against Jev; other statuses come from the request.\<close>

definition status_record :: "int \<Rightarrow> breaker_record" where
  "status_record code = (if 500 \<le> code \<or> code = 429 \<or> code = 401 \<or> code = 403 then RecFailure else RecCancellation)"

type_synonym score_result = "judge_result \<times> wrapped_error option"

text \<open>The answers of a decoded response: the result, and what is recorded.\<close>

definition read_answer :: "jev_env \<Rightarrow> jev_response \<Rightarrow> judge_result \<Rightarrow> score_result \<times> breaker_record" where
  "read_answer env resp partial0 =
     (let partial = partial0\<lparr>jr_input_tokens := jx_input_tokens resp, jr_output_tokens := jx_output_tokens resp\<rparr>;
          key = quote_str jevViolatesQuestionKey
      in case jx_answers resp jevViolatesQuestionKey of
           None \<Rightarrow> ((partial, Some (plain_error (''jev response missing answer for '' @ key))), RecFailure)
         | Some a \<Rightarrow>
             (case (if jw_type a \<noteq> ''noul'' then None else jw_noul a) of
                None \<Rightarrow>
                  ((partial, Some (plain_error (''jev answer for '' @ key @ '' is not a valid noul answer (type=''
                      @ quote_str (jw_type a) @ '')''))), RecFailure)
              | Some noul \<Rightarrow>
                  if noul < 0 \<or> 1 < noul then
                    ((partial, Some (plain_error (''jev answer for '' @ key @ '' has score outside [0,1]: ''
                        @ jv_show_float env noul))), RecFailure)
                  else
                    ((partial\<lparr>jr_score := Some noul,
                              jr_raw_output := ''jev noul p(violates)='' @ fixed_point 4 noul,
                              jr_reason := ''jev: p(violates)='' @ fixed_point 2 noul\<rparr>, None), RecSuccess)))"

definition jev_outcome :: "jev_env \<Rightarrow> http_outcome \<Rightarrow> judge_result \<Rightarrow> score_result \<times> breaker_record" where
  "jev_outcome env out partial =
     (case out of
        DoErr e \<Rightarrow> ((partial, Some (plain_error (''jev request failed: '' @ e))), transport_record env)
      | DoResp code body \<Rightarrow>
          if code \<noteq> 200
          then ((partial, Some (plain_error (''jev API error (status '' @ itoa code @ '')''))), status_record code)
          else (case decode_into (dec_jev_response (jv_parse_float env)) empty_jev_response body of
            None \<Rightarrow>
              ((partial, Some (plain_error (''failed to parse jev response: '' @ ce_json_error (jv_call env) body))),
               transport_record env)
          | Some resp \<Rightarrow> read_answer env resp partial))"

definition jev_score ::
    "mime_ops \<Rightarrow> jev \<Rightarrow> jev_env \<Rightarrow> string \<Rightarrow> string \<Rightarrow> header \<Rightarrow> string \<Rightarrow> llm_policy \<Rightarrow> resilience \<Rightarrow>
     score_result \<times> resilience \<times> cb_event list" where
  "jev_score mime j env meth url h body policy r =
     (let partial = empty_judge_result\<lparr>jr_model := je_model j\<rparr>;
          call = jv_call env;
          (err, r1, evs) = try_acquire (ce_now call) ''jev'' r
      in case err of
           Some e \<Rightarrow> ((partial, Some \<lparr>we_text = ''jev unavailable: '' @ e, we_wraps = [ErrJevUnavailable]\<rparr>), r1, evs)
         | None \<Rightarrow>
             (case ce_url_error call (je_base_url j) of
                Some e \<Rightarrow> ((partial, Some (plain_error (''failed to create jev request: '' @ e))), release r1, evs)
              | None \<Rightarrow>
                  (let out = ce_do call
                         \<lparr>og_url = je_base_url j,
                          og_header = [(''Content-Type'', [''application/json'']), (''Authorization'', [''Bearer '' @ je_api_key j])],
                          og_body = jev_request j (build_jev_state mime (lp_prompt policy) meth url h body),
                          og_timeout = je_timeout j\<rparr>;
                       (res, kind) = jev_outcome env out (partial\<lparr>jr_duration_ms := elapsed_ms call\<rparr>);
                       (r2, evs2) = apply_record (ce_after call) kind r1;
                       lat = (if jv_ctx_at_end env = None
                              then record_judge_latency (je_model j) (ce_elapsed call) r2 else [])
                   in (res, release r2, evs @ evs2 @ lat))))"

end
