(* ===== verification/Cascade.thy ===== *)
theory Cascade imports Jev begin

text \<open>
  The cascade (\<open>internal/judge/cascade.go\<close>): a fast Jev decision outside the uncertain
  band, the LLM inside it and whenever Jev fails. The scorer and the LLM evaluator are the
  two fields of the struct, \<open>None\<close> for nil. The caller's context is read after a Jev
  error and again before escalating. The result comes with the calls and observations made,
  in order.
\<close>

type_synonym scorer = "string \<Rightarrow> string \<Rightarrow> header \<Rightarrow> string \<Rightarrow> llm_policy \<Rightarrow> judge_result \<times> wrapped_error option"

record cascade =
  ca_primary :: "scorer option"
  ca_secondary :: "evaluator option"
  ca_allow_below :: rat
  ca_deny_above :: rat
  ca_observer :: bool

datatype cascade_event = Observed string | PrimaryCalled | SecondaryCalled

record ctx_reads =
  cx_after_score :: "go_error option"
  cx_escalate :: "go_error option"

definition JevCascadeDecidedBy :: string where "JevCascadeDecidedBy = ''jev+llm''"
definition JevCascadeAllow :: string where "JevCascadeAllow = ''allow''"
definition JevCascadeDeny :: string where "JevCascadeDeny = ''deny''"
definition JevCascadeEscalate :: string where "JevCascadeEscalate = ''escalate''"
definition JevCascadeError :: string where "JevCascadeError = ''error''"
definition JevCascadeSkipped :: string where "JevCascadeSkipped = ''skipped''"

definition cascade_observe :: "cascade \<Rightarrow> string \<Rightarrow> cascade_event list" where
  "cascade_observe c outc = (if ca_observer c then [Observed outc] else [])"

definition fold_jev :: "judge_result \<Rightarrow> wrapped_error option \<Rightarrow> judge_result \<times> go_error option \<Rightarrow> judge_result \<times> go_error option" where
  "fold_jev jev jevErr res_err =
     (let (res0, err) = res_err;
          res1 = (case err of
                    Some e \<Rightarrow> if jr_raw_output res0 = [] then res0\<lparr>jr_raw_output := e\<rparr> else res0
                  | None \<Rightarrow> res0);
          jraw = (case jevErr of
                    Some _ \<Rightarrow> ''jev: error, escalated to llm''
                  | None \<Rightarrow> ''jev noul p(violates)='' @ fixed_point 4 (the (jr_score jev)) @ '', escalated to llm'');
          raw = (if jr_raw_output res1 \<noteq> [] then jraw @ [CHR 0x0A] @ jr_raw_output res1 else jraw);
          model = (if jr_model jev \<noteq> [] \<and> jr_model res1 \<noteq> [] then jr_model jev @ '' + '' @ jr_model res1
                   else if jr_model jev \<noteq> [] then jr_model jev else jr_model res1)
      in (res1\<lparr>jr_raw_output := raw, jr_model := model,
               jr_duration_ms := jr_duration_ms res1 + jr_duration_ms jev,
               jr_input_tokens := jr_input_tokens res1 + jr_input_tokens jev,
               jr_output_tokens := jr_output_tokens res1 + jr_output_tokens jev,
               jr_decided_by := JevCascadeDecidedBy\<rparr>, err))"

definition cascade_escalate ::
    "ctx_reads \<Rightarrow> judge_result \<Rightarrow> wrapped_error option \<Rightarrow> (unit \<Rightarrow> judge_result \<times> go_error option) \<Rightarrow>
     (judge_result \<times> go_error option) \<times> cascade_event list" where
  "cascade_escalate cx jev jevErr llm =
     (case cx_escalate cx of
        Some e \<Rightarrow> ((empty_judge_result, Some e), [])
      | None \<Rightarrow> (fold_jev jev jevErr (llm ()), [SecondaryCalled]))"

definition cascade_evaluate ::
    "cascade \<Rightarrow> ctx_reads \<Rightarrow> string \<Rightarrow> string \<Rightarrow> header \<Rightarrow> string \<Rightarrow> llm_policy \<Rightarrow>
     (judge_result \<times> go_error option) \<times> cascade_event list" where
  "cascade_evaluate c cx meth url h body policy =
     (case ca_secondary c of
        None \<Rightarrow> ((empty_judge_result, Some ''jev cascade secondary evaluator is required''), [])
      | Some sec \<Rightarrow>
          (let llm = (\<lambda>_. sec meth url h body policy) in
           case ca_primary c of
             None \<Rightarrow> (llm (), cascade_observe c JevCascadeSkipped @ [SecondaryCalled])
           | Some pri \<Rightarrow>
               (let (primary, err0) = pri meth url h body policy;
                    err = (if err0 = None \<and> jr_score primary = None then Some (plain_error ''jev returned no score'') else err0)
                in case err of
                     Some e \<Rightarrow>
                       (case cx_after_score cx of
                          Some ce \<Rightarrow> ((empty_judge_result, Some ce), [PrimaryCalled])
                        | None \<Rightarrow>
                            if ErrJevUnavailable \<in> set (we_wraps e)
                            then (llm (), PrimaryCalled # cascade_observe c JevCascadeSkipped @ [SecondaryCalled])
                            else (let (res, evs) = cascade_escalate cx primary (Some e) llm
                                  in (res, PrimaryCalled # cascade_observe c JevCascadeError @ evs)))
                   | None \<Rightarrow>
                       (let noul = the (jr_score primary) in
                        if noul < ca_allow_below c then
                          ((primary\<lparr>jr_decision := DecisionAllow, jr_decided_by := ''jev'',
                             jr_reason := ''jev: p(violates)='' @ fixed_point 2 noul @ '' < allow_below=''
                               @ fixed_point 2 (ca_allow_below c)\<rparr>, None),
                           PrimaryCalled # cascade_observe c JevCascadeAllow)
                        else if ca_deny_above c \<le> noul then
                          ((primary\<lparr>jr_decision := DecisionDeny, jr_decided_by := ''jev'',
                             jr_reason := ''jev: p(violates)='' @ fixed_point 2 noul @ '' >= deny_above=''
                               @ fixed_point 2 (ca_deny_above c)\<rparr>, None),
                           PrimaryCalled # cascade_observe c JevCascadeDeny)
                        else
                          (let (res, evs) = cascade_escalate cx primary None llm
                           in (res, PrimaryCalled # cascade_observe c JevCascadeEscalate @ evs))))))"

end
