(* ===== verification/Gateway.thy ===== *)
theory Gateway imports Config Cascade Tls_Manager Rate_Limit Proxy_Handler Admin_Routes begin

text \<open>
  The wiring of the gateway (\<open>cmd/gateway/main.go\<close>, \<open>internal/proxy/proxy.go\<close>) up to
  its listeners: which adapters, judge, agent, alert service and stores a configuration gives,
  the proxy's handler, and the admin API. Opening the database, the AWS configuration of each
  Bedrock client, the files of the CA and the metrics registry are arguments that may fail. A Go
  interface that holds a nil pointer is told from a nil interface.
\<close>

subsection \<open>Adapters\<close>

datatype adapter_kind = BedrockAdapter | AnthropicAdapter | OpenAIAdapter

record llm_adapter =
  la_kind :: adapter_kind
  la_region :: string
  la_adapter :: adapter
  la_resilience :: resilience

text \<open>A value of the interface \<open>llm.Adapter\<close>.\<close>

datatype adapter_ref = NilAdapter | NilAdapterPointer adapter_kind | AdapterRef llm_adapter

text \<open>\<open>aws\<close> is the outcome of \<open>LoadDefaultConfig\<close> for a region.\<close>

definition new_bedrock_adapter ::
    "(string \<Rightarrow> go_error option) \<Rightarrow> string \<Rightarrow> string \<Rightarrow> int \<Rightarrow> resilience_option list \<Rightarrow> go_error + llm_adapter" where
  "new_bedrock_adapter aws model region timeout opts =
     (case aws region of
        Some e \<Rightarrow> Inl (''failed to load AWS config: '' @ e)
      | None \<Rightarrow> Inr \<lparr>la_kind = BedrockAdapter, la_region = region,
          la_adapter = \<lparr>ac_api_key = [], ac_model = model, ac_base_url = [], ac_timeout = timeout\<rparr>,
          la_resilience = new_resilience opts\<rparr>)"

definition with_base_url :: "adapter_kind \<Rightarrow> string \<Rightarrow> resilience_option list \<Rightarrow> go_error + adapter \<Rightarrow> adapter_ref \<times> go_error option" where
  "with_base_url kind url opts made =
     (case made of
        Inl e \<Rightarrow> (NilAdapter, Some e)
      | Inr a \<Rightarrow> (AdapterRef \<lparr>la_kind = kind, la_region = [], la_adapter = (if url = [] then a else set_base_url url a),
                             la_resilience = new_resilience opts\<rparr>, None))"

text \<open>
  \<open>newLLMAdapter\<close>. The Bedrock constructor's two results are returned as they are, so its nil
  pointer becomes an interface that is not nil.
\<close>

definition new_llm_adapter ::
    "(string \<Rightarrow> go_error option) \<Rightarrow> llm_judge_config \<Rightarrow> string \<Rightarrow> int \<Rightarrow> resilience_option list \<Rightarrow> adapter_ref \<times> go_error option" where
  "new_llm_adapter aws l model timeout opts =
     (if lj_provider l = ''bedrock-anthropic'' \<or> lj_provider l = [] then
        (case new_bedrock_adapter aws model (lj_bedrock_aws_region l) timeout opts of
           Inl e \<Rightarrow> (NilAdapterPointer BedrockAdapter, Some e)
         | Inr a \<Rightarrow> (AdapterRef a, None))
      else if lj_provider l = ''anthropic'' then
        with_base_url AnthropicAdapter (lj_anthropic_base_url l) opts (new_anthropic_adapter model (lj_anthropic_api_key l) timeout)
      else if lj_provider l = ''openai'' then
        with_base_url OpenAIAdapter (lj_openai_base_url l) opts (new_openai_adapter model (lj_openai_api_key l) timeout)
      else (NilAdapter, Some (''unknown LLM provider: '' @ quote_str (lj_provider l))))"

text \<open>\<open>Complete\<close> of the interface, on the breaker's current state.\<close>

definition complete_with :: "llm_adapter \<Rightarrow> call_env \<Rightarrow> llm_request \<Rightarrow> resilience \<Rightarrow> call_result" where
  "complete_with a =
     (case la_kind a of
        BedrockAdapter \<Rightarrow> bedrock_complete (la_adapter a)
      | AnthropicAdapter \<Rightarrow> anthropic_complete (la_adapter a)
      | OpenAIAdapter \<Rightarrow> openai_complete (la_adapter a))"

subsection \<open>The live judge\<close>

datatype judge_spec = JudgeAlone llm_adapter | JudgeBehindJev jev resilience float64 float64 llm_adapter

text \<open>
  What one decision meets: how the calls of the two adapters end and the state of their
  breakers, and the caller's context.
\<close>

record live_env =
  li_mime :: mime_ops
  li_json_error :: "string \<Rightarrow> string"
  li_call :: call_env
  li_breaker :: resilience
  li_jev :: jev_env
  li_jev_breaker :: resilience
  li_ctx :: ctx_reads

definition live_ask :: "live_env \<Rightarrow> llm_adapter \<Rightarrow> completer" where
  "live_ask le a q = fst (complete_with a (li_call le) q (li_breaker le))"

definition live_judge :: "live_env \<Rightarrow> llm_adapter \<Rightarrow> evaluator" where
  "live_judge le a = llm_evaluate (li_mime le) (li_json_error le) (model_id (la_adapter a)) (live_ask le a)"

definition live_scorer :: "live_env \<Rightarrow> jev \<Rightarrow> scorer" where
  "live_scorer le j meth url h body policy = fst (jev_score (li_mime le) j (li_jev le) meth url h body policy (li_jev_breaker le))"

text \<open>Thresholds of a validated configuration are numbers.\<close>

definition threshold :: "float64 \<Rightarrow> rat" where
  "threshold x = (case x of Num q \<Rightarrow> q | _ \<Rightarrow> 0)"

definition live_cascade :: "live_env \<Rightarrow> jev \<Rightarrow> float64 \<Rightarrow> float64 \<Rightarrow> llm_adapter \<Rightarrow> cascade" where
  "live_cascade le j lo hi a =
     \<lparr>ca_primary = Some (live_scorer le j), ca_secondary = Some (live_judge le a), ca_allow_below = threshold lo,
      ca_deny_above = threshold hi, ca_observer = True\<rparr>"

fun live_evaluator :: "live_env \<Rightarrow> judge_spec \<Rightarrow> evaluator" where
  "live_evaluator le (JudgeAlone a) = live_judge le a"
| "live_evaluator le (JudgeBehindJev j r lo hi a) =
     (\<lambda>meth url h body policy. fst (cascade_evaluate (live_cascade le j lo hi a) (li_ctx le) meth url h body policy))"

subsection \<open>What starting meets and how it fails\<close>

record 'w startup_env =
  se_env :: environ
  se_text :: config_text
  se_open_db :: "string \<Rightarrow> int \<Rightarrow> int \<Rightarrow> go_error option"
  se_migrate :: "go_error option"
  se_metrics :: "go_error option"
  se_dir_of :: "string \<Rightarrow> string"
  se_generated :: "ca_pair result"
  se_load_ca :: "string \<Rightarrow> string \<Rightarrow> fsys \<Rightarrow> go_error option \<times> fsys"
  se_open_file :: "string \<Rightarrow> go_error option"
  se_aws :: "nat \<Rightarrow> string \<Rightarrow> go_error option"
  se_alert_ask :: "llm_adapter \<Rightarrow> completer"
  se_slack_client :: "outgoing \<Rightarrow> http_outcome"
  se_json_error :: "string \<Rightarrow> string"
  se_agent :: "adapter_ref \<times> adapter_ref \<Rightarrow> agent_env"
  se_sse_channel :: "'w channel"
  se_alert_channel :: "alert_service \<Rightarrow> 'w channel"

datatype startup_failure =
    ConfigFailed go_error | NoDatabaseURL | DatabaseFailed go_error | MigrationsFailed go_error
  | ProxyFailed go_error | AdapterFailed go_error | JevFailed go_error

subsection \<open>The judge, the agent and the alerts\<close>

definition judge_options :: "llm_judge_config \<Rightarrow> string \<Rightarrow> resilience_option list" where
  "judge_options l provider =
     [WithMaxConcurrency (lj_max_concurrency l),
      WithCircuitBreaker (lj_circuit_breaker_threshold l) (lj_circuit_breaker_cooldown l), WithObserver True provider]"

definition new_live_judge ::
    "(int \<Rightarrow> string) \<Rightarrow> llm_judge_config \<Rightarrow> llm_adapter \<Rightarrow> startup_failure + judge_spec" where
  "new_live_judge show_duration l a =
     (let c = lj_jev l in
      if \<not> jc_enabled c then Inr (JudgeAlone a)
      else case new_jev_evaluator (jc_api_key c) (jc_model c) (jc_timeout c) show_duration of
        Inl e \<Rightarrow> Inl (JevFailed e)
      | Inr j \<Rightarrow>
          Inr (JudgeBehindJev (if jc_base_url c = [] then j else jev_set_base_url (jc_base_url c) j)
            (new_resilience (judge_options l ''jev'')) (allow_below c) (deny_above c) a))"

text \<open>
  The live judge, and the adapters of the policy agent when both interfaces are not nil. The
  constructions are numbered in the order of the code. A construction without an error gives an
  adapter, so the last case does not arise.
\<close>

definition wire_judge ::
    "'w startup_env \<Rightarrow> llm_judge_config \<Rightarrow> startup_failure + (judge_spec option \<times> (adapter_ref \<times> adapter_ref) option)" where
  "wire_judge se l =
     (if \<not> lj_enabled l then Inr (None, None)
      else case new_llm_adapter (se_aws se 0) l (lj_eval_model l) (lj_timeout l) (judge_options l (lj_provider l)) of
        (_, Some e) \<Rightarrow> Inl (AdapterFailed e)
      | (AdapterRef a, None) \<Rightarrow>
          (case new_live_judge (ct_show_duration (se_text se)) l a of
             Inl e \<Rightarrow> Inl e
           | Inr j \<Rightarrow>
               (let fast = fst (new_llm_adapter (se_aws se 1) l (lj_fast_model l) (lj_timeout l) []);
                    thinking = fst (new_llm_adapter (se_aws se 2) l (lj_thinking_model l) (300 * second) [])
                in Inr (Some j, if fast \<noteq> NilAdapter \<and> thinking \<noteq> NilAdapter then Some (fast, thinking) else None)))
      | _ \<Rightarrow> Inl (AdapterFailed []))"

definition new_service :: "summarizer \<Rightarrow> time \<Rightarrow> alert_service" where
  "new_service summarizer batchWait =
     \<lparr>as_senders = [], as_summarizer = summarizer, as_batch_wait = batchWait, as_metrics = False\<rparr>"

definition wire_alerts :: "'w startup_env \<Rightarrow> config \<Rightarrow> alert_service option" where
  "wire_alerts se c =
     (let g = cf_alerting c; l = cf_llm_judge c in
      if gc_enabled g \<and> lj_enabled l then
        (case new_llm_adapter (se_aws se 3) l (lj_fast_model l) (lj_timeout l) [] of
           (AdapterRef a, None) \<Rightarrow>
             (let window = (if gc_batch_window g = 0 then 300 * second else gc_batch_window g);
                  token = expand (se_env se) (gc_slack_bot_token g)
              in if token = [] then None
                 else Some (register_sender ''slack'' (slack_send (se_slack_client se) (se_json_error se) token)
                   ((new_service (summarize (Some (se_alert_ask se a)) (se_json_error se)) window)\<lparr>as_metrics := True\<rparr>)))
         | _ \<Rightarrow> None)
      else None)"

subsection \<open>The proxy server\<close>

record 'c proxy_server =
  ps_config :: config
  ps_tls :: "'c tls_manager"
  ps_logger :: logger
  ps_llm_writer :: "(llm_response \<Rightarrow> string result) option"
  ps_rate_limit_observer :: bool

definition new_server :: "'w startup_env \<Rightarrow> config \<Rightarrow> fsys \<Rightarrow> 'c proxy_server result \<times> fsys" where
  "new_server se c s =
     (let t = cf_tls c in
      case ensure_ca_certificate (se_dir_of se) (se_generated se) (tc_ca_cert_path t) (tc_ca_key_path t) s of
        (Some e, s1) \<Rightarrow> (Inl (''CA certificate setup: '' @ e), s1)
      | (None, s1) \<Rightarrow>
          (case se_load_ca se (tc_ca_cert_path t) (tc_ca_key_path t) s1 of
             (Some e, s2) \<Rightarrow> (Inl (''failed to create TLS manager: '' @ e), s2)
           | (None, s2) \<Rightarrow>
               (let tm = new_tls_manager (tc_ca_cert_path t);
                    n = tc_max_cert_cache_size t
                in case new_logger (se_open_file se) (uc_output (cf_audit c)) of
                     Inl e \<Rightarrow> (Inl (''failed to create audit logger: '' @ e), s2)
                   | Inr lg \<Rightarrow>
                       (Inr \<lparr>ps_config = c, ps_tls = (if 0 < n then set_max_cert_cache_size n tm else tm), ps_logger = lg,
                             ps_llm_writer = None, ps_rate_limit_observer = False\<rparr>, s2))))"

definition set_llm_response_writer :: "(llm_response \<Rightarrow> string result) \<Rightarrow> 'c proxy_server \<Rightarrow> 'c proxy_server" where
  "set_llm_response_writer w ps = ps\<lparr>ps_llm_writer := Some w\<rparr>"

definition set_rate_limit_observer :: "bool \<Rightarrow> 'c proxy_server \<Rightarrow> 'c proxy_server" where
  "set_rate_limit_observer obs ps = ps\<lparr>ps_rate_limit_observer := obs\<rparr>"

definition set_logger_dispatcher :: "'c proxy_server \<Rightarrow> 'c proxy_server" where
  "set_logger_dispatcher ps = ps\<lparr>ps_logger := set_dispatcher (ps_logger ps)\<rparr>"

text \<open>What the handler is given besides the configuration; the client is the one of \<open>initClient\<close>.\<close>

record handler_parts =
  hp_resolver :: "user_resolver option"
  hp_audit_reader :: bool
  hp_decoders :: decoders
  hp_new_request :: "string \<Rightarrow> string \<Rightarrow> go_error option"
  hp_do :: "http_request \<Rightarrow> http_response result"

definition new_handler :: "handler_parts \<Rightarrow> manager \<Rightarrow> bool \<Rightarrow> handler" where
  "new_handler hp m insecure =
     \<lparr>hd_manager = m, hd_resolver = hp_resolver hp, hd_audit_reader = hp_audit_reader hp, hd_llm_writer = None,
      hd_decoders = hp_decoders hp, hd_new_request = hp_new_request hp, hd_do = hp_do hp, hd_allowed_private_cidrs = [],
      hd_insecure_skip_upstream_verify = insecure, hd_insecure_skip_verify_hosts = []\<rparr>"

text \<open>
  \<open>initClient\<close>: what the transport of the client keeps of the handler when it is made,
  namely the networks and the global switch; with a list of hosts its TLS connections are dialled
  by the handler's own function.
\<close>

record transport =
  tp_allowed_cidrs :: "ipnet list"
  tp_dial_tls :: bool
  tp_insecure :: bool

definition init_client :: "handler \<Rightarrow> transport" where
  "init_client h =
     \<lparr>tp_allowed_cidrs = hd_allowed_private_cidrs h, tp_dial_tls = (hd_insecure_skip_verify_hosts h \<noteq> []),
      tp_insecure = hd_insecure_skip_upstream_verify h\<rparr>"

text \<open>
  A connection of the transport, to the address of a request's host: \<open>handshake\<close> is
  given the dialled connection, whether the certificate goes unverified, and the server's name.
\<close>

definition upstream_connect ::
    "resolver \<Rightarrow> (string \<Rightarrow> string \<Rightarrow> 'n result) \<Rightarrow> ('n \<Rightarrow> bool \<Rightarrow> string \<Rightarrow> 'n result) \<Rightarrow>
     handler \<Rightarrow> transport \<Rightarrow> bool \<Rightarrow> string \<Rightarrow> 'n result" where
  "upstream_connect lookup dial handshake h tp secure addr =
     (case safe_dial_context lookup dial ''tcp'' addr (tp_allowed_cidrs tp) of
        Inl e \<Rightarrow> Inl e
      | Inr conn \<Rightarrow>
          if \<not> secure then Inr conn
          else (let (host, port) = (case split_host_port addr of Inl _ \<Rightarrow> ([], []) | Inr hp \<Rightarrow> hp) in
                handshake conn (if tp_dial_tls tp then should_skip_tls_verify h host port else tp_insecure tp) host))"

text \<open>The loop over the CIDRs: the networks, or the error of the first that does not parse.\<close>

fun append_cidrs :: "(string \<Rightarrow> ipnet result) \<Rightarrow> string list \<Rightarrow> handler \<Rightarrow> handler result" where
  "append_cidrs parse [] h = Inr h"
| "append_cidrs parse (s # ss) h =
     (case parse s of
        Inl e \<Rightarrow> Inl (''bad allowed CIDR '' @ quote_str s @ '': '' @ e)
      | Inr n \<Rightarrow> append_cidrs parse ss (h\<lparr>hd_allowed_private_cidrs := hd_allowed_private_cidrs h @ [n]\<rparr>))"

record http_server =
  hs_addr :: string
  hs_read_timeout :: int
  hs_write_timeout :: int
  hs_idle_timeout :: int

record 'l listening =
  ln_handler :: handler
  ln_client :: transport
  ln_limiter :: "'l ip_rate_limiter option"
  ln_server :: http_server

text \<open>\<open>Start\<close> up to \<open>ListenAndServe\<close>. The client is made again after each change it depends on.\<close>

definition start_server :: "config_text \<Rightarrow> handler_parts \<Rightarrow> manager \<Rightarrow> 'c proxy_server \<Rightarrow> 'l listening result" where
  "start_server ct hp m ps =
     (let p = cf_proxy (ps_config ps);
          h0 = new_handler hp m (pc_insecure_skip_upstream_verify p);
          hosts = map to_lower (pc_insecure_skip_verify_hosts p);
          h1 = (if hosts \<noteq> [] then h0\<lparr>hd_insecure_skip_verify_hosts := hosts\<rparr> else h0);
          client = init_client h1;
          limiter = (case pc_rate_limit_per_ip p of
             None \<Rightarrow> None
           | Some n \<Rightarrow> if 0 < n then Some (rl_set_observer (ps_rate_limit_observer ps) (new_ip_rate_limiter (of_int n) (pc_rate_limit_burst p)))
                       else None)
      in case append_cidrs (ct_parse_cidr ct) (pc_allowed_private_cidrs p) (h1\<lparr>hd_llm_writer := ps_llm_writer ps\<rparr>) of
           Inl e \<Rightarrow> Inl e
         | Inr h \<Rightarrow> Inr \<lparr>ln_handler = h, ln_client = (if pc_allowed_private_cidrs p \<noteq> [] then init_client h else client), ln_limiter = limiter,
             ln_server = \<lparr>hs_addr = '':'' @ itoa (pc_port p), hs_read_timeout = pc_read_timeout p,
               hs_write_timeout = pc_write_timeout p, hs_idle_timeout = pc_idle_timeout p\<rparr>\<rparr>)"

subsection \<open>The admin API\<close>

text \<open>A pointer assigned to a field of an interface type: nil makes an interface that is not nil.\<close>

definition as_interface :: "'a option \<Rightarrow> store_ref" where
  "as_interface p = (case p of None \<Rightarrow> NilPointer | Some _ \<Rightarrow> StoreRef)"

record admin_api_config =
  aa_token_validator :: store_ref
  aa_user_store :: store_ref
  aa_policy_store :: store_ref
  aa_eval_store :: store_ref
  aa_llm_judge :: bool
  aa_agent :: "agent_env option"
  aa_alert_store :: store_ref
  aa_alert_service :: "alert_service option"
  aa_port :: int
  aa_secure_cookie :: bool

definition new_api :: "bool \<Rightarrow> bool \<Rightarrow> api" where
  "new_api tokens users =
     \<lparr>ap_token_validator = tokens, ap_user_store = users, ap_policy_store = False, ap_eval_store = False, ap_eval_judge = False,
      ap_notification_store = NilInterface, ap_agent = None, ap_alerts = None, ap_secure_cookie = False, ap_run_cancels = []\<rparr>"

definition set_eval_runner :: "api \<Rightarrow> api" where "set_eval_runner a = a\<lparr>ap_eval_store := True, ap_eval_judge := True\<rparr>"

definition start_admin_api :: "admin_api_config \<Rightarrow> api \<times> http_server" where
  "start_admin_api aa =
     (let a0 = new_api (aa_token_validator aa \<noteq> NilInterface) (aa_user_store aa \<noteq> NilInterface);
          a1 = (if aa_policy_store aa \<noteq> NilInterface then a0\<lparr>ap_policy_store := True\<rparr> else a0);
          a2 = (if aa_eval_store aa \<noteq> NilInterface \<and> aa_llm_judge aa then set_eval_runner a1 else a1);
          a3 = (if aa_agent aa \<noteq> None then a2\<lparr>ap_agent := aa_agent aa\<rparr> else a2);
          a4 = (if aa_alert_store aa \<noteq> NilInterface then a3\<lparr>ap_notification_store := aa_alert_store aa\<rparr> else a3);
          a5 = (if aa_alert_service aa \<noteq> None then a4\<lparr>ap_alerts := aa_alert_service aa\<rparr> else a4)
      in (a5\<lparr>ap_secure_cookie := aa_secure_cookie aa\<rparr>,
          \<lparr>hs_addr = '':'' @ itoa (aa_port aa), hs_read_timeout = 120 * second, hs_write_timeout = 600 * second,
           hs_idle_timeout = 120 * second\<rparr>))"

subsection \<open>Starting\<close>

text \<open>\<open>initMetrics\<close>: a registry, or the nil one that ignores every call.\<close>

definition init_metrics :: "go_error option \<Rightarrow> metrics_config \<Rightarrow> bool" where
  "init_metrics made m = (mc_enabled m \<and> made = None)"

definition start_metrics_server :: "metrics_config \<Rightarrow> http_server" where
  "start_metrics_server m =
     \<lparr>hs_addr = mc_listen m, hs_read_timeout = 10 * second, hs_write_timeout = 30 * second, hs_idle_timeout = 60 * second\<rparr>"

record ('c, 'w) gateway =
  gw_config :: config
  gw_debug :: bool
  gw_proxy :: "'c proxy_server"
  gw_judge :: "judge_spec option"
  gw_agent :: "(adapter_ref \<times> adapter_ref) option"
  gw_alerts :: "alert_service option"
  gw_channels :: "'w dispatcher"
  gw_api :: api
  gw_admin_server :: http_server
  gw_metrics_server :: "http_server option"

definition wire_dispatcher :: "'w startup_env \<Rightarrow> alert_service option \<Rightarrow> 'w dispatcher" where
  "wire_dispatcher se alerts =
     (let d = register_channel ''web'' (se_sse_channel se) []
      in case alerts of None \<Rightarrow> d | Some s \<Rightarrow> register_channel ''alerting'' (se_alert_channel se s) d)"

definition admin_config ::
    "config \<Rightarrow> judge_spec option \<Rightarrow> agent_env option \<Rightarrow> alert_service option \<Rightarrow> admin_api_config" where
  "admin_config c judge agent alerts =
     \<lparr>aa_token_validator = StoreRef, aa_user_store = StoreRef, aa_policy_store = StoreRef, aa_eval_store = StoreRef,
      aa_llm_judge = (judge \<noteq> None), aa_agent = agent, aa_alert_store = as_interface alerts, aa_alert_service = alerts,
      aa_port = 8081, aa_secure_cookie = cf_secure_cookie c\<rparr>"

text \<open>
  \<open>main\<close> from a loaded configuration to the listeners. The alert store and the alert
  service are made together. \<open>writer\<close> is the evaluation store's \<open>CreateLLMResponse\<close>.
\<close>

definition boot ::
    "'w startup_env \<Rightarrow> (llm_response \<Rightarrow> string result) \<Rightarrow> config \<Rightarrow> fsys \<Rightarrow>
     (startup_failure + ('c, 'w) gateway) \<times> fsys" where
  "boot se writer c s =
     (let d = cf_database c; registry = init_metrics (se_metrics se) (cf_metrics c) in
      if dc_url d = [] then (Inl NoDatabaseURL, s)
      else case se_open_db se (dc_url d) (dc_max_conns d) (dc_min_conns d) of
        Some e \<Rightarrow> (Inl (DatabaseFailed e), s)
      | None \<Rightarrow>
          (case se_migrate se of
             Some e \<Rightarrow> (Inl (MigrationsFailed e), s)
           | None \<Rightarrow>
               (case new_server se c s of
                  (Inl e, s1) \<Rightarrow> (Inl (ProxyFailed e), s1)
                | (Inr ps, s1) \<Rightarrow>
                    (case wire_judge se (cf_llm_judge c) of
                       Inl e \<Rightarrow> (Inl e, s1)
                     | Inr (judge, agent) \<Rightarrow>
                         (let alerts = wire_alerts se c;
                              (api, admin) = start_admin_api (admin_config c judge (map_option (se_agent se) agent) alerts)
                          in (Inr \<lparr>gw_config = c, gw_debug = (cf_log_level c = ''debug''),
                                gw_proxy = set_logger_dispatcher (set_rate_limit_observer True (set_llm_response_writer writer ps)),
                                gw_judge = judge, gw_agent = agent, gw_alerts = alerts, gw_channels = wire_dispatcher se alerts,
                                gw_api = api, gw_admin_server = admin,
                                gw_metrics_server = (if registry then Some (start_metrics_server (cf_metrics c)) else None)\<rparr>, s1))))))"

definition main_gateway ::
    "'w startup_env \<Rightarrow> (string \<Rightarrow> config result) \<Rightarrow> file_read \<Rightarrow> (llm_response \<Rightarrow> string result) \<Rightarrow> fsys \<Rightarrow>
     (startup_failure + ('c, 'w) gateway) \<times> fsys" where
  "main_gateway se unmarshal file writer s =
     (case load_config (se_text se) unmarshal (se_env se) file of
        Inl e \<Rightarrow> (Inl (ConfigFailed e), s)
      | Inr c \<Rightarrow> boot se writer c s)"

text \<open>The approval manager the code configures step by step, at a decision that meets \<open>le\<close>.\<close>

definition gateway_manager :: "live_env \<Rightarrow> ('c, 'w) gateway \<Rightarrow> manager" where
  "gateway_manager le g =
     (let mode = vc_mode (cf_approval (gw_config g)); l = cf_llm_judge (gw_config g);
          m = set_observer True (set_mode mode new_manager)
      in case gw_judge g of
           None \<Rightarrow> m
         | Some j \<Rightarrow> set_judge (Some (live_evaluator le j)) mode (lj_fallback_mode l) m)"

subsection \<open>The first administrator\<close>

definition upsert_admin :: "time \<Rightarrow> string \<Rightarrow> database \<Rightarrow> unit result \<times> database" where
  "upsert_admin now uid d =
     (Inr (),
      if find_user uid d = None
      then d\<lparr>db_users := db_users d @ [\<lparr>ur_id = uid, ur_is_admin = True, ur_role = ''admin'', ur_policy_id = None,
             ur_created_at = now, ur_updated_at = now\<rparr>]\<rparr>
      else d\<lparr>db_users := map (\<lambda>u. if ur_id u = uid then u\<lparr>ur_is_admin := True, ur_role := ''admin'', ur_updated_at := now\<rparr> else u)
             (db_users d)\<rparr>)"

text \<open>\<open>runCreateAdminUser\<close> after the connection: the printed user and token, or the failure.\<close>

definition create_admin_user :: "time \<Rightarrow> string \<Rightarrow> string \<Rightarrow> string \<Rightarrow> (string \<times> string) sql" where
  "create_admin_user now chanID token uid =
     sbind
       (transaction
         (sbind (swrap ''failed to upsert user: '' (exec (upsert_admin now uid))) (\<lambda>_.
          swrap ''failed to upsert web channel: '' (exec (upsert_channel chanID uid ''web'' [''web_token'' \<mapsto> token])))))
       (\<lambda>_. sreturn (uid, token))"

text \<open>The checks before it: an argument, and \<open>DATABASE_URL\<close>.\<close>

definition run_create_admin_user ::
    "environ \<Rightarrow> (string \<Rightarrow> go_error option) \<Rightarrow> go_error option \<Rightarrow> string result \<Rightarrow> time \<Rightarrow> string \<Rightarrow> string list \<Rightarrow>
     conn \<Rightarrow> (string \<times> string) result \<times> conn" where
  "run_create_admin_user env open_db migrate token now chanID args c =
     (case args of
        [] \<Rightarrow> (Inl ''usage: gateway create-admin-user <user-id>'', c)
      | uid # _ \<Rightarrow>
          (let dsn = getenv env ''DATABASE_URL'' in
           if dsn = [] then (Inl ''DATABASE_URL environment variable is required'', c)
           else case open_db dsn of
             Some e \<Rightarrow> (Inl (''failed to connect: '' @ e), c)
           | None \<Rightarrow>
               (case migrate of
                  Some e \<Rightarrow> (Inl (''failed to migrate: '' @ e), c)
                | None \<Rightarrow>
                    (case token of
                       Inl e \<Rightarrow> (Inl (''failed to generate token: '' @ e), c)
                     | Inr t \<Rightarrow> create_admin_user now chanID t uid c))))"

end
