(* ===== verification/Config_Props.thy ===== *)
theory Config_Props imports Config begin

text \<open>
  What holds of every configuration the gateway starts with, and of the expansion of
  environment references.
\<close>

subsection \<open>The complaints of a validation\<close>

lemma first_error_None: "first_error es = None \<longleftrightarrow> (\<forall>(bad, msg) \<in> set es. \<not> bad)"
  by (induction es rule: first_error.induct) auto

lemma validate_cidrs_None: "validate_cidrs ct ss = None \<longleftrightarrow> (\<forall>s \<in> set ss. \<exists>n. ct_parse_cidr ct s = Inr n)"
  by (induction ss) (auto split: sum.splits)

lemma float_in_unit: "\<not> outside_unit x \<longleftrightarrow> (\<exists>q. x = Num q \<and> 0 \<le> q \<and> q \<le> 1)"
  by (cases x) (auto simp: outside_unit_def float_less_def)

subsection \<open>What a loaded configuration promises\<close>

definition provider_usable :: "llm_judge_config \<Rightarrow> bool" where
  "provider_usable l \<longleftrightarrow>
     lj_provider l = ''bedrock-anthropic'' \<or> lj_provider l = ''anthropic'' \<and> lj_anthropic_api_key l \<noteq> [] \<or>
     lj_provider l = ''openai'' \<and> lj_openai_api_key l \<noteq> []"

definition judge_consistent :: "config \<Rightarrow> bool" where
  "judge_consistent c \<longleftrightarrow>
     vc_mode (cf_approval c) \<in> {''llm'', ''passthrough''} \<and>
     (vc_mode (cf_approval c) = ''llm'' \<longrightarrow> lj_enabled (cf_llm_judge c)) \<and>
     lj_fallback_mode (cf_llm_judge c) \<in> {''deny'', ''passthrough''} \<and>
     (lj_enabled (cf_llm_judge c) \<longrightarrow> provider_usable (cf_llm_judge c))"

text \<open>The cascade's band is a band: two numbers of the unit interval, in order.\<close>

definition jev_consistent :: "llm_judge_config \<Rightarrow> bool" where
  "jev_consistent l \<longleftrightarrow>
     (jc_enabled (lj_jev l) \<longrightarrow>
        lj_enabled l \<and> jc_api_key (lj_jev l) \<noteq> [] \<and> 0 < jc_timeout (lj_jev l) \<and>
        (\<exists>lo hi. jc_allow_below (lj_jev l) = Some (Num lo) \<and> jc_deny_above (lj_jev l) = Some (Num hi) \<and>
           0 \<le> lo \<and> lo \<le> hi \<and> hi \<le> 1))"

definition proxy_consistent :: "config_text \<Rightarrow> proxy_config \<Rightarrow> bool" where
  "proxy_consistent ct p \<longleftrightarrow>
     1 \<le> pc_port p \<and> pc_port p \<le> 65535 \<and>
     (\<forall>s \<in> set (pc_allowed_private_cidrs p). \<exists>n. ct_parse_cidr ct s = Inr n) \<and> [] \<notin> set (pc_insecure_skip_verify_hosts p) \<and>
     (\<exists>rate. pc_rate_limit_per_ip p = Some rate \<and> 0 \<le> rate \<and> (0 < rate \<longrightarrow> 0 < pc_rate_limit_burst p))"

lemma validate_cases:
  "validate ct c = None \<longleftrightarrow>
     1 \<le> pc_port (cf_proxy c) \<and> pc_port (cf_proxy c) \<le> 65535 \<and> tc_ca_cert_path (cf_tls c) \<noteq> [] \<and> tc_ca_key_path (cf_tls c) \<noteq> [] \<and>
     cf_log_level c \<in> {[], ''debug'', ''info'', ''warn'', ''error''} \<and> uc_format (cf_audit c) = ''json'' \<and>
     vc_mode (cf_approval c) \<in> {''llm'', ''passthrough''} \<and> (vc_mode (cf_approval c) = ''llm'' \<longrightarrow> lj_enabled (cf_llm_judge c)) \<and>
     lj_fallback_mode (cf_llm_judge c) \<in> {[], ''deny'', ''passthrough''} \<and>
     validate_judge ct (cf_llm_judge c) = None \<and> validate_proxy ct (cf_proxy c) = None \<and> validate_metrics (cf_metrics c) = None"
  unfolding validate_def Let_def by (auto simp: first_error_None split: option.splits)

lemma validate_jev_None:
  "validate_jev ct j = None \<longleftrightarrow>
     jc_api_key j \<noteq> [] \<and> 0 \<le> jc_timeout j \<and>
     (\<exists>lo hi. allow_below j = Num lo \<and> deny_above j = Num hi \<and> 0 \<le> lo \<and> lo \<le> hi \<and> hi \<le> 1)"
proof -
  have "validate_jev ct j = None \<longleftrightarrow>
      jc_api_key j \<noteq> [] \<and> 0 \<le> jc_timeout j \<and> \<not> outside_unit (allow_below j) \<and> \<not> outside_unit (deny_above j) \<and>
      \<not> float_less (deny_above j) (allow_below j)"
    unfolding validate_jev_def Let_def by (auto simp: first_error_None)
  then show ?thesis unfolding float_in_unit by (auto simp: float_less_def)
qed

lemma validate_judge_None:
  "validate_judge ct l = None \<longleftrightarrow>
     (if lj_enabled l then (provider_usable l \<or> lj_provider l = []) \<and> (jc_enabled (lj_jev l) \<longrightarrow> validate_jev ct (lj_jev l) = None)
      else \<not> jc_enabled (lj_jev l))"
  unfolding validate_judge_def provider_usable_def by (auto split: option.splits if_splits)

lemma validate_proxy_None:
  "validate_proxy ct p = None \<longleftrightarrow>
     (\<forall>s \<in> set (pc_allowed_private_cidrs p). \<exists>n. ct_parse_cidr ct s = Inr n) \<and> [] \<notin> set (pc_insecure_skip_verify_hosts p) \<and>
     (case pc_rate_limit_per_ip p of None \<Rightarrow> True | Some n \<Rightarrow> 0 \<le> n) \<and> 0 \<le> pc_rate_limit_burst p"
  unfolding validate_proxy_def Let_def validate_cidrs_None [symmetric]
  by (auto simp: first_error_None split: option.splits)

subsection \<open>What the defaults leave\<close>

lemma defaulted [simp]:
  "cf_proxy (apply_defaults env c) = default_proxy (cf_proxy c)"
  "cf_llm_judge (apply_defaults env c) = default_judge env (vc_mode (cf_approval c) = []) (cf_llm_judge c)"
  "vc_mode (cf_approval (apply_defaults env c)) = or_default [] ''llm'' (vc_mode (cf_approval c))"
  "cf_database (apply_defaults env c) =
     (cf_database c)\<lparr>dc_max_conns := or_default 0 10 (dc_max_conns (cf_database c)), dc_min_conns := or_default 0 2 (dc_min_conns (cf_database c))\<rparr>"
  by (simp_all add: apply_defaults_def Let_def)

lemma or_default_zero [simp]: "or_default z d x = z \<longleftrightarrow> x = z \<and> d = z"
  by (simp add: or_default_def)

lemma default_judge_sets:
  "lj_provider (default_judge env b l) \<noteq> []" "lj_fallback_mode (default_judge env b l) \<noteq> []"
  "jc_timeout (lj_jev (default_judge env b l)) \<noteq> 0"
  "jc_allow_below (lj_jev (default_judge env b l)) = Some (allow_below (lj_jev l))"
  "jc_deny_above (lj_jev (default_judge env b l)) = Some (case jc_deny_above (lj_jev l) of None \<Rightarrow> Num (7 / 10) | Some x \<Rightarrow> x)"
  by (simp_all add: default_judge_def default_jev_def second_def Let_def allow_below_def)

lemma default_proxy_sets:
  "\<exists>rate. pc_rate_limit_per_ip (default_proxy p) = Some rate \<and> (0 < rate \<longrightarrow> pc_rate_limit_burst (default_proxy p) \<noteq> 0)"
  by (simp add: default_proxy_def Let_def)

lemma load_config_cases:
  assumes "load_config ct unmarshal env file = Inr c"
  obtains c0 where "c = apply_defaults env c0" "validate ct c = None"
  using assms that unfolding load_config_def Let_def
  by (auto split: file_read.splits option.splits sum.splits)

lemma loaded_judge:
  assumes "load_config ct unmarshal env file = Inr c"
  shows "judge_consistent c" and "jev_consistent (cf_llm_judge c)" and "proxy_consistent ct (cf_proxy c)"
proof -
  obtain c0 where c: "c = apply_defaults env c0" and ok: "validate ct c = None"
    using load_config_cases [OF assms] .
  note parts = ok [unfolded validate_cases validate_judge_None validate_jev_None validate_proxy_None]
  have set: "lj_provider (cf_llm_judge c) \<noteq> []" "lj_fallback_mode (cf_llm_judge c) \<noteq> []" "jc_timeout (lj_jev (cf_llm_judge c)) \<noteq> 0"
    by (simp_all add: c default_judge_sets)
  show "judge_consistent c" using parts set(1,2) unfolding judge_consistent_def by (auto split: if_splits)
  have "jc_enabled (lj_jev (cf_llm_judge c)) \<Longrightarrow>
      jc_allow_below (lj_jev (cf_llm_judge c)) = Some (allow_below (lj_jev (cf_llm_judge c))) \<and>
      jc_deny_above (lj_jev (cf_llm_judge c)) = Some (deny_above (lj_jev (cf_llm_judge c)))"
    by (simp add: c default_judge_sets(4,5) allow_below_def deny_above_def)
  then show "jev_consistent (cf_llm_judge c)"
    using parts set(3) unfolding jev_consistent_def by (auto split: if_splits)
  obtain rate where "pc_rate_limit_per_ip (cf_proxy c) = Some rate" "0 < rate \<longrightarrow> pc_rate_limit_burst (cf_proxy c) \<noteq> 0"
    using default_proxy_sets [of "cf_proxy c0"] by (auto simp: c)
  then show "proxy_consistent ct (cf_proxy c)" using parts unfolding proxy_consistent_def by auto
qed

subsection \<open>Expansion\<close>

lemma replace_braced_list [simp]:
  "replace_braced env [] = ([], False, False)"
  "braced_ref (ch # cs) = None \<Longrightarrow>
     replace_braced env (ch # cs) = (let (t, had, unres) = replace_braced env cs in (ch # t, had, unres))"
  "braced_ref (ch # cs) = Some (name, rest) \<Longrightarrow> fst (snd (replace_braced env (ch # cs)))"
  by (subst replace_braced.simps; simp split: prod.splits option.splits)+

lemma replace_braced_none: "\<not> contains_braced s \<Longrightarrow> replace_braced env s = (s, False, False)"
proof (induction s)
  case (Cons ch cs)
  then show ?case by (cases "braced_ref (ch # cs)") simp_all
qed simp

lemma replace_braced_had: "fst (snd (replace_braced env s)) = contains_braced s"
proof (induction s)
  case (Cons ch cs)
  then show ?case by (cases "braced_ref (ch # cs)") (auto split: prod.splits)
qed simp

text \<open>
  the expansion of environment references (\<open>envutil.ExpandWithStatus\<close>) agrees with
  the test for one (\<open>ContainsEnvReference\<close>). It reports a reference exactly for the texts
  the test accepts, whatever the environment holds, even when the variable's value spells the
  reference itself.
\<close>

theorem expansion_reports_references:
  "fst (snd (expand_with_status env s)) = contains_env_reference s"
proof (cases "replace_braced env s")
  case (fields t had unres)
  then have had: "had = contains_braced s" using replace_braced_had [of env s] by simp
  have "t \<noteq> s \<Longrightarrow> contains_braced s"
    using replace_braced_none [of s env] fields by auto
  then show ?thesis
    using fields had by (auto simp: expand_with_status_def contains_env_reference_def split: option.splits)
qed

text \<open>
  a value that holds no reference is left alone. A secret or a database URL in which a
  dollar sign is part of the text, not of a reference, reaches the stores as the file has it.
\<close>

theorem expansion_leaves_plain_text:
  "\<not> contains_env_reference s \<Longrightarrow> expand env s = s"
  by (cases "s = []")
     (auto simp: contains_env_reference_def expand_def expand_with_status_def replace_braced_none)

lemma expansion_leaves_plain_text_witness:
  "expand (\<lambda>_. Some ''X'') ''pa$$word-${9}-$HOME!'' = ''pa$$word-${9}-$HOME!''"
  by (rule expansion_leaves_plain_text) code_simp

subsection \<open>The loaded configuration\<close>

text \<open>
  C11: a configuration that loads is sound. Whatever the file and the environment hold, a
  successful \<open>Load\<close> gives a mode that is one of the two known, with the judge enabled and its
  provider's credentials present in the mode that needs them; a fallback that is deny or
  passthrough; a Jev band of two numbers of the unit interval in order, with a key and a
  positive timeout; a port in range, CIDRs that parse, no empty host in the list of
  unverified hosts, and a positive burst where requests are limited.
\<close>

theorem loaded_config_is_sound:
  "load_config ct unmarshal env file = Inr c \<Longrightarrow>
     judge_consistent c \<and> jev_consistent (cf_llm_judge c) \<and> proxy_consistent ct (cf_proxy c)"
  by (simp add: loaded_judge)

definition demo_text :: config_text where
  "demo_text = \<lparr>ct_show_float = (\<lambda>_. ''0.5''), ct_show_duration = (\<lambda>_. ''5s''), ct_parse_cidr = (\<lambda>_. Inl ''invalid CIDR address'')\<rparr>"

text \<open>A file that only enables Jev, its key in the environment.\<close>

definition demo_file :: config where
  "demo_file = zero_config\<lparr>cf_database := (cf_database zero_config)\<lparr>dc_url := ''db''\<rparr>,
     cf_llm_judge := (cf_llm_judge zero_config)
     \<lparr>lj_jev := (lj_jev (cf_llm_judge zero_config))\<lparr>jc_enabled := True, jc_api_key := ''$JEV''\<rparr>\<rparr>\<rparr>"

definition demo_env :: environ where "demo_env = (\<lambda>name. if name = ''JEV'' then Some ''secret'' else None)"

definition demo_config :: config where
  "demo_config = apply_defaults demo_env (expand_env_vars demo_env demo_file)"

lemma demo_expanded: "expand demo_env ''$JEV'' = ''secret''" "expand demo_env [] = []" "expand demo_env ''db'' = ''db''"
  by code_simp+

lemma demo_loads: "load_config demo_text (\<lambda>_. Inr demo_file) demo_env (Contents ''jev'') = Inr demo_config"
proof -
  have "validate demo_text demo_config = None"
    unfolding validate_cases validate_judge_None validate_proxy_None validate_jev_def demo_config_def
    by (simp add: apply_defaults_def expand_env_vars_def demo_file_def zero_config_def default_proxy_def default_judge_def
        default_jev_def default_tls_def or_default_def second_def getenv_def provider_usable_def demo_expanded
        allow_below_def deny_above_def validate_metrics_def outside_unit_def float_less_def Let_def)
  then show ?thesis by (simp add: load_config_def demo_config_def Let_def)
qed

lemma loaded_config_is_sound_witness:
  "judge_consistent demo_config \<and> jev_consistent (cf_llm_judge demo_config) \<and> proxy_consistent demo_text (cf_proxy demo_config)"
  using loaded_config_is_sound [OF demo_loads] .

text \<open>
  without a configuration file the gateway passes through. The load succeeds, whatever
  the environment, in passthrough mode without a judge or Jev, with the database of
  \<open>DATABASE_URL\<close> and requests limited per client.
\<close>

theorem missing_file_passes_through:
  "\<exists>c. load_config ct unmarshal env NotExist = Inr c \<and> vc_mode (cf_approval c) = ''passthrough'' \<and>
     lj_enabled (cf_llm_judge c) = False \<and> jc_enabled (lj_jev (cf_llm_judge c)) = False \<and>
     dc_url (cf_database c) = getenv env ''DATABASE_URL'' \<and> pc_rate_limit_per_ip (cf_proxy c) = Some 50"
proof -
  have db: "expand env ''${DATABASE_URL}'' = getenv env ''DATABASE_URL''"
  proof -
    have ref: "braced_ref ''${DATABASE_URL}'' = Some (''DATABASE_URL'', [])" by code_simp
    have full: "full_ref ''${DATABASE_URL}'' = None" by code_simp
    have "replace_braced env ''${DATABASE_URL}'' =
        (case env ''DATABASE_URL'' of Some v \<Rightarrow> (v, True, False) | None \<Rightarrow> ([], True, True))"
      by (subst replace_braced.simps) (simp add: ref split: option.split)
    then show ?thesis using full
      by (auto simp: expand_def expand_with_status_def getenv_def split: option.split)
  qed
  have none: "expand env [] = []" by (simp add: expand_def expand_with_status_def)
  let ?start = "zero_config\<lparr>cf_approval := \<lparr>vc_mode = ''passthrough'', vc_timeout = 0\<rparr>,
      cf_database := (cf_database zero_config)\<lparr>dc_url := ''${DATABASE_URL}''\<rparr>\<rparr>"
  let ?c = "apply_defaults env (expand_env_vars env ?start)"
  note computed = zero_config_def apply_defaults_def expand_env_vars_def db none default_proxy_def default_judge_def
    default_jev_def default_tls_def or_default_def second_def validate_metrics_def Let_def
  have "validate ct ?c = None"
    unfolding validate_cases validate_judge_None validate_proxy_None by (simp add: computed)
  then have "load_config ct unmarshal env NotExist = Inr ?c" by (simp add: load_config_def Let_def)
  moreover have "vc_mode (cf_approval ?c) = ''passthrough'' \<and> lj_enabled (cf_llm_judge ?c) = False \<and>
      jc_enabled (lj_jev (cf_llm_judge ?c)) = False \<and> dc_url (cf_database ?c) = getenv env ''DATABASE_URL'' \<and>
      pc_rate_limit_per_ip (cf_proxy ?c) = Some 50"
    by (simp add: computed)
  ultimately show ?thesis by blast
qed

text \<open>
  the defaults are applied once and for all. A configuration that has them is a fixed
  point of \<open>applyDefaults\<close>: no default sets a field that another one reads as unset, and a
  mode that was set, or defaulted, never turns the judge on again.
\<close>

theorem defaults_are_stable:
  "apply_defaults env (apply_defaults env c) = apply_defaults env c"
  by (simp add: apply_defaults_def default_proxy_def default_judge_def default_jev_def default_tls_def second_def Let_def
      or_default_def)

end
