(* ===== verification/Judge_Props.thy ===== *)
theory Judge_Props imports Cascade Approval_Props begin

text \<open>
  Properties of the scorer and of the cascade, and of the approval flow with the production
  evaluators: the contract \<open>evaluator_contract\<close> gives the flow its two judged outcomes,
  and is kept by the LLM judge and by every cascade over it.
\<close>

subsection \<open>The Jev scorer\<close>

lemma apply_record_used: "apply_record now k r = (r', evs) \<Longrightarrow> rz_in_use r' = rz_in_use r"
  by (cases k) (auto simp: apply_record_def record_success_def record_failure_def record_cancellation_def Let_def split: if_splits)

lemma read_answer_success:
  "read_answer env resp p = ((res, err), k) \<Longrightarrow>
   (err = None \<longleftrightarrow> k = RecSuccess) \<and> (err = None \<longrightarrow> (\<exists>q. jr_score res = Some q \<and> 0 \<le> q \<and> q \<le> 1)) \<and>
   k \<noteq> RecCancellation"
  by (auto simp: read_answer_def Let_def split: option.splits if_splits)

lemma jev_outcome_success:
  "jev_outcome env out p = ((res, err), k) \<Longrightarrow>
   (err = None \<longleftrightarrow> k = RecSuccess) \<and> (err = None \<longrightarrow> (\<exists>q. jr_score res = Some q \<and> 0 \<le> q \<and> q \<le> 1))"
  using read_answer_success
  by (auto simp: jev_outcome_def transport_record_def status_record_def split: http_outcome.splits if_splits option.splits; blast)

lemma jev_outcome_plain:
  "jev_outcome env out p = ((res, Some e), k) \<Longrightarrow> we_wraps e = []"
  by (auto simp: jev_outcome_def read_answer_def plain_error_def Let_def
      split: http_outcome.splits if_splits option.splits)

text \<open>The call of the scorer, past its slot: what it records is decided by its outcome.\<close>

lemma jev_score_cases:
  assumes "jev_score mime j env m u h b p r = ((res, err), r', evs)"
  obtains
    (unavailable) e where "fst (try_acquire (ce_now (jv_call env)) ''jev'' r) = Some e" "err \<noteq> None"
      "r' = fst (snd (try_acquire (ce_now (jv_call env)) ''jev'' r))" "we_wraps (the err) = [ErrJevUnavailable]"
  | (no_url) "fst (try_acquire (ce_now (jv_call env)) ''jev'' r) = None" "err \<noteq> None"
      "r' = release (fst (snd (try_acquire (ce_now (jv_call env)) ''jev'' r)))" "we_wraps (the err) = []"
  | (called) req k r2 evs2 where "fst (try_acquire (ce_now (jv_call env)) ''jev'' r) = None"
      "jev_outcome env (ce_do (jv_call env) req)
         ((empty_judge_result\<lparr>jr_model := je_model j\<rparr>)\<lparr>jr_duration_ms := elapsed_ms (jv_call env)\<rparr>) = ((res, err), k)"
      "apply_record (ce_after (jv_call env)) k (fst (snd (try_acquire (ce_now (jv_call env)) ''jev'' r))) = (r2, evs2)"
      "r' = release r2"
proof -
  obtain e0 r1 evs1 where t: "try_acquire (ce_now (jv_call env)) ''jev'' r = (e0, r1, evs1)" by (cases "try_acquire (ce_now (jv_call env)) ''jev'' r")
  show ?thesis
  proof (cases e0)
    case (Some e)
    with assms t show ?thesis by (intro unavailable) (auto simp: jev_score_def)
  next
    case None
    show ?thesis
    proof (cases "ce_url_error (jv_call env) (je_base_url j)")
      case (Some e)
      with assms t None show ?thesis by (intro no_url) (auto simp: jev_score_def plain_error_def)
    next
      case url: None
      let ?req = "\<lparr>og_url = je_base_url j,
          og_header = [(''Content-Type'', [''application/json'']), (''Authorization'', [''Bearer '' @ je_api_key j])],
          og_body = jev_request j (build_jev_state mime (lp_prompt p) m u h b), og_timeout = je_timeout j\<rparr>"
      obtain res2 k where o: "jev_outcome env (ce_do (jv_call env) ?req)
         ((empty_judge_result\<lparr>jr_model := je_model j\<rparr>)\<lparr>jr_duration_ms := elapsed_ms (jv_call env)\<rparr>) = (res2, k)" by fastforce
      obtain r2 evs2 where a: "apply_record (ce_after (jv_call env)) k r1 = (r2, evs2)" by fastforce
      show ?thesis
        by (rule called [of ?req k r2 evs2]) (use assms t None url o a in \<open>auto simp: jev_score_def Let_def\<close>)
    qed
  qed
qed

lemma try_acquire_used:
  "fst (try_acquire n s r) = None \<Longrightarrow> rz_in_use (fst (snd (try_acquire n s r))) = Suc (rz_in_use r)"
  "fst (try_acquire n s r) = Some e \<Longrightarrow> rz_in_use (fst (snd (try_acquire n s r))) = rz_in_use r"
  using rz.take_ok rz.take_err by (metis prod.collapse)+

text \<open>
  scoring gives back its slot on every path. A score without an error lies between 0
  and 1 and closes the breaker; \<open>ErrJevUnavailable\<close> is reported exactly when no slot
  could be taken.
\<close>

theorem jev_scores_are_sound:
  assumes "jev_score mime j env m u h b p r = ((res, err), r', evs)"
  shows "rz_in_use r' = rz_in_use r \<and>
    (err = None \<longrightarrow> (\<exists>q. jr_score res = Some q \<and> 0 \<le> q \<and> q \<le> 1) \<and> rz_failures r' = 0 \<and> rz_opened_at r' = None) \<and>
    ((\<exists>e. err = Some e \<and> ErrJevUnavailable \<in> set (we_wraps e)) \<longleftrightarrow>
       fst (try_acquire (ce_now (jv_call env)) ''jev'' r) \<noteq> None)"
  using assms
proof (cases rule: jev_score_cases)
  case (unavailable e)
  then show ?thesis using try_acquire_used(2) by auto
next
  case no_url
  then show ?thesis using try_acquire_used(1) by (auto simp: rz.give_used)
next
  case (called req k r2 evs2)
  have "rz_in_use r2 = Suc (rz_in_use r)"
    using apply_record_used [OF called(3)] try_acquire_used(1) [OF called(1)] by simp
  moreover have "err = None \<Longrightarrow> rz_failures r2 = 0 \<and> rz_opened_at r2 = None"
    using jev_outcome_success [OF called(2)] called(3) by (auto simp: apply_record_def record_success_def Let_def)
  moreover have "err = Some e \<Longrightarrow> we_wraps e = []" for e
    using jev_outcome_plain called(2) by blast
  ultimately show ?thesis
    using jev_outcome_success [OF called(2)] called(1,4) by (auto simp: release_def)
qed

definition sample_jev :: jev where
  "sample_jev = \<lparr>je_api_key = ''k'', je_base_url = ''https://j'', je_model = ''jev-1'', je_timeout = 1\<rparr>"

definition sample_jev_env :: "int \<Rightarrow> string \<Rightarrow> go_error option \<Rightarrow> jev_env" where
  "sample_jev_env code body ctx =
     \<lparr>jv_call = \<lparr>ce_now = 5, ce_select = GotSlot, ce_url_error = (\<lambda>_. None), ce_do = (\<lambda>_. DoResp code body),
        ce_invoke = (\<lambda>_ _ _. Inr body), ce_elapsed = 7000000, ce_after = 6, ce_marshal_error = [],
        ce_json_error = (\<lambda>_. ''json'')\<rparr>,
      jv_parse_float = (\<lambda>s. if s = ''0.25'' then Some (1/4) else None), jv_show_float = (\<lambda>_. ''?''),
      jv_ctx_at_failure = ctx, jv_ctx_at_end = ctx\<rparr>"

definition sample_score_answer :: string where
  "sample_score_answer = json_text (JObj [(''answers'',
     JObj [(''violates_policy'', JObj [(''type'', JStr ''noul''), (''noul'', JNum ''0.25'')])])])"

definition sample_jev_breaker :: resilience where
  "sample_jev_breaker =
     \<lparr>rz_in_use = 0, rz_capacity = 1, rz_failures = 2, rz_threshold = 5, rz_cooldown = 10, rz_opened_at = None,
      rz_probe = False, rz_provider = [], rz_observer = False\<rparr>"

definition sample_mime :: mime_ops where
  "sample_mime = \<lparr>mo_parse_media_type = (\<lambda>_. None), mo_parts = (\<lambda>_ _. ([], PartsEOF))\<rparr>"

definition sample_score :: "int \<Rightarrow> string \<Rightarrow> go_error option \<Rightarrow> score_result \<times> resilience \<times> cb_event list" where
  "sample_score code body ctx =
     jev_score sample_mime sample_jev (sample_jev_env code body ctx) ''GET'' ''https://a/'' [] [] example_policy sample_jev_breaker"

lemma sample_score_eq:
  "jev_score sample_mime sample_jev (sample_jev_env code body ctx) ''GET'' ''https://a/'' [] [] example_policy sample_jev_breaker =
   ((fst (fst (sample_score code body ctx)), snd (fst (sample_score code body ctx))),
    fst (snd (sample_score code body ctx)), snd (snd (sample_score code body ctx)))"
  by (simp add: sample_score_def)

lemma sample_score_decoded:
  "\<exists>r. decode_into (dec_jev_response (jv_parse_float (sample_jev_env 200 sample_score_answer None))) empty_jev_response
       sample_score_answer = Some r \<and> jx_answers r jevViolatesQuestionKey = Some \<lparr>jw_type = ''noul'', jw_noul = Some (1/4)\<rparr>"
proof -
  let ?d = "decode_into (dec_jev_response (jv_parse_float (sample_jev_env 200 sample_score_answer None)))
      empty_jev_response sample_score_answer"
  have "map_option (\<lambda>r. jx_answers r jevViolatesQuestionKey) ?d = Some (Some \<lparr>jw_type = ''noul'', jw_noul = Some (1/4)\<rparr>)"
    by code_simp
  then show ?thesis by (cases ?d) auto
qed

lemma sample_score_ok: "snd (fst (sample_score 200 sample_score_answer None)) = None"
proof -
  have sent: "ce_do (jv_call (sample_jev_env 200 sample_score_answer None)) req = DoResp 200 sample_score_answer" for req
    by (simp add: sample_jev_env_def)
  have url: "ce_url_error (jv_call (sample_jev_env 200 sample_score_answer None)) u = None" for u
    by (simp add: sample_jev_env_def)
  have slot: "\<exists>r1 evs. try_acquire n ''jev'' sample_jev_breaker = (None, r1, evs)" for n
    by (simp add: try_acquire_def circuit_breaker_open_def sample_jev_breaker_def)
  obtain r1 evs where t: "try_acquire (ce_now (jv_call (sample_jev_env 200 sample_score_answer None))) ''jev'' sample_jev_breaker
      = (None, r1, evs)" using slot by blast
  have out: "snd (fst (jev_outcome (sample_jev_env 200 sample_score_answer None) (DoResp 200 sample_score_answer) q)) = None" for q
    using sample_score_decoded by (auto simp: jev_outcome_def read_answer_def Let_def)
  show ?thesis
    using out unfolding sample_score_def jev_score_def by (simp add: t url sent Let_def split: prod.split) (metis fst_conv snd_conv)
qed

theorem jev_scores_are_sound_witness:
  "\<exists>q. jr_score (fst (fst (sample_score 200 sample_score_answer None))) = Some q \<and> 0 \<le> q \<and> q \<le> 1"
  using jev_scores_are_sound [OF sample_score_eq [of 200 sample_score_answer None]] sample_score_ok by blast

lemma record_cancellation_failures: "rz_failures (fst (record_cancellation r)) = rz_failures r"
  by (simp add: record_cancellation_def Let_def)

lemma try_acquire_failures: "rz_failures (fst (snd (try_acquire n s r))) = rz_failures r"
  by (auto simp: try_acquire_def circuit_breaker_open_def release_def Let_def)

text \<open>
  what says nothing about Jev's health does not count against it. When the transport
  failed after the caller had gone, or the answer is a client error other than 401, 403 and
  429, the failure count stays what it was.
\<close>

theorem jev_ignores_request_faults:
  assumes "jev_score mime j env m u h b p r = ((res, err), r', evs)"
    and "\<And>req. (\<exists>e. ce_do (jv_call env) req = DoErr e \<and> jv_ctx_at_failure env \<noteq> None) \<or>
          (\<exists>code body. ce_do (jv_call env) req = DoResp code body \<and> 400 \<le> code \<and> code < 500 \<and> code \<notin> {401, 403, 429})"
  shows "rz_failures r' = rz_failures r"
  using assms(1)
proof (cases rule: jev_score_cases)
  case (called req k r2 evs2)
  have "k = RecCancellation"
    using called(2) assms(2) [of req] by (auto simp: jev_outcome_def transport_record_def status_record_def)
  then have "rz_failures r2 = rz_failures (fst (snd (try_acquire (ce_now (jv_call env)) ''jev'' r)))"
    using called(3) record_cancellation_failures by (metis apply_record_def breaker_record.simps(8) fst_conv)
  then show ?thesis using called(4) by (simp add: release_def try_acquire_failures)
qed (auto simp: release_def try_acquire_failures)

theorem jev_ignores_request_faults_witness:
  "rz_failures (fst (snd (sample_score 422 ''no'' None))) = 2"
  using jev_ignores_request_faults [OF sample_score_eq [of 422 "''no''" None]]
  by (simp add: sample_jev_env_def sample_jev_breaker_def)

subsection \<open>The cascade\<close>

lemma fold_jev_same:
  "snd (fold_jev jev jerr (r, e)) = e" "jr_decision (fst (fold_jev jev jerr (r, e))) = jr_decision r"
  by (simp_all add: fold_jev_def Let_def split: option.split)

text \<open>What a cascade's decision rests on: Jev's score outside the band, or the LLM.\<close>

definition jev_ground :: "cascade \<Rightarrow> string \<Rightarrow> string \<Rightarrow> header \<Rightarrow> string \<Rightarrow> llm_policy \<Rightarrow> decision_type \<Rightarrow> bool" where
  "jev_ground c m u h b p d = (\<exists>pri pr q. ca_primary c = Some pri \<and> pri m u h b p = (pr, None) \<and> jr_score pr = Some q \<and>
     (if q < ca_allow_below c then d = DecisionAllow else ca_deny_above c \<le> q \<and> d = DecisionDeny))"

definition llm_ground :: "cascade \<Rightarrow> string \<Rightarrow> string \<Rightarrow> header \<Rightarrow> string \<Rightarrow> llm_policy \<Rightarrow> decision_type \<Rightarrow> bool" where
  "llm_ground c m u h b p d =
     (\<exists>sec r. ca_secondary c = Some sec \<and> sec m u h b p = (r, None) \<and> jr_decision r = d)"

lemma escalate_ground:
  assumes "fst (cascade_escalate cx jev jerr (\<lambda>_. sec m u h b p)) = (r, None)"
  shows "\<exists>r0. sec m u h b p = (r0, None) \<and> jr_decision r = jr_decision r0"
  using assms fold_jev_same(1) [of jev jerr "fst (sec m u h b p)" "snd (sec m u h b p)"]
    fold_jev_same(2) [of jev jerr "fst (sec m u h b p)" "snd (sec m u h b p)"]
  by (cases "sec m u h b p") (auto simp: cascade_escalate_def split: option.splits)

lemma cascade_ground:
  assumes "fst (cascade_evaluate c cx m u h b p) = (r, None)"
  shows "jev_ground c m u h b p (jr_decision r) \<or> llm_ground c m u h b p (jr_decision r)"
proof -
  obtain sec where sec: "ca_secondary c = Some sec"
    using assms by (auto simp: cascade_evaluate_def split: option.splits)
  have esc: "fst (cascade_escalate cx jev jerr (\<lambda>_. sec m u h b p)) = (r, None) \<Longrightarrow> llm_ground c m u h b p (jr_decision r)"
    for jev jerr
    using escalate_ground [of cx jev jerr sec m u h b p r] sec by (auto simp: llm_ground_def)
  show ?thesis
  proof (cases "ca_primary c")
    case None
    with assms sec show ?thesis by (auto simp: cascade_evaluate_def llm_ground_def)
  next
    case (Some pri)
    obtain pr err where pe: "pri m u h b p = (pr, err)" by (cases "pri m u h b p")
    show ?thesis
    proof (cases "err = None \<and> jr_score pr \<noteq> None")
      case True
      then obtain q where q: "jr_score pr = Some q" "err = None" by auto
      show ?thesis
      proof (cases "q < ca_allow_below c \<or> ca_deny_above c \<le> q")
        case True
        with assms sec Some pe q show ?thesis
          by (auto simp: cascade_evaluate_def jev_ground_def split: if_splits)
      next
        case False
        with assms sec Some pe q have "fst (cascade_escalate cx pr None (\<lambda>_. sec m u h b p)) = (r, None)"
          by (auto simp: cascade_evaluate_def split: prod.splits)
        then show ?thesis using esc by blast
      qed
    next
      case False
      then obtain e where e: "(if err = None \<and> jr_score pr = None then Some (plain_error ''jev returned no score'') else err) = Some e"
        by (cases err) auto
      show ?thesis
        using assms sec Some pe e esc [of pr "Some e"]
        by (auto simp: cascade_evaluate_def llm_ground_def split: prod.splits option.splits if_splits)
    qed
  qed
qed

text \<open>
  the cascade never guesses. A decision without an error is either Jev's, whose score
  then lies below \<open>AllowBelow\<close> for ALLOW and otherwise at or above \<open>DenyAbove\<close>
  for DENY, or the LLM's own decision. A missing score, a Jev error, an open breaker or an
  uncertain score never decides.
\<close>

theorem cascade_decisions_grounded:
  assumes "fst (cascade_evaluate c cx m u h b p) = (r, None)"
  shows "jev_ground c m u h b p (jr_decision r) \<or> llm_ground c m u h b p (jr_decision r)"
  by (rule cascade_ground [OF assms])

definition scored :: "rat option \<Rightarrow> scorer" where
  "scored s m u h b p = (empty_judge_result\<lparr>jr_model := ''jev-1'', jr_score := s, jr_input_tokens := 3\<rparr>, None)"

definition sample_cascade :: "rat option \<Rightarrow> cascade" where
  "sample_cascade s =
     \<lparr>ca_primary = Some (scored s), ca_secondary = Some allow_all_judge, ca_allow_below = 1/4, ca_deny_above = 3/4,
      ca_observer = True\<rparr>"

definition caller_present :: ctx_reads where
  "caller_present = \<lparr>cx_after_score = None, cx_escalate = None\<rparr>"

lemma sample_cascade_denies:
  "\<exists>r. fst (cascade_evaluate (sample_cascade (Some (9/10))) caller_present ''GET'' ''u'' [] [] example_policy) = (r, None) \<and>
     jr_decision r = DecisionDeny"
  by (simp add: cascade_evaluate_def sample_cascade_def scored_def Let_def)

theorem cascade_decisions_grounded_witness:
  "jev_ground (sample_cascade (Some (9/10))) ''GET'' ''u'' [] [] example_policy DecisionDeny \<or>
   llm_ground (sample_cascade (Some (9/10))) ''GET'' ''u'' [] [] example_policy DecisionDeny"
proof -
  obtain r where r: "fst (cascade_evaluate (sample_cascade (Some (9/10))) caller_present ''GET'' ''u'' [] [] example_policy) = (r, None)"
    "jr_decision r = DecisionDeny" using sample_cascade_denies by blast
  from cascade_decisions_grounded [OF r(1)] r(2) show ?thesis by simp
qed

text \<open>
  every evaluation of a cascade with both evaluators asks Jev first, and the LLM at most
  once, after it. Exactly one outcome is observed, unless the caller has gone; the LLM is
  not asked when Jev decided or the caller has gone.
\<close>

theorem cascade_observes_once:
  assumes "ca_secondary c = Some sec" "ca_primary c = Some pri" "ca_observer c"
  shows "\<exists>rest. snd (cascade_evaluate c cx m u h b p) = PrimaryCalled # rest \<and>
    (rest \<in> {[Observed JevCascadeAllow], [Observed JevCascadeDeny]} \<or>
     rest \<in> {[Observed JevCascadeSkipped, SecondaryCalled], [Observed JevCascadeError, SecondaryCalled],
              [Observed JevCascadeEscalate, SecondaryCalled]} \<or>
     cx_after_score cx \<noteq> None \<and> rest = [] \<or>
     cx_escalate cx \<noteq> None \<and> rest \<in> {[Observed JevCascadeError], [Observed JevCascadeEscalate]})"
proof (cases "pri m u h b p")
  case (Pair pr err)
  have esc: "snd (cascade_escalate cx j e l) = (if cx_escalate cx = None then [SecondaryCalled] else [])" for j e l
    by (simp add: cascade_escalate_def split: option.split)
  show ?thesis
  proof (cases "err = None \<and> jr_score pr \<noteq> None")
    case True
    then show ?thesis
      using Pair assms by (auto simp: cascade_evaluate_def cascade_observe_def split_def Let_def esc)
  next
    case False
    then obtain e where e: "(if err = None \<and> jr_score pr = None then Some (plain_error ''jev returned no score'') else err) = Some e"
      by (cases err) auto
    show ?thesis
      using Pair assms e
      by (cases "cx_after_score cx"; cases "ErrJevUnavailable \<in> set (we_wraps e)")
        (auto simp: cascade_evaluate_def cascade_observe_def Let_def split_def esc)
  qed
qed

theorem cascade_observes_once_witness:
  "\<exists>rest. snd (cascade_evaluate (sample_cascade None) caller_present ''GET'' ''u'' [] [] example_policy) = PrimaryCalled # rest"
  using cascade_observes_once [of "sample_cascade None" allow_all_judge "scored None" caller_present "''GET''" "''u''" "[]" "[]" example_policy]
  by (auto simp: sample_cascade_def)

subsection \<open>The production evaluators\<close>

lemma cascade_keeps_contract:
  assumes "\<And>r. sec m u h b p = (r, None) \<Longrightarrow> jr_decision r = DecisionAllow \<or> jr_decision r = DecisionDeny"
    and "fst (cascade_evaluate (c\<lparr>ca_secondary := Some sec\<rparr>) cx m u h b p) = (r, None)"
  shows "jr_decision r = DecisionAllow \<or> jr_decision r = DecisionDeny"
  using cascade_ground [OF assms(2)] assms(1) by (fastforce simp: jev_ground_def llm_ground_def split: if_splits)

text \<open>A cascade over the LLM judge keeps the evaluator's contract, whatever its scorer.\<close>

interpretation casc: evaluator_contract
  "\<lambda>m u h b p. fst (cascade_evaluate (c\<lparr>ca_secondary := Some (llm_evaluate mime jerr model ask)\<rparr>) cx m u h b p)"
  for c mime jerr model ask cx
  by unfold_locales (erule cascade_keeps_contract [rotated], erule lj.decides)

text \<open>The branch of the approval flow for other decisions is never taken with such an evaluator.\<close>

context evaluator_contract begin

lemma run_judge_outcomes:
  "run_judge mg evaluate ctx req body p =
     (case evaluate (rq_method req) (rq_url req) (eval_headers ctx req) (eval_body ctx body) p of
        (r, None) \<Rightarrow> judged_decision (jr_decision r) r p
      | (r, Some e) \<Rightarrow>
          (let ad = (llm_fallback mg)\<lparr>ad_policy_id := lp_id p\<rparr>
           in if jr_model r \<noteq> [] then ad\<lparr>ad_llm_response := Some (judge_result_to_llm_response r (Some e))\<rparr> else ad))"
  using decides by (force simp: run_judge_def Let_def split: prod.split option.split)

end

text \<open>
  the whole judging path fails closed. With a cascade over the LLM judge, and outside
  passthrough, a request that no static rule matches is allowed only if Jev scored it below
  \<open>AllowBelow\<close>, or the completion succeeded and its text answers ALLOW to the prompts
  built from this request and policy.
\<close>

theorem judged_allow_is_grounded:
  assumes "mg_mode m \<noteq> ''passthrough''" and "mg_fallback_mode m \<noteq> ''passthrough''"
    and "mg_judge m = Some (\<lambda>me u h b p. fst (cascade_evaluate
            (c\<lparr>ca_secondary := Some (llm_evaluate mime jerr model ask)\<rparr>) cx me u h b p))"
    and "fst (check_approval m ctx req) = Inr (d, bo)" and "ad_decision d = DecisionAllow"
    and "cx_policy ctx = Some p"
    and "\<not> (\<exists>r\<in>set (lp_static_rules p). static_rule_matches r (rq_method req) (rq_url req))"
  shows "\<exists>body. jev_ground c (rq_method req) (rq_url req) (eval_headers ctx req) (eval_body ctx body) p DecisionAllow \<or>
    (let (resp, err) = ask (judge_request mime (rq_method req) (rq_url req) (eval_headers ctx req) (eval_body ctx body) p)
     in err = None \<and> answered (co_text resp) = Some DecisionAllow)"
proof -
  let ?c = "c\<lparr>ca_secondary := Some (llm_evaluate mime jerr model ask)\<rparr>"
  obtain body res where r: "fst (cascade_evaluate ?c cx (rq_method req) (rq_url req) (eval_headers ctx req) (eval_body ctx body) p)
      = (res, None)" "jr_decision res = DecisionAllow"
    using allowed_has_ground [OF assms(1,2,4,5)] assms(3,6,7) by auto
  from cascade_ground [OF r(1)] show ?thesis
  proof
    assume "jev_ground ?c (rq_method req) (rq_url req) (eval_headers ctx req) (eval_body ctx body) p (jr_decision res)"
    with r(2) have "jev_ground c (rq_method req) (rq_url req) (eval_headers ctx req) (eval_body ctx body) p DecisionAllow"
      by (auto simp: jev_ground_def split: if_splits)
    then show ?thesis by blast
  next
    assume "llm_ground ?c (rq_method req) (rq_url req) (eval_headers ctx req) (eval_body ctx body) p (jr_decision res)"
    with r(2) obtain r0 where "llm_evaluate mime jerr model ask (rq_method req) (rq_url req) (eval_headers ctx req)
        (eval_body ctx body) p = (r0, None)" "jr_decision r0 = DecisionAllow" by (auto simp: llm_ground_def)
    with judge_decides_iff [of mime jerr model ask "rq_method req" "rq_url req" "eval_headers ctx req" "eval_body ctx body" p DecisionAllow]
    show ?thesis by (auto simp: case_prod_beta intro!: exI [of _ body])
  qed
qed

definition jev_only_manager :: manager where
  "jev_only_manager = set_judge (Some (\<lambda>me u h b p. fst (cascade_evaluate
      ((sample_cascade (Some (1/10)))\<lparr>ca_secondary := Some (llm_evaluate sample_mime (\<lambda>_. []) ''m'' (\<lambda>_. (empty_completion, None)))\<rparr>)
      caller_present me u h b p))) ''llm'' ''deny'' new_manager"

theorem judged_allow_is_grounded_witness:
  "\<exists>body. jev_ground (sample_cascade (Some (1/10))) ''POST'' ''https://x.com/a'' [] body (example_policy\<lparr>lp_static_rules := []\<rparr>) DecisionAllow \<or>
     answered [] = Some DecisionAllow"
proof -
  let ?p = "example_policy\<lparr>lp_static_rules := []\<rparr>"
  let ?c = "example_ctx\<lparr>cx_policy := Some ?p\<rparr>"
  have cfg: "mg_mode jev_only_manager \<noteq> ''passthrough''" "mg_fallback_mode jev_only_manager \<noteq> ''passthrough''"
    "mg_judge jev_only_manager = Some (\<lambda>me u h b p. fst (cascade_evaluate
      ((sample_cascade (Some (1/10)))\<lparr>ca_secondary := Some (llm_evaluate sample_mime (\<lambda>_. []) ''m'' (\<lambda>_. (empty_completion, None)))\<rparr>)
      caller_present me u h b p))"
    by (simp_all add: jev_only_manager_def set_judge_def set_mode_def)
  obtain d bo where out: "fst (check_approval jev_only_manager ?c example_request) = Inr (d, bo)" "ad_decision d = DecisionAllow"
    by (simp add: check_approval_def check_approval_inner_def jev_only_manager_def set_judge_def set_mode_def
        check_approval_llm_def request_body_for_approval_def example_ctx_def decide_llm_def static_flags_def
        example_policy_def run_judge_def judged_decision_def sample_cascade_def scored_def cascade_evaluate_def Let_def)
  have "\<not> (\<exists>r\<in>set (lp_static_rules ?p). static_rule_matches r (rq_method example_request) (rq_url example_request))" by simp
  from judged_allow_is_grounded [OF cfg out _ this]
  show ?thesis by (auto simp: example_request_def example_ctx_def eval_headers_def empty_completion_def)
qed

end
