(* ===== verification/Api_Kept.thy ===== *)
theory Api_Kept imports Admin_Routes Db_Kept begin

text \<open>
  What the endpoints of the admin API may do to the tables. Every write of a store touches one
  table (the deletion of a user apart); the locale \<open>api_writes\<close> lists the writes the
  endpoints use, those of administrators only under the switch \<open>admins\<close>, and proves
  once that a request keeps every preorder the writes keep.
\<close>

subsection \<open>Statements and combinators\<close>

lemma keeps_mono: "keeps R m \<Longrightarrow> (\<And>d d1. R d d1 \<Longrightarrow> S d d1) \<Longrightarrow> keeps S m"
  unfolding keeps_def by blast

context table_order begin

lemma keeps_query_rows [keep]: "keeps R (query_rows f)"
  unfolding keeps_def query_rows_def query_def exec_def
  by (auto split: prod.splits option.splits sum.splits dest!: take_fault_db intro: same)

lemma keeps_case:
  "keeps R m \<Longrightarrow> (\<And>x. keeps R (ok x)) \<Longrightarrow>
   keeps R (\<lambda>c. case m c of (Inl e, c1) \<Rightarrow> (fail e, c1) | (Inr x, c1) \<Rightarrow> ok x c1)"
  unfolding keeps_def by (auto split: prod.splits sum.splits) (metis compose snd_conv)+

lemma keeps_on_sql [keep]: "keeps R m \<Longrightarrow> (\<And>x. keeps R (ok x)) \<Longrightarrow> keeps R (on_sql m fail ok)"
  unfolding on_sql_def by (rule keeps_case)

lemma keeps_reply [keep]: "keeps R (reply resp)"
  by (simp add: keeps_def reply_def same)

lemma keeps_on_body [keep]: "(\<And>x. keeps R (ok x)) \<Longrightarrow> keeps R (on_body dcd zero r ok)"
  unfolding keeps_def on_body_def by (auto split: sum.splits intro: same)

lemma keeps_on_store [keep]: "keeps R m \<Longrightarrow> keeps R (on_store m fail ok)"
  unfolding keeps_def on_store_def by (auto split: prod.splits sum.splits) (metis snd_conv)+

lemma keeps_map_result: "keeps R m \<Longrightarrow> (\<And>c. snd (n c) = snd (m c)) \<Longrightarrow> keeps R n"
  by (simp add: keeps_def)

lemma keeps_checked_text [keep]: "keeps R ok \<Longrightarrow> keeps R (checked_text t ok)"
  unfolding checked_text_def by (auto intro: keep split: option.splits)

lemma keeps_token [keep]: "keeps R (get_user_by_web_token token)"
  using keeps_query_row [of "web_token_row token"]
  unfolding keeps_def get_user_by_web_token_def by (auto split: prod.splits sum.splits intro: same) (metis snd_conv)+

lemma keeps_is_manager_of [keep]: "keeps R (is_manager_of m b)"
  unfolding is_manager_of_def by (rule keeps_query)

lemma keeps_as_manager_of [keep]: "keeps R ok \<Longrightarrow> keeps R (as_manager_of callerID callerRole botID refused ok)"
  using keeps_is_manager_of [of callerID botID] unfolding keeps_def as_manager_of_def
  by (auto split: prod.splits sum.splits bool.splits) (metis compose snd_conv)+

lemma keeps_for_bot [keep]: "keeps R ok \<Longrightarrow> keeps R (for_bot a callerID callerRole botID refused ok)"
  unfolding for_bot_def by (intro keeps_if keeps_reply keeps_as_manager_of)

lemma keeps_on_channel_store [keep]: "keeps R m \<Longrightarrow> keeps R (on_channel_store a m)"
  unfolding on_channel_store_def by (intro keeps_if keeps_reply)

lemma require_role_kept: "require_role a minRole r c = (res, c1) \<Longrightarrow> R (cn_db c) (cn_db c1)"
  using keeps_token [of "extract_web_token r"] unfolding keeps_def require_role_def Let_def
  by (auto split: prod.splits option.splits if_splits intro: same) (metis snd_conv)+

lemma with_role_kept:
  assumes "\<And>uid role c1. require_role a minRole r c = (Inr (uid, role), c1) \<Longrightarrow> keeps R (body uid role)"
  shows "R (cn_db c) (cn_db (snd (with_role a minRole r body c)))"
  using assms require_role_kept [of a minRole r c] unfolding with_role_def keeps_def
  by (auto split: prod.splits sum.splits) (metis compose snd_conv)

subsection \<open>Reading\<close>

lemma keeps_list_users [keep]: "keeps R list_users" "keeps R (list_users_for_manager m)" "keeps R (list_managers b)"
    "keeps R (list_managed_bots m)" "keeps R (managed_bot_ids m)"
  unfolding list_users_def list_users_for_manager_def list_managers_def list_managed_bots_def managed_bot_ids_def split_def
  by (intro keep allI)+

lemma keeps_get_user [keep]: "keeps R (get_user u)"
  unfolding get_user_def by (intro keep)

lemma keeps_policy_get [keep]: "keeps R (policy_get pid)"
  using keeps_query_row [of "find_policy pid"] unfolding keeps_def policy_get_def
  by (auto split: prod.splits sum.splits) (metis snd_conv)+

lemma keeps_policy_reads [keep]: "keeps R (policy_list n k)" "keeps R (policy_get_metadata pid)"
  unfolding policy_list_def policy_get_metadata_def Let_def by (intro keep)+

lemma keeps_get_run [keep]: "keeps R (get_run rid)"
  unfolding get_run_def by (intro keeps_case keep)

lemma keeps_eval_reads [keep]: "keeps R (list_runs pid n k)" "keeps R (list_results rid f n k)" "keeps R (get_run_stats rid)"
    "keeps R (get_label e)" "keeps R (audit_count af)"
  unfolding list_runs_def list_results_def get_run_stats_def get_label_def audit_count_def Let_def by (intro keep)+

lemma keeps_query_with [keep]: "keeps R (query_with row f)"
  using keeps_query_rows [of "\<lambda>d. map (row d) (audit_page f (selected f d))"] unfolding keeps_def query_with_def
  by (auto split: prod.splits sum.splits) (metis snd_conv)+

lemma keeps_audit_reads [keep]: "keeps R (audit_query f)" "keeps R (audit_query_summaries f)" "keeps R (audit_get_entry e)"
proof -
  show q: "keeps R (audit_query g)" for g unfolding audit_query_def by (rule keeps_query_with)
  show "keeps R (audit_query_summaries f)" unfolding audit_query_summaries_def by (rule keeps_query_with)
  show "keeps R (audit_get_entry e)"
    by (rule keeps_map_result [OF q [of "no_filter\<lparr>af_id := e, af_limit := 1\<rparr>"]])
      (simp add: audit_get_entry_def split: prod.split list.split)
qed

lemma keeps_channel_reads [keep]: "keeps R (get_channel cid)" "keeps R (list_channels_for_owner u)" "keeps R (list_channels_for_bot b)"
  unfolding get_channel_def list_channels_for_owner_def list_channels_for_bot_def by (intro keep)+

lemma keeps_get_llm_response [keep]: "keeps R (get_llm_response rid)"
  unfolding get_llm_response_def keeps_def
  by (auto split: prod.splits sum.splits) (metis keeps_def keeps_query_row snd_conv)+

lemma keeps_policy_stats [keep]: "keeps R (audit_get_policy_stats now pid)"
  unfolding audit_get_policy_stats_def split_def Let_def by (intro keep)

subsection \<open>Writing\<close>

lemma keeps_drafted:
  assumes "\<And>d. R d (snd (update_policies (\<lambda>_. live_draft pid) upd d))"
  shows "keeps R (drafted msg upd pid)"
proof -
  have "keeps R (exec (update_policies (\<lambda>_. live_draft pid) upd))"
    using assms by (intro keeps_exec) (metis snd_conv)
  moreover have "keeps R (policy_get pid)" by (rule keeps_policy_get)
  ultimately show ?thesis unfolding keeps_def drafted_def
    by (auto split: prod.splits sum.splits) (metis compose snd_conv)+
qed

lemma keeps_put_metadata:
  assumes "\<And>d x. R d (d\<lparr>db_metadata := x\<rparr>)"
  shows "keeps R (exec (put_metadata pid upd))"
  using assms by (intro keeps_exec) (auto simp: put_metadata_def split: option.splits if_splits)

lemma keeps_evals:
  assumes "\<And>d x. R d (d\<lparr>db_eval_runs := x\<rparr>)"
  shows "keeps R (create_run now rid pid)" and "keeps R (set_total_entries rid n)"
  using assms unfolding create_run_def set_total_entries_def update_runs_def Let_def
  by (auto intro!: keep keeps_exec split: if_splits)

lemma keeps_labels:
  assumes "\<And>d x. R d (d\<lparr>db_labels := x\<rparr>)"
  shows "keeps R (upsert_label now lid l)" and "keeps R (delete_label e)"
  using assms unfolding upsert_label_def delete_label_def
  by (auto intro!: keep keeps_exec split: if_splits option.splits)

lemma keeps_channels:
  assumes "\<And>d x. R d (d\<lparr>db_notification_channels := x\<rparr>)"
  shows "keeps R (create_channel now cid ch)" and "keeps R (update_channel now cid type dest enabled)"
    and "keeps R (delete_notification_channel cid)"
  using assms unfolding create_channel_def update_channel_def delete_notification_channel_def
    insert_notification_channel_def update_channels_def Let_def
  by (auto intro!: keep keeps_exec same split: if_splits option.splits)

lemma keeps_create_and_assign:
  assumes "\<And>now w g tok. keeps R (create_user now w g tok req)" and "\<And>now mid b m. keeps R (assign_manager now mid b m)"
    and "\<And>v. keeps R (delete_user v)"
  shows "keeps R (create_and_assign en caller role req)"
proof -
  have rollback: "R (cn_db c) (cn_db (snd (delete_user v c)))" for v c using assms(3) by (simp add: keeps_def)
  have undo: "keeps R (\<lambda>c. case assign_manager now mid b m c of
      (Inl e, c1) \<Rightarrow> (respond_error 500 msg e, snd (delete_user v c1)) | (Inr _, c1) \<Rightarrow> (resp, c1))" for now mid b m v msg resp
    using assms(2) [of now mid b m] rollback unfolding keeps_def
    by (auto split: prod.splits sum.splits) (metis compose snd_conv, metis snd_conv)
  have "keeps R (\<lambda>c. if admin then (resp, c) else (case assign_manager now mid b m c of
      (Inl e, c1) \<Rightarrow> (respond_error 500 msg e, snd (delete_user v c1)) | (Inr _, c1) \<Rightarrow> (resp, c1)))" for admin now mid b m v msg resp
    by (cases admin) (simp_all only: undo if_True if_False keeps_return)
  then show ?thesis unfolding create_and_assign_def by (intro keeps_on_sql assms(1))
qed

lemma keeps_put_user:
  assumes "\<And>now w g req. keeps R (update_user now w g email req)"
  shows "keeps R (put_user a en r email)"
  unfolding put_user_def Let_def
proof (intro keeps_on_body)
  fix req
  let ?update = "on_sql (update_user (en_now en) (en_id en ''chan'' 0) (en_id en ''chan'' 1) email req)
    (respond_error 500 ''failed to update user'') (\<lambda>u. reply (respond 200 (OneUser u)))"
  have update: "keeps R ?update" by (intro keep assms)
  show "keeps R (\<lambda>c. if invalid_role (uu_role req) then (error_text 400 role_message, c)
      else case uu_policy_id req of None \<Rightarrow> ?update c
      | Some pid \<Rightarrow>
          if pid \<noteq> [] \<and> ap_policy_store a then
            on_sql (policy_get pid) (\<lambda>_. error_text 400 (''policy not found: '' @ pid))
              (\<lambda>p. if lp_status p = ''draft''
                    then reply (error_text 400 ''cannot assign a draft policy to a user; publish it first'')
                    else ?update) c
          else ?update c)"
    by (cases "invalid_role (uu_role req)"; cases "uu_policy_id req"; cases "the (uu_policy_id req) \<noteq> [] \<and> ap_policy_store a")
      (simp_all only: option.case option.sel if_True if_False HOL.simp_thms update keep)
qed

end

end
