(* ===== verification/Api_Writes.thy ===== *)
theory Api_Writes imports Api_Kept begin

text \<open>
  The writes the endpoints use, as an interface: those any caller with a role may bring about,
  and those of administrators. A preorder that all of them keep is kept by every request
  (\<open>serve_kept\<close>). The theorems about the API are interpretations for their relations.
\<close>

lemma require_role_caller:
  assumes "require_role a minRole r c = (Inr (uid, role), c1)" and "minRole = ''manager'' \<or> minRole = ''admin''"
  shows "fst (get_user_by_web_token (extract_web_token r) c) = Some (uid, role)"
    and "role = ''manager'' \<or> role = ''admin''" and "minRole = ''admin'' \<Longrightarrow> role = ''admin''"
  using assms unfolding require_role_def Let_def role_rank_def
  by (auto split: prod.splits option.splits if_splits)

text \<open>Whatever the token of a request resolves to, the caller is one of \<open>allowed\<close>.\<close>

definition may :: "(string \<Rightarrow> string \<Rightarrow> bool) \<Rightarrow> admin_request \<Rightarrow> conn \<Rightarrow> bool" where
  "may allowed r c \<longleftrightarrow> (\<forall>u role. fst (get_user_by_web_token (extract_web_token r) c) = Some (u, role) \<longrightarrow>
     role = ''manager'' \<or> role = ''admin'' \<longrightarrow> allowed u role)"

locale api_writes = table_order R for R :: "database \<Rightarrow> database \<Rightarrow> bool" +
  fixes a :: api and allowed :: "string \<Rightarrow> string \<Rightarrow> bool"
  assumes policy_added: "allowed u role \<Longrightarrow> find_policy (lp_id p) d = None \<Longrightarrow> R d (d\<lparr>db_policies := db_policies d @ [p]\<rparr>)"
    and draft_changed: "allowed u role \<Longrightarrow> R d (snd (update_policies (\<lambda>_. live_draft pid) (edited t) d))"
    and draft_published:
      "allowed u role \<Longrightarrow> R d (snd (update_policies (\<lambda>_. live_draft pid) (\<lambda>p. p\<lparr>lp_status := ''published''\<rparr>) d))"
    and metadata_set: "allowed u role \<Longrightarrow> R d (d\<lparr>db_metadata := ms\<rparr>)"
    and channels_set: "allowed u role \<Longrightarrow> R d (d\<lparr>db_notification_channels := chs\<rparr>)"
    and bot_created:
      "allowed u role \<Longrightarrow> role \<noteq> ''admin'' \<Longrightarrow> cu_role req = Some ''user'' \<Longrightarrow> keeps R (create_and_assign en u role req)"
    and user_created: "allowed u ''admin'' \<Longrightarrow> keeps R (create_and_assign en u ''admin'' req)"
    and user_put: "allowed u ''admin'' \<Longrightarrow> keeps R (put_user a en r email)"
    and user_deleted: "allowed u ''admin'' \<Longrightarrow> delete_users v d = (Inr n, d1) \<Longrightarrow> R d d1"
    and manager_added: "allowed u ''admin'' \<Longrightarrow> insert_manager now mid b m d = (Inr (), d1) \<Longrightarrow> R d d1"
    and manager_removed: "allowed u ''admin'' \<Longrightarrow> R d (snd (delete_managers b m d))"
    and policy_deleted:
      "allowed u ''admin'' \<Longrightarrow>
       update_policies (\<lambda>d p. lp_id p = pid \<and> lp_deleted_at p = None \<and> \<not> assigned pid d) (\<lambda>p. p\<lparr>lp_deleted_at := Some now\<rparr>) d = (Inr n, d1) \<Longrightarrow>
       R d d1"
    and runs_set: "allowed u ''admin'' \<Longrightarrow> R d (d\<lparr>db_eval_runs := rs\<rparr>)"
    and labels_set: "allowed u ''admin'' \<Longrightarrow> R d (d\<lparr>db_labels := ls\<rparr>)"
begin

lemma guarded:
  assumes "may allowed r c" and "minRole = ''manager'' \<or> minRole = ''admin''"
    and "\<And>u role. allowed u role \<Longrightarrow> (minRole = ''admin'' \<Longrightarrow> role = ''admin'') \<Longrightarrow> keeps R (body u role)"
  shows "R (cn_db c) (cn_db (snd (with_role a' minRole r body c)))"
proof (rule with_role_kept)
  fix uid role c1
  assume "require_role a' minRole r c = (Inr (uid, role), c1)"
  note caller = require_role_caller [OF this assms(2)]
  show "keeps R (body uid role)"
    using assms(1) caller by (intro assms(3)) (auto simp: may_def)
qed

lemma reply_kept: "R (cn_db c) (cn_db (snd (reply resp c)))"
  by (simp add: reply_def same)

subsection \<open>Users and the audit log\<close>

lemma keeps_post_user:
  assumes "allowed u role"
  shows "keeps R (post_user en r u role)"
  unfolding post_user_def using assms
  by (intro keep) (auto intro: bot_created user_created)

lemma handle_users_kept: "may allowed r c \<Longrightarrow> R (cn_db c) (cn_db (snd (handle_users a en r c)))"
  unfolding handle_users_def by (auto intro!: reply_kept guarded keep keeps_post_user)

lemma handle_me_bots_kept: "may allowed r c \<Longrightarrow> R (cn_db c) (cn_db (snd (handle_me_bots a r c)))"
  unfolding handle_me_bots_def by (rule guarded) (auto intro!: keep)

lemma keeps_delete_user: "allowed u ''admin'' \<Longrightarrow> keeps R (delete_user v)"
  unfolding delete_user_def by (intro keep) (auto intro!: keeps_exec intro: user_deleted)

lemma keeps_user_action: "allowed u role \<Longrightarrow> keeps R (user_action a en r email u role)"
  unfolding user_action_def
  by (intro keep) (auto intro: user_put keeps_delete_user)

lemma keeps_unassign_manager: "allowed u ''admin'' \<Longrightarrow> keeps R (unassign_manager b m)"
  unfolding unassign_manager_def
  by (intro keep keeps_exec) (metis manager_removed snd_conv)

lemma keeps_post_manager: "allowed u ''admin'' \<Longrightarrow> keeps R (post_manager en r b)"
  unfolding post_manager_def assign_manager_def
  by (auto intro!: keep keeps_exec intro: manager_added)

lemma handle_user_managers_kept: "may allowed r c \<Longrightarrow> R (cn_db c) (cn_db (snd (handle_user_managers a en r b sub c)))"
  unfolding handle_user_managers_def
  by (rule guarded) (auto simp: Let_def intro!: keep split: option.splits intro: keeps_post_manager keeps_unassign_manager)

lemma handle_user_action_kept: "may allowed r c \<Longrightarrow> R (cn_db c) (cn_db (snd (handle_user_action a en r c)))"
  unfolding handle_user_action_def
  by (auto simp: split_def Let_def intro!: reply_kept handle_user_managers_kept guarded keeps_user_action split: option.splits)

lemma keeps_audit_listing: "keeps R (audit_listing f)"
  by (rule keeps_map_result [OF keeps_audit_reads(2) [of "f\<lparr>af_limit := af_limit f + 1\<rparr>"]])
    (simp add: audit_listing_def Let_def split: prod.split)

lemma handle_audit_log_kept: "may allowed r c \<Longrightarrow> R (cn_db c) (cn_db (snd (handle_audit_log a en r c)))"
  unfolding handle_audit_log_def
  by (auto simp: Let_def intro!: reply_kept guarded keep keeps_audit_listing)

lemma handle_sse_kept: "may allowed r c \<Longrightarrow> R (cn_db c) (cn_db (snd (handle_sse a r c)))"
  unfolding handle_sse_def by (auto intro!: reply_kept guarded keep)

subsection \<open>Policies\<close>

lemma keeps_policy_create: "allowed u role \<Longrightarrow> keeps R (policy_create now pid t parent status)"
  unfolding policy_create_def Let_def insert_policy_def
  by (intro keep keeps_exec) (auto split: if_splits intro: policy_added)

lemma keeps_update_draft: "allowed u role \<Longrightarrow> keeps R (policy_update_draft pid t)"
  unfolding policy_update_draft_def by (intro keeps_drafted draft_changed)

lemma keeps_set_metadata:
  "allowed u role \<Longrightarrow> keeps R (policy_set_endpoint_summaries pid ss)"
  "allowed u role \<Longrightarrow> keeps R (policy_set_chat_history pid hs)"
  unfolding policy_set_endpoint_summaries_def policy_set_chat_history_def by (intro keeps_put_metadata metadata_set; assumption)+

lemma handle_llm_policies_kept: "may allowed r c \<Longrightarrow> R (cn_db c) (cn_db (snd (handle_llm_policies a en r c)))"
  unfolding handle_llm_policies_def by (rule guarded) (auto intro!: keep intro: keeps_policy_create)

lemma keeps_put_policy: "allowed u role \<Longrightarrow> keeps R (put_policy r pid)"
  unfolding put_policy_def by (intro keep keeps_update_draft)

lemma keeps_publish_policy: "allowed u role \<Longrightarrow> keeps R (publish_policy pid)"
  unfolding publish_policy_def policy_publish_def by (intro keep keeps_drafted draft_published)

lemma keeps_fork_policy: "allowed u role \<Longrightarrow> keeps R (fork_policy en r pid)"
  unfolding fork_policy_def by (intro keep keeps_policy_create)

lemma keeps_delete_policy:
  assumes "allowed u ''admin''"
  shows "keeps R (delete_policy en pid)"
proof -
  have deletion: "keeps R (exec (update_policies (\<lambda>d p. lp_id p = pid \<and> lp_deleted_at p = None \<and> \<not> assigned pid d)
      (\<lambda>p. p\<lparr>lp_deleted_at := Some now\<rparr>)))" for now
    by (intro keeps_exec policy_deleted [OF assms])
  have look: "keeps R (\<lambda>c. case query (assigned pid) c of (Inr True, c2) \<Rightarrow> (x, c2) | (_, c2) \<Rightarrow> (y, c2))"
    for x y :: "store_error option"
    by (rule keeps_map_result [OF keeps_query [of "assigned pid"]]) (simp split: prod.split sum.split bool.split)
  have "keeps R (\<lambda>c. if n = 0 then (case query (assigned pid) c of (Inr True, c2) \<Rightarrow> (x, c2) | (_, c2) \<Rightarrow> (y, c2)) else (z, c))"
    for x y z :: "store_error option" and n :: nat
    by (cases "n = 0") (simp_all only: refl look if_True if_False keeps_return)
  with deletion have store: "keeps R (policy_delete now pid)" for now
    unfolding policy_delete_def by (intro keeps_case)
  show ?thesis
    by (rule keeps_map_result [OF store [of "en_now en"]]) (simp add: delete_policy_def split: prod.split option.split)
qed

lemma store_event_kept: "allowed u role \<Longrightarrow> R (cn_db c) (cn_db (fold (store_event pid) evs c))"
proof (induction evs arbitrary: c)
  case (Cons ev evs)
  have "R (cn_db c) (cn_db (store_event pid ev c))"
    using keeps_set_metadata(1) [OF Cons.prems] by (cases ev) (auto simp: store_event_def keeps_def intro: same)
  then show ?case using Cons by (auto intro: compose)
qed (simp add: same)

lemma store_turn_kept:
  assumes "allowed u role"
  shows "R (cn_db c) (cn_db (store_turn p pid hist res c))"
proof -
  have draft: "R (cn_db c) (cn_db (snd (policy_update_draft pid t c)))" for t c
    using keeps_update_draft [OF assms] by (simp add: keeps_def)
  have summaries: "R (cn_db c) (cn_db (snd (policy_set_endpoint_summaries pid ss c)))" for ss c
    using keeps_set_metadata(1) [OF assms] by (simp add: keeps_def)
  have chat: "R (cn_db c) (cn_db (snd (policy_set_chat_history pid hs c)))" for hs c
    using keeps_set_metadata(2) [OF assms] by (simp add: keeps_def)
  let ?name = "if gr_new_name res = [] then lp_name p else gr_new_name res"
  let ?t = "\<lparr>pt_name = ?name, pt_prompt = gr_policy_prompt res, pt_provider = lp_provider p, pt_model = lp_model p,
    pt_static_rules = gr_static_rules res\<rparr>"
  let ?c1 = "if gr_policy_updated res \<or> gr_new_name res \<noteq> [] then snd (policy_update_draft pid ?t c) else c"
  let ?c2 = "snd (policy_set_endpoint_summaries pid (gr_new_summaries res) ?c1)"
  have "R (cn_db c) (cn_db ?c1)" using draft same by simp
  then have two: "R (cn_db c) (cn_db ?c2)" using summaries by (rule compose)
  then have three: "R (cn_db c) (cn_db (snd (policy_set_chat_history pid hs ?c2)))" for hs using chat by (rule compose)
  show ?thesis unfolding store_turn_def Let_def by (cases "gr_new_messages res = []") (simp_all only: refl if_True if_False two three)
qed

lemma keeps_agent_turn:
  assumes "allowed u role"
  shows "keeps R (agent_turn ag p pid b)"
proof -
  have saved: "R (cn_db c) (cn_db (snd (saved_summaries pid c)))" for c
    using keeps_policy_reads(2) [of pid] unfolding saved_summaries_def keeps_def
    by (auto split: prod.splits sum.splits option.splits) (metis snd_conv)+
  have events: "R (cn_db c) (cn_db (fold (store_event pid) evs (snd (saved_summaries pid c))))" for evs c
    using saved store_event_kept [OF assms] by (rule compose)
  then have turn: "R (cn_db c) (cn_db (store_turn p pid hist res (fold (store_event pid) evs (snd (saved_summaries pid c)))))"
    for evs hist res c using store_turn_kept [OF assms] by (rule compose)
  show ?thesis unfolding keeps_def agent_turn_def split_def Let_def
    by (simp add: events turn split: sum.split)
qed

lemma keeps_chat: "allowed u role \<Longrightarrow> keeps R (chat_with_agent a' r pid)"
  unfolding chat_with_agent_def by (auto split: option.splits intro!: keep keeps_agent_turn)

lemma handle_llm_policy_action_kept: "may allowed r c \<Longrightarrow> R (cn_db c) (cn_db (snd (handle_llm_policy_action a en r c)))"
  unfolding handle_llm_policy_action_def policy_action_def
  by (rule guarded) (auto simp: split_def Let_def intro!: keep
    intro: keeps_put_policy keeps_publish_policy keeps_fork_policy keeps_chat keeps_delete_policy)

subsection \<open>Evaluations and labels\<close>

lemma keeps_start_run:
  assumes "allowed u ''admin''"
  shows "keeps R (start_run a' en b)"
proof -
  note evals = keeps_evals [OF runs_set [OF assms]]
  have "R (cn_db c) (cn_db (snd (record_total f run c)))" for f run c
    using keeps_eval_reads(5) [of f] evals(2) unfolding record_total_def keeps_def
    by (auto simp: Let_def split: prod.splits sum.splits) (metis compose snd_conv)+
  then have "keeps R (\<lambda>c. case record_total f run c of (run1, c1) \<Rightarrow> (resp run1, c1))" for f run and resp :: "eval_run \<Rightarrow> admin_response"
    by (simp add: keeps_def split_def)
  then show ?thesis unfolding start_run_def by (intro keep evals(1))
qed

lemma handle_evals_kept: "may allowed r c \<Longrightarrow> R (cn_db c) (cn_db (snd (handle_evals a' en r c)))"
  unfolding handle_evals_def by (rule guarded) (auto intro!: keep intro: keeps_start_run)

lemma handle_eval_action_kept: "may allowed r c \<Longrightarrow> R (cn_db c) (cn_db (snd (handle_eval_action a' r c)))"
  unfolding handle_eval_action_def eval_action_def
  by (rule guarded) (auto simp: split_def Let_def intro!: keep)

lemma keeps_put_label:
  assumes "allowed u ''admin''"
  shows "keeps R (put_label en r v e)"
proof -
  note writes = keeps_labels [OF labels_set [OF assms]]
  have "keeps R (\<lambda>c. case get_label e c of (Inr (Some l), c1) \<Rightarrow> (f l, c1) | (_, c1) \<Rightarrow> (y, c1))"
    for f and y :: admin_response
    by (rule keeps_map_result [OF keeps_eval_reads(4) [of e]]) (simp split: prod.split sum.split option.split)
  then show ?thesis unfolding put_label_def by (intro keep writes(1))
qed

lemma keeps_label_action: "allowed u ''admin'' \<Longrightarrow> keeps R (label_action en r v e act)"
  unfolding label_action_def by (intro keep keeps_put_label keeps_labels(2) labels_set; assumption?)

lemma handle_audit_label_action_kept: "may allowed r c \<Longrightarrow> R (cn_db c) (cn_db (snd (handle_audit_label_action a' en r c)))"
  unfolding handle_audit_label_action_def
  by (rule guarded) (auto intro!: keep intro: keeps_label_action split: list.split)

lemma handle_llm_response_kept: "may allowed r c \<Longrightarrow> R (cn_db c) (cn_db (snd (handle_llm_response a' r c)))"
  unfolding handle_llm_response_def by (rule guarded) (auto simp: Let_def intro!: keep)

subsection \<open>Notification channels\<close>

lemma keeps_post_channel:
  assumes "allowed u role"
  shows "keeps R (post_channel a' en r v role')"
  unfolding post_channel_def Let_def by (intro keep keeps_channels(1) channels_set [OF assms])

lemma keeps_channel_action:
  assumes "allowed u role"
  shows "keeps R (channel_action a' en r v role' cid sub)"
  unfolding channel_action_def put_channel_def remove_channel_def Let_def
  by (intro keep keeps_channels channels_set [OF assms])

lemma handle_notification_channels_kept:
  "may allowed r c \<Longrightarrow> R (cn_db c) (cn_db (snd (handle_notification_channels a' en r c)))"
  unfolding handle_notification_channels_def list_channels_def channel_list_def
  by (rule guarded) (auto simp: Let_def intro!: keep intro: keeps_post_channel)

lemma handle_notification_channel_action_kept:
  "may allowed r c \<Longrightarrow> R (cn_db c) (cn_db (snd (handle_notification_channel_action a' en r c)))"
  unfolding handle_notification_channel_action_def
  by (rule guarded) (auto simp: split_def Let_def intro!: keep intro: keeps_channel_action)

subsection \<open>Sessions and all endpoints\<close>

lemma keeps_sessions: "keeps R (handle_login a' r)" "keeps R (handle_logout a' r)" "keeps R (handle_health r)" "keeps R (handle_me a' r)"
proof -
  have "keeps R (\<lambda>c. case get_user_by_web_token t c of (None, c1) \<Rightarrow> (y, c1) | (Some (uid, role), c1) \<Rightarrow> (f uid role, c1))"
    for t f and y :: admin_response
    by (rule keeps_map_result [OF keeps_token [of t]]) (simp split: prod.split option.split)
  then show "keeps R (handle_login a' r)" unfolding handle_login_def keeps_def on_body_def reply_def
    by (auto split: sum.split intro: same)
  have "R (cn_db c) (cn_db (snd (case get_user_by_web_token t c of (None, c1) \<Rightarrow> (y, c1) | (Some (uid, role), c1) \<Rightarrow> (f uid role, c1))))"
    for t c f and y :: admin_response
    using keeps_token [of t] unfolding keeps_def by (auto split: prod.split option.split) (metis snd_conv)+
  then show "keeps R (handle_me a' r)" unfolding handle_me_def keeps_def Let_def by (auto intro: same)
qed (auto simp: handle_logout_def handle_health_def intro!: keep)

lemma serve_kept:
  assumes "may allowed r c"
  shows "R (cn_db c) (cn_db (snd (serve a en r c)))"
proof (cases "route (aq_path r)")
  case None
  then show ?thesis by (simp add: serve_def reply_kept)
next
  case (Some e)
  have "R (cn_db c) (cn_db (snd (run_endpoint e a en r c)))"
    using assms keeps_sessions
    by (cases e)
      (simp_all add: keeps_def handle_audit_log_kept handle_sse_kept handle_me_bots_kept handle_users_kept handle_user_action_kept
        handle_llm_policies_kept handle_llm_policy_action_kept handle_evals_kept handle_eval_action_kept
        handle_audit_label_action_kept handle_llm_response_kept handle_notification_channels_kept
        handle_notification_channel_action_kept)
  with Some show ?thesis by (simp add: serve_def)
qed

end

end
