(* ===== verification/Api_Props.thy ===== *)
theory Api_Props imports Api_Writes begin

text \<open>
  What requests to the admin API can do to the tables: nothing without a role, nothing beyond
  new bots of one's own for a manager; and the invariants all requests keep, on roles, on
  published policies and on the policies that are assigned. Each theorem is an interpretation of
  the interface of writes.
\<close>

subsection \<open>Requests without a role\<close>

interpretation nobody: api_writes "(=)" a "\<lambda>_ _. False" for a
  by unfold_locales simp_all

definition roleless :: "admin_request \<Rightarrow> conn \<Rightarrow> bool" where
  "roleless r c \<longleftrightarrow> (\<forall>u role. fst (get_user_by_web_token (extract_web_token r) c) = Some (u, role) \<longrightarrow>
     role \<noteq> ''manager'' \<and> role \<noteq> ''admin'')"

definition refused :: "admin_response \<Rightarrow> bool" where
  "refused resp \<longleftrightarrow> (\<exists>code msg. resp = error_text code msg)"

lemma refused_error [simp]: "refused (error_text code msg)" "refused (respond_error code msg e)" "refused unauthorized"
    "refused forbidden" "refused method_not_allowed" "refused not_found" "refused store_unavailable"
  by (auto simp: refused_def unauthorized_def forbidden_def method_not_allowed_def not_found_def respond_error_def store_unavailable_def)

lemma with_role_refused:
  assumes "roleless r c" and "minRole = ''manager'' \<or> minRole = ''admin''"
  shows "refused (fst (with_role a minRole r body c))"
proof (cases "require_role a minRole r c")
  case (Pair res c1)
  show ?thesis
  proof (cases res)
    case (Inl resp)
    then have "resp = unauthorized \<or> resp = forbidden"
      using Pair unfolding require_role_def Let_def by (auto split: prod.splits option.splits if_splits)
    then show ?thesis using Pair Inl by (auto simp: with_role_def)
  next
    case (Inr ur)
    obtain u role where "ur = (u, role)" by (cases ur)
    then show ?thesis using require_role_caller(1,2) [OF _ assms(2), of a r c u role c1] Pair Inr assms(1)
      by (auto simp: roleless_def)
  qed
qed

lemma refused_reply [simp]: "refused (fst (reply resp c)) \<longleftrightarrow> refused resp"
  by (simp add: reply_def)

lemma guarded_endpoint_refuses:
  assumes "roleless r c" and "e \<notin> {Login, Logout, Me, Health}"
  shows "refused (fst (run_endpoint e a en r c))"
  using assms
  by (cases e)
    (auto simp: handle_audit_log_def handle_sse_def handle_me_bots_def handle_users_def handle_user_action_def handle_user_managers_def
      handle_llm_policies_def handle_llm_policy_action_def handle_evals_def handle_eval_action_def
      handle_audit_label_action_def handle_llm_response_def handle_notification_channels_def
      handle_notification_channel_action_def split_def Let_def with_role_refused split: option.split)

text \<open>
  C12: without the token of a manager or an administrator a request changes nothing in the
  tables, whichever endpoint, method, path and body it names and whatever statements fail; and
  outside the session and health endpoints its answer is an error text, so that nothing of the
  tables is in it and no run is started or cancelled.
\<close>

theorem no_role_no_effect:
  assumes "\<forall>u role. fst (get_user_by_web_token (extract_web_token r) c) = Some (u, role) \<longrightarrow>
    role \<noteq> ''manager'' \<and> role \<noteq> ''admin''"
  shows "cn_db (snd (serve a en r c)) = cn_db c \<and>
    (route (aq_path r) \<notin> Some ` {Login, Logout, Me, Health} \<longrightarrow> refused (fst (serve a en r c)))"
proof
  have "may (\<lambda>_ _. False) r c" using assms by (auto simp: may_def)
  then show "cn_db (snd (serve a en r c)) = cn_db c" by (rule nobody.serve_kept [symmetric])
  show "route (aq_path r) \<notin> Some ` {Login, Logout, Me, Health} \<longrightarrow> refused (fst (serve a en r c))"
    using assms guarded_endpoint_refuses [of r c] by (cases "route (aq_path r)") (auto simp: serve_def roleless_def)
qed

definition delete_request :: "string option \<Rightarrow> admin_request" where
  "delete_request token =
     \<lparr>aq_method = ''DELETE'', aq_path = ''/admin/users/bob'', aq_raw_path = [], aq_query = (\<lambda>_. []), aq_header = [],
      aq_cookie = token, aq_body = []\<rparr>"

definition bob :: user_row where
  "bob = \<lparr>ur_id = ''bob'', ur_is_admin = False, ur_role = ''user'', ur_policy_id = None, ur_created_at = 0, ur_updated_at = 0\<rparr>"

definition bob_database :: database where
  "bob_database = empty_database\<lparr>db_users := [bob],
     db_channels := [\<lparr>cr_id = ''c'', cr_user_id = ''bob'', cr_type = ''web'', cr_payload = [''web_token'' \<mapsto> ''t'']\<rparr>]\<rparr>"

lemma no_role_no_effect_witness:
  "\<forall>a en. cn_db (snd (serve a en (delete_request (Some ''t'')) (connect bob_database))) = bob_database \<and>
     refused (fst (serve a en (delete_request (Some ''t'')) (connect bob_database)))"
proof (intro allI)
  fix a en
  let ?r = "delete_request (Some ''t'')"
  have "fst (get_user_by_web_token (extract_web_token ?r) (connect bob_database)) = Some (''bob'', ''user'')" by code_simp
  then have "\<forall>u role. fst (get_user_by_web_token (extract_web_token ?r) (connect bob_database)) = Some (u, role) \<longrightarrow>
      role \<noteq> ''manager'' \<and> role \<noteq> ''admin''" by auto
  then have "cn_db (snd (serve a en ?r (connect bob_database))) = cn_db (connect bob_database) \<and>
      (route (aq_path ?r) \<notin> Some ` {Login, Logout, Me, Health} \<longrightarrow> refused (fst (serve a en ?r (connect bob_database))))"
    by (rule no_role_no_effect)
  moreover have "route (aq_path ?r) = Some UserAction" by code_simp
  ultimately show "cn_db (snd (serve a en ?r (connect bob_database))) = bob_database \<and>
      refused (fst (serve a en ?r (connect bob_database)))" by (auto simp: connect_def)
qed

subsection \<open>Managers\<close>

text \<open>
  What a caller who is no administrator may add: users with the role of a bot and fresh
  identifiers, with channels of their own, and assignments of such bots to the caller. The
  assignments between existing users are the rows they were (the tables' foreign keys make
  that every row there was).
\<close>

definition between_users :: "database \<Rightarrow> manager_row \<Rightarrow> bool" where
  "between_users d m \<longleftrightarrow> mr_bot_id m \<in> ur_id ` set (db_users d) \<and> mr_manager_id m \<in> ur_id ` set (db_users d)"

definition no_new_rights :: "string \<Rightarrow> database \<Rightarrow> database \<Rightarrow> bool" where
  "no_new_rights caller d d1 \<longleftrightarrow>
     (\<exists>new. db_users d1 = db_users d @ new \<and>
        (\<forall>u \<in> set new. ur_role u = ''user'' \<and> \<not> ur_is_admin u \<and> ur_policy_id u = None \<and> ur_id u \<notin> ur_id ` set (db_users d))) \<and>
     (\<forall>u \<in> set (db_users d). channels_of d1 (ur_id u) = channels_of d (ur_id u)) \<and>
     (\<forall>m \<in> set (db_managers d1). m \<in> set (db_managers d) \<or> mr_manager_id m = caller \<and> mr_bot_id m \<notin> ur_id ` set (db_users d)) \<and>
     filter (between_users d) (db_managers d1) = filter (between_users d) (db_managers d)"

lemma no_new_rights_same:
  "db_users d1 = db_users d \<Longrightarrow> db_channels d1 = db_channels d \<Longrightarrow> db_managers d1 = db_managers d \<Longrightarrow> no_new_rights caller d d1"
  by (auto simp: no_new_rights_def channels_of_def)

lemma no_new_rights_trans:
  assumes "no_new_rights caller d d1" and "no_new_rights caller d1 d2"
  shows "no_new_rights caller d d2"
proof -
  from assms(1) obtain new where new: "db_users d1 = db_users d @ new"
      "\<forall>u \<in> set new. ur_role u = ''user'' \<and> \<not> ur_is_admin u \<and> ur_policy_id u = None \<and> ur_id u \<notin> ur_id ` set (db_users d)"
    by (auto simp: no_new_rights_def)
  from assms(2) obtain more where more: "db_users d2 = db_users d1 @ more"
      "\<forall>u \<in> set more. ur_role u = ''user'' \<and> \<not> ur_is_admin u \<and> ur_policy_id u = None \<and> ur_id u \<notin> ur_id ` set (db_users d1)"
    by (auto simp: no_new_rights_def)
  have "\<exists>n. db_users d2 = db_users d @ n \<and>
      (\<forall>u \<in> set n. ur_role u = ''user'' \<and> \<not> ur_is_admin u \<and> ur_policy_id u = None \<and> ur_id u \<notin> ur_id ` set (db_users d))"
    by (rule exI [of _ "new @ more"]) (use new more in auto)
  moreover have "\<forall>u \<in> set (db_users d). channels_of d2 (ur_id u) = channels_of d (ur_id u)"
    using assms new(1) by (simp add: no_new_rights_def)
  moreover have "\<forall>m \<in> set (db_managers d2). m \<in> set (db_managers d) \<or> mr_manager_id m = caller \<and> mr_bot_id m \<notin> ur_id ` set (db_users d)"
    using assms new(1) unfolding no_new_rights_def by (fastforce simp: image_Un)
  moreover have "filter (between_users d) (db_managers d2) = filter (between_users d) (db_managers d)"
  proof -
    have sub: "filter (between_users d) (filter (between_users d1) ms) = filter (between_users d) ms" for ms
      unfolding filter_filter by (rule filter_cong) (auto simp: between_users_def new(1))
    have "filter (between_users d) (filter (between_users d1) (db_managers d2)) =
        filter (between_users d) (filter (between_users d1) (db_managers d1))"
      using assms(2) by (simp add: no_new_rights_def)
    then show ?thesis using assms(1) unfolding sub by (simp add: no_new_rights_def)
  qed
  ultimately show ?thesis by (simp add: no_new_rights_def)
qed

text \<open>A user that was created, with its channels; nothing else.\<close>

definition user_added :: "string \<Rightarrow> string \<Rightarrow> database \<Rightarrow> database \<Rightarrow> bool" where
  "user_added user role d d1 \<longleftrightarrow>
     find_user user d = None \<and>
     (\<exists>now chs. (\<forall>ch \<in> set chs. cr_user_id ch = user) \<and>
       d1 = d\<lparr>db_users := db_users d @ [\<lparr>ur_id = user, ur_is_admin = role_is_admin role, ur_role = role, ur_policy_id = None,
                ur_created_at = now, ur_updated_at = now\<rparr>], db_channels := db_channels d @ chs\<rparr>)"

lemma channel_inserted:
  assumes "insert_channel cid user type payload d = (Inr (), d1)"
  obtains ch where "cr_user_id ch = user" and "d1 = d\<lparr>db_channels := db_channels d @ [ch]\<rparr>"
  using assms that [of "\<lparr>cr_id = cid, cr_user_id = user, cr_type = type, cr_payload = payload\<rparr>"]
  by (auto simp: insert_channel_def split: if_splits)

lemma user_added_channel:
  assumes "user_added user role d d1" and "insert_channel cid user type payload d1 = (Inr (), d2)"
  shows "user_added user role d d2"
proof -
  obtain ch where ch: "cr_user_id ch = user" "d2 = d1\<lparr>db_channels := db_channels d1 @ [ch]\<rparr>"
    using assms(2) by (rule channel_inserted)
  from assms(1) obtain now chs where d1: "find_user user d = None" "\<forall>ch \<in> set chs. cr_user_id ch = user"
      "d1 = d\<lparr>db_users := db_users d @ [\<lparr>ur_id = user, ur_is_admin = role_is_admin role, ur_role = role, ur_policy_id = None,
                ur_created_at = now, ur_updated_at = now\<rparr>], db_channels := db_channels d @ chs\<rparr>"
    by (auto simp: user_added_def)
  show ?thesis unfolding user_added_def
    by (intro conjI exI [of _ now] exI [of _ "chs @ [ch]"]) (use ch d1 in auto)
qed

lemma svalid_exec: "(\<And>d x d1. q d = (Inr x, d1) \<Longrightarrow> P d x d1) \<Longrightarrow> svalid P (exec q)"
  by (intro svalid_sruns sruns_exec)

lemma find_user_id: "find_user user d = Some u \<Longrightarrow> ur_id u = user"
  unfolding find_user_def find_Some_iff by blast

lemma sbindE:
  assumes "sbind m f c = (Inr y, c2)"
  obtains x c1 where "m c = (Inr x, c1)" and "f x c1 = (Inr y, c2)"
  using assms by (auto simp: sbind_def split: prod.splits sum.splits)

lemma got_user:
  assumes "get_user user c = (Inr x, c2)"
  shows "ud_id x = user"
proof -
  obtain u c1 where "swrap ''user not found: '' (query_row (find_user user)) c = (Inr u, c1)" and ud: "ud_id x = ur_id u"
    using assms unfolding get_user_def by (elim sbindE) (auto simp: sreturn_def)
  moreover have "sruns (\<lambda>d u d1. ur_id u = user) (swrap ''user not found: '' (query_row (find_user user)))"
    by (intro sruns_swrap sruns_query_row find_user_id)
  ultimately show ?thesis using srunsD(1) by fastforce
qed

lemma create_user_run:
  assumes "create_user now wid gid newToken req c = (res, c1)"
  shows "cn_db c1 = cn_db c \<or> user_added (cu_id req) (resolve_role (cu_role req) (cu_is_admin req)) (cn_db c) (cn_db c1)"
    and "res = Inr u \<Longrightarrow> ud_id u = cu_id req \<and>
      user_added (cu_id req) (resolve_role (cu_role req) (cu_is_admin req)) (cn_db c) (cn_db c1)"
proof -
  let ?role = "resolve_role (cu_role req) (cu_is_admin req)"
  let ?P = "\<lambda>d x d1. user_added (cu_id req) ?role d d1"
  define Q :: "database \<Rightarrow> unit \<Rightarrow> database \<Rightarrow> bool"
    where "Q d x d1 \<longleftrightarrow> (\<forall>d0. user_added (cu_id req) ?role d0 d \<longrightarrow> user_added (cu_id req) ?role d0 d1)" for d x d1
  let ?gat = "if cu_gateway_auth_token req = [] then newToken else cu_gateway_auth_token req"
  let ?insert = "swrap ''create user: '' (exec (insert_user now (cu_id req) ?role))"
  let ?web = "if cu_web_token req = [] then sreturn ()
     else swrap ''create web channel: '' (exec (insert_channel wid (cu_id req) ''web'' [''web_token'' \<mapsto> cu_web_token req]))"
  let ?gate = "swrap ''create gateway_auth channel: ''
     (exec (insert_channel gid (cu_id req) ''gateway_auth'' [''gateway_auth_token'' \<mapsto> ?gat]))"
  have added: "svalid ?P ?insert"
    by (intro svalid_sruns sruns_swrap sruns_exec)
      (auto simp: insert_user_def user_added_def split: if_splits intro!: exI [of _ now] exI [of _ "[]"])
  have inserted: "svalid Q (swrap msg (exec (insert_channel cid (cu_id req) type payload)))" for msg cid type payload
    by (intro svalid_sruns sruns_swrap sruns_exec) (auto simp: Q_def intro: user_added_channel)
  have web: "svalid Q ?web"
    by (cases "cu_web_token req = []") (simp_all add: inserted, simp add: svalid_return Q_def)
  have both: "svalid Q (sbind ?web (\<lambda>_. ?gate))"
    by (rule svalid_bind [OF web inserted]) (simp add: Q_def)
  have "svalid ?P (sbind ?insert (\<lambda>_. sbind ?web (\<lambda>_. ?gate)))"
    by (rule svalid_bind [OF added both]) (simp add: Q_def)
  then have tx: "sruns ?P (transaction (sbind ?insert (\<lambda>_. sbind ?web (\<lambda>_. ?gate))))" by (rule sruns_transaction)
  obtain r1 c0 where run: "transaction (sbind ?insert (\<lambda>_. sbind ?web (\<lambda>_. ?gate))) c = (r1, c0)" by fastforce
  have read: "cn_db c2 = cn_db c0" if "get_user (cu_id req) c0 = (r2, c2)" for r2 c2
    using unch.kept [OF unch.keeps_get_user that, of "\<lambda>d. d"] by (simp add: unchanged_def)
  show "cn_db c1 = cn_db c \<or> user_added (cu_id req) ?role (cn_db c) (cn_db c1)"
  proof (cases r1)
    case (Inl e)
    then show ?thesis using assms run srunsD(2) [OF tx, of c e c0] by (simp add: create_user_def Let_def sbind_def)
  next
    case (Inr x)
    then show ?thesis using assms run srunsD(1) [OF tx, of c x c0] read [of res c1] by (simp add: create_user_def Let_def sbind_def)
  qed
  show "ud_id u = cu_id req \<and> user_added (cu_id req) ?role (cn_db c) (cn_db c1)" if "res = Inr u"
  proof (cases r1)
    case (Inl e)
    then show ?thesis using assms run that by (simp add: create_user_def Let_def sbind_def)
  next
    case (Inr x)
    then show ?thesis using assms run that srunsD(1) [OF tx, of c x c0] read [of res c1] got_user [of "cu_id req" c0 u c1]
      by (simp add: create_user_def Let_def sbind_def)
  qed
qed

lemma user_added_rights:
  assumes "user_added user ''user'' d d1"
  shows "no_new_rights caller d d1" and "user \<notin> ur_id ` set (db_users d)"
proof -
  from assms obtain now chs where d1: "find_user user d = None" "\<forall>ch \<in> set chs. cr_user_id ch = user"
      "d1 = d\<lparr>db_users := db_users d @ [\<lparr>ur_id = user, ur_is_admin = role_is_admin ''user'', ur_role = ''user'', ur_policy_id = None,
                ur_created_at = now, ur_updated_at = now\<rparr>], db_channels := db_channels d @ chs\<rparr>"
    by (auto simp: user_added_def)
  show fresh: "user \<notin> ur_id ` set (db_users d)" using d1(1) by (auto simp: find_user_def find_None_iff)
  have "filter (\<lambda>ch. cr_user_id ch = ur_id u) chs = []" if "u \<in> set (db_users d)" for u
    using d1(2) fresh that by (auto simp: filter_empty_conv)
  then show "no_new_rights caller d d1" using fresh d1(3) by (simp add: no_new_rights_def channels_of_def role_is_admin_def)
qed

text \<open>The rollback of a creation whose assignment failed takes back only what was added.\<close>

lemma user_deleted_rights:
  assumes "user_added user ''user'' d d1" and "delete_users user d1 = (Inr n, d2)"
  shows "no_new_rights caller d d2"
proof (cases "find_user user d1 = None")
  case True
  then have "d2 = d1" using assms(2) by (simp add: delete_users_def)
  then show ?thesis using user_added_rights(1) [OF assms(1)] by simp
next
  case False
  let ?users = "db_users d"
  from assms(1) obtain now chs where d1: "find_user user d = None" "\<forall>ch \<in> set chs. cr_user_id ch = user"
      "d1 = d\<lparr>db_users := ?users @ [\<lparr>ur_id = user, ur_is_admin = role_is_admin ''user'', ur_role = ''user'', ur_policy_id = None,
                ur_created_at = now, ur_updated_at = now\<rparr>], db_channels := db_channels d @ chs\<rparr>"
    by (auto simp: user_added_def)
  have fresh: "user \<notin> ur_id ` set ?users" using user_added_rights(2) [OF assms(1)] .
  have d2: "db_users d2 = filter (\<lambda>u. ur_id u \<noteq> user) (db_users d1)" "db_channels d2 = filter (\<lambda>ch. cr_user_id ch \<noteq> user) (db_channels d1)"
      "db_managers d2 = filter (\<lambda>m. mr_bot_id m \<noteq> user \<and> mr_manager_id m \<noteq> user) (db_managers d1)"
    using assms(2) False by (auto simp: delete_users_def split: if_splits)
  have "filter (\<lambda>u. ur_id u \<noteq> user) ?users = ?users" using fresh by (intro filter_True) auto
  then have users: "db_users d2 = ?users" using d2(1) d1(3) by simp
  have "filter (\<lambda>ch. cr_user_id ch \<noteq> user) chs = []" using d1(2) by (simp add: filter_empty_conv)
  then have chans: "channels_of d2 (ur_id u) = channels_of d (ur_id u)" if "u \<in> set ?users" for u
    using that fresh d2(2) d1(3) unfolding channels_of_def
    by (auto intro!: filter_cong simp: image_iff)
  have "filter (between_users d) (db_managers d2) = filter (between_users d) (db_managers d)"
    using fresh d1(3) unfolding d2(3) filter_filter by (auto intro!: filter_cong simp: between_users_def)
  then show ?thesis unfolding no_new_rights_def using users chans d2(3) d1(3) by auto
qed

lemma manager_inserted:
  assumes "insert_manager now mid botID caller d1 = (Inr (), d2)" and "no_new_rights caller d d1" and "botID \<notin> ur_id ` set (db_users d)"
  shows "no_new_rights caller d d2"
proof -
  have "\<not> between_users d \<lparr>mr_id = mid, mr_bot_id = botID, mr_manager_id = caller, mr_created_at = now\<rparr>"
    using assms(3) by (simp add: between_users_def)
  then show ?thesis
    using assms unfolding insert_manager_def no_new_rights_def channels_of_def by (auto split: if_splits)
qed

lemma exec_outcome:
  "exec q c = (Inr x, c1) \<Longrightarrow> q (cn_db c) = (Inr x, cn_db c1)"
  "exec q c = (Inl e, c1) \<Longrightarrow> cn_db c1 = cn_db c"
  using srunsD [OF sruns_exec [of q "\<lambda>d x d1. q d = (Inr x, d1)"]] by blast+

lemma delete_user_outcome:
  "cn_db (snd (delete_user user c)) = cn_db c \<or> (\<exists>n. delete_users user (cn_db c) = (Inr n, cn_db (snd (delete_user user c))))"
proof -
  obtain r c1 where run: "exec (delete_users user) c = (r, c1)" by fastforce
  then have "snd (delete_user user c) = c1"
    by (cases r) (simp_all add: delete_user_def sbind_def sfail_def sreturn_def)
  then show ?thesis using exec_outcome [of "delete_users user" c _ c1] run by (cases r) simp_all
qed

lemma bot_created_rights:
  assumes "cu_role req = Some ''user''" and "role \<noteq> ''admin''"
  shows "keeps (no_new_rights caller) (create_and_assign en caller role req)"
  unfolding keeps_def
proof
  fix c
  have role: "resolve_role (cu_role req) (cu_is_admin req) = ''user''" using assms(1) by (simp add: resolve_role_def ValidRoles_def)
  let ?create = "create_user (en_now en) (en_id en ''chan'' 0) (en_id en ''chan'' 1) (en_token en) req"
  obtain res c1 where run: "?create c = (res, c1)" by fastforce
  note created = create_user_run [OF run, unfolded role]
  have first: "no_new_rights caller (cn_db c) (cn_db c1)"
    using created(1) by (auto intro: user_added_rights(1) no_new_rights_same)
  show "no_new_rights caller (cn_db c) (cn_db (snd (create_and_assign en caller role req c)))"
  proof (cases res)
    case (Inl e)
    then show ?thesis using run first by (simp add: create_and_assign_def on_sql_def)
  next
    case (Inr u)
    note added = created(2) [OF Inr]
    obtain r2 c2 where assign: "assign_manager (en_now en) (en_id en ''mgr'' 0) (ud_id u) caller c1 = (r2, c2)" by fastforce
    show ?thesis
    proof (cases r2)
      case (Inr x)
      have "insert_manager (en_now en) (en_id en ''mgr'' 0) (cu_id req) caller (cn_db c1) = (Inr (), cn_db c2)"
        using exec_outcome(1) [of _ c1 "()" c2] assign Inr added by (simp add: assign_manager_def)
      then have "no_new_rights caller (cn_db c) (cn_db c2)"
        by (rule manager_inserted [OF _ first user_added_rights(2) [OF conjunct2 [OF added]]])
      then show ?thesis using run assign Inr \<open>res = Inr u\<close> assms(2) by (simp add: create_and_assign_def on_sql_def)
    next
      case (Inl e)
      have "cn_db c2 = cn_db c1" using exec_outcome(2) assign Inl unfolding assign_manager_def by blast
      then have "no_new_rights caller (cn_db c) (cn_db (snd (delete_user (ud_id u) c2)))"
        using delete_user_outcome [of "ud_id u" c2] first added user_deleted_rights [OF conjunct2 [OF added]] by auto
      then show ?thesis using run assign Inl Inr assms(2) by (simp add: create_and_assign_def on_sql_def)
    qed
  qed
qed

interpretation managers: api_writes "no_new_rights caller" a "\<lambda>u role. u = caller \<and> role \<noteq> ''admin''" for caller a
proof unfold_locales
  fix u role en and req :: create_user_request
  assume "u = caller \<and> role \<noteq> ''admin''" and "cu_role req = Some ''user''"
  then show "keeps (no_new_rights caller) (create_and_assign en u role req)" using bot_created_rights by simp
qed (auto intro: no_new_rights_trans no_new_rights_same simp: update_policies_def)

text \<open>
  C13: a manager cannot raise privileges. A request of a caller that is no administrator leaves
  every existing user as it was (role, policy, web and gateway tokens), adds only bots with the
  role user, without a policy and with identifiers that were not taken, leaves every assignment
  between existing users where it was, and adds only assignments of new bots to the caller.
\<close>

theorem manager_gains_no_rights:
  assumes "fst (get_user_by_web_token (extract_web_token r) c) = Some (caller, role)" and "role \<noteq> ''admin''"
  shows "no_new_rights caller (cn_db c) (cn_db (snd (serve a en r c)))"
  using assms by (intro managers.serve_kept) (simp add: may_def)

definition ann_database :: database where
  "ann_database = bob_database\<lparr>
     db_users := [bob, bob\<lparr>ur_id := ''ann'', ur_role := ''manager''\<rparr>],
     db_channels := [\<lparr>cr_id = ''m'', cr_user_id = ''ann'', cr_type = ''web'', cr_payload = [''web_token'' \<mapsto> ''s'']\<rparr>]\<rparr>"

lemma manager_gains_no_rights_witness:
  "\<forall>a en. no_new_rights ''ann'' ann_database (cn_db (snd (serve a en (delete_request (Some ''s'')) (connect ann_database))))"
proof (intro allI)
  fix a en
  have "fst (get_user_by_web_token (extract_web_token (delete_request (Some ''s''))) (connect ann_database)) = Some (''ann'', ''manager'')"
    by code_simp
  from manager_gains_no_rights [OF this, of a en]
  show "no_new_rights ''ann'' ann_database (cn_db (snd (serve a en (delete_request (Some ''s'')) (connect ann_database))))"
    by (simp add: connect_def)
qed

end
