(* ===== verification/Api_Invariants.thy ===== *)
theory Api_Invariants imports Api_Props begin

text \<open>
  Invariants of the tables that every sequence of requests to the admin API keeps, whoever sends
  them and whichever statements fail.
\<close>

subsection \<open>Sequences of requests\<close>

record served =
  sv_env :: api_env
  sv_request :: admin_request
  sv_faults :: "go_error option list"
  sv_cut :: nat

fun serve_all :: "served list \<Rightarrow> api \<Rightarrow> database \<Rightarrow> database" where
  "serve_all [] a d = d"
| "serve_all (q # qs) a d =
     (case serve a (sv_env q) (sv_request q) \<lparr>cn_db = d, cn_faults = sv_faults q, cn_cut = sv_cut q\<rparr> of
        (resp, c) \<Rightarrow> serve_all qs (after_response resp a) (cn_db c))"

lemma after_response_store [simp]: "ap_policy_store (after_response resp a) = ap_policy_store a"
  by (simp add: after_response_def split: api_effect.split)

lemma serve_all_kept:
  assumes "table_order R" and "\<And>a en r c. P a \<Longrightarrow> R (cn_db c) (cn_db (snd (serve a en r c)))"
    and "\<And>a resp. P a \<Longrightarrow> P (after_response resp a)" and "P a"
  shows "R d (serve_all qs a d)"
  using assms(4)
proof (induction qs arbitrary: a d)
  case Nil
  then show ?case using table_order.same [OF assms(1)] by simp
next
  case (Cons q qs)
  let ?c = "\<lparr>cn_db = d, cn_faults = sv_faults q, cn_cut = sv_cut q\<rparr>"
  obtain resp c where run: "serve a (sv_env q) (sv_request q) ?c = (resp, c)" by fastforce
  have "R d (cn_db c)" using assms(2) [OF Cons.prems, of ?c "sv_env q" "sv_request q"] run by simp
  moreover have "R (cn_db c) (serve_all qs (after_response resp a) (cn_db c))" by (intro Cons.IH assms(3) Cons.prems)
  ultimately show ?case using run table_order.compose [OF assms(1)] by auto
qed

subsection \<open>Roles\<close>

definition roles_valid :: "database \<Rightarrow> bool" where
  "roles_valid d \<longleftrightarrow> (\<forall>u \<in> set (db_users d). ValidRoles (ur_role u) \<and> ur_is_admin u = role_is_admin (ur_role u))"

definition roles_kept :: "database \<Rightarrow> database \<Rightarrow> bool" where
  "roles_kept d d1 \<longleftrightarrow> (roles_valid d \<longrightarrow> roles_valid d1)"

lemma resolve_role_valid [simp]: "ValidRoles (resolve_role role isAdmin)"
  by (simp add: resolve_role_def ValidRoles_def split: option.split)

lemma resolve_none_admin [simp]: "role_is_admin (resolve_role None b) = b"
  by (simp add: resolve_role_def role_is_admin_def)

lemma updated_row_valid:
  "ValidRoles (ur_role u) \<and> ur_is_admin u = role_is_admin (ur_role u) \<Longrightarrow>
   ValidRoles (ur_role (updated_row now req u)) \<and> ur_is_admin (updated_row now req u) = role_is_admin (ur_role (updated_row now req u))"
  by (auto simp: updated_row_def Let_def split: option.split)

interpretation roles: table_order roles_kept
  by unfold_locales (simp_all add: roles_kept_def)

lemma roles_kept_users [simp]: "db_users d1 = db_users d \<Longrightarrow> roles_kept d d1"
  by (simp add: roles_kept_def roles_valid_def)

lemma create_user_roles: "keeps roles_kept (create_user now w g tok req)"
  unfolding keeps_def
proof
  fix c
  obtain res c1 where run: "create_user now w g tok req c = (res, c1)" by fastforce
  show "roles_kept (cn_db c) (cn_db (snd (create_user now w g tok req c)))"
    using create_user_run(1) [OF run] run by (auto simp: user_added_def roles_kept_def roles_valid_def)
qed

lemma delete_user_roles: "keeps roles_kept (delete_user v)"
  unfolding delete_user_def
  by (intro keep roles.keeps_exec) (auto simp: delete_users_def roles_kept_def roles_valid_def split: if_splits)

lemma assign_manager_roles: "keeps roles_kept (assign_manager now mid b m)"
  unfolding assign_manager_def by (rule roles.keeps_exec) (auto simp: insert_manager_def split: if_splits)

lemma set_token_channel_roles: "keeps roles_kept (set_token_channel cid user type key token)"
  unfolding set_token_channel_def delete_channel_def upsert_channel_def insert_channel_def
  by (auto intro!: keep roles.keeps_exec split: option.splits if_splits)

lemma update_user_roles: "keeps roles_kept (update_user now w g user req)"
  unfolding update_user_def
  by (intro keep set_token_channel_roles roles.keeps_exec)
    (auto simp: update_users_def roles_kept_def roles_valid_def updated_row_valid split: if_splits)

interpretation role_writes: api_writes roles_kept a "\<lambda>_ _. True" for a
proof unfold_locales
  fix u role en and req :: create_user_request
  show "keeps roles_kept (create_and_assign en u role req)" "keeps roles_kept (create_and_assign en u ''admin'' req)"
    by (intro roles.keeps_create_and_assign create_user_roles assign_manager_roles delete_user_roles)+
next
  fix en r email
  show "keeps roles_kept (put_user a en r email)" by (intro roles.keeps_put_user update_user_roles)
qed (auto simp: update_policies_def delete_users_def insert_manager_def delete_managers_def roles_kept_def roles_valid_def split: if_splits)

text \<open>
  C34: the role column is well typed. If every user's role is one of the three roles and the
  administrator flag says whether it is admin, this is so after any sequence of requests, with
  any bodies and any failing statements: a role that is not one of the three is never stored,
  and the flag never disagrees with the role.
\<close>

theorem roles_stay_valid:
  assumes "roles_valid d"
  shows "roles_valid (serve_all qs a d)"
proof -
  have "roles_kept d (serve_all qs a d)"
    by (rule serve_all_kept [where P = "\<lambda>_. True"])
      (auto intro: roles.table_order_axioms role_writes.serve_kept simp: may_def)
  with assms show ?thesis by (simp add: roles_kept_def)
qed

lemma roles_stay_valid_witness:
  "\<forall>qs a. roles_valid (serve_all qs a ann_database)"
proof -
  have "roles_valid ann_database" by code_simp
  then show ?thesis using roles_stay_valid by blast
qed

subsection \<open>Published policies\<close>

text \<open>
  A policy that is no draft keeps everything but its deletion time, and that is set at most once.
\<close>

definition published_kept :: "database \<Rightarrow> database \<Rightarrow> bool" where
  "published_kept d d1 \<longleftrightarrow>
     (\<forall>p \<in> set (db_policies d). lp_status p \<noteq> ''draft'' \<longrightarrow>
        (\<exists>t. p\<lparr>lp_deleted_at := t\<rparr> \<in> set (db_policies d1) \<and> (lp_deleted_at p \<noteq> None \<longrightarrow> t = lp_deleted_at p)))"

lemma published_kept_if_kept:
  assumes "\<And>p. p \<in> set (db_policies d) \<Longrightarrow> lp_status p \<noteq> ''draft'' \<Longrightarrow> p \<in> set (db_policies d1)"
  shows "published_kept d d1"
  unfolding published_kept_def
proof (intro ballI impI)
  fix p
  assume "p \<in> set (db_policies d)" and "lp_status p \<noteq> ''draft''"
  then have "p\<lparr>lp_deleted_at := lp_deleted_at p\<rparr> \<in> set (db_policies d1)" using assms by simp
  then show "\<exists>t. p\<lparr>lp_deleted_at := t\<rparr> \<in> set (db_policies d1) \<and> (lp_deleted_at p \<noteq> None \<longrightarrow> t = lp_deleted_at p)" by blast
qed

lemma published_kept_same [simp]: "db_policies d1 = db_policies d \<Longrightarrow> published_kept d d1"
  by (rule published_kept_if_kept) simp

lemma published_kept_trans:
  assumes "published_kept d d1" and "published_kept d1 d2"
  shows "published_kept d d2"
  unfolding published_kept_def
proof (intro ballI impI)
  fix p
  assume "p \<in> set (db_policies d)" and "lp_status p \<noteq> ''draft''"
  with assms(1) obtain t where t: "p\<lparr>lp_deleted_at := t\<rparr> \<in> set (db_policies d1)" "lp_deleted_at p \<noteq> None \<longrightarrow> t = lp_deleted_at p"
    by (auto simp: published_kept_def)
  with assms(2) \<open>lp_status p \<noteq> _\<close> obtain t2 where "p\<lparr>lp_deleted_at := t2\<rparr> \<in> set (db_policies d2)" "t \<noteq> None \<longrightarrow> t2 = t"
    unfolding published_kept_def by (drule_tac bspec [OF _ t(1)]) auto
  with t(2) show "\<exists>t. p\<lparr>lp_deleted_at := t\<rparr> \<in> set (db_policies d2) \<and> (lp_deleted_at p \<noteq> None \<longrightarrow> t = lp_deleted_at p)"
    by auto
qed

interpretation published: table_order published_kept
  by unfold_locales (auto intro: published_kept_trans)

lemma published_added: "published_kept d (d\<lparr>db_policies := db_policies d @ [p]\<rparr>)"
  by (rule published_kept_if_kept) simp

lemma draft_updated: "published_kept d (snd (update_policies (\<lambda>_. live_draft pid) upd d))"
  by (rule published_kept_if_kept) (auto simp: update_policies_def live_draft_def image_iff)

lemma policy_marked_deleted:
  assumes "update_policies (\<lambda>d p. lp_id p = pid \<and> lp_deleted_at p = None \<and> Q d) (\<lambda>p. p\<lparr>lp_deleted_at := Some now\<rparr>) d = (Inr n, d1)"
  shows "published_kept d d1"
  unfolding published_kept_def
proof (intro ballI impI)
  fix p
  assume p: "p \<in> set (db_policies d)"
  define gone where "gone \<longleftrightarrow> lp_id p = pid \<and> lp_deleted_at p = None \<and> Q d"
  have "(if gone then p\<lparr>lp_deleted_at := Some now\<rparr> else p) \<in> set (db_policies d1)"
    using assms p by (auto simp: update_policies_def gone_def image_iff)
  moreover have "(if gone then p\<lparr>lp_deleted_at := Some now\<rparr> else p) = p\<lparr>lp_deleted_at := if gone then Some now else lp_deleted_at p\<rparr>"
    by simp
  ultimately have "p\<lparr>lp_deleted_at := if gone then Some now else lp_deleted_at p\<rparr> \<in> set (db_policies d1)" by argo
  then show "\<exists>t. p\<lparr>lp_deleted_at := t\<rparr> \<in> set (db_policies d1) \<and> (lp_deleted_at p \<noteq> None \<longrightarrow> t = lp_deleted_at p)"
    by (intro exI conjI) (auto simp: gone_def)
qed

lemma create_user_policies [simp]: "keeps (unchanged db_policies) (create_user now w g tok req)"
  unfolding keeps_def
proof
  fix c
  obtain res c1 where run: "create_user now w g tok req c = (res, c1)" by fastforce
  show "unchanged db_policies (cn_db c) (cn_db (snd (create_user now w g tok req c)))"
    using create_user_run(1) [OF run] run by (auto simp: user_added_def unchanged_def)
qed

lemma user_writes_policies:
  "keeps (unchanged db_policies) (delete_user v)" "keeps (unchanged db_policies) (assign_manager now mid b m)"
  "keeps (unchanged db_policies) (update_user now w g user req)"
  unfolding delete_user_def assign_manager_def update_user_def set_token_channel_def
  by (auto intro!: keep unch.keeps_exec simp: delete_users_def insert_manager_def update_users_def delete_channel_def
      upsert_channel_def insert_channel_def unchanged_def split: if_splits option.splits)

lemma policies_published: "keeps (unchanged db_policies) m \<Longrightarrow> keeps published_kept m"
  by (erule keeps_mono) (simp add: unchanged_def)

interpretation published_writes: api_writes published_kept a "\<lambda>_ _. True" for a
proof unfold_locales
  fix u role en and req :: create_user_request
  show "keeps published_kept (create_and_assign en u role req)" "keeps published_kept (create_and_assign en u ''admin'' req)"
    by (intro policies_published unch.keeps_create_and_assign create_user_policies user_writes_policies)+
next
  fix en r email
  show "keeps published_kept (put_user a en r email)" by (intro policies_published unch.keeps_put_user user_writes_policies)
next
  fix pid now d n d1
  assume "update_policies (\<lambda>d p. lp_id p = pid \<and> lp_deleted_at p = None \<and> \<not> assigned pid d) (\<lambda>p. p\<lparr>lp_deleted_at := Some now\<rparr>) d = (Inr n, d1)"
  then show "published_kept d d1" by (rule policy_marked_deleted)
qed (auto simp: published_added draft_updated delete_users_def insert_manager_def delete_managers_def split: if_splits)

text \<open>
  C35: published policies are immutable. Whatever requests are made, by administrators,
  managers or the policy agent on their behalf, a policy that is not a draft keeps its text, its
  static rules, its status and its parent for good; all that can happen to it is to be marked
  as deleted, once.
\<close>

theorem published_policy_immutable:
  assumes "p \<in> set (db_policies d)" and "lp_status p \<noteq> ''draft''"
  shows "\<exists>t. p\<lparr>lp_deleted_at := t\<rparr> \<in> set (db_policies (serve_all qs a d)) \<and> (lp_deleted_at p \<noteq> None \<longrightarrow> t = lp_deleted_at p)"
proof -
  have "published_kept d (serve_all qs a d)"
    by (rule serve_all_kept [where P = "\<lambda>_. True"])
      (auto intro: published.table_order_axioms published_writes.serve_kept simp: may_def)
  with assms show ?thesis by (simp add: published_kept_def)
qed

definition rules_policy :: llm_policy where
  "rules_policy = new_policy 0 ''p'' \<lparr>pt_name = ''p'', pt_prompt = ''deny all'', pt_provider = [], pt_model = [], pt_static_rules = []\<rparr> [] []"

lemma published_policy_immutable_witness:
  "\<forall>qs a. \<exists>t. rules_policy\<lparr>lp_deleted_at := t\<rparr> \<in> set (db_policies (serve_all qs a (empty_database\<lparr>db_policies := [rules_policy]\<rparr>)))"
proof -
  have "rules_policy \<in> set (db_policies (empty_database\<lparr>db_policies := [rules_policy]\<rparr>))" "lp_status rules_policy \<noteq> ''draft''"
    by (simp_all add: rules_policy_def new_policy_def)
  from published_policy_immutable [OF this] show ?thesis by blast
qed

end
