(* ===== verification/Api_Assignments.thy ===== *)
theory Api_Assignments imports Api_Invariants begin

text \<open>
  Which policies users have: never a draft. The proof follows the check of \<open>PUT
  /admin/users/{id}\<close> against the foreign key of the assignment; what the check does not look at
  is whether the policy was deleted.
\<close>

definition no_draft_assigned :: "database \<Rightarrow> bool" where
  "no_draft_assigned d \<longleftrightarrow>
     (\<forall>u \<in> set (db_users d). \<forall>pid. ur_policy_id u = Some pid \<longrightarrow>
        (\<exists>p \<in> set (db_policies d). lp_id p = pid \<and> lp_status p \<noteq> ''draft''))"

definition drafts_kept_off :: "database \<Rightarrow> database \<Rightarrow> bool" where
  "drafts_kept_off d d1 \<longleftrightarrow> (no_draft_assigned d \<longrightarrow> no_draft_assigned d1)"

definition assignable :: "string \<Rightarrow> database \<Rightarrow> bool" where
  "assignable pid d \<longleftrightarrow> (\<exists>p \<in> set (db_policies d). lp_id p = pid \<and> lp_status p \<noteq> ''draft'')"

interpretation off: table_order drafts_kept_off
  by unfold_locales (simp_all add: drafts_kept_off_def)

lemma assignable_kept: "published_kept d d1 \<Longrightarrow> assignable pid d \<Longrightarrow> assignable pid d1"
  unfolding assignable_def published_kept_def by fastforce

lemma policies_kept_off: "published_kept d d1 \<Longrightarrow> db_users d1 = db_users d \<Longrightarrow> drafts_kept_off d d1"
  unfolding drafts_kept_off_def no_draft_assigned_def using assignable_kept [of d d1] unfolding assignable_def by metis

lemma users_kept_off:
  "db_policies d1 = db_policies d \<Longrightarrow>
   (\<And>u. u \<in> set (db_users d1) \<Longrightarrow> ur_policy_id u = None \<or> (\<exists>v \<in> set (db_users d). ur_policy_id v = ur_policy_id u)) \<Longrightarrow>
   drafts_kept_off d d1"
  unfolding drafts_kept_off_def no_draft_assigned_def by (metis option.distinct(1))

lemma kept_off_same [simp]: "db_policies d1 = db_policies d \<Longrightarrow> db_users d1 = db_users d \<Longrightarrow> drafts_kept_off d d1"
  by (simp add: drafts_kept_off_def no_draft_assigned_def)

lemma create_user_off: "keeps drafts_kept_off (create_user now w g tok req)"
  unfolding keeps_def
proof
  fix c
  obtain res c1 where run: "create_user now w g tok req c = (res, c1)" by fastforce
  show "drafts_kept_off (cn_db c) (cn_db (snd (create_user now w g tok req c)))"
    using create_user_run(1) [OF run] run by (auto simp: user_added_def intro!: users_kept_off)
qed

lemma delete_user_off: "keeps drafts_kept_off (delete_user v)"
  unfolding delete_user_def
  by (intro keep off.keeps_exec) (auto simp: delete_users_def intro!: users_kept_off split: if_splits)

lemma assign_manager_off: "keeps drafts_kept_off (assign_manager now mid b m)"
  unfolding assign_manager_def
  by (rule off.keeps_exec) (auto simp: insert_manager_def intro!: users_kept_off split: if_splits)

subsection \<open>The update of a user\<close>

text \<open>What the check before the update secures, and what the update keeps under it.\<close>

definition requested :: "update_user_request \<Rightarrow> database \<Rightarrow> bool" where
  "requested req d \<longleftrightarrow> (\<forall>pid. uu_policy_id req = Some pid \<longrightarrow> pid \<noteq> [] \<longrightarrow> assignable pid d)"

definition kept_off_for :: "update_user_request \<Rightarrow> database \<Rightarrow> database \<Rightarrow> bool" where
  "kept_off_for req d d1 \<longleftrightarrow> db_policies d1 = db_policies d \<and> (requested req d \<longrightarrow> drafts_kept_off d d1)"

interpretation off_for: table_order "kept_off_for req" for req
  by unfold_locales (auto simp: kept_off_for_def drafts_kept_off_def requested_def assignable_def)

lemma updated_policy:
  "ur_policy_id (updated_row now req u) =
     (case uu_policy_id req of None \<Rightarrow> ur_policy_id u | Some p \<Rightarrow> if p = [] then None else Some p)"
  by (simp add: updated_row_def Let_def split: option.split)

lemma update_users_off:
  assumes "update_users now user req d = (Inr (), d1)"
  shows "kept_off_for req d d1"
proof -
  have d1: "d1 = d\<lparr>db_users := map (\<lambda>u. if ur_id u = user then updated_row now req u else u) (db_users d)\<rparr>"
    using assms by (simp add: update_users_def split: if_splits)
  have "no_draft_assigned d1" if "requested req d" and "no_draft_assigned d"
    using that unfolding d1 no_draft_assigned_def requested_def assignable_def
    by (auto simp: updated_policy split: option.splits if_splits)
  then show ?thesis by (simp add: d1 kept_off_for_def drafts_kept_off_def)
qed

lemma set_token_channel_off: "keeps (kept_off_for req) (set_token_channel cid user type key token)"
  unfolding set_token_channel_def delete_channel_def upsert_channel_def insert_channel_def
  by (auto intro!: keep off_for.keeps_exec simp: kept_off_for_def split: option.splits if_splits)

lemma update_user_off: "keeps (kept_off_for req) (update_user now w g user req)"
  unfolding update_user_def
  by (intro keep set_token_channel_off off_for.keeps_exec) (auto intro: update_users_off)

lemma policy_get_found:
  assumes "policy_get pid c = (Inr p, c1)" and "lp_status p \<noteq> ''draft''"
  shows "cn_db c1 = cn_db c" and "assignable pid (cn_db c1)"
proof -
  obtain q where run: "query_row (find_policy pid) c = (Inr q, c1)" and p: "lp_status p = lp_status q"
    using assms(1) by (auto simp: policy_get_def split: prod.splits sum.splits)
  have "sruns (\<lambda>d q d1. d1 = d \<and> find_policy pid d = Some q) (query_row (find_policy pid))"
    by (rule sruns_query_row) simp
  from srunsD(1) [OF this run] have "cn_db c1 = cn_db c" and "find_policy pid (cn_db c) = Some q" by simp_all
  then show "cn_db c1 = cn_db c" and "assignable pid (cn_db c1)"
    using assms(2) p unfolding assignable_def find_policy_def find_Some_iff by (simp, metis nth_mem)
qed

lemma put_user_off:
  assumes "ap_policy_store a"
  shows "keeps drafts_kept_off (put_user a en r email)"
  unfolding put_user_def Let_def
proof (intro off.keeps_on_body)
  fix req
  let ?update = "on_sql (update_user (en_now en) (en_id en ''chan'' 0) (en_id en ''chan'' 1) email req)
    (respond_error 500 ''failed to update user'') (\<lambda>u. reply (respond 200 (OneUser u)))"
  have "keeps (kept_off_for req) ?update" by (intro keep update_user_off)
  then have update: "requested req (cn_db c) \<Longrightarrow> drafts_kept_off (cn_db c) (cn_db (snd (?update c)))" for c
    by (simp add: keeps_def kept_off_for_def)
  show "keeps drafts_kept_off (\<lambda>c. if invalid_role (uu_role req) then (error_text 400 role_message, c)
      else case uu_policy_id req of None \<Rightarrow> ?update c
      | Some pid \<Rightarrow>
          if pid \<noteq> [] \<and> ap_policy_store a then
            on_sql (policy_get pid) (\<lambda>_. error_text 400 (''policy not found: '' @ pid))
              (\<lambda>p. if lp_status p = ''draft''
                    then reply (error_text 400 ''cannot assign a draft policy to a user; publish it first'')
                    else ?update) c
          else ?update c)"
  proof (cases "\<exists>pid. uu_policy_id req = Some pid \<and> pid \<noteq> []")
    case False
    then have "requested req d" for d by (auto simp: requested_def)
    then show ?thesis using False update by (auto simp: keeps_def off.same split: option.split)
  next
    case True
    then obtain pid where pid: "uu_policy_id req = Some pid" "pid \<noteq> []" by blast
    have "drafts_kept_off (cn_db c) (cn_db (snd (on_sql (policy_get pid) (\<lambda>_. error_text 400 (''policy not found: '' @ pid))
              (\<lambda>p. if lp_status p = ''draft''
                    then reply (error_text 400 ''cannot assign a draft policy to a user; publish it first'')
                    else ?update) c)))" for c
    proof -
      obtain res c1 where run: "policy_get pid c = (res, c1)" by fastforce
      have first: "drafts_kept_off (cn_db c) (cn_db c1)" using off.kept [OF off.keeps_policy_get run] .
      show ?thesis
      proof (cases "\<exists>p. res = Inr p \<and> lp_status p \<noteq> ''draft''")
        case True
        then obtain p where p: "res = Inr p" "lp_status p \<noteq> ''draft''" by blast
        have "requested req (cn_db c1)" using policy_get_found(2) [of pid c p c1] run p pid by (simp add: requested_def)
        from off.compose [OF first update [OF this]] show ?thesis
          using run p by (simp only: on_sql_def [of "policy_get pid"] prod.case sum.case if_False)
      next
        case False
        then show ?thesis using run first by (cases res) (auto simp: on_sql_def [of "policy_get pid"] reply_def)
      qed
    qed
    note lookup = this
    show ?thesis
      by (cases "invalid_role (uu_role req)")
        (simp_all only: pid option.case if_True if_False assms HOL.simp_thms keeps_def prod.sel off.same lookup)
  qed
qed

interpretation off_writes: api_writes drafts_kept_off a "\<lambda>_ _. ap_policy_store a" for a
proof unfold_locales
  fix u role en and req :: create_user_request
  show "keeps drafts_kept_off (create_and_assign en u role req)" "keeps drafts_kept_off (create_and_assign en u ''admin'' req)"
    by (intro off.keeps_create_and_assign create_user_off assign_manager_off delete_user_off)+
next
  fix en r email
  assume "ap_policy_store a"
  then show "keeps drafts_kept_off (put_user a en r email)" by (rule put_user_off)
next
  fix v d n d1
  assume "delete_users v d = (Inr n, d1)"
  then show "drafts_kept_off d d1" by (auto simp: delete_users_def intro!: users_kept_off split: if_splits)
next
  fix pid now d n d1
  assume del: "update_policies (\<lambda>d p. lp_id p = pid \<and> lp_deleted_at p = None \<and> \<not> assigned pid d) (\<lambda>p. p\<lparr>lp_deleted_at := Some now\<rparr>) d = (Inr n, d1)"
  then have "db_users d1 = db_users d" by (auto simp: update_policies_def)
  with policy_marked_deleted [OF del] show "drafts_kept_off d d1" by (rule policies_kept_off)
next
  fix d pid upd
  show "drafts_kept_off d (snd (update_policies (\<lambda>_. live_draft pid) (edited t) d))" for t
    by (rule policies_kept_off [OF draft_updated]) (simp add: update_policies_def)
  show "drafts_kept_off d (snd (update_policies (\<lambda>_. live_draft pid) (\<lambda>p. p\<lparr>lp_status := ''published''\<rparr>) d))"
    by (rule policies_kept_off [OF draft_updated]) (simp add: update_policies_def)
next
  fix p d
  show "drafts_kept_off d (d\<lparr>db_policies := db_policies d @ [p]\<rparr>)" by (rule policies_kept_off [OF published_added]) simp
qed (auto simp: insert_manager_def delete_managers_def split: if_splits)

text \<open>
  C36: no agent runs under a draft. When the policy store is configured, after any sequence of
  requests every policy a user is assigned exists and is not a draft: an assignment checks the
  status first, drafts are only made under fresh identifiers, and a policy that is no draft never
  becomes one.
\<close>

theorem no_draft_is_assigned:
  assumes "ap_policy_store a" and "no_draft_assigned d"
  shows "no_draft_assigned (serve_all qs a d)"
proof -
  have "drafts_kept_off d (serve_all qs a d)"
    by (rule serve_all_kept [where P = ap_policy_store])
      (auto intro: off.table_order_axioms off_writes.serve_kept simp: may_def assms(1))
  with assms(2) show ?thesis by (simp add: drafts_kept_off_def)
qed

definition stores_api :: api where
  "stores_api =
     \<lparr>ap_token_validator = True, ap_user_store = True, ap_policy_store = True, ap_eval_store = True, ap_eval_judge = True,
      ap_notification_store = StoreRef, ap_agent = None, ap_alerts = None, ap_secure_cookie = True, ap_run_cancels = []\<rparr>"

lemma no_draft_is_assigned_witness:
  "\<forall>qs. no_draft_assigned
     (serve_all qs stores_api (empty_database\<lparr>db_policies := [rules_policy], db_users := [bob\<lparr>ur_policy_id := Some ''p''\<rparr>]\<rparr>))"
proof
  fix qs
  have "ap_policy_store stores_api" by (simp add: stores_api_def)
  moreover have "no_draft_assigned (empty_database\<lparr>db_policies := [rules_policy], db_users := [bob\<lparr>ur_policy_id := Some ''p''\<rparr>]\<rparr>)"
    by (simp add: no_draft_assigned_def rules_policy_def new_policy_def)
  ultimately show "no_draft_assigned
      (serve_all qs stores_api (empty_database\<lparr>db_policies := [rules_policy], db_users := [bob\<lparr>ur_policy_id := Some ''p''\<rparr>]\<rparr>))"
    by (rule no_draft_is_assigned)
qed

subsection \<open>Deleted policies\<close>

lemma connect_run [simp]:
  "take_fault (connect d) = (None, connect d)"
  "cn_db (connect d) = d"
  "(connect d)\<lparr>cn_db := d1\<rparr> = connect d1"
  by (simp_all add: take_fault_def connect_def)

lemma exec_connect [simp]:
  "exec q (connect d) = (case q d of (Inl e, _) \<Rightarrow> (Inl e, connect d) | (Inr x, d1) \<Rightarrow> (Inr x, connect d1))"
  by (simp add: exec_def split: prod.split sum.split)

lemma query_connect [simp]: "query f (connect d) = (Inr (f d), connect d)"
  by (simp add: query_def)

lemma query_row_connect [simp]:
  "query_row f (connect d) = (case f d of None \<Rightarrow> (Inl no_rows, connect d) | Some x \<Rightarrow> (Inr x, connect d))"
  by (simp add: query_row_def split: option.split)

lemma checked_rows_connect [simp]: "checked_rows f (connect d) = (Inr (f d), connect d)"
  by (simp add: checked_rows_def query_rows_def sbind_def sreturn_def)

lemma find_map: "find P (map f xs) = map_option f (find (P \<circ> f) xs)"
  by (induction xs) auto

lemma find_user_mapped:
  assumes "\<And>u. ur_id (f u) = ur_id u"
  shows "find_user user (d\<lparr>db_users := map (\<lambda>u. if ur_id u = who then f u else u) (db_users d)\<rparr>) =
     map_option (\<lambda>u. if ur_id u = who then f u else u) (find_user user d)"
proof -
  have "(\<lambda>u. ur_id u = user) \<circ> (\<lambda>u. if ur_id u = who then f u else u) = (\<lambda>u. ur_id u = user)"
    by (intro ext) (simp add: assms)
  then show ?thesis by (simp add: find_user_def find_map)
qed

lemma updated_row_id [simp]: "ur_id (updated_row now req u) = ur_id u"
  by (simp add: updated_row_def Let_def split: option.split)

text \<open>
  the check of an assignment does not look at the deletion time. A published policy that was
  deleted can still be assigned: the request succeeds, the user's row names the policy, and
  the lookup the proxy makes for that user finds no policy.
\<close>

theorem deleted_policy_can_be_assigned:
  assumes "decode_body dec_update_user zero_update_user r = Inr (zero_update_user\<lparr>uu_policy_id := Some pid\<rparr>)"
    and "pid \<noteq> []" and "find_policy pid d = Some p" and "lp_status p \<noteq> ''draft''" and "find_user email d = Some u"
    and "\<forall>q \<in> set (db_policies d). lp_id q = pid \<longrightarrow> lp_deleted_at q \<noteq> None"
  shows "\<exists>user d1. put_user a en r email (connect d) = (respond 200 (OneUser user), connect d1) \<and> ud_policy_id user = pid \<and>
    fst (get_llm_policy_for_user email (connect d1)) = None"
proof -
  have known: "list_ex (\<lambda>q. lp_id q = pid) (db_policies d)"
    using assms(3) by (auto simp: find_policy_def find_Some_iff list_ex_iff)
  have gone: "find (\<lambda>q. lp_id q = pid \<and> lp_deleted_at q = None) (db_policies d) = None"
    using assms(6) by (auto simp: find_None_iff)
  let ?req = "zero_update_user\<lparr>uu_policy_id := Some pid\<rparr>"
  let ?u = "updated_row (en_now en) ?req u"
  let ?d1 = "d\<lparr>db_users := map (\<lambda>u. if ur_id u = email then updated_row (en_now en) ?req u else u) (db_users d)\<rparr>"
  have row: "find_user email ?d1 = Some ?u"
    using assms(5) find_user_id [OF assms(5)] by (simp add: find_user_mapped)
  have policy: "ur_policy_id ?u = Some pid" using assms(2) by (simp add: updated_policy)
  have "update_users (en_now en) email ?req d = (Inr (), ?d1)"
    using assms(2) known by (simp add: update_users_def zero_update_user_def)
  then have update: "\<exists>user. update_user (en_now en) w g email ?req (connect d) = (Inr user, connect ?d1) \<and> ud_policy_id user = pid" for w g
    using row policy by (simp add: update_user_def transaction_def sbind_def swrap_def sreturn_def set_token_channel_def get_user_def
        list_managers_def or_empty_def zero_update_user_def)
  have get: "policy_get pid (connect d) = (Inr p, connect d)"
    using assms(3) by (simp add: policy_get_def normalize_static_rules_def)
  have "fst (get_llm_policy_for_user email (connect ?d1)) = None"
    using row policy gone by (simp add: get_llm_policy_for_user_def user_policy_row_def)
  moreover have "\<exists>user. put_user a en r email (connect d) = (respond 200 (OneUser user), connect ?d1) \<and> ud_policy_id user = pid"
    using update [of "en_id en ''chan'' 0" "en_id en ''chan'' 1"] assms(1,2,4) get
    by (auto simp: put_user_def on_body_def Let_def on_sql_def invalid_role_def reply_def zero_update_user_def)
  ultimately show ?thesis by blast
qed

definition put_bob :: admin_request where
  "put_bob = (delete_request None)\<lparr>aq_method := ''PUT'', aq_body := ''{'' @ quote_str ''llm_policy_id'' @ '':'' @ quote_str ''p'' @ ''}''\<rparr>"

lemma deleted_policy_can_be_assigned_witness:
  "\<forall>a en. \<exists>user d1. put_user a en put_bob ''bob'' (connect (bob_database\<lparr>db_policies := [rules_policy\<lparr>lp_deleted_at := Some 7\<rparr>]\<rparr>)) =
      (respond 200 (OneUser user), connect d1) \<and> ud_policy_id user = ''p'' \<and> fst (get_llm_policy_for_user ''bob'' (connect d1)) = None"
proof (intro allI deleted_policy_can_be_assigned)
  have "length (aq_body put_bob) = 21" by code_simp
  then have "take maxBodySize (aq_body put_bob) = aq_body put_bob" by (simp add: maxBodySize_def)
  moreover have "json_decode (aq_body put_bob) = Some (JObj [(''llm_policy_id'', JStr ''p'')])" by code_simp
  moreover have "dec_update_user (JObj [(''llm_policy_id'', JStr ''p'')]) zero_update_user = Some (zero_update_user\<lparr>uu_policy_id := Some ''p''\<rparr>)"
    by code_simp
  ultimately show "decode_body dec_update_user zero_update_user put_bob = Inr (zero_update_user\<lparr>uu_policy_id := Some ''p''\<rparr>)"
    by (simp add: decode_body_def)
  show "''p'' \<noteq> []" by simp
  show "find_policy ''p'' (bob_database\<lparr>db_policies := [rules_policy\<lparr>lp_deleted_at := Some 7\<rparr>]\<rparr>) = Some (rules_policy\<lparr>lp_deleted_at := Some 7\<rparr>)"
    by (simp add: find_policy_def rules_policy_def new_policy_def)
  show "lp_status (rules_policy\<lparr>lp_deleted_at := Some 7\<rparr>) \<noteq> ''draft''" by (simp add: rules_policy_def new_policy_def)
  show "find_user ''bob'' (bob_database\<lparr>db_policies := [rules_policy\<lparr>lp_deleted_at := Some 7\<rparr>]\<rparr>) = Some bob"
    by (simp add: find_user_def bob_database_def bob_def)
  show "\<forall>q \<in> set (db_policies (bob_database\<lparr>db_policies := [rules_policy\<lparr>lp_deleted_at := Some 7\<rparr>]\<rparr>)).
      lp_id q = ''p'' \<longrightarrow> lp_deleted_at q \<noteq> None" by simp
qed

end
