(* ===== verification/Api_Scope.thy ===== *)
theory Api_Scope imports Api_Assignments begin

text \<open>
  What a manager can read through the admin API: audit entries, users, event streams and
  channels of the bots it manages. Policies are not scoped: see the findings of the manifest.
\<close>

definition bots_of :: "database \<Rightarrow> string \<Rightarrow> string set" where
  "bots_of d m = {mr_bot_id x |x. x \<in> set (db_managers d) \<and> mr_manager_id x = m}"

text \<open>
  The data of a response that a manager may get on the tables \<open>d\<close>. What is not about
  single bots is not restricted: the texts, the caller's identity, and the policies with their
  metadata, the statistics of a policy's traffic and the turns of the policy agent, which the
  code opens to every manager.
\<close>

definition in_scope :: "database \<Rightarrow> string \<Rightarrow> admin_response \<Rightarrow> bool" where
  "in_scope d caller resp \<longleftrightarrow>
     (case an_data resp of
        AuditList rows _ _ _ \<Rightarrow> \<forall>a \<in> set rows. ae_user_id (au_entry a) \<in> bots_of d caller
      | UserList us \<Rightarrow> \<forall>u \<in> set us. us_id u \<in> bots_of d caller
      | ManagerList ms \<Rightarrow> \<forall>m \<in> set ms. mr_bot_id m \<in> bots_of d caller
      | OneUser u \<Rightarrow> ud_id u \<in> bots_of d caller \<or> find_user (ud_id u) d = None
      | EventStream uid ids \<Rightarrow> uid = caller \<and> (\<exists>bs. ids = Some bs \<and> set bs \<subseteq> bots_of d caller)
      | ChannelList chs \<Rightarrow> \<forall>n \<in> set chs. nc_owner_id n = caller \<or> nc_bot_id n \<in> bots_of d caller
      | OneChannel n \<Rightarrow> nc_owner_id n = caller
      | OneEntry _ \<Rightarrow> False | OneLabel _ \<Rightarrow> False | JudgeAnswer _ \<Rightarrow> False
      | RunList _ \<Rightarrow> False | OneRun _ \<Rightarrow> False | RunStatistics _ \<Rightarrow> False | ResultList _ _ \<Rightarrow> False
      | _ \<Rightarrow> True)"

lemma in_scope_text [simp]: "in_scope d caller (error_text code msg)" "in_scope d caller (respond_error code msg e)"
    "in_scope d caller forbidden" "in_scope d caller unauthorized" "in_scope d caller method_not_allowed" "in_scope d caller not_found"
    "in_scope d caller store_unavailable" "in_scope d caller policy_store_missing" "in_scope d caller eval_store_missing"
    "in_scope d caller channels_missing" "in_scope d caller aborted"
  by (simp_all add: in_scope_def error_text_def respond_error_def respond_def forbidden_def unauthorized_def
      method_not_allowed_def not_found_def store_unavailable_def policy_store_missing_def eval_store_missing_def channels_missing_def aborted_def)

subsection \<open>Answers of computations\<close>

definition answers :: "database \<Rightarrow> (admin_response \<Rightarrow> bool) \<Rightarrow> (conn \<Rightarrow> admin_response \<times> conn) \<Rightarrow> bool" where
  "answers d P m \<longleftrightarrow> (\<forall>c :: conn. cn_db c = d \<longrightarrow> P (fst (m c)))"

text \<open>A statement that leaves the tables and whose value has a property.\<close>

definition gives :: "database \<Rightarrow> ('a \<Rightarrow> bool) \<Rightarrow> 'a sql \<Rightarrow> bool" where
  "gives d Q m \<longleftrightarrow> (\<forall>(c :: conn) r (c1 :: conn). cn_db c = d \<longrightarrow> m c = (r, c1) \<longrightarrow> cn_db c1 = d \<and> (\<forall>x. r = Inr x \<longrightarrow> Q x))"

lemma givesD:
  assumes "gives d Q m" and "cn_db c = d"
  shows "m c = (r, c1) \<Longrightarrow> cn_db c1 = d" and "m c = (Inr x, c1) \<Longrightarrow> Q x"
  using assms unfolding gives_def by blast+

lemma answersD: "answers d P m \<Longrightarrow> cn_db c = d \<Longrightarrow> P (fst (m c))"
  unfolding answers_def by blast

named_theorems scope

lemma gives_sruns: "sruns (\<lambda>d0 x d1. d1 = d0 \<and> (d0 = d \<longrightarrow> Q x)) m \<Longrightarrow> gives d Q m"
  unfolding gives_def
proof (intro allI impI)
  fix c c1 :: conn and r
  assume m: "sruns (\<lambda>d0 x d1. d1 = d0 \<and> (d0 = d \<longrightarrow> Q x)) m" and "cn_db c = d" and "m c = (r, c1)"
  then show "cn_db c1 = d \<and> (\<forall>x. r = Inr x \<longrightarrow> Q x)"
    using srunsD [OF m, of c _ c1] by (cases r) auto
qed

lemma answers_reply [scope]: "P resp \<Longrightarrow> answers d P (reply resp)"
  by (simp add: answers_def reply_def)

lemma answers_if [scope]: "(b \<Longrightarrow> answers d P m) \<Longrightarrow> (\<not> b \<Longrightarrow> answers d P n) \<Longrightarrow> answers d P (if b then m else n)"
  by simp

lemma answers_on_body [scope]: "(\<And>x. answers d P (ok x)) \<Longrightarrow> (\<And>code msg. P (error_text code msg)) \<Longrightarrow> answers d P (on_body dcd zero r ok)"
  unfolding answers_def on_body_def decode_body_def respond_error_def by (auto split: option.split sum.split)

lemma answers_on_sql:
  assumes "gives d Q m" and "\<And>e. P (fail e)" and "\<And>x. Q x \<Longrightarrow> answers d P (ok x)"
  shows "answers d P (on_sql m fail ok)"
  unfolding answers_def
proof (intro allI impI)
  fix c :: conn
  assume c: "cn_db c = d"
  obtain r c1 where run: "m c = (r, c1)" by fastforce
  then show "P (fst (on_sql m fail ok c))"
    using assms(2) answersD [OF assms(3) givesD(1) [OF assms(1) c run]] givesD(2) [OF assms(1) c, of _ c1]
    by (cases r) (simp_all add: on_sql_def)
qed

text \<open>The last statement of a handler may write.\<close>

lemma answers_last:
  assumes "\<And>(c :: conn) x c1. cn_db c = d \<Longrightarrow> m c = (Inr x, c1) \<Longrightarrow> P (fst (ok x c1))" and "\<And>e. P (fail e)"
  shows "answers d P (on_sql m fail ok)"
  using assms unfolding answers_def on_sql_def by (auto split: prod.split sum.split)

lemma answers_as_manager [scope]:
  assumes "P no" and "botID \<in> bots_of d caller \<Longrightarrow> answers d P ok"
  shows "answers d P (as_manager_of caller ''manager'' botID no ok)"
proof -
  have "gives d (\<lambda>b. b \<longrightarrow> botID \<in> bots_of d caller) (is_manager_of caller botID)"
    unfolding is_manager_of_def by (rule gives_sruns [OF sruns_query]) (auto simp: list_ex_iff bots_of_def)
  note given = givesD [OF this]
  show ?thesis unfolding answers_def
  proof (intro allI impI)
    fix c :: conn
    assume c: "cn_db c = d"
    obtain r c1 where run: "is_manager_of caller botID c = (r, c1)" by fastforce
    show "P (fst (as_manager_of caller ''manager'' botID no ok c))"
    proof (cases "r = Inr True")
      case True
      then have "botID \<in> bots_of d caller" using given(2) [OF c, of True c1] run by simp
      from answersD [OF assms(2) [OF this] given(1) [OF c run]] show ?thesis
        using True run by (simp add: as_manager_of_def)
    next
      case False
      then show ?thesis using run assms(1) by (auto simp: as_manager_of_def split: sum.split bool.split)
    qed
  qed
qed

lemma answers_for_bot [scope]:
  assumes "P no" and "P store_unavailable" and "botID \<in> bots_of d caller \<Longrightarrow> answers d P ok"
  shows "answers d P (for_bot a caller ''manager'' botID no ok)"
  unfolding for_bot_def using assms by (intro scope)

lemma answers_with_role:
  assumes "fst (get_user_by_web_token (extract_web_token r) c) = Some (caller, ''manager'')"
    and "minRole = ''manager'' \<or> minRole = ''admin''"
    and "minRole = ''manager'' \<Longrightarrow> answers (cn_db c) P (body caller ''manager'')"
    and "P forbidden" and "P unauthorized"
  shows "P (fst (with_role a minRole r body c))"
proof (cases "require_role a minRole r c")
  case (Pair res c1)
  have same: "cn_db c1 = cn_db c"
    using unch.require_role_kept [OF Pair, of "\<lambda>d. d"] by (simp add: unchanged_def)
  show ?thesis
  proof (cases res)
    case (Inl resp)
    then have "resp = unauthorized \<or> resp = forbidden"
      using Pair unfolding require_role_def Let_def by (auto split: prod.splits option.splits if_splits)
    then show ?thesis using Pair Inl assms(4,5) by (auto simp: with_role_def)
  next
    case (Inr ur)
    obtain u role where ur: "ur = (u, role)" by (cases ur)
    note caller = require_role_caller [of a minRole r c u role c1, OF _ assms(2)]
    have "u = caller" "role = ''manager''" "minRole = ''manager''"
      using caller Pair Inr ur assms(1,2) by auto
    then show ?thesis using Pair Inr ur same assms(3) by (auto simp: with_role_def answers_def)
  qed
qed

lemma scope_with_role:
  assumes "fst (get_user_by_web_token (extract_web_token r) c) = Some (caller, ''manager'')"
    and "minRole = ''manager'' \<or> minRole = ''admin''"
    and "minRole = ''manager'' \<Longrightarrow> answers (cn_db c) (in_scope (cn_db c) caller) (body caller ''manager'')"
  shows "in_scope (cn_db c) caller (fst (with_role a minRole r body c))"
  using assms by (rule answers_with_role) simp_all

subsection \<open>What the reads give\<close>

lemma gives_list_users: "gives d (\<lambda>us. \<forall>u \<in> set us. us_id u \<in> bots_of d caller) (list_users_for_manager caller)"
  unfolding list_users_for_manager_def
  by (rule gives_sruns [OF sruns_checked_rows]) (auto simp: newest_first_def summary_of_def list_ex_iff bots_of_def, metis)

lemma gives_list_managers: "gives d (\<lambda>ms. \<forall>m \<in> set ms. mr_bot_id m = botID) (list_managers botID)"
  unfolding list_managers_def by (rule gives_sruns [OF sruns_checked_rows]) auto

lemma gives_managed_bot_ids: "gives d (\<lambda>bs. set bs \<subseteq> bots_of d caller) (managed_bot_ids caller)"
proof -
  have "sruns (\<lambda>d0 ms d1. d1 = d0 \<and> (d0 = d \<longrightarrow> mr_bot_id ` set ms \<subseteq> bots_of d caller)) (list_managed_bots caller)"
    unfolding list_managed_bots_def by (rule sruns_checked_rows) (auto simp: bots_of_def)
  from gives_sruns [OF this] have given: "gives d (\<lambda>ms. mr_bot_id ` set ms \<subseteq> bots_of d caller) (list_managed_bots caller)" .
  show ?thesis unfolding gives_def
  proof (intro allI impI)
    fix c c1 :: conn and r
    assume c: "cn_db c = d" and run: "managed_bot_ids caller c = (r, c1)"
    obtain r0 c0 where "list_managed_bots caller c = (r0, c0)" by fastforce
    then show "cn_db c1 = d \<and> (\<forall>x. r = Inr x \<longrightarrow> set x \<subseteq> bots_of d caller)"
      using givesD [OF given c, of _ c0] run by (cases r0) (auto simp: managed_bot_ids_def sbind_def sreturn_def)
  qed
qed

lemma gives_get_user: "gives d (\<lambda>u. ud_id u = user) (get_user user)"
  unfolding gives_def
proof (intro allI impI)
  fix c c1 :: conn and r
  assume "cn_db c = d" and run: "get_user user c = (r, c1)"
  then show "cn_db c1 = d \<and> (\<forall>x. r = Inr x \<longrightarrow> ud_id x = user)"
    using unch.kept [OF unch.keeps_get_user run, of "\<lambda>d. d"] got_user [of user c _ c1] by (auto simp: unchanged_def)
qed

lemma gives_any: "keeps (unchanged (\<lambda>d. d)) m \<Longrightarrow> gives d (\<lambda>_. True) m"
  unfolding gives_def by (metis unch.kept unchanged_def)

lemma audit_rows_selected:
  assumes "a \<in> set (fst (audit_query_summaries f c))"
  obtains b where "b \<in> set (db_audit_log (cn_db c))" and "audit_conds f b" and "ae_user_id (au_entry a) = ae_user_id (au_entry b)"
proof -
  let ?rows = "map (summary_row (cn_db c)) (audit_page f (selected f (cn_db c)))"
  have "a \<in> set ?rows"
    using assms unfolding audit_query_summaries_def query_with_def query_rows_def query_def exec_def
    by (auto split: prod.splits option.splits sum.splits dest!: in_set_takeD dest: take_fault_db)
  then obtain b where "b \<in> set (selected f (cn_db c))" "a = summary_row (cn_db c) b"
    unfolding audit_page_def by (auto dest!: in_set_takeD in_set_dropD)
  then show ?thesis using that [of b] by (auto simp: selected_def latest_first_def summary_row_def full_row_def Let_def)
qed

lemma answers_audit_listing:
  assumes "af_user_id f \<noteq> [] \<and> af_user_id f \<in> bots_of d caller \<or> af_user_ids f \<noteq> [] \<and> set (af_user_ids f) \<subseteq> bots_of d caller"
  shows "answers d (in_scope d caller) (audit_listing f)"
  unfolding answers_def
proof (intro allI impI)
  fix c :: conn
  assume c: "cn_db c = d"
  let ?f = "f\<lparr>af_limit := af_limit f + 1\<rparr>"
  obtain rows c1 where run: "audit_query_summaries ?f c = (rows, c1)" by fastforce
  have "ae_user_id (au_entry a) \<in> bots_of d caller" if "a \<in> set rows" for a
  proof -
    from that run have "a \<in> set (fst (audit_query_summaries ?f c))" by simp
    then obtain b where "audit_conds ?f b" and "ae_user_id (au_entry a) = ae_user_id (au_entry b)" by (rule audit_rows_selected)
    then show ?thesis using assms by (auto simp: audit_conds_def Let_def)
  qed
  then show "in_scope d caller (fst (audit_listing f c))"
    using run by (auto simp: audit_listing_def in_scope_def respond_def Let_def dest!: in_set_takeD)
qed

subsection \<open>The endpoints\<close>

lemma in_scope_data [simp]:
  "in_scope d caller (respond code (StatusText s))" "in_scope d caller (respond code (Identity x y b))"
  "in_scope d caller (respond code (PolicyList ps))" "in_scope d caller (respond code (OnePolicy p))"
  "in_scope d caller (respond code (Metadata m))" "in_scope d caller (respond code (PolicyStatistics st))"
  "in_scope d caller (respond code NoContent)" "in_scope d caller (respond code (AgentTurn evs res))"
  "in_scope d caller (respond code (UserList us)) \<longleftrightarrow> (\<forall>u \<in> set us. us_id u \<in> bots_of d caller)"
  "in_scope d caller (respond code (ManagerList ms)) \<longleftrightarrow> (\<forall>m \<in> set ms. mr_bot_id m \<in> bots_of d caller)"
  "in_scope d caller (respond code (OneUser x1)) \<longleftrightarrow> ud_id x1 \<in> bots_of d caller \<or> find_user (ud_id x1) d = None"
  "in_scope d caller (respond code (AuditList [] k l hasMore))"
  "in_scope d caller (respond code (ChannelList chs)) \<longleftrightarrow> (\<forall>n \<in> set chs. nc_owner_id n = caller \<or> nc_bot_id n \<in> bots_of d caller)"
  "in_scope d caller (respond code (OneChannel n)) \<longleftrightarrow> nc_owner_id n = caller"
  "in_scope d caller (respond code (EventStream uid (Some bs))) \<longleftrightarrow> uid = caller \<and> set bs \<subseteq> bots_of d caller"
  by (simp_all add: in_scope_def respond_def)

lemma in_scope_more [simp]: "in_scope d caller (resp\<lparr>an_cookie := ck\<rparr>) = in_scope d caller resp"
    "in_scope d caller (resp\<lparr>an_effect := eff\<rparr>) = in_scope d caller resp"
  by (simp_all add: in_scope_def)

lemma post_user_scope: "answers d (in_scope d caller) (post_user en r caller ''manager'')"
proof -
  have "answers d (in_scope d caller) (create_and_assign en caller ''manager'' req)" for req
    unfolding create_and_assign_def
  proof (rule answers_last)
    fix c c1 :: conn and u
    assume c: "cn_db c = d"
      and run: "create_user (en_now en) (en_id en ''chan'' 0) (en_id en ''chan'' 1) (en_token en) req c = (Inr u, c1)"
    have "find_user (ud_id u) d = None" using create_user_run(2) [OF run refl] c by (auto simp: user_added_def)
    then show "in_scope d caller (fst (if ''manager'' = ''admin'' then (respond 201 (OneUser u), c1)
        else case assign_manager (en_now en) (en_id en ''mgr'' 0) (ud_id u) caller c1 of
          (Inl e, c2) \<Rightarrow> (respond_error 500 ''failed to assign manager to new bot'' e, snd (delete_user (ud_id u) c2))
        | (Inr _, c2) \<Rightarrow> (respond 201 (OneUser u), c2)))"
      by (simp split: prod.split sum.split)
  qed simp
  then show ?thesis unfolding post_user_def by (intro scope) simp_all
qed

lemma handle_users_scope:
  assumes "fst (get_user_by_web_token (extract_web_token r) c) = Some (caller, ''manager'')"
  shows "in_scope (cn_db c) caller (fst (handle_users a en r c))"
    and "in_scope (cn_db c) caller (fst (handle_me_bots a r c))"
proof -
  have list: "answers (cn_db c) (in_scope (cn_db c) caller)
      (on_sql (list_users_for_manager caller) (respond_error 500 msg) (\<lambda>us. reply (respond 200 (UserList us))))" for msg
    by (rule answers_on_sql [OF gives_list_users [where caller = caller]]) (auto intro: scope)
  show "in_scope (cn_db c) caller (fst (handle_users a en r c))"
    unfolding handle_users_def
    by (auto simp: reply_def intro!: scope_with_role [OF assms] scope post_user_scope list)
  show "in_scope (cn_db c) caller (fst (handle_me_bots a r c))"
    unfolding handle_me_bots_def by (rule scope_with_role [OF assms]) (auto intro!: scope list)
qed

lemma handle_user_action_scope:
  assumes "fst (get_user_by_web_token (extract_web_token r) c) = Some (caller, ''manager'')"
  shows "in_scope (cn_db c) caller (fst (handle_user_action a en r c))"
proof -
  let ?P = "in_scope (cn_db c) caller"
  have get: "email \<in> bots_of (cn_db c) caller \<Longrightarrow> answers (cn_db c) ?P
      (on_sql (get_user email) (respond_error 404 msg) (\<lambda>u. reply (respond 200 (OneUser u))))" for email msg
    by (rule answers_on_sql [OF gives_get_user]) (auto intro: scope)
  have action: "answers (cn_db c) ?P (user_action a en r email caller ''manager'')" for email
    unfolding user_action_def by (auto intro!: scope get)
  have managers: "botID \<in> bots_of (cn_db c) caller \<Longrightarrow> answers (cn_db c) ?P
      (on_sql (list_managers botID) (respond_error 500 msg) (\<lambda>ms. reply (respond 200 (ManagerList ms))))" for botID msg
    by (rule answers_on_sql [OF gives_list_managers]) (auto intro: scope)
  have sub: "?P (fst (handle_user_managers a en r botID path c))" for botID path
    unfolding handle_user_managers_def
    by (rule scope_with_role [OF assms]) (auto simp: Let_def intro!: scope managers)
  show ?thesis unfolding handle_user_action_def
    by (auto simp: split_def Let_def reply_def intro!: sub scope_with_role [OF assms] action split: option.split)
qed

lemma handle_audit_scope:
  assumes "fst (get_user_by_web_token (extract_web_token r) c) = Some (caller, ''manager'')"
  shows "in_scope (cn_db c) caller (fst (handle_audit_log a en r c))"
    and "in_scope (cn_db c) caller (fst (handle_sse a r c))"
proof -
  let ?P = "in_scope (cn_db c) caller"
  note bots = answers_on_sql [OF gives_managed_bot_ids [where caller = caller]]
  have "answers (cn_db c) ?P (on_sql (managed_bot_ids caller) (respond_error 500 msg) (\<lambda>bots.
          if af_user_id f \<noteq> [] then
            (if af_user_id f \<in> set bots then audit_listing f else reply forbidden)
          else if bots = [] then reply (respond 200 (AuditList [] 0 defaultAuditLogLimit False))
          else audit_listing (f\<lparr>af_user_ids := bots\<rparr>)))" for f msg
    by (rule bots) (auto intro!: scope answers_audit_listing)
  then show "?P (fst (handle_audit_log a en r c))"
    unfolding handle_audit_log_def Let_def
    by (auto simp: reply_def intro!: scope_with_role [OF assms] scope)
  have "answers (cn_db c) ?P (on_sql (managed_bot_ids caller) (respond_error 500 msg)
      (\<lambda>bots. reply (respond 200 (EventStream caller (Some bots)))))" for msg
    by (rule bots) (auto intro!: scope)
  then show "?P (fst (handle_sse a r c))"
    unfolding handle_sse_def by (auto simp: reply_def intro!: scope_with_role [OF assms] scope)
qed

subsection \<open>Channels\<close>

lemma gives_channels:
  "gives d (\<lambda>chs. \<forall>n \<in> set chs. nc_bot_id n = botID) (list_channels_for_bot botID)"
  "owner \<noteq> [] \<Longrightarrow> gives d (\<lambda>chs. \<forall>n \<in> set chs. nc_owner_id n = owner) (list_channels_for_owner owner)"
  unfolding list_channels_for_bot_def list_channels_for_owner_def
  by (rule gives_sruns [OF sruns_checked_rows], auto simp: newest_first_def of_bot_def dest: in_set_takeD)+

lemma gives_get_channel: "gives d (\<lambda>n. find_channel cid d = Some n) (get_channel cid)"
  unfolding get_channel_def by (rule gives_sruns [OF sruns_query_row]) auto

lemma scope_on_channel_store [scope]:
  "answers d (in_scope d caller) m \<Longrightarrow> answers d (in_scope d caller) (on_channel_store a m)"
  unfolding on_channel_store_def by (auto intro: scope)

lemma list_channels_scope:
  assumes "caller \<noteq> []"
  shows "answers d (in_scope d caller) (list_channels a r caller ''manager'')"
proof -
  have "botID \<in> bots_of d caller \<Longrightarrow> answers d (in_scope d caller) (channel_list (list_channels_for_bot botID))" for botID
    unfolding channel_list_def by (rule answers_on_sql [OF gives_channels(1)]) (auto intro: scope)
  moreover have "answers d (in_scope d caller) (channel_list (list_channels_for_owner caller))"
    unfolding channel_list_def by (rule answers_on_sql [OF gives_channels(2) [OF assms]]) (auto intro: scope)
  ultimately show ?thesis unfolding list_channels_def Let_def by (auto intro!: scope)
qed

lemma post_channel_scope: "answers d (in_scope d caller) (post_channel a en r caller ''manager'')"
proof -
  have "answers d (in_scope d caller) (on_sql (create_channel now cid ch) (respond_error 500 msg) (\<lambda>ch. reply (respond 201 (OneChannel ch))))"
    if "nc_owner_id ch = caller" for now cid ch msg
    using that by (intro answers_last)
      (auto simp: reply_def create_channel_def Let_def sbind_def sreturn_def split: prod.splits sum.splits)
  then show ?thesis unfolding post_channel_def Let_def by (intro scope) simp_all
qed

text \<open>An update leaves the owner of a channel.\<close>

lemma find_channel_updated:
  assumes "update_channels cid upd d = (Inr k, d1)" and "\<And>n. nc_owner_id (upd n) = nc_owner_id n \<and> nc_id (upd n) = nc_id n"
  shows "map_option nc_owner_id (find_channel cid d1) = map_option nc_owner_id (find_channel cid d)"
proof -
  have "(\<lambda>n. nc_id n = cid) \<circ> (\<lambda>m. if nc_id m = cid then upd m else m) = (\<lambda>n. nc_id n = cid)"
    using assms(2) by (intro ext) simp
  moreover have owner: "nc_owner_id (if nc_id m = cid then upd m else m) = nc_owner_id m" for m
    using assms(2) by simp
  ultimately have "map_option nc_owner_id (find (\<lambda>n. nc_id n = cid) (map (\<lambda>m. if nc_id m = cid then upd m else m) ns)) =
      map_option nc_owner_id (find (\<lambda>n. nc_id n = cid) ns)" for ns
    using owner by (simp add: find_map option.map_comp comp_def)
  note owners = this
  have "d1 = d \<or> db_notification_channels d1 = map (\<lambda>m. if nc_id m = cid then upd m else m) (db_notification_channels d)"
    using assms(1) by (auto simp: update_channels_def split: option.splits if_splits)
  then show ?thesis by (elim disjE) (simp_all only: find_channel_def owners)
qed

lemma put_channel_scope:
  assumes "find_channel cid d = Some ch" and "nc_owner_id ch = caller"
  shows "answers d (in_scope d caller) (put_channel a en r ch cid)"
proof -
  have "in_scope d caller (fst (on_sql (get_channel cid) (respond_error 500 msg) (\<lambda>ch1. reply (respond 200 (OneChannel ch1))) c1))"
    if start: "cn_db c = d" and run: "update_channel now cid type dest enabled c = (Inr x, c1)"
    for c c1 :: conn and x now type dest enabled msg
  proof -
    let ?upd = "\<lambda>n. n\<lparr>nc_channel_type := type, nc_destination := dest, nc_enabled := enabled, nc_updated_at := now\<rparr>"
    obtain k where "exec (update_channels cid ?upd) c = (Inr k, c1)"
      using run unfolding update_channel_def
      by (elim sbindE) (auto simp: sfail_def sreturn_def split: if_splits)
    then have "update_channels cid ?upd (cn_db c) = (Inr k, cn_db c1)" by (rule exec_outcome)
    from find_channel_updated [OF this] have owner: "map_option nc_owner_id (find_channel cid (cn_db c1)) = Some caller"
      using assms start by simp
    have "answers (cn_db c1) (in_scope d caller)
        (on_sql (get_channel cid) (respond_error 500 msg) (\<lambda>ch1. reply (respond 200 (OneChannel ch1))))"
      by (rule answers_on_sql [OF gives_get_channel]) (use owner in \<open>auto intro: scope\<close>)
    then show ?thesis by (rule answersD) simp
  qed
  then have "answers d (in_scope d caller)
      (on_sql (update_channel now cid type dest enabled) (respond_error 500 msg)
        (\<lambda>_. on_sql (get_channel cid) (respond_error 500 msg2) (\<lambda>ch1. reply (respond 200 (OneChannel ch1)))))" for now type dest enabled msg msg2
    by (intro answers_last) simp_all
  then show ?thesis unfolding put_channel_def Let_def by (intro scope) simp_all
qed

lemma test_channel_scope: "in_scope d caller (test_channel a r ch)"
  unfolding test_channel_def by (auto split: option.split)

lemma channel_action_scope: "answers d (in_scope d caller) (channel_action a en r caller ''manager'' cid sub)"
proof -
  have remove: "answers d (in_scope d caller) (remove_channel cid)"
    unfolding remove_channel_def by (rule answers_last) (auto simp: reply_def)
  show ?thesis unfolding channel_action_def
    by (rule scope_on_channel_store, rule answers_on_sql [OF gives_get_channel]) (auto intro!: scope test_channel_scope put_channel_scope remove)
qed

lemma handle_channels_scope:
  assumes "fst (get_user_by_web_token (extract_web_token r) c) = Some (caller, ''manager'')" and "caller \<noteq> []"
  shows "in_scope (cn_db c) caller (fst (handle_notification_channels a en r c))"
    and "in_scope (cn_db c) caller (fst (handle_notification_channel_action a en r c))"
  unfolding handle_notification_channels_def handle_notification_channel_action_def
  by (auto simp: split_def Let_def intro!: scope_with_role [OF assms(1)] scope list_channels_scope [OF assms(2)] post_channel_scope
      channel_action_scope)

subsection \<open>Policies, sessions and the endpoints of administrators\<close>

text \<open>A property of all answers of a computation, whatever the tables.\<close>

definition always :: "(admin_response \<Rightarrow> bool) \<Rightarrow> (conn \<Rightarrow> admin_response \<times> conn) \<Rightarrow> bool" where
  "always P m \<longleftrightarrow> (\<forall>c. P (fst (m c)))"

named_theorems every

lemma always_steps [every]:
  "P resp \<Longrightarrow> always P (reply resp)"
  "(b \<Longrightarrow> always P m1) \<Longrightarrow> (\<not> b \<Longrightarrow> always P m2) \<Longrightarrow> always P (if b then m1 else m2)"
  "(\<And>e. P (fail e)) \<Longrightarrow> (\<And>x. always P (ok x)) \<Longrightarrow> always P (on_sql m fail ok)"
  "(\<And>e. P (nok e)) \<Longrightarrow> (\<And>x. P (yes x)) \<Longrightarrow> always P (on_store st nok yes)"
  "(\<And>x. always P (ok x)) \<Longrightarrow> (\<And>code msg. P (error_text code msg)) \<Longrightarrow> always P (on_body dcd zero r ok)"
  by (auto simp: always_def reply_def on_sql_def on_store_def on_body_def decode_body_def respond_error_def
      split: prod.split sum.split option.split)

lemma always_checked_text [every]: "always P ok \<Longrightarrow> (\<And>code msg. P (error_text code msg)) \<Longrightarrow> always P (checked_text t ok)"
  unfolding checked_text_def by (auto intro: every split: option.split)

lemma always_answers: "always P m \<Longrightarrow> answers d P m"
  by (simp add: always_def answers_def)

lemma not_draft_scope: "in_scope d caller resp \<Longrightarrow> in_scope d caller (not_draft_or resp e)"
  by (simp add: not_draft_or_def)

lemma always_policy_action: "always (in_scope d caller) (policy_action a en r role pid act)"
proof -
  have turn: "always (in_scope d caller) (agent_turn ag p pid b)" for ag p b
    by (simp add: always_def agent_turn_def split_def Let_def)
  have chat: "always (in_scope d caller) (chat_with_agent a r pid)"
    unfolding chat_with_agent_def by (auto intro!: every turn split: option.split)
  have delete: "always (in_scope d caller) (delete_policy en pid)"
    by (simp add: always_def delete_policy_def split: prod.split option.split)
  show ?thesis unfolding policy_action_def put_policy_def publish_policy_def fork_policy_def
    by (intro every chat delete not_draft_scope) simp_all
qed

lemma handle_policies_scope:
  assumes "fst (get_user_by_web_token (extract_web_token r) c) = Some (caller, ''manager'')"
  shows "in_scope (cn_db c) caller (fst (handle_llm_policies a en r c))"
    and "in_scope (cn_db c) caller (fst (handle_llm_policy_action a en r c))"
proof -
  show "in_scope (cn_db c) caller (fst (handle_llm_policies a en r c))"
    unfolding handle_llm_policies_def by (rule scope_with_role [OF assms]) (auto intro!: always_answers every)
  show "in_scope (cn_db c) caller (fst (handle_llm_policy_action a en r c))"
    unfolding handle_llm_policy_action_def
    by (rule scope_with_role [OF assms]) (auto simp: split_def Let_def intro!: always_answers every always_policy_action)
qed

lemma handle_sessions_scope:
  "in_scope d caller (fst (handle_login a r c))" "in_scope d caller (fst (handle_logout a r c))"
  "in_scope d caller (fst (handle_me a r c))" "in_scope d caller (fst (handle_health r c))"
  unfolding handle_login_def handle_logout_def handle_me_def handle_health_def
  by (auto simp: on_body_def reply_def decode_body_def Let_def split: option.split sum.split prod.split)

lemma handle_admin_scope:
  assumes "fst (get_user_by_web_token (extract_web_token r) c) = Some (caller, ''manager'')"
  shows "in_scope (cn_db c) caller (fst (handle_evals a en r c))" "in_scope (cn_db c) caller (fst (handle_eval_action a r c))"
    "in_scope (cn_db c) caller (fst (handle_audit_label_action a en r c))" "in_scope (cn_db c) caller (fst (handle_llm_response a r c))"
  unfolding handle_evals_def handle_eval_action_def handle_audit_label_action_def handle_llm_response_def
  by (rule scope_with_role [OF assms]; simp)+

text \<open>
  C37: a manager reads nothing of other bots. Whatever a manager requests, an audit listing in
  the answer holds only entries of bots assigned to it, a listing of users only those bots, a user
  is one of them or was created by the request, the event stream is restricted to their events,
  and channels are its own or for those bots; entries by identifier, labels, judge answers and
  evaluation runs are not answered at all. Policies, the statistics of their traffic and the
  policy agent are open to managers and not restricted here.
\<close>

theorem manager_reads_own_bots:
  assumes "fst (get_user_by_web_token (extract_web_token r) c) = Some (caller, ''manager'')" and "caller \<noteq> []"
  shows "in_scope (cn_db c) caller (fst (serve a en r c))"
proof (cases "route (aq_path r)")
  case None
  then show ?thesis by (simp add: serve_def reply_def)
next
  case (Some e)
  then show ?thesis using assms
    by (cases e)
      (simp_all add: serve_def handle_users_scope handle_user_action_scope handle_audit_scope handle_channels_scope
        handle_policies_scope handle_sessions_scope handle_admin_scope)
qed

lemma manager_reads_own_bots_witness:
  "\<forall>a en. in_scope ann_database ''ann'' (fst (serve a en (delete_request (Some ''s'')) (connect ann_database)))"
proof (intro allI)
  fix a en
  have "fst (get_user_by_web_token (extract_web_token (delete_request (Some ''s''))) (connect ann_database)) = Some (''ann'', ''manager'')"
    by code_simp
  from manager_reads_own_bots [OF this, of a en]
  show "in_scope ann_database ''ann'' (fst (serve a en (delete_request (Some ''s'')) (connect ann_database)))"
    by simp
qed

subsection \<open>Managers that left\<close>

text \<open>
  unassigning a manager does not stop its alerts. The channels a manager made for a bot stay
  active for it after the assignment is removed: the alerts of the bot still go to them, although
  the API no longer lets their owner see the bot.
\<close>

theorem former_manager_still_alerted:
  assumes "find_channel cid d = Some n" and "nc_owner_id n = mgr" and "of_bot botID n" and "nc_enabled n"
    and "unassign_manager botID mgr (connect d) = (Inr (), c1)"
  shows "botID \<notin> bots_of (cn_db c1) mgr \<and> (\<exists>chs. fst (list_active_channels_for_bot botID c1) = Inr chs \<and> n \<in> set chs)"
proof -
  have c1: "c1 = connect (snd (delete_managers botID mgr d))"
    using assms(5) by (auto simp: unassign_manager_def sbind_def sfail_def sreturn_def delete_managers_def Let_def split: if_splits)
  have "n \<in> set (db_notification_channels d)"
    using assms(1) by (auto simp: find_channel_def find_Some_iff)
  then show ?thesis using assms(2-4)
    by (auto simp: c1 delete_managers_def Let_def bots_of_def list_active_channels_for_bot_def newest_first_def)
qed

definition ann_channel :: notification_channel where
  "ann_channel = \<lparr>nc_id = ''n'', nc_owner_id = ''ann'', nc_bot_id = ''bob'', nc_channel_type = ''slack'', nc_destination = ''ops'',
     nc_enabled = True, nc_created_at = 0, nc_updated_at = 0\<rparr>"

definition alert_database :: database where
  "alert_database = ann_database\<lparr>db_notification_channels := [ann_channel],
     db_managers := [\<lparr>mr_id = ''a'', mr_bot_id = ''bob'', mr_manager_id = ''ann'', mr_created_at = 0\<rparr>]\<rparr>"

lemma former_manager_still_alerted_witness:
  "\<exists>c1. unassign_manager ''bob'' ''ann'' (connect alert_database) = (Inr (), c1) \<and> ''bob'' \<notin> bots_of (cn_db c1) ''ann'' \<and>
     (\<exists>chs. fst (list_active_channels_for_bot ''bob'' c1) = Inr chs \<and> ann_channel \<in> set chs)"
proof -
  have run: "unassign_manager ''bob'' ''ann'' (connect alert_database) = (Inr (), connect (snd (delete_managers ''bob'' ''ann'' alert_database)))"
    by (simp add: unassign_manager_def sbind_def sreturn_def delete_managers_def Let_def alert_database_def)
  have "find_channel ''n'' alert_database = Some ann_channel" "nc_owner_id ann_channel = ''ann''" "of_bot ''bob'' ann_channel" "nc_enabled ann_channel"
    by (simp_all add: find_channel_def alert_database_def ann_channel_def of_bot_def)
  from former_manager_still_alerted [OF this run] run show ?thesis by blast
qed

end
