(* ===== verification/Gateway_Props.thy ===== *)
theory Gateway_Props imports Gateway Config_Props Judge_Props Api_Scope Proxy_Props begin

text \<open>
  The started gateway: what its configuration makes of the approval path, of the proxy's
  handler and of the admin API, and the first administrator.
\<close>

subsection \<open>A start that succeeds\<close>

lemma new_llm_adapter_made:
  "new_llm_adapter aws l model timeout opts = (ref, None) \<Longrightarrow> \<exists>a. ref = AdapterRef a"
  unfolding new_llm_adapter_def with_base_url_def by (auto split: if_splits sum.splits)

lemma wire_judge_made:
  assumes "wire_judge se l = Inr (judge, agent)"
  shows "judge \<noteq> None \<longleftrightarrow> lj_enabled l"
    and "judge = Some (JudgeBehindJev j r lo hi a) \<Longrightarrow> jc_enabled (lj_jev l) \<and> lo = allow_below (lj_jev l) \<and> hi = deny_above (lj_jev l)"
  using assms unfolding wire_judge_def new_live_judge_def Let_def
  by (auto split: if_splits option.splits prod.splits adapter_ref.splits sum.splits)

lemma boot_made:
  assumes "boot se writer c s = (Inr g, s1)"
  shows "gw_config g = c" and "\<exists>agent. wire_judge se (cf_llm_judge c) = Inr (gw_judge g, agent) \<and> gw_agent g = agent"
    and "gw_alerts g = wire_alerts se c" and "ps_config (gw_proxy g) = c"
    and "\<exists>agent. gw_api g = fst (start_admin_api (admin_config c (gw_judge g) agent (gw_alerts g)))"
    and "ps_rate_limit_observer (gw_proxy g)"
proof -
  obtain ps s2 judge agent where "new_server se c s = (Inr ps, s2)" and judge: "wire_judge se (cf_llm_judge c) = Inr (judge, agent)"
    and g: "gw_config g = c" "gw_judge g = judge" "gw_agent g = agent" "gw_alerts g = wire_alerts se c"
      "gw_proxy g = set_logger_dispatcher (set_rate_limit_observer True (set_llm_response_writer writer ps))"
      "gw_api g = fst (start_admin_api (admin_config c judge (map_option (se_agent se) agent) (wire_alerts se c)))"
    using assms unfolding boot_def Let_def
    by (cases "new_server se c s") (auto split: if_splits option.splits prod.splits sum.splits)
  then show "gw_config g = c" "gw_alerts g = wire_alerts se c"
      "\<exists>agent. wire_judge se (cf_llm_judge c) = Inr (gw_judge g, agent) \<and> gw_agent g = agent"
      "\<exists>agent. gw_api g = fst (start_admin_api (admin_config c (gw_judge g) agent (gw_alerts g)))" by auto
  from \<open>new_server se c s = (Inr ps, s2)\<close> have "ps_config ps = c"
    unfolding new_server_def Let_def by (auto split: option.splits prod.splits sum.splits if_splits)
  then show "ps_config (gw_proxy g) = c"
    using g by (simp add: set_logger_dispatcher_def set_rate_limit_observer_def set_llm_response_writer_def)
  show "ps_rate_limit_observer (gw_proxy g)"
    using g by (simp add: set_logger_dispatcher_def set_rate_limit_observer_def set_llm_response_writer_def)
qed

text \<open>The limiter a configuration asks for: none at rate zero, else one bucket per client.\<close>

definition configured_limiter :: "proxy_config \<Rightarrow> 'l ip_rate_limiter option \<Rightarrow> bool" where
  "configured_limiter p lm =
     (case pc_rate_limit_per_ip p of
        None \<Rightarrow> False
      | Some rate \<Rightarrow> 0 \<le> rate \<and>
          lm = (if rate = 0 then None
            else Some \<lparr>rl_cache = new_lru_cache default_max_entries, rl_store = [], rl_rate = of_int rate,
              rl_burst = pc_rate_limit_burst p, rl_observer = True\<rparr>))"

lemma boot_starts:
  assumes "dc_url (cf_database c) \<noteq> []" and "se_open_db se (dc_url (cf_database c)) (dc_max_conns (cf_database c)) (dc_min_conns (cf_database c)) = None"
    and "se_migrate se = None" and "new_server se c s = (Inr (ps :: 'c proxy_server), s1)"
    and "wire_judge se (cf_llm_judge c) = Inr (judge, agent)"
  shows "\<exists>g :: ('c, 'w) gateway. boot se writer c s = (Inr g, s1) \<and> gw_config g = c \<and> gw_judge g = judge \<and> gw_agent g = agent \<and> gw_alerts g = wire_alerts se c"
  using assms unfolding boot_def Let_def by (simp split: prod.split)

lemma main_gateway_made:
  assumes "main_gateway se unmarshal file writer s = (Inr g, s1)"
  obtains "load_config (se_text se) unmarshal (se_env se) file = Inr (gw_config g)" "boot se writer (gw_config g) s = (Inr g, s1)"
proof -
  obtain c where load: "load_config (se_text se) unmarshal (se_env se) file = Inr c" and run: "boot se writer c s = (Inr g, s1)"
    using assms unfolding main_gateway_def by (auto split: sum.splits)
  then show ?thesis using that boot_made(1) [OF run] by auto
qed

lemma gateway_manager_fields:
  "mg_mode (gateway_manager le g) = (if vc_mode (cf_approval (gw_config g)) = [] then ''llm'' else vc_mode (cf_approval (gw_config g)))"
  "mg_judge (gateway_manager le g) = map_option (live_evaluator le) (gw_judge g)"
  "gw_judge g \<noteq> None \<Longrightarrow> mg_fallback_mode (gateway_manager le g) = lj_fallback_mode (cf_llm_judge (gw_config g))"
  by (auto simp: gateway_manager_def set_judge_def set_mode_def set_observer_def new_manager_def Let_def split: option.split)

lemma started_modes:
  assumes "main_gateway se unmarshal file writer s = (Inr g, s1)"
  shows "(uses_llm (gateway_manager le g) \<longleftrightarrow> vc_mode (cf_approval (gw_config g)) = ''llm'') \<and>
     (uses_passthrough (gateway_manager le g) \<longleftrightarrow> vc_mode (cf_approval (gw_config g)) = ''passthrough'') \<and>
     uses_llm (gateway_manager le g) = (\<not> uses_passthrough (gateway_manager le g))"
proof -
  obtain load: "load_config (se_text se) unmarshal (se_env se) file = Inr (gw_config g)"
      and boot: "boot se writer (gw_config g) s = (Inr g, s1)" using main_gateway_made [OF assms] .
  have mode: "vc_mode (cf_approval (gw_config g)) \<in> {''llm'', ''passthrough''}"
    and enabled: "vc_mode (cf_approval (gw_config g)) = ''llm'' \<Longrightarrow> lj_enabled (cf_llm_judge (gw_config g))"
    using loaded_judge(1) [OF load] by (auto simp: judge_consistent_def)
  obtain agent where "wire_judge se (cf_llm_judge (gw_config g)) = Inr (gw_judge g, agent)" using boot_made(2) [OF boot] by auto
  from wire_judge_made(1) [OF this] mode enabled show ?thesis
    by (auto simp: uses_llm_def uses_passthrough_def gateway_manager_fields)
qed

definition demo_startup :: "unit startup_env" where
  "demo_startup =
     \<lparr>se_env = demo_env, se_text = demo_text, se_open_db = (\<lambda>_ _ _. None), se_migrate = None, se_metrics = None,
      se_dir_of = (\<lambda>p. p), se_generated = Inr (''cert'', ''key''), se_load_ca = (\<lambda>_ _ s. (None, s)), se_open_file = (\<lambda>_. None),
      se_aws = (\<lambda>n _. if n = 1 then Some ''timeout'' else None), se_alert_ask = (\<lambda>_ _. (empty_completion, None)),
      se_slack_client = (\<lambda>_. DoErr ''down''), se_json_error = (\<lambda>_. []),
      se_agent = (\<lambda>_. \<lparr>ae_think = (\<lambda>_ _. (empty_completion, None)), ae_fast = (\<lambda>_. (empty_completion, None)),
        ae_groups = (\<lambda>_ _ _ _ _. []), ae_samples = (\<lambda>_ _ _ _ _ _. []), ae_parse_date = (\<lambda>_. Inl []), ae_now_text = [],
        ae_json_error = (\<lambda>_. [])\<rparr>),
      se_sse_channel = (\<lambda>_ w. (None, w)), se_alert_channel = (\<lambda>_ _ w. (None, w))\<rparr>"

definition demo_files :: fsys where
  "demo_files = \<lparr>fs_files = [''./certs/ca.crt'' \<mapsto> ''c'', ''./certs/ca.key'' \<mapsto> ''k''], fs_faults = []\<rparr>"

definition demo_start :: "(startup_failure + (unit, unit) gateway) \<times> fsys" where
  "demo_start = main_gateway demo_startup (\<lambda>_. Inr demo_file) (Contents ''jev'') (\<lambda>_. Inr []) demo_files"

lemma demo_config_fields:
  "cf_database demo_config = \<lparr>dc_url = ''db'', dc_max_conns = 10, dc_min_conns = 2\<rparr>"
  "cf_tls demo_config = \<lparr>tc_ca_cert_path = ''./certs/ca.crt'', tc_ca_key_path = ''./certs/ca.key'', tc_max_cert_cache_size = 0\<rparr>"
  "cf_approval demo_config = \<lparr>vc_mode = ''llm'', vc_timeout = 30 * second\<rparr>"
  "uc_output (cf_audit demo_config) = ''stderr''" "gc_enabled (cf_alerting demo_config) = False"
  "lj_enabled (cf_llm_judge demo_config)" "lj_provider (cf_llm_judge demo_config) = ''bedrock-anthropic''"
  "lj_fallback_mode (cf_llm_judge demo_config) = ''deny''"
  "jc_enabled (lj_jev (cf_llm_judge demo_config))" "jc_api_key (lj_jev (cf_llm_judge demo_config)) = ''secret''"
  "jc_timeout (lj_jev (cf_llm_judge demo_config)) = 5 * second" "mc_enabled (cf_metrics demo_config) = False"
  by (simp_all add: demo_config_def apply_defaults_def expand_env_vars_def demo_file_def zero_config_def default_proxy_def
      default_judge_def default_jev_def default_tls_def or_default_def getenv_def demo_expanded second_def Let_def)

lemma demo_starts: "\<exists>g s1. demo_start = (Inr g, s1) \<and> gw_config g = demo_config \<and> gw_alerts g = None"
proof -
  have server: "\<exists>ps s1. new_server demo_startup demo_config demo_files = (Inr ps, s1)"
    by (simp add: new_server_def demo_config_fields demo_startup_def demo_files_def ensure_ca_certificate_def file_exists_def
        next_fault_def new_logger_def Let_def)
  have judge: "\<exists>j agent. wire_judge demo_startup (cf_llm_judge demo_config) = Inr (j, agent)"
    by (simp add: wire_judge_def demo_config_fields new_llm_adapter_def new_bedrock_adapter_def demo_startup_def new_live_judge_def
        new_jev_evaluator_def second_def Let_def)
  have alerts: "wire_alerts demo_startup demo_config = None"
    by (simp add: wire_alerts_def demo_config_fields Let_def)
  have fields: "se_text demo_startup = demo_text" "se_env demo_startup = demo_env" "se_open_db demo_startup = (\<lambda>_ _ _. None)"
      "se_migrate demo_startup = None"
    by (simp_all add: demo_startup_def)
  have "demo_start = boot demo_startup (\<lambda>_. Inr []) demo_config demo_files"
    using demo_loads by (simp add: demo_start_def main_gateway_def fields)
  moreover obtain ps :: "unit proxy_server" and s1 where ps: "new_server demo_startup demo_config demo_files = (Inr ps, s1)"
    using server by blast
  moreover obtain j agent where j: "wire_judge demo_startup (cf_llm_judge demo_config) = Inr (j, agent)" using judge by blast
  ultimately show ?thesis
    using boot_starts [OF _ _ _ ps j, of "\<lambda>_. Inr []"] alerts by (auto simp: demo_config_fields fields)
qed

text \<open>
  C39: the mode of the file is the mode of the gateway. A gateway that starts in a mode other
  than passthrough has a judge, so that the decision never falls on the branch for a judge
  that is not configured; it uses the judge exactly in the mode \<open>llm\<close> and passes requests
  through exactly in the mode \<open>passthrough\<close>.
\<close>

theorem llm_gateway_has_judge:
  assumes "main_gateway se unmarshal file writer s = (Inr g, s1)"
  shows "(uses_llm (gateway_manager le g) \<longleftrightarrow> vc_mode (cf_approval (gw_config g)) = ''llm'') \<and>
     (uses_passthrough (gateway_manager le g) \<longleftrightarrow> vc_mode (cf_approval (gw_config g)) = ''passthrough'') \<and>
     uses_llm (gateway_manager le g) = (\<not> uses_passthrough (gateway_manager le g))"
  by (rule started_modes [OF assms])

definition demo_live :: live_env where
  "demo_live =
     \<lparr>li_mime = \<lparr>mo_parse_media_type = (\<lambda>_. None), mo_parts = (\<lambda>_ _. ([], PartsEOF))\<rparr>, li_json_error = (\<lambda>_. []),
      li_call = jv_call (sample_jev_env 500 [] None), li_breaker = sample_jev_breaker, li_jev = sample_jev_env 500 [] None,
      li_jev_breaker = sample_jev_breaker, li_ctx = caller_present\<rparr>"

lemma llm_gateway_has_judge_witness:
  "\<exists>g s1. demo_start = (Inr g, s1) \<and> uses_llm (gateway_manager demo_live g)"
proof -
  obtain g s1 where g: "demo_start = (Inr g, s1)" "gw_config g = demo_config" using demo_starts by blast
  from llm_gateway_has_judge [OF g(1) [unfolded demo_start_def], of demo_live] g(2)
  have "uses_llm (gateway_manager demo_live g)" by (simp add: demo_config_fields)
  with g(1) show ?thesis by blast
qed

subsection \<open>What an allowed request rests on\<close>

definition llm_said :: "live_env \<Rightarrow> llm_adapter \<Rightarrow> http_request \<Rightarrow> header \<Rightarrow> string \<Rightarrow> llm_policy \<Rightarrow> decision_type \<Rightarrow> bool" where
  "llm_said le a req h body p d \<longleftrightarrow>
     (let (resp, err) = live_ask le a (judge_request (li_mime le) (rq_method req) (rq_url req) h body p)
      in err = None \<and> answered (co_text resp) = Some d)"

text \<open>Jev's score for the request, which counts only below the configured threshold.\<close>

definition jev_below :: "live_env \<Rightarrow> jev_config \<Rightarrow> http_request \<Rightarrow> header \<Rightarrow> string \<Rightarrow> llm_policy \<Rightarrow> bool" where
  "jev_below le jc req h body p \<longleftrightarrow> jc_enabled jc \<and>
     (\<exists>j res q lo. live_scorer le j (rq_method req) (rq_url req) h body p = (res, None) \<and> jr_score res = Some q \<and>
        jc_allow_below jc = Some (Num lo) \<and> 0 \<le> q \<and> q < lo)"

lemma live_judge_said:
  "live_judge le a (rq_method req) (rq_url req) h body p = (res, None) \<Longrightarrow> llm_said le a req h body p (jr_decision res)"
  unfolding live_judge_def llm_said_def
  using judge_decides_iff [of "li_mime le" "li_json_error le" "model_id (la_adapter a)" "live_ask le a" "rq_method req" "rq_url req" h body p
      "jr_decision res"]
  by (auto simp: case_prod_beta)

lemma live_scorer_range:
  "live_scorer le j m u h b p = (res, None) \<Longrightarrow> jr_score res = Some q \<Longrightarrow> 0 \<le> q"
  unfolding live_scorer_def
  using jev_scores_are_sound [of "li_mime le" j "li_jev le" m u h b p "li_jev_breaker le" res None] by (metis fst_conv option.inject prod.collapse)

fun judge_adapter :: "judge_spec \<Rightarrow> llm_adapter" where
  "judge_adapter (JudgeAlone a) = a"
| "judge_adapter (JudgeBehindJev j r lo hi a) = a"

lemma live_allow_rests:
  assumes "live_evaluator le spec (rq_method req) (rq_url req) h body p = (res, None)" and "jr_decision res = DecisionAllow"
    and "\<And>j r lo hi a. spec = JudgeBehindJev j r lo hi a \<Longrightarrow> jc_enabled jc \<and> jc_allow_below jc = Some lo \<and> (\<exists>q. lo = Num q)"
  shows "jev_below le jc req h body p \<or> llm_said le (judge_adapter spec) req h body p DecisionAllow"
proof (cases spec)
  case (JudgeAlone a)
  then show ?thesis using assms(1,2) live_judge_said [of le a req h body p res] by auto
next
  case (JudgeBehindJev j r lo hi a)
  from cascade_ground [OF assms(1) [unfolded JudgeBehindJev live_evaluator.simps]] show ?thesis
  proof
    assume "jev_ground (live_cascade le j lo hi a) (rq_method req) (rq_url req) h body p (jr_decision res)"
    then show ?thesis
      using assms(2) assms(3) [OF JudgeBehindJev] live_scorer_range [of le j "rq_method req" "rq_url req" h body p]
      unfolding jev_ground_def jev_below_def
      by (fastforce simp: live_cascade_def threshold_def DecisionAllow_def DecisionDeny_def split: if_splits)
  next
    assume "llm_ground (live_cascade le j lo hi a) (rq_method req) (rq_url req) h body p (jr_decision res)"
    then show ?thesis
      using assms(2) live_judge_said JudgeBehindJev unfolding llm_ground_def by (fastforce simp: live_cascade_def)
  qed
qed

lemma gateway_spec:
  assumes "main_gateway se unmarshal file writer s = (Inr g, s1)" and "gw_judge g = Some (JudgeBehindJev j r lo hi a)"
  shows "jc_enabled (lj_jev (cf_llm_judge (gw_config g))) \<and> jc_allow_below (lj_jev (cf_llm_judge (gw_config g))) = Some lo \<and>
    (\<exists>q. lo = Num q)"
proof -
  obtain load: "load_config (se_text se) unmarshal (se_env se) file = Inr (gw_config g)"
      and boot: "boot se writer (gw_config g) s = (Inr g, s1)" using main_gateway_made [OF assms(1)] .
  obtain agent where "wire_judge se (cf_llm_judge (gw_config g)) = Inr (gw_judge g, agent)" using boot_made(2) [OF boot] by auto
  from wire_judge_made(2) [OF this assms(2)] loaded_judge(2) [OF load] show ?thesis
    by (auto simp: jev_consistent_def allow_below_def)
qed

text \<open>
  C2: the gateway that was started fails closed, from its file to its upstream. Whatever the
  configuration file says short of passthrough as the mode or the fallback, a request the
  approval manager allows has a policy none of whose deny rules match it, and is either matched
  by a static rule of it, or was scored below the configured threshold by Jev, or was named
  ALLOW in the text the judge's model answered to the prompts built of this request and policy.
\<close>

theorem started_gateway_fails_closed:
  assumes start: "main_gateway se unmarshal file writer s = (Inr g, s1)"
    and "vc_mode (cf_approval (gw_config g)) \<noteq> ''passthrough''" and "lj_fallback_mode (cf_llm_judge (gw_config g)) \<noteq> ''passthrough''"
    and out: "fst (check_approval (gateway_manager le g) ctx req) = Inr (d, b)" and allow: "ad_decision d = DecisionAllow"
  shows "\<exists>p. cx_policy ctx = Some p \<and>
    (\<forall>r\<in>set (lp_static_rules p). static_rule_matches r (rq_method req) (rq_url req) \<longrightarrow> sr_action r \<noteq> ''deny'') \<and>
    ((\<exists>r\<in>set (lp_static_rules p). static_rule_matches r (rq_method req) (rq_url req)) \<or>
     (\<exists>body spec. lp_prompt p \<noteq> [] \<and> gw_judge g = Some spec \<and>
        (jev_below le (lj_jev (cf_llm_judge (gw_config g))) req (eval_headers ctx req) (eval_body ctx body) p \<or>
         llm_said le (judge_adapter spec) req (eval_headers ctx req) (eval_body ctx body) p DecisionAllow)))"
proof -
  have "uses_llm (gateway_manager le g)" using started_modes [OF start, of le] assms(2)
    by (auto simp: uses_passthrough_def gateway_manager_fields(1))
  then have "mg_mode (gateway_manager le g) \<noteq> ''passthrough''" and judge: "gw_judge g \<noteq> None"
    by (auto simp: uses_llm_def gateway_manager_fields(2))
  moreover have "mg_fallback_mode (gateway_manager le g) \<noteq> ''passthrough''"
    using gateway_manager_fields(3) [OF judge] assms(3) by simp
  ultimately obtain p j where p: "cx_policy ctx = Some p" and j: "mg_judge (gateway_manager le g) = Some j"
    and deny: "\<forall>r\<in>set (lp_static_rules p). static_rule_matches r (rq_method req) (rq_url req) \<longrightarrow> sr_action r \<noteq> ''deny''"
    and ground: "(\<exists>r\<in>set (lp_static_rules p). static_rule_matches r (rq_method req) (rq_url req)) \<or>
     (\<exists>body res. lp_prompt p \<noteq> [] \<and>
        j (rq_method req) (rq_url req) (eval_headers ctx req) (eval_body ctx body) p = (res, None) \<and> jr_decision res = DecisionAllow)"
    using allowed_has_ground [OF _ _ out allow] by blast
  from j obtain spec where spec: "gw_judge g = Some spec" "j = live_evaluator le spec"
    by (auto simp: gateway_manager_fields(2))
  have "jev_below le (lj_jev (cf_llm_judge (gw_config g))) req h x p \<or> llm_said le (judge_adapter spec) req h x p DecisionAllow"
    if "j (rq_method req) (rq_url req) h x p = (res, None)" "jr_decision res = DecisionAllow" for h x res
    by (rule live_allow_rests [OF that [unfolded spec(2)]]) (use gateway_spec [OF start] spec(1) in auto)
  with p deny ground spec(1) show ?thesis by blast
qed

text \<open>With the default threshold of zero Jev allows nothing.\<close>

lemma default_threshold_allows_nothing:
  "jc_allow_below jc = Some (Num 0) \<Longrightarrow> \<not> jev_below le jc req h body p"
  by (auto simp: jev_below_def)

lemma started_gateway_fails_closed_witness:
  "\<exists>g s1. demo_start = (Inr g, s1) \<and> cx_policy example_ctx = Some example_policy \<and>
     (\<forall>r\<in>set (lp_static_rules example_policy). static_rule_matches r ''POST'' ''https://x.com/a'' \<longrightarrow> sr_action r \<noteq> ''deny'')"
proof -
  obtain g s1 where g: "demo_start = (Inr g, s1)" "gw_config g = demo_config" using demo_starts by blast
  let ?req = "example_request\<lparr>rq_url := ''https://x.com/a''\<rparr>"
  have mode: "vc_mode (cf_approval (gw_config g)) \<noteq> ''passthrough''" "lj_fallback_mode (cf_llm_judge (gw_config g)) \<noteq> ''passthrough''"
    by (simp_all add: g(2) demo_config_fields)
  obtain j where j: "mg_judge (gateway_manager demo_live g) = Some j" "mg_mode (gateway_manager demo_live g) = ''llm''"
    using started_modes [OF g(1) [unfolded demo_start_def], of demo_live] g(2) by (auto simp: demo_config_fields uses_llm_def)
  have "static_flags (Some example_policy) ''POST'' ''https://x.com/a'' = (True, False)" by code_simp
  then obtain d b where out: "fst (check_approval (gateway_manager demo_live g) example_ctx example_request) = Inr (d, b)"
      and allow: "ad_decision d = DecisionAllow"
    using j by (simp add: check_approval_def check_approval_inner_def check_approval_llm_def request_body_for_approval_def example_ctx_def
        decide_llm_def static_decision_def example_request_def)
  from started_gateway_fails_closed [OF g(1) [unfolded demo_start_def] mode out allow] g(1) show ?thesis
    by (auto simp: example_ctx_def example_request_def)
qed

subsection \<open>The proxy's handler\<close>

lemma append_cidrs_all:
  "\<forall>s \<in> set ss. \<exists>n. parse s = Inr n \<Longrightarrow>
   \<exists>ns. append_cidrs parse ss h = Inr (h\<lparr>hd_allowed_private_cidrs := hd_allowed_private_cidrs h @ ns\<rparr>) \<and> map parse ss = map Inr ns"
proof (induction ss arbitrary: h)
  case (Cons s ss)
  then obtain n where n: "parse s = Inr n" by auto
  have "\<forall>s \<in> set ss. \<exists>n. parse s = Inr n" using Cons.prems by simp
  from Cons.IH [OF this, of "h\<lparr>hd_allowed_private_cidrs := hd_allowed_private_cidrs h @ [n]\<rparr>"]
  obtain ns where "append_cidrs parse ss (h\<lparr>hd_allowed_private_cidrs := hd_allowed_private_cidrs h @ [n]\<rparr>) =
      Inr (h\<lparr>hd_allowed_private_cidrs := hd_allowed_private_cidrs h @ n # ns\<rparr>)" "map parse ss = map Inr ns" by auto
  then show ?case using n by (intro exI [of _ "n # ns"]) simp
qed simp

lemma append_cidrs_fresh:
  assumes "\<forall>s \<in> set ss. \<exists>n. parse s = Inr n" and "hd_allowed_private_cidrs h = []"
  shows "\<exists>ns. append_cidrs parse ss h = Inr (h\<lparr>hd_allowed_private_cidrs := ns\<rparr>) \<and> map parse ss = map Inr ns"
  using append_cidrs_all [OF assms(1), of h] assms(2) by simp

text \<open>What the start of the proxy makes of a loaded configuration.\<close>

lemma started_proxy:
  assumes "main_gateway se unmarshal file writer s = (Inr g, s1)"
  shows "\<exists>(ln :: 'l listening) ns. start_server (se_text se) hp m (gw_proxy g) = Inr ln \<and>
    map (ct_parse_cidr (se_text se)) (pc_allowed_private_cidrs (cf_proxy (gw_config g))) = map Inr ns \<and>
    hd_allowed_private_cidrs (ln_handler ln) = ns \<and> ln_client ln = init_client (ln_handler ln) \<and>
    hd_insecure_skip_verify_hosts (ln_handler ln) = map to_lower (pc_insecure_skip_verify_hosts (cf_proxy (gw_config g))) \<and>
    hd_insecure_skip_upstream_verify (ln_handler ln) = pc_insecure_skip_upstream_verify (cf_proxy (gw_config g)) \<and>
    configured_limiter (cf_proxy (gw_config g)) (ln_limiter ln)"
proof -
  obtain load: "load_config (se_text se) unmarshal (se_env se) file = Inr (gw_config g)"
      and boot: "boot se writer (gw_config g) s = (Inr g, s1)" using main_gateway_made [OF assms] .
  let ?p = "cf_proxy (gw_config g)"
  let ?hosts = "map to_lower (pc_insecure_skip_verify_hosts ?p)"
  have ok: "proxy_consistent (se_text se) ?p" by (rule loaded_judge(3) [OF load])
  then have cidrs: "\<forall>s \<in> set (pc_allowed_private_cidrs ?p). \<exists>n. ct_parse_cidr (se_text se) s = Inr n" by (simp add: proxy_consistent_def)
  let ?h1 = "if ?hosts \<noteq> [] then (new_handler hp m (pc_insecure_skip_upstream_verify ?p))\<lparr>hd_insecure_skip_verify_hosts := ?hosts\<rparr>
      else new_handler hp m (pc_insecure_skip_upstream_verify ?p)"
  let ?h2 = "?h1\<lparr>hd_llm_writer := ps_llm_writer (gw_proxy g)\<rparr>"
  have h2: "hd_allowed_private_cidrs ?h2 = []" "hd_insecure_skip_verify_hosts ?h2 = ?hosts"
      "hd_insecure_skip_upstream_verify ?h2 = pc_insecure_skip_upstream_verify ?p" "init_client ?h1 = init_client ?h2"
    by (simp_all add: new_handler_def init_client_def)
  from append_cidrs_fresh [OF cidrs h2(1)] obtain ns where
    ns: "map (ct_parse_cidr (se_text se)) (pc_allowed_private_cidrs ?p) = map Inr ns" and
    h: "append_cidrs (ct_parse_cidr (se_text se)) (pc_allowed_private_cidrs ?p) ?h2 = Inr (?h2\<lparr>hd_allowed_private_cidrs := ns\<rparr>)"
    by blast
  let ?h = "?h2\<lparr>hd_allowed_private_cidrs := ns\<rparr>"
  obtain rate where rate: "pc_rate_limit_per_ip ?p = Some rate" "0 \<le> rate" using ok by (auto simp: proxy_consistent_def)
  have "pc_allowed_private_cidrs ?p = [] \<Longrightarrow> ns = []" using ns by simp
  then have client: "(if pc_allowed_private_cidrs ?p \<noteq> [] then init_client ?h else init_client ?h1) = init_client ?h"
    unfolding h2(4) by (auto simp: init_client_def new_handler_def)
  obtain ln :: "'l listening" where ln: "start_server (se_text se) hp m (gw_proxy g) = Inr ln" "ln_handler ln = ?h"
      "ln_client ln = (if pc_allowed_private_cidrs ?p \<noteq> [] then init_client ?h else init_client ?h1)"
      "ln_limiter ln = (if 0 < rate then Some (rl_set_observer (ps_rate_limit_observer (gw_proxy g))
         (new_ip_rate_limiter (of_int rate) (pc_rate_limit_burst ?p))) else None)"
    using h by (simp add: start_server_def boot_made(4) [OF boot] rate(1) Let_def del: if_split)
  have limit: "configured_limiter ?p (ln_limiter ln)"
    using rate(2) by (simp add: configured_limiter_def rate(1) ln(4) rl_set_observer_def new_ip_rate_limiter_def boot_made(6) [OF boot])
  show ?thesis
    using ns h2(2,3) by (intro exI [of _ ln] exI [of _ ns] conjI) (simp_all add: ln(1,2) ln(3) [unfolded client] limit del: if_split)
qed

text \<open>The hosts whose certificates the file exempts from verification.\<close>

definition unverified :: "proxy_config \<Rightarrow> string \<Rightarrow> string \<Rightarrow> bool" where
  "unverified p host port =
     (let hosts = map to_lower (pc_insecure_skip_verify_hosts p) in
      if hosts = [] then pc_insecure_skip_upstream_verify p
      else to_lower host \<in> set hosts \<or> port \<noteq> [] \<and> to_lower host @ '':'' @ port \<in> set hosts)"

text \<open>
  C25: the handler enforces what the file says. The proxy of a started gateway always comes up:
  no CIDR fails to parse after the validation. The networks its dialer lets through are exactly
  those of the file; the certificate of an upstream goes unverified only for a listed host, alone
  or with its port and in any case, or, with no list, under the global switch; and the limiter is
  absent for the rate zero and otherwise an empty one with the rate and the burst of the file.
\<close>

theorem proxy_enforces_configuration:
  assumes "main_gateway se unmarshal file writer s = (Inr g, s1)"
  shows "\<exists>ln :: 'l listening. start_server (se_text se) hp m (gw_proxy g) = Inr ln \<and>
    map (ct_parse_cidr (se_text se)) (pc_allowed_private_cidrs (cf_proxy (gw_config g))) = map Inr (hd_allowed_private_cidrs (ln_handler ln)) \<and>
    (\<forall>host port. should_skip_tls_verify (ln_handler ln) host port =
       unverified (cf_proxy (gw_config g)) host port) \<and>
    configured_limiter (cf_proxy (gw_config g)) (ln_limiter ln)"
proof -
  obtain ln :: "'l listening" and ns where ln: "start_server (se_text se) hp m (gw_proxy g) = Inr ln"
    "map (ct_parse_cidr (se_text se)) (pc_allowed_private_cidrs (cf_proxy (gw_config g))) = map Inr ns"
    "hd_allowed_private_cidrs (ln_handler ln) = ns"
    "hd_insecure_skip_verify_hosts (ln_handler ln) = map to_lower (pc_insecure_skip_verify_hosts (cf_proxy (gw_config g)))"
    "hd_insecure_skip_upstream_verify (ln_handler ln) = pc_insecure_skip_upstream_verify (cf_proxy (gw_config g))"
    "configured_limiter (cf_proxy (gw_config g)) (ln_limiter ln)"
    using started_proxy [OF assms, of hp m] by metis
  have "should_skip_tls_verify (ln_handler ln) host port =
       unverified (cf_proxy (gw_config g)) host port" for host port
    by (simp add: should_skip_tls_verify_def unverified_def ln(4,5) Let_def)
  with ln(1,2,3,6) show ?thesis by (intro exI [of _ ln]) simp
qed

definition demo_parts :: handler_parts where
  "demo_parts =
     \<lparr>hp_resolver = None, hp_audit_reader = True, hp_decoders = hd_decoders example_handler, hp_new_request = (\<lambda>_ _. None),
      hp_do = (\<lambda>_. Inl ''down'')\<rparr>"

lemma proxy_enforces_configuration_witness:
  "\<exists>g s1 ln. demo_start = (Inr g, s1) \<and> start_server demo_text demo_parts new_manager (gw_proxy g) = Inr (ln :: unit listening) \<and>
     \<not> should_skip_tls_verify (ln_handler ln) ''api.example.com'' ''443'' \<and>
     configured_limiter (cf_proxy demo_config) (ln_limiter ln) \<and> ln_limiter ln \<noteq> None"
proof -
  obtain g s1 where g: "demo_start = (Inr g, s1)" "gw_config g = demo_config" using demo_starts by blast
  have p: "pc_insecure_skip_verify_hosts (cf_proxy demo_config) = []" "\<not> pc_insecure_skip_upstream_verify (cf_proxy demo_config)"
      "pc_rate_limit_per_ip (cf_proxy demo_config) = Some 50"
    by (simp_all add: demo_config_def apply_defaults_def expand_env_vars_def demo_file_def zero_config_def default_proxy_def Let_def)
  have "se_text demo_startup = demo_text" by (simp add: demo_startup_def)
  with proxy_enforces_configuration [OF g(1) [unfolded demo_start_def], of demo_parts new_manager]
  obtain ln :: "unit listening" where ln: "start_server demo_text demo_parts new_manager (gw_proxy g) = Inr ln"
      "\<forall>host port. \<not> should_skip_tls_verify (ln_handler ln) host port" "configured_limiter (cf_proxy demo_config) (ln_limiter ln)"
    using g p by (auto simp: unverified_def Let_def)
  moreover have "ln_limiter ln \<noteq> None" using calculation(3) by (simp add: configured_limiter_def p(3))
  ultimately show ?thesis using g(1) by blast
qed

text \<open>
  no connection to an upstream leaves what the file allows. Whatever client connection the
  transport of a started gateway makes, the resolver's answers for the host all lie outside the
  blocked networks but for the file's own exceptions, the connection goes to the first of them
  at the port asked for, and a TLS connection is verified against the host's name unless the
  file exempts this host. The order in which the start sets the handler's fields and makes the
  client leaves none of them behind.
\<close>

theorem upstream_connections_checked:
  assumes "main_gateway se unmarshal file writer s = (Inr g, s1)" and "start_server (se_text se) hp m (gw_proxy g) = Inr sv"
    and "upstream_connect lookup dial handshake (ln_handler sv) (ln_client sv) secure addr = Inr conn"
  shows "\<exists>host port x xs raw ns. split_host_port addr = Inr (host, port) \<and> lookup host = Inr (x # xs) \<and>
    map (ct_parse_cidr (se_text se)) (pc_allowed_private_cidrs (cf_proxy (gw_config g))) = map Inr ns \<and>
    (\<forall>y \<in> set (x # xs). \<not> is_blocked_ip y ns) \<and> dial ''tcp'' (join_host_port (ip_string x) port) = Inr raw \<and>
    (if secure then handshake raw (unverified (cf_proxy (gw_config g)) host port) host = Inr conn else conn = raw)"
proof -
  obtain ns where sv: "map (ct_parse_cidr (se_text se)) (pc_allowed_private_cidrs (cf_proxy (gw_config g))) = map Inr ns"
    "hd_allowed_private_cidrs (ln_handler sv) = ns" "ln_client sv = init_client (ln_handler sv)"
    "hd_insecure_skip_verify_hosts (ln_handler sv) = map to_lower (pc_insecure_skip_verify_hosts (cf_proxy (gw_config g)))"
    "hd_insecure_skip_upstream_verify (ln_handler sv) = pc_insecure_skip_upstream_verify (cf_proxy (gw_config g))"
    using started_proxy [OF assms(1), of hp m] assms(2) by (metis Inr_inject)
  obtain raw where raw: "safe_dial_context lookup dial ''tcp'' addr ns = Inr raw"
    using assms(3) by (auto simp: upstream_connect_def sv(2,3) init_client_def split: sum.splits)
  from safe_dial_connected [OF this] obtain host port x xs where hp: "split_host_port addr = Inr (host, port)"
    "lookup host = Inr (x # xs)" "\<forall>y \<in> set (x # xs). \<not> is_blocked_ip y ns" "dial ''tcp'' (join_host_port (ip_string x) port) = Inr raw"
    by blast
  have "if secure then handshake raw (unverified (cf_proxy (gw_config g)) host port) host = Inr conn else conn = raw"
    using assms(3) raw hp(1)
    by (auto simp: upstream_connect_def sv init_client_def should_skip_tls_verify_def unverified_def Let_def split: if_splits)
  with sv(1) hp show ?thesis by blast
qed

lemma upstream_connections_checked_witness:
  "\<exists>g s1 ln raw. demo_start = (Inr g, s1) \<and> start_server demo_text demo_parts new_manager (gw_proxy g) = Inr (ln :: unit listening) \<and>
     upstream_connect one_host (\<lambda>n a. Inr (a, True)) (\<lambda>(a, _) skip _. Inr (a, \<not> skip)) (ln_handler ln) (ln_client ln) True ''api.x.com:443'' = Inr raw \<and>
     snd raw"
proof -
  obtain g s1 where g: "demo_start = (Inr g, s1)" "gw_config g = demo_config" using demo_starts by blast
  have p: "pc_insecure_skip_verify_hosts (cf_proxy demo_config) = []" "\<not> pc_insecure_skip_upstream_verify (cf_proxy demo_config)"
      "pc_allowed_private_cidrs (cf_proxy demo_config) = []"
    by (simp_all add: demo_config_def apply_defaults_def expand_env_vars_def demo_file_def zero_config_def default_proxy_def Let_def)
  have stext: "se_text demo_startup = demo_text" by (simp add: demo_startup_def)
  obtain ln :: "unit listening" where ln: "start_server demo_text demo_parts new_manager (gw_proxy g) = Inr ln"
    "hd_allowed_private_cidrs (ln_handler ln) = []" "ln_client ln = init_client (ln_handler ln)"
    using started_proxy [OF g(1) [unfolded demo_start_def], of demo_parts new_manager] g p stext by auto
  let ?hs = "\<lambda>(a, _) skip (_ :: string). Inr (a, \<not> skip) :: (string \<times> bool) result"
  have dial: "safe_dial_context one_host (\<lambda>n a. Inr (a, True)) ''tcp'' ''api.x.com:443'' [] = Inr (''93.184.216.34:443'', True)"
    by code_simp
  have "split_host_port ''api.x.com:443'' = Inr (''api.x.com'', ''443'')" by code_simp
  with dial obtain raw where raw: "upstream_connect one_host (\<lambda>n a. Inr (a, True)) ?hs (ln_handler ln) (ln_client ln) True ''api.x.com:443'' = Inr raw"
    by (auto simp: upstream_connect_def ln(2,3) init_client_def)
  from upstream_connections_checked [OF g(1) [unfolded demo_start_def], unfolded stext, OF ln(1) raw]
  have "snd raw" using g(2) p by (auto simp: unverified_def)
  with g(1) ln(1) raw show ?thesis by blast
qed

subsection \<open>The admin API\<close>

lemma gateway_api_store:
  assumes "main_gateway se unmarshal file writer s = (Inr g, s1)"
  shows "ap_notification_store (gw_api g) = (if gw_alerts g = None then NilPointer else StoreRef)"
    and "ap_alerts (gw_api g) = gw_alerts g"
proof -
  obtain boot: "boot se writer (gw_config g) s = (Inr g, s1)" using main_gateway_made [OF assms] .
  obtain agent where "gw_api g = fst (start_admin_api (admin_config (gw_config g) (gw_judge g) agent (gw_alerts g)))"
    using boot_made(5) [OF boot] by blast
  then show "ap_notification_store (gw_api g) = (if gw_alerts g = None then NilPointer else StoreRef)"
      "ap_alerts (gw_api g) = gw_alerts g"
    by (auto simp: start_admin_api_def admin_config_def as_interface_def new_api_def set_eval_runner_def Let_def split: option.split)
qed

text \<open>
  C40: without alerting the endpoints for notification channels abort. The handlers answer 503
  when the store is a nil interface, but the gateway hands over a nil pointer, which makes an
  interface that is not nil: a started gateway without an alert service panics on every listing
  a manager or administrator asks for, and never answers that the channels are not available.
\<close>

theorem channels_abort_without_alerting:
  assumes "main_gateway se unmarshal file writer s = (Inr g, s1)" and "gw_alerts g = None"
    and "aq_path r = ''/admin/notification-channels''" and "aq_method r = ''GET''" and "aq_query r ''bot_id'' = []"
    and "fst (require_role (gw_api g) ''manager'' r c) = Inr caller"
  shows "fst (serve (gw_api g) en r c) = aborted"
proof -
  have "route (aq_path r) = Some Channels" unfolding assms(3) by code_simp
  then show ?thesis
    using assms(2,4,5,6) gateway_api_store(1) [OF assms(1)]
    by (cases "require_role (gw_api g) ''manager'' r c"; cases caller)
      (auto simp: serve_def handle_notification_channels_def with_role_def list_channels_def on_channel_store_def reply_def Let_def)
qed

definition list_request :: admin_request where
  "list_request = \<lparr>aq_method = ''GET'', aq_path = ''/admin/notification-channels'', aq_raw_path = [], aq_query = (\<lambda>_. []),
     aq_header = [], aq_cookie = Some ''t'', aq_body = []\<rparr>"

definition one_admin :: database where
  "one_admin = empty_database\<lparr>
     db_users := [\<lparr>ur_id = ''ann'', ur_is_admin = True, ur_role = ''admin'', ur_policy_id = None, ur_created_at = 0, ur_updated_at = 0\<rparr>],
     db_channels := [\<lparr>cr_id = ''c'', cr_user_id = ''ann'', cr_type = ''web'', cr_payload = [''web_token'' \<mapsto> ''t'']\<rparr>]\<rparr>"

lemma channels_abort_without_alerting_witness:
  "\<exists>g s1. demo_start = (Inr g, s1) \<and> (\<forall>en. fst (serve (gw_api g) en list_request (connect one_admin)) = aborted)"
proof -
  obtain g s1 where g: "demo_start = (Inr g, s1)" "gw_alerts g = None" using demo_starts by blast
  have "ap_token_validator (gw_api g)"
  proof -
    obtain boot: "boot demo_startup (\<lambda>_. Inr []) (gw_config g) demo_files = (Inr g, s1)"
      using main_gateway_made [OF g(1) [unfolded demo_start_def]] .
    then show ?thesis using boot_made(5) [OF boot]
      by (auto simp: start_admin_api_def admin_config_def new_api_def set_eval_runner_def Let_def)
  qed
  moreover have tok: "extract_web_token list_request = ''t''" by code_simp
  moreover have "web_token_row ''t'' one_admin = Some (''ann'', ''admin'', True)" by code_simp
  ultimately have "fst (require_role (gw_api g) ''manager'' list_request (connect one_admin)) = Inr (''ann'', ''admin'')"
    by (simp add: require_role_def tok get_user_by_web_token_def role_rank_def)
  note abort = channels_abort_without_alerting [OF g(1) [unfolded demo_start_def] g(2) _ _ _ this]
  have "fst (serve (gw_api g) en list_request (connect one_admin)) = aborted" for en
    by (rule abort) (simp_all add: list_request_def)
  with g(1) show ?thesis by blast
qed

lemma wire_judge_agent:
  assumes "wire_judge se l = Inr (judge, agent)" and "lj_enabled l"
  shows "agent = (let fast = fst (new_llm_adapter (se_aws se 1) l (lj_fast_model l) (lj_timeout l) []);
            thinking = fst (new_llm_adapter (se_aws se 2) l (lj_thinking_model l) (300 * second) [])
          in if fast \<noteq> NilAdapter \<and> thinking \<noteq> NilAdapter then Some (fast, thinking) else None)"
  using assms unfolding wire_judge_def by (auto simp: Let_def split: option.splits sum.splits prod.splits adapter_ref.splits if_splits)

lemma bedrock_never_nil: "lj_provider l = ''bedrock-anthropic'' \<Longrightarrow> fst (new_llm_adapter aws l model timeout opts) \<noteq> NilAdapter"
  by (auto simp: new_llm_adapter_def split: sum.split)

text \<open>
  The adapter of the agent is in the same way never nil for Bedrock: when its construction
  failed the agent is still enabled, on a nil pointer.
\<close>

theorem agent_on_nil_adapter:
  assumes "main_gateway se unmarshal file writer s = (Inr g, s1)" and "lj_enabled (cf_llm_judge (gw_config g))"
    and "lj_provider (cf_llm_judge (gw_config g)) = ''bedrock-anthropic''"
    and "se_aws se 1 (lj_bedrock_aws_region (cf_llm_judge (gw_config g))) = Some e"
  shows "\<exists>thinking. gw_agent g = Some (NilAdapterPointer BedrockAdapter, thinking)"
proof -
  let ?l = "cf_llm_judge (gw_config g)"
  obtain boot: "boot se writer (gw_config g) s = (Inr g, s1)" using main_gateway_made [OF assms(1)] .
  then have wire: "wire_judge se ?l = Inr (gw_judge g, gw_agent g)" using boot_made(2) [OF boot] by auto
  have "fst (new_llm_adapter (se_aws se 1) ?l (lj_fast_model ?l) (lj_timeout ?l) []) = NilAdapterPointer BedrockAdapter"
    using assms(3,4) by (simp add: new_llm_adapter_def new_bedrock_adapter_def)
  with wire_judge_agent [OF wire assms(2)] bedrock_never_nil [OF assms(3)] show ?thesis by (simp add: Let_def)
qed

subsection \<open>The first administrator\<close>

definition web_user :: "string \<Rightarrow> database \<Rightarrow> (string \<times> string) option" where
  "web_user token d = fst (get_user_by_web_token token (connect d))"

lemma find_snoc: "find P (xs @ [x]) = (case find P xs of None \<Rightarrow> if P x then Some x else None | Some y \<Rightarrow> Some y)"
  by (induction xs) auto

lemma find_admin:
  assumes "upsert_admin now uid d = (Inr (), d1)"
  shows "\<exists>u. find_user uid d1 = Some u \<and> ur_role u = ''admin''" and "db_channels d1 = db_channels d"
    and "other \<noteq> uid \<Longrightarrow> find_user other d1 = find_user other d"
proof -
  let ?f = "\<lambda>u. u\<lparr>ur_is_admin := True, ur_role := ''admin'', ur_updated_at := now\<rparr>"
  note eq = assms [unfolded upsert_admin_def]
  have mapped: "find_user x (d\<lparr>db_users := map (\<lambda>u. if ur_id u = uid then ?f u else u) (db_users d)\<rparr>) =
      map_option (\<lambda>u. if ur_id u = uid then ?f u else u) (find_user x d)" for x
    by (rule find_user_mapped) simp
  have cases: "find_user uid d = None \<Longrightarrow> d1 = d\<lparr>db_users := db_users d @ [\<lparr>ur_id = uid, ur_is_admin = True, ur_role = ''admin'',
        ur_policy_id = None, ur_created_at = now, ur_updated_at = now\<rparr>]\<rparr>"
      "find_user uid d \<noteq> None \<Longrightarrow> d1 = d\<lparr>db_users := map (\<lambda>u. if ur_id u = uid then ?f u else u) (db_users d)\<rparr>"
    using eq by auto
  show "\<exists>u. find_user uid d1 = Some u \<and> ur_role u = ''admin''" "db_channels d1 = db_channels d"
    "other \<noteq> uid \<Longrightarrow> find_user other d1 = find_user other d"
  proof (atomize (full), cases "find_user uid d")
    case None
    then show "(\<exists>u. find_user uid d1 = Some u \<and> ur_role u = ''admin'') \<and> db_channels d1 = db_channels d \<and>
        (other \<noteq> uid \<longrightarrow> find_user other d1 = find_user other d)"
      using cases(1) by (simp add: find_user_def find_snoc split: option.split)
  next
    case (Some v)
    have "map_option (\<lambda>u. if ur_id u = uid then ?f u else u) (find_user other d) = find_user other d" if "other \<noteq> uid"
      using that find_user_id [of other d] by (cases "find_user other d") auto
    then show "(\<exists>u. find_user uid d1 = Some u \<and> ur_role u = ''admin'') \<and> db_channels d1 = db_channels d \<and>
        (other \<noteq> uid \<longrightarrow> find_user other d1 = find_user other d)"
      using cases(2) Some find_user_id [OF Some] mapped by simp
  qed
qed

lemma created_admin_run:
  "sruns (\<lambda>d x d1. \<exists>d2. upsert_admin now uid d = (Inr (), d2) \<and> upsert_channel cid uid ''web'' [''web_token'' \<mapsto> token] d2 = (Inr (), d1))
     (create_admin_user now cid token uid)"
proof -
  let ?user = "\<lambda>d x d1. upsert_admin now uid d = (Inr (), d1)"
  let ?chan = "\<lambda>d x d1. upsert_channel cid uid ''web'' [''web_token'' \<mapsto> token] d = (Inr (), d1)"
  have "svalid ?user (swrap ''failed to upsert user: '' (exec (upsert_admin now uid)))"
    by (intro svalid_sruns sruns_swrap sruns_exec) auto
  moreover have "svalid ?chan (swrap ''failed to upsert web channel: '' (exec (upsert_channel cid uid ''web'' [''web_token'' \<mapsto> token])))"
    by (intro svalid_sruns sruns_swrap sruns_exec) auto
  ultimately have "sruns (\<lambda>d x d1. \<exists>d2. ?user d () d2 \<and> ?chan d2 () d1)
      (transaction (sbind (swrap ''failed to upsert user: '' (exec (upsert_admin now uid)))
        (\<lambda>_. swrap ''failed to upsert web channel: '' (exec (upsert_channel cid uid ''web'' [''web_token'' \<mapsto> token])))))"
    by (intro sruns_transaction) (rule svalid_bind, assumption, assumption, blast)
  then show ?thesis
    unfolding create_admin_user_def sruns_def sbind_def sreturn_def by (auto split: prod.splits sum.splits)
qed

lemma web_channel_upserted:
  assumes "upsert_channel cid uid ''web'' [''web_token'' \<mapsto> token] d = (Inr (), d1)"
  shows "db_users d1 = db_users d \<and>
    (\<exists>ch \<in> set (db_channels d1). cr_user_id ch = uid \<and> token_channel ''web'' ''web_token'' token ch) \<and>
    (\<forall>ch \<in> set (db_channels d1). if cr_user_id ch = uid \<and> cr_type ch = ''web''
      then cr_payload ch = [''web_token'' \<mapsto> token] else ch \<in> set (db_channels d))"
proof (cases "user_has_channel uid ''web'' d")
  case True
  then have d1: "d1 = d\<lparr>db_channels := map (\<lambda>ch. if cr_user_id ch = uid \<and> cr_type ch = ''web''
      then ch\<lparr>cr_payload := [''web_token'' \<mapsto> token]\<rparr> else ch) (db_channels d)\<rparr>"
    using assms by (simp add: upsert_channel_def)
  from True obtain ch0 where "ch0 \<in> set (db_channels d)" "cr_user_id ch0 = uid" "cr_type ch0 = ''web''"
    by (auto simp: user_has_channel_def list_ex_iff)
  then have "\<exists>ch \<in> set (db_channels d1). cr_user_id ch = uid \<and> token_channel ''web'' ''web_token'' token ch"
    by (intro bexI [of _ "ch0\<lparr>cr_payload := [''web_token'' \<mapsto> token]\<rparr>"]) (auto simp: d1 token_channel_def image_iff)
  moreover have "\<forall>ch \<in> set (db_channels d1). if cr_user_id ch = uid \<and> cr_type ch = ''web''
      then cr_payload ch = [''web_token'' \<mapsto> token] else ch \<in> set (db_channels d)"
    unfolding d1 by (auto split: if_splits)
  moreover have "db_users d1 = db_users d" by (simp add: d1)
  ultimately show ?thesis by blast
next
  case False
  then have "d1 = d\<lparr>db_channels := db_channels d @ [\<lparr>cr_id = cid, cr_user_id = uid, cr_type = ''web'', cr_payload = [''web_token'' \<mapsto> token]\<rparr>]\<rparr>"
    using assms by (auto simp: upsert_channel_def insert_channel_def split: if_splits)
  then show ?thesis using False by (auto simp: token_channel_def user_has_channel_def list_ex_iff)
qed

lemma web_channel_set:
  assumes "upsert_channel cid uid ''web'' [''web_token'' \<mapsto> token] d = (Inr (), d1)"
  shows "db_users d1 = db_users d"
    and "\<exists>ch \<in> set (db_channels d1). cr_user_id ch = uid \<and> token_channel ''web'' ''web_token'' token ch"
    and "ch \<in> set (db_channels d1) \<Longrightarrow> cr_user_id ch = uid \<Longrightarrow> cr_type ch = ''web'' \<Longrightarrow> cr_payload ch = [''web_token'' \<mapsto> token]"
    and "ch \<in> set (db_channels d1) \<Longrightarrow> cr_user_id ch \<noteq> uid \<Longrightarrow> ch \<in> set (db_channels d)"
  using web_channel_upserted [OF assms] by (blast, blast, metis, metis)

text \<open>A token names the user of some channel that carries it.\<close>

lemma web_user_channel:
  assumes "web_user t d = Some (uid, role)"
  shows "\<exists>ch \<in> set (db_channels d). cr_user_id ch = uid \<and> token_channel ''web'' ''web_token'' t ch"
proof -
  have "\<exists>r a. web_token_row t d = Some (uid, r, a)"
    using assms by (auto simp: web_user_def get_user_by_web_token_def split: if_splits option.splits)
  let ?hits = "filter (\<lambda>ch. token_channel ''web'' ''web_token'' t ch \<and> find_user (cr_user_id ch) d \<noteq> None) (db_channels d)"
  obtain ch chs where hits: "?hits = ch # chs" and "cr_user_id ch = uid"
    using \<open>\<exists>r a. web_token_row t d = Some (uid, r, a)\<close> by (auto simp: web_token_row_def split: list.splits)
  have "ch \<in> set ?hits" by (simp only: hits list.set_intros)
  then show ?thesis using \<open>cr_user_id ch = uid\<close> by auto
qed

lemma web_user_only:
  assumes "\<exists>ch \<in> set (db_channels d). cr_user_id ch = uid \<and> token_channel ''web'' ''web_token'' token ch"
    and "\<forall>ch \<in> set (db_channels d). token_channel ''web'' ''web_token'' token ch \<longrightarrow> cr_user_id ch = uid"
    and "find_user uid d = Some u" and "token \<noteq> []" and "ur_role u = ''admin''"
  shows "web_user token d = Some (uid, ''admin'')"
proof -
  let ?hits = "filter (\<lambda>ch. token_channel ''web'' ''web_token'' token ch \<and> find_user (cr_user_id ch) d \<noteq> None) (db_channels d)"
  have "?hits \<noteq> []" using assms(1,3) by (auto simp: filter_empty_conv)
  then obtain ch chs where hits: "?hits = ch # chs" by (cases ?hits) auto
  have "ch \<in> set ?hits" by (simp only: hits list.set_intros)
  then have "cr_user_id ch = uid" using assms(2) by simp
  then have "web_token_row token d = Some (uid, ''admin'', ur_is_admin u)" using hits assms(3,5) by (simp add: web_token_row_def)
  then show ?thesis using assms(4) by (simp add: web_user_def get_user_by_web_token_def)
qed

text \<open>
  C38: \<open>create-admin-user\<close> makes an administrator or nothing. When it succeeds, the printed
  token, carried by no channel of another user, logs the user in as an administrator, whoever
  the user was before, and no other token logs the user in any more. When any statement fails
  the tables are as they were: no user is left without a token, and no token without the role.
\<close>

theorem created_admin_logs_in:
  assumes "create_admin_user now cid token uid c = (res, c1)" and "token \<noteq> []"
    and "\<forall>ch \<in> set (db_channels (cn_db c)). token_channel ''web'' ''web_token'' token ch \<longrightarrow> cr_user_id ch = uid"
  shows "case res of
      Inl e \<Rightarrow> cn_db c1 = cn_db c
    | Inr _ \<Rightarrow> web_user token (cn_db c1) = Some (uid, ''admin'') \<and> (\<forall>t role. web_user t (cn_db c1) = Some (uid, role) \<longrightarrow> t = token)"
proof (cases res)
  case (Inl e)
  then show ?thesis using srunsD(2) [OF created_admin_run] assms(1) by fastforce
next
  case (Inr x)
  obtain d2 where user: "upsert_admin now uid (cn_db c) = (Inr (), d2)"
    and chan: "upsert_channel cid uid ''web'' [''web_token'' \<mapsto> token] d2 = (Inr (), cn_db c1)"
    using srunsD(1) [OF created_admin_run assms(1) [unfolded Inr]] by blast
  obtain u where u: "find_user uid d2 = Some u" "ur_role u = ''admin''" using find_admin(1) [OF user] by blast
  have "find_user uid (cn_db c1) = Some u" using u(1) web_channel_set(1) [OF chan] by (simp add: find_user_def)
  moreover have "\<forall>ch \<in> set (db_channels (cn_db c1)). token_channel ''web'' ''web_token'' token ch \<longrightarrow> cr_user_id ch = uid"
    using web_channel_set(4) [OF chan] assms(3) find_admin(2) [OF user] by auto
  ultimately have "web_user token (cn_db c1) = Some (uid, ''admin'')"
    using web_user_only [OF web_channel_set(2) [OF chan]] u(2) assms(2) by blast
  moreover have "t = token" if "web_user t (cn_db c1) = Some (uid, role)" for t role
  proof -
    from web_user_channel [OF that] obtain ch
      where ch: "ch \<in> set (db_channels (cn_db c1))" "cr_user_id ch = uid" "token_channel ''web'' ''web_token'' t ch" by blast
    then have "cr_payload ch = [''web_token'' \<mapsto> token]" using web_channel_set(3) [OF chan] by (simp add: token_channel_def)
    then show "t = token" using ch(3) by (simp add: token_channel_def)
  qed
  ultimately show ?thesis unfolding Inr sum.case by blast
qed

lemma created_admin_logs_in_witness:
  "web_user ''tok'' (cn_db (snd (create_admin_user 1 ''c2'' ''tok'' ''ann'' (connect one_admin)))) = Some (''ann'', ''admin'') \<and>
   web_user ''t'' (cn_db (snd (create_admin_user 1 ''c2'' ''tok'' ''ann'' (connect one_admin)))) \<noteq> Some (''ann'', ''admin'')"
proof -
  obtain c1 where run: "create_admin_user 1 ''c2'' ''tok'' ''ann'' (connect one_admin) = (Inr (''ann'', ''tok''), c1)"
    by (simp add: create_admin_user_def transaction_def sbind_def swrap_def sreturn_def upsert_admin_def upsert_channel_def
        user_has_channel_def one_admin_def find_user_def)
  have "\<forall>ch \<in> set (db_channels (cn_db (connect one_admin))). token_channel ''web'' ''web_token'' ''tok'' ch \<longrightarrow> cr_user_id ch = ''ann''"
    by (simp add: one_admin_def token_channel_def)
  from created_admin_logs_in [OF run _ this] show ?thesis by (auto simp: run)
qed

end
