(* ===== verification/Spec2Isabelle.thy ===== *)
theory Spec2Isabelle imports Websocket_Props Tls_Props Tunnel_Props Proxy_Body_Props Llm_Props Judge_Prompt_Props Notify_Props Alert_Props Admin_Routes Eval_Props Gateway_Props begin

text \<open>
  A verification development of CrabTrap, an HTTP and HTTPS forward proxy for AI agents that
  identifies the client by a gateway token, judges every request by the static rules and the
  prompt of the client's policy, forwards what is allowed and keeps an audit log, with an admin
  API beside it. Paths below are under \<open>src/\<close>; a name of the code and the definition that
  models it are the same up to case and underscores, and a clash with a HOL constant is resolved
  by a prefix (\<open>alert_notify\<close>, \<open>audit_add\<close>, \<open>policy_get\<close>).

  The program and its parts. \<open>cmd/gateway/main.go\<close> loads the configuration, opens the
  database, makes the adapters, the judge, the approval manager and the stores, and starts the
  proxy and the admin API. A request to the proxy (\<open>internal/proxy\<close>) is authenticated,
  approved (\<open>internal/approval\<close>: static rules, then the judge of \<open>internal/judge\<close>,
  which asks a model through \<open>internal/llm\<close>, optionally after the Jev scorer), sent to an
  upstream over a connection whose address was examined, and recorded
  (\<open>internal/audit\<close>, \<open>internal/admin/pg_audit_reader.go\<close>). Audit events go through
  \<open>internal/notifications\<close> to the browsers' event streams and to \<open>internal/alerting\<close>,
  which sends batches of denials to Slack. The admin API (\<open>internal/admin\<close>) edits users,
  policies and channels, starts evaluation runs (\<open>internal/eval\<close>) that replay the audit log
  against a policy, and drives a policy-writing agent (\<open>internal/builder\<close>).

  How the model is built. Go strings are lists of bytes (\<open>string\<close>), \<open>int\<close> values are
  \<open>int\<close> where no overflow is in reach and words in \<open>Go_Net\<close>'s addresses; structures are
  records, errors are values of a sum with their texts (\<open>'a result\<close>), panics are states or
  values of their own. The database is a record of tables (\<open>Database\<close>); a statement takes
  the next element of a list of faults, so that the theorems about stores and endpoints hold
  whichever statements fail; a transaction is all or nothing. Goroutines that share state are
  inductive step relations, in which every interleaving of the code's atomic operations is a run:
  the breaker and semaphore, the event stream, the WebSocket relay, the evaluation pool, the
  sharing of the glob cache. Sequential code is functions that compute.

  Theories and sources, in the order of the imports.

  Base. \<open>Prelude\<close> (lemma collections, lists); \<open>Go_Strings\<close> (\<open>strings\<close>,
  \<open>net/url\<close>, \<open>strconv\<close>); \<open>Utf8\<close>; \<open>Go_Net\<close> (host and port strings, addresses,
  networks, decimal texts); \<open>Json\<close>, \<open>Json_Props\<close>, \<open>Json_Decode\<close> (\<open>encoding/json\<close>
  as the code uses it); \<open>Ct_Types\<close> (\<open>pkg/types\<close>); \<open>Http_Header\<close>,
  \<open>Http_Message\<close> (requests, responses, response writers).

  Rules and approval (\<open>internal/approval/manager.go\<close>). \<open>Regexp\<close> gives regular
  expressions their language and a matcher by derivatives, proved to agree; \<open>Glob\<close>
  translates globs, both as the text the code builds and as an expression, with the bounded cache;
  \<open>Static_Rules\<close> normalises, matches and validates; \<open>Host_Boundary\<close>, \<open>Rule_Safety\<close>
  prove which authorities a rule can match; \<open>Approval\<close>, \<open>Approval_Props\<close> the manager.

  Judges (\<open>internal/judge\<close>, \<open>internal/llm\<close>). \<open>Judge_Types\<close> with the interface
  \<open>evaluator_contract\<close>; \<open>Judge_Prompt\<close> and \<open>Judge_Prompt_Props\<close> (the prompts and
  that nothing of a request or a policy leaves its JSON string); \<open>Judge_Llm\<close>; \<open>Llm_Format\<close>,
  \<open>Llm_Adapter\<close>, \<open>Llm_Props\<close> (the two wire formats and the calls under the breaker);
  \<open>Jev\<close>, \<open>Cascade\<close>, \<open>Judge_Props\<close>; \<open>Resilience\<close>
  (\<open>internal/llm/resilience.go\<close>: slots and circuit breaker).

  Proxy (\<open>internal/proxy\<close>). \<open>Lru\<close>, \<open>Rate_Limit\<close> (\<open>lru.go\<close>,
  \<open>ratelimit.go\<close>); \<open>Ssrf\<close> (\<open>ssrf.go\<close>); \<open>Proxy_Auth\<close>,
  \<open>Proxy_Headers\<close>, \<open>Proxy_Body\<close>, \<open>Proxy_Handler\<close>, \<open>Proxy_Tunnel\<close>
  (\<open>handler.go\<close> and its helpers) with \<open>Proxy_Props\<close>, \<open>Proxy_Body_Props\<close>,
  \<open>Tunnel_Props\<close>; \<open>Websocket\<close>, \<open>Websocket_Props\<close> (\<open>websocket.go\<close>);
  \<open>Tls_Manager\<close>, \<open>Tls_Props\<close> (\<open>tls.go\<close>).

  Tables and stores. \<open>Database\<close>, \<open>Db_Kept\<close>; \<open>User_Store\<close>, \<open>Policy_Store\<close>,
  \<open>Eval_Store\<close>, \<open>Audit_Reader\<close>, \<open>Alert_Store\<close> (the SQL of the \<open>PG...\<close> stores,
  three-valued conditions included).

  Around them. \<open>Notifications\<close>, \<open>Notify_Props\<close>; \<open>Alerting\<close>, \<open>Alert_Props\<close>;
  \<open>Eval_Runner\<close>, \<open>Eval_Props\<close>; \<open>Normalizer\<close>, \<open>Traffic\<close>, \<open>Agent_Text\<close>,
  \<open>Agent\<close> (\<open>internal/builder\<close>); \<open>Admin_Http\<close>, \<open>Admin_Users\<close>,
  \<open>Admin_Policies\<close>, \<open>Admin_Evals\<close>, \<open>Admin_Routes\<close> (the endpoints, up to \<open>serve\<close>)
  with \<open>Api_Kept\<close>, \<open>Api_Writes\<close>, \<open>Api_Props\<close>, \<open>Api_Invariants\<close>,
  \<open>Api_Assignments\<close>, \<open>Api_Scope\<close>; \<open>Config\<close>, \<open>Config_Props\<close>
  (\<open>internal/config\<close>); \<open>Gateway\<close>, \<open>Gateway_Props\<close> (\<open>cmd/gateway\<close>,
  \<open>proxy.go\<close>).
\<close>

text \<open>
  What is shown. Fail-closed approval: an allowed request has a policy, no matching deny rule and
  an allow rule, a Jev score or a model's answer behind it, from the manager up to the gateway
  started from a file; only such requests reach an upstream, each unchanged but for exactly the
  hop-by-hop headers, over a connection to an address outside the blocked networks, in a tunnel
  only to the host of its CONNECT; each authenticated request leaves one audit entry that tells
  what happened, a streamed one after its body ends. Rules: a prefix or validated glob rule
  matches only the authorities it names, if the request's authority has no user information and
  no escapes; the evaluation runner and production agree on ASCII methods. Prompts: requests and
  policies stay in their strings. Resilience, rate limit, cache, event stream, relay: invariants
  over all interleavings, and refinement to a recency list and to one bucket per client. Database:
  no request without a role changes a table; managers gain no rights and read only their bots;
  roles stay valid, published policies fixed, drafts unassigned, whichever statements fail.
  Evaluation runs end with their status recorded and grade what they read once.

  The interfaces are locales, each interpreted on the model: \<open>header_ops\<close>,
  \<open>evaluator_contract\<close> (by the model's judge and by the cascade), \<open>recency_cache\<close> (by
  the LRU cache, used by the rate limiter), \<open>limiter\<close>, \<open>table_order\<close> and its extension
  \<open>api_writes\<close>, which turns a preorder on tables that the stores' writes keep into a theorem
  about every request.

  Fuel and termination. All functions terminate. Only three recursions take fuel: decimal digits,
  with the number itself plus one; the JSON parser, with twice the length of the text plus
  two, which \<open>Json_Props\<close> proves enough for every text the code prints; and the loop of the
  policy agent, whose bound is the code's own limit of model calls.

  Parameters. What is not under \<open>src/\<close> is an argument: the HTTP clients, the AWS SDK, the
  resolver and dialer, TLS and the crypto packages, \<open>net.ParseIP\<close> and
  \<open>net.ParseCIDR\<close>, the token bucket of \<open>golang.org/x/time/rate\<close>, the decompressors,
  the MIME reader, the YAML package, the reading of float and date texts, the error texts of the
  JSON package, the clock, and random identifiers. Their documented behaviour is a hypothesis
  where a theorem needs it.

  Simplifications. Case folding knows the ASCII letters and the runes outside ASCII that fold to
  one of them, lower-casing only ASCII. Raw JSON values are kept in canonical text; the
  parser has no nesting limit, replaces invalid surrogates, and decodes a repeated array member
  afresh. A file is written whole or not. Rows with equal sort keys come in the order of the
  table. A statement either fails without effect or has its effect; a lost acknowledgement of a
  commit is modelled only for the claim of denials, where it loses them. Values a column cannot
  hold are faults of the statement. The deadlines of the stores' contexts are such faults.
  Requests of the admin API are served one at a time, and \<open>ServeMux\<close>'s cleaning of paths,
  and 413 in place of 400 for a body that is too large and malformed, are left out. Jobs of an
  evaluation run and messages to several clients interleave as single steps; a call of the judge
  returns; a panic in a job's goroutine, which ends the process, is no step. Logging and metrics
  are left out but for the observers' events.

  Not modelled: the metrics registry, connection pool, migrations and generated identifiers, the
  embedded web interface, signal handling and shutdown, test helpers.
\<close>

end
